(* ===== verification/Prelude.thy ===== *)
theory Prelude
  imports Complex_Main "HOL-Library.Char_ord" "HOL-Library.List_Lexorder" "HOL-Library.Code_Target_Nat"
begin

text \<open>
  Shared vocabulary of the development: the state-and-exception monad every service and
  handler is written in, the two small calculi used to reason about it (success and failure
  inversion, invariant preservation), the string operations of Python the source uses, and
  decimal printing and parsing.

  Strings are lists of code points below 256 (Isabelle's \<^verbatim>\<open>char\<close>), one element per code
  point, so \<^verbatim>\<open>length\<close> counts what Python's \<^verbatim>\<open>len\<close> counts; UTF-8 encoding is written out
  where the source encodes. Instants are integers, microseconds since the epoch in UTC.
\<close>

section \<open>Named collections\<close>

named_theorems pres \<open>introduction rules for invariant preservation\<close>
named_theorems frame \<open>introduction rules for parts of the state a computation leaves alone\<close>
named_theorems raising \<open>introduction rules for the exceptions a computation can raise\<close>
named_theorems mdefs \<open>unfolding equations of the monad\<close>

type_synonym instant = int

section \<open>Computations with state and exceptions\<close>

text \<open>
  A computation takes a state and returns either an exception or a value, together with the
  state reached. A raised exception keeps the state changes made so far, as Python does:
  undoing them is the job of whoever catches the exception (the session rollback).
\<close>

type_synonym ('s, 'e, 'a) comp = "'s \<Rightarrow> ('e + 'a) \<times> 's"

definition returnM :: "'a \<Rightarrow> ('s, 'e, 'a) comp" where
  "returnM x s = (Inr x, s)"

definition raiseM :: "'e \<Rightarrow> ('s, 'e, 'a) comp" where
  "raiseM e s = (Inl e, s)"

definition bindM :: "('s, 'e, 'a) comp \<Rightarrow> ('a \<Rightarrow> ('s, 'e, 'b) comp) \<Rightarrow> ('s, 'e, 'b) comp" where
  "bindM m f s = (case m s of (Inl e, t) \<Rightarrow> (Inl e, t) | (Inr x, t) \<Rightarrow> f x t)"

definition catchM :: "('s, 'e, 'a) comp \<Rightarrow> ('e \<Rightarrow> ('s, 'f, 'a) comp) \<Rightarrow> ('s, 'f, 'a) comp" where
  "catchM m h s = (case m s of (Inl e, t) \<Rightarrow> h e t | (Inr x, t) \<Rightarrow> (Inr x, t))"

definition getM :: "('s \<Rightarrow> 'a) \<Rightarrow> ('s, 'e, 'a) comp" where
  "getM f s = (Inr (f s), s)"

definition modifyM :: "('s \<Rightarrow> 's) \<Rightarrow> ('s, 'e, unit) comp" where
  "modifyM f s = (Inr (), f s)"

definition whenM :: "bool \<Rightarrow> ('s, 'e, unit) comp \<Rightarrow> ('s, 'e, unit) comp" where
  "whenM b m = (if b then m else returnM ())"

fun foreachM :: "'x list \<Rightarrow> ('x \<Rightarrow> ('s, 'e, unit) comp) \<Rightarrow> ('s, 'e, unit) comp" where
  "foreachM [] f = returnM ()"
| "foreachM (x # xs) f = bindM (f x) (\<lambda>_. foreachM xs f)"

fun mapM :: "('x \<Rightarrow> ('s, 'e, 'y) comp) \<Rightarrow> 'x list \<Rightarrow> ('s, 'e, 'y list) comp" where
  "mapM f [] = returnM []"
| "mapM f (x # xs) = bindM (f x) (\<lambda>y. bindM (mapM f xs) (\<lambda>ys. returnM (y # ys)))"

text \<open>Running a computation on a part of the state, given how to read and write that part.\<close>

definition zoomM :: "('s \<Rightarrow> 't) \<Rightarrow> ('t \<Rightarrow> 's \<Rightarrow> 's) \<Rightarrow> ('t, 'e, 'a) comp \<Rightarrow> ('s, 'e, 'a) comp" where
  "zoomM rd wr m s = (case m (rd s) of (r, t) \<Rightarrow> (r, wr t s))"

text \<open>The value of an optional result, or the exception raised in its absence.\<close>

definition requireM :: "'e \<Rightarrow> 'a option \<Rightarrow> ('s, 'e, 'a) comp" where
  "requireM e x = (case x of None \<Rightarrow> raiseM e | Some v \<Rightarrow> returnM v)"

lemmas [mdefs] = returnM_def raiseM_def bindM_def catchM_def getM_def modifyM_def whenM_def
  zoomM_def requireM_def

lemma monad_apply [simp]:
  "returnM x s = (Inr x, s)"
  "raiseM e s = (Inl e, s)"
  "getM f s = (Inr (f s), s)"
  "modifyM g s = (Inr (), g s)"
  by (simp_all add: mdefs)

lemma whenM_apply [simp]: "whenM True m = m" "whenM False m = returnM ()"
  by (simp_all add: whenM_def)

lemma requireM_apply [simp]:
  "requireM e (Some v) = returnM v" "requireM e None = raiseM e"
  by (simp_all add: requireM_def)

lemma bindM_simps [simp]:
  "bindM (returnM x) f = f x"
  "bindM (raiseM e) f = raiseM e"
  "bindM (getM g) f s = f (g s) s"
  "bindM (modifyM h) f' s = f' () (h s)"
  "bindM (Pair (Inr x)) f = f x"
  "bindM (Pair (Inl e)) f = Pair (Inl e)"
  by (simp_all add: bindM_def fun_eq_iff)

lemma bindM_assoc: "bindM (bindM m f) g = bindM m (\<lambda>x. bindM (f x) g)"
  by (auto simp: bindM_def fun_eq_iff split: prod.splits sum.splits)

lemma bindM_Inr: "m s = (Inr x, t) \<Longrightarrow> bindM m f s = f x t"
  by (simp add: bindM_def)

lemma bindM_Inl: "m s = (Inl e, t) \<Longrightarrow> bindM m f s = (Inl e, t)"
  by (simp add: bindM_def)

lemma bindM_eq_Inr_iff:
  "bindM m f s = (Inr y, u) \<longleftrightarrow> (\<exists>x t. m s = (Inr x, t) \<and> f x t = (Inr y, u))"
  by (auto simp: bindM_def split: prod.splits sum.splits)

lemma bindM_eq_Inl_iff:
  "bindM m f s = (Inl e, u) \<longleftrightarrow>
     m s = (Inl e, u) \<or> (\<exists>x t. m s = (Inr x, t) \<and> f x t = (Inl e, u))"
  by (auto simp: bindM_def split: prod.splits sum.splits)

lemma requireM_eq_Inr_iff: "requireM e x s = (Inr v, t) \<longleftrightarrow> x = Some v \<and> t = s"
  by (auto simp: mdefs split: option.splits)

lemma requireM_eq_Inl_iff: "requireM e x s = (Inl e', t) \<longleftrightarrow> x = None \<and> e' = e \<and> t = s"
  by (auto simp: mdefs split: option.splits)

lemma whenM_eq_Inr_iff: "whenM b m s = (Inr y, t) \<longleftrightarrow> (if b then m s = (Inr y, t) else t = s)"
  by (auto simp: mdefs)

lemma zoomM_eq_Inr_iff:
  "zoomM rd wr m s = (Inr y, u) \<longleftrightarrow> (\<exists>t. m (rd s) = (Inr y, t) \<and> u = wr t s)"
  by (auto simp: zoomM_def split: prod.splits)

lemma zoomM_eq_Inl_iff:
  "zoomM rd wr m s = (Inl e, u) \<longleftrightarrow> (\<exists>t. m (rd s) = (Inl e, t) \<and> u = wr t s)"
  by (auto simp: zoomM_def split: prod.splits)

lemmas success_iffs =
  bindM_eq_Inr_iff requireM_eq_Inr_iff whenM_eq_Inr_iff zoomM_eq_Inr_iff

lemmas failure_iffs = bindM_eq_Inl_iff requireM_eq_Inl_iff zoomM_eq_Inl_iff

subsection \<open>Preservation of an invariant\<close>

definition preserves :: "('s \<Rightarrow> bool) \<Rightarrow> ('s, 'e, 'a) comp \<Rightarrow> bool" where
  "preserves I m \<longleftrightarrow> (\<forall>s. I s \<longrightarrow> I (snd (m s)))"

lemma preservesI: "(\<And>s. I s \<Longrightarrow> I (snd (m s))) \<Longrightarrow> preserves I m"
  by (simp add: preserves_def)

lemma preservesD: "preserves I m \<Longrightarrow> I s \<Longrightarrow> m s = (r, t) \<Longrightarrow> I t"
  unfolding preserves_def by (metis snd_conv)

lemma preserves_return [pres]: "preserves I (returnM x)"
  by (simp add: preserves_def)

lemma preserves_raise [pres]: "preserves I (raiseM e)"
  by (simp add: preserves_def)

lemma preserves_get [pres]: "preserves I (getM f)"
  by (simp add: preserves_def)

lemma preserves_require [pres]: "preserves I (requireM e x)"
  by (simp add: preserves_def requireM_def split: option.splits)

lemma preserves_bind [pres]:
  assumes "preserves I m" and "\<And>x. preserves I (f x)"
  shows "preserves I (bindM m f)"
proof (rule preservesI)
  fix s assume s: "I s"
  obtain r t where m: "m s = (r, t)" by (cases "m s")
  from assms(1) s m have "I t" by (rule preservesD)
  then show "I (snd (bindM m f s))"
    using assms(2) m by (cases r) (auto simp: bindM_def preserves_def)
qed

lemma preserves_catch [pres]:
  assumes "preserves I m" and "\<And>e. preserves I (h e)"
  shows "preserves I (catchM m h)"
proof (rule preservesI)
  fix s assume s: "I s"
  obtain r t where m: "m s = (r, t)" by (cases "m s")
  from assms(1) s m have "I t" by (rule preservesD)
  then show "I (snd (catchM m h s))"
    using assms(2) m by (cases r) (auto simp: catchM_def preserves_def)
qed

lemma preserves_when [pres]: "(b \<Longrightarrow> preserves I m) \<Longrightarrow> preserves I (whenM b m)"
  by (cases b) (auto intro: pres)

lemma preserves_if [pres]:
  "(b \<Longrightarrow> preserves I m) \<Longrightarrow> (\<not> b \<Longrightarrow> preserves I n) \<Longrightarrow> preserves I (if b then m else n)"
  by simp

lemma preserves_option [pres]:
  "(x = None \<Longrightarrow> preserves I m) \<Longrightarrow> (\<And>v. x = Some v \<Longrightarrow> preserves I (f v)) \<Longrightarrow>
     preserves I (case x of None \<Rightarrow> m | Some v \<Rightarrow> f v)"
  by (cases x) simp_all

lemma preserves_prod [pres]:
  "(\<And>a b. x = (a, b) \<Longrightarrow> preserves I (f a b)) \<Longrightarrow> preserves I (case x of (a, b) \<Rightarrow> f a b)"
  by (cases x) simp

lemma preserves_let [pres]: "(\<And>x. preserves I (f x)) \<Longrightarrow> preserves I (Let v f)"
  by (simp add: Let_def)

lemma preserves_foreach [pres]:
  "(\<And>x. x \<in> set xs \<Longrightarrow> preserves I (f x)) \<Longrightarrow> preserves I (foreachM xs f)"
  by (induction xs) (auto intro: pres)

lemma preserves_modify: "(\<And>s. I s \<Longrightarrow> I (f s)) \<Longrightarrow> preserves I (modifyM f)"
  by (simp add: preserves_def)

lemma preserves_zoom:
  assumes "preserves J m" and "\<And>s. I s \<Longrightarrow> J (rd s)" and "\<And>s t. I s \<Longrightarrow> J t \<Longrightarrow> I (wr t s)"
  shows "preserves I (zoomM rd wr m)"
proof (rule preservesI)
  fix s assume s: "I s"
  obtain r t where m: "m (rd s) = (r, t)" by (cases "m (rd s)")
  from assms(1) assms(2) [OF s] m have "J t" by (rule preservesD)
  then show "I (snd (zoomM rd wr m s))"
    using assms(3) [OF s] m by (simp add: zoomM_def)
qed

text \<open>A computation that never changes the state keeps every predicate on it.\<close>

definition read_only :: "('s, 'e, 'a) comp \<Rightarrow> bool" where
  "read_only m \<longleftrightarrow> (\<forall>s. snd (m s) = s)"

lemma read_only_preserves: "read_only m \<Longrightarrow> preserves I m"
  by (simp add: read_only_def preserves_def)

lemma read_only_state: "read_only m \<Longrightarrow> m s = (r, t) \<Longrightarrow> t = s"
  unfolding read_only_def by (metis snd_conv)

subsection \<open>Parts of the state a computation leaves alone\<close>

definition keeps :: "('s \<Rightarrow> 'x) \<Rightarrow> ('s, 'e, 'a) comp \<Rightarrow> bool" where
  "keeps F m \<longleftrightarrow> (\<forall>s. F (snd (m s)) = F s)"

lemma keepsI: "(\<And>s. F (snd (m s)) = F s) \<Longrightarrow> keeps F m"
  by (simp add: keeps_def)

lemma keepsD: "keeps F m \<Longrightarrow> m s = (r, t) \<Longrightarrow> F t = F s"
  unfolding keeps_def by (metis snd_conv)

lemma read_only_keeps: "read_only m \<Longrightarrow> keeps F m"
  by (simp add: read_only_def keeps_def)

lemma keeps_basic [frame]:
  "keeps F (returnM x)" "keeps F (raiseM e)" "keeps F (getM g)" "keeps F (requireM e v)"
  by (simp_all add: keeps_def requireM_def split: option.splits)

lemma keeps_bind [frame]: "keeps F m \<Longrightarrow> (\<And>x. keeps F (f x)) \<Longrightarrow> keeps F (bindM m f)"
  unfolding keeps_def bindM_def by (auto split: prod.splits sum.splits) (metis snd_conv)+

lemma keeps_catch [frame]: "keeps F m \<Longrightarrow> (\<And>e. keeps F (h e)) \<Longrightarrow> keeps F (catchM m h)"
  unfolding keeps_def catchM_def by (auto split: prod.splits sum.splits) (metis snd_conv)+

lemma keeps_cases [frame]:
  "(b \<Longrightarrow> keeps F k) \<Longrightarrow> keeps F (whenM b k)"
  "(b \<Longrightarrow> keeps F m) \<Longrightarrow> (\<not> b \<Longrightarrow> keeps F n) \<Longrightarrow> keeps F (if b then m else n)"
  "(x = None \<Longrightarrow> keeps F l) \<Longrightarrow> (\<And>v. x = Some v \<Longrightarrow> keeps F (g v)) \<Longrightarrow>
     keeps F (case x of None \<Rightarrow> l | Some v \<Rightarrow> g v)"
  "(\<And>a b. y = (a, b) \<Longrightarrow> keeps F (h a b)) \<Longrightarrow> keeps F (case y of (a, b) \<Rightarrow> h a b)"
  by (cases b; simp add: keeps_basic) (auto split: option.split prod.split)

lemma keeps_foreach [frame]:
  "(\<And>x. x \<in> set xs \<Longrightarrow> keeps F (f x)) \<Longrightarrow> keeps F (foreachM xs f)"
  by (induction xs) (auto intro: frame)

lemma keeps_mapM [frame]: "(\<And>x. x \<in> set xs \<Longrightarrow> keeps F (f x)) \<Longrightarrow> keeps F (mapM f xs)"
  by (induction xs) (auto intro!: frame)

lemma keeps_modify: "(\<And>s. F (f s) = F s) \<Longrightarrow> keeps F (modifyM f)"
  by (simp add: keeps_def)

lemma keeps_zoom: "(\<And>s t. F (wr t s) = F s) \<Longrightarrow> keeps F (zoomM rd wr m)"
  by (auto simp: keeps_def zoomM_def split: prod.splits)

lemma keeps_zoom_part:
  "keeps G m \<Longrightarrow> (\<And>s. F s = G (rd s)) \<Longrightarrow> (\<And>s t. rd (wr t s) = t) \<Longrightarrow> keeps F (zoomM rd wr m)"
  by (auto simp: keeps_def zoomM_def split: prod.splits) (metis snd_conv)

subsection \<open>Exceptions a computation can raise\<close>

definition raises :: "('e \<Rightarrow> bool) \<Rightarrow> ('s, 'e, 'a) comp \<Rightarrow> bool" where
  "raises Q m \<longleftrightarrow> (\<forall>s e t. m s = (Inl e, t) \<longrightarrow> Q e)"

lemma raisesI: "(\<And>s e t. m s = (Inl e, t) \<Longrightarrow> Q e) \<Longrightarrow> raises Q m"
  by (simp add: raises_def)

lemma raisesD: "raises Q m \<Longrightarrow> m s = (Inl e, t) \<Longrightarrow> Q e"
  unfolding raises_def by blast

lemma raises_basic [raising]:
  "raises Q (returnM x)" "raises Q (getM g)" "raises Q (modifyM h)"
  "Q e \<Longrightarrow> raises Q (raiseM e)" "Q e \<Longrightarrow> raises Q (requireM e v)"
  by (simp_all add: raises_def requireM_def split: option.splits)

lemma raises_bind [raising]: "raises Q m \<Longrightarrow> (\<And>x. raises Q (f x)) \<Longrightarrow> raises Q (bindM m f)"
  unfolding raises_def bindM_def by (auto split: prod.splits sum.splits)

lemma raises_when [raising]: "raises Q k \<Longrightarrow> raises Q (whenM b k)"
  by (cases b) (simp_all add: raises_basic)

lemma raises_if [raising]:
  "(b \<Longrightarrow> raises Q m) \<Longrightarrow> (\<not> b \<Longrightarrow> raises Q n) \<Longrightarrow> raises Q (if b then m else n)"
  by simp

lemma raises_option [raising]:
  "raises Q l \<Longrightarrow> (\<And>v. raises Q (g v)) \<Longrightarrow> raises Q (case x of None \<Rightarrow> l | Some v \<Rightarrow> g v)"
  by (cases x) simp_all

lemma raises_zoom [raising]: "raises Q m \<Longrightarrow> raises Q (zoomM rd wr m)"
  unfolding raises_def zoomM_def by (auto split: prod.splits)

lemma foreachM_append:
  "foreachM (xs @ ys) f = bindM (foreachM xs f) (\<lambda>_. foreachM ys f)"
  by (induction xs) (simp_all add: bindM_assoc)

section \<open>Python strings\<close>

definition is_space :: "char \<Rightarrow> bool" where
  "is_space c = (let n = of_char c :: nat in
     (9 \<le> n \<and> n \<le> 13) \<or> (28 \<le> n \<and> n \<le> 32) \<or> n = 133 \<or> n = 160)"

definition strip :: "string \<Rightarrow> string" where
  "strip s = rev (dropWhile is_space (rev (dropWhile is_space s)))"

definition rstrip_char :: "char \<Rightarrow> string \<Rightarrow> string" where
  "rstrip_char c s = rev (dropWhile (\<lambda>x. x = c) (rev s))"

definition lower_char :: "char \<Rightarrow> char" where
  "lower_char c = (let n = of_char c :: nat in
     if (65 \<le> n \<and> n \<le> 90) \<or> (192 \<le> n \<and> n \<le> 222 \<and> n \<noteq> 215) then char_of (n + 32) else c)"

definition lower :: "string \<Rightarrow> string" where
  "lower s = map lower_char s"

definition starts_with :: "string \<Rightarrow> string \<Rightarrow> bool" where
  "starts_with s p = (take (length p) s = p)"

fun split_on :: "char \<Rightarrow> string \<Rightarrow> string list" where
  "split_on c [] = [[]]"
| "split_on c (x # xs) =
     (if x = c then [] # split_on c xs
      else (case split_on c xs of [] \<Rightarrow> [[x]] | y # ys \<Rightarrow> (x # y) # ys))"

fun join :: "string \<Rightarrow> string list \<Rightarrow> string" where
  "join sep [] = ''''"
| "join sep [x] = x"
| "join sep (x # y # ys) = x @ sep @ join sep (y # ys)"

lemma split_on_not_empty [simp]: "split_on c s \<noteq> []"
  by (cases s) (auto split: list.splits)

lemma split_on_no_sep: "c \<notin> set s \<Longrightarrow> split_on c s = [s]"
  by (induction s) auto

lemma split_on_append_sep: "c \<notin> set p \<Longrightarrow> split_on c (p @ c # s) = p # split_on c s"
  by (induction p) auto

lemma split_join:
  "ps \<noteq> [] \<Longrightarrow> \<forall>p \<in> set ps. c \<notin> set p \<Longrightarrow> split_on c (join [c] ps) = ps"
proof (induction ps rule: induct_list012)
  case (3 p q ps)
  then show ?case by (simp add: split_on_append_sep)
qed (simp_all add: split_on_no_sep)

lemma starts_with_append [simp]: "starts_with (p @ s) p"
  by (simp add: starts_with_def)

lemma lower_char_space: "is_space (lower_char c) = is_space c"
  by (simp add: is_space_def lower_char_def Let_def)

lemma strip_lower_no_outer_space:
  "strip s = s \<longleftrightarrow> (s = [] \<or> (\<not> is_space (hd s) \<and> \<not> is_space (last s)))"
proof
  assume *: "strip s = s"
  show "s = [] \<or> (\<not> is_space (hd s) \<and> \<not> is_space (last s))"
  proof (cases "s = []")
    case False
    have "length (dropWhile is_space (rev (dropWhile is_space s))) = length s"
      using * by (metis strip_def length_rev)
    then have l: "length s \<le> length (dropWhile is_space s)"
      using length_dropWhile_le [of is_space "rev (dropWhile is_space s)"] by simp
    then have d: "dropWhile is_space s = s"
      by (metis append_take_drop_id dropWhile_eq_drop length_drop diff_diff_cancel
          append_eq_append_conv append_Nil le_antisym length_dropWhile_le takeWhile_dropWhile_id)
    then have r: "dropWhile is_space (rev s) = rev s"
      using * by (metis strip_def rev_rev_ident)
    have "\<not> is_space (hd s)"
      using d False by (metis hd_dropWhile)
    moreover have "\<not> is_space (last s)"
      using r False by (metis hd_dropWhile hd_rev rev_is_Nil_conv)
    ultimately show ?thesis by simp
  qed simp
next
  assume *: "s = [] \<or> (\<not> is_space (hd s) \<and> \<not> is_space (last s))"
  then show "strip s = s"
  proof (cases "s = []")
    case False
    with * have "dropWhile is_space s = s" and "dropWhile is_space (rev s) = rev s"
      by (metis dropWhile.simps(2) list.exhaust_sel,
          metis False dropWhile.simps(2) hd_rev list.exhaust_sel rev_is_Nil_conv)
    then show ?thesis by (simp add: strip_def)
  qed (simp add: strip_def)
qed

section \<open>Decimal integers\<close>

definition digit_char :: "nat \<Rightarrow> char" where
  "digit_char d = char_of (48 + d)"

definition is_digit :: "char \<Rightarrow> bool" where
  "is_digit c = (let n = of_char c :: nat in 48 \<le> n \<and> n \<le> 57)"

definition digit_val :: "char \<Rightarrow> nat" where
  "digit_val c = of_char c - 48"

fun nat_str :: "nat \<Rightarrow> string" where
  "nat_str n = (if n < 10 then [digit_char n] else nat_str (n div 10) @ [digit_char (n mod 10)])"

declare nat_str.simps [simp del]

definition int_str :: "int \<Rightarrow> string" where
  "int_str i = (if i < 0 then CHR ''-'' # nat_str (nat (- i)) else nat_str (nat i))"

definition digits_val :: "string \<Rightarrow> nat" where
  "digits_val s = foldl (\<lambda>a c. 10 * a + digit_val c) 0 s"

text \<open>The decimal value of a non-empty string of ASCII digits.\<close>

definition parse_nat :: "string \<Rightarrow> nat option" where
  "parse_nat s = (if s \<noteq> [] \<and> list_all is_digit s then Some (digits_val s) else None)"

lemma digit_char_digit: "d < 10 \<Longrightarrow> is_digit (digit_char d) \<and> digit_val (digit_char d) = d"
  by (simp add: is_digit_def digit_val_def digit_char_def Let_def)

lemma nat_str_digits: "list_all is_digit (nat_str n)"
proof (induction n rule: nat_str.induct)
  case (1 n)
  show ?case
    by (cases "n < 10") (use 1 in \<open>auto simp: nat_str.simps [of n] digit_char_digit\<close>)
qed

lemma nat_str_not_empty [simp]: "nat_str n \<noteq> []"
  by (subst nat_str.simps) simp

lemma digits_val_nat_str: "digits_val (nat_str n) = n"
proof (induction n rule: nat_str.induct)
  case (1 n)
  show ?case
    by (cases "n < 10")
      (use 1 in \<open>auto simp: nat_str.simps [of n] digits_val_def digit_char_digit\<close>)
qed

lemma parse_nat_str [simp]: "parse_nat (nat_str n) = Some n"
  by (simp add: parse_nat_def nat_str_digits digits_val_nat_str)

lemma nat_str_inj: "nat_str m = nat_str n \<longleftrightarrow> m = n"
  by (metis parse_nat_str option.inject)

lemma nat_str_no_char: "\<not> is_digit c \<Longrightarrow> c \<notin> set (nat_str n)"
  using nat_str_digits [of n] by (auto simp: list_all_iff)

lemma int_str_inj: "int_str i = int_str j \<longleftrightarrow> i = j"
proof -
  have m: "CHR ''-'' \<notin> set (nat_str n)" for n
    by (rule nat_str_no_char) (simp add: is_digit_def)
  have h: "nat_str n \<noteq> CHR ''-'' # s" for n s
    using m [of n] by auto
  show ?thesis
    using h by (auto simp: int_str_def nat_str_inj) (metis h)+
qed

lemma int_str_no_char: "\<not> is_digit c \<Longrightarrow> c \<noteq> CHR ''-'' \<Longrightarrow> c \<notin> set (int_str i)"
  by (auto simp: int_str_def dest: nat_str_no_char)

text \<open>
  Python's \<^verbatim>\<open>int(s)\<close>: surrounding white space, an optional sign, then digits in which single
  underscores may separate groups.
\<close>

definition parse_groups :: "string \<Rightarrow> nat option" where
  "parse_groups s = (let ps = split_on CHR ''_'' s in
     if list_all (\<lambda>p. p \<noteq> [] \<and> list_all is_digit p) ps then Some (digits_val (concat ps)) else None)"

definition parse_int :: "string \<Rightarrow> int option" where
  "parse_int s0 = (let s = strip s0 in
     case s of
       [] \<Rightarrow> None
     | c # cs \<Rightarrow>
         if c = CHR ''-'' then map_option (\<lambda>n. - int n) (parse_groups cs)
         else if c = CHR ''+'' then map_option int (parse_groups cs)
         else map_option int (parse_groups s))"

lemma parse_groups_nat_str [simp]: "parse_groups (nat_str n) = Some n"
proof -
  have "CHR ''_'' \<notin> set (nat_str n)"
    by (rule nat_str_no_char) (simp add: is_digit_def)
  then have "split_on CHR ''_'' (nat_str n) = [nat_str n]"
    by (rule split_on_no_sep)
  then show ?thesis
    by (simp add: parse_groups_def nat_str_digits digits_val_nat_str)
qed

lemma digit_not_space: "is_digit c \<Longrightarrow> \<not> is_space c"
  by (auto simp: is_digit_def is_space_def Let_def)

lemma nat_str_strip: "strip (nat_str n) = nat_str n"
  using nat_str_digits [of n]
  by (auto simp: strip_lower_no_outer_space list_all_iff intro!: digit_not_space)

lemma parse_int_nat_str: "parse_int (nat_str n) = Some (int n)"
proof -
  obtain c cs where c: "nat_str n = c # cs"
    by (cases "nat_str n") auto
  then have "is_digit c"
    using nat_str_digits [of n] by simp
  then have "c \<noteq> CHR ''-''" "c \<noteq> CHR ''+''"
    by (auto simp: is_digit_def)
  then show ?thesis
    using c parse_groups_nat_str [of n] nat_str_strip [of n] by (simp add: parse_int_def)
qed

lemma parse_int_str [simp]: "parse_int (int_str i) = Some i"
proof (cases "i < 0")
  case True
  let ?s = "nat_str (nat (- i))"
  have "\<not> is_space (last (CHR ''-'' # ?s))"
    using nat_str_digits [of "nat (- i)"] by (auto simp: list_all_iff intro!: digit_not_space)
  then have "strip (CHR ''-'' # ?s) = CHR ''-'' # ?s"
    by (subst strip_lower_no_outer_space) (simp add: is_space_def)
  with True show ?thesis by (simp add: int_str_def parse_int_def)
qed (simp add: int_str_def parse_int_nat_str)

section \<open>UTF-8\<close>

text \<open>\<^verbatim>\<open>str.encode("utf-8")\<close> for code points below 256.\<close>

definition utf8_char :: "char \<Rightarrow> string" where
  "utf8_char c = (let n = of_char c :: nat in
     if n < 128 then [c] else [char_of (192 + n div 64), char_of (128 + n mod 64)])"

definition utf8 :: "string \<Rightarrow> string" where
  "utf8 s = concat (map utf8_char s)"

lemma utf8_ascii: "\<forall>c \<in> set s. of_char c < (128::nat) \<Longrightarrow> utf8 s = s"
  by (induction s) (auto simp: utf8_def utf8_char_def Let_def)

lemma utf8_append: "utf8 (s @ t) = utf8 s @ utf8 t"
  by (simp add: utf8_def)

lemma utf8_char_inj_append:
  "utf8_char c @ s = utf8_char d @ t \<longleftrightarrow> c = d \<and> s = t"
proof
  have c: "of_char c < (256::nat)" and d: "of_char d < (256::nat)"
    using nat_of_char_less_256 by auto
  have hi: "of_char (char_of (192 + n div 64) :: char) = 192 + n div 64" if "n < 256" for n :: nat
  proof -
    have "192 + n div 64 < 256"
      using that by linarith
    then show ?thesis by simp
  qed
  assume eq: "utf8_char c @ s = utf8_char d @ t"
  consider "of_char c < (128::nat)" "of_char d < (128::nat)"
    | "of_char c < (128::nat)" "\<not> of_char d < (128::nat)"
    | "\<not> of_char c < (128::nat)" "of_char d < (128::nat)"
    | "\<not> of_char c < (128::nat)" "\<not> of_char d < (128::nat)" by blast
  then show "c = d \<and> s = t"
  proof cases
    case 1
    with eq show ?thesis by (simp add: utf8_char_def Let_def)
  next
    case 2
    with eq have "c = char_of (192 + of_char d div 64 :: nat)"
      by (simp add: utf8_char_def Let_def)
    then have "of_char c = (192 + of_char d div 64 :: nat)"
      using hi [OF d] by simp
    with 2 show ?thesis by simp
  next
    case 3
    with eq have "d = char_of (192 + of_char c div 64 :: nat)"
      by (simp add: utf8_char_def Let_def)
    then have "of_char d = (192 + of_char c div 64 :: nat)"
      using hi [OF c] by simp
    with 3 show ?thesis by simp
  next
    case 4
    with eq have e: "char_of (192 + of_char c div 64 :: nat) = (char_of (192 + of_char d div 64 :: nat) :: char)"
      "char_of (128 + of_char c mod 64 :: nat) = (char_of (128 + of_char d mod 64 :: nat) :: char)"
      "s = t"
      by (simp_all add: utf8_char_def Let_def)
    have "(of_char c div 64 :: nat) = of_char d div 64"
      using arg_cong [OF e(1), of "of_char :: char \<Rightarrow> nat"] hi [OF c] hi [OF d] by simp
    moreover have "(of_char c mod 64 :: nat) = of_char d mod 64"
      using arg_cong [OF e(2), of "of_char :: char \<Rightarrow> nat"] by simp
    ultimately have "(of_char c :: nat) = of_char d"
      by (metis div_mult_mod_eq)
    with e(3) show ?thesis by simp
  qed
qed simp

lemma utf8_inj: "utf8 s = utf8 t \<longleftrightarrow> s = t"
proof (induction s arbitrary: t)
  case Nil
  show ?case by (cases t) (auto simp: utf8_def utf8_char_def Let_def)
next
  case (Cons c s)
  show ?case
  proof (cases t)
    case Nil
    then show ?thesis by (auto simp: utf8_def utf8_char_def Let_def)
  next
    case t: (Cons d t')
    then show ?thesis
      using utf8_char_inj_append [of c "utf8 s" d "utf8 t'"] Cons.IH [of t']
      by (simp add: utf8_def)
  qed
qed

section \<open>Lists\<close>

lemma find_Some_in: "find P xs = Some x \<Longrightarrow> x \<in> set xs \<and> P x"
  by (induction xs) (auto split: if_splits)

lemma find_distinct:
  "distinct (map f xs) \<Longrightarrow> x \<in> set xs \<Longrightarrow> find (\<lambda>r. f r = f x) xs = Some x"
  by (induction xs) (auto simp: rev_image_eqI)

lemma find_append: "find P (xs @ ys) = (case find P xs of None \<Rightarrow> find P ys | Some x \<Rightarrow> Some x)"
  by (induction xs) auto

end
