(* ===== verification/Errors.thy ===== *)
theory Errors
  imports Prelude
begin

text \<open>
  The exceptions of the backend and the responses they become
  (\<^verbatim>\<open>backend/app/core/errors.py\<close>). An application error carries its class, which fixes the
  HTTP status, its message and its error code; everything else a handler can raise is either
  a framework exception or an uncaught Python exception, which the catch-all handler turns
  into a 500.
\<close>

datatype app_error_class =
    NotFoundError | ConflictError | ValidationAppError | PermissionDeniedError
  | UnauthorizedError | LimitExceededError | ExternalServiceError

fun class_status :: "app_error_class \<Rightarrow> nat" where
  "class_status NotFoundError = 404"
| "class_status ConflictError = 409"
| "class_status ValidationAppError = 422"
| "class_status PermissionDeniedError = 403"
| "class_status UnauthorizedError = 401"
| "class_status LimitExceededError = 409"
| "class_status ExternalServiceError = 502"

fun class_default_code :: "app_error_class \<Rightarrow> string" where
  "class_default_code NotFoundError = ''not_found''"
| "class_default_code ConflictError = ''conflict''"
| "class_default_code ValidationAppError = ''validation_error''"
| "class_default_code PermissionDeniedError = ''permission_denied''"
| "class_default_code UnauthorizedError = ''unauthorized''"
| "class_default_code LimitExceededError = ''limit_exceeded''"
| "class_default_code ExternalServiceError = ''external_service_error''"

text \<open>
  What can escape from a service: an \<^verbatim>\<open>AppError\<close> (class, message, code), a violated unique
  or foreign-key constraint, or another Python exception named by its class.
\<close>

datatype exn =
    AppError app_error_class string string
  | IntegrityError
  | PyError string

text \<open>\<^verbatim>\<open>AppError.__init__\<close>: an empty or missing code leaves the class's own code in place.\<close>

definition app_error :: "app_error_class \<Rightarrow> string \<Rightarrow> string option \<Rightarrow> exn" where
  "app_error cls msg code =
     AppError cls msg (case code of None \<Rightarrow> class_default_code cls
                                  | Some c \<Rightarrow> if c = '''' then class_default_code cls else c)"

text \<open>What the exception handlers registered on the application receive.\<close>

datatype raised =
    RaisedApp exn
  | RaisedValidation string          \<comment> \<open>\<^verbatim>\<open>RequestValidationError\<close> with its rendered \<^verbatim>\<open>errors()\<close>\<close>
  | RaisedHttp nat string            \<comment> \<open>Starlette's \<^verbatim>\<open>HTTPException\<close>\<close>

record error_body =
  err_code :: string
  err_message :: string
  err_details :: "string option"
  err_request_id :: string

record error_response =
  resp_status :: nat
  resp_body :: error_body
  resp_x_error_code :: string

text \<open>
  \<^verbatim>\<open>_request_id_for\<close>: the identifier on \<^verbatim>\<open>request.state\<close> when there is one and it is not
  empty, else the context variable (whose default is ``-'').
\<close>

definition request_id_for :: "string option \<Rightarrow> string \<Rightarrow> string" where
  "request_id_for state_id ctx = (case state_id of None \<Rightarrow> ctx | Some i \<Rightarrow> if i = '''' then ctx else i)"

definition error_body_of ::
  "string option \<Rightarrow> string \<Rightarrow> string \<Rightarrow> string \<Rightarrow> string option \<Rightarrow> error_body" where
  "error_body_of state_id ctx code msg details =
     \<lparr>err_code = code, err_message = msg, err_details = details,
      err_request_id = request_id_for state_id ctx\<rparr>"

text \<open>The four registered handlers, chosen by the class of the exception.\<close>

fun handle_exception :: "string option \<Rightarrow> string \<Rightarrow> raised \<Rightarrow> error_response" where
  "handle_exception sid ctx (RaisedApp (AppError cls msg code)) =
     \<lparr>resp_status = class_status cls, resp_body = error_body_of sid ctx code msg None,
      resp_x_error_code = code\<rparr>"
| "handle_exception sid ctx (RaisedValidation errs) =
     \<lparr>resp_status = 422,
      resp_body = error_body_of sid ctx ''validation_error'' ''Invalid request'' (Some errs),
      resp_x_error_code = ''validation_error''\<rparr>"
| "handle_exception sid ctx (RaisedHttp st detail) =
     \<lparr>resp_status = st, resp_body = error_body_of sid ctx ''http_error'' detail None,
      resp_x_error_code = ''http_error''\<rparr>"
| "handle_exception sid ctx (RaisedApp _) =
     \<lparr>resp_status = 500,
      resp_body = error_body_of sid ctx ''internal_error'' ''Internal server error'' None,
      resp_x_error_code = ''internal_error''\<rparr>"

lemma handle_app_status:
  "resp_status (handle_exception sid ctx (RaisedApp e)) =
     (case e of AppError cls _ _ \<Rightarrow> class_status cls | _ \<Rightarrow> 500)"
  by (cases e) simp_all

lemma handle_exception_header_matches_body:
  "resp_x_error_code (handle_exception sid ctx r) = err_code (resp_body (handle_exception sid ctx r))"
  by (induction sid ctx r rule: handle_exception.induct) (simp_all add: error_body_of_def)

text \<open>
  An unexpected exception never leaks its class or text: the response is the same whatever
  was raised.
\<close>

lemma unexpected_error_opaque:
  "handle_exception sid ctx (RaisedApp (PyError a)) = handle_exception sid ctx (RaisedApp IntegrityError)"
  by simp

end
