(* ===== verification/Tables.thy ===== *)
theory Tables
  imports Errors
begin

text \<open>
  Database tables and the generic repository (\<^verbatim>\<open>backend/app/repositories/base.py\<close>).
  A table is the list of its rows in insertion order and the next primary key. Every model
  has an integer primary key \<^verbatim>\<open>rid\<close> (the attribute \<^verbatim>\<open>id\<close>); most also mix in
  \<^verbatim>\<open>created_at\<close> (\<^verbatim>\<open>TimestampMixin\<close> of \<^verbatim>\<open>backend/app/db/base.py\<close>). Records are extensible, so
  the repository is written once for every extension, as \<^verbatim>\<open>BaseRepository[ModelT: Base]\<close> is.

  A query without \<^verbatim>\<open>ORDER BY\<close> returns its rows in insertion order here; with one, ties keep
  insertion order.
\<close>

section \<open>Rows and tables\<close>

record entity =
  rid :: int

record stamped = entity +
  created_at :: instant

record 'r table =
  rows :: "'r list"
  next_id :: int

type_synonym 'z rows = "'z entity_scheme table"

definition empty_table :: "'r table" where
  "empty_table = \<lparr>rows = [], next_id = 1\<rparr>"

definition wf_table :: "'z rows \<Rightarrow> bool" where
  "wf_table t \<longleftrightarrow> distinct (map rid (rows t)) \<and> list_all (\<lambda>r. rid r < next_id t) (rows t)"

definition repo_get :: "int \<Rightarrow> 'z rows \<Rightarrow> 'z entity_scheme option" where
  "repo_get i t = find (\<lambda>r. rid r = i) (rows t)"

definition repo_select :: "('r \<Rightarrow> bool) \<Rightarrow> 'r table \<Rightarrow> 'r list" where
  "repo_select P t = filter P (rows t)"

text \<open>\<^verbatim>\<open>list\<close> with its equality filters as one predicate, then \<^verbatim>\<open>OFFSET\<close> and \<^verbatim>\<open>LIMIT\<close>.\<close>

definition repo_list :: "nat \<Rightarrow> nat \<Rightarrow> ('r \<Rightarrow> bool) \<Rightarrow> 'r table \<Rightarrow> 'r list" where
  "repo_list offset limit P t = take limit (drop offset (filter P (rows t)))"

definition repo_count :: "('r \<Rightarrow> bool) \<Rightarrow> 'r table \<Rightarrow> int" where
  "repo_count P t = int (length (filter P (rows t)))"

text \<open>
  \<^verbatim>\<open>add\<close> followed by \<^verbatim>\<open>flush\<close>: the row gets the next key and is inserted, unless a unique
  constraint of its table forbids it next to a row that is already there.
\<close>

definition repo_add ::
  "('z entity_scheme \<Rightarrow> 'z entity_scheme \<Rightarrow> bool) \<Rightarrow> 'z entity_scheme
     \<Rightarrow> ('z rows, exn, 'z entity_scheme) comp" where
  "repo_add conflict r t =
     (let r' = r\<lparr>rid := next_id t\<rparr> in
      if list_ex (\<lambda>x. conflict x r') (rows t) then (Inl IntegrityError, t)
      else (Inr r', t\<lparr>rows := rows t @ [r'], next_id := next_id t + 1\<rparr>))"

definition repo_delete :: "int \<Rightarrow> 'z rows \<Rightarrow> 'z rows" where
  "repo_delete i t = t\<lparr>rows := filter (\<lambda>r. rid r \<noteq> i) (rows t)\<rparr>"

text \<open>
  Assignments to attributes of a persistent object: in the session's view they are visible to
  every later read of that row.
\<close>

definition repo_update ::
  "int \<Rightarrow> ('z entity_scheme \<Rightarrow> 'z entity_scheme) \<Rightarrow> 'z rows \<Rightarrow> 'z rows" where
  "repo_update i f t = t\<lparr>rows := map (\<lambda>r. if rid r = i then f r else r) (rows t)\<rparr>"

text \<open>A bulk \<^verbatim>\<open>UPDATE ... WHERE\<close>.\<close>

definition repo_update_where :: "('r \<Rightarrow> bool) \<Rightarrow> ('r \<Rightarrow> 'r) \<Rightarrow> 'r table \<Rightarrow> 'r table" where
  "repo_update_where P f t = t\<lparr>rows := map (\<lambda>r. if P r then f r else r) (rows t)\<rparr>"

text \<open>The first row in descending order of a key, rows with equal keys in insertion order.\<close>

fun first_max :: "('r \<Rightarrow> 'k::linorder) \<Rightarrow> 'r list \<Rightarrow> 'r option" where
  "first_max k [] = None"
| "first_max k (x # xs) =
     (case first_max k xs of None \<Rightarrow> Some x | Some y \<Rightarrow> if k x < k y then Some y else Some x)"

text \<open>
  \<^verbatim>\<open>result.scalar_one_or_none()\<close>: \<^verbatim>\<open>None\<close> without a row, the row if there is one, and an
  exception when there are more. \<^verbatim>\<open>repo_one\<close> is the query followed by it.
\<close>

definition scalar_one_or_none :: "'r list \<Rightarrow> ('s, exn, 'r option) comp" where
  "scalar_one_or_none xs =
     (case xs of
        [] \<Rightarrow> returnM None
      | [x] \<Rightarrow> returnM (Some x)
      | _ \<Rightarrow> raiseM (PyError ''MultipleResultsFound''))"

definition repo_one :: "('r \<Rightarrow> bool) \<Rightarrow> ('r table, exn, 'r option) comp" where
  "repo_one P t = scalar_one_or_none (repo_select P t) t"

text \<open>No two rows of a table are in conflict.\<close>

definition table_unique :: "('r \<Rightarrow> 'r \<Rightarrow> bool) \<Rightarrow> 'r table \<Rightarrow> bool" where
  "table_unique c t = sorted_wrt (\<lambda>a b. \<not> c a b) (rows t)"

section \<open>The repository contract\<close>

text \<open>
  What the services rely on of a repository, whatever the model: a row just added is read
  back under its fresh key, an update changes exactly one row, a deletion removes exactly one,
  and the table stays well formed.
\<close>

locale repository =
  fixes wf :: "'t \<Rightarrow> bool"
    and get :: "int \<Rightarrow> 't \<Rightarrow> 'r option"
    and add :: "'r \<Rightarrow> 't \<Rightarrow> (exn + 'r) \<times> 't"
    and upd :: "int \<Rightarrow> ('r \<Rightarrow> 'r) \<Rightarrow> 't \<Rightarrow> 't"
    and del :: "int \<Rightarrow> 't \<Rightarrow> 't"
    and key :: "'r \<Rightarrow> int"
  assumes get_key: "get i t = Some r \<Longrightarrow> key r = i"
    and add_wf: "wf t \<Longrightarrow> add r t = (res, t') \<Longrightarrow> wf t'"
    and add_fail: "add r t = (Inl e, t') \<Longrightarrow> t' = t"
    and add_fresh: "wf t \<Longrightarrow> add r t = (Inr r', t') \<Longrightarrow> get (key r') t = None"
    and add_get: "wf t \<Longrightarrow> add r t = (Inr r', t') \<Longrightarrow> get i t' = (if i = key r' then Some r' else get i t)"
    and upd_wf: "wf t \<Longrightarrow> (\<And>r. key (f r) = key r) \<Longrightarrow> wf (upd i f t)"
    and upd_get: "(\<And>r. key (f r) = key r) \<Longrightarrow>
                    get j (upd i f t) = (if j = i then map_option f (get j t) else get j t)"
    and del_wf: "wf t \<Longrightarrow> wf (del i t)"
    and del_get: "get j (del i t) = (if j = i then None else get j t)"
begin

lemma add_keeps_rows:
  assumes "wf t" and "add r t = (Inr r', t')" and "get i t = Some x"
  shows "get i t' = Some x"
  using assms add_fresh [OF assms(1,2)] by (auto simp: add_get)

lemma upd_other: "(\<And>r. key (f r) = key r) \<Longrightarrow> j \<noteq> i \<Longrightarrow> get j (upd i f t) = get j t"
  by (simp add: upd_get)

lemma upd_missing: "(\<And>r. key (f r) = key r) \<Longrightarrow> get i t = None \<Longrightarrow> get j (upd i f t) = get j t"
  by (simp add: upd_get)

lemma upd_commute:
  assumes "\<And>r. key (f r) = key r" and "\<And>r. key (g r) = key r" and "i \<noteq> j"
  shows "get k (upd i f (upd j g t)) = get k (upd j g (upd i f t))"
  using assms by (simp add: upd_get)

lemma del_then_upd: "(\<And>r. key (f r) = key r) \<Longrightarrow> get i (upd i f (del i t)) = None"
  by (simp add: upd_get del_get)

end

lemma find_map_update:
  "(\<And>r. rid (f r) = rid r) \<Longrightarrow>
   find (\<lambda>r. rid r = j) (map (\<lambda>r. if rid r = i then f r else r) xs) =
     (if j = i then map_option f (find (\<lambda>r. rid r = j) xs) else find (\<lambda>r. rid r = j) xs)"
  by (induction xs) auto

lemma find_filter_rid:
  "find (\<lambda>r. rid r = j) (filter (\<lambda>r. rid r \<noteq> i) xs) =
     (if j = i then None else find (\<lambda>r. rid r = j) xs)"
  by (induction xs) auto

lemma find_none_fresh:
  "list_all (\<lambda>r. rid r < n) xs \<Longrightarrow> find (\<lambda>r. rid r = n) xs = None"
  by (induction xs) auto

lemma map_rid_update:
  "(\<And>r. rid (f r) = rid r) \<Longrightarrow> map (rid \<circ> (\<lambda>r. if rid r = i then f r else r)) xs = map rid xs"
  by simp

lemma wf_update: "wf_table t \<Longrightarrow> (\<And>r. rid (f r) = rid r) \<Longrightarrow> wf_table (repo_update i f t)"
  by (simp add: wf_table_def repo_update_def list.pred_map comp_def map_rid_update [unfolded comp_def]
      if_distrib cong: if_cong)

lemma wf_add: "wf_table t \<Longrightarrow> repo_add c r t = (res, t') \<Longrightarrow> wf_table t'"
  by (fastforce simp: wf_table_def repo_add_def Let_def list_all_iff split: if_splits)

lemma wf_delete: "wf_table t \<Longrightarrow> wf_table (repo_delete i t)"
  by (auto simp: wf_table_def repo_delete_def list_all_iff distinct_map_filter)

lemma get_update:
  "(\<And>r. rid (f r) = rid r) \<Longrightarrow>
     repo_get j (repo_update i f t) = (if j = i then map_option f (repo_get j t) else repo_get j t)"
  by (simp add: repo_get_def repo_update_def find_map_update)

lemma get_delete: "repo_get j (repo_delete i t) = (if j = i then None else repo_get j t)"
  by (simp add: repo_get_def repo_delete_def find_filter_rid)

lemma get_add:
  "wf_table t \<Longrightarrow> repo_add c r t = (Inr r', t') \<Longrightarrow>
     repo_get i t' = (if i = rid r' then Some r' else repo_get i t)"
  by (auto simp: repo_get_def repo_add_def Let_def find_append find_none_fresh wf_table_def
      split: if_splits option.splits)

text \<open>The model's tables are a repository, for every model and every unique constraint.\<close>

interpretation repo: repository wf_table repo_get "repo_add c" repo_update repo_delete rid
  for c :: "'z entity_scheme \<Rightarrow> 'z entity_scheme \<Rightarrow> bool"
proof unfold_locales
  fix i and t :: "'z rows" and r
  show "repo_get i t = Some r \<Longrightarrow> rid r = i"
    by (auto simp: repo_get_def dest: find_Some_in)
next
  fix t t' :: "'z rows" and r r' e
  show "repo_add c r t = (Inl e, t') \<Longrightarrow> t' = t"
    by (auto simp: repo_add_def Let_def split: if_splits)
  show "wf_table t \<Longrightarrow> repo_add c r t = (Inr r', t') \<Longrightarrow> repo_get (rid r') t = None"
    by (auto simp: repo_add_def Let_def repo_get_def wf_table_def find_none_fresh split: if_splits)
qed (auto intro: wf_add wf_update wf_delete simp: get_update get_add get_delete)

section \<open>Facts about the table operations\<close>

lemma repo_get_in: "repo_get i t = Some r \<Longrightarrow> r \<in> set (rows t) \<and> rid r = i"
  unfolding repo_get_def by (drule find_Some_in) simp

lemma repo_get_wf: "wf_table t \<Longrightarrow> r \<in> set (rows t) \<Longrightarrow> repo_get (rid r) t = Some r"
  by (simp add: repo_get_def wf_table_def find_distinct)

lemma rows_update:
  "rows (repo_update i f t) = map (\<lambda>r. if rid r = i then f r else r) (rows t)"
  by (simp add: repo_update_def)

lemma next_id_update [simp]: "next_id (repo_update i f t) = next_id t"
  by (simp add: repo_update_def)

lemma repo_add_Inr:
  "repo_add c r t = (Inr r', t') \<longleftrightarrow>
     r' = r\<lparr>rid := next_id t\<rparr> \<and> \<not> list_ex (\<lambda>x. c x r') (rows t) \<and>
     t' = t\<lparr>rows := rows t @ [r'], next_id := next_id t + 1\<rparr>"
  by (auto simp: repo_add_def Let_def)

lemma repo_add_Inl:
  "repo_add c r t = (Inl e, t') \<longleftrightarrow>
     e = IntegrityError \<and> t' = t \<and> list_ex (\<lambda>x. c x (r\<lparr>rid := next_id t\<rparr>)) (rows t)"
  by (auto simp: repo_add_def Let_def)

lemma first_max_None [simp]: "first_max k xs = None \<longleftrightarrow> xs = []"
  by (cases xs) (auto split: option.splits)

lemma first_max_Some: "first_max k xs = Some x \<Longrightarrow> x \<in> set xs \<and> (\<forall>y \<in> set xs. k y \<le> k x)"
proof (induction xs arbitrary: x)
  case (Cons a xs)
  show ?case
  proof (cases "first_max k xs")
    case None
    then show ?thesis using Cons.prems by simp
  next
    case (Some y)
    with Cons.IH have "y \<in> set xs" "\<forall>z \<in> set xs. k z \<le> k y" by auto
    with Some Cons.prems show ?thesis by (auto split: if_splits)
  qed
qed simp

lemma repo_one_Inr:
  "repo_one P t = (Inr x, t') \<longleftrightarrow>
     t' = t \<and> (case x of None \<Rightarrow> filter P (rows t) = [] | Some r \<Rightarrow> filter P (rows t) = [r])"
  by (auto simp: repo_one_def repo_select_def scalar_one_or_none_def mdefs split: list.splits option.splits)

lemma repo_one_Inl:
  "repo_one P t = (Inl e, t') \<longleftrightarrow>
     t' = t \<and> e = PyError ''MultipleResultsFound'' \<and> length (filter P (rows t)) > 1"
  by (auto simp: repo_one_def repo_select_def scalar_one_or_none_def mdefs split: list.splits)

lemma repo_one_read_only: "read_only (repo_one P)"
  by (auto simp: read_only_def repo_one_def scalar_one_or_none_def mdefs split: list.splits)

lemma repo_update_comp:
  "(\<And>r. rid (f r) = rid r) \<Longrightarrow> repo_update i g (repo_update i f t) = repo_update i (\<lambda>r. g (f r)) t"
  by (simp add: repo_update_def comp_def)

lemma repo_one_update:
  assumes "repo_one P t = (Inr (Some r), t')" and "\<And>x. P (f x) = P x"
  shows "repo_one P (repo_update (rid r) f t) = (Inr (Some (f r)), repo_update (rid r) f t)"
proof -
  let ?g = "\<lambda>x. if rid x = rid r then f x else x"
  have "filter P (rows t) = [r]"
    using assms(1) by (simp add: repo_one_Inr)
  moreover have "filter P (map ?g xs) = map ?g (filter P xs)" for xs
    using assms(2) by (induction xs) auto
  ultimately show ?thesis
    by (simp add: repo_one_Inr rows_update)
qed

lemma table_unique_filter:
  "table_unique c t \<Longrightarrow> (\<And>a b. P a \<Longrightarrow> P b \<Longrightarrow> c a b) \<Longrightarrow> length (filter P (rows t)) \<le> 1"
proof -
  assume u: "table_unique c t" and P: "\<And>a b. P a \<Longrightarrow> P b \<Longrightarrow> c a b"
  have "sorted_wrt (\<lambda>a b. \<not> c a b) (filter P (rows t))"
    using u by (simp add: table_unique_def sorted_wrt_filter)
  moreover have "\<forall>x \<in> set (filter P (rows t)). P x" by simp
  ultimately show ?thesis
  proof (cases "filter P (rows t)" rule: remdups_adj.cases)
    case (3 a b zs)
    then have "P a" "P b" by (metis list.set_intros mem_Collect_eq set_filter)+
    with P \<open>sorted_wrt _ _\<close> 3 show ?thesis by simp
  qed simp_all
qed

lemma repo_one_unique:
  assumes "table_unique c t" and "\<And>a b. P a \<Longrightarrow> P b \<Longrightarrow> c a b"
  shows "repo_one P t = (Inr (find P (rows t)), t)"
proof (cases "filter P (rows t)" rule: remdups_adj.cases)
  case 1
  then have "find P (rows t) = None"
    by (simp add: find_None_iff filter_empty_conv)
  with 1 show ?thesis by (simp add: repo_one_def repo_select_def scalar_one_or_none_def)
next
  case (2 x)
  have "\<exists>y. find P (rows t) = Some y"
    using 2 by (metis find_None_iff filter_False list.distinct(1) not_None_eq)
  then obtain y where y: "find P (rows t) = Some y" ..
  then have "y \<in> set (filter P (rows t))"
    using find_Some_in [OF y] by simp
  with 2 y have "find P (rows t) = Some x" by simp
  with 2 show ?thesis by (simp add: repo_one_def repo_select_def scalar_one_or_none_def)
next
  case (3 a b zs)
  moreover have "length (filter P (rows t)) \<le> 1"
    by (rule table_unique_filter) (fact assms)+
  ultimately show ?thesis by simp
qed

lemma table_unique_add:
  assumes "table_unique c t" and "repo_add c r t = (Inr r', t')"
  shows "table_unique c t'"
  using assms by (auto simp: table_unique_def repo_add_Inr sorted_wrt_append list_ex_iff)

lemma table_unique_update:
  assumes "table_unique c t" and "\<And>a b. c (f a) b = c a b" and "\<And>a b. c a (f b) = c a b"
  shows "table_unique c (repo_update i f t)"
  using assms(1) by (simp add: table_unique_def rows_update sorted_wrt_map assms(2,3) if_distrib if_distribR)

lemma wf_update_where:
  assumes "wf_table t" and "\<And>r. rid (f r) = rid r"
  shows "wf_table (repo_update_where P f t)"
proof -
  have "map rid (map (\<lambda>r. if P r then f r else r) xs) = map rid xs" for xs
    by (induction xs) (simp_all add: assms(2))
  moreover have "list_all (\<lambda>r. rid r < n) (map (\<lambda>r. if P r then f r else r) xs) =
      list_all (\<lambda>r. rid r < n) xs" for xs n
    by (induction xs) (simp_all add: assms(2))
  ultimately show ?thesis
    using assms(1) by (simp add: wf_table_def repo_update_where_def del: map_map)
qed

lemma get_update_where:
  assumes "\<And>r. rid (f r) = rid r"
  shows "repo_get i (repo_update_where P f t) = map_option (\<lambda>r. if P r then f r else r) (repo_get i t)"
proof -
  have "find (\<lambda>r. rid r = i) (map (\<lambda>r. if P r then f r else r) xs) =
      map_option (\<lambda>r. if P r then f r else r) (find (\<lambda>r. rid r = i) xs)" for xs
    by (induction xs) (simp_all add: assms)
  then show ?thesis by (simp add: repo_get_def repo_update_where_def)
qed

lemma next_id_update_where [simp]: "next_id (repo_update_where P f t) = next_id t"
  by (simp add: repo_update_where_def)

lemma rows_update_where:
  "rows (repo_update_where P f t) = map (\<lambda>r. if P r then f r else r) (rows t)"
  by (simp add: repo_update_where_def)

lemma wf_empty_table [simp]: "wf_table empty_table"
  by (simp add: wf_table_def empty_table_def)

end
