(* ===== verification/Models.thy ===== *)
theory Models
  imports Tables
begin

text \<open>
  The schema: the enumerations of \<^verbatim>\<open>backend/app/models/enums.py\<close>, one record per model of
  \<^verbatim>\<open>backend/app/models/\<close> in the order of the columns, the unique constraints each table
  enforces on insertion, and the database as the record of its tables. Columns that two
  models share get a prefix naming the model. Relationships are not columns: the code's
  \<^verbatim>\<open>subscription.plan\<close> is the lookup \<^verbatim>\<open>plan_of\<close>. The bookkeeping column \<^verbatim>\<open>updated_at\<close>, which no
  code reads, is left out.
\<close>

section \<open>Enumerations\<close>

datatype user_status = UserActive | UserBlocked

datatype subscription_status = SubCreated | SubPending | SubActive | SubExpired | SubCancelled

datatype device_status = DevActive | DevDisabled | DevRevoked

datatype server_status = SrvOnline | SrvDegraded | SrvOffline | SrvMaintenance

datatype peer_status = PeerActive | PeerDisabled | PeerRevoked

datatype link_status = LinkActive | LinkRevoked

datatype protocol = WIREGUARD | VLESS

datatype credential_status = CredActive | CredDisabled | CredRevoked

datatype routing_mode = FULL_VPN | SMART_VPN

datatype route_type = VPN | DIRECT

datatype payment_status = PayPending | PaySucceeded | PayFailed | PayRefunded | PayCancelled

datatype discount_kind = PERCENT | FIXED

datatype ticket_status = TicketOpen | TicketPending | TicketClosed

datatype support_sender = SenderUser | SenderAdmin

datatype admin_role = SUPERADMIN | SUPPORT | VIEWER

text \<open>The values of the \<^verbatim>\<open>StrEnum\<close> members where the code uses them as strings.\<close>

fun user_status_value :: "user_status \<Rightarrow> string" where
  "user_status_value UserActive = ''active''"
| "user_status_value UserBlocked = ''blocked''"

fun device_status_value :: "device_status \<Rightarrow> string" where
  "device_status_value DevActive = ''active''"
| "device_status_value DevDisabled = ''disabled''"
| "device_status_value DevRevoked = ''revoked''"

fun peer_status_value :: "peer_status \<Rightarrow> string" where
  "peer_status_value PeerActive = ''active''"
| "peer_status_value PeerDisabled = ''disabled''"
| "peer_status_value PeerRevoked = ''revoked''"

definition parse_peer_status :: "string \<Rightarrow> peer_status option" where
  "parse_peer_status s =
     (if s = ''active'' then Some PeerActive
      else if s = ''disabled'' then Some PeerDisabled
      else if s = ''revoked'' then Some PeerRevoked
      else None)"

fun protocol_value :: "protocol \<Rightarrow> string" where
  "protocol_value WIREGUARD = ''wireguard''"
| "protocol_value VLESS = ''vless''"

definition parse_protocol :: "string \<Rightarrow> protocol option" where
  "parse_protocol s =
     (if s = ''wireguard'' then Some WIREGUARD else if s = ''vless'' then Some VLESS else None)"

fun discount_value_str :: "discount_kind \<Rightarrow> string" where
  "discount_value_str PERCENT = ''percent''"
| "discount_value_str FIXED = ''fixed''"

fun admin_role_value :: "admin_role \<Rightarrow> string" where
  "admin_role_value SUPERADMIN = ''superadmin''"
| "admin_role_value SUPPORT = ''support''"
| "admin_role_value VIEWER = ''viewer''"

lemma parse_peer_status_value [simp]: "parse_peer_status (peer_status_value s) = Some s"
  by (cases s) (simp_all add: parse_peer_status_def)

lemma parse_protocol_value [simp]: "parse_protocol (protocol_value p) = Some p"
  by (cases p) (simp_all add: parse_protocol_def)

section \<open>JSON values\<close>

datatype json =
    JNull
  | JBool bool
  | JInt int
  | JStr string
  | JList "json list"
  | JObj "(string \<times> json) list"

text \<open>\<^verbatim>\<open>data.get(key)\<close> on an object; the later of two equal keys wins, as when parsing.\<close>

definition jget :: "string \<Rightarrow> json \<Rightarrow> json option" where
  "jget k j = (case j of JObj kvs \<Rightarrow> map_of (rev kvs) k | _ \<Rightarrow> None)"

section \<open>Models\<close>

record user = stamped +
  telegram_id :: int
  username :: "string option"
  first_name :: "string option"
  last_name :: "string option"
  language_code :: "string option"
  usr_status :: user_status

record admin_user = stamped +
  adm_email :: string
  hashed_password :: string
  adm_role :: admin_role
  is_active :: bool

record audit_log = entity +
  log_admin_id :: "int option"
  action :: string
  target_type :: string
  target_id :: "string option"
  log_metadata :: json
  log_created_at :: instant

record plan = stamped +
  plan_name :: string
  slug :: string
  price :: rat
  currency :: string
  duration_days :: int
  max_devices :: int
  max_speed_mbps :: "int option"
  plan_active :: bool

record subscription = stamped +
  sub_user_id :: int
  sub_plan_id :: int
  sub_status :: subscription_status
  started_at :: "instant option"
  expires_at :: "instant option"
  auto_renew :: bool
  device_limit_override :: "int option"

record payment = stamped +
  pay_user_id :: int
  pay_subscription_id :: "int option"
  pay_plan_id :: int
  pay_provider :: string
  external_payment_id :: "string option"
  idempotency_key :: string
  amount :: rat
  pay_currency :: string
  pay_status :: payment_status
  pay_promo_code_id :: "int option"
  pay_metadata :: json

record promo_code = stamped +
  code :: string
  discount_type :: discount_kind
  discount_value :: rat
  max_uses :: "int option"
  used_count :: int
  valid_from :: "instant option"
  valid_until :: "instant option"
  promo_active :: bool

record promo_redemption = entity +
  red_promo_code_id :: int
  red_user_id :: int
  red_payment_id :: "int option"
  redeemed_at :: instant

record referral = entity +
  referrer_user_id :: int
  referred_user_id :: int
  reward_applied :: bool
  ref_created_at :: instant

record device = stamped +
  dev_user_id :: int
  dev_name :: string
  dev_public_key :: "string option"
  dev_assigned_ip :: "string option"
  dev_server_id :: "int option"
  dev_status :: device_status
  last_seen :: "instant option"
  dev_protocol :: protocol

record vpn_server = stamped +
  srv_name :: string
  country :: string
  city :: "string option"
  hostname :: string
  agent_base_url :: string
  srv_public_key :: string
  endpoint :: string
  listen_port :: int
  internal_network :: string
  srv_status :: server_status
  capacity :: int
  current_load :: int
  srv_protocol :: protocol

record vless_server_config = stamped +
  cfg_server_id :: int
  xray_agent_base_url :: string
  port :: int
  reality_public_key :: string
  reality_short_ids :: "string list"
  sni :: string
  fingerprint :: string
  flow :: string
  network_type :: string

record vpn_peer = stamped +
  peer_device_id :: int
  peer_server_id :: int
  peer_public_key :: string
  peer_assigned_ip :: string
  peer_status :: peer_status
  peer_expires_at :: "instant option"

record vless_credential = stamped +
  cred_device_id :: int
  cred_server_id :: int
  cred_uuid :: string
  cred_status :: credential_status
  cred_rotated_at :: "instant option"
  cred_revoked_at :: "instant option"

record vpn_profile = stamped +
  prof_device_id :: int
  prof_mode :: routing_mode
  allowed_ips :: "string list"
  prof_dns :: "string list"
  version :: int
  is_current :: bool
  generated_at :: instant

record subscription_link = stamped +
  link_device_id :: int
  token_hash :: string
  token_prefix :: string
  link_status :: link_status
  link_rotated_at :: "instant option"
  link_revoked_at :: "instant option"
  last_accessed_at :: "instant option"
  access_count :: int

record routing_category = entity +
  cat_name :: string
  cat_description :: "string option"
  cat_enabled :: bool

record routing_rule = entity +
  rule_category_id :: int
  rule_domain :: string
  rule_route_type :: route_type
  rule_enabled :: bool
  rule_updated_at :: instant

record user_routing_profile = entity +
  urp_user_id :: int
  urp_mode :: routing_mode

record user_category_preference = entity +
  pref_user_id :: int
  pref_category_id :: int
  pref_enabled :: bool

record user_custom_domain = entity +
  cd_user_id :: int
  cd_domain :: string
  cd_route_type :: route_type
  cd_enabled :: bool
  cd_created_at :: instant

record support_ticket = stamped +
  tick_user_id :: int
  subject :: string
  tick_status :: ticket_status

record support_message = entity +
  msg_ticket_id :: int
  sender :: support_sender
  msg_text :: string
  msg_created_at :: instant

section \<open>Unique constraints\<close>

text \<open>Whether two rows of a table may not both exist; a null never conflicts.\<close>

definition same_some :: "'a option \<Rightarrow> 'a option \<Rightarrow> bool" where
  "same_some a b = (a \<noteq> None \<and> a = b)"

definition user_conflict :: "user \<Rightarrow> user \<Rightarrow> bool" where
  "user_conflict a b = (telegram_id a = telegram_id b)"

definition admin_conflict :: "admin_user \<Rightarrow> admin_user \<Rightarrow> bool" where
  "admin_conflict a b = (adm_email a = adm_email b)"

definition no_conflict :: "'r \<Rightarrow> 'r \<Rightarrow> bool" where
  "no_conflict a b = False"

definition plan_conflict :: "plan \<Rightarrow> plan \<Rightarrow> bool" where
  "plan_conflict a b = (slug a = slug b)"

definition payment_conflict :: "payment \<Rightarrow> payment \<Rightarrow> bool" where
  "payment_conflict a b =
     (idempotency_key a = idempotency_key b \<or>
      (pay_provider a = pay_provider b \<and> same_some (external_payment_id a) (external_payment_id b)))"

definition promo_conflict :: "promo_code \<Rightarrow> promo_code \<Rightarrow> bool" where
  "promo_conflict a b = (code a = code b)"

definition referral_conflict :: "referral \<Rightarrow> referral \<Rightarrow> bool" where
  "referral_conflict a b =
     (referred_user_id a = referred_user_id b \<or>
      (referrer_user_id a = referrer_user_id b \<and> referred_user_id a = referred_user_id b))"

definition device_conflict :: "device \<Rightarrow> device \<Rightarrow> bool" where
  "device_conflict a b = same_some (dev_public_key a) (dev_public_key b)"

definition config_conflict :: "vless_server_config \<Rightarrow> vless_server_config \<Rightarrow> bool" where
  "config_conflict a b = (cfg_server_id a = cfg_server_id b)"

definition peer_conflict :: "vpn_peer \<Rightarrow> vpn_peer \<Rightarrow> bool" where
  "peer_conflict a b =
     (peer_public_key a = peer_public_key b \<or>
      (peer_server_id a = peer_server_id b \<and> peer_assigned_ip a = peer_assigned_ip b))"

definition credential_conflict :: "vless_credential \<Rightarrow> vless_credential \<Rightarrow> bool" where
  "credential_conflict a b =
     (cred_uuid a = cred_uuid b \<or>
      (cred_device_id a = cred_device_id b \<and> cred_server_id a = cred_server_id b))"

definition link_conflict :: "subscription_link \<Rightarrow> subscription_link \<Rightarrow> bool" where
  "link_conflict a b = (link_device_id a = link_device_id b \<or> token_hash a = token_hash b)"

definition category_conflict :: "routing_category \<Rightarrow> routing_category \<Rightarrow> bool" where
  "category_conflict a b = (cat_name a = cat_name b)"

definition rule_conflict :: "routing_rule \<Rightarrow> routing_rule \<Rightarrow> bool" where
  "rule_conflict a b = (rule_category_id a = rule_category_id b \<and> rule_domain a = rule_domain b)"

definition routing_profile_conflict :: "user_routing_profile \<Rightarrow> user_routing_profile \<Rightarrow> bool" where
  "routing_profile_conflict a b = (urp_user_id a = urp_user_id b)"

definition preference_conflict :: "user_category_preference \<Rightarrow> user_category_preference \<Rightarrow> bool" where
  "preference_conflict a b = (pref_user_id a = pref_user_id b \<and> pref_category_id a = pref_category_id b)"

definition custom_domain_conflict :: "user_custom_domain \<Rightarrow> user_custom_domain \<Rightarrow> bool" where
  "custom_domain_conflict a b = (cd_user_id a = cd_user_id b \<and> cd_domain a = cd_domain b)"

section \<open>The database\<close>

record database =
  users :: "user table"
  admin_users :: "admin_user table"
  audit_logs :: "audit_log table"
  plans :: "plan table"
  subscriptions :: "subscription table"
  payments :: "payment table"
  promo_codes :: "promo_code table"
  promo_redemptions :: "promo_redemption table"
  referrals :: "referral table"
  devices :: "device table"
  vpn_servers :: "vpn_server table"
  vless_server_configs :: "vless_server_config table"
  vpn_peers :: "vpn_peer table"
  vless_credentials :: "vless_credential table"
  vpn_profiles :: "vpn_profile table"
  subscription_links :: "subscription_link table"
  routing_categories :: "routing_category table"
  routing_rules :: "routing_rule table"
  user_routing_profiles :: "user_routing_profile table"
  user_category_preferences :: "user_category_preference table"
  user_custom_domains :: "user_custom_domain table"
  support_tickets :: "support_ticket table"
  support_messages :: "support_message table"

type_synonym 'a dbM = "(database, exn, 'a) comp"

definition empty_db :: database where
  "empty_db = \<lparr>users = empty_table, admin_users = empty_table, audit_logs = empty_table,
     plans = empty_table, subscriptions = empty_table, payments = empty_table,
     promo_codes = empty_table, promo_redemptions = empty_table, referrals = empty_table,
     devices = empty_table, vpn_servers = empty_table, vless_server_configs = empty_table,
     vpn_peers = empty_table, vless_credentials = empty_table, vpn_profiles = empty_table,
     subscription_links = empty_table, routing_categories = empty_table,
     routing_rules = empty_table, user_routing_profiles = empty_table,
     user_category_preferences = empty_table, user_custom_domains = empty_table,
     support_tickets = empty_table, support_messages = empty_table\<rparr>"

definition tbl :: "'r list \<Rightarrow> 'r table" where
  "tbl rs = \<lparr>rows = rs, next_id = int (length rs) + 1\<rparr>"

subsection \<open>Well-formed databases\<close>

definition wf_db :: "database \<Rightarrow> bool" where
  "wf_db d \<longleftrightarrow>
     wf_table (users d) \<and> wf_table (admin_users d) \<and> wf_table (plans d) \<and>
     wf_table (subscriptions d) \<and> wf_table (payments d) \<and> wf_table (promo_codes d) \<and>
     wf_table (devices d) \<and> wf_table (vpn_servers d) \<and> wf_table (vless_server_configs d) \<and>
     wf_table (vpn_peers d) \<and> wf_table (vless_credentials d) \<and> wf_table (vpn_profiles d) \<and>
     wf_table (subscription_links d) \<and> wf_table (support_tickets d)"

subsection \<open>Running a table operation on the database\<close>

definition on_users :: "(user table, exn, 'a) comp \<Rightarrow> 'a dbM" where
  "on_users = zoomM users (\<lambda>t d. d\<lparr>users := t\<rparr>)"

definition on_admin_users :: "(admin_user table, exn, 'a) comp \<Rightarrow> 'a dbM" where
  "on_admin_users = zoomM admin_users (\<lambda>t d. d\<lparr>admin_users := t\<rparr>)"

definition on_audit_logs :: "(audit_log table, exn, 'a) comp \<Rightarrow> 'a dbM" where
  "on_audit_logs = zoomM audit_logs (\<lambda>t d. d\<lparr>audit_logs := t\<rparr>)"

definition on_plans :: "(plan table, exn, 'a) comp \<Rightarrow> 'a dbM" where
  "on_plans = zoomM plans (\<lambda>t d. d\<lparr>plans := t\<rparr>)"

definition on_subscriptions :: "(subscription table, exn, 'a) comp \<Rightarrow> 'a dbM" where
  "on_subscriptions = zoomM subscriptions (\<lambda>t d. d\<lparr>subscriptions := t\<rparr>)"

definition on_payments :: "(payment table, exn, 'a) comp \<Rightarrow> 'a dbM" where
  "on_payments = zoomM payments (\<lambda>t d. d\<lparr>payments := t\<rparr>)"

definition on_promo_redemptions :: "(promo_redemption table, exn, 'a) comp \<Rightarrow> 'a dbM" where
  "on_promo_redemptions = zoomM promo_redemptions (\<lambda>t d. d\<lparr>promo_redemptions := t\<rparr>)"

definition on_referrals :: "(referral table, exn, 'a) comp \<Rightarrow> 'a dbM" where
  "on_referrals = zoomM referrals (\<lambda>t d. d\<lparr>referrals := t\<rparr>)"

definition on_devices :: "(device table, exn, 'a) comp \<Rightarrow> 'a dbM" where
  "on_devices = zoomM devices (\<lambda>t d. d\<lparr>devices := t\<rparr>)"

definition on_vpn_servers :: "(vpn_server table, exn, 'a) comp \<Rightarrow> 'a dbM" where
  "on_vpn_servers = zoomM vpn_servers (\<lambda>t d. d\<lparr>vpn_servers := t\<rparr>)"

definition on_vless_server_configs :: "(vless_server_config table, exn, 'a) comp \<Rightarrow> 'a dbM" where
  "on_vless_server_configs = zoomM vless_server_configs (\<lambda>t d. d\<lparr>vless_server_configs := t\<rparr>)"

definition on_vpn_peers :: "(vpn_peer table, exn, 'a) comp \<Rightarrow> 'a dbM" where
  "on_vpn_peers = zoomM vpn_peers (\<lambda>t d. d\<lparr>vpn_peers := t\<rparr>)"

definition on_vless_credentials :: "(vless_credential table, exn, 'a) comp \<Rightarrow> 'a dbM" where
  "on_vless_credentials = zoomM vless_credentials (\<lambda>t d. d\<lparr>vless_credentials := t\<rparr>)"

definition on_vpn_profiles :: "(vpn_profile table, exn, 'a) comp \<Rightarrow> 'a dbM" where
  "on_vpn_profiles = zoomM vpn_profiles (\<lambda>t d. d\<lparr>vpn_profiles := t\<rparr>)"

definition on_subscription_links :: "(subscription_link table, exn, 'a) comp \<Rightarrow> 'a dbM" where
  "on_subscription_links = zoomM subscription_links (\<lambda>t d. d\<lparr>subscription_links := t\<rparr>)"

definition on_routing_categories :: "(routing_category table, exn, 'a) comp \<Rightarrow> 'a dbM" where
  "on_routing_categories = zoomM routing_categories (\<lambda>t d. d\<lparr>routing_categories := t\<rparr>)"

definition on_routing_rules :: "(routing_rule table, exn, 'a) comp \<Rightarrow> 'a dbM" where
  "on_routing_rules = zoomM routing_rules (\<lambda>t d. d\<lparr>routing_rules := t\<rparr>)"

definition on_user_routing_profiles :: "(user_routing_profile table, exn, 'a) comp \<Rightarrow> 'a dbM" where
  "on_user_routing_profiles = zoomM user_routing_profiles (\<lambda>t d. d\<lparr>user_routing_profiles := t\<rparr>)"

definition on_user_category_preferences ::
  "(user_category_preference table, exn, 'a) comp \<Rightarrow> 'a dbM" where
  "on_user_category_preferences =
     zoomM user_category_preferences (\<lambda>t d. d\<lparr>user_category_preferences := t\<rparr>)"

definition on_user_custom_domains :: "(user_custom_domain table, exn, 'a) comp \<Rightarrow> 'a dbM" where
  "on_user_custom_domains = zoomM user_custom_domains (\<lambda>t d. d\<lparr>user_custom_domains := t\<rparr>)"

definition on_support_tickets :: "(support_ticket table, exn, 'a) comp \<Rightarrow> 'a dbM" where
  "on_support_tickets = zoomM support_tickets (\<lambda>t d. d\<lparr>support_tickets := t\<rparr>)"

definition on_support_messages :: "(support_message table, exn, 'a) comp \<Rightarrow> 'a dbM" where
  "on_support_messages = zoomM support_messages (\<lambda>t d. d\<lparr>support_messages := t\<rparr>)"

lemmas on_defs =
  on_users_def on_admin_users_def on_audit_logs_def on_plans_def on_subscriptions_def
  on_payments_def on_promo_redemptions_def on_referrals_def on_devices_def on_vpn_servers_def
  on_vless_server_configs_def on_vpn_peers_def on_vless_credentials_def on_vpn_profiles_def
  on_subscription_links_def on_routing_categories_def on_routing_rules_def
  on_user_routing_profiles_def on_user_category_preferences_def on_user_custom_domains_def
  on_support_tickets_def on_support_messages_def

text \<open>An operation on one table leaves alone whatever does not depend on that table.\<close>

lemma keeps_on_table [frame]:
  "(\<And>t d. F (d\<lparr>users := t\<rparr>) = F d) \<Longrightarrow> keeps F (on_users m1)"
  "(\<And>t d. F (d\<lparr>admin_users := t\<rparr>) = F d) \<Longrightarrow> keeps F (on_admin_users m2)"
  "(\<And>t d. F (d\<lparr>audit_logs := t\<rparr>) = F d) \<Longrightarrow> keeps F (on_audit_logs m3)"
  "(\<And>t d. F (d\<lparr>plans := t\<rparr>) = F d) \<Longrightarrow> keeps F (on_plans m4)"
  "(\<And>t d. F (d\<lparr>subscriptions := t\<rparr>) = F d) \<Longrightarrow> keeps F (on_subscriptions m5)"
  "(\<And>t d. F (d\<lparr>payments := t\<rparr>) = F d) \<Longrightarrow> keeps F (on_payments m6)"
  "(\<And>t d. F (d\<lparr>devices := t\<rparr>) = F d) \<Longrightarrow> keeps F (on_devices m7)"
  "(\<And>t d. F (d\<lparr>vpn_servers := t\<rparr>) = F d) \<Longrightarrow> keeps F (on_vpn_servers m8)"
  "(\<And>t d. F (d\<lparr>vless_server_configs := t\<rparr>) = F d) \<Longrightarrow> keeps F (on_vless_server_configs m9)"
  "(\<And>t d. F (d\<lparr>vpn_peers := t\<rparr>) = F d) \<Longrightarrow> keeps F (on_vpn_peers m10)"
  "(\<And>t d. F (d\<lparr>vless_credentials := t\<rparr>) = F d) \<Longrightarrow> keeps F (on_vless_credentials m11)"
  "(\<And>t d. F (d\<lparr>vpn_profiles := t\<rparr>) = F d) \<Longrightarrow> keeps F (on_vpn_profiles m12)"
  "(\<And>t d. F (d\<lparr>subscription_links := t\<rparr>) = F d) \<Longrightarrow> keeps F (on_subscription_links m13)"
  "(\<And>t d. F (d\<lparr>user_routing_profiles := t\<rparr>) = F d) \<Longrightarrow> keeps F (on_user_routing_profiles m14)"
  by (simp_all add: on_defs keeps_zoom)

subsection \<open>Foreign keys acting on the deletion of a server\<close>

text \<open>
  \<^verbatim>\<open>ondelete="CASCADE"\<close> on the peers, credentials and Reality configuration of the server,
  \<^verbatim>\<open>ondelete="SET NULL"\<close> on the devices provisioned on it.
\<close>

definition delete_server_cascade :: "int \<Rightarrow> database \<Rightarrow> database" where
  "delete_server_cascade i d = d\<lparr>
     vpn_servers := repo_delete i (vpn_servers d),
     vpn_peers := (vpn_peers d)\<lparr>rows := filter (\<lambda>p. peer_server_id p \<noteq> i) (rows (vpn_peers d))\<rparr>,
     vless_credentials := (vless_credentials d)
       \<lparr>rows := filter (\<lambda>c. cred_server_id c \<noteq> i) (rows (vless_credentials d))\<rparr>,
     vless_server_configs := (vless_server_configs d)
       \<lparr>rows := filter (\<lambda>c. cfg_server_id c \<noteq> i) (rows (vless_server_configs d))\<rparr>,
     devices := repo_update_where (\<lambda>v. dev_server_id v = Some i)
       (\<lambda>v. v\<lparr>dev_server_id := None\<rparr>) (devices d)\<rparr>"

end
