(* ===== verification/Platform.thy ===== *)
theory Platform
  imports Models
begin

text \<open>
  The core of the services that everything else uses: password and token functions and request
  signing (\<^verbatim>\<open>backend/app/core/security.py\<close>, the two agents' \<^verbatim>\<open>core/auth.py\<close>), the start-up
  validation of the settings of the four processes (\<^verbatim>\<open>core/config.py\<close>), log redaction
  (\<^verbatim>\<open>core/logging.py\<close>) and the unit of work of a request (\<^verbatim>\<open>backend/app/db/session.py\<close>).

  Cryptography is a parameter, the record \<^verbatim>\<open>crypto\<close>: the source calls hashlib, hmac, bcrypt
  and PyJWT and nothing here assumes more of them than that they are functions. Random values
  (salts, token identifiers, tokens) are arguments of the operations that draw them.
\<close>

section \<open>Cryptographic primitives\<close>

record crypto =
  hmac_sha256_hex :: "string \<Rightarrow> string \<Rightarrow> string"       \<comment> \<open>key bytes, message bytes\<close>
  sha256_hex :: "string \<Rightarrow> string"
  bcrypt_hashpw :: "string \<Rightarrow> string \<Rightarrow> string"         \<comment> \<open>password bytes, salt\<close>
  bcrypt_checkpw :: "string \<Rightarrow> string \<Rightarrow> bool option"   \<comment> \<open>\<^verbatim>\<open>None\<close>: raises \<^verbatim>\<open>ValueError\<close>\<close>
  jwt_encode :: "(string \<times> json) list \<Rightarrow> string \<Rightarrow> string"  \<comment> \<open>claims, secret\<close>
  jwt_decode :: "string \<Rightarrow> string \<Rightarrow> instant \<Rightarrow> (string \<times> json) list option"
                                                      \<comment> \<open>token, secret, now; \<^verbatim>\<open>None\<close>: raises\<close>

definition bcrypt_max_bytes :: nat where
  "bcrypt_max_bytes = 72"

definition hash_password :: "crypto \<Rightarrow> string \<Rightarrow> string \<Rightarrow> string" where
  "hash_password k salt password = bcrypt_hashpw k (take bcrypt_max_bytes (utf8 password)) salt"

text \<open>A stored hash that is not ASCII raises \<^verbatim>\<open>UnicodeEncodeError\<close>, a \<^verbatim>\<open>ValueError\<close>.\<close>

definition verify_password :: "crypto \<Rightarrow> string \<Rightarrow> string \<Rightarrow> bool" where
  "verify_password k plain hashed =
     (if list_all (\<lambda>c. of_char c < (128::nat)) hashed
      then (case bcrypt_checkpw k (take bcrypt_max_bytes (utf8 plain)) hashed of
              None \<Rightarrow> False | Some b \<Rightarrow> b)
      else False)"

definition constant_time_compare :: "string \<Rightarrow> string \<Rightarrow> bool" where
  "constant_time_compare a b = (utf8 a = utf8 b)"

definition sign_hmac :: "crypto \<Rightarrow> string \<Rightarrow> string \<Rightarrow> string" where
  "sign_hmac k payload secret = hmac_sha256_hex k (utf8 secret) payload"

definition verify_hmac :: "crypto \<Rightarrow> string \<Rightarrow> string \<Rightarrow> string \<Rightarrow> bool" where
  "verify_hmac k payload secret signature =
     constant_time_compare (sign_hmac k payload secret) signature"

text \<open>The random part is \<^verbatim>\<open>secrets.token_urlsafe(16)\<close>.\<close>

definition generate_internal_id :: "string \<Rightarrow> string \<Rightarrow> string" where
  "generate_internal_id prefix random = prefix @ random"

definition hash_subscription_token :: "crypto \<Rightarrow> string \<Rightarrow> string" where
  "hash_subscription_token k token = sha256_hex k (utf8 token)"

definition subscription_token_prefix :: "string \<Rightarrow> string" where
  "subscription_token_prefix token = take 8 token"

text \<open>
  \<^verbatim>\<open>payload.update(extra_claims)\<close>: an extra claim replaces one of the same name. Claims are an
  association list in which the last entry of a name counts.
\<close>

definition claim :: "string \<Rightarrow> (string \<times> json) list \<Rightarrow> json option" where
  "claim name cs = map_of (rev cs) name"

definition token_claims ::
  "string \<Rightarrow> instant \<Rightarrow> int \<Rightarrow> string \<Rightarrow> (string \<times> json) list \<Rightarrow> (string \<times> json) list" where
  "token_claims subj now minutes jti extra =
     [(''sub'', JStr subj), (''type'', JStr ''access''), (''iat'', JInt now),
      (''exp'', JInt (now + minutes * 60 * 1000000)), (''jti'', JStr jti)] @ extra"

definition create_token ::
  "crypto \<Rightarrow> string \<Rightarrow> int \<Rightarrow> instant \<Rightarrow> string \<Rightarrow> string \<Rightarrow> (string \<times> json) list \<Rightarrow> string" where
  "create_token k jwt_secret minutes now jti subj extra =
     jwt_encode k (token_claims subj now minutes jti extra) jwt_secret"

definition decode_token ::
  "crypto \<Rightarrow> string \<Rightarrow> instant \<Rightarrow> string \<Rightarrow> (string \<times> json) list option" where
  "decode_token k jwt_secret now token = jwt_decode k token jwt_secret now"

lemma constant_time_compare_eq [simp]: "constant_time_compare a b \<longleftrightarrow> a = b"
  by (simp add: constant_time_compare_def utf8_inj)

lemma verify_hmac_sign [simp]: "verify_hmac k payload secret (sign_hmac k payload secret)"
  by (simp add: verify_hmac_def)

lemma verify_hmac_iff: "verify_hmac k payload secret s \<longleftrightarrow> s = sign_hmac k payload secret"
  by (auto simp: verify_hmac_def)

lemma claim_extra: "claim n (cs @ extra) = (case claim n extra of None \<Rightarrow> claim n cs | Some v \<Rightarrow> Some v)"
  by (auto simp: claim_def map_add_def split: option.splits)

lemma token_claims_sub:
  "claim ''sub'' extra = None \<Longrightarrow> claim ''sub'' (token_claims s now m j extra) = Some (JStr s)"
  by (simp add: token_claims_def claim_def map_add_def)

section \<open>Signed requests to the agents\<close>

text \<open>
  \<^verbatim>\<open>verify_signed_request\<close>, the same in \<^verbatim>\<open>vpn/app/core/auth.py\<close> and
  \<^verbatim>\<open>xray-agent/app/core/auth.py\<close>: the headers, the freshness window, then the signature over
  the raw body. \<^verbatim>\<open>time.time()\<close> is \<^verbatim>\<open>now\<close> in microseconds. The result is the status and detail
  of the \<^verbatim>\<open>HTTPException\<close>, or acceptance.
\<close>

definition absent :: "string option \<Rightarrow> bool" where
  "absent h = (case h of None \<Rightarrow> True | Some s \<Rightarrow> s = '''')"

definition verify_signed_request ::
  "crypto \<Rightarrow> string \<Rightarrow> int \<Rightarrow> instant \<Rightarrow> string option \<Rightarrow> string option \<Rightarrow> string
     \<Rightarrow> (nat \<times> string) + unit" where
  "verify_signed_request k secret max_skew now x_signature x_timestamp body =
     (if absent x_signature \<or> absent x_timestamp then Inl (401, ''Missing signature headers'')
      else case parse_int (the x_timestamp) of
        None \<Rightarrow> Inl (401, ''Invalid timestamp'')
      | Some ts \<Rightarrow>
          if \<bar>now - ts * 1000000\<bar> > max_skew * 1000000 then Inl (401, ''Stale request'')
          else if \<not> constant_time_compare (sign_hmac k body secret) (the x_signature)
               then Inl (401, ''Invalid signature'')
          else Inr ())"

text \<open>
  The two headers the backend's providers attach (\<^verbatim>\<open>WireGuardProvider._request\<close> and
  \<^verbatim>\<open>HttpXrayAgentProvider._request\<close>): the signature of the body and \<^verbatim>\<open>str(int(time.time()))\<close>.
\<close>

definition signed_headers :: "crypto \<Rightarrow> string \<Rightarrow> instant \<Rightarrow> string \<Rightarrow> string \<times> string" where
  "signed_headers k secret now body =
     (sign_hmac k body secret, int_str (now div 1000000))"

lemma int_str_not_empty [simp]: "int_str i \<noteq> []"
  by (simp add: int_str_def)

lemma verify_signed_request_Inr:
  "verify_signed_request k secret skew now sg ts body = Inr () \<longleftrightarrow>
     (\<exists>s t i. sg = Some s \<and> s \<noteq> [] \<and> ts = Some t \<and> t \<noteq> [] \<and> parse_int t = Some i \<and>
        \<bar>now - i * 1000000\<bar> \<le> skew * 1000000 \<and> s = sign_hmac k body secret)"
  by (auto simp: verify_signed_request_def absent_def split: option.splits if_splits)

section \<open>Settings\<close>

text \<open>The settings the modelled code reads, with the secrets the production guard checks.\<close>

record settings =
  environment :: string
  jwt_secret :: string
  jwt_minutes :: int
  admin_secret :: string
  internal_service_token :: string
  telegram_webhook_secret :: string
  payment_provider :: string
  payment_webhook_secret :: string
  vpn_dns :: string
  vpn_agent_shared_secret :: string
  xray_agent_shared_secret :: string
  subscription_base_url :: string

definition default_settings :: settings where
  "default_settings = \<lparr>
     environment = ''development'',
     jwt_secret = ''change-me-to-a-long-random-string'',
     jwt_minutes = 30,
     admin_secret = ''change-me-admin-bootstrap-secret'',
     internal_service_token = ''change-me-shared-secret-for-service-to-service-calls'',
     telegram_webhook_secret = ''change-me'',
     payment_provider = ''mock'',
     payment_webhook_secret = ''change-me'',
     vpn_dns = ''1.1.1.1,1.0.0.1'',
     vpn_agent_shared_secret = ''change-me-vpn-agent-secret'',
     xray_agent_shared_secret = ''change-me-xray-agent-secret'',
     subscription_base_url = ''http://localhost:8000''\<rparr>"

definition insecure_defaults :: "(string \<times> (settings \<Rightarrow> string) \<times> string) list" where
  "insecure_defaults =
     [(''jwt_secret'', jwt_secret, ''change-me-to-a-long-random-string''),
      (''admin_secret'', admin_secret, ''change-me-admin-bootstrap-secret''),
      (''internal_service_token'', internal_service_token,
         ''change-me-shared-secret-for-service-to-service-calls''),
      (''telegram_webhook_secret'', telegram_webhook_secret, ''change-me''),
      (''payment_webhook_secret'', payment_webhook_secret, ''change-me''),
      (''vpn_agent_shared_secret'', vpn_agent_shared_secret, ''change-me-vpn-agent-secret''),
      (''xray_agent_shared_secret'', xray_agent_shared_secret, ''change-me-xray-agent-secret'')]"

definition is_production :: "settings \<Rightarrow> bool" where
  "is_production s = (environment s = ''production'')"

definition leftover_defaults :: "settings \<Rightarrow> string list" where
  "leftover_defaults s = map fst (filter (\<lambda>(_, get, bad). get s = bad) insecure_defaults)"

text \<open>The model validator: the \<^verbatim>\<open>ValueError\<close> carries the sorted names of the leftovers.\<close>

definition reject_default_secrets_in_production :: "settings \<Rightarrow> string + settings" where
  "reject_default_secrets_in_production s =
     (if \<not> is_production s then Inr s
      else if leftover_defaults s \<noteq> [] then Inl (join '', '' (sort (leftover_defaults s)))
      else Inr s)"

definition vpn_dns_list :: "settings \<Rightarrow> string list" where
  "vpn_dns_list s = map strip (filter (\<lambda>ip. strip ip \<noteq> '''') (split_on CHR '','' (vpn_dns s)))"

lemma vpn_dns_list_default: "vpn_dns_list default_settings = [''1.1.1.1'', ''1.0.0.1'']"
  by code_simp

text \<open>The agents and the bot check their own secrets the same way.\<close>

definition reject_default_agent_secret :: "string \<Rightarrow> string \<Rightarrow> string \<Rightarrow> bool" where
  "reject_default_agent_secret insecure env secret = (env = ''production'' \<and> secret = insecure)"

definition bot_leftover_defaults :: "string \<Rightarrow> string \<Rightarrow> string \<Rightarrow> string list" where
  "bot_leftover_defaults env webhook_secret service_token =
     (if env \<noteq> ''production'' then []
      else (if webhook_secret = ''change-me'' then [''telegram_webhook_secret''] else []) @
           (if service_token = ''change-me-shared-secret-for-service-to-service-calls''
            then [''internal_service_token''] else []))"

section \<open>Log redaction\<close>

definition backend_redact_keys :: "string list" where
  "backend_redact_keys =
     [''private_key'', ''privatekey'', ''password'', ''hashed_password'', ''token'', ''access_token'',
      ''refresh_token'', ''authorization'', ''secret'', ''payment_provider_key'', ''webhook_secret'',
      ''config_text'', ''subscription_token'', ''subscription_url'', ''vless_uuid'', ''uuid'',
      ''reality_private_key'', ''xray_agent_shared_secret'']"

definition vpn_agent_redact_keys :: "string list" where
  "vpn_agent_redact_keys = [''private_key'', ''privatekey'', ''secret'', ''authorization'', ''signature'']"

definition xray_agent_redact_keys :: "string list" where
  "xray_agent_redact_keys =
     [''private_key'', ''privatekey'', ''reality_private_key'', ''secret'',
      ''xray_agent_shared_secret'', ''authorization'', ''signature'', ''uuid'', ''vless_uuid'']"

definition bot_redact_keys :: "string list" where
  "bot_redact_keys =
     [''private_key'', ''privatekey'', ''config_text'', ''token'', ''authorization'', ''secret'',
      ''subscription_token'', ''subscription_url'']"

text \<open>\<^verbatim>\<open>_redact_sensitive\<close>: only the top-level keys of the event are looked at.\<close>

definition redact_sensitive :: "string list \<Rightarrow> (string \<times> json) list \<Rightarrow> (string \<times> json) list" where
  "redact_sensitive keys event =
     map (\<lambda>(k, v). (k, if lower k \<in> set keys then JStr ''***REDACTED***'' else v)) event"

definition safe_request_path :: "string \<Rightarrow> string" where
  "safe_request_path path = (if starts_with path ''/sub/'' then ''/sub/***'' else path)"

text \<open>\<^verbatim>\<open>_add_request_id\<close>: \<^verbatim>\<open>setdefault\<close>, so an identifier already present stays.\<close>

definition add_request_id :: "string \<Rightarrow> (string \<times> json) list \<Rightarrow> (string \<times> json) list" where
  "add_request_id ctx event =
     (if ''request_id'' \<in> fst ` set event then event else event @ [(''request_id'', JStr ctx)])"

lemma redact_keys [simp]: "map fst (redact_sensitive keys event) = map fst event"
  by (simp add: redact_sensitive_def case_prod_unfold comp_def)

lemma redact_value:
  "(k, v) \<in> set (redact_sensitive keys event) \<Longrightarrow> lower k \<in> set keys \<Longrightarrow> v = JStr ''***REDACTED***''"
  by (auto simp: redact_sensitive_def)

lemma redact_idem: "redact_sensitive keys (redact_sensitive keys event) = redact_sensitive keys event"
  by (simp add: redact_sensitive_def case_prod_unfold comp_def)

section \<open>The unit of work of a request\<close>

text \<open>
  \<^verbatim>\<open>get_db\<close>: the handler runs on the session's view of the database; the view is committed when
  it returns and dropped when it raises. The part of the state outside the database (the agents a
  handler has called) keeps what happened to it.
\<close>

record 'w world =
  db :: database
  remote :: 'w

type_synonym ('w, 'a) app = "('w world, exn, 'a) comp"

definition on_db :: "'a dbM \<Rightarrow> ('w, 'a) app" where
  "on_db = zoomM db (\<lambda>d w. w\<lparr>db := d\<rparr>)"

definition on_remote :: "('w, exn, 'a) comp \<Rightarrow> ('w, 'a) app" where
  "on_remote = zoomM remote (\<lambda>n w. w\<lparr>remote := n\<rparr>)"

definition with_session :: "('w, 'a) app \<Rightarrow> ('w, 'a) app" where
  "with_session handler w =
     (case handler w of
        (Inr x, w') \<Rightarrow> (Inr x, w')
      | (Inl e, w') \<Rightarrow> (Inl e, w'\<lparr>db := db w\<rparr>))"

lemma with_session_Inr: "with_session h w = (Inr x, w') \<longleftrightarrow> h w = (Inr x, w')"
  by (auto simp: with_session_def split: prod.splits sum.splits)

lemma with_session_Inl:
  "with_session h w = (Inl e, w') \<longleftrightarrow> (\<exists>w1. h w = (Inl e, w1) \<and> w' = w1\<lparr>db := db w\<rparr>)"
  by (auto simp: with_session_def split: prod.splits sum.splits)

lemma keeps_on_db [frame]: "keeps F m \<Longrightarrow> keeps (\<lambda>w. F (db w)) (on_db m)"
  unfolding on_db_def by (rule keeps_zoom_part) simp_all

lemma keeps_on_remote [frame]: "keeps (\<lambda>w. F (db w)) (on_remote m)"
  unfolding on_remote_def by (rule keeps_zoom) simp

lemma keeps_remote_db [frame]: "keeps remote (on_db m)"
  unfolding on_db_def by (rule keeps_zoom) simp

lemma on_db_iff:
  "on_db m w = (r, w') \<longleftrightarrow> (\<exists>d. m (db w) = (r, d) \<and> w' = w\<lparr>db := d\<rparr>)"
  by (auto simp: on_db_def zoomM_def split: prod.splits)

lemma on_remote_iff:
  "on_remote m w = (r, w') \<longleftrightarrow> (\<exists>n. m (remote w) = (r, n) \<and> w' = w\<lparr>remote := n\<rparr>)"
  by (auto simp: on_remote_def zoomM_def split: prod.splits)

lemma with_session_preserves:
  assumes "preserves (\<lambda>w. I (db w)) h"
  shows "preserves (\<lambda>w. I (db w)) (with_session h)"
proof (rule preservesI)
  fix w :: "'a world" assume w: "I (db w)"
  then have "I (db (snd (h w)))"
    using assms by (simp add: preserves_def)
  with w show "I (db (snd (with_session h w)))"
    by (auto simp: with_session_def split: prod.splits sum.splits)
qed

section \<open>Properties\<close>

text \<open>A stand-in for the primitives, used only by the examples.\<close>

definition demo_crypto :: crypto where
  "demo_crypto = \<lparr>hmac_sha256_hex = (\<lambda>key m. ''sig:'' @ key @ ''/'' @ m), sha256_hex = (\<lambda>m. ''h:'' @ m),
     bcrypt_hashpw = (\<lambda>pw salt. salt @ pw), bcrypt_checkpw = (\<lambda>pw h. Some (h = ''s'' @ pw)),
     jwt_encode = (\<lambda>cs secret. ''jwt''),
     jwt_decode = (\<lambda>t secret now. Some (token_claims ''1'' 0 30 ''j''
        [(''role'', JStr ''superadmin''), (''kind'', JStr ''admin'')]))\<rparr>"

text \<open>A request carrying the two headers the backend's providers attach is accepted by the agent
  holding the same secret exactly while the agent's clock is within the freshness window of the
  second the request was signed in.\<close>

theorem signed_request_accepted_in_window:
  assumes "sign_hmac k body secret \<noteq> ''''"
  shows "verify_signed_request k secret skew now2
           (Some (fst (signed_headers k secret now body)))
           (Some (snd (signed_headers k secret now body))) body = Inr () \<longleftrightarrow>
         \<bar>now2 - (now div 1000000) * 1000000\<bar> \<le> skew * 1000000"
  using assms by (simp add: verify_signed_request_Inr signed_headers_def)

lemma signed_request_accepted_in_window_witness:
  "verify_signed_request demo_crypto ''s3'' 60 1700000059000000
     (Some (fst (signed_headers demo_crypto ''s3'' 1700000000123456 ''{}'')))
     (Some (snd (signed_headers demo_crypto ''s3'' 1700000000123456 ''{}''))) ''{}'' = Inr () \<and>
   verify_signed_request demo_crypto ''s3'' 60 1700000061000000
     (Some (fst (signed_headers demo_crypto ''s3'' 1700000000123456 ''{}'')))
     (Some (snd (signed_headers demo_crypto ''s3'' 1700000000123456 ''{}''))) ''{}'' \<noteq> Inr ()"
proof -
  have ne: "sign_hmac demo_crypto ''{}'' ''s3'' \<noteq> ''''"
    by (simp add: sign_hmac_def demo_crypto_def)
  show ?thesis
    unfolding signed_request_accepted_in_window [OF ne] by simp
qed

text \<open>The signature covers the body alone, so a request that was accepted once is accepted at any
  later time when its timestamp header is replaced by the current second: the freshness window
  does not bound replay, contrary to the module's description.\<close>

theorem accepted_request_replayable:
  assumes "verify_signed_request k secret skew now sg ts body = Inr ()" and "1 \<le> skew"
  shows "verify_signed_request k secret skew later sg (Some (int_str (later div 1000000))) body = Inr ()"
proof -
  have "\<bar>later - later div 1000000 * 1000000\<bar> < 1000000"
    by (simp add: minus_div_mult_eq_mod)
  moreover have "(1000000::int) \<le> skew * 1000000"
    using assms(2) by simp
  ultimately show ?thesis
    using assms(1) by (fastforce simp: verify_signed_request_Inr)
qed

lemma accepted_request_replayable_witness:
  "verify_signed_request demo_crypto ''s3'' 60 99999999999999999
     (Some (sign_hmac demo_crypto ''{}'' ''s3'')) (Some (int_str (99999999999999999 div 1000000))) ''{}'' =
   Inr ()"
proof (rule accepted_request_replayable)
  show "verify_signed_request demo_crypto ''s3'' 60 0
     (Some (sign_hmac demo_crypto ''{}'' ''s3'')) (Some ''0'') ''{}'' = Inr ()"
    by code_simp
qed simp

text \<open>A request is one unit of work: whatever a handler does, the database a raised exception
  leaves behind is the one the request started from, a value returned commits exactly what the
  handler did, and calls already made to the agents are not undone in either case.\<close>

theorem with_session_atomic:
  "with_session handler w =
     (case handler w of
        (Inr x, w1) \<Rightarrow> (Inr x, w1)
      | (Inl e, w1) \<Rightarrow> (Inl e, \<lparr>db = db w, remote = remote w1\<rparr>))"
  by (cases "handler w") (auto simp: with_session_def split: sum.splits)

text \<open>In production the settings are refused exactly when one of the seven secrets still has its
  published placeholder, and the settings as shipped are refused with all seven names.\<close>

theorem production_secrets_guard:
  "(\<exists>m. reject_default_secrets_in_production s = Inl m) =
     (environment s = ''production'' \<and>
      (jwt_secret s = jwt_secret default_settings \<or> admin_secret s = admin_secret default_settings \<or>
       internal_service_token s = internal_service_token default_settings \<or>
       telegram_webhook_secret s = telegram_webhook_secret default_settings \<or>
       payment_webhook_secret s = payment_webhook_secret default_settings \<or>
       vpn_agent_shared_secret s = vpn_agent_shared_secret default_settings \<or>
       xray_agent_shared_secret s = xray_agent_shared_secret default_settings)) \<and>
   reject_default_secrets_in_production (default_settings\<lparr>environment := ''production''\<rparr>) =
     Inl ''admin_secret, internal_service_token, jwt_secret, payment_webhook_secret, telegram_webhook_secret, vpn_agent_shared_secret, xray_agent_shared_secret''"
proof -
  have "reject_default_secrets_in_production (default_settings\<lparr>environment := ''production''\<rparr>) =
     Inl ''admin_secret, internal_service_token, jwt_secret, payment_webhook_secret, telegram_webhook_secret, vpn_agent_shared_secret, xray_agent_shared_secret''"
    by code_simp
  then show ?thesis
    by (simp add: reject_default_secrets_in_production_def is_production_def leftover_defaults_def
        insecure_defaults_def default_settings_def)
qed

end
