(* ===== verification/Accounts.thy ===== *)
theory Accounts
  imports Platform
begin

text \<open>
  People and what is recorded about them: end users (\<^verbatim>\<open>services/user_service.py\<close>), administrators
  and their log-in (\<^verbatim>\<open>services/admin_auth_service.py\<close>), the guards every endpoint depends on
  (\<^verbatim>\<open>core/deps.py\<close>), referrals, support tickets and the audit log, with the queries of their
  repositories. Each operation takes the clock reading it makes as an argument.
\<close>

section \<open>Users\<close>

record telegram_auth =
  ta_telegram_id :: int
  ta_username :: "string option"
  ta_first_name :: "string option"
  ta_last_name :: "string option"
  ta_language_code :: "string option"

definition get_by_telegram_id :: "int \<Rightarrow> (user option) dbM" where
  "get_by_telegram_id tid = on_users (repo_one (\<lambda>u. telegram_id u = tid))"

definition set_telegram_fields :: "telegram_auth \<Rightarrow> user \<Rightarrow> user" where
  "set_telegram_fields p u = u\<lparr>username := ta_username p, first_name := ta_first_name p,
     last_name := ta_last_name p, language_code := ta_language_code p\<rparr>"

definition new_user :: "instant \<Rightarrow> telegram_auth \<Rightarrow> user" where
  "new_user now p =
     \<lparr>rid = 0, created_at = now, telegram_id = ta_telegram_id p, username = ta_username p,
      first_name = ta_first_name p, last_name = ta_last_name p,
      language_code = ta_language_code p, usr_status = UserActive\<rparr>"

definition get_or_create_from_telegram :: "instant \<Rightarrow> telegram_auth \<Rightarrow> user dbM" where
  "get_or_create_from_telegram now p =
     bindM (get_by_telegram_id (ta_telegram_id p)) (\<lambda>found.
       case found of
         Some u \<Rightarrow>
           bindM (on_users (modifyM (repo_update (rid u) (set_telegram_fields p)))) (\<lambda>_.
           returnM (set_telegram_fields p u))
       | None \<Rightarrow> on_users (repo_add user_conflict (new_user now p)))"

definition require_active_user :: "int \<Rightarrow> user dbM" where
  "require_active_user tid =
     bindM (get_by_telegram_id tid) (\<lambda>found.
       case found of
         None \<Rightarrow> raiseM (app_error NotFoundError ''User not found'' (Some ''user_not_found''))
       | Some u \<Rightarrow>
           if usr_status u \<noteq> UserActive
           then raiseM (app_error PermissionDeniedError ''User is blocked'' (Some ''user_blocked''))
           else returnM u)"

definition set_user_status :: "user \<Rightarrow> user_status \<Rightarrow> user dbM" where
  "set_user_status u st =
     bindM (on_users (modifyM (repo_update (rid u) (\<lambda>r. r\<lparr>usr_status := st\<rparr>)))) (\<lambda>_.
     returnM (u\<lparr>usr_status := st\<rparr>))"

section \<open>Audit log\<close>

definition new_audit_log ::
  "instant \<Rightarrow> int option \<Rightarrow> string \<Rightarrow> string \<Rightarrow> string option \<Rightarrow> (string \<times> json) list \<Rightarrow> audit_log" where
  "new_audit_log now admin act ttype tid meta =
     \<lparr>rid = 0, log_admin_id = admin, action = act, target_type = ttype, target_id = tid,
      log_metadata = JObj meta, log_created_at = now\<rparr>"

definition audit_record ::
  "instant \<Rightarrow> int option \<Rightarrow> string \<Rightarrow> string \<Rightarrow> string option \<Rightarrow> (string \<times> json) list \<Rightarrow> audit_log dbM" where
  "audit_record now admin act ttype tid meta =
     on_audit_logs (repo_add no_conflict (new_audit_log now admin act ttype tid meta))"

section \<open>Administrators\<close>

definition get_by_email :: "string \<Rightarrow> (admin_user option) dbM" where
  "get_by_email email = on_admin_users (repo_one (\<lambda>a. adm_email a = email))"

definition invalid_credentials :: exn where
  "invalid_credentials =
     app_error UnauthorizedError ''Invalid credentials'' (Some ''invalid_credentials'')"

definition authenticate :: "crypto \<Rightarrow> string \<Rightarrow> string \<Rightarrow> admin_user dbM" where
  "authenticate k email password =
     bindM (get_by_email email) (\<lambda>found.
       case found of
         None \<Rightarrow> raiseM invalid_credentials
       | Some a \<Rightarrow>
           if \<not> is_active a \<or> \<not> verify_password k password (hashed_password a)
           then raiseM invalid_credentials else returnM a)"

definition issue_tokens :: "crypto \<Rightarrow> settings \<Rightarrow> instant \<Rightarrow> string \<Rightarrow> admin_user \<Rightarrow> string" where
  "issue_tokens k cfg now jti a =
     create_token k (jwt_secret cfg) (jwt_minutes cfg) now jti (int_str (rid a))
       [(''role'', JStr (admin_role_value (adm_role a))), (''kind'', JStr ''admin'')]"

definition create_admin ::
  "crypto \<Rightarrow> instant \<Rightarrow> string \<Rightarrow> string \<Rightarrow> string \<Rightarrow> admin_role \<Rightarrow> admin_user dbM" where
  "create_admin k now salt email password role =
     on_admin_users (repo_add admin_conflict
       \<lparr>rid = 0, created_at = now, adm_email = email, hashed_password = hash_password k salt password,
        adm_role = role, is_active = True\<rparr>)"

definition bootstrap_first_admin ::
  "crypto \<Rightarrow> instant \<Rightarrow> string \<Rightarrow> string \<Rightarrow> string \<Rightarrow> string \<Rightarrow> string \<Rightarrow> admin_user dbM" where
  "bootstrap_first_admin k now salt email password provided expected =
     (if \<not> constant_time_compare provided expected
      then raiseM (app_error UnauthorizedError ''Invalid bootstrap secret''
                     (Some ''invalid_bootstrap_secret''))
      else bindM (getM (\<lambda>d. repo_count (\<lambda>_. True) (admin_users d))) (\<lambda>n.
        if n > 0
        then raiseM (app_error ConflictError
                       ''An admin account already exists; bootstrap is a one-time operation''
                       (Some ''bootstrap_already_completed''))
        else create_admin k now salt email password SUPERADMIN))"

section \<open>Guards\<close>

definition require_internal_service :: "settings \<Rightarrow> string option \<Rightarrow> unit dbM" where
  "require_internal_service cfg token =
     (if absent token \<or> \<not> constant_time_compare (the token) (internal_service_token cfg)
      then raiseM (app_error UnauthorizedError ''Invalid internal service token''
                     (Some ''invalid_internal_token''))
      else returnM ())"

text \<open>\<^verbatim>\<open>authorization.split(" ", 1)[1]\<close>, used only on a header with a space in it.\<close>

definition after_space :: "string \<Rightarrow> string" where
  "after_space s = tl (dropWhile (\<lambda>c. c \<noteq> CHR '' '') s)"

text \<open>\<^verbatim>\<open>int(payload["sub"])\<close>\<close>

definition int_of_claim :: "json option \<Rightarrow> ('s, exn, int) comp" where
  "int_of_claim v = (case v of
       None \<Rightarrow> raiseM (PyError ''KeyError'')
     | Some (JStr s) \<Rightarrow> requireM (PyError ''ValueError'') (parse_int s)
     | Some (JInt i) \<Rightarrow> returnM i
     | Some (JBool b) \<Rightarrow> returnM (if b then 1 else 0)
     | Some _ \<Rightarrow> raiseM (PyError ''TypeError''))"

definition get_current_admin ::
  "crypto \<Rightarrow> settings \<Rightarrow> instant \<Rightarrow> string option \<Rightarrow> admin_user dbM" where
  "get_current_admin k cfg now authorization =
     (if absent authorization \<or> \<not> starts_with (lower (the authorization)) ''bearer ''
      then raiseM (app_error UnauthorizedError ''Missing bearer token'' (Some ''missing_token''))
      else case decode_token k (jwt_secret cfg) now (after_space (the authorization)) of
        None \<Rightarrow> raiseM (app_error UnauthorizedError ''Invalid or expired token'' (Some ''invalid_token''))
      | Some payload \<Rightarrow>
          if claim ''type'' payload \<noteq> Some (JStr ''access'') \<or> claim ''kind'' payload \<noteq> Some (JStr ''admin'')
          then raiseM (app_error UnauthorizedError ''Invalid or expired token'' (Some ''invalid_token''))
          else bindM (int_of_claim (claim ''sub'' payload)) (\<lambda>i.
               bindM (getM (\<lambda>d. repo_get i (admin_users d))) (\<lambda>found.
                 case found of
                   None \<Rightarrow> raiseM (app_error UnauthorizedError ''Admin account not found or inactive''
                                     (Some ''admin_inactive''))
                 | Some a \<Rightarrow>
                     if \<not> is_active a
                     then raiseM (app_error UnauthorizedError ''Admin account not found or inactive''
                                    (Some ''admin_inactive''))
                     else returnM a)))"

definition get_current_user :: "settings \<Rightarrow> string option \<Rightarrow> int option \<Rightarrow> user dbM" where
  "get_current_user cfg token tid =
     bindM (require_internal_service cfg token) (\<lambda>_.
       case tid of
         None \<Rightarrow> raiseM (app_error UnauthorizedError ''Missing X-Telegram-User-Id header''
                           (Some ''missing_user_header''))
       | Some i \<Rightarrow> require_active_user i)"

definition require_admin_role :: "admin_role list \<Rightarrow> admin_user \<Rightarrow> ('s, exn, admin_user) comp" where
  "require_admin_role roles a =
     (if roles \<noteq> [] \<and> adm_role a \<notin> set roles
      then raiseM (app_error PermissionDeniedError ''Insufficient admin role'' (Some ''insufficient_role''))
      else returnM a)"

section \<open>Referrals\<close>

definition get_by_referred :: "int \<Rightarrow> (referral option) dbM" where
  "get_by_referred i = on_referrals (repo_one (\<lambda>r. referred_user_id r = i))"

definition register_referral :: "instant \<Rightarrow> int \<Rightarrow> int \<Rightarrow> referral dbM" where
  "register_referral now referrer referred =
     (if referrer = referred
      then raiseM (app_error ValidationAppError ''Cannot refer yourself'' (Some ''self_referral''))
      else bindM (get_by_referred referred) (\<lambda>found.
        if found \<noteq> None
        then raiseM (app_error ConflictError ''User was already referred'' (Some ''already_referred''))
        else on_referrals (repo_add referral_conflict
               \<lparr>rid = 0, referrer_user_id = referrer, referred_user_id = referred,
                reward_applied = False, ref_created_at = now\<rparr>)))"

section \<open>Support tickets\<close>

text \<open>\<^verbatim>\<open>ticket.messages\<close>, in the order of \<^verbatim>\<open>created_at\<close>.\<close>

definition messages_of :: "int \<Rightarrow> database \<Rightarrow> support_message list" where
  "messages_of i d = sort_key msg_created_at (filter (\<lambda>m. msg_ticket_id m = i) (rows (support_messages d)))"

definition new_message :: "instant \<Rightarrow> int \<Rightarrow> support_sender \<Rightarrow> string \<Rightarrow> support_message" where
  "new_message now tid who txt =
     \<lparr>rid = 0, msg_ticket_id = tid, sender = who, msg_text = txt, msg_created_at = now\<rparr>"

definition create_ticket :: "instant \<Rightarrow> int \<Rightarrow> string \<Rightarrow> string \<Rightarrow> support_ticket dbM" where
  "create_ticket now user_id subj message =
     bindM (on_support_tickets (repo_add no_conflict
              \<lparr>rid = 0, created_at = now, tick_user_id = user_id, subject = subj,
               tick_status = TicketOpen\<rparr>)) (\<lambda>t.
     bindM (on_support_messages (repo_add no_conflict (new_message now (rid t) SenderUser message))) (\<lambda>_.
     returnM t))"

definition get_ticket :: "int \<Rightarrow> support_ticket dbM" where
  "get_ticket i =
     bindM (getM (\<lambda>d. repo_get i (support_tickets d)))
       (requireM (app_error NotFoundError ''Support ticket not found'' (Some ''ticket_not_found'')))"

definition set_ticket_status :: "int \<Rightarrow> ticket_status \<Rightarrow> unit dbM" where
  "set_ticket_status i st = on_support_tickets (modifyM (repo_update i (\<lambda>t. t\<lparr>tick_status := st\<rparr>)))"

definition add_message ::
  "instant \<Rightarrow> support_ticket \<Rightarrow> support_sender \<Rightarrow> string \<Rightarrow> support_message dbM" where
  "add_message now t who txt =
     bindM (whenM (who = SenderAdmin \<and> tick_status t = TicketOpen)
              (set_ticket_status (rid t) TicketPending)) (\<lambda>_.
     on_support_messages (repo_add no_conflict (new_message now (rid t) who txt)))"

definition close_ticket :: "support_ticket \<Rightarrow> support_ticket dbM" where
  "close_ticket t =
     bindM (set_ticket_status (rid t) TicketClosed) (\<lambda>_. returnM (t\<lparr>tick_status := TicketClosed\<rparr>))"

text \<open>Tickets newest first, those of the same instant in insertion order.\<close>

definition list_tickets_for_user :: "int \<Rightarrow> database \<Rightarrow> support_ticket list" where
  "list_tickets_for_user i d =
     sort_key (\<lambda>t. - created_at t) (filter (\<lambda>t. tick_user_id t = i) (rows (support_tickets d)))"

definition list_all_tickets :: "nat \<Rightarrow> nat \<Rightarrow> database \<Rightarrow> support_ticket list" where
  "list_all_tickets offset limit d =
     take limit (drop offset (sort_key (\<lambda>t. - created_at t) (rows (support_tickets d))))"

section \<open>Lemmas\<close>

lemma app_error_code [simp]: "c \<noteq> '''' \<Longrightarrow> app_error cls msg (Some c) = AppError cls msg c"
  by (simp add: app_error_def)

lemma get_by_telegram_id_unique:
  "table_unique user_conflict (users d) \<Longrightarrow>
     get_by_telegram_id tid d = (Inr (find (\<lambda>u. telegram_id u = tid) (rows (users d))), d)"
  using repo_one_unique [of user_conflict "users d" "\<lambda>u. telegram_id u = tid"]
  by (simp add: get_by_telegram_id_def on_users_def zoomM_def user_conflict_def)

lemma get_by_referred_unique:
  "table_unique referral_conflict (referrals d) \<Longrightarrow>
     get_by_referred i d = (Inr (find (\<lambda>r. referred_user_id r = i) (rows (referrals d))), d)"
  using repo_one_unique [of referral_conflict "referrals d" "\<lambda>r. referred_user_id r = i"]
  by (simp add: get_by_referred_def on_referrals_def zoomM_def referral_conflict_def)

lemma audit_record_eq:
  "audit_record now adm act ttype tid meta d =
     (let r = (new_audit_log now adm act ttype tid meta)\<lparr>rid := next_id (audit_logs d)\<rparr> in
      (Inr r, d\<lparr>audit_logs := (audit_logs d)\<lparr>rows := rows (audit_logs d) @ [r],
                                           next_id := next_id (audit_logs d) + 1\<rparr>\<rparr>))"
  by (simp add: audit_record_def on_audit_logs_def zoomM_def repo_add_def no_conflict_def Let_def
      list_ex_iff)

lemma int_of_claim_Inr: "int_of_claim v s = (Inr i, t) \<Longrightarrow> t = s"
  by (auto simp: int_of_claim_def requireM_eq_Inr_iff split: option.splits json.splits if_splits)

lemma get_current_admin_Inr:
  "get_current_admin k cfg now auth d = (Inr a, d') \<Longrightarrow>
     d' = d \<and> is_active a \<and> repo_get (rid a) (admin_users d) = Some a \<and>
     (\<exists>h payload. auth = Some h \<and> decode_token k (jwt_secret cfg) now (after_space h) = Some payload \<and>
        claim ''type'' payload = Some (JStr ''access'') \<and> claim ''kind'' payload = Some (JStr ''admin''))"
  by (auto simp: get_current_admin_def absent_def bindM_eq_Inr_iff dest!: int_of_claim_Inr
      dest: repo.get_key split: option.splits if_splits)

lemma require_admin_role_Inr:
  "require_admin_role roles a s = (Inr b, t) \<longleftrightarrow>
     b = a \<and> t = s \<and> (roles = [] \<or> adm_role a \<in> set roles)"
  by (auto simp: require_admin_role_def)

lemma require_internal_service_Inr:
  "require_internal_service cfg tok d = (Inr u, d') \<longleftrightarrow>
     d' = d \<and> tok = Some (internal_service_token cfg) \<and> internal_service_token cfg \<noteq> ''''"
  by (auto simp: require_internal_service_def absent_def split: option.splits if_splits)

lemma require_active_user_Inr:
  "require_active_user tid d = (Inr u, d') \<Longrightarrow>
     d' = d \<and> u \<in> set (rows (users d)) \<and> telegram_id u = tid \<and> usr_status u = UserActive"
proof -
  assume "require_active_user tid d = (Inr u, d')"
  then obtain t where t: "repo_one (\<lambda>u. telegram_id u = tid) (users d) = (Inr (Some u), t)"
    and d: "d' = d\<lparr>users := t\<rparr>" and st: "usr_status u = UserActive"
    by (auto simp: require_active_user_def get_by_telegram_id_def on_users_def success_iffs
        split: option.splits if_splits)
  from t have "t = users d" and "filter (\<lambda>u. telegram_id u = tid) (rows (users d)) = [u]"
    by (simp_all add: repo_one_Inr)
  then have "u \<in> set (rows (users d)) \<and> telegram_id u = tid"
    by (metis (mono_tags, lifting) list.set_intros(1) mem_Collect_eq set_filter)
  with d st \<open>t = users d\<close> show ?thesis by simp
qed

section \<open>Properties\<close>

lemma set_telegram_fields_keeps [simp]:
  "rid (set_telegram_fields p u) = rid u"
  "telegram_id (set_telegram_fields p u) = telegram_id u"
  "usr_status (set_telegram_fields p u) = usr_status u"
  by (simp_all add: set_telegram_fields_def)

lemma find_telegram_update:
  assumes "find (\<lambda>u. telegram_id u = i) xs = Some u" and "distinct (map rid xs)"
  shows "find (\<lambda>u. telegram_id u = i)
           (map (\<lambda>r. if rid r = rid u then set_telegram_fields p r else r) xs) =
         Some (set_telegram_fields p u)"
  using assms
proof (induction xs)
  case (Cons x xs)
  show ?case
  proof (cases "telegram_id x = i")
    case False
    with Cons.prems have "u \<in> set xs" by (auto dest: find_Some_in)
    with Cons False show ?thesis by auto
  qed (use Cons in auto)
qed simp

text \<open>Signing in through Telegram always returns the row of that Telegram account: the existing
  row with the profile fields replaced and its identifier and status kept (a blocked user stays
  blocked), or one new active row; in either case the account has that one row afterwards and
  rows of other accounts are untouched.\<close>

theorem get_or_create_from_telegram_upsert:
  assumes "wf_table (users d)" and "table_unique user_conflict (users d)"
  shows "\<exists>u d'. get_or_create_from_telegram now p d = (Inr u, d') \<and>
     get_by_telegram_id (ta_telegram_id p) d' = (Inr (Some u), d') \<and>
     u = set_telegram_fields p u \<and>
     (case find (\<lambda>x. telegram_id x = ta_telegram_id p) (rows (users d)) of
        None \<Rightarrow> usr_status u = UserActive \<and> rows (users d') = rows (users d) @ [u]
      | Some x \<Rightarrow> rid u = rid x \<and> usr_status u = usr_status x \<and>
          length (rows (users d')) = length (rows (users d)) \<and>
          (\<forall>i. i \<noteq> rid x \<longrightarrow> repo_get i (users d') = repo_get i (users d))) \<and>
     table_unique user_conflict (users d') \<and> wf_table (users d')"
proof (cases "find (\<lambda>x. telegram_id x = ta_telegram_id p) (rows (users d))")
  case (Some x)
  let ?d = "d\<lparr>users := repo_update (rid x) (set_telegram_fields p) (users d)\<rparr>"
  let ?u = "set_telegram_fields p x"
  have run: "get_or_create_from_telegram now p d = (Inr ?u, ?d)"
    using Some assms by (simp add: get_or_create_from_telegram_def bindM_def on_users_def zoomM_def
        get_by_telegram_id_unique)
  have wf: "wf_table (users ?d)"
    using assms(1) by (simp add: wf_update)
  have un: "table_unique user_conflict (users ?d)"
    using assms(2) by (simp add: table_unique_update user_conflict_def)
  have "find (\<lambda>u. telegram_id u = ta_telegram_id p) (rows (users ?d)) = Some ?u"
    using find_telegram_update [OF Some] assms(1) by (simp add: rows_update wf_table_def)
  then have look: "get_by_telegram_id (ta_telegram_id p) ?d = (Inr (Some ?u), ?d)"
    using un by (simp add: get_by_telegram_id_unique)
  show ?thesis
    by (intro exI conjI, rule run, rule look)
      (use Some un wf in \<open>simp_all add: set_telegram_fields_def get_update rows_update\<close>)
next
  case None
  let ?u = "(new_user now p)\<lparr>rid := next_id (users d)\<rparr>"
  let ?d = "d\<lparr>users := (users d)\<lparr>rows := rows (users d) @ [?u], next_id := next_id (users d) + 1\<rparr>\<rparr>"
  have nc: "\<not> list_ex (\<lambda>x. user_conflict x ?u) (rows (users d))"
    using None by (auto simp: list_ex_iff find_None_iff user_conflict_def new_user_def)
  then have add: "repo_add user_conflict (new_user now p) (users d) = (Inr ?u, users ?d)"
    by (simp add: repo_add_Inr)
  then have run: "get_or_create_from_telegram now p d = (Inr ?u, ?d)"
    using None assms by (simp add: get_or_create_from_telegram_def bindM_def on_users_def zoomM_def
        get_by_telegram_id_unique)
  have un: "table_unique user_conflict (users ?d)" and wf: "wf_table (users ?d)"
    using add assms by (metis table_unique_add, metis wf_add)
  have "find (\<lambda>u. telegram_id u = ta_telegram_id p) (rows (users ?d)) = Some ?u"
    using None by (simp add: find_append new_user_def)
  then have look: "get_by_telegram_id (ta_telegram_id p) ?d = (Inr (Some ?u), ?d)"
    using un by (simp add: get_by_telegram_id_unique)
  show ?thesis
    by (intro exI conjI, rule run, rule look)
      (use None un wf in \<open>simp_all add: set_telegram_fields_def new_user_def\<close>)
qed

text \<open>Bootstrap creates an administrator exactly when the secret is right and there is none yet;
  the one it creates is an active superadmin, and from then on no secret makes it succeed again.\<close>

theorem bootstrap_first_admin_once:
  "(\<exists>a d'. bootstrap_first_admin k now salt email pw given expected d = (Inr a, d')) =
     (given = expected \<and> rows (admin_users d) = []) \<and>
   (case bootstrap_first_admin k now salt email pw given expected d of
      (Inl _, d') \<Rightarrow> d' = d
    | (Inr a, d') \<Rightarrow> adm_role a = SUPERADMIN \<and> is_active a \<and> rows (admin_users d') = [a] \<and>
        (\<forall>k2 now2 salt2 email2 pw2 given2 expected2.
           \<exists>e. bootstrap_first_admin k2 now2 salt2 email2 pw2 given2 expected2 d' = (Inl e, d')))"
  by (auto simp: bootstrap_first_admin_def repo_count_def create_admin_def on_admin_users_def
      zoomM_def repo_add_def Let_def)

text \<open>Concrete data for the examples of this theory.\<close>

definition demo_auth :: telegram_auth where
  "demo_auth = \<lparr>ta_telegram_id = 77, ta_username = Some ''neo'', ta_first_name = None,
     ta_last_name = None, ta_language_code = Some ''en''\<rparr>"

definition demo_user :: user where
  "demo_user = \<lparr>rid = 1, created_at = 0, telegram_id = 77, username = Some ''old'', first_name = None,
     last_name = None, language_code = None, usr_status = UserBlocked\<rparr>"

definition demo_admin :: admin_user where
  "demo_admin = \<lparr>rid = 1, created_at = 0, adm_email = ''root@x'', hashed_password = ''spw'',
     adm_role = SUPERADMIN, is_active = True\<rparr>"

lemma get_or_create_from_telegram_upsert_witness:
  "\<exists>u d'. get_or_create_from_telegram 5 demo_auth (empty_db\<lparr>users := tbl [demo_user]\<rparr>) = (Inr u, d') \<and>
     rid u = 1 \<and> usr_status u = UserBlocked \<and> username u = Some ''neo''"
proof -
  let ?d = "empty_db\<lparr>users := tbl [demo_user]\<rparr>"
  have wf: "wf_table (users ?d)" and un: "table_unique user_conflict (users ?d)"
    by (simp_all add: tbl_def demo_user_def wf_table_def table_unique_def)
  have found: "find (\<lambda>x. telegram_id x = ta_telegram_id demo_auth) (rows (users ?d)) = Some demo_user"
    by (simp add: tbl_def demo_user_def demo_auth_def)
  obtain u d' where run: "get_or_create_from_telegram 5 demo_auth ?d = (Inr u, d')"
    and u: "u = set_telegram_fields demo_auth u" "rid u = rid demo_user" "usr_status u = usr_status demo_user"
    using get_or_create_from_telegram_upsert [OF wf un, of 5 demo_auth] unfolding found by auto
  have "username u = Some ''neo''"
    by (subst u(1)) (simp add: set_telegram_fields_def demo_auth_def)
  with run u(2,3) show ?thesis
    by (auto simp: demo_user_def)
qed

text \<open>Logging in succeeds exactly for an active administrator with that e-mail whose stored
  hash accepts the password; an unknown e-mail, an inactive account and a wrong password give one
  and the same error, and no attempt changes the database.\<close>

theorem authenticate_uniform:
  assumes "table_unique admin_conflict (admin_users d)"
  shows "authenticate k email pw d =
    (case find (\<lambda>a. adm_email a = email) (rows (admin_users d)) of
       Some a \<Rightarrow> if is_active a \<and> verify_password k pw (hashed_password a) then (Inr a, d)
                 else (Inl (AppError UnauthorizedError ''Invalid credentials'' ''invalid_credentials''), d)
     | None \<Rightarrow> (Inl (AppError UnauthorizedError ''Invalid credentials'' ''invalid_credentials''), d))"
proof -
  have "get_by_email email d = (Inr (find (\<lambda>a. adm_email a = email) (rows (admin_users d))), d)"
    using repo_one_unique [OF assms, of "\<lambda>a. adm_email a = email"]
    by (simp add: get_by_email_def on_admin_users_def zoomM_def admin_conflict_def)
  then have "authenticate k email pw d =
     (case find (\<lambda>a. adm_email a = email) (rows (admin_users d)) of
         None \<Rightarrow> raiseM invalid_credentials
       | Some a \<Rightarrow>
           if \<not> is_active a \<or> \<not> verify_password k pw (hashed_password a)
           then raiseM invalid_credentials else returnM a) d"
    unfolding authenticate_def by (rule bindM_Inr)
  then show ?thesis
    by (simp add: invalid_credentials_def split: option.split)
qed

lemma authenticate_uniform_witness:
  "authenticate demo_crypto ''root@x'' ''pw'' (empty_db\<lparr>admin_users := tbl [demo_admin]\<rparr>) =
     (Inr demo_admin, empty_db\<lparr>admin_users := tbl [demo_admin]\<rparr>)"
  by (subst authenticate_uniform)
    (simp_all add: table_unique_def tbl_def demo_admin_def verify_password_def demo_crypto_def
      utf8_def utf8_char_def bcrypt_max_bytes_def)

lemma bearer_header:
  "after_space (''Bearer '' @ t) = t" "starts_with (lower (''Bearer '' @ t)) ''bearer ''"
proof -
  have l: "map lower_char ''Bearer '' = ''bearer ''" by code_simp
  have "lower (''Bearer '' @ t) = ''bearer '' @ lower t"
    unfolding lower_def map_append l ..
  then show "starts_with (lower (''Bearer '' @ t)) ''bearer ''"
    by (simp only: starts_with_append)
qed (simp add: after_space_def)

text \<open>The access token issued to an active administrator opens the admin endpoints as that
  administrator while it decodes to the claims it was made of; the same token is refused as soon
  as the account is deactivated or removed.\<close>

theorem issued_token_follows_account:
  assumes "jwt_decode k (issue_tokens k cfg now0 jti a) (jwt_secret cfg) now =
      Some (token_claims (int_str (rid a)) now0 (jwt_minutes cfg) jti
              [(''role'', JStr (admin_role_value (adm_role a))), (''kind'', JStr ''admin'')])"
  shows "get_current_admin k cfg now (Some (''Bearer '' @ issue_tokens k cfg now0 jti a)) d =
    (case repo_get (rid a) (admin_users d) of
       Some b \<Rightarrow> if is_active b then (Inr b, d)
                 else (Inl (AppError UnauthorizedError ''Admin account not found or inactive''
                              ''admin_inactive''), d)
     | None \<Rightarrow> (Inl (AppError UnauthorizedError ''Admin account not found or inactive''
                        ''admin_inactive''), d))"
proof -
  let ?cs = "token_claims (int_str (rid a)) now0 (jwt_minutes cfg) jti
              [(''role'', JStr (admin_role_value (adm_role a))), (''kind'', JStr ''admin'')]"
  have "claim ''sub'' ?cs = Some (JStr (int_str (rid a)))"
    by (rule token_claims_sub) (simp add: claim_def)
  moreover have "claim ''type'' ?cs = Some (JStr ''access'')" "claim ''kind'' ?cs = Some (JStr ''admin'')"
    by (simp_all add: token_claims_def claim_def)
  ultimately show ?thesis
    unfolding get_current_admin_def
    using assms bearer_header [of "issue_tokens k cfg now0 jti a"]
    by (simp add: absent_def decode_token_def int_of_claim_def del: append_Cons append_Nil
        split: option.split)
qed

lemma issued_token_follows_account_witness:
  "get_current_admin demo_crypto default_settings 9
     (Some (''Bearer '' @ issue_tokens demo_crypto default_settings 0 ''j'' demo_admin))
     (empty_db\<lparr>admin_users := tbl [demo_admin\<lparr>is_active := False\<rparr>]\<rparr>) =
   (Inl (AppError UnauthorizedError ''Admin account not found or inactive'' ''admin_inactive''),
    empty_db\<lparr>admin_users := tbl [demo_admin\<lparr>is_active := False\<rparr>]\<rparr>)"
proof -
  have "int_str 1 = ''1''" by code_simp
  then show ?thesis
    by (subst issued_token_follows_account)
      (simp_all add: demo_crypto_def default_settings_def demo_admin_def tbl_def repo_get_def)
qed

end
