(* ===== verification/Billing.thy ===== *)
theory Billing
  imports Accounts
begin

text \<open>
  Plans, subscriptions, promo codes and payments: \<^verbatim>\<open>services/plan_service.py\<close>,
  \<^verbatim>\<open>services/subscription_service.py\<close>, \<^verbatim>\<open>services/payment_service.py\<close>, the payment provider
  protocol and its mock (\<^verbatim>\<open>services/payments/\<close>) and their repositories. Money is exact
  (\<^verbatim>\<open>Decimal\<close> as a rational); the rounding to two decimals by the \<^verbatim>\<open>Numeric(10, 2)\<close> columns is
  the database's and not modelled.
\<close>

section \<open>Plans\<close>

text \<open>A field of a partial update: left out, given as null, or given with a value.\<close>

datatype 'a patch = Unset | Null | Value 'a

fun patch_required :: "'a patch \<Rightarrow> 'a \<Rightarrow> 'a" where
  "patch_required (Value v) old = v"
| "patch_required _ old = old"

fun patch_nullable :: "'a patch \<Rightarrow> 'a option \<Rightarrow> 'a option" where
  "patch_nullable Unset old = old"
| "patch_nullable Null old = None"
| "patch_nullable (Value v) old = Some v"

record plan_create =
  pc_name :: string
  pc_slug :: string
  pc_price :: rat
  pc_currency :: string
  pc_duration_days :: int
  pc_max_devices :: int
  pc_max_speed_mbps :: "int option"
  pc_active :: bool

record plan_update =
  pu_name :: "string patch"
  pu_price :: "rat patch"
  pu_duration_days :: "int patch"
  pu_max_devices :: "int patch"
  pu_max_speed_mbps :: "int patch"
  pu_active :: "bool patch"

text \<open>The field constraints of \<^verbatim>\<open>PlanCreate\<close>; \<^verbatim>\<open>PlanUpdate\<close> has none.\<close>

definition plan_create_valid :: "plan_create \<Rightarrow> bool" where
  "plan_create_valid p = (0 \<le> pc_price p \<and> 0 < pc_duration_days p \<and> 0 < pc_max_devices p)"

definition get_by_slug :: "string \<Rightarrow> (plan option) dbM" where
  "get_by_slug s = on_plans (repo_one (\<lambda>p. slug p = s))"

definition list_active_plans :: "database \<Rightarrow> plan list" where
  "list_active_plans d = sort_key price (filter plan_active (rows (plans d)))"

definition get_plan :: "int \<Rightarrow> plan dbM" where
  "get_plan i =
     bindM (getM (\<lambda>d. repo_get i (plans d)))
       (requireM (app_error NotFoundError ''Plan not found'' (Some ''plan_not_found'')))"

definition create_plan :: "instant \<Rightarrow> plan_create \<Rightarrow> plan dbM" where
  "create_plan now p =
     bindM (get_by_slug (pc_slug p)) (\<lambda>found.
       if found \<noteq> None
       then raiseM (app_error ConflictError ''Plan slug already exists'' (Some ''plan_slug_taken''))
       else on_plans (repo_add plan_conflict
         \<lparr>rid = 0, created_at = now, plan_name = pc_name p, slug = pc_slug p, price = pc_price p,
          currency = pc_currency p, duration_days = pc_duration_days p,
          max_devices = pc_max_devices p, max_speed_mbps = pc_max_speed_mbps p,
          plan_active = pc_active p\<rparr>))"

definition apply_plan_update :: "plan_update \<Rightarrow> plan \<Rightarrow> plan" where
  "apply_plan_update u p = p\<lparr>
     plan_name := patch_required (pu_name u) (plan_name p),
     price := patch_required (pu_price u) (price p),
     duration_days := patch_required (pu_duration_days u) (duration_days p),
     max_devices := patch_required (pu_max_devices u) (max_devices p),
     max_speed_mbps := patch_nullable (pu_max_speed_mbps u) (max_speed_mbps p),
     plan_active := patch_required (pu_active u) (plan_active p)\<rparr>"

text \<open>A null for a column that is not nullable fails at the flush.\<close>

definition update_plan :: "int \<Rightarrow> plan_update \<Rightarrow> plan dbM" where
  "update_plan i u =
     bindM (get_plan i) (\<lambda>p.
       if pu_name u = Null \<or> pu_price u = Null \<or> pu_duration_days u = Null \<or>
          pu_max_devices u = Null \<or> pu_active u = Null
       then raiseM IntegrityError
       else bindM (on_plans (modifyM (repo_update (rid p) (apply_plan_update u)))) (\<lambda>_.
            returnM (apply_plan_update u p)))"

section \<open>Subscriptions\<close>

text \<open>\<^verbatim>\<open>subscription.plan\<close>; the foreign key is not null, so its absence would be an attribute error.\<close>

definition plan_of :: "subscription \<Rightarrow> plan dbM" where
  "plan_of s = bindM (getM (\<lambda>d. repo_get (sub_plan_id s) (plans d))) (requireM (PyError ''AttributeError''))"

definition get_subscription :: "int \<Rightarrow> subscription dbM" where
  "get_subscription i =
     bindM (getM (\<lambda>d. repo_get i (subscriptions d)))
       (requireM (app_error NotFoundError ''Subscription not found'' (Some ''subscription_not_found'')))"

text \<open>\<^verbatim>\<open>ORDER BY expires_at DESC\<close>, where PostgreSQL puts nulls first, and the first row of it.\<close>

definition latest_expiry :: "subscription list \<Rightarrow> subscription option" where
  "latest_expiry ss =
     (case find (\<lambda>s. expires_at s = None) ss of
        Some s \<Rightarrow> Some s
      | None \<Rightarrow> first_max (\<lambda>s. the (expires_at s)) ss)"

definition get_active_for_user :: "int \<Rightarrow> database \<Rightarrow> subscription option" where
  "get_active_for_user uid d =
     latest_expiry (filter (\<lambda>s. sub_user_id s = uid \<and> sub_status s = SubActive) (rows (subscriptions d)))"

definition list_expired :: "instant \<Rightarrow> database \<Rightarrow> subscription list" where
  "list_expired as_of d =
     filter (\<lambda>s. sub_status s = SubActive \<and>
                 (case expires_at s of None \<Rightarrow> False | Some e \<Rightarrow> e \<le> as_of)) (rows (subscriptions d))"

definition list_subscriptions_for_user :: "int \<Rightarrow> database \<Rightarrow> subscription list" where
  "list_subscriptions_for_user uid d =
     sort_key (\<lambda>s. - created_at s) (filter (\<lambda>s. sub_user_id s = uid) (rows (subscriptions d)))"

definition create_pending :: "instant \<Rightarrow> user \<Rightarrow> plan \<Rightarrow> bool \<Rightarrow> subscription dbM" where
  "create_pending now u p renew =
     (if \<not> plan_active p
      then raiseM (app_error ValidationAppError ''Plan is not active'' (Some ''plan_inactive''))
      else on_subscriptions (repo_add no_conflict
        \<lparr>rid = 0, created_at = now, sub_user_id = rid u, sub_plan_id = rid p, sub_status = SubPending,
         started_at = None, expires_at = None, auto_renew = renew, device_limit_override = None\<rparr>))"

definition update_subscription :: "int \<Rightarrow> (subscription \<Rightarrow> subscription) \<Rightarrow> unit dbM" where
  "update_subscription i f = on_subscriptions (modifyM (repo_update i f))"

text \<open>
  \<^verbatim>\<open>base + timedelta(days=n)\<close> in microseconds: \<^verbatim>\<open>timedelta\<close> takes at most 999999999 days, and a
  datetime lies between the years 1 and 9999.
\<close>

definition min_instant :: instant where "min_instant = - 62135596800000000"

definition max_instant :: instant where "max_instant = 253402300799999999"

definition add_days :: "instant \<Rightarrow> int \<Rightarrow> instant option" where
  "add_days base n =
     (let t = base + n * 86400000000 in
      if \<bar>n\<bar> > 999999999 \<or> t < min_instant \<or> t > max_instant then None else Some t)"

definition activation_base :: "instant \<Rightarrow> subscription \<Rightarrow> instant" where
  "activation_base now s =
     (case expires_at s of
        None \<Rightarrow> now
      | Some e \<Rightarrow> if sub_status s = SubActive \<and> e > now then e else now)"

text \<open>The two assignments made before the expiry is computed, then the expiry.\<close>

definition mark_active :: "instant \<Rightarrow> subscription \<Rightarrow> subscription" where
  "mark_active now s = s\<lparr>sub_status := SubActive,
     started_at := Some (case started_at s of None \<Rightarrow> now | Some t \<Rightarrow> t)\<rparr>"

definition activate :: "instant \<Rightarrow> subscription \<Rightarrow> plan \<Rightarrow> subscription dbM" where
  "activate now s p =
     bindM (update_subscription (rid s) (mark_active now)) (\<lambda>_.
     bindM (requireM (PyError ''OverflowError'') (add_days (activation_base now s) (duration_days p))) (\<lambda>e.
     bindM (update_subscription (rid s) (\<lambda>r. r\<lparr>expires_at := Some e\<rparr>)) (\<lambda>_.
     returnM ((mark_active now s)\<lparr>expires_at := Some e\<rparr>))))"

definition cancel_subscription :: "subscription \<Rightarrow> subscription dbM" where
  "cancel_subscription s =
     (let f = (\<lambda>r. r\<lparr>sub_status := SubCancelled, auto_renew := False\<rparr>) in
      bindM (update_subscription (rid s) f) (\<lambda>_. returnM (f s)))"

definition expire_subscription :: "subscription \<Rightarrow> subscription dbM" where
  "expire_subscription s =
     (let f = (\<lambda>r. r\<lparr>sub_status := SubExpired\<rparr>) in
      bindM (update_subscription (rid s) f) (\<lambda>_. returnM (f s)))"

section \<open>Payment providers\<close>

datatype intent_status = IntentPending | IntentSucceeded | IntentFailed

definition parse_intent_status :: "string \<Rightarrow> intent_status option" where
  "parse_intent_status s =
     (if s = ''pending'' then Some IntentPending
      else if s = ''succeeded'' then Some IntentSucceeded
      else if s = ''failed'' then Some IntentFailed else None)"

record payment_intent =
  int_external_payment_id :: string
  int_checkout_url :: "string option"
  int_status :: intent_status

text \<open>A null identifier makes the later comparison \<^verbatim>\<open>IS NULL\<close>, so it is kept as \<^verbatim>\<open>None\<close>.\<close>

record webhook_event =
  ev_external_payment_id :: "string option"
  ev_status :: intent_status
  ev_amount :: json
  ev_currency :: json

text \<open>The \<^verbatim>\<open>PaymentProvider\<close> protocol; a call may raise.\<close>

record gateway =
  gw_create_payment :: "rat \<Rightarrow> string \<Rightarrow> string \<Rightarrow> string \<Rightarrow> exn + payment_intent"
  gw_verify_webhook_signature :: "string \<Rightarrow> string \<Rightarrow> bool"
  gw_parse_webhook :: "string \<Rightarrow> exn + webhook_event"
  gw_refund_payment :: "string \<Rightarrow> exn + bool"

text \<open>\<^verbatim>\<open>payload[key]\<close>\<close>

definition payload_item :: "string \<Rightarrow> json \<Rightarrow> exn + json" where
  "payload_item key payload =
     (case payload of
        JObj _ \<Rightarrow> (case jget key payload of None \<Rightarrow> Inl (PyError ''KeyError'') | Some v \<Rightarrow> Inr v)
      | _ \<Rightarrow> Inl (PyError ''TypeError''))"

definition mock_parse_payload :: "json \<Rightarrow> exn + webhook_event" where
  "mock_parse_payload payload =
     (case payload_item ''external_payment_id'' payload of Inl e \<Rightarrow> Inl e | Inr ext \<Rightarrow>
      case payload_item ''status'' payload of Inl e \<Rightarrow> Inl e | Inr st \<Rightarrow>
      case (case st of JStr s \<Rightarrow> parse_intent_status s | _ \<Rightarrow> None) of
        None \<Rightarrow> Inl (PyError ''ValueError'') | Some status \<Rightarrow>
      case payload_item ''amount'' payload of Inl e \<Rightarrow> Inl e | Inr am \<Rightarrow>
      let ev = (\<lambda>x. \<lparr>ev_external_payment_id = x, ev_status = status, ev_amount = am,
                     ev_currency = (case jget ''currency'' payload of None \<Rightarrow> JStr ''RUB'' | Some c \<Rightarrow> c)\<rparr>) in
      case ext of
        JStr s \<Rightarrow> Inr (ev (Some s))
      | JNull \<Rightarrow> Inr (ev None)
      | _ \<Rightarrow> Inl (PyError ''DBAPIError''))"

text \<open>
  \<^verbatim>\<open>MockPaymentProvider\<close>. Parameters: the JSON parser (\<^verbatim>\<open>None\<close> when \<^verbatim>\<open>orjson\<close> raises) and the random
  part of the identifier the next \<^verbatim>\<open>create_payment\<close> draws.
\<close>

definition mock_gateway :: "crypto \<Rightarrow> (string \<Rightarrow> json option) \<Rightarrow> string \<Rightarrow> string \<Rightarrow> gateway" where
  "mock_gateway k loads secret random =
     \<lparr>gw_create_payment = (\<lambda>amt cur desc key.
        let ext = generate_internal_id ''mock_'' random in
        Inr \<lparr>int_external_payment_id = ext,
             int_checkout_url = Some (''https://mock-payments.local/pay/'' @ ext),
             int_status = IntentPending\<rparr>),
      gw_verify_webhook_signature = (\<lambda>raw sig. verify_hmac k raw secret sig),
      gw_parse_webhook = (\<lambda>raw. case loads raw of
          None \<Rightarrow> Inl (PyError ''JSONDecodeError'') | Some payload \<Rightarrow> mock_parse_payload payload),
      gw_refund_payment = (\<lambda>ext. Inr True)\<rparr>"

text \<open>\<^verbatim>\<open>get_payment_provider\<close>: any other configured provider is not implemented.\<close>

definition get_payment_provider :: "settings \<Rightarrow> gateway \<Rightarrow> ('s, exn, gateway) comp" where
  "get_payment_provider cfg mock =
     (if payment_provider cfg = ''mock'' then returnM mock else raiseM (PyError ''NotImplementedError''))"

section \<open>Payments\<close>

definition liftE :: "'e + 'a \<Rightarrow> ('s, 'e, 'a) comp" where
  "liftE r s = (r, s)"

definition apply_discount :: "rat \<Rightarrow> string \<Rightarrow> rat \<Rightarrow> rat" where
  "apply_discount amt kind val =
     (let discounted = (if kind = ''percent'' then amt * (100 - val) / 100 else amt - val)
      in max discounted 0)"

definition get_promo_by_code :: "string \<Rightarrow> (promo_code option) dbM" where
  "get_promo_by_code c d = scalar_one_or_none (repo_select (\<lambda>p. code p = c) (promo_codes d)) d"

definition get_redemption :: "int \<Rightarrow> int \<Rightarrow> (promo_redemption option) dbM" where
  "get_redemption promo uid =
     on_promo_redemptions (repo_one (\<lambda>r. red_promo_code_id r = promo \<and> red_user_id r = uid))"

text \<open>The checks of a promo code, in the order they are made.\<close>

definition check_promo :: "instant \<Rightarrow> user \<Rightarrow> string \<Rightarrow> promo_code dbM" where
  "check_promo now u c =
     bindM (get_promo_by_code c) (\<lambda>found.
       case found of
         None \<Rightarrow> raiseM (app_error ValidationAppError ''Invalid promo code'' (Some ''invalid_promo_code''))
       | Some p \<Rightarrow>
           if \<not> promo_active p
           then raiseM (app_error ValidationAppError ''Invalid promo code'' (Some ''invalid_promo_code''))
           else if (case valid_from p of None \<Rightarrow> False | Some t \<Rightarrow> now < t)
           then raiseM (app_error ValidationAppError ''Promo code not yet valid'' (Some ''promo_not_active''))
           else if (case valid_until p of None \<Rightarrow> False | Some t \<Rightarrow> now > t)
           then raiseM (app_error ValidationAppError ''Promo code expired'' (Some ''promo_expired''))
           else if (case max_uses p of None \<Rightarrow> False | Some m \<Rightarrow> used_count p \<ge> m)
           then raiseM (app_error ValidationAppError ''Promo code exhausted'' (Some ''promo_exhausted''))
           else bindM (get_redemption (rid p) (rid u)) (\<lambda>r.
             if r \<noteq> None
             then raiseM (app_error ValidationAppError ''Promo code already used by this user''
                            (Some ''promo_already_used''))
             else returnM p))"

definition new_payment ::
  "instant \<Rightarrow> user \<Rightarrow> subscription \<Rightarrow> plan \<Rightarrow> string \<Rightarrow> string \<Rightarrow> string \<Rightarrow> rat \<Rightarrow> promo_code option \<Rightarrow> payment" where
  "new_payment now u s p provider ext key amt promo =
     \<lparr>rid = 0, created_at = now, pay_user_id = rid u, pay_subscription_id = Some (rid s),
      pay_plan_id = rid p, pay_provider = provider, external_payment_id = Some ext,
      idempotency_key = key, amount = amt, pay_currency = currency p, pay_status = PayPending,
      pay_promo_code_id = map_option rid promo, pay_metadata = JObj []\<rparr>"

text \<open>\<^verbatim>\<open>if promo_code:\<close> skips both a missing and an empty code; \<^verbatim>\<open>random\<close> ends the idempotency key.\<close>

definition create_payment ::
  "gateway \<Rightarrow> string \<Rightarrow> instant \<Rightarrow> string \<Rightarrow> user \<Rightarrow> plan \<Rightarrow> string option
     \<Rightarrow> (payment \<times> string option) dbM" where
  "create_payment gw provider now random u p promo_code =
     bindM (if absent promo_code then returnM None
            else bindM (check_promo now u (the promo_code)) (\<lambda>x. returnM (Some x))) (\<lambda>promo.
     let amt = (case promo of
                  None \<Rightarrow> price p
                | Some x \<Rightarrow> apply_discount (price p) (discount_value_str (discount_type x)) (discount_value x));
         key = generate_internal_id ''pay_'' random in
     bindM (create_pending now u p False) (\<lambda>s.
     bindM (liftE (gw_create_payment gw amt (currency p) (''Subscription: '' @ plan_name p) key)) (\<lambda>intent.
     bindM (on_payments (repo_add payment_conflict
              (new_payment now u s p provider (int_external_payment_id intent) key amt promo))) (\<lambda>pay.
     returnM (pay, int_checkout_url intent)))))"

definition get_by_provider_external_id :: "string \<Rightarrow> string option \<Rightarrow> (payment option) dbM" where
  "get_by_provider_external_id provider ext =
     on_payments (repo_one (\<lambda>p. pay_provider p = provider \<and> external_payment_id p = ext))"

definition set_payment_status :: "payment_status \<Rightarrow> payment \<Rightarrow> payment dbM" where
  "set_payment_status st p =
     bindM (on_payments (modifyM (repo_update (rid p) (\<lambda>r. r\<lparr>pay_status := st\<rparr>)))) (\<lambda>_.
     returnM (p\<lparr>pay_status := st\<rparr>))"

definition terminal_payment :: "payment_status \<Rightarrow> bool" where
  "terminal_payment st = (st \<in> {PaySucceeded, PayRefunded, PayCancelled})"

text \<open>The promo code is counted and the redemption recorded only once the payment has succeeded.\<close>

definition redeem_promo :: "instant \<Rightarrow> payment \<Rightarrow> unit dbM" where
  "redeem_promo now pay =
     (case pay_promo_code_id pay of
        None \<Rightarrow> returnM ()
      | Some i \<Rightarrow>
          if i = 0 then returnM ()
          else bindM (getM (\<lambda>d. repo_get i (promo_codes d))) (\<lambda>found.
            case found of
              None \<Rightarrow> returnM ()
            | Some promo \<Rightarrow>
                bindM (modifyM (\<lambda>d. d\<lparr>promo_codes := repo_update i
                         (\<lambda>p. p\<lparr>used_count := used_count p + 1\<rparr>) (promo_codes d)\<rparr>)) (\<lambda>_.
                bindM (on_promo_redemptions (repo_add no_conflict
                         \<lparr>rid = 0, red_promo_code_id = rid promo, red_user_id = pay_user_id pay,
                          red_payment_id = Some (rid pay), redeemed_at = now\<rparr>)) (\<lambda>_.
                returnM ()))))"

definition handle_webhook :: "gateway \<Rightarrow> string \<Rightarrow> instant \<Rightarrow> string \<Rightarrow> string \<Rightarrow> payment dbM" where
  "handle_webhook gw provider now raw_body signature =
     (if \<not> gw_verify_webhook_signature gw raw_body signature
      then raiseM (app_error UnauthorizedError ''Invalid webhook signature'' (Some ''invalid_signature''))
      else
     bindM (liftE (gw_parse_webhook gw raw_body)) (\<lambda>event.
     bindM (get_by_provider_external_id provider (ev_external_payment_id event)) (\<lambda>found.
       case found of
         None \<Rightarrow> raiseM (app_error NotFoundError ''Payment not found for webhook event''
                           (Some ''payment_not_found''))
       | Some pay \<Rightarrow>
           if terminal_payment (pay_status pay) then returnM pay
           else case ev_status event of
             IntentSucceeded \<Rightarrow>
               bindM (set_payment_status PaySucceeded pay) (\<lambda>pay.
               bindM (requireM (app_error ValidationAppError ''Payment has no associated subscription''
                                  (Some ''payment_missing_subscription'')) (pay_subscription_id pay)) (\<lambda>sid.
               bindM (get_subscription sid) (\<lambda>s.
               bindM (plan_of s) (\<lambda>p.
               bindM (activate now s p) (\<lambda>_.
               bindM (redeem_promo now pay) (\<lambda>_.
               returnM pay))))))
           | IntentFailed \<Rightarrow> set_payment_status PayFailed pay
           | IntentPending \<Rightarrow> returnM pay)))"

definition refund :: "gateway \<Rightarrow> payment \<Rightarrow> payment dbM" where
  "refund gw pay =
     (if pay_status pay \<noteq> PaySucceeded
      then raiseM (app_error ValidationAppError ''Only succeeded payments can be refunded''
                     (Some ''payment_not_refundable''))
      else bindM (liftE (gw_refund_payment gw (case external_payment_id pay of None \<Rightarrow> '''' | Some e \<Rightarrow> e)))
        (\<lambda>ok. if ok then set_payment_status PayRefunded pay else returnM pay))"

definition list_payments_for_user :: "int \<Rightarrow> database \<Rightarrow> payment list" where
  "list_payments_for_user uid d =
     sort_key (\<lambda>p. - created_at p) (filter (\<lambda>p. pay_user_id p = uid) (rows (payments d)))"

definition list_all_payments :: "nat \<Rightarrow> nat \<Rightarrow> database \<Rightarrow> payment list" where
  "list_all_payments offset limit d =
     take limit (drop offset (sort_key (\<lambda>p. - created_at p) (rows (payments d))))"

section \<open>Lemmas\<close>

lemma liftE_iff [simp]: "liftE r s = (r', t) \<longleftrightarrow> r' = r \<and> t = s"
  by (auto simp: liftE_def)

lemma get_subscription_Inr:
  "get_subscription i d = (Inr s, d') \<longleftrightarrow> d' = d \<and> repo_get i (subscriptions d) = Some s"
  by (auto simp: get_subscription_def requireM_eq_Inr_iff)

lemma plan_of_Inr:
  "plan_of s d = (Inr p, d') \<longleftrightarrow> d' = d \<and> repo_get (sub_plan_id s) (plans d) = Some p"
  by (auto simp: plan_of_def requireM_eq_Inr_iff)

lemma mark_active_simps [simp]:
  "rid (mark_active now s) = rid s" "expires_at (mark_active now s) = expires_at s"
  "sub_status (mark_active now s) = SubActive" "sub_user_id (mark_active now s) = sub_user_id s"
  by (simp_all add: mark_active_def)

lemma activate_Inr:
  "activate now s p d = (Inr s', d') \<longleftrightarrow>
     (\<exists>e. add_days (activation_base now s) (duration_days p) = Some e \<and>
          s' = (mark_active now s)\<lparr>expires_at := Some e\<rparr> \<and>
          d' = d\<lparr>subscriptions := repo_update (rid s)
                    (\<lambda>r. (mark_active now r)\<lparr>expires_at := Some e\<rparr>) (subscriptions d)\<rparr>)"
  by (auto simp: activate_def update_subscription_def on_subscriptions_def success_iffs
      repo_update_comp)

lemma activate_subscriptions_only:
  "activate now s p d = (r, d') \<Longrightarrow>
     \<exists>f. (\<forall>x. rid (f x) = rid x) \<and> d' = d\<lparr>subscriptions := repo_update (rid s) f (subscriptions d)\<rparr>"
proof (cases "add_days (activation_base now s) (duration_days p)")
  case None
  moreover assume "activate now s p d = (r, d')"
  ultimately show ?thesis
    by (intro exI [of _ "mark_active now"])
      (simp add: activate_def update_subscription_def on_subscriptions_def zoomM_def bindM_def)
next
  case (Some e)
  moreover assume "activate now s p d = (r, d')"
  ultimately show ?thesis
    by (intro exI [of _ "\<lambda>r. (mark_active now r)\<lparr>expires_at := Some e\<rparr>"])
      (simp add: activate_def update_subscription_def on_subscriptions_def zoomM_def bindM_def
        repo_update_comp)
qed

lemma add_days_Some: "add_days b n = Some e \<Longrightarrow> e = b + n * 86400000000"
  by (auto simp: add_days_def Let_def split: if_splits)

lemma activation_base_ge: "now \<le> activation_base now s"
  by (auto simp: activation_base_def split: option.splits)

lemma set_payment_status_eq:
  "set_payment_status st p d =
     (Inr (p\<lparr>pay_status := st\<rparr>),
      d\<lparr>payments := repo_update (rid p) (\<lambda>r. r\<lparr>pay_status := st\<rparr>) (payments d)\<rparr>)"
  by (simp add: set_payment_status_def on_payments_def zoomM_def bindM_def)

lemma redeem_promo_frame:
  "redeem_promo now pay d = (r, d') \<Longrightarrow>
     payments d' = payments d \<and> subscriptions d' = subscriptions d \<and> plans d' = plans d"
  by (auto simp: redeem_promo_def on_promo_redemptions_def zoomM_def bindM_def
      split: option.splits if_splits prod.splits sum.splits)

lemma redeem_promo_returns: "\<exists>d'. redeem_promo now pay d = (Inr (), d')"
  by (simp add: redeem_promo_def on_promo_redemptions_def zoomM_def bindM_def repo_add_def
      no_conflict_def list_ex_iff Let_def split: option.split)

lemma get_by_provider_external_id_iff:
  "get_by_provider_external_id provider ext d = (Inr x, d') \<longleftrightarrow>
     d' = d \<and> repo_one (\<lambda>p. pay_provider p = provider \<and> external_payment_id p = ext) (payments d) =
                (Inr x, payments d)"
  by (auto simp: get_by_provider_external_id_def on_payments_def zoomM_eq_Inr_iff repo_one_Inr)

text \<open>
  What a delivered event does once its signature is good: the payment it names is found, and the
  rest depends on the state of that payment and on the event's status.
\<close>

lemma handle_webhook_found:
  assumes "gw_verify_webhook_signature gw raw sig" and "gw_parse_webhook gw raw = Inr ev"
    and "get_by_provider_external_id prov (ev_external_payment_id ev) d = (Inr (Some pay), d)"
  shows "handle_webhook gw prov now raw sig d =
    (if terminal_payment (pay_status pay) then (Inr pay, d)
     else case ev_status ev of
       IntentSucceeded \<Rightarrow>
         bindM (set_payment_status PaySucceeded pay) (\<lambda>pay.
         bindM (requireM (app_error ValidationAppError ''Payment has no associated subscription''
                            (Some ''payment_missing_subscription'')) (pay_subscription_id pay)) (\<lambda>sid.
         bindM (get_subscription sid) (\<lambda>s.
         bindM (plan_of s) (\<lambda>p.
         bindM (activate now s p) (\<lambda>_.
         bindM (redeem_promo now pay) (\<lambda>_.
         returnM pay)))))) d
     | IntentFailed \<Rightarrow> set_payment_status PayFailed pay d
     | IntentPending \<Rightarrow> (Inr pay, d))"
  using assms by (simp add: handle_webhook_def bindM_def liftE_def split: intent_status.split)

lemma handle_webhook_cases:
  assumes "handle_webhook gw prov now raw sig d = (r, d')"
  obtains (refused) e where "r = Inl e" "d' = d"
  | (found) ev pay where "gw_verify_webhook_signature gw raw sig" "gw_parse_webhook gw raw = Inr ev"
      "get_by_provider_external_id prov (ev_external_payment_id ev) d = (Inr (Some pay), d)"
proof (cases "gw_verify_webhook_signature gw raw sig")
  case False
  with assms show ?thesis by (auto simp: handle_webhook_def intro: refused)
next
  case ok: True
  show ?thesis
  proof (cases "gw_parse_webhook gw raw")
    case (Inl e)
    with assms ok show ?thesis by (auto simp: handle_webhook_def bindM_def liftE_def intro: refused)
  next
    case (Inr ev)
    obtain x d1 where g: "get_by_provider_external_id prov (ev_external_payment_id ev) d = (x, d1)"
      by (cases "get_by_provider_external_id prov (ev_external_payment_id ev) d")
    have "d1 = d"
      using g by (auto simp: get_by_provider_external_id_def on_payments_def zoomM_def
          split: prod.splits dest!: read_only_state [OF repo_one_read_only])
    with g assms ok Inr show ?thesis
      by (cases x; cases "projr x")
        (auto simp: handle_webhook_def bindM_def liftE_def split: option.splits
          intro: refused found)
  qed
qed

lemma handle_webhook_returns:
  assumes "handle_webhook gw prov now raw sig d = (Inr p, d')" and "gw_parse_webhook gw raw = Inr ev"
  shows "gw_verify_webhook_signature gw raw sig \<and>
     (\<exists>p0. get_by_provider_external_id prov (ev_external_payment_id ev) d = (Inr (Some p0), d))"
  using assms(1) by (cases rule: handle_webhook_cases) (use assms(2) in auto)

text \<open>The effect of a webhook that goes through to the end for a payment not yet settled.\<close>

lemma handle_webhook_success:
  assumes "gw_verify_webhook_signature gw raw sig" and "gw_parse_webhook gw raw = Inr ev"
    and "get_by_provider_external_id prov (ev_external_payment_id ev) d = (Inr (Some pay), d)"
    and "\<not> terminal_payment (pay_status pay)" and "ev_status ev = IntentSucceeded"
    and "handle_webhook gw prov now raw sig d = (r, d')"
  shows "payments d' = repo_update (rid pay) (\<lambda>x. x\<lparr>pay_status := PaySucceeded\<rparr>) (payments d) \<and>
     (\<exists>i f. (\<forall>x. rid (f x) = rid x) \<and>
        (subscriptions d' = subscriptions d \<or>
         pay_subscription_id pay = Some i \<and> subscriptions d' = repo_update i f (subscriptions d)))"
proof -
  let ?d = "d\<lparr>payments := repo_update (rid pay) (\<lambda>x. x\<lparr>pay_status := PaySucceeded\<rparr>) (payments d)\<rparr>"
  from assms have run: "bindM (requireM (app_error ValidationAppError ''Payment has no associated subscription''
          (Some ''payment_missing_subscription'')) (pay_subscription_id pay)) (\<lambda>sid.
       bindM (get_subscription sid) (\<lambda>s. bindM (plan_of s) (\<lambda>p. bindM (activate now s p) (\<lambda>_.
       bindM (redeem_promo now (pay\<lparr>pay_status := PaySucceeded\<rparr>)) (\<lambda>_.
       returnM (pay\<lparr>pay_status := PaySucceeded\<rparr>)))))) ?d = (r, d')"
    unfolding handle_webhook_found [OF assms(1-3)] by (simp add: bindM_def set_payment_status_eq)
  show ?thesis
  proof (cases "pay_subscription_id pay")
    case None
    with run show ?thesis by (auto intro: exI [of _ id])
  next
    case (Some sid)
    show ?thesis
    proof (cases "repo_get sid (subscriptions d)")
      case None
      with run Some show ?thesis by (auto simp: get_subscription_def bindM_def intro: exI [of _ id])
    next
      case s: (Some s)
      have sid: "rid s = sid" using s by (rule repo.get_key)
      show ?thesis
      proof (cases "repo_get (sub_plan_id s) (plans d)")
        case None
        with run Some s show ?thesis
          by (auto simp: get_subscription_def plan_of_def bindM_def intro: exI [of _ id])
      next
        case p: (Some p)
        obtain x d1 where a: "activate now s p ?d = (x, d1)" by (cases "activate now s p ?d")
        from activate_subscriptions_only [OF this] obtain f where f: "\<forall>x. rid (f x) = rid x"
          and d1: "d1 = ?d\<lparr>subscriptions := repo_update (rid s) f (subscriptions d)\<rparr>"
          by auto
        have "payments d' = payments d1 \<and> subscriptions d' = subscriptions d1"
        proof (cases x)
          case (Inl e)
          with run Some s p a show ?thesis
            by (simp add: get_subscription_def plan_of_def bindM_def)
        next
          case (Inr y)
          with run Some s p a show ?thesis
            by (auto simp: get_subscription_def plan_of_def bindM_def dest!: redeem_promo_frame
                split: prod.splits sum.splits)
        qed
        with d1 f Some sid show ?thesis by auto
      qed
    qed
  qed
qed

section \<open>The provider contract\<close>

text \<open>
  What the payment service relies on of a provider: the signature it accepts for a body is the
  provider's own signature of that body, and no other.
\<close>

locale payment_provider =
  fixes gw :: gateway and sign :: "string \<Rightarrow> string"
  assumes accepts_own: "gw_verify_webhook_signature gw raw (sign raw)"
    and accepts_only: "gw_verify_webhook_signature gw raw s \<Longrightarrow> s = sign raw"
begin

lemma forged_webhook_refused:
  "s \<noteq> sign raw \<Longrightarrow> handle_webhook gw prov now raw s d =
     (Inl (AppError UnauthorizedError ''Invalid webhook signature'' ''invalid_signature''), d)"
  using accepts_only [of raw s] by (auto simp: handle_webhook_def)

lemma genuine_webhook_read:
  "gw_parse_webhook gw raw = Inl e \<Longrightarrow> handle_webhook gw prov now raw (sign raw) d = (Inl e, d)"
  using accepts_own [of raw] by (simp add: handle_webhook_def bindM_def liftE_def)

end

interpretation mock: payment_provider "mock_gateway k loads secret random" "\<lambda>raw. sign_hmac k raw secret"
  for k loads secret random
  by unfold_locales (simp_all add: mock_gateway_def verify_hmac_iff)

section \<open>Properties\<close>

text \<open>Concrete data for the examples.\<close>

definition demo_plan :: plan where
  "demo_plan = \<lparr>rid = 1, created_at = 0, plan_name = ''Month'', slug = ''month'', price = 300,
     currency = ''RUB'', duration_days = 30, max_devices = 2, max_speed_mbps = None, plan_active = True\<rparr>"

definition demo_promo :: promo_code where
  "demo_promo = \<lparr>rid = 1, created_at = 0, code = ''HALF'', discount_type = PERCENT, discount_value = 50,
     max_uses = Some 1, used_count = 0, valid_from = None, valid_until = None, promo_active = True\<rparr>"

definition demo_sub :: subscription where
  "demo_sub = \<lparr>rid = 1, created_at = 0, sub_user_id = 1, sub_plan_id = 1, sub_status = SubActive,
     started_at = Some 5, expires_at = Some 9000, auto_renew = False, device_limit_override = None\<rparr>"

text \<open>A JSON reader that knows one kind of body: \<^verbatim>\<open><external id>|<status>\<close>.\<close>

definition demo_loads :: "string \<Rightarrow> json option" where
  "demo_loads raw = (case split_on CHR ''|'' raw of
     [e, s] \<Rightarrow> Some (JObj [(''external_payment_id'', JStr e), (''status'', JStr s), (''amount'', JInt 1)])
   | _ \<Rightarrow> None)"

definition demo_gateway :: "string \<Rightarrow> gateway" where
  "demo_gateway random = mock_gateway demo_crypto demo_loads ''s'' random"

definition demo_sign :: "string \<Rightarrow> string" where
  "demo_sign raw = sign_hmac demo_crypto raw ''s''"

definition demo_db :: database where
  "demo_db = empty_db\<lparr>users := tbl [demo_user], plans := tbl [demo_plan],
     promo_codes := tbl [demo_promo], subscriptions := tbl [demo_sub]\<rparr>"

text \<open>Activation sets the subscription active until its base plus the plan's days, the base being
  the present or, for a subscription active and not yet expired, its own expiry: with a plan of
  non-negative length the expiry lies no earlier than now and never before the old one, the start
  is set once, and no other subscription changes.\<close>

theorem activate_never_shortens:
  assumes "repo_get (rid s) (subscriptions d) = Some s" and "0 \<le> duration_days p"
    and "activate now s p d = (Inr s', d')"
  shows "repo_get (rid s) (subscriptions d') = Some s' \<and> sub_status s' = SubActive \<and>
     started_at s' = Some (case started_at s of None \<Rightarrow> now | Some t \<Rightarrow> t) \<and>
     (\<exists>e. expires_at s' = Some e \<and> e = activation_base now s + duration_days p * 86400000000 \<and> now \<le> e \<and>
        (sub_status s = SubActive \<longrightarrow> (\<forall>old. expires_at s = Some old \<longrightarrow> old \<le> e))) \<and>
     (\<forall>i. i \<noteq> rid s \<longrightarrow> repo_get i (subscriptions d') = repo_get i (subscriptions d))"
proof -
  obtain e where e: "add_days (activation_base now s) (duration_days p) = Some e"
    and s': "s' = (mark_active now s)\<lparr>expires_at := Some e\<rparr>"
    and d': "d' = d\<lparr>subscriptions := repo_update (rid s)
                    (\<lambda>r. (mark_active now r)\<lparr>expires_at := Some e\<rparr>) (subscriptions d)\<rparr>"
    using assms(3) by (auto simp: activate_Inr)
  have val: "e = activation_base now s + duration_days p * 86400000000"
    using e by (rule add_days_Some)
  have ge: "activation_base now s \<le> e"
    using val assms(2) by simp
  have "old \<le> e" if "sub_status s = SubActive" "expires_at s = Some old" for old
    using ge that by (auto simp: activation_base_def split: if_splits)
  moreover have "now \<le> e"
    using ge activation_base_ge [of now s] by simp
  ultimately show ?thesis
    using s' d' assms(1) val by (auto simp: get_update mark_active_def split: option.split)
qed

lemma activate_never_shortens_witness:
  "\<exists>s' d'. activate 100 demo_sub demo_plan demo_db = (Inr s', d') \<and>
     expires_at s' = Some (9000 + 30 * 86400000000)"
proof -
  have "\<exists>s' d'. activate 100 demo_sub demo_plan demo_db = (Inr s', d')"
    by (simp add: activate_Inr demo_sub_def demo_plan_def activation_base_def add_days_def
        min_instant_def max_instant_def)
  then obtain s' d' where run: "activate 100 demo_sub demo_plan demo_db = (Inr s', d')" by blast
  have get: "repo_get (rid demo_sub) (subscriptions demo_db) = Some demo_sub"
    by (simp add: demo_db_def tbl_def repo_get_def)
  have pos: "0 \<le> duration_days demo_plan" by (simp add: demo_plan_def)
  from activate_never_shortens [OF get pos run] run show ?thesis
    by (auto simp: activation_base_def demo_sub_def demo_plan_def)
qed

text \<open>C17: A webhook is idempotent: once a delivery has returned the payment settled, every further
  delivery with a good signature that names the same payment, whatever status it reports, returns
  that payment and changes nothing.\<close>

theorem handle_webhook_idempotent:
  assumes "handle_webhook gw prov now raw sig d = (Inr pay, d')" and "terminal_payment (pay_status pay)"
    and "gw_parse_webhook gw raw = Inr ev"
    and "gw_verify_webhook_signature gw raw2 sig2" and "gw_parse_webhook gw raw2 = Inr ev2"
    and "ev_external_payment_id ev2 = ev_external_payment_id ev"
  shows "handle_webhook gw prov now2 raw2 sig2 d' = (Inr pay, d')"
proof -
  let ?P = "\<lambda>p. pay_provider p = prov \<and> external_payment_id p = ev_external_payment_id ev"
  obtain p0 where ver: "gw_verify_webhook_signature gw raw sig"
    and g: "get_by_provider_external_id prov (ev_external_payment_id ev) d = (Inr (Some p0), d)"
    using handle_webhook_returns [OF assms(1,3)] by blast
  have one: "repo_one ?P (payments d) = (Inr (Some p0), payments d)"
    using g by (simp add: get_by_provider_external_id_iff)
  note run = assms(1) [unfolded handle_webhook_found [OF ver assms(3) g]]
  have "repo_one ?P (payments d') = (Inr (Some pay), payments d')"
  proof (cases "terminal_payment (pay_status p0)")
    case True
    with run one show ?thesis by simp
  next
    case open_: False
    show ?thesis
    proof (cases "ev_status ev")
      case IntentSucceeded
      have "payments d' = repo_update (rid p0) (\<lambda>x. x\<lparr>pay_status := PaySucceeded\<rparr>) (payments d)"
        using handle_webhook_success [OF ver assms(3) g open_ IntentSucceeded assms(1)] by blast
      moreover have "pay = p0\<lparr>pay_status := PaySucceeded\<rparr>"
        using run open_ IntentSucceeded by (auto simp: success_iffs set_payment_status_eq)
      ultimately show ?thesis
        using repo_one_update [OF one, of "\<lambda>x. x\<lparr>pay_status := PaySucceeded\<rparr>"] by simp
    qed (use run open_ assms(2) in \<open>auto simp: set_payment_status_eq terminal_payment_def\<close>)
  qed
  then have "get_by_provider_external_id prov (ev_external_payment_id ev2) d' = (Inr (Some pay), d')"
    by (simp add: get_by_provider_external_id_iff assms(6))
  from handle_webhook_found [OF assms(4,5) this] assms(2) show ?thesis by simp
qed

text \<open>Subscriptions change through a webhook only when its signature is good, the event reports
  success and the payment it names was not yet settled; then only the subscription of that payment
  can change. Delivering anything else, or failing, leaves all subscriptions as they were.\<close>

theorem webhook_changes_only_paid_subscription:
  assumes "handle_webhook gw prov now raw sig d = (r, d')" and "subscriptions d' \<noteq> subscriptions d"
  shows "gw_verify_webhook_signature gw raw sig \<and>
     (\<exists>ev pay sid. gw_parse_webhook gw raw = Inr ev \<and> ev_status ev = IntentSucceeded \<and>
        pay \<in> set (rows (payments d)) \<and> pay_provider pay = prov \<and>
        external_payment_id pay = ev_external_payment_id ev \<and> \<not> terminal_payment (pay_status pay) \<and>
        pay_subscription_id pay = Some sid \<and>
        (\<forall>i. i \<noteq> sid \<longrightarrow> repo_get i (subscriptions d') = repo_get i (subscriptions d)))"
  using assms(1)
proof (cases rule: handle_webhook_cases)
  case refused
  with assms(2) show ?thesis by simp
next
  case (found ev pay)
  note run = assms(1) [unfolded handle_webhook_found [OF found]]
  have open_: "\<not> terminal_payment (pay_status pay)" and st: "ev_status ev = IntentSucceeded"
    using run assms(2) by (auto simp: set_payment_status_eq split: if_splits intent_status.splits)
  from found(3) have "filter (\<lambda>p. pay_provider p = prov \<and> external_payment_id p = ev_external_payment_id ev)
      (rows (payments d)) = [pay]"
    by (simp add: get_by_provider_external_id_iff repo_one_Inr)
  then have pay: "pay \<in> set (rows (payments d)) \<and> pay_provider pay = prov \<and>
      external_payment_id pay = ev_external_payment_id ev"
    by (metis (mono_tags, lifting) list.set_intros(1) mem_Collect_eq set_filter)
  from handle_webhook_success [OF found open_ st assms(1)] assms(2) obtain sid f where
    "pay_subscription_id pay = Some sid" "\<forall>x. rid (f x) = rid x"
    "subscriptions d' = repo_update sid f (subscriptions d)"
    by auto
  then show ?thesis
    using found(1,2) st pay open_ by (auto simp: get_update)
qed

text \<open>With the mock provider a webhook whose signature is not the HMAC of its body under the
  webhook secret is refused with one error and changes nothing.\<close>

theorem forged_mock_webhook_refused:
  assumes "sig \<noteq> sign_hmac k raw secret"
  shows "handle_webhook (mock_gateway k loads secret random) prov now raw sig d =
     (Inl (AppError UnauthorizedError ''Invalid webhook signature'' ''invalid_signature''), d)"
  using assms by (rule mock.forged_webhook_refused)

lemma forged_mock_webhook_refused_witness:
  "handle_webhook (demo_gateway ''r'') ''mock'' 7 ''mock_a|succeeded'' ''bad'' demo_db =
     (Inl (AppError UnauthorizedError ''Invalid webhook signature'' ''invalid_signature''), demo_db)"
  unfolding demo_gateway_def
  by (rule forged_mock_webhook_refused) (simp add: sign_hmac_def demo_crypto_def)

text \<open>A purchase with the promo code, and the state after it.\<close>

definition demo_buy :: "string \<Rightarrow> instant \<Rightarrow> (payment \<times> string option) dbM" where
  "demo_buy r now = create_payment (demo_gateway r) ''mock'' now r demo_user demo_plan (Some ''HALF'')"

definition demo_bought :: database where
  "demo_bought = snd (demo_buy ''a'' 10 demo_db)"

definition demo_paid :: "string \<Rightarrow> instant \<Rightarrow> payment dbM" where
  "demo_paid r now = (let raw = ''mock_'' @ r @ ''|succeeded'' in
     handle_webhook (demo_gateway '''') ''mock'' now raw (demo_sign raw))"

lemma demo_paid_once:
  "case demo_paid ''a'' 20 demo_bought of
     (Inr p, _) \<Rightarrow> pay_status p = PaySucceeded \<and> amount p = 150 | _ \<Rightarrow> False"
  by code_simp

lemma handle_webhook_idempotent_witness:
  "\<exists>p d'. demo_paid ''a'' 20 demo_bought = (Inr p, d') \<and> demo_paid ''a'' 99 d' = (Inr p, d')"
proof -
  obtain p d' where run: "demo_paid ''a'' 20 demo_bought = (Inr p, d')" and st: "pay_status p = PaySucceeded"
    using demo_paid_once by (auto split: prod.splits sum.splits)
  let ?raw = "''mock_a|succeeded''"
  let ?gw = "demo_gateway ''''"
  obtain ev where ev: "gw_parse_webhook ?gw ?raw = Inr ev"
  proof -
    have "case gw_parse_webhook ?gw ?raw of Inr _ \<Rightarrow> True | _ \<Rightarrow> False" by code_simp
    then show ?thesis by (auto intro: that split: sum.splits)
  qed
  have ok: "gw_verify_webhook_signature ?gw ?raw (demo_sign ?raw)"
    unfolding demo_gateway_def demo_sign_def by (rule mock.accepts_own)
  have run2: "handle_webhook ?gw ''mock'' 20 ?raw (demo_sign ?raw) demo_bought = (Inr p, d')"
    using run by (simp add: demo_paid_def Let_def)
  have "terminal_payment (pay_status p)"
    using st by (simp add: terminal_payment_def)
  from handle_webhook_idempotent [OF run2 this ev ok ev refl] run show ?thesis
    by (auto simp: demo_paid_def Let_def)
qed

lemma webhook_changes_only_paid_subscription_witness:
  "\<exists>p d'. demo_paid ''a'' 20 demo_bought = (Inr p, d') \<and>
     repo_get 1 (subscriptions d') = repo_get 1 (subscriptions demo_bought)"
proof -
  obtain p d' where run: "demo_paid ''a'' 20 demo_bought = (Inr p, d')"
    using demo_paid_once by (auto split: prod.splits sum.splits)
  have new: "repo_get 2 (subscriptions (snd (demo_paid ''a'' 20 demo_bought))) \<noteq> repo_get 2 (subscriptions demo_bought)"
    by code_simp
  then have ne: "subscriptions d' \<noteq> subscriptions demo_bought"
    using run by auto
  have "handle_webhook (demo_gateway '''') ''mock'' 20 ''mock_a|succeeded'' (demo_sign ''mock_a|succeeded'')
      demo_bought = (Inr p, d')"
    using run by (simp add: demo_paid_def Let_def)
  from webhook_changes_only_paid_subscription [OF this ne] obtain sid where
    others: "\<forall>i. i \<noteq> sid \<longrightarrow> repo_get i (subscriptions d') = repo_get i (subscriptions demo_bought)"
    by blast
  have "sid = 2"
    using new run others by (metis snd_conv)
  with others run show ?thesis by auto
qed

text \<open>The promo checks run in a fixed order, the first that fails deciding the error; a code is
  accepted exactly when it exists, is active, its window contains the present, its uses are not
  exhausted and this user has no recorded redemption of it.\<close>

theorem check_promo_ladder:
  assumes "table_unique promo_conflict (promo_codes d)"
    and "\<forall>p. length (filter (\<lambda>r. red_promo_code_id r = p \<and> red_user_id r = rid u) (rows (promo_redemptions d))) \<le> 1"
  shows "check_promo now u c d =
    (case find (\<lambda>p. code p = c) (rows (promo_codes d)) of
       None \<Rightarrow> (Inl (AppError ValidationAppError ''Invalid promo code'' ''invalid_promo_code''), d)
     | Some p \<Rightarrow>
         (if \<not> promo_active p
          then (Inl (AppError ValidationAppError ''Invalid promo code'' ''invalid_promo_code''), d)
          else if \<exists>t. valid_from p = Some t \<and> now < t
          then (Inl (AppError ValidationAppError ''Promo code not yet valid'' ''promo_not_active''), d)
          else if \<exists>t. valid_until p = Some t \<and> t < now
          then (Inl (AppError ValidationAppError ''Promo code expired'' ''promo_expired''), d)
          else if \<exists>m. max_uses p = Some m \<and> m \<le> used_count p
          then (Inl (AppError ValidationAppError ''Promo code exhausted'' ''promo_exhausted''), d)
          else if \<exists>r \<in> set (rows (promo_redemptions d)). red_promo_code_id r = rid p \<and> red_user_id r = rid u
          then (Inl (AppError ValidationAppError ''Promo code already used by this user''
                       ''promo_already_used''), d)
          else (Inr p, d)))"
proof -
  have code: "get_promo_by_code c d = (Inr (find (\<lambda>p. code p = c) (rows (promo_codes d))), d)"
    using repo_one_unique [OF assms(1), of "\<lambda>p. code p = c"]
    by (simp add: get_promo_by_code_def repo_one_def repo_select_def promo_conflict_def
        scalar_one_or_none_def split: list.splits)
  have red: "\<exists>x. get_redemption i (rid u) d = (Inr x, d) \<and>
      (x \<noteq> None \<longleftrightarrow> (\<exists>r \<in> set (rows (promo_redemptions d)). red_promo_code_id r = i \<and> red_user_id r = rid u))" for i
  proof -
    let ?F = "filter (\<lambda>r. red_promo_code_id r = i \<and> red_user_id r = rid u) (rows (promo_redemptions d))"
    have mem: "(\<exists>r \<in> set (rows (promo_redemptions d)). red_promo_code_id r = i \<and> red_user_id r = rid u) \<longleftrightarrow> ?F \<noteq> []"
      by (auto simp: filter_empty_conv)
    have "length ?F \<le> 1" using assms(2) by simp
    then show ?thesis
      unfolding mem
      by (cases ?F rule: remdups_adj.cases)
        (auto simp: get_redemption_def on_promo_redemptions_def zoomM_def repo_one_def repo_select_def
          scalar_one_or_none_def)
  qed
  show ?thesis
  proof (cases "find (\<lambda>p. code p = c) (rows (promo_codes d))")
    case None
    then show ?thesis by (simp add: check_promo_def bindM_def code)
  next
    case (Some p)
    obtain x where "get_redemption (rid p) (rid u) d = (Inr x, d)"
      and "x \<noteq> None \<longleftrightarrow> (\<exists>r \<in> set (rows (promo_redemptions d)). red_promo_code_id r = rid p \<and> red_user_id r = rid u)"
      using red [of "rid p"] by blast
    then show ?thesis
      using Some
      by (cases x; cases "valid_from p"; cases "valid_until p"; cases "max_uses p")
        (auto simp: check_promo_def bindM_def code)
  qed
qed

lemma check_promo_ladder_witness:
  "check_promo 10 demo_user ''HALF'' demo_db = (Inr demo_promo, demo_db)"
  by (subst check_promo_ladder)
    (simp_all add: table_unique_def demo_db_def tbl_def demo_promo_def empty_db_def empty_table_def)

lemma on_subscriptions_add:
  "on_subscriptions (repo_add no_conflict r) d =
     (let r' = r\<lparr>rid := next_id (subscriptions d)\<rparr> in
      (Inr r', d\<lparr>subscriptions := (subscriptions d)\<lparr>rows := rows (subscriptions d) @ [r'],
                                    next_id := next_id (subscriptions d) + 1\<rparr>\<rparr>))"
  by (simp add: on_subscriptions_def zoomM_def repo_add_def no_conflict_def list_ex_iff Let_def)

lemma check_promo_read_only: "check_promo now u c d = (r, d') \<Longrightarrow> d' = d"
  by (auto simp: check_promo_def get_promo_by_code_def scalar_one_or_none_def get_redemption_def
      on_promo_redemptions_def zoomM_def bindM_def
      split: list.splits option.splits if_splits prod.splits sum.splits
      dest!: read_only_state [OF repo_one_read_only])

lemma apply_discount_bounds:
  "0 \<le> apply_discount a kind v \<and> (0 \<le> v \<and> 0 \<le> a \<longrightarrow> apply_discount a kind v \<le> a)"
proof -
  have "a * (100 - v) / 100 \<le> a" if "0 \<le> v" "0 \<le> a"
    using that by (simp add: field_simps)
  then show ?thesis by (auto simp: apply_discount_def Let_def)
qed

lemma create_payment_rows:
  assumes "wf_table (subscriptions d)"
    and "create_payment gw prov now rnd u p pc d = (Inr (pay, url), d')"
  shows "(\<exists>s. pay_subscription_id pay = Some (rid s) \<and> sub_status s = SubPending \<and>
            sub_user_id s = rid u \<and> sub_plan_id s = rid p \<and> expires_at s = None \<and>
            rows (subscriptions d') = rows (subscriptions d) @ [s] \<and>
            repo_get (rid s) (subscriptions d) = None) \<and>
         plan_active p \<and> pay_status pay = PayPending \<and> pay \<in> set (rows (payments d')) \<and>
         plans d' = plans d \<and>
         (absent pc \<and> amount pay = price p \<or>
          \<not> absent pc \<and> (\<exists>x \<in> set (rows (promo_codes d)).
             amount pay = apply_discount (price p) (discount_value_str (discount_type x)) (discount_value x)))"
proof -
  let ?s = "\<lparr>rid = next_id (subscriptions d), created_at = now, sub_user_id = rid u, sub_plan_id = rid p,
     sub_status = SubPending, started_at = None, expires_at = None, auto_renew = False,
     device_limit_override = None\<rparr>"
  let ?promo = "if absent pc then returnM None
            else bindM (check_promo now u (the pc)) (\<lambda>x. returnM (Some x))"
  obtain promo d1 where pr: "?promo d = (Inr promo, d1)"
    using assms(2) by (auto simp: create_payment_def bindM_eq_Inr_iff)
  have d1: "d1 = d"
    using pr by (auto simp: bindM_eq_Inr_iff dest: check_promo_read_only split: if_splits)
  have none: "absent pc \<longleftrightarrow> promo = None"
    using pr by (auto simp: bindM_eq_Inr_iff split: if_splits)
  have mem: "x \<in> set (rows (promo_codes d))" if "promo = Some x" for x
  proof -
    from that pr have "check_promo now u (the pc) d = (Inr x, d1)"
      by (auto simp: bindM_eq_Inr_iff split: if_splits)
    then have "repo_select (\<lambda>p. code p = the pc) (promo_codes d) = [x]"
      by (auto simp: check_promo_def get_promo_by_code_def scalar_one_or_none_def bindM_eq_Inr_iff
          split: list.splits option.splits if_splits)
    then show ?thesis
      unfolding repo_select_def by (metis (mono_tags, lifting) list.set_intros(1) mem_Collect_eq set_filter)
  qed
  let ?amt = "case promo of None \<Rightarrow> price p
                | Some x \<Rightarrow> apply_discount (price p) (discount_value_str (discount_type x)) (discount_value x)"
  let ?d2 = "d\<lparr>subscriptions := (subscriptions d)\<lparr>rows := rows (subscriptions d) @ [?s],
                                next_id := next_id (subscriptions d) + 1\<rparr>\<rparr>"
  from assms(2) pr d1 obtain ext t where act: "plan_active p"
    and add: "repo_add payment_conflict (new_payment now u ?s p prov ext (generate_internal_id ''pay_'' rnd)
              ?amt promo) (payments d) = (Inr pay, t)" and d': "d' = ?d2\<lparr>payments := t\<rparr>"
    by (auto simp: create_payment_def bindM_eq_Inr_iff Let_def create_pending_def on_subscriptions_add
        on_payments_def zoomM_eq_Inr_iff split: if_splits)
  have pay: "pay = (new_payment now u ?s p prov ext (generate_internal_id ''pay_'' rnd) ?amt promo)
      \<lparr>rid := next_id (payments d)\<rparr>" and t: "rows t = rows (payments d) @ [pay]"
    using add by (simp_all add: repo_add_Inr)
  have fresh: "repo_get (next_id (subscriptions d)) (subscriptions d) = None"
    using assms(1) by (simp add: wf_table_def repo_get_def find_none_fresh)
  have "absent pc \<and> amount pay = price p \<or> \<not> absent pc \<and> (\<exists>x \<in> set (rows (promo_codes d)).
      amount pay = apply_discount (price p) (discount_value_str (discount_type x)) (discount_value x))"
    using none pay mem by (cases promo) (auto simp: new_payment_def)
  then show ?thesis
    using d' act fresh pay t by (auto simp: new_payment_def)
qed

text \<open>Creating a payment stores one pending payment for one new pending subscription of the user
  and the plan and activates nothing: every subscription there was is unchanged and the user's
  active subscription is the same. The amount is the plan's price, or with a promo code the
  discounted price, never negative and, for a non-negative discount and price, never above it.\<close>

theorem create_payment_activates_nothing:
  assumes "wf_table (subscriptions d)"
    and "create_payment gw prov now rnd u p pc d = (Inr (pay, url), d')"
  shows "(\<exists>s. pay_subscription_id pay = Some (rid s) \<and> sub_status s = SubPending \<and>
            sub_user_id s = rid u \<and> sub_plan_id s = rid p \<and>
            rows (subscriptions d') = rows (subscriptions d) @ [s] \<and>
            repo_get (rid s) (subscriptions d) = None) \<and>
         plan_active p \<and> pay_status pay = PayPending \<and> pay \<in> set (rows (payments d')) \<and>
         get_active_for_user i d' = get_active_for_user i d \<and>
         (if absent pc then amount pay = price p else 0 \<le> amount pay) \<and>
         (0 \<le> price p \<and> (\<forall>x \<in> set (rows (promo_codes d)). 0 \<le> discount_value x) \<longrightarrow> amount pay \<le> price p)"
proof -
  from create_payment_rows [OF assms] obtain s where s: "pay_subscription_id pay = Some (rid s)"
      "sub_status s = SubPending" "sub_user_id s = rid u" "sub_plan_id s = rid p"
      "rows (subscriptions d') = rows (subscriptions d) @ [s]"
      "repo_get (rid s) (subscriptions d) = None"
    and rest: "plan_active p" "pay_status pay = PayPending" "pay \<in> set (rows (payments d'))"
    and amt: "absent pc \<and> amount pay = price p \<or> \<not> absent pc \<and> (\<exists>x \<in> set (rows (promo_codes d)).
       amount pay = apply_discount (price p) (discount_value_str (discount_type x)) (discount_value x))"
    by blast
  have "get_active_for_user i d' = get_active_for_user i d"
    using s by (simp add: get_active_for_user_def)
  moreover have "if absent pc then amount pay = price p else 0 \<le> amount pay"
    using amt apply_discount_bounds by auto
  moreover have "0 \<le> price p \<and> (\<forall>x \<in> set (rows (promo_codes d)). 0 \<le> discount_value x) \<longrightarrow> amount pay \<le> price p"
    using amt apply_discount_bounds by auto
  ultimately show ?thesis
    using s rest by blast
qed

lemma create_payment_activates_nothing_witness:
  "\<exists>pay url d'. demo_buy ''a'' 10 demo_db = (Inr (pay, url), d') \<and> 0 \<le> amount pay \<and> amount pay \<le> 300 \<and>
     get_active_for_user 1 d' = get_active_for_user 1 demo_db"
proof -
  have "case demo_buy ''a'' 10 demo_db of (Inr _, _) \<Rightarrow> True | _ \<Rightarrow> False" by code_simp
  then obtain pay url d' where run: "demo_buy ''a'' 10 demo_db = (Inr (pay, url), d')"
    by (auto split: prod.splits sum.splits)
  have wf: "wf_table (subscriptions demo_db)" by code_simp
  have "\<forall>x \<in> set (rows (promo_codes demo_db)). 0 \<le> discount_value x" "price demo_plan = 300"
    by (simp_all add: demo_db_def tbl_def demo_promo_def demo_plan_def)
  with create_payment_activates_nothing [OF wf run [unfolded demo_buy_def], of 1] run show ?thesis
    by (auto simp: absent_def)
qed

text \<open>A promo code meant for one use by one user can be used twice: the redemption is recorded
  only when the webhook of a payment arrives, so two payments opened before the first is paid both
  carry the discount and both are redeemed, past the limit of the code as well; after that the
  user's next attempt fails with an unhandled exception instead of a refusal.\<close>

theorem promo_redeemed_twice:
  "\<exists>d p1 p2 d'. bindM (demo_buy ''a'' 10) (\<lambda>_. demo_buy ''b'' 11) demo_db = (Inr d, p1) \<and>
     bindM (demo_paid ''a'' 20) (\<lambda>_. demo_paid ''b'' 21) p1 = (Inr p2, d') \<and>
     amount (fst d) = 150 \<and> pay_status p2 = PaySucceeded \<and> amount p2 = 150 \<and>
     map max_uses (rows (promo_codes d')) = [Some 1] \<and> map used_count (rows (promo_codes d')) = [2] \<and>
     map red_user_id (rows (promo_redemptions d')) = [1, 1] \<and>
     fst (demo_buy ''c'' 30 (d'\<lparr>promo_codes := tbl [demo_promo\<lparr>max_uses := None\<rparr>]\<rparr>)) =
       Inl (PyError ''MultipleResultsFound'')"
proof -
  let ?r = "bindM (demo_buy ''a'' 10) (\<lambda>_. demo_buy ''b'' 11) demo_db"
  let ?s = "bindM (demo_paid ''a'' 20) (\<lambda>_. demo_paid ''b'' 21) (snd ?r)"
  have "case ?r of (Inr x, _) \<Rightarrow> amount (fst x) = 150 | _ \<Rightarrow> False" by code_simp
  then obtain x d1 where r: "?r = (Inr x, d1)" and x: "amount (fst x) = 150"
    by (auto split: prod.splits sum.splits)
  have "case ?s of (Inr y, d) \<Rightarrow> pay_status y = PaySucceeded \<and> amount y = 150 \<and>
     map max_uses (rows (promo_codes d)) = [Some 1] \<and> map used_count (rows (promo_codes d)) = [2] \<and>
     map red_user_id (rows (promo_redemptions d)) = [1, 1] \<and>
     fst (demo_buy ''c'' 30 (d\<lparr>promo_codes := tbl [demo_promo\<lparr>max_uses := None\<rparr>]\<rparr>)) =
       Inl (PyError ''MultipleResultsFound'') | _ \<Rightarrow> False"
    by code_simp
  with r x show ?thesis
    by (auto split: prod.splits sum.splits)
qed

text \<open>Renewing through a payment never extends what the user already has: the payment's
  subscription is a new row whose time starts at the moment it is paid, and every subscription the
  user had keeps its own expiry, so the days left on an active one run in parallel and are lost.\<close>

theorem paid_renewal_starts_now:
  assumes "wf_table (subscriptions d)"
    and "create_payment gw prov now rnd u p pc d = (Inr (pay, url), d1)"
    and "repo_get (rid p) (plans d) = Some p"
    and "gw_verify_webhook_signature gw2 raw sig" and "gw_parse_webhook gw2 raw = Inr ev"
    and "get_by_provider_external_id prov (ev_external_payment_id ev) d1 = (Inr (Some pay), d1)"
    and "ev_status ev = IntentSucceeded"
    and "handle_webhook gw2 prov later raw sig d1 = (Inr pay2, d2)"
    and "repo_get i (subscriptions d) = Some old"
  shows "repo_get i (subscriptions d2) = Some old \<and>
     (\<exists>j s. pay_subscription_id pay = Some j \<and> repo_get j (subscriptions d2) = Some s \<and>
        sub_status s = SubActive \<and> sub_user_id s = rid u \<and>
        expires_at s = Some (later + duration_days p * 86400000000))"
proof -
  from create_payment_rows [OF assms(1,2)] obtain s where
    s: "pay_subscription_id pay = Some (rid s)" "sub_status s = SubPending" "sub_user_id s = rid u"
      "sub_plan_id s = rid p" "expires_at s = None"
    and rows: "rows (subscriptions d1) = rows (subscriptions d) @ [s]"
    and fresh: "repo_get (rid s) (subscriptions d) = None"
    and st: "pay_status pay = PayPending" and plans: "plans d1 = plans d"
    by blast
  have get_s: "repo_get (rid s) (subscriptions d1) = Some s"
    using rows fresh by (simp add: repo_get_def find_append)
  have old: "repo_get i (subscriptions d1) = Some old" and ne: "i \<noteq> rid s"
    using rows assms(9) fresh by (auto simp: repo_get_def find_append)
  have open_: "\<not> terminal_payment (pay_status pay)" using st by (simp add: terminal_payment_def)
  let ?pd = "d1\<lparr>payments := repo_update (rid pay) (\<lambda>r. r\<lparr>pay_status := PaySucceeded\<rparr>) (payments d1)\<rparr>"
  from assms(8) [unfolded handle_webhook_found [OF assms(4-6)]] open_ assms(7) s(1)
  obtain s2 p2 s3 d3 where "get_subscription (rid s) ?pd = (Inr s2, ?pd)"
    and "plan_of s2 ?pd = (Inr p2, ?pd)" and act: "activate later s2 p2 ?pd = (Inr s3, d3)"
    and red: "redeem_promo later (pay\<lparr>pay_status := PaySucceeded\<rparr>) d3 = (Inr (), d2)"
    by (auto simp: set_payment_status_eq success_iffs get_subscription_Inr plan_of_Inr)
  then have s2: "s2 = s" and p2: "p2 = p"
    using get_s s(4) plans assms(3) by (simp_all add: get_subscription_Inr plan_of_Inr)
  obtain e where e: "add_days (activation_base later s) (duration_days p) = Some e"
    and d3: "d3 = ?pd\<lparr>subscriptions := repo_update (rid s)
        (\<lambda>r. (mark_active later r)\<lparr>expires_at := Some e\<rparr>) (subscriptions d1)\<rparr>"
    using act by (auto simp: s2 p2 activate_Inr)
  have "e = later + duration_days p * 86400000000"
    using add_days_Some [OF e] s(5) by (simp add: activation_base_def)
  then have "subscriptions d2 = subscriptions d3"
    using redeem_promo_frame [OF red] by simp
  then show ?thesis
    using d3 old ne get_s s \<open>e = _\<close> by (auto simp: get_update)
qed

lemma paid_renewal_starts_now_witness:
  "\<exists>p d2 s. demo_paid ''a'' 20 demo_bought = (Inr p, d2) \<and> repo_get 1 (subscriptions d2) = Some demo_sub \<and>
     s \<in> set (rows (subscriptions d2)) \<and> expires_at s = Some (20 + 30 * 86400000000)"
proof -
  let ?raw = "''mock_a|succeeded''"
  let ?gw = "demo_gateway ''''"
  have "case demo_buy ''a'' 10 demo_db of (Inr _, _) \<Rightarrow> True | _ \<Rightarrow> False" by code_simp
  then obtain pay url d1 where buy: "demo_buy ''a'' 10 demo_db = (Inr (pay, url), d1)"
    by (auto split: prod.splits sum.splits)
  have d1: "d1 = demo_bought" using buy by (simp add: demo_bought_def)
  obtain p d2 where run: "demo_paid ''a'' 20 demo_bought = (Inr p, d2)"
    using demo_paid_once by (auto split: prod.splits sum.splits)
  define x where "x = fst (projr (fst (demo_buy ''a'' 10 demo_db)))"
  have pay: "x = pay"
    by (simp add: x_def buy)
  have "case gw_parse_webhook ?gw ?raw of Inr e \<Rightarrow> ev_status e = IntentSucceeded \<and>
       fst (get_by_provider_external_id ''mock'' (ev_external_payment_id e) demo_bought) =
         Inr (Some x) | _ \<Rightarrow> False"
    unfolding x_def by code_simp
  then obtain ev where ev: "gw_parse_webhook ?gw ?raw = Inr ev" "ev_status ev = IntentSucceeded"
    and "fst (get_by_provider_external_id ''mock'' (ev_external_payment_id ev) d1) = Inr (Some pay)"
    unfolding pay d1 by (cases "gw_parse_webhook ?gw ?raw") simp_all
  then obtain d0 where look: "get_by_provider_external_id ''mock'' (ev_external_payment_id ev) d1 = (Inr (Some pay), d0)"
    by (cases "get_by_provider_external_id ''mock'' (ev_external_payment_id ev) d1") simp
  then have "d0 = d1"
    by (simp only: get_by_provider_external_id_iff)
  with look have found: "get_by_provider_external_id ''mock'' (ev_external_payment_id ev) d1 = (Inr (Some pay), d1)"
    by simp
  have ok: "gw_verify_webhook_signature ?gw ?raw (demo_sign ?raw)"
    unfolding demo_gateway_def demo_sign_def by (rule mock.accepts_own)
  have wf: "wf_table (subscriptions demo_db)"
    and rows: "repo_get (rid demo_plan) (plans demo_db) = Some demo_plan"
      "repo_get 1 (subscriptions demo_db) = Some demo_sub"
    by code_simp+
  have run2: "handle_webhook ?gw ''mock'' 20 ?raw (demo_sign ?raw) d1 = (Inr p, d2)"
    using run d1 by (simp add: demo_paid_def Let_def)
  from paid_renewal_starts_now [OF wf buy [unfolded demo_buy_def] rows(1) ok ev(1) found ev(2) run2 rows(2)]
  show ?thesis
    using run by (auto simp: demo_plan_def dest: repo_get_in)
qed

text \<open>A refund goes through exactly for a succeeded payment the provider agrees to refund; it
  marks that payment refunded, after which it can not be refunded again nor revived by a webhook,
  and leaves the subscription it paid for active.\<close>

theorem refund_once:
  assumes "gw_refund_payment gw (case external_payment_id pay of None \<Rightarrow> '''' | Some e \<Rightarrow> e) = Inr True"
  shows "(case refund gw pay d of
      (Inl e, d') \<Rightarrow> e = AppError ValidationAppError ''Only succeeded payments can be refunded''
                        ''payment_not_refundable'' \<and> d' = d \<and> pay_status pay \<noteq> PaySucceeded
    | (Inr pay2, d') \<Rightarrow> pay_status pay = PaySucceeded \<and> pay_status pay2 = PayRefunded \<and>
        terminal_payment (pay_status pay2) \<and> fst (refund gw2 pay2 d') =
          Inl (AppError ValidationAppError ''Only succeeded payments can be refunded''
                 ''payment_not_refundable'') \<and>
        repo_get (rid pay) (payments d') =
          map_option (\<lambda>r. r\<lparr>pay_status := PayRefunded\<rparr>) (repo_get (rid pay) (payments d)) \<and>
        subscriptions d' = subscriptions d)"
  using assms by (auto simp: refund_def bindM_def liftE_def set_payment_status_eq terminal_payment_def
      get_update)

lemma refund_once_witness:
  "\<exists>p d' p2 d2. demo_paid ''a'' 20 demo_bought = (Inr p, d') \<and>
     refund (demo_gateway '''') p d' = (Inr p2, d2) \<and> pay_status p2 = PayRefunded \<and>
     subscriptions d2 = subscriptions d'"
proof -
  obtain p d' where run: "demo_paid ''a'' 20 demo_bought = (Inr p, d')" and st: "pay_status p = PaySucceeded"
    using demo_paid_once by (auto split: prod.splits sum.splits)
  have "gw_refund_payment (demo_gateway '''') (case external_payment_id p of None \<Rightarrow> '''' | Some e \<Rightarrow> e) = Inr True"
    by (simp add: demo_gateway_def mock_gateway_def)
  note r = refund_once [OF this, of d' "demo_gateway ''''"]
  obtain x d2 where x: "refund (demo_gateway '''') p d' = (x, d2)"
    by (cases "refund (demo_gateway '''') p d'")
  from r st obtain p2 where "x = Inr p2" "pay_status p2 = PayRefunded" "subscriptions d2 = subscriptions d'"
    unfolding x by (cases x) simp_all
  with run x show ?thesis by blast
qed

end
