(* ===== verification/Servers.thy ===== *)
theory Servers
  imports Billing
begin

text \<open>
  Exit nodes: the WireGuard server service (\<^verbatim>\<open>services/vpn_server_service.py\<close>), the VLESS server
  service (\<^verbatim>\<open>services/vless_server_service.py\<close>), which keeps a server row and its Reality
  configuration together, and their repositories and payloads.
\<close>

section \<open>WireGuard servers\<close>

record server_create =
  sc_name :: string
  sc_country :: string
  sc_city :: "string option"
  sc_hostname :: string
  sc_agent_base_url :: string
  sc_public_key :: string
  sc_endpoint :: string
  sc_listen_port :: int
  sc_internal_network :: string
  sc_capacity :: int

record server_update =
  su_status :: "server_status patch"
  su_capacity :: "int patch"
  su_name :: "string patch"

definition list_available :: "protocol \<Rightarrow> database \<Rightarrow> vpn_server list" where
  "list_available p d =
     sort_key current_load
       (filter (\<lambda>s. srv_status s = SrvOnline \<and> srv_protocol s = p) (rows (vpn_servers d)))"

definition list_wireguard_servers :: "database \<Rightarrow> vpn_server list" where
  "list_wireguard_servers d = repo_list 0 1000 (\<lambda>s. srv_protocol s = WIREGUARD) (vpn_servers d)"

definition get_server :: "int \<Rightarrow> vpn_server dbM" where
  "get_server i =
     bindM (getM (\<lambda>d. repo_get i (vpn_servers d)))
       (requireM (app_error NotFoundError ''VPN server not found'' (Some ''vpn_server_not_found'')))"

definition create_server :: "instant \<Rightarrow> server_create \<Rightarrow> vpn_server dbM" where
  "create_server now p =
     on_vpn_servers (repo_add no_conflict
       \<lparr>rid = 0, created_at = now, srv_name = sc_name p, country = sc_country p, city = sc_city p,
        hostname = sc_hostname p, agent_base_url = sc_agent_base_url p,
        srv_public_key = sc_public_key p, endpoint = sc_endpoint p, listen_port = sc_listen_port p,
        internal_network = sc_internal_network p, srv_status = SrvOffline,
        capacity = sc_capacity p, current_load = 0, srv_protocol = WIREGUARD\<rparr>)"

definition update_server_row :: "int \<Rightarrow> (vpn_server \<Rightarrow> vpn_server) \<Rightarrow> unit dbM" where
  "update_server_row i f = on_vpn_servers (modifyM (repo_update i f))"

definition apply_server_update :: "server_update \<Rightarrow> vpn_server \<Rightarrow> vpn_server" where
  "apply_server_update u s = s\<lparr>
     srv_name := patch_required (su_name u) (srv_name s),
     srv_status := patch_required (su_status u) (srv_status s),
     capacity := patch_required (su_capacity u) (capacity s)\<rparr>"

definition server_update_null :: "server_update \<Rightarrow> bool" where
  "server_update_null u = (su_status u = Null \<or> su_capacity u = Null \<or> su_name u = Null)"

definition update_server :: "int \<Rightarrow> server_update \<Rightarrow> vpn_server dbM" where
  "update_server i u =
     bindM (get_server i) (\<lambda>s.
       if server_update_null u then raiseM IntegrityError
       else bindM (update_server_row (rid s) (apply_server_update u)) (\<lambda>_.
            returnM (apply_server_update u s)))"

definition pick_best_available :: "protocol \<Rightarrow> vpn_server dbM" where
  "pick_best_available p =
     bindM (getM (list_available p)) (\<lambda>candidates.
       case filter (\<lambda>s. current_load s < capacity s) candidates of
         [] \<Rightarrow> raiseM (app_error ConflictError ''No VPN servers with free capacity are currently online''
                        (Some ''no_capacity_available''))
       | s # _ \<Rightarrow> returnM s)"

definition delete_server :: "int \<Rightarrow> unit dbM" where
  "delete_server i = bindM (get_server i) (\<lambda>s. modifyM (delete_server_cascade (rid s)))"

section \<open>VLESS servers\<close>

record vless_create =
  vc_name :: string
  vc_country :: string
  vc_city :: "string option"
  vc_hostname :: string
  vc_capacity :: int
  vc_xray_agent_base_url :: string
  vc_port :: int
  vc_reality_public_key :: string
  vc_reality_short_ids :: "string list"
  vc_sni :: string
  vc_fingerprint :: string
  vc_flow :: string
  vc_network_type :: string

record vless_update = server_update +
  vu_xray_agent_base_url :: "string patch"
  vu_port :: "int patch"
  vu_reality_public_key :: "string patch"
  vu_reality_short_ids :: "string list patch"
  vu_sni :: "string patch"
  vu_fingerprint :: "string patch"
  vu_flow :: "string patch"
  vu_network_type :: "string patch"

definition unused_for_vless :: string where
  "unused_for_vless = ''unused-for-vless''"

definition get_config_for_server :: "int \<Rightarrow> (vless_server_config option) dbM" where
  "get_config_for_server sid = on_vless_server_configs (repo_one (\<lambda>c. cfg_server_id c = sid))"

definition list_vless_servers :: "(vpn_server \<times> vless_server_config) list dbM" where
  "list_vless_servers =
     bindM (getM (\<lambda>d. repo_list 0 1000 (\<lambda>s. srv_protocol s = VLESS) (vpn_servers d))) (\<lambda>servers.
     bindM (mapM (\<lambda>s. bindM (get_config_for_server (rid s)) (\<lambda>c. returnM (map_option (Pair s) c))) servers)
       (\<lambda>pairs. returnM (List.map_filter id pairs)))"

definition get_vless_server :: "int \<Rightarrow> (vpn_server \<times> vless_server_config) dbM" where
  "get_vless_server i =
     bindM (getM (\<lambda>d. repo_get i (vpn_servers d))) (\<lambda>server.
       case server of
         None \<Rightarrow> raiseM (app_error NotFoundError ''VLESS server not found'' (Some ''vless_server_not_found''))
       | Some s \<Rightarrow>
           if srv_protocol s \<noteq> VLESS
           then raiseM (app_error NotFoundError ''VLESS server not found'' (Some ''vless_server_not_found''))
           else bindM (get_config_for_server i) (\<lambda>config.
             case config of
               None \<Rightarrow> raiseM (app_error NotFoundError ''VLESS server has no Reality configuration''
                          (Some ''vless_server_not_found''))
             | Some c \<Rightarrow> returnM (s, c)))"

definition create_vless_server :: "instant \<Rightarrow> vless_create \<Rightarrow> (vpn_server \<times> vless_server_config) dbM" where
  "create_vless_server now p =
     bindM (on_vpn_servers (repo_add no_conflict
       \<lparr>rid = 0, created_at = now, srv_name = vc_name p, country = vc_country p, city = vc_city p,
        hostname = vc_hostname p, agent_base_url = unused_for_vless,
        srv_public_key = unused_for_vless, endpoint = unused_for_vless, listen_port = 51820,
        internal_network = ''0.0.0.0/32'', srv_status = SrvOffline,
        capacity = vc_capacity p, current_load = 0, srv_protocol = VLESS\<rparr>)) (\<lambda>s.
     bindM (on_vless_server_configs (repo_add config_conflict
       \<lparr>rid = 0, created_at = now, cfg_server_id = rid s,
        xray_agent_base_url = vc_xray_agent_base_url p, port = vc_port p,
        reality_public_key = vc_reality_public_key p, reality_short_ids = vc_reality_short_ids p,
        sni = vc_sni p, fingerprint = vc_fingerprint p, flow = vc_flow p,
        network_type = vc_network_type p\<rparr>)) (\<lambda>c.
     returnM (s, c)))"

definition apply_config_update :: "vless_update \<Rightarrow> vless_server_config \<Rightarrow> vless_server_config" where
  "apply_config_update u c = c\<lparr>
     xray_agent_base_url := patch_required (vu_xray_agent_base_url u) (xray_agent_base_url c),
     port := patch_required (vu_port u) (port c),
     reality_public_key := patch_required (vu_reality_public_key u) (reality_public_key c),
     reality_short_ids := patch_required (vu_reality_short_ids u) (reality_short_ids c),
     sni := patch_required (vu_sni u) (sni c),
     fingerprint := patch_required (vu_fingerprint u) (fingerprint c),
     flow := patch_required (vu_flow u) (flow c),
     network_type := patch_required (vu_network_type u) (network_type c)\<rparr>"

text \<open>
  A null for a column that is not nullable fails at the flush. The short identifiers are a JSON
  column, which stores the null as a JSON value; the response model then refuses it, so that
  request fails as well and its changes are dropped with it.
\<close>

definition update_vless_server :: "int \<Rightarrow> vless_update \<Rightarrow> (vpn_server \<times> vless_server_config) dbM" where
  "update_vless_server i u =
     bindM (get_vless_server i) (\<lambda>(s, c).
       let su = server_update.truncate u in
       if server_update_null su \<or> vu_xray_agent_base_url u = Null \<or> vu_port u = Null \<or>
          vu_reality_public_key u = Null \<or> vu_sni u = Null \<or> vu_fingerprint u = Null \<or>
          vu_flow u = Null \<or> vu_network_type u = Null
       then raiseM IntegrityError
       else if vu_reality_short_ids u = Null then raiseM (PyError ''ValidationError'')
       else bindM (update_server_row (rid s) (apply_server_update su)) (\<lambda>_.
            bindM (on_vless_server_configs (modifyM (repo_update (rid c) (apply_config_update u)))) (\<lambda>_.
            returnM (apply_server_update su s, apply_config_update u c))))"

definition delete_vless_server :: "int \<Rightarrow> unit dbM" where
  "delete_vless_server i = bindM (get_vless_server i) (\<lambda>(s, c). modifyM (delete_server_cascade (rid s)))"

section \<open>Lemmas\<close>

lemma get_server_run:
  "get_server i d = (case repo_get i (vpn_servers d) of
     None \<Rightarrow> (Inl (app_error NotFoundError ''VPN server not found'' (Some ''vpn_server_not_found'')), d)
   | Some s \<Rightarrow> (Inr s, d))"
  by (simp add: get_server_def split: option.split)

lemma get_config_run:
  "table_unique config_conflict (vless_server_configs d) \<Longrightarrow>
     get_config_for_server sid d = (Inr (find (\<lambda>c. cfg_server_id c = sid) (rows (vless_server_configs d))), d)"
  using repo_one_unique [of config_conflict "vless_server_configs d" "\<lambda>c. cfg_server_id c = sid"]
  by (simp add: get_config_for_server_def on_vless_server_configs_def zoomM_def config_conflict_def)

lemma get_config_read_only: "read_only (get_config_for_server sid)"
  by (auto simp: read_only_def get_config_for_server_def on_vless_server_configs_def zoomM_def
      split: prod.splits dest!: read_only_state [OF repo_one_read_only])

lemma get_server_read_only: "read_only (get_server i)"
  by (simp add: read_only_def get_server_run split: option.split)

lemma filter_sort_key_hd:
  assumes "filter P (sort_key k xs) = y # ys"
  shows "y \<in> set xs \<and> P y \<and> (\<forall>x \<in> set xs. P x \<longrightarrow> k y \<le> k x)"
proof -
  have "filter P (sort_key k xs) = sort_key k (filter P xs)" by (simp add: filter_sort)
  with assms have s: "sort_key k (filter P xs) = y # ys" by simp
  then have "sorted (map k (y # ys))" by (metis sorted_sort_key)
  moreover have "set (y # ys) = set (filter P xs)" using s by (metis set_sort)
  ultimately show ?thesis by auto
qed

text \<open>A server just registered as a VLESS node is read back with its configuration.\<close>

lemma create_vless_server_get:
  assumes "wf_db d" and "table_unique config_conflict (vless_server_configs d)"
    and "create_vless_server now p d = (Inr (s, c), d')"
  shows "get_vless_server (rid s) d' = (Inr (s, c), d') \<and> cfg_server_id c = rid s \<and> srv_status s = SrvOffline"
proof -
  obtain t1 t2 where s: "repo_add no_conflict
       \<lparr>rid = 0, created_at = now, srv_name = vc_name p, country = vc_country p, city = vc_city p,
        hostname = vc_hostname p, agent_base_url = unused_for_vless,
        srv_public_key = unused_for_vless, endpoint = unused_for_vless, listen_port = 51820,
        internal_network = ''0.0.0.0/32'', srv_status = SrvOffline,
        capacity = vc_capacity p, current_load = 0, srv_protocol = VLESS\<rparr> (vpn_servers d) = (Inr s, t1)"
    and c: "repo_add config_conflict
       \<lparr>rid = 0, created_at = now, cfg_server_id = rid s,
        xray_agent_base_url = vc_xray_agent_base_url p, port = vc_port p,
        reality_public_key = vc_reality_public_key p, reality_short_ids = vc_reality_short_ids p,
        sni = vc_sni p, fingerprint = vc_fingerprint p, flow = vc_flow p,
        network_type = vc_network_type p\<rparr> (vless_server_configs d) = (Inr c, t2)"
    and d': "d' = d\<lparr>vpn_servers := t1, vless_server_configs := t2\<rparr>"
    using assms(3) by (auto simp: create_vless_server_def on_defs success_iffs)
  have wf: "wf_table (vpn_servers d)" using assms(1) by (simp add: wf_db_def)
  have "repo_get (rid s) t1 = Some s" using get_add [OF wf s] by simp
  moreover have "srv_protocol s = VLESS" "srv_status s = SrvOffline" using s by (auto simp: repo_add_Inr)
  moreover have "cfg_server_id c = rid s" using c by (auto simp: repo_add_Inr)
  moreover have "table_unique config_conflict (vless_server_configs d')"
    using table_unique_add [OF assms(2) c] d' by simp
  moreover have "find (\<lambda>x. cfg_server_id x = rid s) (rows t2) = Some c"
    using c by (auto simp: repo_add_Inr find_append config_conflict_def list_ex_iff find_None_iff
        split: option.split dest!: find_Some_in)
  ultimately show ?thesis
    by (simp add: get_vless_server_def d' get_config_run bindM_def)
qed

section \<open>Properties\<close>

text \<open>Automatic placement picks an online server of the requested protocol with room for one more
  peer, and among those one with the lowest load; it fails, with its own error code, exactly when
  no such server exists. It reads the database only, so two requests can pick the same last slot.\<close>

theorem pick_best_available_least_loaded:
  "case pick_best_available p d of
     (Inr s, d') \<Rightarrow> d' = d \<and> s \<in> set (rows (vpn_servers d)) \<and> srv_status s = SrvOnline \<and> srv_protocol s = p \<and>
       current_load s < capacity s \<and>
       (\<forall>t \<in> set (rows (vpn_servers d)). srv_status t = SrvOnline \<and> srv_protocol t = p \<and>
          current_load t < capacity t \<longrightarrow> current_load s \<le> current_load t)
   | (Inl e, d') \<Rightarrow> d' = d \<and> e = AppError ConflictError
         ''No VPN servers with free capacity are currently online'' ''no_capacity_available'' \<and>
       (\<forall>t \<in> set (rows (vpn_servers d)). srv_status t = SrvOnline \<longrightarrow> srv_protocol t = p \<longrightarrow>
          capacity t \<le> current_load t)"
proof (cases "filter (\<lambda>s. current_load s < capacity s) (list_available p d)")
  case Nil
  then show ?thesis
    by (auto simp: pick_best_available_def list_available_def app_error_def filter_empty_conv)
next
  case (Cons s ss)
  from filter_sort_key_hd [OF Cons [unfolded list_available_def]] Cons show ?thesis
    by (auto simp: pick_best_available_def)
qed

definition demo_server :: "int \<Rightarrow> protocol \<Rightarrow> string \<Rightarrow> int \<Rightarrow> vpn_server" where
  "demo_server i p net load = \<lparr>rid = i, created_at = 0, srv_name = ''n'', country = ''NL'', city = None,
     hostname = ''h'', agent_base_url = ''http://agent'', srv_public_key = ''SRV'', endpoint = ''1.2.3.4:51820'',
     listen_port = 51820, internal_network = net, srv_status = SrvOnline, capacity = 3,
     current_load = load, srv_protocol = p\<rparr>"

lemma pick_best_available_least_loaded_witness:
  "case pick_best_available WIREGUARD (empty_db\<lparr>vpn_servers :=
       tbl [demo_server 1 WIREGUARD ''10.0.0.0/29'' 2, demo_server 2 WIREGUARD ''10.0.0.0/29'' 1, demo_server 3 VLESS ''0.0.0.0/32'' 0]\<rparr>) of
     (Inr s, _) \<Rightarrow> rid s = 2 \<and> current_load s \<le> 2 | _ \<Rightarrow> False"
  using pick_best_available_least_loaded [where p = WIREGUARD and d = "empty_db\<lparr>vpn_servers :=
       tbl [demo_server 1 WIREGUARD ''10.0.0.0/29'' 2, demo_server 2 WIREGUARD ''10.0.0.0/29'' 1, demo_server 3 VLESS ''0.0.0.0/32'' 0]\<rparr>"]
  by (auto simp: tbl_def demo_server_def split: prod.splits sum.splits)

end
