(* ===== verification/Links.thy ===== *)
theory Links
  imports Servers
begin

text \<open>
  Subscription links and what they deliver: the token lifecycle
  (\<^verbatim>\<open>services/subscription_link_service.py\<close>, its repository) and the two renderers
  (\<^verbatim>\<open>services/subscription_delivery/formatters/wireguard_formatter.py\<close>, \<^verbatim>\<open>vless_formatter.py\<close>) with
  the standard library's \<^verbatim>\<open>urllib.parse.quote\<close>.
\<close>

section \<open>The token lifecycle\<close>

definition build_subscription_url :: "string \<Rightarrow> string \<Rightarrow> string" where
  "build_subscription_url base token = rstrip_char CHR ''/'' base @ ''/sub/'' @ token"

definition get_link_for_device :: "int \<Rightarrow> (subscription_link option) dbM" where
  "get_link_for_device did = on_subscription_links (repo_one (\<lambda>l. link_device_id l = did))"

definition get_by_token_hash :: "string \<Rightarrow> (subscription_link option) dbM" where
  "get_by_token_hash h = on_subscription_links (repo_one (\<lambda>l. token_hash l = h))"

text \<open>
  Attribute assignments to a link followed by a flush: the unique hash is checked against the
  other rows.
\<close>

definition flush_link :: "int \<Rightarrow> (subscription_link \<Rightarrow> subscription_link) \<Rightarrow> unit dbM" where
  "flush_link i f d =
     (if list_ex (\<lambda>a. rid a = i \<and> list_ex (\<lambda>b. rid b \<noteq> i \<and> token_hash b = token_hash (f a))
                      (rows (subscription_links d))) (rows (subscription_links d))
      then (Inl IntegrityError, d)
      else (Inr (), d\<lparr>subscription_links := repo_update i f (subscription_links d)\<rparr>))"

definition rotate_link :: "crypto \<Rightarrow> instant \<Rightarrow> string \<Rightarrow> subscription_link \<Rightarrow> subscription_link" where
  "rotate_link k now token l = l\<lparr>
     token_hash := hash_subscription_token k token,
     token_prefix := subscription_token_prefix token,
     link_status := LinkActive,
     link_rotated_at := Some now,
     link_revoked_at := None\<rparr>"

text \<open>The token is the value drawn by \<^verbatim>\<open>generate_subscription_token()\<close>.\<close>

definition create_or_rotate ::
  "crypto \<Rightarrow> instant \<Rightarrow> string \<Rightarrow> int \<Rightarrow> (subscription_link \<times> string) dbM" where
  "create_or_rotate k now token did =
     bindM (get_link_for_device did) (\<lambda>found.
       case found of
         None \<Rightarrow>
           bindM (on_subscription_links (repo_add link_conflict
             \<lparr>rid = 0, created_at = now, link_device_id = did,
              token_hash = hash_subscription_token k token,
              token_prefix = subscription_token_prefix token, link_status = LinkActive,
              link_rotated_at = None, link_revoked_at = None, last_accessed_at = None,
              access_count = 0\<rparr>)) (\<lambda>l. returnM (l, token))
       | Some l \<Rightarrow>
           bindM (flush_link (rid l) (rotate_link k now token)) (\<lambda>_.
           returnM (rotate_link k now token l, token)))"

definition revoke_link :: "instant \<Rightarrow> subscription_link \<Rightarrow> subscription_link dbM" where
  "revoke_link now l =
     (let f = (\<lambda>r. r\<lparr>link_status := LinkRevoked, link_revoked_at := Some now\<rparr>) in
      bindM (on_subscription_links (modifyM (repo_update (rid l) f))) (\<lambda>_. returnM (f l)))"

definition resolve_token :: "crypto \<Rightarrow> string \<Rightarrow> (subscription_link option) dbM" where
  "resolve_token k token =
     (if token = '''' then returnM None
      else get_by_token_hash (hash_subscription_token k token))"

definition touch_link :: "instant \<Rightarrow> subscription_link \<Rightarrow> subscription_link" where
  "touch_link now l = l\<lparr>last_accessed_at := Some now, access_count := access_count l + 1\<rparr>"

definition record_access :: "instant \<Rightarrow> subscription_link \<Rightarrow> unit dbM" where
  "record_access now l = on_subscription_links (modifyM (repo_update (rid l) (touch_link now)))"

section \<open>Percent-encoding\<close>

text \<open>\<^verbatim>\<open>quote(s, safe="")\<close>: letters, digits and \<^verbatim>\<open>_.-~\<close> stay, every other byte of the UTF-8
  encoding becomes a percent sign and two upper-case hexadecimal digits.\<close>

definition unreserved :: "char \<Rightarrow> bool" where
  "unreserved c = (let n = of_char c :: nat in
     (48 \<le> n \<and> n \<le> 57) \<or> (65 \<le> n \<and> n \<le> 90) \<or> (97 \<le> n \<and> n \<le> 122) \<or>
     n = 95 \<or> n = 46 \<or> n = 45 \<or> n = 126)"

definition hex_digit :: "nat \<Rightarrow> char" where
  "hex_digit n = char_of (if n < 10 then 48 + n else 55 + n)"

definition quote_byte :: "char \<Rightarrow> string" where
  "quote_byte c =
     (if unreserved c then [c]
      else [CHR ''%'', hex_digit (of_char c div 16), hex_digit (of_char c mod 16)])"

definition quote :: "string \<Rightarrow> string" where
  "quote s = concat (map quote_byte (utf8 s))"

definition hex_val :: "char \<Rightarrow> nat" where
  "hex_val c = (let n = of_char c in if n < 58 then n - 48 else n - 55)"

text \<open>What a client does with an encoded component.\<close>

fun unquote :: "string \<Rightarrow> string" where
  "unquote (c # h # l # s) =
     (if c = CHR ''%'' then char_of (16 * hex_val h + hex_val l) # unquote s else c # unquote (h # l # s))"
| "unquote (c # s) = c # unquote s"
| "unquote [] = []"

section \<open>Renderers\<close>

definition nl :: string where
  "nl = [CHR 0x0A]"

definition render_vless_uri ::
  "string \<Rightarrow> string \<Rightarrow> int \<Rightarrow> string \<Rightarrow> string \<Rightarrow> string \<Rightarrow> string \<Rightarrow> string \<Rightarrow> string \<Rightarrow> string" where
  "render_vless_uri uuid host prt sni1 pbk fp flow1 network name =
     (let query = ''encryption=none&security=reality&sni='' @ quote sni1 @ ''&pbk='' @ quote pbk @
                  ''&fp='' @ quote fp @ ''&type='' @ quote network @ ''&flow='' @ quote flow1 in
      ''vless://'' @ uuid @ ''@'' @ host @ '':'' @ int_str prt @ ''?'' @ query @ ''#'' @ quote name)"

definition render_vless :: "device \<Rightarrow> (vless_credential \<times> vpn_server \<times> vless_server_config) list \<Rightarrow> string" where
  "render_vless v items =
     utf8 (join nl (map (\<lambda>(cred, s, c).
       render_vless_uri (cred_uuid cred) (hostname s) (port c) (sni c) (reality_public_key c)
         (fingerprint c) (flow c) (network_type c) (dev_name v)) items))"

definition no_private_key_comment :: string where
  "no_private_key_comment =
     ''# PrivateKey intentionally omitted: this service never stores WireGuard private'' @ nl @
     ''# keys (see docs/wireguard.md), so a subscription link fetched after the device was'' @ nl @
     ''# provisioned cannot include one. Use '' @ [CHR 0x22] @ ''Reissue'' @ [CHR 0x22] @
     '' in the bot for a complete, working'' @ nl @
     ''# config with a fresh private key.'' @ nl"

definition render_wireguard_config ::
  "string option \<Rightarrow> string \<Rightarrow> string \<Rightarrow> string \<Rightarrow> string list \<Rightarrow> string list \<Rightarrow> string" where
  "render_wireguard_config private_key ip server_key server_endpoint ips dns =
     (let allowed = (if ips \<noteq> [] then join '', '' ips else ''0.0.0.0/0, ::/0'');
          dns_line = join '', '' dns;
          key_section = (case private_key of
                           Some key \<Rightarrow> ''PrivateKey = '' @ key @ nl
                         | None \<Rightarrow> no_private_key_comment) in
      ''[Interface]'' @ nl @ key_section @
      ''Address = '' @ ip @ nl @
      ''DNS = '' @ dns_line @ nl @ nl @
      ''[Peer]'' @ nl @
      ''PublicKey = '' @ server_key @ nl @
      ''Endpoint = '' @ server_endpoint @ nl @
      ''AllowedIPs = '' @ allowed @ nl @
      ''PersistentKeepalive = 25'' @ nl)"

definition render_wireguard :: "vpn_peer \<Rightarrow> vpn_server \<Rightarrow> vpn_profile option \<Rightarrow> string" where
  "render_wireguard p s prof =
     utf8 (render_wireguard_config None (peer_assigned_ip p) (srv_public_key s) (endpoint s)
       (case prof of None \<Rightarrow> [''0.0.0.0/0'', ''::/0''] | Some r \<Rightarrow> allowed_ips r)
       (case prof of None \<Rightarrow> [] | Some r \<Rightarrow> prof_dns r))"

section \<open>Lemmas on percent-encoding\<close>

lemma hex_val_digit: "n < 16 \<Longrightarrow> hex_val (hex_digit n) = n"
  by (auto simp: hex_val_def hex_digit_def Let_def)

lemma unreserved_not_percent: "unreserved c \<Longrightarrow> c \<noteq> CHR ''%''"
  by (auto simp: unreserved_def Let_def)

lemma unquote_cons: "c \<noteq> CHR ''%'' \<Longrightarrow> unquote (c # s) = c # unquote s"
  by (cases s rule: unquote.cases) auto

lemma unquote_quote_byte: "unquote (quote_byte c @ s) = c # unquote s"
proof (cases "unreserved c")
  case True
  then show ?thesis
    by (simp add: quote_byte_def unquote_cons unreserved_not_percent)
next
  case False
  have "of_char c < (256::nat)" by (rule nat_of_char_less_256)
  then have "(of_char c :: nat) div 16 < 16" by (simp add: less_mult_imp_div_less)
  then show ?thesis
    using False by (simp add: quote_byte_def hex_val_digit)
qed

lemma unquote_quote: "unquote (quote s) = utf8 s"
proof -
  have "unquote (concat (map quote_byte xs)) = xs" for xs
    by (induction xs) (simp_all add: unquote_quote_byte)
  then show ?thesis by (simp add: quote_def)
qed

lemma hex_digit_unreserved: "n < 16 \<Longrightarrow> unreserved (hex_digit n)"
  by (auto simp: unreserved_def hex_digit_def Let_def)

lemma quote_chars: "c \<in> set (quote s) \<Longrightarrow> unreserved c \<or> c = CHR ''%''"
proof -
  have "of_char x < (256::nat)" for x :: char by (rule nat_of_char_less_256)
  then have "(of_char x :: nat) div 16 < 16" for x :: char by (simp add: less_mult_imp_div_less)
  then show "c \<in> set (quote s) \<Longrightarrow> unreserved c \<or> c = CHR ''%''"
    by (auto simp: quote_def quote_byte_def hex_digit_unreserved split: if_splits)
qed

lemma quote_no_reserved:
  "CHR ''&'' \<notin> set (quote s)" "CHR ''='' \<notin> set (quote s)" "CHR ''#'' \<notin> set (quote s)"
  "CHR ''?'' \<notin> set (quote s)" "CHR 0x0A \<notin> set (quote s)" "CHR ''@'' \<notin> set (quote s)"
  using quote_chars by (fastforce simp: unreserved_def Let_def)+

lemma split_amp_prefix:
  "CHR ''&'' \<notin> set p \<Longrightarrow> CHR ''&'' \<notin> set q \<Longrightarrow>
     split_on CHR ''&'' (p @ q @ CHR ''&'' # s) = (p @ q) # split_on CHR ''&'' s"
  using split_on_append_sep [of "CHR ''&''" "p @ q" s] by simp

section \<open>Lemmas on links\<close>

lemma get_link_run:
  "table_unique link_conflict (subscription_links d) \<Longrightarrow>
     get_link_for_device did d = (Inr (find (\<lambda>l. link_device_id l = did) (rows (subscription_links d))), d)"
  using repo_one_unique [of link_conflict "subscription_links d" "\<lambda>l. link_device_id l = did"]
  by (simp add: get_link_for_device_def on_subscription_links_def zoomM_def link_conflict_def)

lemma get_by_token_hash_run:
  "table_unique link_conflict (subscription_links d) \<Longrightarrow>
     get_by_token_hash h d = (Inr (find (\<lambda>l. token_hash l = h) (rows (subscription_links d))), d)"
  using repo_one_unique [of link_conflict "subscription_links d" "\<lambda>l. token_hash l = h"]
  by (simp add: get_by_token_hash_def on_subscription_links_def zoomM_def link_conflict_def)

lemma resolve_token_run:
  "table_unique link_conflict (subscription_links d) \<Longrightarrow>
     resolve_token k token d =
       (Inr (if token = '''' then None
             else find (\<lambda>l. token_hash l = hash_subscription_token k token) (rows (subscription_links d))), d)"
  by (simp add: resolve_token_def get_by_token_hash_run)

lemma table_unique_link_iff:
  "table_unique link_conflict t \<longleftrightarrow>
     distinct (map link_device_id (rows t)) \<and> distinct (map token_hash (rows t))"
proof -
  have "sorted_wrt (\<lambda>a b. \<not> link_conflict a b) xs \<longleftrightarrow>
      distinct (map link_device_id xs) \<and> distinct (map token_hash xs)" for xs
    by (induction xs) (auto simp: link_conflict_def)
  then show ?thesis by (simp add: table_unique_def)
qed

lemma flush_link_unique:
  assumes "table_unique link_conflict (subscription_links d)" and "wf_table (subscription_links d)"
    and "flush_link i f d = (Inr (), d')" and "\<And>l. link_device_id (f l) = link_device_id l"
  shows "table_unique link_conflict (subscription_links d')"
proof -
  let ?r = "rows (subscription_links d)"
  let ?g = "\<lambda>l. if rid l = i then f l else l"
  have no: "\<forall>a \<in> set ?r. rid a = i \<longrightarrow> (\<forall>b \<in> set ?r. rid b \<noteq> i \<longrightarrow> token_hash b \<noteq> token_hash (f a))"
    and d': "d' = d\<lparr>subscription_links := repo_update i f (subscription_links d)\<rparr>"
    using assms(3) by (auto simp: flush_link_def list_ex_iff split: if_splits)
  have dist: "distinct (map link_device_id ?r)" "distinct (map token_hash ?r)" "distinct (map rid ?r)"
    using assms(1,2) by (auto simp: table_unique_link_iff wf_table_def)
  have "map link_device_id (map ?g ?r) = map link_device_id ?r" using assms(4) by simp
  then have 1: "distinct (map link_device_id (map ?g ?r))" using dist(1) by (simp del: map_map)
  have "inj_on (\<lambda>l. token_hash (?g l)) (set ?r)"
  proof (rule inj_onI)
    fix a b assume ab: "a \<in> set ?r" "b \<in> set ?r" "token_hash (?g a) = token_hash (?g b)"
    have inj: "inj_on token_hash (set ?r)" "inj_on rid (set ?r)" using dist by (auto simp: distinct_map)
    show "a = b"
    proof (cases "rid a = i"; cases "rid b = i")
      assume "rid a = i" "rid b = i"
      then show ?thesis using inj(2) ab by (auto dest: inj_onD)
    next
      assume *: "rid a = i" "rid b \<noteq> i"
      with ab(3) have "token_hash b = token_hash (f a)" by simp
      with no ab(1,2) * show ?thesis by blast
    next
      assume "rid a \<noteq> i" "rid b = i"
      then show ?thesis using no ab by auto
    next
      assume "rid a \<noteq> i" "rid b \<noteq> i"
      then show ?thesis using inj(1) ab by (auto dest: inj_onD)
    qed
  qed
  moreover have "distinct ?r" using dist(3) by (simp add: distinct_map)
  ultimately have "distinct (map (\<lambda>l. token_hash (?g l)) ?r)" by (simp add: distinct_map)
  then have 2: "distinct (map token_hash (map ?g ?r))" by (simp add: comp_def)
  show ?thesis
    using 1 2 by (simp add: table_unique_link_iff d' rows_update del: map_map)
qed

section \<open>Properties\<close>

text \<open>A share link carries every field unambiguously, whatever characters the device name, the
  server name indication or the other configured values contain: its query splits into exactly
  the seven parameters, each value decodes to the UTF-8 bytes of the field, the fragment
  decodes to the device name, and no encoded part contains a reserved character or a line break.\<close>

theorem render_vless_uri_fields:
  "\<exists>query fragment.
     render_vless_uri uuid host prt sni1 pbk fp flow1 network name =
       ''vless://'' @ uuid @ ''@'' @ host @ '':'' @ int_str prt @ ''?'' @ query @ ''#'' @ fragment \<and>
     map (\<lambda>p. map unquote (split_on CHR ''='' p)) (split_on CHR ''&'' query) =
       [[''encryption'', ''none''], [''security'', ''reality''], [''sni'', utf8 sni1], [''pbk'', utf8 pbk],
        [''fp'', utf8 fp], [''type'', utf8 network], [''flow'', utf8 flow1]] \<and>
     unquote fragment = utf8 name \<and>
     CHR ''#'' \<notin> set query \<and> CHR ''?'' \<notin> set query \<and>
     set fragment \<inter> {CHR ''#'', CHR ''?'', CHR ''&'', CHR ''@'', CHR 0x0A} = {}"
proof -
  let ?q = "''encryption=none&security=reality&sni='' @ quote sni1 @ ''&pbk='' @ quote pbk @
                  ''&fp='' @ quote fp @ ''&type='' @ quote network @ ''&flow='' @ quote flow1"
  have split: "split_on CHR ''&'' ?q =
      [''encryption=none'', ''security=reality'', ''sni='' @ quote sni1, ''pbk='' @ quote pbk,
       ''fp='' @ quote fp, ''type='' @ quote network, ''flow='' @ quote flow1]"
    using split_join [of "[''encryption=none'', ''security=reality'', ''sni='' @ quote sni1, ''pbk='' @ quote pbk,
       ''fp='' @ quote fp, ''type='' @ quote network, ''flow='' @ quote flow1]" "CHR ''&''"]
    by (simp add: quote_no_reserved)
  have eq: "split_on CHR ''='' (p @ CHR ''='' # quote v) = [p, quote v]" if "CHR ''='' \<notin> set p" for p v
    using that by (simp add: split_on_append_sep split_on_no_sep quote_no_reserved)
  have parts: "split_on CHR ''='' (''sni='' @ quote v) = [''sni'', quote v]"
    "split_on CHR ''='' (''pbk='' @ quote v) = [''pbk'', quote v]"
    "split_on CHR ''='' (''fp='' @ quote v) = [''fp'', quote v]"
    "split_on CHR ''='' (''type='' @ quote v) = [''type'', quote v]"
    "split_on CHR ''='' (''flow='' @ quote v) = [''flow'', quote v]" for v
    using eq [of "''sni''" v] eq [of "''pbk''" v] eq [of "''fp''" v] eq [of "''type''" v] eq [of "''flow''" v]
    by simp_all
  have "map (\<lambda>p. map unquote (split_on CHR ''='' p)) (split_on CHR ''&'' ?q) =
       [[''encryption'', ''none''], [''security'', ''reality''], [''sni'', utf8 sni1], [''pbk'', utf8 pbk],
        [''fp'', utf8 fp], [''type'', utf8 network], [''flow'', utf8 flow1]]"
    unfolding split by (simp only: list.map parts unquote_quote) code_simp
  moreover have "CHR ''#'' \<notin> set ?q" "CHR ''?'' \<notin> set ?q"
    by (simp_all add: quote_no_reserved)
  ultimately show ?thesis
    by (intro exI [of _ ?q] exI [of _ "quote name"])
      (simp add: render_vless_uri_def unquote_quote quote_no_reserved)
qed

text \<open>C37: Regenerating a device's link makes the new token resolve to the device's one link, active and
  not revoked, and the old token resolve to nothing from then on, while every other token
  resolves to what it did before; two different tokens are assumed to have different digests.\<close>

theorem rotation_kills_old_token:
  assumes "table_unique link_conflict (subscription_links d)" and "wf_table (subscription_links d)"
    and "get_link_for_device did d = (Inr (Some old), d)" and "token_hash old = hash_subscription_token k t0"
    and "hash_subscription_token k t1 \<noteq> hash_subscription_token k t0" and "t1 \<noteq> ''''"
    and "create_or_rotate k now t1 did d = (Inr (l, token), d')"
  shows "token = t1 \<and> resolve_token k t1 d' = (Inr (Some l), d') \<and> link_device_id l = did \<and>
    link_status l = LinkActive \<and> rid l = rid old \<and> resolve_token k t0 d' = (Inr None, d') \<and>
    (\<forall>t. hash_subscription_token k t \<notin> {hash_subscription_token k t0, hash_subscription_token k t1} \<longrightarrow>
       resolve_token k t d' = (fst (resolve_token k t d), d'))"
proof -
  let ?f = "rotate_link k now t1"
  let ?r = "rows (subscription_links d)"
  let ?g = "\<lambda>x. if rid x = rid old then ?f x else x"
  have run: "flush_link (rid old) ?f d = (Inr (), d')" "l = ?f old" "token = t1"
    using assms(3,7) by (auto simp: create_or_rotate_def bindM_def split: prod.splits sum.splits)
  have d': "rows (subscription_links d') = map ?g ?r"
    using run(1) by (auto simp: flush_link_def rows_update split: if_splits)
  have uniq: "table_unique link_conflict (subscription_links d')"
    by (rule flush_link_unique [OF assms(1,2) run(1)]) (simp add: rotate_link_def)
  have old: "old \<in> set ?r" "link_device_id old = did"
    using assms(3) get_link_run [OF assms(1), of did] by (auto dest: find_Some_in)
  have dist: "distinct (map rid ?r)" "distinct (map token_hash ?r)"
    using assms(1,2) by (auto simp: wf_table_def table_unique_link_iff)
  have only: "x = old" if "x \<in> set ?r" "rid x = rid old" for x
    using that old(1) dist(1) by (metis distinct_map inj_onD)
  have only_hash: "x = old" if "x \<in> set ?r" "token_hash x = token_hash old" for x
    using that old(1) dist(2) by (metis distinct_map inj_onD)
  have hash: "token_hash (?f x) = hash_subscription_token k t1" for x by (simp add: rotate_link_def)
  have in_new: "?f old \<in> set (map ?g ?r)" using old(1) by force
  have "find (\<lambda>x. token_hash x = hash_subscription_token k t1) (map ?g ?r) = Some (?f old)"
    using uniq in_new hash find_distinct [of token_hash "map ?g ?r" "?f old"]
    by (simp add: table_unique_link_iff d' del: map_map)
  then have new: "resolve_token k t1 d' = (Inr (Some l), d')"
    using run assms(6) by (simp add: resolve_token_run [OF uniq] d')
  have "find (\<lambda>x. token_hash x = hash_subscription_token k t0) (map ?g ?r) = None"
    using assms(4,5) only_hash hash by (auto simp: find_None_iff)
  then have gone: "resolve_token k t0 d' = (Inr None, d')"
    by (simp add: resolve_token_run [OF uniq] d')
  have "find (\<lambda>x. token_hash x = h) (map ?g xs) = find (\<lambda>x. token_hash x = h) xs"
    if "h \<noteq> hash_subscription_token k t0" "h \<noteq> hash_subscription_token k t1" "set xs \<subseteq> set ?r" for h xs
    using that only hash assms(4) by (induction xs) (auto split: if_splits)
  then have "resolve_token k t d' = (fst (resolve_token k t d), d')"
    if "hash_subscription_token k t \<notin> {hash_subscription_token k t0, hash_subscription_token k t1}" for t
    using that by (simp add: resolve_token_run [OF uniq] resolve_token_run [OF assms(1)] d')
  with new gone run old(2) show ?thesis by (simp add: rotate_link_def)
qed

definition demo_link :: "int \<Rightarrow> string \<Rightarrow> subscription_link" where
  "demo_link i token = \<lparr>rid = i, created_at = 0, link_device_id = i,
     token_hash = hash_subscription_token demo_crypto token,
     token_prefix = subscription_token_prefix token, link_status = LinkActive, link_rotated_at = None,
     link_revoked_at = None, last_accessed_at = None, access_count = 0\<rparr>"

definition demo_links_db :: database where
  "demo_links_db = empty_db\<lparr>subscription_links := tbl [demo_link 1 ''tokA'', demo_link 2 ''tokB'']\<rparr>"

lemma rotation_kills_old_token_witness:
  "case create_or_rotate demo_crypto 5 ''tokC'' 1 demo_links_db of
     (Inr (l, _), d') \<Rightarrow> resolve_token demo_crypto ''tokA'' d' = (Inr None, d') \<and>
        resolve_token demo_crypto ''tokC'' d' = (Inr (Some l), d')
   | _ \<Rightarrow> False"
proof -
  have u: "table_unique link_conflict (subscription_links demo_links_db)" by code_simp
  have wf: "wf_table (subscription_links demo_links_db)" by code_simp
  have "find (\<lambda>l. link_device_id l = 1) (rows (subscription_links demo_links_db)) = Some (demo_link 1 ''tokA'')"
    by (simp add: demo_links_db_def tbl_def demo_link_def)
  then have g: "get_link_for_device 1 demo_links_db = (Inr (Some (demo_link 1 ''tokA'')), demo_links_db)"
    using get_link_run [OF u] by simp
  have h: "token_hash (demo_link 1 ''tokA'') = hash_subscription_token demo_crypto ''tokA''"
    "hash_subscription_token demo_crypto ''tokC'' \<noteq> hash_subscription_token demo_crypto ''tokA''"
    by (simp add: demo_link_def) code_simp
  have "case create_or_rotate demo_crypto 5 ''tokC'' 1 demo_links_db of (Inr _, _) \<Rightarrow> True | _ \<Rightarrow> False"
    by code_simp
  then obtain l token d' where run: "create_or_rotate demo_crypto 5 ''tokC'' 1 demo_links_db = (Inr (l, token), d')"
    by (auto split: prod.splits sum.splits)
  from rotation_kills_old_token [OF u wf g h _ run] show ?thesis unfolding run by simp
qed

end
