(* ===== verification/Providers.thy ===== *)
theory Providers
  imports Links
begin

text \<open>
  The two contracts the device service depends on (\<^verbatim>\<open>services/vpn/provider.py\<close>,
  \<^verbatim>\<open>services/vless/provider.py\<close>) and their HTTP implementations
  (\<^verbatim>\<open>services/vpn/wireguard_provider.py\<close>, \<^verbatim>\<open>services/vless/xray_agent_provider.py\<close>). The HTTP client is a
  parameter: a request in a state of the network and of everything behind it yields a result and the
  next state. The JSON encoder and parser, and the parser of ISO dates, are parameters as well.
\<close>

section \<open>Contracts\<close>

record peer_provisioning =
  pp_public_key :: string
  pp_private_key :: string
  pp_assigned_ip :: string
  pp_server_public_key :: string
  pp_server_endpoint :: string
  pp_dns :: "string list"

record remote_status =
  rs_public_key :: string
  rs_status :: peer_status
  rs_last_handshake :: "instant option"
  rs_rx_bytes :: int
  rs_tx_bytes :: int

record 'w vpn_provider =
  vp_create_peer :: "device \<Rightarrow> vpn_server \<Rightarrow> string \<Rightarrow> ('w, exn, peer_provisioning) comp"
  vp_delete_peer :: "vpn_peer \<Rightarrow> vpn_server \<Rightarrow> ('w, exn, unit) comp"
  vp_disable_peer :: "vpn_peer \<Rightarrow> vpn_server \<Rightarrow> ('w, exn, unit) comp"
  vp_enable_peer :: "vpn_peer \<Rightarrow> vpn_server \<Rightarrow> ('w, exn, unit) comp"
  vp_get_peer_status :: "vpn_peer \<Rightarrow> vpn_server \<Rightarrow> ('w, exn, remote_status) comp"
  vp_set_peer_allowed_ips :: "vpn_peer \<Rightarrow> vpn_server \<Rightarrow> string list \<Rightarrow> ('w, exn, unit) comp"
  vp_build_client_config :: "string \<Rightarrow> string \<Rightarrow> string \<Rightarrow> string \<Rightarrow> string list \<Rightarrow> string list \<Rightarrow> string"

record vless_user =
  vu_uuid :: string
  vu_device_id :: int
  vu_user_flow :: string
  vu_created_at :: instant
  vu_rotated_at :: "instant option"

record 'w xray_provider =
  xp_create_user :: "vless_server_config \<Rightarrow> string \<Rightarrow> int \<Rightarrow> string \<Rightarrow> ('w, exn, vless_user) comp"
  xp_remove_user :: "vless_server_config \<Rightarrow> string \<Rightarrow> ('w, exn, unit) comp"
  xp_rotate_user :: "vless_server_config \<Rightarrow> string \<Rightarrow> string \<Rightarrow> ('w, exn, vless_user) comp"
  xp_list_users :: "vless_server_config \<Rightarrow> ('w, exn, vless_user list) comp"
  xp_health_check :: "vless_server_config \<Rightarrow> ('w, exn, bool) comp"

section \<open>HTTP\<close>

record http_request =
  req_method :: string
  req_url :: string
  req_params :: "(string \<times> string) list"
  req_body :: string
  req_signature :: "string option"
  req_timestamp :: "string option"
  req_internal_token :: "string option"

text \<open>
  \<^verbatim>\<open>TransportError\<close>: httpx's own class of connection failures; \<^verbatim>\<open>RequestFailed\<close>: any other
  \<^verbatim>\<open>httpx.HTTPError\<close> raised by the client; \<^verbatim>\<open>Response\<close>: status code and raw content.
\<close>

datatype http_result = TransportError | RequestFailed | Response nat string

type_synonym 'w network = "http_request \<Rightarrow> 'w \<Rightarrow> http_result \<times> 'w"

record codec =
  dumps :: "json \<Rightarrow> string"
  loads :: "string \<Rightarrow> json option"
  parse_iso :: "string \<Rightarrow> instant option"

definition is_success :: "nat \<Rightarrow> bool" where
  "is_success status = (200 \<le> status \<and> status < 300)"

text \<open>\<^verbatim>\<open>response.json() if response.content else {}\<close>\<close>

definition response_json :: "codec \<Rightarrow> string \<Rightarrow> exn + json" where
  "response_json cd content =
     (if content = '''' then Inr (JObj [])
      else case loads cd content of None \<Rightarrow> Inl (PyError ''JSONDecodeError'') | Some j \<Rightarrow> Inr j)"

definition liftR :: "exn + 'a \<Rightarrow> ('w, exn, 'a) comp" where
  "liftR r w = (r, w)"

text \<open>
  \<^verbatim>\<open>data[key]\<close>: a missing key raises \<^verbatim>\<open>KeyError\<close>. The agents send the documented types; a value of
  another type is reported here as a type error, where the source would carry it on.
\<close>

definition str_field :: "string \<Rightarrow> json \<Rightarrow> exn + string" where
  "str_field k j = (case jget k j of
       Some (JStr s) \<Rightarrow> Inr s | Some _ \<Rightarrow> Inl (PyError ''TypeError'') | None \<Rightarrow> Inl (PyError ''KeyError''))"

definition int_field :: "string \<Rightarrow> json \<Rightarrow> exn + int" where
  "int_field k j = (case jget k j of
       Some (JInt i) \<Rightarrow> Inr i | Some _ \<Rightarrow> Inl (PyError ''TypeError'') | None \<Rightarrow> Inl (PyError ''KeyError''))"

text \<open>\<^verbatim>\<open>data.get(key, 0)\<close>\<close>

definition int_field_or :: "int \<Rightarrow> string \<Rightarrow> json \<Rightarrow> int" where
  "int_field_or dflt k j = (case jget k j of Some (JInt i) \<Rightarrow> i | _ \<Rightarrow> dflt)"

text \<open>An optional date: absent, null or empty, else parsed.\<close>

definition date_field :: "codec \<Rightarrow> string \<Rightarrow> json \<Rightarrow> exn + instant option" where
  "date_field cd k j = (case jget k j of
       Some (JStr s) \<Rightarrow>
         (if s = '''' then Inr None
          else case parse_iso cd s of None \<Rightarrow> Inl (PyError ''ValueError'') | Some t \<Rightarrow> Inr (Some t))
     | _ \<Rightarrow> Inr None)"

section \<open>The WireGuard provider\<close>

record wg_client =
  wg_crypto :: crypto
  wg_secret :: string
  wg_dns :: "string list"
  wg_codec :: codec

definition agent_request_of ::
  "crypto \<Rightarrow> string \<Rightarrow> instant \<Rightarrow> string \<Rightarrow> string \<Rightarrow> string \<Rightarrow> string \<Rightarrow> (string \<times> string) list \<Rightarrow> http_request" where
  "agent_request_of k secret now base http_method path body params =
     \<lparr>req_method = http_method, req_url = rstrip_char CHR ''/'' base @ path, req_params = params, req_body = body,
      req_signature = Some (fst (signed_headers k secret now body)),
      req_timestamp = Some (snd (signed_headers k secret now body)), req_internal_token = None\<rparr>"

definition wg_unreachable :: "vpn_server \<Rightarrow> exn" where
  "wg_unreachable s = app_error ExternalServiceError
     (''VPN agent request failed for server '' @ int_str (rid s)) (Some ''vpn_agent_unreachable'')"

definition wg_request ::
  "'w network \<Rightarrow> wg_client \<Rightarrow> instant \<Rightarrow> vpn_server \<Rightarrow> string \<Rightarrow> string \<Rightarrow> json \<Rightarrow> (string \<times> string) list
     \<Rightarrow> ('w, exn, json) comp" where
  "wg_request net c now s http_method path payload params w =
     (let req = agent_request_of (wg_crypto c) (wg_secret c) now (agent_base_url s) http_method path
                  (dumps (wg_codec c) payload) params in
      case net req w of
        (Response status content, w') \<Rightarrow>
          if is_success status then (response_json (wg_codec c) content, w') else (Inl (wg_unreachable s), w')
      | (_, w') \<Rightarrow> (Inl (wg_unreachable s), w'))"

definition wg_create_peer ::
  "'w network \<Rightarrow> wg_client \<Rightarrow> instant \<Rightarrow> device \<Rightarrow> vpn_server \<Rightarrow> string \<Rightarrow> ('w, exn, peer_provisioning) comp" where
  "wg_create_peer net c now v s ip =
     bindM (wg_request net c now s ''POST'' ''/peers''
              (JObj [(''device_id'', JInt (rid v)), (''assigned_ip'', JStr ip)]) []) (\<lambda>data.
     bindM (liftR (str_field ''public_key'' data)) (\<lambda>pub.
     bindM (liftR (str_field ''private_key'' data)) (\<lambda>priv.
     bindM (liftR (str_field ''assigned_ip'' data)) (\<lambda>addr.
     returnM \<lparr>pp_public_key = pub, pp_private_key = priv, pp_assigned_ip = addr,
       pp_server_public_key = srv_public_key s, pp_server_endpoint = endpoint s, pp_dns = wg_dns c\<rparr>))))"

definition wg_peer_call ::
  "'w network \<Rightarrow> wg_client \<Rightarrow> instant \<Rightarrow> string \<Rightarrow> string \<Rightarrow> json \<Rightarrow> vpn_peer \<Rightarrow> vpn_server \<Rightarrow> ('w, exn, json) comp" where
  "wg_peer_call net c now http_method path payload p s =
     wg_request net c now s http_method path payload [(''public_key'', peer_public_key p)]"

definition wg_get_peer_status ::
  "'w network \<Rightarrow> wg_client \<Rightarrow> instant \<Rightarrow> vpn_peer \<Rightarrow> vpn_server \<Rightarrow> ('w, exn, remote_status) comp" where
  "wg_get_peer_status net c now p s =
     bindM (wg_peer_call net c now ''GET'' ''/peers/status'' (JObj []) p s) (\<lambda>data.
     bindM (requireM (PyError ''ValueError'')
       (parse_peer_status (case jget ''status'' data of Some (JStr v) \<Rightarrow> v | _ \<Rightarrow> peer_status_value (peer_status p)))) (\<lambda>st.
     bindM (liftR (date_field (wg_codec c) ''last_handshake_at'' data)) (\<lambda>hs.
     returnM \<lparr>rs_public_key = peer_public_key p, rs_status = st, rs_last_handshake = hs,
       rs_rx_bytes = int_field_or 0 ''rx_bytes'' data, rs_tx_bytes = int_field_or 0 ''tx_bytes'' data\<rparr>)))"

definition wg_build_client_config ::
  "wg_client \<Rightarrow> string \<Rightarrow> string \<Rightarrow> string \<Rightarrow> string \<Rightarrow> string list \<Rightarrow> string list \<Rightarrow> string" where
  "wg_build_client_config c priv ip server_key server_endpoint ips dns =
     render_wireguard_config (Some priv) ip server_key server_endpoint ips (if dns = [] then wg_dns c else dns)"

definition wireguard_provider :: "'w network \<Rightarrow> wg_client \<Rightarrow> instant \<Rightarrow> 'w vpn_provider" where
  "wireguard_provider net c now =
     \<lparr>vp_create_peer = wg_create_peer net c now,
      vp_delete_peer = (\<lambda>p s. bindM (wg_peer_call net c now ''DELETE'' ''/peers'' (JObj []) p s) (\<lambda>_. returnM ())),
      vp_disable_peer = (\<lambda>p s. bindM (wg_peer_call net c now ''POST'' ''/peers/disable'' (JObj []) p s) (\<lambda>_. returnM ())),
      vp_enable_peer = (\<lambda>p s. bindM (wg_peer_call net c now ''POST'' ''/peers/enable'' (JObj []) p s) (\<lambda>_. returnM ())),
      vp_get_peer_status = wg_get_peer_status net c now,
      vp_set_peer_allowed_ips = (\<lambda>p s ips. bindM (wg_peer_call net c now ''POST'' ''/peers/allowed-ips''
         (JObj [(''allowed_ips'', JList (map JStr ips))]) p s) (\<lambda>_. returnM ())),
      vp_build_client_config = wg_build_client_config c\<rparr>"

section \<open>The xray-agent provider\<close>

record xr_client =
  xr_crypto :: crypto
  xr_secret :: string
  xr_codec :: codec

definition xr_max_attempts :: nat where
  "xr_max_attempts = 3"

definition xr_failed :: "string \<Rightarrow> string \<Rightarrow> exn" where
  "xr_failed base suffix = app_error ExternalServiceError
     (''xray-agent request failed for '' @ base @ suffix) (Some ''xray_agent_unreachable'')"

text \<open>
  The attempts left. Only a connection failure leads to another one; between attempts the source
  sleeps, which the model does not show.
\<close>

fun xr_attempt ::
  "'w network \<Rightarrow> codec \<Rightarrow> string \<Rightarrow> http_request \<Rightarrow> nat \<Rightarrow> ('w, exn, json) comp" where
  "xr_attempt net cd base req 0 w =
     (Inl (xr_failed base ('' after '' @ nat_str xr_max_attempts @ '' attempts'')), w)"
| "xr_attempt net cd base req (Suc n) w =
     (case net req w of
        (TransportError, w') \<Rightarrow> xr_attempt net cd base req n w'
      | (RequestFailed, w') \<Rightarrow> (Inl (xr_failed base ''''), w')
      | (Response status content, w') \<Rightarrow>
          if is_success status then (response_json cd content, w') else (Inl (xr_failed base ''''), w'))"

definition xr_request ::
  "'w network \<Rightarrow> xr_client \<Rightarrow> instant \<Rightarrow> string \<Rightarrow> string \<Rightarrow> string \<Rightarrow> json \<Rightarrow> ('w, exn, json) comp" where
  "xr_request net c now base http_method path payload =
     xr_attempt net (xr_codec c) base
       (agent_request_of (xr_crypto c) (xr_secret c) now base http_method path (dumps (xr_codec c) payload) [])
       xr_max_attempts"

definition to_record :: "codec \<Rightarrow> json \<Rightarrow> exn + vless_user" where
  "to_record cd data =
     (case str_field ''uuid'' data of Inl e \<Rightarrow> Inl e | Inr u \<Rightarrow>
     (case int_field ''device_id'' data of Inl e \<Rightarrow> Inl e | Inr did \<Rightarrow>
     (case str_field ''flow'' data of Inl e \<Rightarrow> Inl e | Inr fl \<Rightarrow>
     (case str_field ''created_at'' data of Inl e \<Rightarrow> Inl e | Inr cs \<Rightarrow>
     (case parse_iso cd cs of None \<Rightarrow> Inl (PyError ''ValueError'') | Some created \<Rightarrow>
     (case date_field cd ''rotated_at'' data of Inl e \<Rightarrow> Inl e | Inr rotated \<Rightarrow>
        Inr \<lparr>vu_uuid = u, vu_device_id = did, vu_user_flow = fl, vu_created_at = created,
             vu_rotated_at = rotated\<rparr>))))))"

fun is_object :: "json \<Rightarrow> bool" where
  "is_object (JObj kvs) = True"
| "is_object _ = False"

definition xr_user_call ::
  "'w network \<Rightarrow> xr_client \<Rightarrow> instant \<Rightarrow> vless_server_config \<Rightarrow> string \<Rightarrow> json \<Rightarrow> ('w, exn, vless_user) comp" where
  "xr_user_call net c now cfg path payload =
     bindM (xr_request net c now (xray_agent_base_url cfg) ''POST'' path payload) (\<lambda>data.
       if \<not> is_object data then raiseM (PyError ''AssertionError'') else liftR (to_record (xr_codec c) data))"

definition xr_create_user ::
  "'w network \<Rightarrow> xr_client \<Rightarrow> instant \<Rightarrow> vless_server_config \<Rightarrow> string \<Rightarrow> int \<Rightarrow> string \<Rightarrow> ('w, exn, vless_user) comp" where
  "xr_create_user net c now cfg u did fl =
     xr_user_call net c now cfg ''/users'' (JObj [(''uuid'', JStr u), (''device_id'', JInt did), (''flow'', JStr fl)])"

definition xr_remove_user ::
  "'w network \<Rightarrow> xr_client \<Rightarrow> instant \<Rightarrow> vless_server_config \<Rightarrow> string \<Rightarrow> ('w, exn, unit) comp" where
  "xr_remove_user net c now cfg u =
     bindM (xr_request net c now (xray_agent_base_url cfg) ''DELETE'' (''/users/'' @ u) (JObj [])) (\<lambda>_. returnM ())"

definition xr_rotate_user ::
  "'w network \<Rightarrow> xr_client \<Rightarrow> instant \<Rightarrow> vless_server_config \<Rightarrow> string \<Rightarrow> string \<Rightarrow> ('w, exn, vless_user) comp" where
  "xr_rotate_user net c now cfg u new =
     xr_user_call net c now cfg (''/users/'' @ u @ ''/rotate'') (JObj [(''new_uuid'', JStr new)])"

fun to_records :: "codec \<Rightarrow> json list \<Rightarrow> exn + vless_user list" where
  "to_records cd [] = Inr []"
| "to_records cd (j # js) =
     (case to_record cd j of Inl e \<Rightarrow> Inl e
      | Inr u \<Rightarrow> (case to_records cd js of Inl e \<Rightarrow> Inl e | Inr us \<Rightarrow> Inr (u # us)))"

definition xr_list_users ::
  "'w network \<Rightarrow> xr_client \<Rightarrow> instant \<Rightarrow> vless_server_config \<Rightarrow> ('w, exn, vless_user list) comp" where
  "xr_list_users net c now cfg =
     bindM (xr_request net c now (xray_agent_base_url cfg) ''GET'' ''/users'' (JObj [])) (\<lambda>data.
       case data of JList js \<Rightarrow> liftR (to_records (xr_codec c) js) | _ \<Rightarrow> raiseM (PyError ''AssertionError''))"

text \<open>\<^verbatim>\<open>/ready\<close> is called unsigned and once; only HTTP errors count as unhealthy.\<close>

definition xr_health_check :: "'w network \<Rightarrow> xr_client \<Rightarrow> vless_server_config \<Rightarrow> ('w, exn, bool) comp" where
  "xr_health_check net c cfg w =
     (case net \<lparr>req_method = ''GET'', req_url = rstrip_char CHR ''/'' (xray_agent_base_url cfg) @ ''/ready'',
                req_params = [], req_body = '''', req_signature = None, req_timestamp = None,
                req_internal_token = None\<rparr> w of
        (Response status content, w') \<Rightarrow>
          if \<not> is_success status then (Inr False, w')
          else (case loads (xr_codec c) content of
                  None \<Rightarrow> (Inl (PyError ''JSONDecodeError''), w')
                | Some j \<Rightarrow> (Inr (jget ''xray_reachable'' j = Some (JBool True)), w'))
      | (_, w') \<Rightarrow> (Inr False, w'))"

definition http_xray_provider :: "'w network \<Rightarrow> xr_client \<Rightarrow> instant \<Rightarrow> 'w xray_provider" where
  "http_xray_provider net c now =
     \<lparr>xp_create_user = xr_create_user net c now, xp_remove_user = xr_remove_user net c now,
      xp_rotate_user = xr_rotate_user net c now, xp_list_users = xr_list_users net c now,
      xp_health_check = xr_health_check net c\<rparr>"

section \<open>The attempts of the xray-agent client\<close>

text \<open>The state after \<open>k\<close> exchanges of a request.\<close>

definition after_tries :: "'w network \<Rightarrow> http_request \<Rightarrow> nat \<Rightarrow> 'w \<Rightarrow> 'w" where
  "after_tries net req k = (\<lambda>w. snd (net req w)) ^^ k"

definition xr_answer :: "codec \<Rightarrow> string \<Rightarrow> http_result \<Rightarrow> exn + json" where
  "xr_answer cd base res = (case res of
       Response status content \<Rightarrow> if is_success status then response_json cd content else Inl (xr_failed base '''')
     | _ \<Rightarrow> Inl (xr_failed base ''''))"

lemma after_tries_Suc: "after_tries net req (Suc k) w = after_tries net req k (snd (net req w))"
  by (simp add: after_tries_def funpow_Suc_right del: funpow.simps)

lemma after_tries_0 [simp]: "after_tries net req 0 w = w"
  by (simp add: after_tries_def)

lemma xr_attempt_answered:
  "k < n \<Longrightarrow> \<forall>j < k. fst (net req (after_tries net req j w)) = TransportError \<Longrightarrow>
     fst (net req (after_tries net req k w)) \<noteq> TransportError \<Longrightarrow>
     xr_attempt net cd base req n w =
       (xr_answer cd base (fst (net req (after_tries net req k w))), after_tries net req (Suc k) w)"
proof (induction k arbitrary: n w)
  case 0
  then show ?case
    by (cases n; cases "net req w") (auto simp: xr_answer_def after_tries_Suc split: http_result.splits)
next
  case (Suc k)
  obtain m where n: "n = Suc m" "k < m" using Suc.prems(1) by (cases n) auto
  have first: "fst (net req w) = TransportError" using Suc.prems(2) by force
  have later: "\<forall>j < k. fst (net req (after_tries net req j (snd (net req w)))) = TransportError"
    using Suc.prems(2) after_tries_Suc [of net req] by (metis Suc_mono)
  have "xr_attempt net cd base req n w = xr_attempt net cd base req m (snd (net req w))"
    using first n(1) by (cases "net req w") simp
  also have "\<dots> = (xr_answer cd base (fst (net req (after_tries net req k (snd (net req w))))),
      after_tries net req (Suc k) (snd (net req w)))"
    using Suc.prems(3) by (intro Suc.IH [OF n(2) later]) (simp add: after_tries_Suc)
  finally show ?case by (simp only: after_tries_Suc)
qed

lemma xr_attempt_exhausted:
  "\<forall>j < n. fst (net req (after_tries net req j w)) = TransportError \<Longrightarrow>
     xr_attempt net cd base req n w =
       (Inl (xr_failed base ('' after '' @ nat_str xr_max_attempts @ '' attempts'')), after_tries net req n w)"
proof (induction n arbitrary: w)
  case (Suc n)
  have first: "fst (net req w) = TransportError" using Suc.prems by force
  have "\<forall>j < n. fst (net req (after_tries net req j (snd (net req w)))) = TransportError"
    using Suc.prems after_tries_Suc [of net req] by (metis Suc_mono)
  from Suc.IH [OF this] first show ?case
    by (cases "net req w") (simp add: after_tries_Suc)
qed simp

text \<open>C40: A request to an xray agent is sent at most three times: the first exchange that is not a connection
  failure decides the answer and no further one takes place; after three connection failures the
  error says so. An answer that reached the agent and came back, success or not, is never asked for again.\<close>

theorem xray_request_three_tries:
  assumes "req = agent_request_of (xr_crypto c) (xr_secret c) now base http_method path (dumps (xr_codec c) payload) []"
    and "ans = (\<lambda>k. fst (net req (after_tries net req k w)))"
  shows "xr_request net c now base http_method path payload w =
    (if ans 0 \<noteq> TransportError then (xr_answer (xr_codec c) base (ans 0), after_tries net req 1 w)
     else if ans 1 \<noteq> TransportError then (xr_answer (xr_codec c) base (ans 1), after_tries net req 2 w)
     else if ans 2 \<noteq> TransportError then (xr_answer (xr_codec c) base (ans 2), after_tries net req 3 w)
     else (Inl (xr_failed base '' after 3 attempts''), after_tries net req 3 w))"
proof -
  have three: "nat_str xr_max_attempts = ''3''" unfolding xr_max_attempts_def by code_simp
  have all: "\<forall>j < k. ans j = TransportError \<Longrightarrow> k < 3 \<Longrightarrow> ans k \<noteq> TransportError \<Longrightarrow>
      xr_request net c now base http_method path payload w = (xr_answer (xr_codec c) base (ans k), after_tries net req (Suc k) w)" for k
    unfolding xr_request_def xr_max_attempts_def assms by (rule xr_attempt_answered)
  have none: "\<forall>j < 3. ans j = TransportError \<Longrightarrow>
      xr_request net c now base http_method path payload w = (Inl (xr_failed base '' after 3 attempts''), after_tries net req 3 w)"
    using xr_attempt_exhausted [of 3 net req w "xr_codec c" base] three
    unfolding xr_request_def xr_max_attempts_def assms by simp
  show ?thesis
    using all [of 0] all [of 1] all [of 2] none by (auto simp: numeral_eq_Suc less_Suc_eq)
qed

text \<open>A network that refuses two connections before it answers.\<close>

lemma xray_request_three_tries_witness:
  "xr_request (\<lambda>req n. if n < (2::nat) then (TransportError, n + 1) else (Response 204 '''', n + 1))
     \<lparr>xr_crypto = demo_crypto, xr_secret = ''x'', xr_codec = \<lparr>dumps = (\<lambda>_. ''{}''), loads = (\<lambda>_. None), parse_iso = (\<lambda>_. None)\<rparr>\<rparr>
     10 ''http://xray'' ''DELETE'' ''/users/u'' (JObj []) 0 = (Inr (JObj []), 3)"
  by (subst xray_request_three_tries [OF refl refl])
    (simp add: after_tries_def numeral_eq_Suc xr_answer_def is_success_def response_json_def)

end
