(* ===== verification/IPNet.thy ===== *)
theory IPNet
  imports Prelude
begin

text \<open>
  What the source uses of Python's \<^verbatim>\<open>ipaddress\<close>: reading and printing addresses and networks of
  both versions, the host range of a network, and the collapsing of a set of addresses into
  networks. Addresses are natural numbers; a network is the pair of its first address and its
  prefix length, in a space of 32 or 128 bits. Zone identifiers (\<^verbatim>\<open>%eth0\<close>) are refused here.
\<close>

section \<open>Addresses\<close>

datatype ip_address = IPv4Address nat | IPv6Address nat

fun max_prefix :: "ip_address \<Rightarrow> nat" where
  "max_prefix (IPv4Address _) = 32"
| "max_prefix (IPv6Address _) = 128"

fun ip_int :: "ip_address \<Rightarrow> nat" where
  "ip_int (IPv4Address n) = n"
| "ip_int (IPv6Address n) = n"

fun same_version :: "ip_address \<Rightarrow> ip_address \<Rightarrow> bool" where
  "same_version (IPv4Address _) (IPv4Address _) = True"
| "same_version (IPv6Address _) (IPv6Address _) = True"
| "same_version _ _ = False"

fun with_int :: "ip_address \<Rightarrow> nat \<Rightarrow> ip_address" where
  "with_int (IPv4Address _) n = IPv4Address n"
| "with_int (IPv6Address _) n = IPv6Address n"

definition parse_octet :: "string \<Rightarrow> nat option" where
  "parse_octet s =
     (if s = [] \<or> \<not> list_all is_digit s \<or> length s > 3 \<or> (s \<noteq> ''0'' \<and> hd s = CHR ''0'') \<or> digits_val s > 255
      then None else Some (digits_val s))"

text \<open>All elements of a list through a partial function, or nothing.\<close>

fun traverse :: "('a \<Rightarrow> 'b option) \<Rightarrow> 'a list \<Rightarrow> 'b list option" where
  "traverse f [] = Some []"
| "traverse f (x # xs) =
     (case f x of None \<Rightarrow> None
      | Some y \<Rightarrow> (case traverse f xs of None \<Rightarrow> None | Some ys \<Rightarrow> Some (y # ys)))"

definition from_base :: "nat \<Rightarrow> nat list \<Rightarrow> nat" where
  "from_base b ds = foldl (\<lambda>a d. a * b + d) 0 ds"

definition parse_ipv4 :: "string \<Rightarrow> nat option" where
  "parse_ipv4 s = (let octets = split_on CHR ''.'' s in
     if length octets \<noteq> 4 then None else map_option (from_base 256) (traverse parse_octet octets))"

definition ipv4_octets :: "nat \<Rightarrow> nat list" where
  "ipv4_octets n = [n div 16777216 mod 256, n div 65536 mod 256, n div 256 mod 256, n mod 256]"

definition ipv4_str :: "nat \<Rightarrow> string" where
  "ipv4_str n = join ''.'' (map nat_str (ipv4_octets n))"

subsection \<open>Hextets\<close>

definition hex_val :: "char \<Rightarrow> nat option" where
  "hex_val c = (let n = of_char c :: nat in
     if 48 \<le> n \<and> n \<le> 57 then Some (n - 48)
     else if 65 \<le> n \<and> n \<le> 70 then Some (n - 55)
     else if 97 \<le> n \<and> n \<le> 102 then Some (n - 87)
     else None)"

definition parse_hextet :: "string \<Rightarrow> nat option" where
  "parse_hextet s =
     (if s = [] \<or> length s > 4 then None else map_option (from_base 16) (traverse hex_val s))"

definition hex_digit :: "nat \<Rightarrow> char" where
  "hex_digit d = (if d < 10 then char_of (48 + d) else char_of (87 + d))"

definition hextet_str :: "nat \<Rightarrow> string" where
  "hextet_str n =
     map hex_digit
       (if n < 16 then [n]
        else if n < 256 then [n div 16, n mod 16]
        else if n < 4096 then [n div 256, n div 16 mod 16, n mod 16]
        else [n div 4096, n div 256 mod 16, n div 16 mod 16, n mod 16])"

text \<open>
  \<^verbatim>\<open>IPv6Address._ip_int_from_string\<close>: an IPv4 suffix becomes two hextets; the parts before and
  after the one empty inner part are kept, the gap is filled with zeros.
\<close>

definition expand_v4_suffix :: "string list \<Rightarrow> string list option" where
  "expand_v4_suffix parts =
     (if CHR ''.'' \<in> set (last parts)
      then (case parse_ipv4 (last parts) of
              None \<Rightarrow> None
            | Some v \<Rightarrow> Some (butlast parts @ [hextet_str (v div 65536 mod 65536), hextet_str (v mod 65536)]))
      else Some parts)"

definition inner_gaps :: "string list \<Rightarrow> nat list" where
  "inner_gaps parts = filter (\<lambda>i. parts ! i = []) [1 ..< length parts - 1]"

definition assemble :: "string list \<Rightarrow> nat \<Rightarrow> string list \<Rightarrow> nat option" where
  "assemble hi skipped lo =
     map_option (from_base 65536)
       (traverse (\<lambda>x. x) (map parse_hextet hi @ replicate skipped (Some 0) @ map parse_hextet lo))"

definition parse_ipv6 :: "string \<Rightarrow> nat option" where
  "parse_ipv6 s =
     (if CHR ''%'' \<in> set s \<or> length (split_on CHR '':'' s) < 3 then None
      else case expand_v4_suffix (split_on CHR '':'' s) of
        None \<Rightarrow> None
      | Some parts \<Rightarrow>
          if length parts > 9 then None
          else (case inner_gaps parts of
             [] \<Rightarrow> if length parts \<noteq> 8 \<or> hd parts = [] \<or> last parts = [] then None else assemble parts 0 []
           | [k] \<Rightarrow>
               let hi0 = take k parts; lo0 = drop (k + 1) parts;
                   hi = (if hd parts = [] then tl hi0 else hi0);
                   lo = (if last parts = [] then butlast lo0 else lo0) in
               if (hd parts = [] \<and> hi \<noteq> []) \<or> (last parts = [] \<and> lo \<noteq> []) \<or> length hi + length lo > 7
               then None else assemble hi (8 - (length hi + length lo)) lo
           | _ \<Rightarrow> None))"

definition ipv6_hextets :: "nat \<Rightarrow> nat list" where
  "ipv6_hextets n = map (\<lambda>i. n div 2 ^ (16 * (7 - i)) mod 65536) [0..<8]"

text \<open>
  \<^verbatim>\<open>_compress_hextets\<close>: the first longest run of zeros. The accumulator is the best start and
  length so far, and the start and length of the run being read.
\<close>

fun zero_run :: "nat \<Rightarrow> nat list \<Rightarrow> nat \<times> nat \<Rightarrow> nat \<times> nat \<Rightarrow> nat \<times> nat" where
  "zero_run i [] best cur = best"
| "zero_run i (h # hs) best cur =
     (if h = 0 then
        (let cur' = (if snd cur = 0 then (i, 1) else (fst cur, snd cur + 1)) in
         zero_run (i + 1) hs (if snd cur' > snd best then cur' else best) cur')
      else zero_run (i + 1) hs best (0, 0))"

definition compress_hextets :: "nat list \<Rightarrow> string list" where
  "compress_hextets hs = (let (start, len) = zero_run 0 hs (0, 0) (0, 0) in
     if len > 1
     then (if start = 0 then [''''] else []) @ map hextet_str (take start hs) @ [''''] @
          map hextet_str (drop (start + len) hs) @ (if start + len = length hs then [''''] else [])
     else map hextet_str hs)"

definition ipv6_str :: "nat \<Rightarrow> string" where
  "ipv6_str n = join '':'' (compress_hextets (ipv6_hextets n))"

fun ip_str :: "ip_address \<Rightarrow> string" where
  "ip_str (IPv4Address n) = ipv4_str n"
| "ip_str (IPv6Address n) = ipv6_str n"

text \<open>\<^verbatim>\<open>ipaddress.ip_address(s)\<close>, \<^verbatim>\<open>None\<close> for the \<^verbatim>\<open>ValueError\<close>.\<close>

definition parse_ip_address :: "string \<Rightarrow> ip_address option" where
  "parse_ip_address s =
     (case parse_ipv4 s of
        Some n \<Rightarrow> Some (IPv4Address n)
      | None \<Rightarrow> map_option IPv6Address (parse_ipv6 s))"

section \<open>Networks\<close>

text \<open>A network: its address (of either version) and its prefix length.\<close>

type_synonym ip_network = "ip_address \<times> nat"

definition block_size :: "nat \<Rightarrow> nat \<Rightarrow> nat" where
  "block_size bits p = 2 ^ (bits - p)"

definition mask_addr :: "nat \<Rightarrow> nat \<Rightarrow> nat \<Rightarrow> nat" where
  "mask_addr bits p a = a - a mod block_size bits p"

definition net_bits :: "ip_network \<Rightarrow> nat" where
  "net_bits n = max_prefix (fst n)"

definition broadcast :: "ip_network \<Rightarrow> nat" where
  "broadcast n = ip_int (fst n) + (block_size (net_bits n) (snd n) - 1)"

text \<open>\<^verbatim>\<open>_prefix_from_prefix_string\<close>; for IPv4 a dotted netmask or host mask as well.\<close>

definition netmask4 :: "nat \<Rightarrow> nat" where
  "netmask4 p = 2 ^ 32 - 2 ^ (32 - p)"

definition parse_prefix :: "nat \<Rightarrow> string \<Rightarrow> nat option" where
  "parse_prefix bits s =
     (case parse_nat s of
        Some p \<Rightarrow> if p \<le> bits then Some p else None
      | None \<Rightarrow>
          if bits \<noteq> 32 then None
          else (case parse_ipv4 s of
             None \<Rightarrow> None
           | Some m \<Rightarrow>
               (case find (\<lambda>p. netmask4 p = m) [0..<33] of
                  Some p \<Rightarrow> Some p
                | None \<Rightarrow> find (\<lambda>p. netmask4 p = 2 ^ 32 - 1 - m) [0..<33])))"

definition make_network :: "ip_address \<Rightarrow> string option \<Rightarrow> ip_network option" where
  "make_network a m0 =
     (case (case m0 of None \<Rightarrow> Some (max_prefix a) | Some m \<Rightarrow> parse_prefix (max_prefix a) m) of
        None \<Rightarrow> None
      | Some p \<Rightarrow> Some (with_int a (mask_addr (max_prefix a) p (ip_int a)), p))"

definition split_netmask :: "string \<Rightarrow> (string \<times> string option) option" where
  "split_netmask s =
     (case split_on CHR ''/'' s of
        [a] \<Rightarrow> Some (a, None) | [a, m] \<Rightarrow> Some (a, Some m) | _ \<Rightarrow> None)"

text \<open>\<^verbatim>\<open>ipaddress.ip_network(s, strict=False)\<close>: host bits are cleared.\<close>

definition parse_ip_network :: "string \<Rightarrow> ip_network option" where
  "parse_ip_network s =
     (case split_netmask s of
        None \<Rightarrow> None
      | Some (a, m) \<Rightarrow>
          (case (case parse_ipv4 a of None \<Rightarrow> None | Some n \<Rightarrow> make_network (IPv4Address n) m) of
             Some net \<Rightarrow> Some net
           | None \<Rightarrow> (case parse_ipv6 a of None \<Rightarrow> None | Some n \<Rightarrow> make_network (IPv6Address n) m)))"

definition net_str :: "ip_network \<Rightarrow> string" where
  "net_str n = ip_str (fst n) @ ''/'' @ nat_str (snd n)"

text \<open>
  \<^verbatim>\<open>hosts()\<close> as the first and last number of the range. A network of one address returns a list
  there instead of an iterator, which is what \<^verbatim>\<open>None\<close> stands for.
\<close>

definition host_range :: "ip_network \<Rightarrow> (nat \<times> nat) option" where
  "host_range n = (let bits = net_bits n; first = ip_int (fst n); lst = broadcast n in
     if snd n = bits then None
     else if snd n + 1 = bits then Some (first, lst)
     else if bits = 32 then Some (first + 1, lst - 1)
     else Some (first + 1, lst))"

section \<open>Collapsing addresses\<close>

text \<open>Blocks of a space of a given number of bits: first address and prefix length.\<close>

type_synonym block = "nat \<times> nat"

definition addrs_of :: "nat \<Rightarrow> block \<Rightarrow> nat set" where
  "addrs_of bits b = {fst b ..< fst b + block_size bits (snd b)}"

definition aligned :: "nat \<Rightarrow> block \<Rightarrow> bool" where
  "aligned bits b \<longleftrightarrow> snd b \<le> bits \<and> fst b mod block_size bits (snd b) = 0"

text \<open>\<^verbatim>\<open>_find_address_range\<close> on a sorted list without duplicates.\<close>

fun address_ranges :: "nat \<Rightarrow> nat \<Rightarrow> nat list \<Rightarrow> (nat \<times> nat) list" where
  "address_ranges first lst [] = [(first, lst)]"
| "address_ranges first lst (x # xs) =
     (if x \<noteq> lst + 1 then (first, lst) # address_ranges x x xs else address_ranges first x xs)"

text \<open>\<^verbatim>\<open>_count_righthand_zero_bits\<close>, at most the given number.\<close>

fun trailing_zeros :: "nat \<Rightarrow> nat \<Rightarrow> nat" where
  "trailing_zeros 0 n = 0"
| "trailing_zeros (Suc b) n = (if even n then Suc (trailing_zeros b (n div 2)) else 0)"

fun log2_floor :: "nat \<Rightarrow> nat" where
  "log2_floor n = (if n < 2 then 0 else Suc (log2_floor (n div 2)))"

declare log2_floor.simps [simp del]

function summarize :: "nat \<Rightarrow> nat \<Rightarrow> nat \<Rightarrow> block list" where
  "summarize bits first lst =
     (if first \<le> lst then
        (let k = min (trailing_zeros bits first) (log2_floor (lst - first + 1)) in
         (first, bits - k) # (if first + 2 ^ k = 2 ^ bits then [] else summarize bits (first + 2 ^ k) lst))
      else [])"
  by auto
termination
  by (relation "measure (\<lambda>(b, f, l). Suc l - f)") (auto simp: Let_def intro!: diff_less_mono2)

declare summarize.simps [simp del]

definition supernet :: "nat \<Rightarrow> block \<Rightarrow> block" where
  "supernet bits b = (if snd b = 0 then b else (mask_addr bits (snd b - 1) (fst b), snd b - 1))"

lemma merge_blocks_decrease:
  "map_of subnets k = Some e \<Longrightarrow> length (filter (\<lambda>kv. fst kv \<noteq> k) subnets) < length subnets"
proof -
  assume "map_of subnets k = Some e"
  then have "(k, e) \<in> set subnets" by (rule map_of_SomeD)
  then show ?thesis by (intro length_filter_less [of "(k, e)"]) simp_all
qed

text \<open>
  The merging loop of \<^verbatim>\<open>_collapse_addresses_internal\<close>: the list is a stack whose top is its last
  element in the source and its head here; \<^verbatim>\<open>subnets\<close> is the dictionary keyed by supernet.
\<close>

function merge_blocks :: "nat \<Rightarrow> block list \<Rightarrow> (block \<times> block) list \<Rightarrow> block list" where
  "merge_blocks bits [] subnets = map snd subnets"
| "merge_blocks bits (b # todo) subnets =
     (case map_of subnets (supernet bits b) of
        None \<Rightarrow> merge_blocks bits todo (subnets @ [(supernet bits b, b)])
      | Some e \<Rightarrow>
          if e \<noteq> b
          then merge_blocks bits (supernet bits b # todo)
                 (filter (\<lambda>kv. fst kv \<noteq> supernet bits b) subnets)
          else merge_blocks bits todo subnets)"
  by pat_completeness auto

termination
proof (relation "measure (\<lambda>(bits, todo, subnets). 2 * length todo + length subnets)")
  fix bits b todo and subnets :: "(block \<times> block) list" and e
  assume "map_of subnets (supernet bits b) = Some e" "e \<noteq> b"
  then show "((bits, supernet bits b # todo, filter (\<lambda>kv. fst kv \<noteq> supernet bits b) subnets),
      bits, b # todo, subnets) \<in> measure (\<lambda>(bits, todo, subnets). 2 * length todo + length subnets)"
    using merge_blocks_decrease by auto
qed auto

text \<open>Sorted by address then prefix length; a block inside the one kept before it is skipped.\<close>

fun skip_subsumed :: "nat \<Rightarrow> block option \<Rightarrow> block list \<Rightarrow> block list" where
  "skip_subsumed bits kept [] = []"
| "skip_subsumed bits kept (b # bs) =
     (if (case kept of None \<Rightarrow> False
          | Some l \<Rightarrow> fst l + block_size bits (snd l) \<ge> fst b + block_size bits (snd b))
      then skip_subsumed bits kept bs
      else b # skip_subsumed bits (Some b) bs)"

definition sort_blocks :: "block list \<Rightarrow> block list" where
  "sort_blocks bs = sort_key fst (sort_key snd bs)"

definition collapse_addresses :: "nat \<Rightarrow> nat list \<Rightarrow> block list" where
  "collapse_addresses bits as =
     (case sort (remdups as) of
        [] \<Rightarrow> []
      | x # xs \<Rightarrow>
          skip_subsumed bits None (sort_blocks
            (merge_blocks bits (rev (concat (map (\<lambda>(f, l). summarize bits f l) (address_ranges x x xs)))) [])))"

section \<open>Round trip of IPv4 addresses\<close>

lemma traverse_map: "\<forall>x \<in> set xs. f (g x) = Some (h x) \<Longrightarrow> traverse f (map g xs) = Some (map h xs)"
  by (induction xs) auto

lemma digit_char_zero: "d < 10 \<Longrightarrow> digit_char d = CHR ''0'' \<longleftrightarrow> d = 0"
proof -
  assume "d < 10"
  then have "digit_val (digit_char d) = d" by (simp add: digit_char_digit)
  moreover have "digit_val CHR ''0'' = 0" "digit_char 0 = CHR ''0''" by code_simp+
  ultimately show ?thesis by auto
qed

lemma nat_str_small: "n < 1000 \<Longrightarrow> length (nat_str n) \<le> 3 \<and> (hd (nat_str n) = CHR ''0'' \<longrightarrow> n = 0)"
proof -
  assume n: "n < 1000"
  consider "n < 10" | "10 \<le> n" "n < 100" | "100 \<le> n" by linarith
  then show ?thesis
  proof cases
    case 1
    then have "nat_str n = [digit_char n]" by (simp add: nat_str.simps [of n])
    with 1 show ?thesis by (simp add: digit_char_zero)
  next
    case 2
    then have "nat_str n = [digit_char (n div 10), digit_char (n mod 10)]"
      by (simp add: nat_str.simps [of n] nat_str.simps [of "n div 10"])
    with 2 show ?thesis using digit_char_zero [of "n div 10"] by auto
  next
    case 3
    have "n div 10 div 10 < 10" "\<not> n div 10 < 10" "n div 10 div 10 \<noteq> 0" using 3 n by simp_all
    then have "nat_str n = [digit_char (n div 10 div 10), digit_char (n div 10 mod 10), digit_char (n mod 10)]"
      using 3 by (simp add: nat_str.simps [of n] nat_str.simps [of "n div 10"] nat_str.simps [of "n div 10 div 10"]
          del: div_mult2_eq)
    with \<open>n div 10 div 10 \<noteq> 0\<close> \<open>n div 10 div 10 < 10\<close> show ?thesis
      using digit_char_zero [of "n div 10 div 10"] by auto
  qed
qed

lemma parse_octet_str: "k < 256 \<Longrightarrow> parse_octet (nat_str k) = Some k"
proof -
  assume k: "k < 256"
  have "nat_str k = ''0''" if "hd (nat_str k) = CHR ''0''"
  proof -
    from that have "k = 0" using k nat_str_small [of k] by simp
    moreover have "nat_str 0 = ''0''" by code_simp
    ultimately show ?thesis by simp
  qed
  then show ?thesis
    using k nat_str_small [of k] nat_str_digits [of k]
    by (auto simp: parse_octet_def digits_val_nat_str)
qed

lemma ipv4_octets_bound: "k \<in> set (ipv4_octets n) \<Longrightarrow> k < 256"
  by (auto simp: ipv4_octets_def)

lemma from_base_octets: "n < 2 ^ 32 \<Longrightarrow> from_base 256 (ipv4_octets n) = n"
proof -
  assume n: "n < 2 ^ 32"
  have "n div 256 div 256 = n div 65536" "n div 65536 div 256 = n div 16777216"
    by (simp_all add: div_mult2_eq [symmetric])
  moreover have "n div 16777216 < 256" using n by simp
  ultimately show ?thesis
    using div_mult_mod_eq [of n 256] div_mult_mod_eq [of "n div 256" 256]
      div_mult_mod_eq [of "n div 65536" 256]
    by (simp add: from_base_def ipv4_octets_def)
qed

lemma dot_slash_not_digit: "\<not> is_digit CHR ''.''" "\<not> is_digit CHR ''/''"
  by (simp_all add: is_digit_def)

lemma split_ipv4_str: "split_on CHR ''.'' (ipv4_str n) = map nat_str (ipv4_octets n)"
  unfolding ipv4_str_def
  by (rule split_join) (simp_all add: ipv4_octets_def nat_str_no_char dot_slash_not_digit)

lemma parse_ipv4_str: "n < 2 ^ 32 \<Longrightarrow> parse_ipv4 (ipv4_str n) = Some n"
proof -
  assume n: "n < 2 ^ 32"
  have "traverse parse_octet (map nat_str (ipv4_octets n)) = Some (ipv4_octets n)"
    using traverse_map [of "ipv4_octets n" parse_octet nat_str "\<lambda>x. x"]
    by (simp add: parse_octet_str ipv4_octets_bound)
  moreover have "length (map nat_str (ipv4_octets n)) = 4" by (simp add: ipv4_octets_def)
  ultimately show ?thesis
    by (simp add: parse_ipv4_def split_ipv4_str from_base_octets [OF n])
qed

lemma join_no_char: "c \<notin> set sep \<Longrightarrow> \<forall>p \<in> set ps. c \<notin> set p \<Longrightarrow> c \<notin> set (join sep ps)"
  by (induction ps rule: induct_list012) auto

lemma ipv4_str_no_slash: "CHR ''/'' \<notin> set (ipv4_str n)"
  unfolding ipv4_str_def
  by (rule join_no_char) (auto simp: nat_str_no_char [OF dot_slash_not_digit(2)])

section \<open>Collapsing covers exactly the given addresses\<close>

lemma trailing_zeros_le: "trailing_zeros b n \<le> b"
  by (induction b n rule: trailing_zeros.induct) auto

lemma trailing_zeros_dvd: "2 ^ trailing_zeros b n dvd n"
proof (induction b n rule: trailing_zeros.induct)
  case (2 b n)
  show ?case
  proof (cases "even n")
    case True
    with 2 have "2 ^ trailing_zeros b (n div 2) dvd n div 2" by simp
    then have "2 * 2 ^ trailing_zeros b (n div 2) dvd 2 * (n div 2)" by (rule mult_dvd_mono [OF dvd_refl])
    with True show ?thesis by simp
  qed simp
qed simp

lemma log2_floor_le: "0 < n \<Longrightarrow> 2 ^ log2_floor n \<le> n"
proof (induction n rule: log2_floor.induct)
  case (1 n)
  show ?case
  proof (cases "n < 2")
    case True
    with 1 show ?thesis by (simp add: log2_floor.simps [of n])
  next
    case False
    then have "2 ^ log2_floor (n div 2) \<le> n div 2" using 1 by simp
    then have "2 * 2 ^ log2_floor (n div 2) \<le> 2 * (n div 2)" by simp
    also have "\<dots> \<le> n" by simp
    finally show ?thesis using False by (simp add: log2_floor.simps [of n])
  qed
qed

definition covers :: "nat \<Rightarrow> block list \<Rightarrow> nat set" where
  "covers bits bs = (\<Union>b \<in> set bs. addrs_of bits b)"

lemma covers_simps [simp]:
  "covers bits [] = {}" "covers bits (b # bs) = addrs_of bits b \<union> covers bits bs"
  "covers bits (xs @ ys) = covers bits xs \<union> covers bits ys" "covers bits (rev xs) = covers bits xs"
  by (auto simp: covers_def)

lemma summarize_block:
  assumes "first \<le> lst" and "k = min (trailing_zeros bits first) (log2_floor (lst - first + 1))"
  shows "first + 2 ^ k \<le> lst + 1 \<and> aligned bits (first, bits - k) \<and>
     addrs_of bits (first, bits - k) = {first ..< first + 2 ^ k}"
proof -
  have k: "k \<le> bits" "k \<le> trailing_zeros bits first" "k \<le> log2_floor (lst - first + 1)"
    using assms(2) trailing_zeros_le [of bits first] by auto
  have "2 ^ k \<le> (2::nat) ^ log2_floor (lst - first + 1)"
    using k(3) by (rule power_increasing) simp
  also have "\<dots> \<le> lst - first + 1"
    by (rule log2_floor_le) simp
  finally have "first + 2 ^ k \<le> lst + 1"
    using assms(1) by simp
  moreover have size: "block_size bits (bits - k) = 2 ^ k"
    using k(1) by (simp add: block_size_def)
  moreover have "(2::nat) ^ k dvd first"
    using le_imp_power_dvd [OF k(2)] trailing_zeros_dvd by (rule dvd_trans)
  ultimately show ?thesis
    by (simp add: aligned_def addrs_of_def mod_eq_0_iff_dvd)
qed

lemma summarize_correct:
  assumes "lst < 2 ^ bits" and "first \<le> lst"
  shows "covers bits (summarize bits first lst) = {first..lst} \<and>
     (\<forall>b \<in> set (summarize bits first lst). aligned bits b)"
  using assms
proof (induction bits first lst rule: summarize.induct)
  case (1 bits first lst)
  define k where "k = min (trailing_zeros bits first) (log2_floor (lst - first + 1))"
  from summarize_block [OF 1(3) k_def] have le: "first + 2 ^ k \<le> lst + 1"
    and al: "aligned bits (first, bits - k)"
    and a: "addrs_of bits (first, bits - k) = {first ..< first + 2 ^ k}"
    by simp_all
  have unfold: "summarize bits first lst = (first, bits - k) #
      (if first + 2 ^ k = 2 ^ bits then [] else summarize bits (first + 2 ^ k) lst)"
    using 1(3) by (subst summarize.simps) (simp add: Let_def k_def)
  show ?case
  proof (cases "first + 2 ^ k = 2 ^ bits")
    case True
    then have "summarize bits first lst = [(first, bits - k)]"
      using unfold by simp
    moreover have "{first ..< first + 2 ^ k} = {first..lst}"
      using True le 1 by auto
    ultimately show ?thesis using a al by simp
  next
    case False
    then have eq: "summarize bits first lst = (first, bits - k) # summarize bits (first + 2 ^ k) lst"
      using unfold by simp
    show ?thesis
    proof (cases "first + 2 ^ k \<le> lst")
      case True
      with 1(1) [OF 1(3) k_def False 1(2)] have IH: "covers bits (summarize bits (first + 2 ^ k) lst) = {first + 2 ^ k..lst}"
        "\<forall>b \<in> set (summarize bits (first + 2 ^ k) lst). aligned bits b"
        by simp_all
      have "{first ..< first + 2 ^ k} \<union> {first + 2 ^ k..lst} = {first..lst}"
        using le by auto
      with IH a al show ?thesis unfolding eq by simp
    next
      case no: False
      then have "summarize bits (first + 2 ^ k) lst = []"
        by (simp add: summarize.simps [of bits "first + 2 ^ k"])
      moreover have "{first ..< first + 2 ^ k} = {first..lst}"
        using no le by auto
      ultimately show ?thesis using a al unfolding eq by simp
    qed
  qed
qed

lemma address_ranges_correct:
  "first \<le> lst \<Longrightarrow> sorted (lst # xs) \<Longrightarrow> distinct (lst # xs) \<Longrightarrow>
     (\<Union>(f, l) \<in> set (address_ranges first lst xs). {f..l}) = {first..lst} \<union> set xs \<and>
     (\<forall>(f, l) \<in> set (address_ranges first lst xs). f \<le> l \<and> l \<in> insert lst (set xs))"
proof (induction first lst xs rule: address_ranges.induct)
  case (2 first lst x xs)
  show ?case
  proof (cases "x = lst + 1")
    case True
    then have "{first..x} = insert x {first..lst}" using 2(3) by auto
    moreover have IH: "(\<Union>(f, l) \<in> set (address_ranges first x xs). {f..l}) = {first..x} \<union> set xs"
      "\<forall>(f, l) \<in> set (address_ranges first x xs). f \<le> l \<and> l \<in> insert x (set xs)"
      using 2 True by auto
    ultimately show ?thesis
      using True IH(2) by fastforce
  next
    case False
    then have IH: "(\<Union>(f, l) \<in> set (address_ranges x x xs). {f..l}) = {x..x} \<union> set xs"
      "\<forall>(f, l) \<in> set (address_ranges x x xs). f \<le> l \<and> l \<in> insert x (set xs)"
      using 2 by auto
    with False 2(3) show ?thesis by fastforce
  qed
qed simp

subsection \<open>Merging\<close>

lemma block_size_pred: "0 < p \<Longrightarrow> p \<le> bits \<Longrightarrow> block_size bits (p - 1) = 2 * block_size bits p"
proof -
  assume "0 < p" "p \<le> bits"
  then have "bits - (p - 1) = Suc (bits - p)" by simp
  then show ?thesis by (simp add: block_size_def)
qed

lemma block_size_pos [simp]: "0 < block_size bits p"
  by (simp add: block_size_def)

text \<open>An aligned block below the top is the lower or the upper half of its supernet.\<close>

lemma supernet_halves:
  assumes "aligned bits (a, p)" and "0 < p"
  obtains s where "supernet bits (a, p) = (s, p - 1)" and "aligned bits (s, p - 1)"
    and "a = s \<or> a = s + block_size bits p"
proof -
  let ?S = "block_size bits p"
  have p: "p \<le> bits" and a: "?S dvd a" using assms(1) by (auto simp: aligned_def mod_eq_0_iff_dvd)
  from a obtain q where q: "a = ?S * q" by (rule dvdE)
  have two: "block_size bits (p - 1) = 2 * ?S" by (rule block_size_pred [OF assms(2) p])
  have m: "a mod (2 * ?S) = ?S * (q mod 2)"
    using mod_mult_mult1 [of ?S q 2] q by (metis mult.commute)
  let ?s = "a - a mod (2 * ?S)"
  have "supernet bits (a, p) = (?s, p - 1)"
    using assms(2) by (simp add: supernet_def mask_addr_def two [symmetric])
  moreover have "aligned bits (?s, p - 1)"
    using p by (simp add: aligned_def two [unfolded One_nat_def] minus_mod_eq_mult_div)
  moreover have "a = ?s \<or> a = ?s + ?S"
  proof (cases "even q")
    case True
    then show ?thesis using m by simp
  next
    case False
    then have "a mod (2 * ?S) = ?S" using m by (simp add: odd_iff_mod_2_eq_one)
    moreover have "?S \<le> a" using calculation mod_less_eq_dividend [of a "2 * ?S"] by simp
    ultimately show ?thesis by simp
  qed
  ultimately show ?thesis by (rule that)
qed

lemma aligned_top: "aligned bits (a, 0) \<Longrightarrow> a < 2 ^ bits \<Longrightarrow> a = 0"
  by (simp add: aligned_def block_size_def)

definition good_block :: "nat \<Rightarrow> block \<Rightarrow> bool" where
  "good_block bits b \<longleftrightarrow> aligned bits b \<and> fst b < 2 ^ bits"

lemma good_supernet: "good_block bits b \<Longrightarrow> good_block bits (supernet bits b)"
proof (cases b)
  fix a p assume g: "good_block bits b" and b: "b = (a, p)"
  show ?thesis
  proof (cases "p = 0")
    case True
    with g b show ?thesis by (simp add: supernet_def)
  next
    case False
    have "aligned bits (a, p)" "0 < p" using g b False by (simp_all add: good_block_def)
    from supernet_halves [OF this] obtain s where "supernet bits (a, p) = (s, p - 1)"
      "aligned bits (s, p - 1)" "a = s \<or> a = s + block_size bits p"
      by blast
    with g b show ?thesis by (auto simp: good_block_def)
  qed
qed

lemma two_halves_cover:
  assumes "good_block bits b" and "good_block bits c" and "supernet bits b = supernet bits c" and "b \<noteq> c"
  shows "addrs_of bits (supernet bits b) = addrs_of bits b \<union> addrs_of bits c"
proof -
  obtain a p where b: "b = (a, p)" by (cases b)
  obtain e q where c: "c = (e, q)" by (cases c)
  have whole: "addrs_of bits (0, 0) = {0 ..< 2 ^ bits}"
    by (simp add: addrs_of_def block_size_def)
  have sub: "addrs_of bits (x, 1) \<subseteq> {0 ..< 2 ^ bits}" if "aligned bits (x, 1)" "supernet bits (x, 1) = (0, 0)" for x
  proof -
    note al1 = that(1)
    obtain s where s: "supernet bits (x, 1) = (s, 0)" "x = s \<or> x = s + block_size bits 1"
      by (rule supernet_halves [OF al1]) simp_all
    with that(2) have "x = 0 \<or> x = block_size bits 1" by simp
    moreover have "2 * block_size bits 1 = 2 ^ bits"
      using block_size_pred [of 1 bits] that(1) by (simp add: aligned_def block_size_def)
    ultimately show ?thesis by (auto simp: addrs_of_def)
  qed
  consider "p = 0" "q = 0" | "p = 0" "0 < q" | "0 < p" "q = 0" | "0 < p" "0 < q" by blast
  then show ?thesis
  proof cases
    case 1
    with assms(3,4) b c show ?thesis by (simp add: supernet_def)
  next
    case 2
    then have "a = 0" using assms(1) b by (auto simp: good_block_def dest: aligned_top)
    with 2 b have "supernet bits b = (0, 0)" by (simp add: supernet_def)
    then have sup: "supernet bits (e, q) = (0, 0)" using assms(3) c by simp
    with 2 have q: "q = 1" by (simp add: supernet_def)
    then have "addrs_of bits (e, q) \<subseteq> addrs_of bits (0, 0)"
      using sub [of e] sup assms(2) c whole by (simp add: good_block_def)
    with 2 \<open>a = 0\<close> b c show ?thesis by (auto simp: supernet_def)
  next
    case 3
    then have "e = 0" using assms(2) c by (auto simp: good_block_def dest: aligned_top)
    with 3 c have "supernet bits c = (0, 0)" by (simp add: supernet_def)
    then have sup: "supernet bits (a, p) = (0, 0)" using assms(3) b by simp
    with 3 have p: "p = 1" by (simp add: supernet_def)
    then have "addrs_of bits (a, p) \<subseteq> addrs_of bits (0, 0)"
      using sub [of a] sup assms(1) b whole by (simp add: good_block_def)
    with 3 \<open>e = 0\<close> sup b c show ?thesis by auto
  next
    case 4
    have al: "aligned bits (a, p)" "aligned bits (e, q)"
      using assms(1,2) b c by (simp_all add: good_block_def)
    obtain s where s: "supernet bits (a, p) = (s, p - 1)" "a = s \<or> a = s + block_size bits p"
      using supernet_halves [OF al(1) 4(1)] by blast
    have p: "p \<le> bits" using al(1) by (simp add: aligned_def)
    obtain t where t: "supernet bits (e, q) = (t, q - 1)" "e = t \<or> e = t + block_size bits q"
      using supernet_halves [OF al(2) 4(2)] by blast
    from s t assms(3) b c 4 have "t = s" "q = p" by auto
    moreover have "block_size bits (p - 1) = 2 * block_size bits p"
      using 4 p by (intro block_size_pred)
    moreover have "a \<noteq> e" using assms(4) b c \<open>q = p\<close> by simp
    ultimately show ?thesis
      using s t b c by (auto simp: addrs_of_def)
  qed
qed

definition merge_inv :: "nat \<Rightarrow> block list \<Rightarrow> (block \<times> block) list \<Rightarrow> bool" where
  "merge_inv bits todo subnets \<longleftrightarrow>
     list_all (good_block bits) todo \<and> distinct (map fst subnets) \<and>
     list_all (\<lambda>(k, v). good_block bits v \<and> k = supernet bits v) subnets"

lemma covers_remove_key:
  assumes "distinct (map fst kvs)" and "map_of kvs k = Some e"
  shows "covers bits (map snd kvs) = addrs_of bits e \<union> covers bits (map snd (filter (\<lambda>kv. fst kv \<noteq> k) kvs))"
  using assms
proof (induction kvs)
  case (Cons kv kvs)
  show ?case
  proof (cases "fst kv = k")
    case True
    with Cons.prems(1) have "filter (\<lambda>kv. fst kv \<noteq> k) kvs = kvs"
      by (intro filter_True) (metis (mono_tags, lifting) distinct.simps(2) image_eqI list.set_map list.simps(9))
    with True Cons.prems show ?thesis by (cases kv) auto
  next
    case False
    with Cons show ?thesis by (cases kv) auto
  qed
qed simp

lemma merge_blocks_correct:
  "merge_inv bits todo subnets \<Longrightarrow>
     covers bits (merge_blocks bits todo subnets) = covers bits todo \<union> covers bits (map snd subnets) \<and>
     list_all (good_block bits) (merge_blocks bits todo subnets)"
proof (induction bits todo subnets rule: merge_blocks.induct)
  case (1 bits subnets)
  then show ?case by (auto simp: merge_inv_def list_all_iff)
next
  case (2 bits b todo subnets)
  show ?case
  proof (cases "map_of subnets (supernet bits b)")
    case None
    then have "supernet bits b \<notin> fst ` set subnets" by (simp add: map_of_eq_None_iff)
    with 2 None have "merge_inv bits todo (subnets @ [(supernet bits b, b)])"
      by (simp add: merge_inv_def)
    with 2(1) [OF None] None show ?thesis by auto
  next
    case (Some e)
    have e: "good_block bits e" "supernet bits e = supernet bits b"
      using map_of_SomeD [OF Some] 2(4) by (auto simp: merge_inv_def list_all_iff)
    show ?thesis
    proof (cases "e = b")
      case True
      then have "b \<in> set (map snd subnets)" using map_of_SomeD [OF Some] by force
      then have "addrs_of bits b \<subseteq> covers bits (map snd subnets)" by (auto simp: covers_def)
      moreover have "merge_inv bits todo subnets" using 2(4) by (simp add: merge_inv_def)
      ultimately show ?thesis using 2(3) [OF Some] True Some by auto
    next
      case False
      let ?rest = "filter (\<lambda>kv. fst kv \<noteq> supernet bits b) subnets"
      have gb: "good_block bits b" using 2(4) by (simp add: merge_inv_def)
      have "merge_inv bits (supernet bits b # todo) ?rest"
        using 2(4) good_supernet [OF gb] by (auto simp: merge_inv_def list_all_iff distinct_map_filter)
      with 2(2) [OF Some False] Some False have
        "covers bits (merge_blocks bits (b # todo) subnets) =
           addrs_of bits (supernet bits b) \<union> covers bits todo \<union> covers bits (map snd ?rest) \<and>
         list_all (good_block bits) (merge_blocks bits (b # todo) subnets)"
        by simp
      moreover have "addrs_of bits (supernet bits b) = addrs_of bits b \<union> addrs_of bits e"
        using e gb False by (intro two_halves_cover) auto
      moreover have "covers bits (map snd subnets) = addrs_of bits e \<union> covers bits (map snd ?rest)"
        using 2(4) Some by (intro covers_remove_key) (auto simp: merge_inv_def)
      ultimately show ?thesis by auto
    qed
  qed
qed

lemma skip_subsumed_correct:
  "sorted (map fst bs) \<Longrightarrow> (\<And>l b. kept = Some l \<Longrightarrow> b \<in> set bs \<Longrightarrow> fst l \<le> fst b) \<Longrightarrow>
     covers bits (skip_subsumed bits kept bs) \<union> (case kept of None \<Rightarrow> {} | Some l \<Rightarrow> addrs_of bits l) =
     covers bits bs \<union> (case kept of None \<Rightarrow> {} | Some l \<Rightarrow> addrs_of bits l)"
proof (induction bits kept bs rule: skip_subsumed.induct)
  case (2 bits kept b bs)
  show ?case
  proof (cases "\<exists>l. kept = Some l \<and> fst l + block_size bits (snd l) \<ge> fst b + block_size bits (snd b)")
    case True
    then obtain l where l: "kept = Some l" "fst l + block_size bits (snd l) \<ge> fst b + block_size bits (snd b)"
      by blast
    then have "addrs_of bits b \<subseteq> addrs_of bits l"
      using 2(4) [of l b] by (auto simp: addrs_of_def)
    moreover have "covers bits (skip_subsumed bits kept bs) \<union> addrs_of bits l = covers bits bs \<union> addrs_of bits l"
      using 2(1,3,4) l by auto
    ultimately show ?thesis using l by auto
  next
    case False
    then have nk: "\<not> (case kept of None \<Rightarrow> False
        | Some l \<Rightarrow> fst l + block_size bits (snd l) \<ge> fst b + block_size bits (snd b))"
      by (auto split: option.splits)
    have "sorted (map fst bs)" and "\<And>l c. Some b = Some l \<Longrightarrow> c \<in> set bs \<Longrightarrow> fst l \<le> fst c"
      using 2(3) by auto
    then have "covers bits (skip_subsumed bits (Some b) bs) \<union> addrs_of bits b = covers bits bs \<union> addrs_of bits b"
      using 2(2) [OF nk] by simp
    moreover have "skip_subsumed bits kept (b # bs) = b # skip_subsumed bits (Some b) bs"
      using nk by simp
    ultimately show ?thesis by (simp add: Un_commute Un_left_commute)
  qed
qed simp

lemma skip_subsumed_subset: "set (skip_subsumed bits kept bs) \<subseteq> set bs"
  by (induction bits kept bs rule: skip_subsumed.induct) auto

theorem collapse_addresses_exact:
  assumes "\<forall>a \<in> set as. a < 2 ^ bits"
  shows "covers bits (collapse_addresses bits as) = set as \<and>
     list_all (good_block bits) (collapse_addresses bits as)"
proof (cases "sort (remdups as)")
  case Nil
  then have "as = []" by (metis set_empty2 set_remdups set_sort)
  then show ?thesis by (simp add: collapse_addresses_def)
next
  case (Cons x xs)
  have set_xs: "insert x (set xs) = set as" using arg_cong [OF Cons, of set] by simp
  have srt: "sorted (x # xs)" "distinct (x # xs)"
    by (metis Cons sorted_sort, metis Cons distinct_remdups distinct_sort)
  let ?rs = "address_ranges x x xs"
  let ?bs = "concat (map (\<lambda>(f, l). summarize bits f l) ?rs)"
  have rs: "(\<Union>(f, l) \<in> set ?rs. {f..l}) = set as" "\<forall>(f, l) \<in> set ?rs. f \<le> l \<and> l \<in> set as"
    using address_ranges_correct [of x x xs] srt set_xs by auto
  have one: "covers bits (summarize bits f l) = {f..l}" "\<forall>b \<in> set (summarize bits f l). good_block bits b"
    if "(f, l) \<in> set ?rs" for f l
  proof -
    have fl: "f \<le> l" "l < 2 ^ bits" using rs(2) that assms by auto
    show c: "covers bits (summarize bits f l) = {f..l}"
      using summarize_correct fl by blast
    show "\<forall>b \<in> set (summarize bits f l). good_block bits b"
    proof
      fix b assume b: "b \<in> set (summarize bits f l)"
      then have "fst b \<in> covers bits (summarize bits f l)"
        by (auto simp: covers_def addrs_of_def intro!: bexI [of _ b])
      with b summarize_correct [of l bits f] fl c show "good_block bits b" by (auto simp: good_block_def)
    qed
  qed
  have "covers bits ?bs = (\<Union>(f, l) \<in> set ?rs. covers bits (summarize bits f l))"
    by (auto simp: covers_def)
  also have "\<dots> = (\<Union>(f, l) \<in> set ?rs. {f..l})"
    by (rule SUP_cong) (use one(1) in auto)
  also note rs(1)
  finally have cov: "covers bits ?bs = set as" .
  have "merge_inv bits (rev ?bs) []"
    using one(2) by (fastforce simp: merge_inv_def list_all_iff)
  from merge_blocks_correct [OF this] have m: "covers bits (merge_blocks bits (rev ?bs) []) = set as"
    "list_all (good_block bits) (merge_blocks bits (rev ?bs) [])"
    using cov by simp_all
  let ?m = "sort_blocks (merge_blocks bits (rev ?bs) [])"
  have "sorted (map fst ?m)" by (simp add: sort_blocks_def)
  moreover have "covers bits ?m = set as" "list_all (good_block bits) ?m"
    using m by (simp_all add: covers_def sort_blocks_def list_all_iff)
  ultimately show ?thesis
    using skip_subsumed_correct [of ?m None bits] skip_subsumed_subset [of bits None ?m]
    by (auto simp: collapse_addresses_def Cons list_all_iff)
qed

section \<open>Bounds of parsed addresses\<close>

lemma from_base_less:
  assumes "\<forall>d \<in> set ds. d < (b::nat)"
  shows "foldl (\<lambda>a d. a * b + d) a ds < (a + 1) * b ^ length ds"
  using assms(1)
proof (induction ds arbitrary: a)
  case (Cons d ds)
  then have "foldl (\<lambda>a d. a * b + d) (a * b + d) ds < (a * b + d + 1) * b ^ length ds" by simp
  also have "\<dots> \<le> ((a + 1) * b) * b ^ length ds"
  proof (rule mult_le_mono1)
    have "d < b" using Cons.prems by simp
    then show "a * b + d + 1 \<le> (a + 1) * b" by (simp add: algebra_simps)
  qed
  finally show ?case by (simp add: algebra_simps)
qed simp

lemma from_base_bound: "\<forall>d \<in> set ds. d < b \<Longrightarrow> 0 < b \<Longrightarrow> from_base b ds < b ^ length ds"
  using from_base_less [of ds b 0] by (simp add: from_base_def)

lemma traverse_set: "traverse f xs = Some ys \<Longrightarrow> length ys = length xs \<and> (\<forall>y \<in> set ys. \<exists>x \<in> set xs. f x = Some y)"
  by (induction xs arbitrary: ys) (auto split: option.splits)

lemma parse_hextet_bound: "parse_hextet s = Some n \<Longrightarrow> n < 65536"
proof -
  assume "parse_hextet s = Some n"
  then obtain ds where len: "length s \<le> 4" and ds: "traverse hex_val s = Some ds" and n: "n = from_base 16 ds"
    by (auto simp: parse_hextet_def split: if_splits)
  have "\<forall>d \<in> set ds. d < 16"
    using traverse_set [OF ds] by (fastforce simp: hex_val_def Let_def split: if_splits)
  then have "n < 16 ^ length ds" unfolding n by (rule from_base_bound) simp
  also have "\<dots> \<le> 16 ^ 4" using len traverse_set [OF ds] by (intro power_increasing) simp_all
  finally show ?thesis by simp
qed

lemma assemble_bound: "assemble hi k lo = Some n \<Longrightarrow> length hi + k + length lo = 8 \<Longrightarrow> n < 2 ^ 128"
proof -
  assume *: "assemble hi k lo = Some n" and len: "length hi + k + length lo = 8"
  let ?xs = "map parse_hextet hi @ replicate k (Some 0) @ map parse_hextet lo"
  obtain ds where ds: "traverse (\<lambda>x. x) ?xs = Some ds" and n: "n = from_base 65536 ds"
    using * by (auto simp: assemble_def)
  have "\<forall>d \<in> set ds. d < 65536"
    using traverse_set [OF ds] parse_hextet_bound by (fastforce dest: sym)
  then have "n < 65536 ^ length ds" unfolding n by (rule from_base_bound) simp
  moreover have "length ds = 8" using traverse_set [OF ds] len by simp
  ultimately show ?thesis by simp
qed

lemma parse_ipv6_bound: "parse_ipv6 s = Some n \<Longrightarrow> n < 2 ^ 128"
  by (auto simp: parse_ipv6_def Let_def dest!: assemble_bound
      split: option.splits if_splits list.splits)

end
