(* ===== verification/Allocation.thy ===== *)
theory Allocation
  imports Platform IPNet
begin

text \<open>
  The choice of a tunnel address for a new peer (\<^verbatim>\<open>services/vpn/ip_allocator.py\<close>) and the peer
  queries it uses (\<^verbatim>\<open>repositories/vpn_peer_repository.py\<close>).
\<close>

section \<open>Definitions\<close>

definition list_for_server :: "int \<Rightarrow> database \<Rightarrow> vpn_peer list" where
  "list_for_server sid d = filter (\<lambda>p. peer_server_id p = sid) (rows (vpn_peers d))"

text \<open>The newest active peer of a device.\<close>

definition get_active_for_device :: "int \<Rightarrow> database \<Rightarrow> vpn_peer option" where
  "get_active_for_device did d =
     first_max created_at
       (filter (\<lambda>p. peer_device_id p = did \<and> peer_status p = PeerActive) (rows (vpn_peers d)))"

text \<open>\<^verbatim>\<open>ipaddress.ip_address(p.assigned_ip.split("/")[0])\<close>\<close>

definition peer_address :: "vpn_peer \<Rightarrow> ip_address option" where
  "peer_address p = parse_ip_address (hd (split_on CHR ''/'' (peer_assigned_ip p)))"

text \<open>The first number of a range that is not in a list.\<close>

function first_free :: "nat \<Rightarrow> nat \<Rightarrow> nat list \<Rightarrow> nat option" where
  "first_free lo hi taken =
     (if hi < lo then None
      else if lo \<in> set taken then first_free (lo + 1) hi taken
      else Some lo)"
  by auto
termination
  by (relation "measure (\<lambda>(lo, hi, taken). Suc hi - lo)") auto

declare first_free.simps [simp del]

definition allocate_ip :: "int \<Rightarrow> string \<Rightarrow> string dbM" where
  "allocate_ip sid cidr d =
     (case parse_ip_network cidr of
        None \<Rightarrow> (Inl (PyError ''ValueError''), d)
      | Some net \<Rightarrow>
          (case traverse peer_address (list_for_server sid d) of
             None \<Rightarrow> (Inl (PyError ''ValueError''), d)
           | Some taken \<Rightarrow>
               (case host_range net of
                  None \<Rightarrow> (Inl (PyError ''TypeError''), d)
                | Some (lo, hi) \<Rightarrow>
                    (case first_free (lo + 1) hi (map ip_int (filter (same_version (fst net)) taken)) of
                       Some n \<Rightarrow>
                         (Inr (ip_str (with_int (fst net) n) @
                               (if net_bits net = 32 then ''/32'' else ''/128'')), d)
                     | None \<Rightarrow>
                         (Inl (app_error ConflictError
                                 (''No free IP addresses left in '' @ cidr @ '' on server '' @ int_str sid)
                                 (Some ''ip_pool_exhausted'')), d)))))"

section \<open>Lemmas\<close>

lemma first_free_Some:
  "first_free lo hi taken = Some n \<longleftrightarrow>
     lo \<le> n \<and> n \<le> hi \<and> n \<notin> set taken \<and> {lo..<n} \<subseteq> set taken"
proof (induction lo hi taken rule: first_free.induct)
  case (1 lo hi taken)
  show ?case
  proof (cases "hi < lo \<or> lo \<notin> set taken")
    case True
    then show ?thesis
      by (subst first_free.simps) (auto, metis atLeastLessThan_iff le_less_linear le_neq_implies_less order_refl subsetD)
  next
    case False
    then have "first_free lo hi taken = first_free (lo + 1) hi taken"
      by (subst first_free.simps) simp
    moreover have "lo + 1 \<le> n \<and> {lo + 1..<n} \<subseteq> set taken \<and> n \<notin> set taken \<longleftrightarrow>
        lo \<le> n \<and> {lo..<n} \<subseteq> set taken \<and> n \<notin> set taken"
      using False by (cases "n = lo") (auto simp: subset_iff Suc_le_eq, metis le_neq_implies_less Suc_leI)
    ultimately show ?thesis using 1 False by auto
  qed
qed

lemma first_free_None: "first_free lo hi taken = None \<longleftrightarrow> {lo..hi} \<subseteq> set taken"
proof (induction lo hi taken rule: first_free.induct)
  case (1 lo hi taken)
  show ?case
  proof (cases "hi < lo \<or> lo \<notin> set taken")
    case True
    then show ?thesis by (subst first_free.simps) (auto simp: subset_iff)
  next
    case False
    then have "first_free lo hi taken = first_free (lo + 1) hi taken"
      by (subst first_free.simps) simp
    moreover have "{lo..hi} = insert lo {lo + 1..hi}" using False by auto
    ultimately show ?thesis using 1 False by simp
  qed
qed

lemma traverse_Some: "traverse f xs = Some ys \<Longrightarrow> list_all2 (\<lambda>x y. f x = Some y) xs ys"
  by (induction xs arbitrary: ys) (auto split: option.splits)

lemma traverse_Some_mem: "traverse f xs = Some ys \<Longrightarrow> (x \<in> set xs \<longrightarrow> (\<exists>y \<in> set ys. f x = Some y)) \<and>
    (y \<in> set ys \<longrightarrow> (\<exists>x \<in> set xs. f x = Some y))"
  by (induction xs arbitrary: ys) (auto split: option.splits)

lemma parse_ipv4_bound: "parse_ipv4 s = Some n \<Longrightarrow> n < 2 ^ 32"
proof -
  assume *: "parse_ipv4 s = Some n"
  then obtain ks where ks: "traverse parse_octet (split_on CHR ''.'' s) = Some ks"
    and n: "n = from_base 256 ks" and len: "length (split_on CHR ''.'' s) = 4"
    by (auto simp: parse_ipv4_def Let_def split: if_splits)
  have "length ks = 4" using list_all2_lengthD [OF traverse_Some [OF ks]] len by simp
  moreover have "\<forall>k \<in> set ks. k < 256"
    using traverse_Some_mem [OF ks] by (fastforce simp: parse_octet_def split: if_splits)
  ultimately obtain a b c e where "ks = [a, b, c, e]" "a < 256" "b < 256" "c < 256" "e < 256"
    by (auto simp: numeral_eq_Suc length_Suc_conv)
  then show ?thesis by (simp add: n from_base_def)
qed

lemma mask_addr_le: "mask_addr bits p a \<le> a"
  by (simp add: mask_addr_def)

lemma parse_prefix_le: "parse_prefix bits s = Some p \<Longrightarrow> p \<le> bits"
  by (auto simp: parse_prefix_def dest!: find_Some_in split: option.splits if_splits)

lemma make_network_Some:
  "make_network x m = Some (y, p) \<Longrightarrow>
     p \<le> max_prefix x \<and> y = with_int x (mask_addr (max_prefix x) p (ip_int x))"
  by (auto simp: make_network_def dest: parse_prefix_le split: option.splits)

lemma parse_ip_network_Some:
  assumes "parse_ip_network s = Some net"
  obtains x m where "make_network x m = Some net" and "net_bits net = 32 \<longrightarrow> ip_int x < 2 ^ 32"
    and "max_prefix x = net_bits net"
proof -
  obtain a m where am: "split_netmask s = Some (a, m)"
    using assms by (auto simp: parse_ip_network_def split: option.splits)
  consider n where "parse_ipv4 a = Some n" "make_network (IPv4Address n) m = Some net"
    | n where "make_network (IPv6Address n) m = Some net"
    using assms am by (auto simp: parse_ip_network_def split: option.splits)
  then show ?thesis
  proof cases
    case 1
    then show ?thesis
      using make_network_Some [of "IPv4Address n" m "fst net" "snd net"] parse_ipv4_bound
      by (intro that [of "IPv4Address n" m]) (auto simp: net_bits_def)
  next
    case 2
    then show ?thesis
      using make_network_Some [of "IPv6Address n" m "fst net" "snd net"]
      by (intro that [of "IPv6Address n" m]) (auto simp: net_bits_def)
  qed
qed

lemma parse_ip_network_ipv4:
  assumes "parse_ip_network s = Some (IPv4Address a, p)"
  shows "a < 2 ^ 32 \<and> p \<le> 32 \<and> a mod block_size 32 p = 0"
proof -
  obtain x m where x: "make_network x m = Some (IPv4Address a, p)" "ip_int x < 2 ^ 32" "max_prefix x = 32"
    by (rule parse_ip_network_Some [OF assms]) (auto simp: net_bits_def)
  have "p \<le> 32" and "IPv4Address a = with_int x (mask_addr 32 p (ip_int x))"
    using make_network_Some [OF x(1)] x(3) by simp_all
  then have "p \<le> 32 \<and> a = mask_addr 32 p (ip_int x)" by (cases x) simp_all
  moreover have "mask_addr 32 p (ip_int x) < 2 ^ 32"
    using x(2) mask_addr_le [of 32 p "ip_int x"] by (rule le_less_trans [rotated])
  moreover have "mask_addr 32 p (ip_int x) mod block_size 32 p = 0"
    by (simp add: mask_addr_def minus_mod_eq_mult_div)
  ultimately show ?thesis by simp
qed

lemma host_range_ipv4:
  assumes "parse_ip_network s = Some net" and "net_bits net = 32" and "host_range net = Some (lo, hi)"
  shows "hi < 2 ^ 32"
proof -
  obtain a p where net: "net = (IPv4Address a, p)"
    using assms(2) by (cases net; cases "fst net") (auto simp: net_bits_def)
  have *: "a < 2 ^ 32" "p \<le> 32" "a mod block_size 32 p = 0"
    using parse_ip_network_ipv4 assms(1) net by blast+
  obtain q where q: "a = block_size 32 p * q" using *(3) by (auto simp: mod_eq_0_iff_dvd elim: dvdE)
  have pw: "(2::nat) ^ 32 = block_size 32 p * 2 ^ p"
    using *(2) by (simp add: block_size_def power_add [symmetric])
  have "q < 2 ^ p" using *(1) unfolding q pw by simp
  then have "block_size 32 p * (q + 1) \<le> block_size 32 p * 2 ^ p" by (intro mult_le_mono2) simp
  then have "a + block_size 32 p \<le> 2 ^ 32"
    unfolding q pw by (simp only: distrib_left mult_1_right)
  then have "broadcast net < 2 ^ 32"
    using block_size_pos [of 32 p] unfolding broadcast_def net net_bits_def fst_conv snd_conv ip_int.simps
      max_prefix.simps by linarith
  then show ?thesis
    using assms(3) by (auto simp: host_range_def Let_def net net_bits_def split: if_splits)
qed

lemma peer_address_of_allocated:
  "n < 2 ^ 32 \<Longrightarrow> peer_assigned_ip p = ipv4_str n @ ''/32'' \<Longrightarrow> peer_address p = Some (IPv4Address n)"
  by (simp add: peer_address_def split_on_append_sep ipv4_str_no_slash parse_ip_address_def
      parse_ipv4_str)

section \<open>Properties\<close>

text \<open>C21: An allocated address is the lowest host of the server's network above the reserved first one
  that no peer of the server holds: every lower candidate is held by some peer, and for an IPv4
  network no peer row of the server carries the same text, so inserting the peer can not violate
  the uniqueness of server and address. Allocation only reads.\<close>

theorem allocate_ip_lowest_free:
  assumes "allocate_ip sid cidr d = (Inr s, d')"
  shows "d' = d \<and> (\<exists>net lo hi n. parse_ip_network cidr = Some net \<and> host_range net = Some (lo, hi) \<and>
     lo < n \<and> n \<le> hi \<and> s = ip_str (with_int (fst net) n) @ (if net_bits net = 32 then ''/32'' else ''/128'') \<and>
     (\<forall>p \<in> set (list_for_server sid d). peer_address p \<noteq> Some (with_int (fst net) n)) \<and>
     (\<forall>m. lo < m \<and> m < n \<longrightarrow>
        (\<exists>p \<in> set (list_for_server sid d). peer_address p = Some (with_int (fst net) m))) \<and>
     (net_bits net = 32 \<longrightarrow> (\<forall>p \<in> set (list_for_server sid d). peer_assigned_ip p \<noteq> s)))"
proof -
  from assms obtain net lo hi taken n where net: "parse_ip_network cidr = Some net"
    and range: "host_range net = Some (lo, hi)"
    and taken: "traverse peer_address (list_for_server sid d) = Some taken"
    and free: "first_free (lo + 1) hi (map ip_int (filter (same_version (fst net)) taken)) = Some n"
    and s: "s = ip_str (with_int (fst net) n) @ (if net_bits net = 32 then ''/32'' else ''/128'')"
    and d': "d' = d"
    by (auto simp: allocate_ip_def split: option.splits)
  have v: "same_version a b \<Longrightarrow> with_int a (ip_int b) = b" "same_version a (with_int a m)"
    "ip_int (with_int a m) = m" for a b m
    by (induction a b rule: same_version.induct) (cases a; simp)+
  note mem = traverse_Some_mem [OF taken]
  have none: "peer_address p \<noteq> Some (with_int (fst net) n)" if "p \<in> set (list_for_server sid d)" for p
  proof
    assume p: "peer_address p = Some (with_int (fst net) n)"
    then have "with_int (fst net) n \<in> set taken" using mem that by fastforce
    then have "n \<in> set (map ip_int (filter (same_version (fst net)) taken))"
      using v(2,3) by (force simp: image_iff)
    with free show False by (simp add: first_free_Some)
  qed
  have lower: "\<exists>p \<in> set (list_for_server sid d). peer_address p = Some (with_int (fst net) m)"
    if "lo < m" "m < n" for m
  proof -
    have "m \<in> set (map ip_int (filter (same_version (fst net)) taken))"
      using free that by (auto simp: first_free_Some)
    then have "with_int (fst net) m \<in> set taken" using v(1) by auto
    then show ?thesis using mem by blast
  qed
  have "peer_assigned_ip p \<noteq> s" if "p \<in> set (list_for_server sid d)" "net_bits net = 32" for p
  proof
    assume ps: "peer_assigned_ip p = s"
    have "n < 2 ^ 32"
      using host_range_ipv4 [OF net that(2) range] free by (auto simp: first_free_Some)
    moreover have "with_int (fst net) n = IPv4Address n"
      using that(2) by (cases "fst net") (simp_all add: net_bits_def)
    ultimately have "peer_address p = Some (with_int (fst net) n)"
      using peer_address_of_allocated ps s that(2) by simp
    with none that(1) show False by blast
  qed
  with d' net range free s none lower show ?thesis
    by (auto simp: first_free_Some intro!: exI [of _ net] exI [of _ lo] exI [of _ hi] exI [of _ n])
qed

definition demo_peer :: "int \<Rightarrow> string \<Rightarrow> string \<Rightarrow> vpn_peer" where
  "demo_peer i key ip = \<lparr>rid = i, created_at = 0, peer_device_id = i, peer_server_id = 1,
     peer_public_key = key, peer_assigned_ip = ip, peer_status = PeerActive, peer_expires_at = None\<rparr>"

definition demo_peers_db :: database where
  "demo_peers_db = empty_db\<lparr>vpn_peers :=
     tbl [demo_peer 1 ''k1'' ''10.0.0.2/32'', demo_peer 2 ''k2'' ''10.0.0.4/32'']\<rparr>"

lemma allocate_ip_lowest_free_witness:
  "allocate_ip 1 ''10.0.0.0/29'' demo_peers_db = (Inr ''10.0.0.3/32'', demo_peers_db) \<and>
   ''10.0.0.3/32'' \<notin> peer_assigned_ip ` set (list_for_server 1 demo_peers_db)"
proof -
  have "fst (allocate_ip 1 ''10.0.0.0/29'' demo_peers_db) = Inr ''10.0.0.3/32''" by code_simp
  then have run: "allocate_ip 1 ''10.0.0.0/29'' demo_peers_db = (Inr ''10.0.0.3/32'', snd (allocate_ip 1 ''10.0.0.0/29'' demo_peers_db))"
    by (metis prod.collapse)
  have "map_option net_bits (parse_ip_network ''10.0.0.0/29'') = Some 32" by code_simp
  with allocate_ip_lowest_free [OF run] run show ?thesis by auto
qed

text \<open>Allocation reports an exhausted pool exactly when every host above the reserved first one is
  held by a peer of the server; a network of a single address, such as the placeholder
  \<^verbatim>\<open>0.0.0.0/32\<close> a VLESS server carries, is no pool at all and makes it raise a type error.\<close>

theorem allocate_ip_exhaustion:
  assumes "parse_ip_network cidr = Some net"
    and "traverse peer_address (list_for_server sid d) = Some taken"
  shows "case host_range net of
      None \<Rightarrow> allocate_ip sid cidr d = (Inl (PyError ''TypeError''), d)
    | Some (lo, hi) \<Rightarrow>
        (fst (allocate_ip sid cidr d) = Inl (AppError ConflictError
           (''No free IP addresses left in '' @ cidr @ '' on server '' @ int_str sid) ''ip_pool_exhausted'')) =
        (\<forall>n. lo < n \<and> n \<le> hi \<longrightarrow> (\<exists>p \<in> set (list_for_server sid d). peer_address p = Some (with_int (fst net) n)))"
proof (cases "host_range net")
  case None
  then show ?thesis using assms by (simp add: allocate_ip_def)
next
  case (Some r)
  obtain lo hi where r: "r = (lo, hi)" by (cases r)
  let ?T = "map ip_int (filter (same_version (fst net)) taken)"
  have v: "same_version a b \<Longrightarrow> with_int a (ip_int b) = b" "same_version a (with_int a m)"
    "ip_int (with_int a m) = m" for a b m
    by (induction a b rule: same_version.induct) (cases a; simp)+
  have held: "n \<in> set ?T \<longleftrightarrow> (\<exists>p \<in> set (list_for_server sid d). peer_address p = Some (with_int (fst net) n))" for n
  proof
    assume "n \<in> set ?T"
    then have "with_int (fst net) n \<in> set taken" using v(1) by auto
    then show "\<exists>p \<in> set (list_for_server sid d). peer_address p = Some (with_int (fst net) n)"
      using traverse_Some_mem [OF assms(2)] by blast
  next
    assume "\<exists>p \<in> set (list_for_server sid d). peer_address p = Some (with_int (fst net) n)"
    then have "with_int (fst net) n \<in> set taken"
      using traverse_Some_mem [OF assms(2)] by fastforce
    then show "n \<in> set ?T" using v(2,3) by (force simp: image_iff)
  qed
  have "fst (allocate_ip sid cidr d) = Inl (AppError ConflictError
           (''No free IP addresses left in '' @ cidr @ '' on server '' @ int_str sid) ''ip_pool_exhausted'')
      \<longleftrightarrow> first_free (lo + 1) hi ?T = None"
    using assms Some r by (simp add: allocate_ip_def app_error_def split: option.split)
  also have "\<dots> \<longleftrightarrow> (\<forall>n. lo < n \<and> n \<le> hi \<longrightarrow> n \<in> set ?T)"
    by (auto simp: first_free_None Suc_le_eq)
  finally show ?thesis using Some r held by simp
qed

lemma allocate_ip_exhaustion_witness:
  "allocate_ip 7 ''0.0.0.0/32'' demo_peers_db = (Inl (PyError ''TypeError''), demo_peers_db)"
proof -
  have "map_option host_range (parse_ip_network ''0.0.0.0/32'') = Some None" by code_simp
  then obtain net where net: "parse_ip_network ''0.0.0.0/32'' = Some net" "host_range net = None" by blast
  have "traverse peer_address (list_for_server 7 demo_peers_db) = Some []" by code_simp
  from allocate_ip_exhaustion [OF net(1) this] net(2) show ?thesis by simp
qed

end
