(* ===== verification/Routing.thy ===== *)
theory Routing
  imports Platform IPNet
begin

text \<open>
  Smart routing: the DNS resolver (\<^verbatim>\<open>services/routing/dns_resolver.py\<close>), the engine that turns
  domain rules into AllowedIPs (\<^verbatim>\<open>services/routing/engine.py\<close>), the routing service
  (\<^verbatim>\<open>services/routing_service.py\<close>) and its repositories. The DNS itself is a parameter: the
  outcome of looking a domain up for one record type.
\<close>

section \<open>Resolving domains\<close>

datatype rdtype = A | AAAA

text \<open>
  \<^verbatim>\<open>DnsTransient\<close>: timeout, no name servers, or an operating-system error. \<^verbatim>\<open>DnsRaises\<close>: any other
  exception, such as the one for a malformed name, which the resolver does not catch.
\<close>

datatype dns_outcome =
    Answer "string list" | NXDOMAIN | NoAnswer | DnsTransient | DnsRaises string

type_synonym dns = "string \<Rightarrow> rdtype \<Rightarrow> dns_outcome"

fun query_step :: "dns_outcome \<Rightarrow> string list \<times> bool \<Rightarrow> exn + (string list \<times> bool)" where
  "query_step (Answer as) (ips, failed) = Inr (ips @ as, failed)"
| "query_step NXDOMAIN st = Inr st"
| "query_step NoAnswer st = Inr st"
| "query_step DnsTransient (ips, failed) = Inr (ips, True)"
| "query_step (DnsRaises e) st = Inl (PyError e)"

definition resolve :: "dns \<Rightarrow> string \<Rightarrow> string list option \<Rightarrow> exn + string list" where
  "resolve dns domain fallback =
     (case query_step (dns domain A) ([], False) of
        Inl e \<Rightarrow> Inl e
      | Inr st \<Rightarrow>
          (case query_step (dns domain AAAA) st of
             Inl e \<Rightarrow> Inl e
           | Inr (ips, failed) \<Rightarrow>
               (case fallback of
                  Some fb \<Rightarrow> Inr (if ips = [] \<and> failed \<and> fb \<noteq> [] then fb else ips)
                | None \<Rightarrow> Inr ips)))"

section \<open>The engine\<close>

type_synonym domain_rule = "string \<times> route_type"

text \<open>The addresses of the rules routed through the VPN, unparsable ones skipped.\<close>

fun resolve_rules ::
  "dns \<Rightarrow> (string \<Rightarrow> string list option) \<Rightarrow> domain_rule list \<Rightarrow> exn + ip_address list" where
  "resolve_rules dns previous [] = Inr []"
| "resolve_rules dns previous ((domain, route) # rules) =
     (if route \<noteq> VPN then resolve_rules dns previous rules
      else case resolve dns domain (previous domain) of
        Inl e \<Rightarrow> Inl e
      | Inr ips \<Rightarrow>
          (case resolve_rules dns previous rules of
             Inl e \<Rightarrow> Inl e
           | Inr rest \<Rightarrow> Inr (List.map_filter parse_ip_address ips @ rest)))"

definition is_v4 :: "ip_address \<Rightarrow> bool" where
  "is_v4 a = (max_prefix a = 32)"

text \<open>
  Both versions collapsed on their own, then the printed networks sorted as strings.
\<close>

definition networks_of :: "ip_address list \<Rightarrow> ip_network list" where
  "networks_of as =
     map (\<lambda>(a, p). (IPv4Address a, p)) (collapse_addresses 32 (map ip_int (filter is_v4 as))) @
     map (\<lambda>(a, p). (IPv6Address a, p)) (collapse_addresses 128 (map ip_int (filter (\<lambda>a. \<not> is_v4 a) as)))"

definition build_allowed_ips ::
  "dns \<Rightarrow> (string \<Rightarrow> string list option) \<Rightarrow> domain_rule list \<Rightarrow> exn + string list" where
  "build_allowed_ips dns previous rules =
     (case resolve_rules dns previous rules of
        Inl e \<Rightarrow> Inl e
      | Inr as \<Rightarrow> Inr (sort (map net_str (networks_of as))))"

definition full_vpn_allowed_ips :: "string list" where
  "full_vpn_allowed_ips = [''0.0.0.0/0'', ''::/0'']"

section \<open>Repositories\<close>

definition list_enabled_categories :: "database \<Rightarrow> routing_category list" where
  "list_enabled_categories d = filter cat_enabled (rows (routing_categories d))"

definition list_enabled_rules :: "database \<Rightarrow> routing_rule list" where
  "list_enabled_rules d = filter rule_enabled (rows (routing_rules d))"

definition get_routing_profile :: "int \<Rightarrow> (user_routing_profile option) dbM" where
  "get_routing_profile uid = on_user_routing_profiles (repo_one (\<lambda>p. urp_user_id p = uid))"

definition list_preferences :: "int \<Rightarrow> database \<Rightarrow> user_category_preference list" where
  "list_preferences uid d = filter (\<lambda>p. pref_user_id p = uid) (rows (user_category_preferences d))"

definition get_preference :: "int \<Rightarrow> int \<Rightarrow> (user_category_preference option) dbM" where
  "get_preference uid cid =
     on_user_category_preferences (repo_one (\<lambda>p. pref_user_id p = uid \<and> pref_category_id p = cid))"

definition list_custom_domains :: "int \<Rightarrow> database \<Rightarrow> user_custom_domain list" where
  "list_custom_domains uid d = filter (\<lambda>c. cd_user_id c = uid) (rows (user_custom_domains d))"

definition current_profile_of :: "int \<Rightarrow> vpn_profile \<Rightarrow> bool" where
  "current_profile_of did p = (prof_device_id p = did \<and> is_current p)"

definition get_current_profile :: "int \<Rightarrow> (vpn_profile option) dbM" where
  "get_current_profile did = on_vpn_profiles (repo_one (current_profile_of did))"

definition mark_superseded :: "int \<Rightarrow> unit dbM" where
  "mark_superseded did =
     on_vpn_profiles (modifyM (repo_update_where (current_profile_of did) (\<lambda>p. p\<lparr>is_current := False\<rparr>)))"

section \<open>The routing service\<close>

definition create_category :: "string \<Rightarrow> string option \<Rightarrow> routing_category dbM" where
  "create_category name descr =
     on_routing_categories (repo_add category_conflict
       \<lparr>rid = 0, cat_name = name, cat_description = descr, cat_enabled = True\<rparr>)"

text \<open>The foreign key on the category is checked at the flush, as the unique pair is.\<close>

definition add_rule :: "instant \<Rightarrow> int \<Rightarrow> string \<Rightarrow> route_type \<Rightarrow> bool \<Rightarrow> routing_rule dbM" where
  "add_rule now cid domain route enabled =
     bindM (getM (\<lambda>d. repo_get cid (routing_categories d))) (\<lambda>cat.
       if cat = None then raiseM IntegrityError
       else on_routing_rules (repo_add rule_conflict
         \<lparr>rid = 0, rule_category_id = cid, rule_domain = strip (lower domain), rule_route_type = route,
          rule_enabled = enabled, rule_updated_at = now\<rparr>))"

definition get_or_create_user_profile :: "int \<Rightarrow> user_routing_profile dbM" where
  "get_or_create_user_profile uid =
     bindM (get_routing_profile uid) (\<lambda>found.
       case found of
         Some p \<Rightarrow> returnM p
       | None \<Rightarrow> on_user_routing_profiles (repo_add routing_profile_conflict
                   \<lparr>rid = 0, urp_user_id = uid, urp_mode = FULL_VPN\<rparr>))"

definition set_mode :: "int \<Rightarrow> routing_mode \<Rightarrow> user_routing_profile dbM" where
  "set_mode uid mode =
     bindM (get_or_create_user_profile uid) (\<lambda>p.
     bindM (on_user_routing_profiles (modifyM (repo_update (rid p) (\<lambda>r. r\<lparr>urp_mode := mode\<rparr>)))) (\<lambda>_.
     returnM (p\<lparr>urp_mode := mode\<rparr>)))"

definition set_category_preference :: "int \<Rightarrow> int \<Rightarrow> bool \<Rightarrow> unit dbM" where
  "set_category_preference uid cid enabled =
     bindM (getM (\<lambda>d. repo_get cid (routing_categories d))) (\<lambda>cat.
       if cat = None
       then raiseM (app_error NotFoundError ''Routing category not found'' (Some ''category_not_found''))
       else bindM (get_preference uid cid) (\<lambda>found.
         case found of
           None \<Rightarrow>
             bindM (on_user_category_preferences (repo_add preference_conflict
                      \<lparr>rid = 0, pref_user_id = uid, pref_category_id = cid, pref_enabled = enabled\<rparr>))
               (\<lambda>_. returnM ())
         | Some p \<Rightarrow>
             on_user_category_preferences
               (modifyM (repo_update (rid p) (\<lambda>r. r\<lparr>pref_enabled := enabled\<rparr>)))))"

definition add_custom_domain :: "instant \<Rightarrow> int \<Rightarrow> string \<Rightarrow> route_type \<Rightarrow> unit dbM" where
  "add_custom_domain now uid raw route =
     bindM (getM (list_custom_domains uid)) (\<lambda>existing.
     let domain = strip (lower raw) in
     case find (\<lambda>c. cd_domain c = domain) existing of
       Some c \<Rightarrow>
         on_user_custom_domains
           (modifyM (repo_update (rid c) (\<lambda>r. r\<lparr>cd_route_type := route, cd_enabled := True\<rparr>)))
     | None \<Rightarrow>
         bindM (on_user_custom_domains (repo_add custom_domain_conflict
                  \<lparr>rid = 0, cd_user_id = uid, cd_domain = domain, cd_route_type = route,
                   cd_enabled = True, cd_created_at = now\<rparr>))
           (\<lambda>_. returnM ()))"

text \<open>The dictionary of preferences: a later row of the same category wins.\<close>

definition category_enabled_for :: "int \<Rightarrow> int \<Rightarrow> database \<Rightarrow> bool" where
  "category_enabled_for uid cid d =
     (case map_of (rev (map (\<lambda>p. (pref_category_id p, pref_enabled p)) (list_preferences uid d))) cid of
        None \<Rightarrow> False | Some b \<Rightarrow> b)"

definition resolve_user_domain_rules :: "int \<Rightarrow> database \<Rightarrow> domain_rule list" where
  "resolve_user_domain_rules uid d =
     map (\<lambda>r. (rule_domain r, if category_enabled_for uid (rule_category_id r) d
                               then rule_route_type r else DIRECT)) (list_enabled_rules d) @
     map (\<lambda>c. (cd_domain c, cd_route_type c)) (filter cd_enabled (list_custom_domains uid d))"

text \<open>The engine is called without previous addresses.\<close>

definition profile_allowed_ips :: "dns \<Rightarrow> int \<Rightarrow> routing_mode \<Rightarrow> database \<Rightarrow> exn + string list" where
  "profile_allowed_ips dns uid mode d =
     (case mode of
        FULL_VPN \<Rightarrow> Inr full_vpn_allowed_ips
      | SMART_VPN \<Rightarrow>
          (case build_allowed_ips dns (\<lambda>_. None) (resolve_user_domain_rules uid d) of
             Inl e \<Rightarrow> Inl e
           | Inr ips \<Rightarrow> Inr (if ips = [] then full_vpn_allowed_ips else ips)))"

definition regenerate_profile ::
  "dns \<Rightarrow> settings \<Rightarrow> instant \<Rightarrow> int \<Rightarrow> int \<Rightarrow> vpn_profile dbM" where
  "regenerate_profile dns cfg now did uid =
     bindM (get_or_create_user_profile uid) (\<lambda>profile.
     bindM (\<lambda>d. (profile_allowed_ips dns uid (urp_mode profile) d, d)) (\<lambda>ips.
     bindM (get_current_profile did) (\<lambda>current.
     bindM (mark_superseded did) (\<lambda>_.
     on_vpn_profiles (repo_add no_conflict
       \<lparr>rid = 0, created_at = now, prof_device_id = did, prof_mode = urp_mode profile,
        allowed_ips = ips, prof_dns = vpn_dns_list cfg,
        version = (case current of None \<Rightarrow> 1 | Some c \<Rightarrow> version c + 1),
        is_current = True, generated_at = now\<rparr>)))))"

section \<open>Lemmas\<close>

lemma is_v4_cases: "is_v4 a \<longleftrightarrow> a = IPv4Address (ip_int a)" "\<not> is_v4 a \<longleftrightarrow> a = IPv6Address (ip_int a)"
  by (cases a; simp add: is_v4_def)+

text \<open>The addresses a network stands for.\<close>

definition net_addrs :: "ip_network \<Rightarrow> ip_address set" where
  "net_addrs n = with_int (fst n) ` {ip_int (fst n) .. broadcast n}"

lemma net_addrs_block:
  "net_addrs (IPv4Address a, p) = IPv4Address ` addrs_of 32 (a, p)"
  "net_addrs (IPv6Address a, p) = IPv6Address ` addrs_of 128 (a, p)"
proof -
  have "{a .. a + (block_size b p - 1)} = {a ..< a + block_size b p}" for b
    using block_size_pos [of b p] by (auto simp del: block_size_pos; linarith)
  then show "net_addrs (IPv4Address a, p) = IPv4Address ` addrs_of 32 (a, p)"
    "net_addrs (IPv6Address a, p) = IPv6Address ` addrs_of 128 (a, p)"
    by (auto simp: net_addrs_def addrs_of_def broadcast_def net_bits_def)
qed

text \<open>An address is within its version's space.\<close>

definition valid_ip :: "ip_address \<Rightarrow> bool" where
  "valid_ip a \<longleftrightarrow> ip_int a < 2 ^ max_prefix a"

lemma valid_ip_bound:
  "valid_ip a \<Longrightarrow> is_v4 a \<Longrightarrow> ip_int a < 2 ^ 32" "valid_ip a \<Longrightarrow> \<not> is_v4 a \<Longrightarrow> ip_int a < 2 ^ 128"
  by (cases a; simp add: valid_ip_def is_v4_def)+

theorem networks_of_exact:
  assumes "\<forall>a \<in> set as. valid_ip a"
  shows "(\<Union>n \<in> set (networks_of as). net_addrs n) = set as"
proof -
  let ?v4 = "map ip_int (filter is_v4 as)"
  let ?v6 = "map ip_int (filter (\<lambda>a. \<not> is_v4 a) as)"
  have b4: "\<forall>a \<in> set ?v4. a < 2 ^ 32" and b6: "\<forall>a \<in> set ?v6. a < 2 ^ 128"
    using assms valid_ip_bound by auto
  have c4: "(\<Union>b \<in> set (collapse_addresses 32 ?v4). addrs_of 32 b) = set ?v4"
    using collapse_addresses_exact [OF b4] by (simp add: covers_def)
  have c6: "(\<Union>b \<in> set (collapse_addresses 128 ?v6). addrs_of 128 b) = set ?v6"
    using collapse_addresses_exact [OF b6] by (simp add: covers_def)
  have "(\<Union>n \<in> set (networks_of as). net_addrs n) =
     IPv4Address ` (\<Union>b \<in> set (collapse_addresses 32 ?v4). addrs_of 32 b) \<union>
     IPv6Address ` (\<Union>b \<in> set (collapse_addresses 128 ?v6). addrs_of 128 b)"
    by (auto simp: networks_of_def net_addrs_block image_UN case_prod_unfold)
  also have "\<dots> = IPv4Address ` set ?v4 \<union> IPv6Address ` set ?v6"
    by (simp only: c4 c6)
  also have "\<dots> = set as"
    using is_v4_cases by (auto simp: image_image image_iff)
  finally show ?thesis .
qed

lemma parse_ip_address_valid: "parse_ip_address s = Some a \<Longrightarrow> valid_ip a"
proof -
  assume *: "parse_ip_address s = Some a"
  have "foldl (\<lambda>a d. a * 256 + d) 0 ks < (256::nat) ^ 4"
    if "traverse parse_octet xs = Some ks" "length xs = 4" for xs ks
  proof -
    have "\<forall>k \<in> set ks. k < 256"
      using traverse_set [OF that(1)] by (fastforce simp: parse_octet_def split: if_splits)
    then have "from_base 256 ks < 256 ^ length ks" by (rule from_base_bound) simp
    then show ?thesis using traverse_set [OF that(1)] that(2) by (simp add: from_base_def)
  qed
  then have "parse_ipv4 s = Some n \<Longrightarrow> n < 2 ^ 32" for n
    by (auto simp: parse_ipv4_def Let_def from_base_def split: if_splits)
  with * parse_ipv6_bound show ?thesis
    by (auto simp: parse_ip_address_def valid_ip_def split: option.splits)
qed

lemma resolve_rules_set:
  "resolve_rules dns prev rules = Inr as \<Longrightarrow>
     set as = {a. \<exists>dom ips s. (dom, VPN) \<in> set rules \<and> resolve dns dom (prev dom) = Inr ips \<and>
                    s \<in> set ips \<and> parse_ip_address s = Some a}"
proof (induction rules arbitrary: as)
  case (Cons r rules)
  obtain dom route where r: "r = (dom, route)" by (cases r)
  show ?case
  proof (cases "route = VPN")
    case True
    with Cons.prems r obtain ips rest where ips: "resolve dns dom (prev dom) = Inr ips"
      and rest: "resolve_rules dns prev rules = Inr rest"
      and as: "as = List.map_filter parse_ip_address ips @ rest"
      by (auto split: sum.splits)
    have "set (List.map_filter parse_ip_address ips) = {a. \<exists>s \<in> set ips. parse_ip_address s = Some a}"
      by (force simp: List.map_filter_def)
    with Cons.IH [OF rest] ips as r True show ?thesis by auto
  next
    case False
    then have "resolve_rules dns prev rules = Inr as" using Cons.prems r by simp
    from Cons.IH [OF this] r False show ?thesis by auto
  qed
qed simp

lemma resolve_rules_cong:
  "(\<And>dom t. (dom, VPN) \<in> set rules \<Longrightarrow> dns dom t = dns2 dom t) \<Longrightarrow>
     resolve_rules dns prev rules = resolve_rules dns2 prev rules"
proof (induction rules)
  case (Cons r rules)
  then have "resolve_rules dns prev rules = resolve_rules dns2 prev rules" by simp
  with Cons.prems show ?case
    by (cases r; cases "snd r = VPN") (auto simp: resolve_def split: sum.split)
qed simp

section \<open>Properties\<close>

text \<open>C22: The AllowedIPs built from domain rules stand for exactly the addresses, of both versions, that
  the domains routed through the VPN resolved to: aggregation adds and loses none, the list is
  sorted, and the answers for domains routed directly are irrelevant.\<close>

theorem build_allowed_ips_exact:
  assumes "build_allowed_ips dns prev rules = Inr out"
  shows "(\<exists>nets. out = sort (map net_str nets) \<and>
       (\<Union>n \<in> set nets. net_addrs n) =
         {a. \<exists>dom ips s. (dom, VPN) \<in> set rules \<and> resolve dns dom (prev dom) = Inr ips \<and>
               s \<in> set ips \<and> parse_ip_address s = Some a}) \<and>
     (\<forall>dns2. (\<forall>dom t. (dom, VPN) \<in> set rules \<longrightarrow> dns2 dom t = dns dom t) \<longrightarrow>
        build_allowed_ips dns2 prev rules = Inr out)"
proof -
  obtain as where as: "resolve_rules dns prev rules = Inr as"
    and out: "out = sort (map net_str (networks_of as))"
    using assms by (auto simp: build_allowed_ips_def split: sum.splits)
  note set_as = resolve_rules_set [OF as]
  have "\<forall>a \<in> set as. valid_ip a" unfolding set_as by (auto dest: parse_ip_address_valid)
  then have "(\<Union>n \<in> set (networks_of as). net_addrs n) = set as" by (rule networks_of_exact)
  moreover have "build_allowed_ips dns2 prev rules = Inr out"
    if "\<forall>dom t. (dom, VPN) \<in> set rules \<longrightarrow> dns2 dom t = dns dom t" for dns2
    using resolve_rules_cong [of rules dns2 dns prev] that assms by (simp add: build_allowed_ips_def)
  ultimately show ?thesis using out set_as by auto
qed

definition demo_dns :: dns where
  "demo_dns host t =
     (if host = ''a.com'' then (case t of A \<Rightarrow> Answer [''1.2.3.4'', ''1.2.3.5''] | AAAA \<Rightarrow> Answer [''2001:db8::1''])
      else if host = ''slow.com'' then DnsTransient
      else if host = ''b..com'' then DnsRaises ''EmptyLabel''
      else NXDOMAIN)"

lemma build_allowed_ips_exact_witness:
  "build_allowed_ips demo_dns (\<lambda>_. None) [(''a.com'', VPN), (''b..com'', DIRECT)] =
     Inr [''1.2.3.4/31'', ''2001:db8::1/128''] \<and>
   (\<exists>nets. IPv4Address 16909061 \<in> (\<Union>n \<in> set nets. net_addrs n) \<and>
      [''1.2.3.4/31'', ''2001:db8::1/128''] = sort (map net_str nets))"
proof -
  have run: "build_allowed_ips demo_dns (\<lambda>_. None) [(''a.com'', VPN), (''b..com'', DIRECT)] =
     Inr [''1.2.3.4/31'', ''2001:db8::1/128'']"
    by code_simp
  from build_allowed_ips_exact [OF run] obtain nets where
    n: "[''1.2.3.4/31'', ''2001:db8::1/128''] = sort (map net_str nets)"
      "(\<Union>n \<in> set nets. net_addrs n) = {a. \<exists>dom ips s. (dom, VPN) \<in> set [(''a.com'', VPN), (''b..com'', DIRECT)] \<and>
          resolve demo_dns dom None = Inr ips \<and> s \<in> set ips \<and> parse_ip_address s = Some a}"
    by auto
  have "resolve demo_dns ''a.com'' None = Inr [''1.2.3.4'', ''1.2.3.5'', ''2001:db8::1'']"
    by (simp add: resolve_def demo_dns_def)
  moreover have "parse_ip_address ''1.2.3.5'' = Some (IPv4Address 16909061)" by code_simp
  ultimately have "IPv4Address 16909061 \<in> (\<Union>n \<in> set nets. net_addrs n)"
    unfolding n(2) mem_Collect_eq
    by (intro exI [of _ "''a.com''"] exI [of _ "[''1.2.3.4'', ''1.2.3.5'', ''2001:db8::1'']"]
        exI [of _ "''1.2.3.5''"] conjI) simp_all
  with run n(1) show ?thesis by blast
qed

text \<open>At most one profile of a device is current.\<close>

definition one_current :: "database \<Rightarrow> bool" where
  "one_current d \<longleftrightarrow> (\<forall>did. length (filter (current_profile_of did) (rows (vpn_profiles d))) \<le> 1)"

lemma get_or_create_user_profile_frame:
  "get_or_create_user_profile uid d = (r, d') \<Longrightarrow> vpn_profiles d' = vpn_profiles d"
  by (auto simp: get_or_create_user_profile_def get_routing_profile_def on_user_routing_profiles_def
      zoomM_def bindM_def split: prod.splits sum.splits option.splits)

lemma profile_allowed_ips_nonempty: "profile_allowed_ips dns uid mode d = Inr ips \<Longrightarrow> ips \<noteq> []"
  by (auto simp: profile_allowed_ips_def full_vpn_allowed_ips_def split: routing_mode.splits
      sum.splits if_splits)

lemma filter_superseded:
  "filter (current_profile_of i) (map (\<lambda>p. if current_profile_of did p then p\<lparr>is_current := False\<rparr> else p) ps) =
     (if i = did then [] else filter (current_profile_of i) ps)"
  unfolding current_profile_of_def [abs_def] by (induction ps) auto

lemma get_current_profile_run:
  assumes "one_current d"
  shows "get_current_profile did d =
    (Inr (case filter (current_profile_of did) (rows (vpn_profiles d)) of [] \<Rightarrow> None | c # _ \<Rightarrow> Some c), d)"
proof -
  let ?F = "filter (current_profile_of did) (rows (vpn_profiles d))"
  have "length ?F \<le> 1" using assms by (simp add: one_current_def)
  then show ?thesis
    by (cases ?F) (auto simp: get_current_profile_def on_vpn_profiles_def zoomM_def
        repo_one_def repo_select_def scalar_one_or_none_def)
qed

text \<open>The table of profiles after a regeneration, and the profile it adds.\<close>

definition superseded :: "int \<Rightarrow> database \<Rightarrow> vpn_profile table" where
  "superseded did d = repo_update_where (current_profile_of did) (\<lambda>p. p\<lparr>is_current := False\<rparr>) (vpn_profiles d)"

lemma regenerate_profile_cases:
  assumes "one_current d"
  shows "(\<exists>e d'. regenerate_profile dns cfg now did uid d = (Inl e, d') \<and> vpn_profiles d' = vpn_profiles d) \<or>
    (\<exists>p d'. regenerate_profile dns cfg now did uid d = (Inr p, d') \<and>
       repo_add no_conflict p (superseded did d) = (Inr p, vpn_profiles d') \<and>
       current_profile_of did p \<and> rid p = next_id (vpn_profiles d) \<and> allowed_ips p \<noteq> [] \<and>
       version p = (case filter (current_profile_of did) (rows (vpn_profiles d)) of
                       [] \<Rightarrow> 1 | c # _ \<Rightarrow> version c + 1))"
proof -
  obtain rp d1 where prof: "get_or_create_user_profile uid d = (rp, d1)"
    by (cases "get_or_create_user_profile uid d")
  have same: "vpn_profiles d1 = vpn_profiles d"
    using prof by (rule get_or_create_user_profile_frame)
  then have one: "one_current d1" using assms by (simp add: one_current_def)
  show ?thesis
  proof (cases rp)
    case (Inl e)
    then show ?thesis using prof same by (simp add: regenerate_profile_def bindM_def)
  next
    case (Inr urp)
    show ?thesis
    proof (cases "profile_allowed_ips dns uid (urp_mode urp) d1")
      case (Inl e)
      then show ?thesis using prof \<open>rp = Inr urp\<close> same by (simp add: regenerate_profile_def bindM_def)
    next
      case ips: (Inr ips)
      show ?thesis
        using prof \<open>rp = Inr urp\<close> ips get_current_profile_run [OF one] same profile_allowed_ips_nonempty [OF ips]
        by (auto simp: regenerate_profile_def bindM_def mark_superseded_def on_vpn_profiles_def zoomM_def
            repo_add_def no_conflict_def list_ex_iff superseded_def Let_def current_profile_of_def
            split: list.splits)
    qed
  qed
qed

lemma one_current_added:
  assumes "one_current d" and "repo_add no_conflict p (superseded did d) = (Inr p, vpn_profiles d')"
    and "current_profile_of did p"
  shows "one_current d' \<and> filter (current_profile_of did) (rows (vpn_profiles d')) = [p]"
proof -
  have rows: "rows (vpn_profiles d') = map (\<lambda>p. if current_profile_of did p then p\<lparr>is_current := False\<rparr> else p)
      (rows (vpn_profiles d)) @ [p]"
    using assms(2) by (auto simp: repo_add_Inr superseded_def rows_update_where)
  have "current_profile_of i p \<longleftrightarrow> i = did" for i
    using assms(3) by (auto simp: current_profile_of_def)
  then show ?thesis
    using assms(1) by (simp add: one_current_def rows filter_superseded)
qed

text \<open>Regenerating a device's profile keeps at most one current profile per device: the new one,
  numbered one above the profile it replaces (or 1), with a non-empty address list. Every older
  row keeps its addresses and its number, and profiles of other devices are untouched; when it
  fails, no profile has changed.\<close>

theorem regenerate_profile_versions:
  assumes "wf_table (vpn_profiles d)" and "one_current d"
  shows "case regenerate_profile dns cfg now did uid d of
      (Inl e, d') \<Rightarrow> vpn_profiles d' = vpn_profiles d
    | (Inr p, d') \<Rightarrow>
        one_current d' \<and> wf_table (vpn_profiles d') \<and>
        filter (current_profile_of did) (rows (vpn_profiles d')) = [p] \<and>
        version p = (case filter (current_profile_of did) (rows (vpn_profiles d)) of
                       [] \<Rightarrow> 1 | c # _ \<Rightarrow> version c + 1) \<and>
        allowed_ips p \<noteq> [] \<and> repo_get (rid p) (vpn_profiles d) = None \<and>
        (\<forall>i q. repo_get i (vpn_profiles d) = Some q \<longrightarrow>
           (\<exists>q2. repo_get i (vpn_profiles d') = Some q2 \<and> allowed_ips q2 = allowed_ips q \<and>
              version q2 = version q \<and> (prof_device_id q = did \<or> q2 = q)))"
proof -
  consider e d' where "regenerate_profile dns cfg now did uid d = (Inl e, d')" "vpn_profiles d' = vpn_profiles d"
    | p d' where "regenerate_profile dns cfg now did uid d = (Inr p, d')"
      "repo_add no_conflict p (superseded did d) = (Inr p, vpn_profiles d')" "current_profile_of did p"
      "rid p = next_id (vpn_profiles d)" "allowed_ips p \<noteq> []"
      "version p = (case filter (current_profile_of did) (rows (vpn_profiles d)) of
                       [] \<Rightarrow> 1 | c # _ \<Rightarrow> version c + 1)"
    using regenerate_profile_cases [OF assms(2), of dns cfg now did uid] by blast
  then show ?thesis
  proof cases
    case 1
    then show ?thesis by simp
  next
    case 2
    have wf: "wf_table (superseded did d)"
      using assms(1) by (simp add: superseded_def wf_update_where)
    have fresh: "repo_get (rid p) (vpn_profiles d) = None"
      using assms(1) 2(4) by (simp add: wf_table_def repo_get_def find_none_fresh)
    have "\<exists>q2. repo_get i (vpn_profiles d') = Some q2 \<and> allowed_ips q2 = allowed_ips q \<and>
          version q2 = version q \<and> (prof_device_id q = did \<or> q2 = q)"
      if "repo_get i (vpn_profiles d) = Some q" for i q
      using that fresh get_add [OF wf 2(2), of i]
      by (auto simp: superseded_def get_update_where current_profile_of_def)
    then show ?thesis
      using 2 one_current_added [OF assms(2) 2(2,3)] wf_add [OF wf 2(2)] fresh by simp
  qed
qed

definition demo_smart_db :: database where
  "demo_smart_db = empty_db\<lparr>
     vpn_profiles := tbl [\<lparr>rid = 1, created_at = 0, prof_device_id = 5, prof_mode = FULL_VPN,
        allowed_ips = full_vpn_allowed_ips, prof_dns = [], version = 3, is_current = True, generated_at = 0\<rparr>],
     user_routing_profiles := tbl [\<lparr>rid = 1, urp_user_id = 9, urp_mode = SMART_VPN\<rparr>],
     user_custom_domains := tbl [\<lparr>rid = 1, cd_user_id = 9, cd_domain = ''a.com'', cd_route_type = VPN,
        cd_enabled = True, cd_created_at = 0\<rparr>]\<rparr>"

lemma regenerate_profile_versions_witness:
  "case regenerate_profile demo_dns default_settings 7 5 9 demo_smart_db of
      (Inl e, d') \<Rightarrow> False
    | (Inr p, d') \<Rightarrow> one_current d' \<and> version p = 4 \<and>
        filter (current_profile_of 5) (rows (vpn_profiles d')) = [p]"
proof -
  have wf: "wf_table (vpn_profiles demo_smart_db)" by code_simp
  have one: "one_current demo_smart_db"
    by (simp add: one_current_def demo_smart_db_def empty_db_def tbl_def)
  have ver: "case filter (current_profile_of 5) (rows (vpn_profiles demo_smart_db)) of
      [] \<Rightarrow> False | c # _ \<Rightarrow> version c = 3"
    by code_simp
  have ok: "case regenerate_profile demo_dns default_settings 7 5 9 demo_smart_db of
      (Inl e, _) \<Rightarrow> False | (Inr p, _) \<Rightarrow> allowed_ips p = [''1.2.3.4/31'', ''2001:db8::1/128'']"
    by code_simp
  show ?thesis
    using regenerate_profile_versions [OF wf one, where dns = demo_dns and cfg = default_settings and now = 7 and did = 5 and uid = 9] ok ver
    by (auto split: prod.splits sum.splits list.splits)
qed

text \<open>The resolver with every transient failure turned into a negative answer.\<close>

definition forget_transient :: "dns \<Rightarrow> dns" where
  "forget_transient dns host t = (case dns host t of DnsTransient \<Rightarrow> NXDOMAIN | out \<Rightarrow> out)"

lemma resolve_forget: "resolve (forget_transient dns) host None = resolve dns host None"
  by (cases "dns host A"; cases "dns host AAAA") (simp_all add: resolve_def forget_transient_def)

lemma build_forget:
  "build_allowed_ips (forget_transient dns) (\<lambda>_. None) rules = build_allowed_ips dns (\<lambda>_. None) rules"
proof -
  have "resolve_rules (forget_transient dns) (\<lambda>_. None) rules = resolve_rules dns (\<lambda>_. None) rules"
    by (induction rules) (auto simp: resolve_forget split: sum.split)
  then show ?thesis by (simp add: build_allowed_ips_def)
qed

text \<open>The service gives the engine no previous addresses, so a domain whose lookup fails for a
  transient reason is treated as one that does not exist: with every transient outcome replaced
  by a negative answer the regenerated profile, and the whole database, are the same.\<close>

theorem transient_dns_failure_drops_domain:
  "regenerate_profile (forget_transient dns) cfg now did uid d = regenerate_profile dns cfg now did uid d"
  by (simp add: regenerate_profile_def profile_allowed_ips_def build_forget cong: routing_mode.case_cong)

lemma find_filter: "find P (filter Q xs) = find (\<lambda>x. Q x \<and> P x) xs"
  by (induction xs) auto

lemma add_custom_domain_unique:
  assumes "table_unique custom_domain_conflict (user_custom_domains d)"
    and "add_custom_domain now uid raw route d = (r, d')"
  shows "table_unique custom_domain_conflict (user_custom_domains d')"
proof (cases "find (\<lambda>c. cd_domain c = strip (lower raw)) (list_custom_domains uid d)")
  case None
  then show ?thesis
    using assms by (auto simp: add_custom_domain_def on_user_custom_domains_def zoomM_def bindM_def
        split: prod.splits sum.splits intro: table_unique_add dest: repo.add_fail)
next
  case (Some c)
  then show ?thesis
    using assms by (auto simp: add_custom_domain_def on_user_custom_domains_def zoomM_def Let_def
        custom_domain_conflict_def intro!: table_unique_update)
qed

text \<open>Adding a custom domain never violates the uniqueness of user and domain: it always succeeds,
  and afterwards the user's one row for the normalised domain is enabled with the route asked for,
  whether the domain was new, disabled or routed otherwise; other rows are as they were.\<close>

theorem add_custom_domain_upsert:
  assumes "wf_table (user_custom_domains d)" and "table_unique custom_domain_conflict (user_custom_domains d)"
  shows "\<exists>d' c. add_custom_domain now uid raw route d = (Inr (), d') \<and>
     filter (\<lambda>x. cd_user_id x = uid \<and> cd_domain x = strip (lower raw)) (rows (user_custom_domains d')) = [c] \<and>
     cd_route_type c = route \<and> cd_enabled c \<and>
     filter (\<lambda>x. rid x \<noteq> rid c) (rows (user_custom_domains d')) =
       filter (\<lambda>x. rid x \<noteq> rid c) (rows (user_custom_domains d))"
proof -
  let ?dom = "strip (lower raw)"
  let ?t = "user_custom_domains d"
  let ?P = "\<lambda>x. cd_user_id x = uid \<and> cd_domain x = ?dom"
  have one: "length (filter ?P (rows ?t)) \<le> 1"
    by (rule table_unique_filter [OF assms(2)]) (simp add: custom_domain_conflict_def)
  have find: "find (\<lambda>c. cd_domain c = ?dom) (list_custom_domains uid d) = find ?P (rows ?t)"
    by (simp add: list_custom_domains_def find_filter)
  show ?thesis
  proof (cases "find ?P (rows ?t)")
    case None
    then have "filter ?P (rows ?t) = []" by (simp add: find_None_iff filter_empty_conv)
    moreover have "\<forall>x \<in> set (rows ?t). rid x \<noteq> next_id ?t"
      using assms(1) by (auto simp: wf_table_def list_all_iff)
    ultimately show ?thesis
      using None find
      by (auto simp: add_custom_domain_def on_user_custom_domains_def zoomM_def bindM_def Let_def
          repo_add_def custom_domain_conflict_def list_ex_iff filter_empty_conv)
  next
    case (Some c)
    let ?f = "\<lambda>r. r\<lparr>cd_route_type := route, cd_enabled := True\<rparr>"
    have c: "c \<in> set (rows ?t)" "?P c" using find_Some_in [OF Some] by auto
    then have "c \<in> set (filter ?P (rows ?t))" by simp
    with one have F: "filter ?P (rows ?t) = [c]"
      by (cases "filter ?P (rows ?t)") auto
    have map1: "filter ?P (map (\<lambda>r. if rid r = rid c then ?f r else r) xs) =
        map (\<lambda>r. if rid r = rid c then ?f r else r) (filter ?P xs)" for xs
      by (induction xs) auto
    have map2: "filter (\<lambda>x. rid x \<noteq> rid c) (map (\<lambda>r. if rid r = rid c then ?f r else r) xs) =
        filter (\<lambda>x. rid x \<noteq> rid c) xs" for xs
      by (induction xs) auto
    show ?thesis
      using Some find F
      by (intro exI [of _ "d\<lparr>user_custom_domains := repo_update (rid c) ?f ?t\<rparr>"] exI [of _ "?f c"])
        (simp add: add_custom_domain_def on_user_custom_domains_def zoomM_def Let_def rows_update map1 map2)
  qed
qed

lemma add_custom_domain_upsert_witness:
  "\<exists>d' c. add_custom_domain 3 9 '' A.com '' DIRECT demo_smart_db = (Inr (), d') \<and>
     filter (\<lambda>x. cd_user_id x = 9 \<and> cd_domain x = ''a.com'') (rows (user_custom_domains d')) = [c] \<and>
     cd_route_type c = DIRECT"
proof -
  have 1: "wf_table (user_custom_domains demo_smart_db)" by code_simp
  have 2: "table_unique custom_domain_conflict (user_custom_domains demo_smart_db)"
    by (simp add: table_unique_def demo_smart_db_def empty_db_def tbl_def)
  have 3: "strip (lower '' A.com '') = ''a.com''" by code_simp
  from add_custom_domain_upsert [OF 1 2, of 3 9 "'' A.com ''" DIRECT] show ?thesis
    unfolding 3 by blast
qed

end
