(* ===== verification/Delivery.thy ===== *)
theory Delivery
  imports Links Allocation Routing
begin

text \<open>
  The public endpoint \<^verbatim>\<open>GET /sub/{token}\<close>: \<^verbatim>\<open>SubscriptionDeliveryService\<close>
  (\<^verbatim>\<open>services/subscription_delivery/delivery_service.py\<close>) with the registry of formatters
  (\<^verbatim>\<open>core/deps.py\<close>) and the VLESS credential queries it uses.
\<close>

section \<open>Definitions\<close>

definition list_active_credentials :: "int \<Rightarrow> database \<Rightarrow> vless_credential list" where
  "list_active_credentials did d =
     filter (\<lambda>c. cred_device_id c = did \<and> cred_status c = CredActive) (rows (vless_credentials d))"

definition list_credentials :: "int \<Rightarrow> database \<Rightarrow> vless_credential list" where
  "list_credentials did d = filter (\<lambda>c. cred_device_id c = did) (rows (vless_credentials d))"

definition delivery_not_found :: exn where
  "delivery_not_found = app_error NotFoundError ''Not found'' (Some ''not_found'')"

definition text_plain :: string where
  "text_plain = ''text/plain; charset=utf-8''"

type_synonym formatter = "vpn_peer \<Rightarrow> vpn_server \<Rightarrow> vpn_profile option \<Rightarrow> string"

definition formatters :: "(string \<times> formatter) list" where
  "formatters = [(''wireguard'', render_wireguard)]"

text \<open>An unknown, empty or missing format falls back to the default one.\<close>

definition pick_formatter :: "string option \<Rightarrow> formatter" where
  "pick_formatter hint =
     (case (if absent hint then None else map_of formatters (the hint)) of
        Some f \<Rightarrow> f
      | None \<Rightarrow> the (map_of formatters ''wireguard''))"

definition lapsed :: "instant \<Rightarrow> subscription option \<Rightarrow> bool" where
  "lapsed now s =
     (case s of None \<Rightarrow> True
      | Some x \<Rightarrow> (case expires_at x of None \<Rightarrow> True | Some e \<Rightarrow> e \<le> now))"

definition authorize :: "crypto \<Rightarrow> instant \<Rightarrow> string \<Rightarrow> device dbM" where
  "authorize k now token =
     bindM (resolve_token k token) (\<lambda>link.
       case link of
         None \<Rightarrow> raiseM delivery_not_found
       | Some l \<Rightarrow>
           if link_status l \<noteq> LinkActive then raiseM delivery_not_found
           else bindM (getM (\<lambda>d. repo_get (link_device_id l) (devices d))) (\<lambda>device.
             case device of
               None \<Rightarrow> raiseM delivery_not_found
             | Some v \<Rightarrow>
                 if dev_status v \<noteq> DevActive then raiseM delivery_not_found
                 else bindM (getM (get_active_for_user (dev_user_id v))) (\<lambda>subscription.
                   if lapsed now subscription then raiseM delivery_not_found
                   else bindM (record_access now l) (\<lambda>_. returnM v))))"

definition delivery_items ::
  "vless_credential list \<Rightarrow> (vless_credential \<times> vpn_server \<times> vless_server_config) option list dbM" where
  "delivery_items creds =
     mapM (\<lambda>c. bindM (getM (\<lambda>d. repo_get (cred_server_id c) (vpn_servers d))) (\<lambda>server.
       case server of
         None \<Rightarrow> returnM None
       | Some s \<Rightarrow> bindM (get_config_for_server (rid s)) (\<lambda>cfg.
           returnM (map_option (\<lambda>g. (c, s, g)) cfg)))) creds"

definition deliver_vless :: "device \<Rightarrow> (string \<times> string) dbM" where
  "deliver_vless v =
     bindM (getM (list_active_credentials (rid v))) (\<lambda>creds.
     bindM (delivery_items creds) (\<lambda>found.
     let items = List.map_filter id found in
     if items = [] then raiseM delivery_not_found
     else returnM (render_vless v items, text_plain)))"

definition deliver :: "crypto \<Rightarrow> instant \<Rightarrow> string \<Rightarrow> string option \<Rightarrow> (string \<times> string) dbM" where
  "deliver k now token hint =
     bindM (authorize k now token) (\<lambda>v.
       if dev_protocol v = VLESS then deliver_vless v
       else bindM (getM (get_active_for_device (rid v))) (\<lambda>peer.
         case peer of
           None \<Rightarrow> raiseM delivery_not_found
         | Some p \<Rightarrow>
             if peer_status p \<noteq> PeerActive then raiseM delivery_not_found
             else bindM (getM (\<lambda>d. repo_get (peer_server_id p) (vpn_servers d))) (\<lambda>server.
               case server of
                 None \<Rightarrow> raiseM delivery_not_found
               | Some s \<Rightarrow>
                   bindM (get_current_profile (rid v)) (\<lambda>profile.
                   returnM (pick_formatter hint p s profile, text_plain)))))"

section \<open>Lemmas\<close>

lemma pick_formatter_eq [simp]: "pick_formatter hint = render_wireguard"
  by (simp add: pick_formatter_def formatters_def split: option.split)

text \<open>What the database must satisfy for the queries by a unique column to be unambiguous.\<close>

definition delivery_ok :: "database \<Rightarrow> bool" where
  "delivery_ok d \<longleftrightarrow> table_unique link_conflict (subscription_links d) \<and>
     table_unique config_conflict (vless_server_configs d) \<and> one_current d"

definition touched :: "instant \<Rightarrow> subscription_link \<Rightarrow> database \<Rightarrow> database" where
  "touched now l d = d\<lparr>subscription_links := repo_update (rid l) (touch_link now) (subscription_links d)\<rparr>"

lemma authorize_run:
  assumes "delivery_ok d"
  shows "authorize k now token d =
    (case (if token = '''' then None
           else find (\<lambda>l. token_hash l = hash_subscription_token k token) (rows (subscription_links d))) of
       None \<Rightarrow> (Inl delivery_not_found, d)
     | Some l \<Rightarrow>
         (case repo_get (link_device_id l) (devices d) of
            None \<Rightarrow> (Inl delivery_not_found, d)
          | Some v \<Rightarrow>
              if link_status l = LinkActive \<and> dev_status v = DevActive \<and>
                 \<not> lapsed now (get_active_for_user (dev_user_id v) d)
              then (Inr v, touched now l d)
              else (Inl delivery_not_found, d)))"
  using assms
  by (auto simp: authorize_def delivery_ok_def bindM_def resolve_token_run record_access_def
      on_subscription_links_def zoomM_def touched_def split: option.split)

lemma delivery_items_run:
  assumes "table_unique config_conflict (vless_server_configs d)"
  shows "delivery_items creds d =
    (Inr (map (\<lambda>c. case repo_get (cred_server_id c) (vpn_servers d) of
        None \<Rightarrow> None
      | Some s \<Rightarrow> map_option (\<lambda>g. (c, s, g))
          (find (\<lambda>g. cfg_server_id g = rid s) (rows (vless_server_configs d)))) creds), d)"
  unfolding delivery_items_def
  by (induction creds) (auto simp: bindM_def get_config_run [OF assms] split: option.split)

lemma deliver_vless_run:
  assumes "table_unique config_conflict (vless_server_configs d)"
  shows "\<exists>items. set items \<subseteq> {(c, s, g). c \<in> set (list_active_credentials (rid v) d) \<and>
        repo_get (cred_server_id c) (vpn_servers d) = Some s \<and>
        find (\<lambda>g. cfg_server_id g = rid s) (rows (vless_server_configs d)) = Some g} \<and>
     deliver_vless v d =
       (if items = [] then (Inl delivery_not_found, d) else (Inr (render_vless v items, text_plain), d))"
proof -
  let ?found = "map (\<lambda>c. case repo_get (cred_server_id c) (vpn_servers d) of
        None \<Rightarrow> None
      | Some s \<Rightarrow> map_option (\<lambda>g. (c, s, g))
          (find (\<lambda>g. cfg_server_id g = rid s) (rows (vless_server_configs d))))
      (list_active_credentials (rid v) d)"
  have "set (List.map_filter id ?found) \<subseteq> {(c, s, g). c \<in> set (list_active_credentials (rid v) d) \<and>
        repo_get (cred_server_id c) (vpn_servers d) = Some s \<and>
        find (\<lambda>g. cfg_server_id g = rid s) (rows (vless_server_configs d)) = Some g}"
    by (auto simp: List.map_filter_def split: option.splits)
  then show ?thesis
    by (intro exI [of _ "List.map_filter id ?found"])
      (simp add: deliver_vless_def bindM_def delivery_items_run [OF assms] Let_def)
qed

lemma touched_simps [simp]:
  "devices (touched now l d) = devices d" "vpn_peers (touched now l d) = vpn_peers d"
  "vpn_servers (touched now l d) = vpn_servers d" "vpn_profiles (touched now l d) = vpn_profiles d"
  "vless_credentials (touched now l d) = vless_credentials d"
  "vless_server_configs (touched now l d) = vless_server_configs d"
  by (simp_all add: touched_def)

lemma one_current_touched: "one_current d \<Longrightarrow> one_current (touched now l d)"
  by (simp add: one_current_def)

lemma touched_views [simp]:
  "get_active_for_device did (touched now l d) = get_active_for_device did d"
  "list_active_credentials did (touched now l d) = list_active_credentials did d"
  by (simp_all add: get_active_for_device_def list_active_credentials_def)

lemma get_active_for_device_Some:
  "get_active_for_device did d = Some p \<Longrightarrow>
     p \<in> set (rows (vpn_peers d)) \<and> peer_device_id p = did \<and> peer_status p = PeerActive"
  unfolding get_active_for_device_def by (drule first_max_Some) simp

section \<open>Properties\<close>

text \<open>Whatever makes a delivery fail, the caller sees one and the same error and the database is what
  it was except for the access counter of the link, which the request's transaction drops as
  well: bad, rotated or revoked token, missing, disabled or revoked device, lapsed subscription,
  no usable peer or credential.\<close>

theorem deliver_fails_uniformly:
  assumes "delivery_ok d" and "deliver k now token hint d = (Inl e, d')"
  shows "e = AppError NotFoundError ''Not found'' ''not_found'' \<and>
    (d' = d \<or> (\<exists>l. d' = touched now l d)) \<and>
    with_session (on_db (deliver k now token hint)) \<lparr>db = d, remote = w\<rparr> = (Inl e, \<lparr>db = d, remote = w\<rparr>)"
proof -
  have u: "table_unique config_conflict (vless_server_configs d)" "one_current d"
    using assms(1) by (simp_all add: delivery_ok_def)
  have nf: "delivery_not_found = AppError NotFoundError ''Not found'' ''not_found''"
    by (simp add: delivery_not_found_def app_error_def)
  consider "authorize k now token d = (Inl e, d')"
    | v d1 where "authorize k now token d = (Inr v, d1)"
    using assms(2) by (auto simp: deliver_def bindM_eq_Inl_iff)
  then have "e = delivery_not_found \<and> (d' = d \<or> (\<exists>l. d' = touched now l d))"
  proof cases
    case 1
    then show ?thesis by (auto simp: authorize_run [OF assms(1)] split: option.splits if_splits)
  next
    case 2
    then obtain l where d1: "d1 = touched now l d"
      by (auto simp: authorize_run [OF assms(1)] split: option.splits if_splits)
    have u1: "table_unique config_conflict (vless_server_configs d1)" "one_current d1"
      using u d1 by (simp_all add: one_current_touched)
    have "deliver_vless v d1 = (Inl e, d') \<Longrightarrow> e = delivery_not_found \<and> d' = d1"
      using deliver_vless_run [OF u1(1), of v] by (auto split: if_splits)
    with 2 assms(2) d1 show ?thesis
      by (auto simp: deliver_def bindM_def get_current_profile_run [OF u1(2) [unfolded d1]] split: option.splits if_splits)
  qed
  then show ?thesis
    using assms(2) by (simp add: nf with_session_def on_db_def zoomM_def)
qed

definition demo_device :: "int \<Rightarrow> int \<Rightarrow> protocol \<Rightarrow> device" where
  "demo_device i sid p = \<lparr>rid = i, created_at = 0, dev_user_id = 1, dev_name = ''phone'',
     dev_public_key = Some ''k1'', dev_assigned_ip = Some ''10.0.0.2/32'', dev_server_id = Some sid,
     dev_status = DevActive, last_seen = None, dev_protocol = p\<rparr>"

text \<open>A device with a link, a subscription running until the instant 1000 and a peer.\<close>

definition demo_delivery_db :: database where
  "demo_delivery_db = demo_links_db\<lparr>
     devices := tbl [demo_device 1 1 WIREGUARD],
     subscriptions := tbl [\<lparr>rid = 1, created_at = 0, sub_user_id = 1, sub_plan_id = 1, sub_status = SubActive,
        started_at = Some 0, expires_at = Some 1000, auto_renew = False, device_limit_override = None\<rparr>],
     vpn_servers := tbl [demo_server 1 WIREGUARD ''10.0.0.0/29'' 1],
     vpn_peers := tbl [demo_peer 1 ''k1'' ''10.0.0.2/32'']\<rparr>"

lemma demo_delivery_ok: "delivery_ok demo_delivery_db"
proof -
  have "table_unique link_conflict (subscription_links demo_delivery_db)"
    "table_unique config_conflict (vless_server_configs demo_delivery_db)" by code_simp+
  then show ?thesis
    by (simp add: delivery_ok_def one_current_def demo_delivery_db_def demo_links_db_def empty_db_def
        empty_table_def)
qed

lemma deliver_fails_uniformly_witness:
  "fst (deliver demo_crypto 1000 ''tokA'' None demo_delivery_db) = Inl (AppError NotFoundError ''Not found'' ''not_found'') \<and>
   fst (deliver demo_crypto 5 ''nope'' None demo_delivery_db) = Inl (AppError NotFoundError ''Not found'' ''not_found'')"
proof -
  have "case deliver demo_crypto 1000 ''tokA'' None demo_delivery_db of (Inl _, _) \<Rightarrow> True | _ \<Rightarrow> False"
    "case deliver demo_crypto 5 ''nope'' None demo_delivery_db of (Inl _, _) \<Rightarrow> True | _ \<Rightarrow> False"
    by code_simp+
  then obtain e1 d1 e2 d2 where "deliver demo_crypto 1000 ''tokA'' None demo_delivery_db = (Inl e1, d1)"
    "deliver demo_crypto 5 ''nope'' None demo_delivery_db = (Inl e2, d2)"
    by (auto split: prod.splits sum.splits)
  moreover from this have "e1 = AppError NotFoundError ''Not found'' ''not_found''"
    "e2 = AppError NotFoundError ''Not found'' ''not_found''"
    by (auto dest!: deliver_fails_uniformly [OF demo_delivery_ok])
  ultimately show ?thesis by simp
qed

text \<open>C16: A configuration is delivered only to the holder of the token of an active link of an active
  device whose owner has an active subscription that has not expired. A WireGuard device gets the
  rendering of its active peer on an existing server, with no private key, and a VLESS device one
  line for active credentials of its own on configured servers only; besides the access counter of that
  link nothing changes.\<close>

theorem deliver_only_authorized:
  assumes "delivery_ok d" and "deliver k now token hint d = (Inr (content, ctype), d')"
  shows "\<exists>l v s e.
     l \<in> set (rows (subscription_links d)) \<and> token_hash l = hash_subscription_token k token \<and>
     link_status l = LinkActive \<and>
     repo_get (link_device_id l) (devices d) = Some v \<and> dev_status v = DevActive \<and>
     get_active_for_user (dev_user_id v) d = Some s \<and> expires_at s = Some e \<and> now < e \<and>
     d' = touched now l d \<and> ctype = ''text/plain; charset=utf-8'' \<and>
     (if dev_protocol v = VLESS then
        (\<exists>items. items \<noteq> [] \<and> content = render_vless v items \<and>
           (\<forall>(c, srv, g) \<in> set items. cred_device_id c = rid v \<and> cred_status c = CredActive \<and>
              repo_get (cred_server_id c) (vpn_servers d) = Some srv \<and> cfg_server_id g = rid srv))
      else
        (\<exists>(p :: vpn_peer) srv (prof :: vpn_profile option). peer_device_id p = rid v \<and> peer_status p = PeerActive \<and>
           repo_get (peer_server_id p) (vpn_servers d) = Some srv \<and>
           content = utf8 (render_wireguard_config None (peer_assigned_ip p) (srv_public_key srv) (endpoint srv)
             (case prof of None \<Rightarrow> [''0.0.0.0/0'', ''::/0''] | Some r \<Rightarrow> allowed_ips r)
             (case prof of None \<Rightarrow> [] | Some r \<Rightarrow> prof_dns r))))"
proof -
  from assms(2) obtain v d1 where auth: "authorize k now token d = (Inr v, d1)"
    and rest: "(if dev_protocol v = VLESS then deliver_vless v
       else bindM (getM (get_active_for_device (rid v))) (\<lambda>peer.
         case peer of
           None \<Rightarrow> raiseM delivery_not_found
         | Some p \<Rightarrow>
             if peer_status p \<noteq> PeerActive then raiseM delivery_not_found
             else bindM (getM (\<lambda>d. repo_get (peer_server_id p) (vpn_servers d))) (\<lambda>server.
               case server of
                 None \<Rightarrow> raiseM delivery_not_found
               | Some s \<Rightarrow>
                   bindM (get_current_profile (rid v)) (\<lambda>profile.
                   returnM (pick_formatter hint p s profile, text_plain))))) d1 = (Inr (content, ctype), d')"
    by (auto simp: deliver_def bindM_eq_Inr_iff)
  from auth obtain l where l: "find (\<lambda>l. token_hash l = hash_subscription_token k token) (rows (subscription_links d)) = Some l"
    and v: "repo_get (link_device_id l) (devices d) = Some v" "link_status l = LinkActive" "dev_status v = DevActive"
      "\<not> lapsed now (get_active_for_user (dev_user_id v) d)" and d1: "d1 = touched now l d"
    by (auto simp: authorize_run [OF assms(1)] split: option.splits if_splits)
  have u1: "table_unique config_conflict (vless_server_configs d1)" "one_current d1"
    using assms(1) d1 by (auto simp: delivery_ok_def one_current_touched)
  have vless: "d' = d1 \<and> ctype = text_plain \<and> (\<exists>items. items \<noteq> [] \<and> content = render_vless v items \<and>
           (\<forall>(c, srv, g) \<in> set items. cred_device_id c = rid v \<and> cred_status c = CredActive \<and>
              repo_get (cred_server_id c) (vpn_servers d) = Some srv \<and> cfg_server_id g = rid srv))"
    if "dev_protocol v = VLESS"
    using deliver_vless_run [OF u1(1), of v] rest that d1
    by (fastforce simp: list_active_credentials_def dest!: find_Some_in split: if_splits)
  have wg: "d' = d1 \<and> ctype = text_plain \<and> (\<exists>(p :: vpn_peer) srv (prof :: vpn_profile option). peer_device_id p = rid v \<and> peer_status p = PeerActive \<and>
           repo_get (peer_server_id p) (vpn_servers d) = Some srv \<and> content = render_wireguard p srv prof)"
    if "dev_protocol v \<noteq> VLESS"
    using rest that d1 get_active_for_device_Some [of "rid v" d]
    by (auto simp: bindM_def get_current_profile_run [OF u1(2) [unfolded d1]] split: option.splits if_splits)
  obtain sub e where sub: "get_active_for_user (dev_user_id v) d = Some sub" "expires_at sub = Some e" "now < e"
    using v(4) by (auto simp: lapsed_def split: option.splits)
  note link = find_Some_in [OF l]
  show ?thesis
  proof (cases "dev_protocol v = VLESS")
    case True
    with link sub v(1-3) d1 vless show ?thesis
      by (intro exI [of _ l] exI [of _ v] exI [of _ sub] exI [of _ e]) (simp add: text_plain_def)
  next
    case False
    with wg obtain p srv prof where *: "d' = d1" "ctype = text_plain" "peer_device_id p = rid v"
      "peer_status p = PeerActive" "repo_get (peer_server_id p) (vpn_servers d) = Some srv"
      "content = render_wireguard p srv prof" by blast
    then have "\<exists>(p :: vpn_peer) srv (prof :: vpn_profile option). peer_device_id p = rid v \<and> peer_status p = PeerActive \<and>
           repo_get (peer_server_id p) (vpn_servers d) = Some srv \<and>
           content = utf8 (render_wireguard_config None (peer_assigned_ip p) (srv_public_key srv) (endpoint srv)
             (case prof of None \<Rightarrow> [''0.0.0.0/0'', ''::/0''] | Some r \<Rightarrow> allowed_ips r)
             (case prof of None \<Rightarrow> [] | Some r \<Rightarrow> prof_dns r))"
      by (intro exI [of _ p] exI [of _ srv] exI [of _ prof]) (simp add: render_wireguard_def)
    with link sub v(1-3) d1 False *(1,2) show ?thesis
      by (intro exI [of _ l] exI [of _ v] exI [of _ sub] exI [of _ e]) (simp add: text_plain_def)
  qed
qed

lemma deliver_only_authorized_witness:
  "case deliver demo_crypto 999 ''tokA'' (Some ''clash'') demo_delivery_db of
     (Inr (content, ctype), d') \<Rightarrow> (\<exists>l. token_hash l = hash_subscription_token demo_crypto ''tokA'' \<and>
        d' = touched 999 l demo_delivery_db)
   | _ \<Rightarrow> False"
proof -
  have "case deliver demo_crypto 999 ''tokA'' (Some ''clash'') demo_delivery_db of (Inr _, _) \<Rightarrow> True | _ \<Rightarrow> False"
    by code_simp
  then obtain c t d' where run: "deliver demo_crypto 999 ''tokA'' (Some ''clash'') demo_delivery_db = (Inr (c, t), d')"
    by (auto split: prod.splits sum.splits)
  from deliver_only_authorized [OF demo_delivery_ok run] show ?thesis unfolding run by auto
qed

end
