(* ===== verification/Devices.thy ===== *)
theory Devices
  imports Providers Delivery
begin

text \<open>
  The device service (\<^verbatim>\<open>services/device_service.py\<close>), where the database, the agents, the allocator,
  the routing service and the subscription links meet, with the device repository. What a request
  draws or reads from outside (clock, random token and UUID, DNS, QR encoder) is an argument, gathered
  in one record with the providers.
\<close>

section \<open>The surroundings of a call\<close>

text \<open>
  \<^verbatim>\<open>de_qr\<close> is \<^verbatim>\<open>generate_qr_code_base64\<close>: nothing for data too long for a QR code, where the library
  raises. \<^verbatim>\<open>de_rivals n\<close> are the peers other requests commit between the scan for a free address and
  the insertion of the peer, in the attempt after which \<^verbatim>\<open>n\<close> are left.
\<close>

record 'w device_env =
  de_crypto :: crypto
  de_settings :: settings
  de_now :: instant
  de_dns :: dns
  de_wg :: "'w vpn_provider"
  de_xray :: "'w xray_provider"
  de_qr :: "string \<Rightarrow> string option"
  de_token :: string
  de_uuid :: string
  de_rivals :: "nat \<Rightarrow> vpn_peer list"

record provisioned_device =
  pd_device :: device
  pd_config_text :: "string option"
  pd_qr_code :: "string option"
  pd_subscription_url :: "string option"
  pd_subscription_qr_code :: "string option"

definition max_ip_allocation_attempts :: nat where
  "max_ip_allocation_attempts = 5"

section \<open>The device repository\<close>

definition list_devices_for_user :: "int \<Rightarrow> database \<Rightarrow> device list" where
  "list_devices_for_user uid d =
     sort_key created_at (filter (\<lambda>v. dev_user_id v = uid \<and> dev_status v \<noteq> DevRevoked) (rows (devices d)))"

definition count_active_for_user :: "int \<Rightarrow> database \<Rightarrow> int" where
  "count_active_for_user uid d =
     repo_count (\<lambda>v. dev_user_id v = uid \<and> dev_status v = DevActive) (devices d)"

definition update_device :: "int \<Rightarrow> (device \<Rightarrow> device) \<Rightarrow> unit dbM" where
  "update_device i f = on_devices (modifyM (repo_update i f))"

text \<open>
  The assignments of key, address and server to a device. The unique key is checked here; the source
  sends the update with the next flush, inside \<^verbatim>\<open>regenerate_profile\<close>, and either failure ends the
  request.
\<close>

definition assign_device :: "int \<Rightarrow> (device \<Rightarrow> device) \<Rightarrow> unit dbM" where
  "assign_device i f d =
     (if list_ex (\<lambda>a. rid a = i \<and> list_ex (\<lambda>b. rid b \<noteq> i \<and> device_conflict b (f a)) (rows (devices d)))
                 (rows (devices d))
      then (Inl IntegrityError, d)
      else update_device i f d)"

definition update_peer_row :: "int \<Rightarrow> (vpn_peer \<Rightarrow> vpn_peer) \<Rightarrow> unit dbM" where
  "update_peer_row i f = on_vpn_peers (modifyM (repo_update i f))"

definition update_credential :: "int \<Rightarrow> (vless_credential \<Rightarrow> vless_credential) \<Rightarrow> unit dbM" where
  "update_credential i f = on_vless_credentials (modifyM (repo_update i f))"

definition add_load :: "vpn_server \<Rightarrow> vpn_server" where
  "add_load s = s\<lparr>current_load := current_load s + 1\<rparr>"

definition drop_load :: "vpn_server \<Rightarrow> vpn_server" where
  "drop_load s = s\<lparr>current_load := max 0 (current_load s - 1)\<rparr>"

section \<open>Provisioning\<close>

text \<open>\<^verbatim>\<open>device_limit_override or plan.max_devices\<close>: an override of zero counts as none.\<close>

definition device_limit :: "subscription \<Rightarrow> int dbM" where
  "device_limit s =
     (case device_limit_override s of
        Some n \<Rightarrow> if n \<noteq> 0 then returnM n else bindM (plan_of s) (\<lambda>p. returnM (max_devices p))
      | None \<Rightarrow> bindM (plan_of s) (\<lambda>p. returnM (max_devices p)))"

definition enforce_device_limit :: "int \<Rightarrow> unit dbM" where
  "enforce_device_limit uid =
     bindM (getM (get_active_for_user uid)) (\<lambda>subscription.
       case subscription of
         None \<Rightarrow> raiseM (app_error PermissionDeniedError ''An active subscription is required to add a device''
                   (Some ''no_active_subscription''))
       | Some s \<Rightarrow>
           bindM (device_limit s) (\<lambda>limit.
           bindM (getM (count_active_for_user uid)) (\<lambda>n.
             if n \<ge> limit
             then raiseM (app_error LimitExceededError
                    (''Device limit reached ('' @ int_str n @ ''/'' @ int_str limit @ '') for the current plan'')
                    (Some ''device_limit_reached''))
             else returnM ())))"

text \<open>\<^verbatim>\<open>get_owned\<close>: a device of somebody else looks like one that does not exist.\<close>

definition device_not_found :: exn where
  "device_not_found = app_error NotFoundError ''Device not found'' (Some ''device_not_found'')"

definition get_owned :: "int \<Rightarrow> int \<Rightarrow> device dbM" where
  "get_owned did uid =
     bindM (getM (\<lambda>d. repo_get did (devices d))) (\<lambda>found.
       case found of
         None \<Rightarrow> raiseM device_not_found
       | Some v \<Rightarrow> if dev_user_id v \<noteq> uid then raiseM device_not_found else returnM v)"

definition new_peer :: "instant \<Rightarrow> device \<Rightarrow> vpn_server \<Rightarrow> peer_provisioning \<Rightarrow> vpn_peer" where
  "new_peer now v s r =
     \<lparr>rid = 0, created_at = now, peer_device_id = rid v, peer_server_id = rid s,
      peer_public_key = pp_public_key r, peer_assigned_ip = pp_assigned_ip r,
      peer_status = PeerActive, peer_expires_at = None\<rparr>"

definition commit_peers :: "vpn_peer list \<Rightarrow> database \<Rightarrow> database" where
  "commit_peers ps d =
     d\<lparr>vpn_peers := fold (\<lambda>p t. snd (repo_add peer_conflict p t)) ps (vpn_peers d)\<rparr>"

text \<open>The insertion inside a savepoint: a violated constraint undoes it alone and is reported as \<^verbatim>\<open>None\<close>.\<close>

definition savepoint_add_peer :: "vpn_peer \<Rightarrow> (vpn_peer option) dbM" where
  "savepoint_add_peer p =
     catchM (bindM (on_vpn_peers (repo_add peer_conflict p)) (\<lambda>q. returnM (Some q)))
       (\<lambda>e. if e = IntegrityError then returnM None else raiseM e)"

definition allocation_conflict :: "int \<Rightarrow> exn" where
  "allocation_conflict sid = app_error ConflictError
     (''Could not allocate a free IP on server '' @ int_str sid @ '' after '' @
      nat_str max_ip_allocation_attempts @ '' attempts due to concurrent provisioning'')
     (Some ''ip_allocation_conflict'')"

fun create_peer_attempts ::
  "'w device_env \<Rightarrow> device \<Rightarrow> vpn_server \<Rightarrow> nat \<Rightarrow> ('w, peer_provisioning \<times> vpn_peer) app" where
  "create_peer_attempts E v s 0 = raiseM (allocation_conflict (rid s))"
| "create_peer_attempts E v s (Suc n) =
     bindM (on_db (allocate_ip (rid s) (internal_network s))) (\<lambda>ip.
     bindM (on_remote (vp_create_peer (de_wg E) v s ip)) (\<lambda>result.
     bindM (on_db (modifyM (commit_peers (de_rivals E n)))) (\<lambda>_.
     bindM (on_db (savepoint_add_peer (new_peer (de_now E) v s result))) (\<lambda>added.
       case added of
         Some peer \<Rightarrow> returnM (result, peer)
       | None \<Rightarrow>
           bindM (on_remote (vp_delete_peer (de_wg E) (new_peer (de_now E) v s result) s)) (\<lambda>_.
           create_peer_attempts E v s n)))))"

definition create_peer_with_retry ::
  "'w device_env \<Rightarrow> device \<Rightarrow> vpn_server \<Rightarrow> ('w, peer_provisioning \<times> vpn_peer) app" where
  "create_peer_with_retry E v s = create_peer_attempts E v s max_ip_allocation_attempts"

definition qr_code :: "'w device_env \<Rightarrow> string \<Rightarrow> ('w, string) app" where
  "qr_code E text = requireM (PyError ''DataOverflowError'') (de_qr E text)"

text \<open>A requested server of \<^verbatim>\<open>None\<close> or \<^verbatim>\<open>0\<close> lets the service choose.\<close>

definition choose_server :: "int option \<Rightarrow> protocol \<Rightarrow> vpn_server dbM" where
  "choose_server requested p =
     (case requested of
        Some i \<Rightarrow> if i \<noteq> 0 then get_server i else pick_best_available p
      | None \<Rightarrow> pick_best_available p)"

definition add_device :: "device \<Rightarrow> device dbM" where
  "add_device v = on_devices (repo_add device_conflict v)"

definition new_device :: "instant \<Rightarrow> int \<Rightarrow> string \<Rightarrow> protocol \<Rightarrow> int option \<Rightarrow> device" where
  "new_device now uid name p sid =
     \<lparr>rid = 0, created_at = now, dev_user_id = uid, dev_name = name, dev_public_key = None,
      dev_assigned_ip = None, dev_server_id = sid, dev_status = DevActive, last_seen = None,
      dev_protocol = p\<rparr>"

text \<open>The subscription link every new device gets, and its URL.\<close>

definition link_device :: "'w device_env \<Rightarrow> device \<Rightarrow> ('w, string) app" where
  "link_device E v =
     bindM (on_db (create_or_rotate (de_crypto E) (de_now E) (de_token E) (rid v))) (\<lambda>(_, token).
     returnM (build_subscription_url (subscription_base_url (de_settings E)) token))"

definition client_config :: "'w device_env \<Rightarrow> peer_provisioning \<Rightarrow> vpn_profile \<Rightarrow> string" where
  "client_config E r prof =
     vp_build_client_config (de_wg E) (pp_private_key r) (pp_assigned_ip r) (pp_server_public_key r)
       (pp_server_endpoint r) (allowed_ips prof) (prof_dns prof)"

definition bind_peer :: "vpn_peer \<Rightarrow> int \<Rightarrow> device \<Rightarrow> device" where
  "bind_peer p sid v = v\<lparr>dev_public_key := Some (peer_public_key p),
     dev_assigned_ip := Some (peer_assigned_ip p), dev_server_id := Some sid\<rparr>"

definition provision_vless ::
  "'w device_env \<Rightarrow> int \<Rightarrow> string \<Rightarrow> int option \<Rightarrow> ('w, provisioned_device) app" where
  "provision_vless E uid name requested =
     bindM (on_db (choose_server requested VLESS)) (\<lambda>s.
     bindM (on_db (get_config_for_server (rid s))) (\<lambda>config.
       case config of
         None \<Rightarrow> raiseM (app_error ConflictError
                    (''VLESS server '' @ int_str (rid s) @ '' has no Reality configuration'')
                    (Some ''vless_server_not_configured''))
       | Some c \<Rightarrow>
           bindM (on_db (add_device (new_device (de_now E) uid name VLESS (Some (rid s))))) (\<lambda>v.
           bindM (link_device E v) (\<lambda>url.
           bindM (on_remote (xp_create_user (de_xray E) c (de_uuid E) (rid v) (flow c))) (\<lambda>u.
           bindM (on_db (on_vless_credentials (repo_add credential_conflict
             \<lparr>rid = 0, created_at = de_now E, cred_device_id = rid v, cred_server_id = rid s,
              cred_uuid = vu_uuid u, cred_status = CredActive, cred_rotated_at = None,
              cred_revoked_at = None\<rparr>))) (\<lambda>_.
           bindM (on_db (update_server_row (rid s) add_load)) (\<lambda>_.
           bindM (qr_code E url) (\<lambda>qr.
           returnM \<lparr>pd_device = v, pd_config_text = None, pd_qr_code = None,
             pd_subscription_url = Some url, pd_subscription_qr_code = Some qr\<rparr>))))))))"

definition provision_wireguard ::
  "'w device_env \<Rightarrow> int \<Rightarrow> string \<Rightarrow> int option \<Rightarrow> ('w, provisioned_device) app" where
  "provision_wireguard E uid name requested =
     bindM (on_db (choose_server requested WIREGUARD)) (\<lambda>s.
     bindM (on_db (add_device (new_device (de_now E) uid name WIREGUARD None))) (\<lambda>v.
     bindM (link_device E v) (\<lambda>url.
     bindM (create_peer_with_retry E v s) (\<lambda>(result, peer).
     bindM (on_db (assign_device (rid v) (bind_peer peer (rid s)))) (\<lambda>_.
     bindM (on_db (update_server_row (rid s) add_load)) (\<lambda>_.
     bindM (on_db (regenerate_profile (de_dns E) (de_settings E) (de_now E) (rid v) uid)) (\<lambda>prof.
     bindM (qr_code E (client_config E result prof)) (\<lambda>qr.
     bindM (qr_code E url) (\<lambda>url_qr.
     returnM \<lparr>pd_device = bind_peer peer (rid s) v, pd_config_text = Some (client_config E result prof),
       pd_qr_code = Some qr, pd_subscription_url = Some url, pd_subscription_qr_code = Some url_qr\<rparr>)))))))))"

definition provision ::
  "'w device_env \<Rightarrow> int \<Rightarrow> string \<Rightarrow> int option \<Rightarrow> protocol \<Rightarrow> ('w, provisioned_device) app" where
  "provision E uid name requested p =
     bindM (on_db (enforce_device_limit uid)) (\<lambda>_.
       if p = VLESS then provision_vless E uid name requested else provision_wireguard E uid name requested)"

section \<open>VLESS credentials\<close>

definition vless_config_for_credential ::
  "vless_credential \<Rightarrow> ((vpn_server \<times> vless_server_config) option) dbM" where
  "vless_config_for_credential cred =
     bindM (get_server (cred_server_id cred)) (\<lambda>s.
     bindM (get_config_for_server (rid s)) (\<lambda>config. returnM (map_option (Pair s) config)))"

definition remove_credential_from_xray :: "'w device_env \<Rightarrow> vless_credential \<Rightarrow> ('w, unit) app" where
  "remove_credential_from_xray E cred =
     bindM (on_db (vless_config_for_credential cred)) (\<lambda>found.
       case found of
         None \<Rightarrow> returnM ()
       | Some (_, c) \<Rightarrow> on_remote (xp_remove_user (de_xray E) c (cred_uuid cred)))"

definition revoke_credential :: "'w device_env \<Rightarrow> vless_credential \<Rightarrow> ('w, unit) app" where
  "revoke_credential E c =
     bindM (remove_credential_from_xray E c) (\<lambda>_.
     bindM (on_db (update_credential (rid c)
              (\<lambda>r. r\<lparr>cred_status := CredRevoked, cred_revoked_at := Some (de_now E)\<rparr>))) (\<lambda>_.
     bindM (on_db (get_server (cred_server_id c))) (\<lambda>s.
     on_db (update_server_row (rid s) drop_load))))"

definition revoke_credentials :: "'w device_env \<Rightarrow> device \<Rightarrow> ('w, unit) app" where
  "revoke_credentials E v =
     bindM (on_db (getM (list_active_credentials (rid v)))) (\<lambda>creds. foreachM creds (revoke_credential E))"

definition disable_credential :: "'w device_env \<Rightarrow> vless_credential \<Rightarrow> ('w, unit) app" where
  "disable_credential E c =
     bindM (remove_credential_from_xray E c) (\<lambda>_.
     on_db (update_credential (rid c) (\<lambda>r. r\<lparr>cred_status := CredDisabled\<rparr>)))"

definition disable_credentials :: "'w device_env \<Rightarrow> device \<Rightarrow> ('w, unit) app" where
  "disable_credentials E v =
     bindM (on_db (getM (list_active_credentials (rid v)))) (\<lambda>creds. foreachM creds (disable_credential E))"

definition enable_credential :: "'w device_env \<Rightarrow> int \<Rightarrow> vless_credential \<Rightarrow> ('w, unit) app" where
  "enable_credential E did c =
     (if cred_status c \<noteq> CredDisabled then returnM ()
      else bindM (on_db (vless_config_for_credential c)) (\<lambda>found.
        case found of
          None \<Rightarrow> returnM ()
        | Some (_, g) \<Rightarrow>
            bindM (on_remote (xp_create_user (de_xray E) g (cred_uuid c) did (flow g))) (\<lambda>_.
            on_db (update_credential (rid c) (\<lambda>r. r\<lparr>cred_status := CredActive\<rparr>)))))"

definition enable_credentials :: "'w device_env \<Rightarrow> device \<Rightarrow> ('w, unit) app" where
  "enable_credentials E v =
     bindM (on_db (getM (list_credentials (rid v)))) (\<lambda>creds. foreachM creds (enable_credential E (rid v)))"

section \<open>The life of a device\<close>

definition not_provisioned :: exn where
  "not_provisioned =
     app_error ValidationAppError ''Device has no assigned server'' (Some ''device_not_provisioned'')"

text \<open>The dashes of this message lie outside the characters of the model and are written as hyphens.\<close>

definition reissue_unsupported :: exn where
  "reissue_unsupported = app_error ValidationAppError
     (''Reissue is not supported for VLESS devices - the subscription link always reflects the '' @
      ''device's current credential live; rotate the subscription link instead if a fresh URL is needed'')
     (Some ''reissue_not_supported_for_protocol'')"

definition rekey_device :: "vpn_peer \<Rightarrow> device \<Rightarrow> device" where
  "rekey_device p v = v\<lparr>dev_public_key := Some (peer_public_key p),
     dev_assigned_ip := Some (peer_assigned_ip p)\<rparr>"

text \<open>The peer is deleted on its agent, then marked revoked.\<close>

definition revoke_peer :: "'w device_env \<Rightarrow> vpn_peer \<Rightarrow> vpn_server \<Rightarrow> ('w, unit) app" where
  "revoke_peer E p s =
     bindM (on_remote (vp_delete_peer (de_wg E) p s)) (\<lambda>_.
     on_db (update_peer_row (rid p) (\<lambda>r. r\<lparr>peer_status := PeerRevoked\<rparr>)))"

definition whenSome :: "'a option \<Rightarrow> ('a \<Rightarrow> ('s, 'e, unit) comp) \<Rightarrow> ('s, 'e, unit) comp" where
  "whenSome x f = (case x of None \<Rightarrow> returnM () | Some a \<Rightarrow> f a)"

definition reissue :: "'w device_env \<Rightarrow> device \<Rightarrow> ('w, provisioned_device) app" where
  "reissue E v =
     (if dev_protocol v = VLESS then raiseM reissue_unsupported
      else case dev_server_id v of
        None \<Rightarrow> raiseM not_provisioned
      | Some sid \<Rightarrow>
          bindM (on_db (get_server sid)) (\<lambda>s.
          bindM (on_db (getM (get_active_for_device (rid v)))) (\<lambda>old.
          bindM (whenSome old (\<lambda>p. revoke_peer E p s)) (\<lambda>_.
          bindM (create_peer_with_retry E v s) (\<lambda>(result, peer).
          bindM (on_db (assign_device (rid v) (rekey_device peer))) (\<lambda>_.
          bindM (on_db (regenerate_profile (de_dns E) (de_settings E) (de_now E) (rid v) (dev_user_id v))) (\<lambda>prof.
          bindM (qr_code E (client_config E result prof)) (\<lambda>qr.
          returnM \<lparr>pd_device = rekey_device peer v, pd_config_text = Some (client_config E result prof),
            pd_qr_code = Some qr, pd_subscription_url = None, pd_subscription_qr_code = None\<rparr>))))))))"

definition set_device_status :: "device_status \<Rightarrow> device \<Rightarrow> ('w, device) app" where
  "set_device_status st v =
     bindM (on_db (update_device (rid v) (\<lambda>r. r\<lparr>dev_status := st\<rparr>))) (\<lambda>_.
     returnM (v\<lparr>dev_status := st\<rparr>))"

definition revoke_wireguard :: "'w device_env \<Rightarrow> device \<Rightarrow> ('w, unit) app" where
  "revoke_wireguard E v =
     whenSome (dev_server_id v) (\<lambda>sid.
       bindM (on_db (get_server sid)) (\<lambda>s.
       bindM (on_db (getM (get_active_for_device (rid v)))) (\<lambda>peer.
       whenSome peer (\<lambda>p.
         bindM (revoke_peer E p s) (\<lambda>_. on_db (update_server_row (rid s) drop_load))))))"

definition revoke_device :: "'w device_env \<Rightarrow> device \<Rightarrow> ('w, device) app" where
  "revoke_device E v =
     bindM (if dev_protocol v = VLESS then revoke_credentials E v else revoke_wireguard E v) (\<lambda>_.
     set_device_status DevRevoked v)"

text \<open>The call \<^verbatim>\<open>disable\<close> and \<^verbatim>\<open>enable\<close> make for a WireGuard device, on the agent of its server.\<close>

definition call_active_peer ::
  "device \<Rightarrow> (vpn_peer \<Rightarrow> vpn_server \<Rightarrow> ('w, exn, unit) comp) \<Rightarrow> ('w, unit) app" where
  "call_active_peer v act =
     (case dev_server_id v of
        None \<Rightarrow> raiseM not_provisioned
      | Some sid \<Rightarrow>
          bindM (on_db (get_server sid)) (\<lambda>s.
          bindM (on_db (getM (get_active_for_device (rid v)))) (\<lambda>peer.
          whenSome peer (\<lambda>p. on_remote (act p s)))))"

definition disable_device :: "'w device_env \<Rightarrow> device \<Rightarrow> ('w, device) app" where
  "disable_device E v =
     bindM (if dev_protocol v = VLESS then disable_credentials E v
            else call_active_peer v (vp_disable_peer (de_wg E))) (\<lambda>_.
     set_device_status DevDisabled v)"

definition enable_device :: "'w device_env \<Rightarrow> device \<Rightarrow> ('w, device) app" where
  "enable_device E v =
     bindM (if dev_protocol v = VLESS then enable_credentials E v
            else call_active_peer v (vp_enable_peer (de_wg E))) (\<lambda>_.
     set_device_status DevActive v)"

definition touch_last_seen :: "instant \<Rightarrow> device \<Rightarrow> unit dbM" where
  "touch_last_seen now v = update_device (rid v) (\<lambda>r. r\<lparr>last_seen := Some now\<rparr>)"

definition disable_all_for_user :: "'w device_env \<Rightarrow> int \<Rightarrow> ('w, unit) app" where
  "disable_all_for_user E uid =
     bindM (on_db (getM (list_devices_for_user uid))) (\<lambda>vs.
     foreachM vs (\<lambda>v.
       if dev_status v = DevActive then bindM (disable_device E v) (\<lambda>_. returnM ()) else returnM ()))"

section \<open>What the parts leave alone\<close>

lemma keeps_read_only_queries [frame]:
  "keeps F (choose_server requested p)" "keeps F (allocate_ip sid cidr)" "keeps F (get_server i)"
  "keeps F (get_config_for_server sid)" "keeps F (enforce_device_limit uid)"
  "keeps F (get_link_for_device did)" "keeps F (get_current_profile did)"
  "keeps F (vless_config_for_credential cred)" "keeps F (get_routing_profile uid)"
proof -
  have one: "keeps F (zoomM rd wr (repo_one P))" if w: "\<And>s. wr (rd s) s = s" for rd :: "database \<Rightarrow> 'r table" and wr P
  proof (rule keepsI)
    fix s
    obtain r t where q: "repo_one P (rd s) = (r, t)" by (cases "repo_one P (rd s)")
    then have "t = rd s" by (rule read_only_state [OF repo_one_read_only])
    with q w show "F (snd (zoomM rd wr (repo_one P) s)) = F s" by (simp add: zoomM_def)
  qed
  show server: "keeps F (get_server i)" for i
    unfolding get_server_def by (intro frame)
  show config: "keeps F (get_config_for_server sid)" for sid
    unfolding get_config_for_server_def on_vless_server_configs_def by (rule one) simp
  show "keeps F (get_link_for_device did)" "keeps F (get_current_profile did)" "keeps F (get_routing_profile uid)"
    unfolding get_link_for_device_def on_subscription_links_def get_current_profile_def on_vpn_profiles_def
      get_routing_profile_def on_user_routing_profiles_def by (rule one; simp)+
  have best: "keeps F (pick_best_available p)" for p
    unfolding pick_best_available_def by (intro frame) (auto split: list.split intro: frame)
  show "keeps F (choose_server requested p)"
    unfolding choose_server_def by (intro frame server best)
  show "keeps F (allocate_ip sid cidr)"
    by (rule keepsI) (simp add: allocate_ip_def split: option.split prod.split)
  have "keeps F (plan_of s)" for s
    unfolding plan_of_def by (intro frame)
  then have "keeps F (device_limit s)" for s
    unfolding device_limit_def by (intro frame)
  then show "keeps F (enforce_device_limit uid)"
    unfolding enforce_device_limit_def by (intro frame)
  show "keeps F (vless_config_for_credential cred)"
    unfolding vless_config_for_credential_def by (intro frame server config)
qed

lemma keeps_peer_steps [frame]:
  assumes "\<And>t d. F (d\<lparr>vpn_peers := t\<rparr>) = F d"
  shows "keeps F (modifyM (commit_peers ps))" "keeps F (savepoint_add_peer p)" "keeps F (update_peer_row i f)"
  using assms
  by (auto simp: commit_peers_def savepoint_add_peer_def update_peer_row_def intro!: frame keeps_modify)

lemma keeps_attempts [frame]:
  assumes "\<And>t d. F (d\<lparr>vpn_peers := t\<rparr>) = F d"
  shows "keeps (\<lambda>w. F (db w)) (create_peer_attempts E v s n)"
proof (induction n)
  case 0
  show ?case by (simp only: create_peer_attempts.simps keeps_basic)
next
  case (Suc n)
  then show ?case
    unfolding create_peer_attempts.simps
    by (intro frame) (rule assms)+
qed

lemma keeps_with_retry [frame]:
  "(\<And>t d. F (d\<lparr>vpn_peers := t\<rparr>) = F d) \<Longrightarrow> keeps (\<lambda>w. F (db w)) (create_peer_with_retry E v s)"
  by (simp add: create_peer_with_retry_def keeps_attempts)

lemma keeps_flush_link [frame]:
  "(\<And>t d. F (d\<lparr>subscription_links := t\<rparr>) = F d) \<Longrightarrow> keeps F (flush_link i f)"
  by (rule keepsI) (simp add: flush_link_def)

lemma keeps_create_or_rotate [frame]:
  "(\<And>t d. F (d\<lparr>subscription_links := t\<rparr>) = F d) \<Longrightarrow> keeps F (create_or_rotate k now token did)"
  unfolding create_or_rotate_def by (intro frame) simp_all

lemma keeps_link_device [frame]:
  "(\<And>t d. F (d\<lparr>subscription_links := t\<rparr>) = F d) \<Longrightarrow> keeps (\<lambda>w. F (db w)) (link_device E v)"
  unfolding link_device_def by (intro frame) simp_all

lemma keeps_regenerate [frame]:
  assumes "\<And>t d. F (d\<lparr>vpn_profiles := t\<rparr>) = F d" and "\<And>t d. F (d\<lparr>user_routing_profiles := t\<rparr>) = F d"
  shows "keeps F (regenerate_profile dns cfg now did uid)"
proof -
  have "keeps F (\<lambda>d. (profile_allowed_ips dns uid m d, d))" for m
    by (rule keepsI) simp
  then show ?thesis
    unfolding regenerate_profile_def get_or_create_user_profile_def mark_superseded_def
    by (intro frame) (simp_all add: assms)
qed

lemma keeps_server_row [frame]:
  "(\<And>t d. F (d\<lparr>vpn_servers := t\<rparr>) = F d) \<Longrightarrow> keeps F (update_server_row i f)"
  unfolding update_server_row_def by (rule frame)

lemma keeps_qr_code [frame]: "keeps F (qr_code E text)"
  unfolding qr_code_def by (rule frame)

lemma keeps_device_rows [frame]:
  assumes "\<And>t d. F (d\<lparr>devices := t\<rparr>) = F d"
  shows "keeps F (update_device i f)" "keeps F (add_device v)" "keeps F (assign_device i f)"
proof -
  show update: "keeps F (update_device i f)" unfolding update_device_def by (rule frame) (rule assms)
  show "keeps F (add_device v)" unfolding add_device_def by (rule frame) (rule assms)
  show "keeps F (assign_device i f)"
    using update by (auto simp: keeps_def assign_device_def)
qed

section \<open>What the parts do\<close>

lemma choose_server_Inr:
  assumes "choose_server requested p d = (Inr s, d')" and "wf_table (vpn_servers d)"
  shows "d' = d \<and> repo_get (rid s) (vpn_servers d) = Some s"
proof -
  have get: "d' = d \<and> repo_get (rid s) (vpn_servers d) = Some s" if "get_server i d = (Inr s, d')" for i
    using that by (auto simp: get_server_def success_iffs dest: repo_get_in)
  have best: "d' = d \<and> s \<in> set (rows (vpn_servers d))" if "pick_best_available p d = (Inr s, d')"
  proof -
    from that have "d' = d \<and> s \<in> set (filter (\<lambda>s. current_load s < capacity s) (list_available p d))"
      by (auto simp: pick_best_available_def simp del: set_filter split: list.splits)
    then show ?thesis by (auto simp: list_available_def)
  qed
  show ?thesis
    using assms get best repo_get_wf [OF assms(2)]
    by (auto simp: choose_server_def split: option.splits if_splits)
qed

lemma add_device_Inr:
  assumes "add_device v d = (Inr v', d')"
  shows "v' = v\<lparr>rid := next_id (devices d)\<rparr> \<and> rows (devices d') = rows (devices d) @ [v']"
  using assms by (auto simp: add_device_def on_devices_def success_iffs repo_add_Inr)

lemma assign_device_Inr:
  "assign_device i f d = (Inr u, d') \<Longrightarrow> d' = d\<lparr>devices := repo_update i f (devices d)\<rparr>"
  by (auto simp: assign_device_def update_device_def on_devices_def zoomM_def split: if_splits)

lemma map_last_update:
  "list_all (\<lambda>r. rid r < n) xs \<Longrightarrow> rid y = n \<Longrightarrow>
     map (\<lambda>r. if rid r = n then f r else r) (xs @ [y]) = xs @ [f y]"
  by (induction xs) auto

lemma savepoint_add_peer_Inr:
  "savepoint_add_peer p d = (Inr x, d') \<longleftrightarrow>
     (case x of
        None \<Rightarrow> d' = d \<and> list_ex (\<lambda>y. peer_conflict y (p\<lparr>rid := next_id (vpn_peers d)\<rparr>)) (rows (vpn_peers d))
      | Some q \<Rightarrow> q = p\<lparr>rid := next_id (vpn_peers d)\<rparr> \<and>
          \<not> list_ex (\<lambda>y. peer_conflict y q) (rows (vpn_peers d)) \<and>
          d' = d\<lparr>vpn_peers := (vpn_peers d)\<lparr>rows := rows (vpn_peers d) @ [q],
                                              next_id := next_id (vpn_peers d) + 1\<rparr>\<rparr>)"
  by (auto simp: savepoint_add_peer_def catchM_def bindM_def on_vpn_peers_def zoomM_def repo_add_def Let_def
      split: option.splits)

lemma savepoint_add_peer_Inl: "savepoint_add_peer p d \<noteq> (Inl e, d')"
  by (auto simp: savepoint_add_peer_def catchM_def bindM_def on_vpn_peers_def zoomM_def repo_add_def Let_def)

lemma commit_peers_rows:
  "\<exists>ps. rows (vpn_peers (commit_peers rs d)) = rows (vpn_peers d) @ ps \<and>
     (\<forall>p \<in> set ps. \<exists>r \<in> set rs. p = r\<lparr>rid := rid p\<rparr>)"
proof -
  have "\<exists>ps. rows (fold (\<lambda>p t. snd (repo_add peer_conflict p t)) rs t) = rows t @ ps \<and>
     (\<forall>p \<in> set ps. \<exists>r \<in> set rs. p = r\<lparr>rid := rid p\<rparr>)" for t
  proof (induction rs arbitrary: t)
    case (Cons r rs)
    let ?t = "snd (repo_add peer_conflict r t)"
    obtain ps where ps: "rows (fold (\<lambda>p t. snd (repo_add peer_conflict p t)) rs ?t) = rows ?t @ ps"
      "\<forall>p \<in> set ps. \<exists>r \<in> set rs. p = r\<lparr>rid := rid p\<rparr>"
      using Cons.IH by blast
    have "rows ?t = rows t \<or> rows ?t = rows t @ [r\<lparr>rid := next_id t\<rparr>]"
      by (simp add: repo_add_def Let_def)
    then show ?case
    proof
      assume "rows ?t = rows t"
      with ps show ?thesis by (intro exI [of _ ps]) auto
    next
      assume "rows ?t = rows t @ [r\<lparr>rid := next_id t\<rparr>]"
      with ps show ?thesis by (intro exI [of _ "r\<lparr>rid := next_id t\<rparr> # ps"]) auto
    qed
  qed simp
  then show ?thesis by (simp add: commit_peers_def)
qed

text \<open>The stages of one attempt, and what a successful run of the loop has added.\<close>

lemma attempt_stages:
  assumes "create_peer_attempts E v s (Suc n) w = (r, w')"
  obtains (no_address) e where "allocate_ip (rid s) (internal_network s) (db w) = (Inl e, db w)" "r = Inl e" "w' = w"
  | (no_peer) ip e where "allocate_ip (rid s) (internal_network s) (db w) = (Inr ip, db w)"
      "vp_create_peer (de_wg E) v s ip (remote w) = (Inl e, remote w')" "r = Inl e" "db w' = db w"
  | (added) ip result m q where "allocate_ip (rid s) (internal_network s) (db w) = (Inr ip, db w)"
      "vp_create_peer (de_wg E) v s ip (remote w) = (Inr result, remote w')"
      "m = commit_peers (de_rivals E n) (db w)" "r = Inr (result, q)"
      "savepoint_add_peer (new_peer (de_now E) v s result) m = (Inr (Some q), db w')"
  | (lost) ip result m n1 rd n2 where "allocate_ip (rid s) (internal_network s) (db w) = (Inr ip, db w)"
      "vp_create_peer (de_wg E) v s ip (remote w) = (Inr result, n1)"
      "m = commit_peers (de_rivals E n) (db w)"
      "savepoint_add_peer (new_peer (de_now E) v s result) m = (Inr None, m)"
      "vp_delete_peer (de_wg E) (new_peer (de_now E) v s result) s n1 = (rd, n2)"
      "case rd of Inl e \<Rightarrow> r = Inl e \<and> w' = w\<lparr>db := m, remote := n2\<rparr>
                | Inr _ \<Rightarrow> create_peer_attempts E v s n (w\<lparr>db := m, remote := n2\<rparr>) = (r, w')"
proof -
  obtain a d1 where a: "allocate_ip (rid s) (internal_network s) (db w) = (a, d1)"
    by (cases "allocate_ip (rid s) (internal_network s) (db w)")
  have d1: "d1 = db w" using keepsD [OF keeps_read_only_queries(2) a, of "\<lambda>d. d"] by simp
  show thesis
  proof (cases a)
    case (Inl e)
    then show thesis using a d1 assms by (intro no_address [of e]) (auto simp: bindM_def on_db_def zoomM_def)
  next
    case ip: (Inr ip)
    obtain c n1 where c: "vp_create_peer (de_wg E) v s ip (remote w) = (c, n1)"
      by (cases "vp_create_peer (de_wg E) v s ip (remote w)")
    show thesis
    proof (cases c)
      case (Inl e)
      then show thesis
        using a d1 ip c assms by (intro no_peer [of ip e]) (auto simp: bindM_def on_db_def on_remote_def zoomM_def)
    next
      case result: (Inr result)
      define m where "m = commit_peers (de_rivals E n) (db w)"
      obtain x d2 where x: "savepoint_add_peer (new_peer (de_now E) v s result) m = (Inr x, d2)"
        using savepoint_add_peer_Inl [of "new_peer (de_now E) v s result" m]
        by (cases "savepoint_add_peer (new_peer (de_now E) v s result) m"; cases "fst (savepoint_add_peer (new_peer (de_now E) v s result) m)") auto
      have run: "create_peer_attempts E v s (Suc n) w =
        (case x of Some q \<Rightarrow> (Inr (result, q), w\<lparr>db := d2, remote := n1\<rparr>)
         | None \<Rightarrow> bindM (on_remote (vp_delete_peer (de_wg E) (new_peer (de_now E) v s result) s))
             (\<lambda>_. create_peer_attempts E v s n) (w\<lparr>db := d2, remote := n1\<rparr>))"
        using a d1 ip c result x
        by (auto simp: bindM_def on_db_def on_remote_def zoomM_def m_def split: option.splits)
      show thesis
      proof (cases x)
        case None
        then have d2: "d2 = m" using x by (simp add: savepoint_add_peer_Inr)
        obtain rd n2 where rd: "vp_delete_peer (de_wg E) (new_peer (de_now E) v s result) s n1 = (rd, n2)"
          by (cases "vp_delete_peer (de_wg E) (new_peer (de_now E) v s result) s n1")
        show thesis
          using a d1 ip c result m_def x None d2 rd assms run
          by (intro lost [of ip result n1 m rd n2])
            (auto simp: bindM_def on_remote_def zoomM_def split: sum.splits)
      next
        case (Some q)
        then show thesis
          using a d1 ip c result m_def x assms run by (intro added [of ip result m q]) auto
      qed
    qed
  qed
qed

lemma attempts_rows:
  assumes "create_peer_attempts E v s n w = (Inr (result, q), w')"
  shows "\<exists>ps k. rows (vpn_peers (db w')) = rows (vpn_peers (db w)) @ ps @ [q] \<and>
    q = (new_peer (de_now E) v s result)\<lparr>rid := k\<rparr> \<and>
    (\<forall>p \<in> set ps. \<exists>m. \<exists>r \<in> set (de_rivals E m). p = r\<lparr>rid := rid p\<rparr>)"
  using assms
proof (induction n arbitrary: w)
  case (Suc n)
  from Suc.prems show ?case
  proof (cases rule: attempt_stages)
    case (added ip r2 m q2)
    then show ?thesis
      using commit_peers_rows [of "de_rivals E n" "db w"]
      by (force simp: savepoint_add_peer_Inr)
  next
    case (lost ip r2 m n1 rd n2)
    then obtain u where "rd = Inr u"
      and more: "create_peer_attempts E v s n (w\<lparr>db := m, remote := n2\<rparr>) = (Inr (result, q), w')"
      by (cases rd) auto
    obtain ps where ps: "rows (vpn_peers m) = rows (vpn_peers (db w)) @ ps"
        "\<forall>p \<in> set ps. \<exists>r \<in> set (de_rivals E n). p = r\<lparr>rid := rid p\<rparr>"
      using commit_peers_rows [of "de_rivals E n" "db w"] lost(3) by blast
    obtain ps2 k where ps2: "rows (vpn_peers (db w')) = rows (vpn_peers m) @ ps2 @ [q]"
        "q = (new_peer (de_now E) v s result)\<lparr>rid := k\<rparr>"
        "\<forall>p \<in> set ps2. \<exists>m. \<exists>r \<in> set (de_rivals E m). p = r\<lparr>rid := rid p\<rparr>"
      using Suc.IH [OF more] by auto
    show ?thesis
      by (intro exI [of _ "ps @ ps2"] exI [of _ k] conjI)
        (use ps(1) ps2(1,2) in \<open>simp, simp\<close>, unfold set_append, use ps(2) ps2(3) in blast)
  qed auto
qed simp

lemma link_device_Inr:
  assumes "link_device E v w = (Inr url, w')" and "table_unique link_conflict (subscription_links (db w))"
    and "\<forall>l \<in> set (rows (subscription_links (db w))). link_device_id l \<noteq> rid v"
  shows "\<exists>l. url = build_subscription_url (subscription_base_url (de_settings E)) (de_token E) \<and>
    rows (subscription_links (db w')) = rows (subscription_links (db w)) @ [l] \<and>
    table_unique link_conflict (subscription_links (db w')) \<and> link_device_id l = rid v \<and>
    token_hash l = hash_subscription_token (de_crypto E) (de_token E) \<and> link_status l = LinkActive"
proof -
  have none: "get_link_for_device (rid v) (db w) = (Inr None, db w)"
    using get_link_run [OF assms(2), of "rid v"] assms(3) by (simp add: find_None_iff)
  from assms(1) obtain l t where add: "repo_add link_conflict
             \<lparr>rid = 0, created_at = de_now E, link_device_id = rid v,
              token_hash = hash_subscription_token (de_crypto E) (de_token E),
              token_prefix = subscription_token_prefix (de_token E), link_status = LinkActive,
              link_rotated_at = None, link_revoked_at = None, last_accessed_at = None,
              access_count = 0\<rparr> (subscription_links (db w)) = (Inr l, t)"
    and w': "w' = w\<lparr>db := (db w)\<lparr>subscription_links := t\<rparr>\<rparr>"
    and url: "url = build_subscription_url (subscription_base_url (de_settings E)) (de_token E)"
    using none by (auto simp: link_device_def success_iffs create_or_rotate_def on_db_def on_subscription_links_def)
  show ?thesis
    using add url w' table_unique_add [OF assms(2) add] by (auto simp: repo_add_Inr)
qed

text \<open>The stages of a successful provisioning.\<close>

lemma enforce_ok:
  "enforce_device_limit uid d = (Inr u, d') \<Longrightarrow>
     d' = d \<and> (\<exists>s limit. get_active_for_user uid d = Some s \<and> device_limit s d = (Inr limit, d) \<and>
       count_active_for_user uid d < limit)"
proof -
  assume *: "enforce_device_limit uid d = (Inr u, d')"
  then obtain s limit d1 where s: "get_active_for_user uid d = Some s" "device_limit s d = (Inr limit, d1)"
      "count_active_for_user uid d1 < limit"
    by (auto simp: enforce_device_limit_def success_iffs split: option.splits if_splits)
  moreover have "d1 = d" using s(2) by (auto simp: device_limit_def plan_of_def success_iffs split: option.splits if_splits)
  moreover have "d' = d" using keepsD [OF keeps_read_only_queries(5) *, of "\<lambda>d. d"] by simp
  ultimately show ?thesis by auto
qed

lemma on_db_read: "keeps (\<lambda>d. d) m \<Longrightarrow> on_db m w = (r, w') \<longleftrightarrow> m (db w) = (r, db w) \<and> w' = w"
  by (auto simp: on_db_iff dest: keepsD)

lemmas on_db_reads = keeps_read_only_queries [THEN on_db_read]

lemma provision_wireguard_stages:
  assumes "provision E uid name requested WIREGUARD w = (Inr pd, w')"
  obtains s v d1 w2 url result peer w3 d4 d5 prof where
    "enforce_device_limit uid (db w) = (Inr (), db w)"
    "choose_server requested WIREGUARD (db w) = (Inr s, db w)"
    "add_device (new_device (de_now E) uid name WIREGUARD None) (db w) = (Inr v, d1)"
    "link_device E v (w\<lparr>db := d1\<rparr>) = (Inr url, w2)"
    "create_peer_with_retry E v s w2 = (Inr (result, peer), w3)"
    "assign_device (rid v) (bind_peer peer (rid s)) (db w3) = (Inr (), d4)"
    "update_server_row (rid s) add_load d4 = (Inr (), d5)"
    "regenerate_profile (de_dns E) (de_settings E) (de_now E) (rid v) uid d5 = (Inr prof, db w')"
    "remote w' = remote w3" "pd_device pd = bind_peer peer (rid s) v"
    "pd_config_text pd = Some (client_config E result prof)" "pd_subscription_url pd = Some url"
proof -
  show thesis
    using assms unfolding provision_def provision_wireguard_def qr_code_def
    by (simp only: success_iffs on_db_reads protocol.distinct simp_thms if_False) (auto simp: on_db_iff success_iffs intro!: that)
qed

lemma provision_vless_stages:
  assumes "provision E uid name requested VLESS w = (Inr pd, w')"
  obtains s c v d1 w2 url u n t d4 where
    "enforce_device_limit uid (db w) = (Inr (), db w)"
    "choose_server requested VLESS (db w) = (Inr s, db w)"
    "get_config_for_server (rid s) (db w) = (Inr (Some c), db w)"
    "add_device (new_device (de_now E) uid name VLESS (Some (rid s))) (db w) = (Inr v, d1)"
    "link_device E v (w\<lparr>db := d1\<rparr>) = (Inr url, w2)"
    "xp_create_user (de_xray E) c (de_uuid E) (rid v) (flow c) (remote w2) = (Inr u, n)"
    "on_vless_credentials (repo_add credential_conflict
             \<lparr>rid = 0, created_at = de_now E, cred_device_id = rid v, cred_server_id = rid s,
              cred_uuid = vu_uuid u, cred_status = CredActive, cred_rotated_at = None,
              cred_revoked_at = None\<rparr>) (db w2) = (Inr t, d4)"
    "update_server_row (rid s) add_load d4 = (Inr (), db w')"
    "remote w' = n" "pd_device pd = v" "pd_config_text pd = None" "pd_subscription_url pd = Some url"
proof -
  show thesis
    using assms unfolding provision_def provision_vless_def qr_code_def
    by (simp only: success_iffs on_db_reads simp_thms if_True)
      (clarsimp simp: on_db_iff on_remote_iff success_iffs split: option.splits, rule that, (assumption | simp)+)
qed

text \<open>The rows of devices after a successful provisioning, for both protocols.\<close>

lemma provision_devices:
  assumes "provision E uid name requested p w = (Inr pd, w')" and "wf_table (devices (db w))"
  shows "rows (devices (db w')) = rows (devices (db w)) @ [pd_device pd] \<and>
    rid (pd_device pd) = next_id (devices (db w)) \<and> dev_user_id (pd_device pd) = uid \<and>
    dev_status (pd_device pd) = DevActive \<and> dev_protocol (pd_device pd) = p \<and> dev_name (pd_device pd) = name"
proof (cases p)
  case VLESS
  have vless: "provision E uid name requested VLESS w = (Inr pd, w')" using assms(1) VLESS by simp
  show ?thesis
  proof (rule provision_vless_stages [OF vless])
    fix s c v d1 w2 url u n t d4
    assume add: "add_device (new_device (de_now E) uid name VLESS (Some (rid s))) (db w) = (Inr v, d1)"
      and link: "link_device E v (w\<lparr>db := d1\<rparr>) = (Inr url, w2)"
      and cred: "on_vless_credentials (repo_add credential_conflict
             \<lparr>rid = 0, created_at = de_now E, cred_device_id = rid v, cred_server_id = rid s,
              cred_uuid = vu_uuid u, cred_status = CredActive, cred_rotated_at = None,
              cred_revoked_at = None\<rparr>) (db w2) = (Inr t, d4)"
      and load: "update_server_row (rid s) add_load d4 = (Inr (), db w')" and pd: "pd_device pd = v"
    have "devices (db w2) = devices d1" using keepsD [OF keeps_link_device link, of devices] by simp
    moreover have "devices d4 = devices (db w2)" using keepsD [OF keeps_on_table(11) cred, of devices] by simp
    moreover have "devices (db w') = devices d4" using keepsD [OF keeps_server_row load, of devices] by simp
    ultimately show ?thesis
      using add_device_Inr [OF add] pd VLESS by (simp add: new_device_def)
  qed
next
  case WIREGUARD
  have wireguard: "provision E uid name requested WIREGUARD w = (Inr pd, w')" using assms(1) WIREGUARD by simp
  show ?thesis
  proof (rule provision_wireguard_stages [OF wireguard])
    fix s v d1 w2 url result peer w3 d4 d5 prof
    assume add: "add_device (new_device (de_now E) uid name WIREGUARD None) (db w) = (Inr v, d1)"
      and link: "link_device E v (w\<lparr>db := d1\<rparr>) = (Inr url, w2)"
      and peer: "create_peer_with_retry E v s w2 = (Inr (result, peer), w3)"
      and assign: "assign_device (rid v) (bind_peer peer (rid s)) (db w3) = (Inr (), d4)"
      and load: "update_server_row (rid s) add_load d4 = (Inr (), d5)"
      and prof: "regenerate_profile (de_dns E) (de_settings E) (de_now E) (rid v) uid d5 = (Inr prof, db w')"
      and pd: "pd_device pd = bind_peer peer (rid s) v"
    have "devices (db w2) = devices d1" using keepsD [OF keeps_link_device link, of devices] by simp
    moreover have "devices (db w3) = devices (db w2)" using keepsD [OF keeps_with_retry peer, of devices] by simp
    moreover have "devices d5 = devices d4" using keepsD [OF keeps_server_row load, of devices] by simp
    moreover have "devices (db w') = devices d5" using keepsD [OF keeps_regenerate prof, of devices] by simp
    ultimately have rows: "rows (devices (db w')) =
        map (\<lambda>r. if rid r = rid v then bind_peer peer (rid s) r else r) (rows (devices (db w)) @ [v])"
      using add_device_Inr [OF add] assign_device_Inr [OF assign] by (simp add: rows_update)
    have v: "v = (new_device (de_now E) uid name WIREGUARD None)\<lparr>rid := next_id (devices (db w))\<rparr>"
      using add_device_Inr [OF add] by simp
    then have "rid v = next_id (devices (db w))" by simp
    with assms(2) rows have "rows (devices (db w')) = rows (devices (db w)) @ [bind_peer peer (rid s) v]"
      by (simp only: map_last_update wf_table_def)
    with pd WIREGUARD show ?thesis by (simp add: v bind_peer_def new_device_def)
  qed
qed

lemma provision_enforced:
  assumes "provision E uid name requested p w = (Inr pd, w')"
  shows "enforce_device_limit uid (db w) = (Inr (), db w)"
  using assms unfolding provision_def by (simp only: success_iffs on_db_reads) auto


lemma attempts_result:
  "create_peer_attempts E v s n w = (Inr (result, q), w') \<Longrightarrow>
     \<exists>ip m m'. vp_create_peer (de_wg E) v s ip m = (Inr result, m')"
proof (induction n arbitrary: w)
  case (Suc n)
  from Suc.prems show ?case
    by (cases rule: attempt_stages) (use Suc.IH in \<open>force split: sum.splits\<close>)+
qed simp

lemma wg_create_peer_Inr:
  "wg_create_peer net c now v s ip m = (Inr r, m') \<Longrightarrow>
     pp_server_public_key r = srv_public_key s \<and> pp_server_endpoint r = endpoint s"
  by (auto simp: wg_create_peer_def success_iffs)

lemma regenerate_profile_dns:
  "regenerate_profile dns cfg now did uid d = (Inr p, d') \<Longrightarrow> prof_dns p = vpn_dns_list cfg"
  by (auto simp: regenerate_profile_def success_iffs on_vpn_profiles_def repo_add_Inr)

lemma update_server_row_Inr:
  "update_server_row i f d = (Inr u, d') \<longleftrightarrow> d' = d\<lparr>vpn_servers := repo_update i f (vpn_servers d)\<rparr>"
  by (auto simp: update_server_row_def on_vpn_servers_def zoomM_def)

text \<open>No peer or link refers to a device that does not exist yet.\<close>

definition refs_ok :: "'w device_env \<Rightarrow> database \<Rightarrow> bool" where
  "refs_ok E d \<longleftrightarrow>
     (\<forall>l \<in> set (rows (subscription_links d)). link_device_id l \<noteq> next_id (devices d)) \<and>
     (\<forall>p \<in> set (rows (vpn_peers d)). peer_device_id p \<noteq> next_id (devices d)) \<and>
     (\<forall>n. \<forall>p \<in> set (de_rivals E n). peer_device_id p \<noteq> next_id (devices d))"

lemma provisioned_peer_current:
  assumes "create_peer_with_retry E v s w = (Inr (result, q), w')"
    and "\<forall>p \<in> set (rows (vpn_peers (db w))). peer_device_id p \<noteq> rid v"
    and "\<forall>n. \<forall>p \<in> set (de_rivals E n). peer_device_id p \<noteq> rid v"
  shows "get_active_for_device (rid v) (db w') = Some q \<and> peer_server_id q = rid s \<and>
    peer_assigned_ip q = pp_assigned_ip result \<and> peer_status q = PeerActive"
proof -
  obtain ps k where rows: "rows (vpn_peers (db w')) = rows (vpn_peers (db w)) @ ps @ [q]"
    and q: "q = (new_peer (de_now E) v s result)\<lparr>rid := k\<rparr>"
    and ps: "\<forall>p \<in> set ps. \<exists>m. \<exists>r \<in> set (de_rivals E m). p = r\<lparr>rid := rid p\<rparr>"
    using attempts_rows [OF assms(1) [unfolded create_peer_with_retry_def]] by blast
  have "\<forall>p \<in> set ps. peer_device_id p \<noteq> rid v"
  proof
    fix p assume "p \<in> set ps"
    with ps obtain m r where r: "r \<in> set (de_rivals E m)" "p = r\<lparr>rid := rid p\<rparr>" by blast
    have "peer_device_id p = peer_device_id r" by (subst r(2)) simp
    with assms(3) r(1) show "peer_device_id p \<noteq> rid v" by simp
  qed
  then have "filter (\<lambda>p. peer_device_id p = rid v \<and> peer_status p = PeerActive) (rows (vpn_peers (db w'))) = [q]"
    using rows assms(2) by (auto simp: filter_empty_conv q new_peer_def)
  then show ?thesis
    by (simp add: get_active_for_device_def q new_peer_def)
qed

text \<open>What a successful WireGuard provisioning leaves for the delivery service to find.\<close>

lemma provisioned_state:
  assumes "provision E uid name requested WIREGUARD w = (Inr pd, w')"
    and "delivery_ok (db w)" and "wf_table (devices (db w))" and "wf_table (vpn_servers (db w))" and "refs_ok E (db w)"
  obtains l s q result prof where
    "delivery_ok (db w')" "token_hash l = hash_subscription_token (de_crypto E) (de_token E)"
    "l \<in> set (rows (subscription_links (db w')))" "link_status l = LinkActive"
    "link_device_id l = rid (pd_device pd)" "repo_get (rid (pd_device pd)) (devices (db w')) = Some (pd_device pd)"
    "subscriptions (db w') = subscriptions (db w)"
    "get_active_for_device (rid (pd_device pd)) (db w') = Some q" "peer_status q = PeerActive"
    "peer_assigned_ip q = pp_assigned_ip result"
    "repo_get (peer_server_id q) (vpn_servers (db w')) = Some (add_load s)"
    "\<exists>ip m m' v. vp_create_peer (de_wg E) v s ip m = (Inr result, m')"
    "get_current_profile (rid (pd_device pd)) (db w') = (Inr (Some prof), db w')"
    "prof_dns prof = vpn_dns_list (de_settings E)" "pd_config_text pd = Some (client_config E result prof)"
    "pd_subscription_url pd = Some (build_subscription_url (subscription_base_url (de_settings E)) (de_token E))"
proof (rule provision_wireguard_stages [OF assms(1)])
  fix s v d1 w2 url result q w3 d4 d5 prof
  assume choose: "choose_server requested WIREGUARD (db w) = (Inr s, db w)"
    and add: "add_device (new_device (de_now E) uid name WIREGUARD None) (db w) = (Inr v, d1)"
    and link: "link_device E v (w\<lparr>db := d1\<rparr>) = (Inr url, w2)"
    and peer: "create_peer_with_retry E v s w2 = (Inr (result, q), w3)"
    and assign: "assign_device (rid v) (bind_peer q (rid s)) (db w3) = (Inr (), d4)"
    and load: "update_server_row (rid s) add_load d4 = (Inr (), d5)"
    and reg: "regenerate_profile (de_dns E) (de_settings E) (de_now E) (rid v) uid d5 = (Inr prof, db w')"
    and pd: "pd_device pd = bind_peer q (rid s) v" "pd_config_text pd = Some (client_config E result prof)"
      "pd_subscription_url pd = Some url"
  have keep1: "F (db w2) = F d1" if "\<And>t d. F (d\<lparr>subscription_links := t\<rparr>) = F d" for F :: "database \<Rightarrow> 'x"
    using keepsD [OF keeps_link_device link, of F] that by simp
  have keep2: "F (db w3) = F (db w2)" if "\<And>t d. F (d\<lparr>vpn_peers := t\<rparr>) = F d" for F :: "database \<Rightarrow> 'x"
    using keepsD [OF keeps_with_retry peer, of F] that by simp
  have keep3: "F d4 = F (db w3)" if "\<And>t d. F (d\<lparr>devices := t\<rparr>) = F d" for F :: "database \<Rightarrow> 'x"
    using keepsD [OF keeps_device_rows(3) assign, of F] that by simp
  have keep4: "F d5 = F d4" if "\<And>t d. F (d\<lparr>vpn_servers := t\<rparr>) = F d" for F :: "database \<Rightarrow> 'x"
    using keepsD [OF keeps_server_row load, of F] that by simp
  have keep5: "F (db w') = F d5" if "\<And>t d. F (d\<lparr>vpn_profiles := t\<rparr>) = F d"
    "\<And>t d. F (d\<lparr>user_routing_profiles := t\<rparr>) = F d" for F :: "database \<Rightarrow> 'x"
    using keepsD [OF keeps_regenerate reg, of F] that by simp
  have keep0: "F d1 = F (db w)" if "\<And>t d. F (d\<lparr>devices := t\<rparr>) = F d" for F :: "database \<Rightarrow> 'x"
    using keepsD [OF keeps_device_rows(2) add, of F] that by simp
  note keeps = keep0 keep1 keep2 keep3 keep4 keep5
  have v: "rid v = next_id (devices (db w))" using add_device_Inr [OF add] by simp
  have dev: "rid (pd_device pd) = rid v" by (simp add: pd bind_peer_def)
  have ok: "table_unique link_conflict (subscription_links d1)"
      "table_unique config_conflict (vless_server_configs (db w'))"
    using assms(2) by (simp_all add: delivery_ok_def keeps)
  have "\<forall>l \<in> set (rows (subscription_links d1)). link_device_id l \<noteq> rid v"
    using assms(5) v by (simp add: refs_ok_def keeps)
  with link_device_Inr [OF link, simplified] ok(1) obtain l where
    l0: "url = build_subscription_url (subscription_base_url (de_settings E)) (de_token E) \<and>
      rows (subscription_links (db w2)) = rows (subscription_links d1) @ [l] \<and>
      table_unique link_conflict (subscription_links (db w2)) \<and> link_device_id l = rid v \<and>
      token_hash l = hash_subscription_token (de_crypto E) (de_token E) \<and> link_status l = LinkActive"
    by blast
  have uniq: "table_unique link_conflict (subscription_links (db w2))"
    and l: "url = build_subscription_url (subscription_base_url (de_settings E)) (de_token E)"
      "l \<in> set (rows (subscription_links (db w2)))" "link_device_id l = rid v"
      "token_hash l = hash_subscription_token (de_crypto E) (de_token E)" "link_status l = LinkActive"
    using l0 by simp_all
  have links: "subscription_links (db w') = subscription_links (db w2)" by (simp add: keeps)
  have "vpn_peers (db w2) = vpn_peers (db w)" by (simp add: keeps)
  with provisioned_peer_current [OF peer] assms(5) v have q: "get_active_for_device (rid v) (db w3) = Some q"
      "peer_server_id q = rid s" "peer_assigned_ip q = pp_assigned_ip result" "peer_status q = PeerActive"
    by (simp_all add: refs_ok_def)
  have "vpn_peers (db w') = vpn_peers (db w3)" by (simp add: keeps)
  then have active: "get_active_for_device (rid v) (db w') = Some q"
    using q(1) by (simp add: get_active_for_device_def)
  have "vpn_servers d4 = vpn_servers (db w)" by (simp add: keeps)
  then have "repo_get (rid s) (vpn_servers d5) = Some (add_load s)"
    using load choose_server_Inr [OF choose assms(4)]
    by (simp add: update_server_row_Inr get_update add_load_def)
  then have server: "repo_get (peer_server_id q) (vpn_servers (db w')) = Some (add_load s)"
    by (simp add: keeps q(2))
  have "vpn_profiles d5 = vpn_profiles (db w)" by (simp add: keeps)
  then have one: "one_current d5" using assms(2) by (simp add: delivery_ok_def one_current_def)
  from regenerate_profile_cases [OF one, of "de_dns E" "de_settings E" "de_now E" "rid v" uid] reg
  have new: "repo_add no_conflict prof (superseded (rid v) d5) = (Inr prof, vpn_profiles (db w'))"
    "current_profile_of (rid v) prof" by auto
  note cur = one_current_added [OF one new]
  have prof: "get_current_profile (rid v) (db w') = (Inr (Some prof), db w')"
    using get_current_profile_run [of "db w'" "rid v"] cur by simp
  have got: "repo_get (rid v) (devices (db w')) = Some (pd_device pd)"
    using provision_devices [OF assms(1,3)] assms(3) v
    by (simp add: repo_get_def find_append wf_table_def find_none_fresh)
  have "delivery_ok (db w')"
    using ok(2) uniq cur by (simp add: delivery_ok_def links)
  moreover have "subscriptions (db w') = subscriptions (db w)" by (simp add: keeps)
  moreover have "\<exists>ip m m' v. vp_create_peer (de_wg E) v s ip m = (Inr result, m')"
    using attempts_result [OF peer [unfolded create_peer_with_retry_def]] by blast
  ultimately show thesis
    using l links active q server prof got pd(2,3) regenerate_profile_dns [OF reg]
    by (intro that [of l q result s prof]) (simp_all add: dev)
qed

section \<open>Properties\<close>

text \<open>C18: A device is provisioned only for a user with an active subscription and only up to its limit:
  afterwards the user has exactly one more active device, the one returned, still within the limit
  of that subscription, and every other device is what it was.\<close>

theorem provision_respects_limit:
  assumes "provision E uid name requested p w = (Inr pd, w')" and "wf_table (devices (db w))"
  shows "rows (devices (db w')) = rows (devices (db w)) @ [pd_device pd] \<and>
    dev_user_id (pd_device pd) = uid \<and> dev_status (pd_device pd) = DevActive \<and>
    (\<exists>s limit. get_active_for_user uid (db w) = Some s \<and> device_limit s (db w) = (Inr limit, db w) \<and>
       count_active_for_user uid (db w') = count_active_for_user uid (db w) + 1 \<and>
       count_active_for_user uid (db w') \<le> limit)"
proof -
  obtain s limit where "get_active_for_user uid (db w) = Some s" "device_limit s (db w) = (Inr limit, db w)"
      "count_active_for_user uid (db w) < limit"
    using enforce_ok [OF provision_enforced [OF assms(1)]] by blast
  with provision_devices [OF assms] show ?thesis
    by (auto simp: count_active_for_user_def repo_count_def)
qed

text \<open>Without an active subscription, or at the limit, nothing at all happens: the database is what it
  was, no agent has been called, and the error says which of the two it is. The limit is the
  subscription's override unless that is null or zero, and else the plan's number of devices.\<close>

theorem provision_refused:
  "provision E uid name requested p w =
    (case get_active_for_user uid (db w) of
       None \<Rightarrow> (Inl (AppError PermissionDeniedError ''An active subscription is required to add a device''
                      ''no_active_subscription''), w)
     | Some s \<Rightarrow>
         (case (if device_limit_override s \<notin> {None, Some 0} then device_limit_override s
                else map_option max_devices (repo_get (sub_plan_id s) (plans (db w)))) of
            None \<Rightarrow> (Inl (PyError ''AttributeError''), w)
          | Some limit \<Rightarrow>
              if count_active_for_user uid (db w) \<ge> limit
              then (Inl (AppError LimitExceededError
                 (''Device limit reached ('' @ int_str (count_active_for_user uid (db w)) @ ''/'' @ int_str limit @
                  '') for the current plan'') ''device_limit_reached''), w)
              else (if p = VLESS then provision_vless E uid name requested w
                    else provision_wireguard E uid name requested w)))"
proof -
  have pass: "enforce_device_limit uid (db w) = (r, db w) \<Longrightarrow>
      provision E uid name requested p w =
        (case r of Inl e \<Rightarrow> (Inl e, w) | Inr _ \<Rightarrow>
          (if p = VLESS then provision_vless E uid name requested w
                    else provision_wireguard E uid name requested w))" for r
    by (cases r) (auto simp: provision_def bindM_def on_db_def zoomM_def)
  have limit: "device_limit s d = (case (if device_limit_override s \<notin> {None, Some 0} then device_limit_override s
                else map_option max_devices (repo_get (sub_plan_id s) (plans d))) of
       None \<Rightarrow> (Inl (PyError ''AttributeError''), d) | Some n \<Rightarrow> (Inr n, d))" for s d
    by (auto simp: device_limit_def plan_of_def bindM_def requireM_def split: option.splits)
  show ?thesis
  proof (cases "get_active_for_user uid (db w)")
    case None
    then have "enforce_device_limit uid (db w) = (Inl (AppError PermissionDeniedError
        ''An active subscription is required to add a device'' ''no_active_subscription''), db w)"
      by (simp add: enforce_device_limit_def)
    from pass [OF this] None show ?thesis by simp
  next
    case (Some s)
    show ?thesis
    proof (cases "if device_limit_override s \<notin> {None, Some 0} then device_limit_override s
                else map_option max_devices (repo_get (sub_plan_id s) (plans (db w)))")
      case no_plan: None
      then have "enforce_device_limit uid (db w) = (Inl (PyError ''AttributeError''), db w)"
        using Some limit [of s "db w"] by (simp add: enforce_device_limit_def bindM_def)
      from pass [OF this] Some no_plan show ?thesis by simp
    next
      case has: (Some n)
      then have e: "enforce_device_limit uid (db w) =
          (if count_active_for_user uid (db w) \<ge> n
           then Inl (AppError LimitExceededError
                 (''Device limit reached ('' @ int_str (count_active_for_user uid (db w)) @ ''/'' @ int_str n @
                  '') for the current plan'') ''device_limit_reached'')
           else Inr (), db w)"
        using Some limit [of s "db w"] by (simp add: enforce_device_limit_def bindM_def)
      from pass [OF e] Some has show ?thesis by simp
    qed
  qed
qed

text \<open>C15: A freshly provisioned device works at once: its subscription URL, fetched at any time before the
  subscription expires, delivers the very configuration handed out at provisioning (address, server
  key, endpoint, allowed addresses and name servers), without the private key.\<close>

theorem provisioned_device_delivers:
  assumes "provision E uid name requested WIREGUARD w = (Inr pd, w')"
    and "de_wg E = wireguard_provider net c now1" and "vpn_dns_list (de_settings E) \<noteq> []"
    and "delivery_ok (db w)" and "wf_table (devices (db w))" and "wf_table (vpn_servers (db w))" and "refs_ok E (db w)"
    and "de_token E \<noteq> ''''" and "\<not> lapsed now2 (get_active_for_user uid (db w))"
  shows "\<exists>key ip server_key server_endpoint ips dns.
    pd_config_text pd = Some (render_wireguard_config (Some key) ip server_key server_endpoint ips dns) \<and>
    fst (deliver (de_crypto E) now2 (de_token E) hint (db w')) =
      Inr (utf8 (render_wireguard_config None ip server_key server_endpoint ips dns), text_plain) \<and>
    pd_subscription_url pd = Some (build_subscription_url (subscription_base_url (de_settings E)) (de_token E))"
proof (rule provisioned_state [OF assms(1,4-7)])
  fix l s q result prof
  assume ok: "delivery_ok (db w')"
    and l: "token_hash l = hash_subscription_token (de_crypto E) (de_token E)"
      "l \<in> set (rows (subscription_links (db w')))" "link_status l = LinkActive" "link_device_id l = rid (pd_device pd)"
    and got: "repo_get (rid (pd_device pd)) (devices (db w')) = Some (pd_device pd)"
    and subs: "subscriptions (db w') = subscriptions (db w)"
    and q: "get_active_for_device (rid (pd_device pd)) (db w') = Some q" "peer_status q = PeerActive"
      "peer_assigned_ip q = pp_assigned_ip result"
    and server: "repo_get (peer_server_id q) (vpn_servers (db w')) = Some (add_load s)"
    and result: "\<exists>ip m m' v. vp_create_peer (de_wg E) v s ip m = (Inr result, m')"
    and prof: "get_current_profile (rid (pd_device pd)) (db w') = (Inr (Some prof), db w')"
      "prof_dns prof = vpn_dns_list (de_settings E)" "pd_config_text pd = Some (client_config E result prof)"
    and url: "pd_subscription_url pd = Some (build_subscription_url (subscription_base_url (de_settings E)) (de_token E))"
  let ?d = "db w'" and ?t = "touched now2 l (db w')"
  note pd = provision_devices [OF assms(1,5)]
  have "distinct (map token_hash (rows (subscription_links ?d)))"
    using ok by (simp add: delivery_ok_def table_unique_link_iff)
  from find_distinct [OF this l(2)] l(1)
  have "find (\<lambda>x. token_hash x = hash_subscription_token (de_crypto E) (de_token E)) (rows (subscription_links ?d)) = Some l"
    by simp
  moreover have "get_active_for_user uid ?d = get_active_for_user uid (db w)"
    by (simp add: get_active_for_user_def subs)
  ultimately have auth: "authorize (de_crypto E) now2 (de_token E) ?d = (Inr (pd_device pd), ?t)"
    using authorize_run [OF ok, of "de_crypto E" now2 "de_token E"] l got pd assms(8,9) by simp
  have "one_current ?d" using ok by (simp add: delivery_ok_def)
  from get_current_profile_run [OF this, of "rid (pd_device pd)"] prof(1)
    get_current_profile_run [OF one_current_touched [OF this], of "rid (pd_device pd)" now2 l]
  have cur: "get_current_profile (rid (pd_device pd)) ?t = (Inr (Some prof), ?t)" by simp
  have "pp_server_public_key result = srv_public_key s \<and> pp_server_endpoint result = endpoint s"
    using result by (auto simp: assms(2) wireguard_provider_def dest: wg_create_peer_Inr)
  then have config: "client_config E result prof = render_wireguard_config (Some (pp_private_key result))
      (peer_assigned_ip q) (srv_public_key s) (endpoint s) (allowed_ips prof) (prof_dns prof)"
    using assms(2,3) prof(2) q(3)
    by (simp add: client_config_def wireguard_provider_def wg_build_client_config_def)
  have "deliver (de_crypto E) now2 (de_token E) hint ?d =
      (Inr (render_wireguard q (add_load s) (Some prof), text_plain), ?t)"
    using pd q server cur by (simp add: deliver_def bindM_def auth cur)
  then show ?thesis
    using prof(3) config url by (simp add: render_wireguard_def add_load_def) blast
qed

section \<open>Example\<close>

text \<open>Stand-ins for the agents, used only by the examples: the WireGuard agent answers with the address
  it is asked for and a key made from it, the xray agent is a list of users.\<close>

definition demo_codec :: codec where
  "demo_codec = \<lparr>dumps = (\<lambda>j. case jget ''assigned_ip'' j of Some (JStr s) \<Rightarrow> s | _ \<Rightarrow> ''''),
     loads = (\<lambda>s. Some (JObj [(''public_key'', JStr (''PK'' @ s)), (''private_key'', JStr ''SK''), (''assigned_ip'', JStr s)])),
     parse_iso = (\<lambda>_. None)\<rparr>"

definition demo_net :: "string list network" where
  "demo_net req w = (Response 201 (req_body req), req_method req # w)"

definition demo_wg_client :: wg_client where
  "demo_wg_client = \<lparr>wg_crypto = demo_crypto, wg_secret = ''s'', wg_dns = [''1.1.1.1''], wg_codec = demo_codec\<rparr>"

definition demo_xray_provider :: "string list xray_provider" where
  "demo_xray_provider = \<lparr>
     xp_create_user = (\<lambda>_ u did fl w. (Inr \<lparr>vu_uuid = u, vu_device_id = did, vu_user_flow = fl, vu_created_at = 0,
       vu_rotated_at = None\<rparr>, u # filter (\<lambda>x. x \<noteq> u) w)),
     xp_remove_user = (\<lambda>_ u w. (Inr (), filter (\<lambda>x. x \<noteq> u) w)),
     xp_rotate_user = (\<lambda>_ u n w. (Inl (PyError ''unused''), w)),
     xp_list_users = (\<lambda>_ w. (Inr [], w)),
     xp_health_check = (\<lambda>_ w. (Inr True, w))\<rparr>"

definition demo_env :: "string list device_env" where
  "demo_env = \<lparr>de_crypto = demo_crypto, de_settings = default_settings, de_now = 10,
     de_dns = demo_dns, de_wg = wireguard_provider demo_net demo_wg_client 10, de_xray = demo_xray_provider,
     de_qr = (\<lambda>s. Some ''qr''), de_token = ''tokZ'', de_uuid = ''uuid-1'', de_rivals = (\<lambda>_. [])\<rparr>"

text \<open>The user of \<^verbatim>\<open>demo_delivery_db\<close> with one device, on a plan for two.\<close>

definition demo_user_db :: database where
  "demo_user_db = demo_delivery_db\<lparr>plans := tbl [demo_plan], subscription_links := tbl [demo_link 1 ''tokA'']\<rparr>"

definition demo_world :: "string list world" where
  "demo_world = \<lparr>db = demo_user_db, remote = []\<rparr>"

lemma demo_provisions:
  "case provision demo_env 1 ''laptop'' None WIREGUARD demo_world of (Inr _, _) \<Rightarrow> True | _ \<Rightarrow> False"
  by code_simp

lemma demo_world_ok:
  "wf_table (devices (db demo_world))" "wf_table (vpn_servers (db demo_world))" "delivery_ok (db demo_world)"
  "refs_ok demo_env (db demo_world)" "wf_table (vpn_peers (db demo_world))" "wf_table (vpn_profiles (db demo_world))"
proof -
  show "wf_table (devices (db demo_world))" "wf_table (vpn_servers (db demo_world))"
    "wf_table (vpn_peers (db demo_world))" "wf_table (vpn_profiles (db demo_world))" by code_simp+
  show "delivery_ok (db demo_world)"
    using demo_delivery_ok
    by (simp add: delivery_ok_def demo_world_def demo_user_db_def one_current_def table_unique_def tbl_def)
  show "refs_ok demo_env (db demo_world)"
    by (simp add: refs_ok_def demo_world_def demo_user_db_def demo_delivery_db_def demo_links_db_def tbl_def
        demo_link_def demo_peer_def demo_env_def)
qed

lemma provision_respects_limit_witness:
  "case provision demo_env 1 ''laptop'' None WIREGUARD demo_world of
     (Inr pd, w') \<Rightarrow> dev_user_id (pd_device pd) = 1 \<and> rows (devices (db w')) = rows (devices demo_user_db) @ [pd_device pd]
   | _ \<Rightarrow> False"
  using demo_provisions provision_respects_limit [of demo_env 1 "''laptop''" None WIREGUARD demo_world, OF _ demo_world_ok(1)]
  by (auto simp: demo_world_def split: prod.splits sum.splits)

lemma provisioned_device_delivers_witness:
  "case provision demo_env 1 ''laptop'' None WIREGUARD demo_world of
     (Inr pd, w') \<Rightarrow> (case fst (deliver demo_crypto 999 ''tokZ'' None (db w')) of Inr _ \<Rightarrow> True | Inl _ \<Rightarrow> False)
   | _ \<Rightarrow> False"
proof -
  obtain pd w' where run: "provision demo_env 1 ''laptop'' None WIREGUARD demo_world = (Inr pd, w')"
    using demo_provisions by (auto split: prod.splits sum.splits)
  have wg: "de_wg demo_env = wireguard_provider demo_net demo_wg_client 10" by (simp add: demo_env_def)
  have dns: "vpn_dns_list (de_settings demo_env) \<noteq> []" by (simp add: demo_env_def vpn_dns_list_default)
  have token: "de_token demo_env \<noteq> ''''" by (simp add: demo_env_def)
  have live: "\<not> lapsed 999 (get_active_for_user 1 (db demo_world))" by code_simp
  from provisioned_device_delivers [OF run wg dns demo_world_ok(3,1,2,4) token live, of None]
  show ?thesis unfolding run by (auto simp: demo_env_def)
qed

section \<open>The contract of a WireGuard agent\<close>

text \<open>
  What the retry loop relies on of an agent: a successful creation registers a key that was not there,
  a successful deletion removes exactly the peer's key, and neither fails with a conflict of the
  backend's own. A call that fails may have done anything, because its answer may have been lost.
\<close>

locale peer_agent =
  fixes ok :: "'w \<Rightarrow> bool"
    and live :: "'w \<Rightarrow> string set"
    and create :: "device \<Rightarrow> vpn_server \<Rightarrow> string \<Rightarrow> ('w, exn, peer_provisioning) comp"
    and delete :: "vpn_peer \<Rightarrow> vpn_server \<Rightarrow> ('w, exn, unit) comp"
  assumes create_ok: "ok w \<Longrightarrow> create v s ip w = (Inr r, w') \<Longrightarrow>
      ok w' \<and> pp_public_key r \<notin> live w \<and> live w' = insert (pp_public_key r) (live w)"
    and create_fails: "ok w \<Longrightarrow> create v s ip w = (Inl e, w') \<Longrightarrow> ok w' \<and> e \<noteq> AppError ConflictError m c"
    and delete_ok: "ok w \<Longrightarrow> delete p s w = (Inr (), w') \<Longrightarrow> ok w' \<and> live w' = live w - {peer_public_key p}"
    and delete_fails: "ok w \<Longrightarrow> delete p s w = (Inl e, w') \<Longrightarrow> ok w' \<and> e \<noteq> AppError ConflictError m c"
begin

lemma retry_live:
  assumes "create_peer_attempts E v s n w = (r, w')" and "ok (remote w)"
    and "vp_create_peer (de_wg E) = create" and "vp_delete_peer (de_wg E) = delete"
  shows "ok (remote w') \<and> (case r of
      Inr (result, q) \<Rightarrow> peer_public_key q \<notin> live (remote w) \<and>
        live (remote w') = insert (peer_public_key q) (live (remote w))
    | Inl e \<Rightarrow> (\<forall>m c. e = AppError ConflictError m c \<longrightarrow> live (remote w') = live (remote w)))"
  using assms(1,2)
proof (induction n arbitrary: w)
  case 0
  then show ?case by auto
next
  case (Suc n)
  from Suc.prems(1) show ?case
  proof (cases rule: attempt_stages)
    case no_address
    then show ?thesis using Suc.prems(2) by simp
  next
    case (no_peer ip e)
    then show ?thesis using create_fails [OF Suc.prems(2), of v s ip e "remote w'"] assms(3) by auto
  next
    case (added ip result m q)
    then have "peer_public_key q = pp_public_key result"
      by (auto simp: savepoint_add_peer_Inr new_peer_def)
    with added show ?thesis
      using create_ok [OF Suc.prems(2), of v s ip result "remote w'"] assms(3) by auto
  next
    case (lost ip result m n1 rd n2)
    have c: "ok n1" "pp_public_key result \<notin> live (remote w)" "live n1 = insert (pp_public_key result) (live (remote w))"
      using create_ok [OF Suc.prems(2), of v s ip result n1] lost(2) assms(3) by auto
    show ?thesis
    proof (cases rd)
      case (Inl e)
      then show ?thesis using delete_fails [OF c(1)] lost(5,6) assms(4) by auto
    next
      case (Inr u)
      then have d: "ok n2" "live n2 = live n1 - {pp_public_key result}"
        using delete_ok [OF c(1)] lost(5) assms(4) by (auto simp: new_peer_def)
      with c have same: "live n2 = live (remote w)" by auto
      have "create_peer_attempts E v s n (w\<lparr>db := m, remote := n2\<rparr>) = (r, w')" using lost(6) Inr by simp
      from Suc.IH [OF this] d(1) same show ?thesis by (cases r) auto
    qed
  qed
qed

end

text \<open>A provisioning that succeeds but for the QR code: everything before it has happened.\<close>

lemma attempts_qr: "create_peer_attempts (E\<lparr>de_qr := q\<rparr>) v s n = create_peer_attempts E v s n"
  by (induction n) simp_all

lemma provision_without_qr:
  assumes "provision E uid name requested WIREGUARD w = (Inr pd, w')"
    and "pd_config_text pd = Some text" and "q text = None"
  shows "provision (E\<lparr>de_qr := q\<rparr>) uid name requested WIREGUARD w = (Inl (PyError ''DataOverflowError''), w')"
proof (rule provision_wireguard_stages [OF assms(1)])
  fix s v d1 w2 url result q2 w3 d4 d5 prof
  assume run: "enforce_device_limit uid (db w) = (Inr (), db w)" "choose_server requested WIREGUARD (db w) = (Inr s, db w)"
    "add_device (new_device (de_now E) uid name WIREGUARD None) (db w) = (Inr v, d1)"
    "link_device E v (w\<lparr>db := d1\<rparr>) = (Inr url, w2)" "create_peer_with_retry E v s w2 = (Inr (result, q2), w3)"
    "assign_device (rid v) (bind_peer q2 (rid s)) (db w3) = (Inr (), d4)" "update_server_row (rid s) add_load d4 = (Inr (), d5)"
    "regenerate_profile (de_dns E) (de_settings E) (de_now E) (rid v) uid d5 = (Inr prof, db w')"
    "remote w' = remote w3" "pd_config_text pd = Some (client_config E result prof)"
  have same: "link_device (E\<lparr>de_qr := q\<rparr>) v = link_device E v"
    "create_peer_with_retry (E\<lparr>de_qr := q\<rparr>) v s = create_peer_with_retry E v s"
    "client_config (E\<lparr>de_qr := q\<rparr>) result prof = client_config E result prof"
    by (simp_all add: link_device_def create_peer_with_retry_def attempts_qr client_config_def)
  have final: "w\<lparr>db := db w', remote := remote w3\<rparr> = w'"
    using run(9) by (cases w; cases w') simp
  have "q (client_config E result prof) = None" using assms(2,3) run(10) by simp
  then show "provision (E\<lparr>de_qr := q\<rparr>) uid name requested WIREGUARD w = (Inl (PyError ''DataOverflowError''), w')"
    using run final
    by (simp add: provision_def provision_wireguard_def bindM_def on_db_def zoomM_def same qr_code_def)
qed

end
