(* ===== verification/Lifecycle.thy ===== *)
theory Lifecycle
  imports Devices
begin

text \<open>
  The life of a device after its provisioning (\<^verbatim>\<open>services/device_service.py\<close>): what disabling and
  enabling a VLESS device do to its credentials and to the users its agent serves, what enabling does
  not look at, and what becomes of the addresses of revoked devices.
\<close>

section \<open>Disabling and enabling a VLESS device\<close>

definition set_credentials ::
  "int set \<Rightarrow> credential_status \<Rightarrow> vless_credential table \<Rightarrow> vless_credential table" where
  "set_credentials I st t = repo_update_where (\<lambda>r. rid r \<in> I) (\<lambda>r. r\<lparr>cred_status := st\<rparr>) t"

lemma set_credentials_update:
  "repo_update i (\<lambda>r. r\<lparr>cred_status := st\<rparr>) (set_credentials I st t) = set_credentials (insert i I) st t"
  by (simp add: set_credentials_def repo_update_def repo_update_where_def)

lemma set_credentials_empty [simp]: "set_credentials {} st t = t"
  by (simp add: set_credentials_def repo_update_where_def)

lemma set_credentials_undo:
  assumes "\<forall>r \<in> set (rows t). rid r \<in> I \<longrightarrow> cred_status r = st"
  shows "set_credentials I st (set_credentials I st' t) = t"
proof -
  have "map ((\<lambda>r. if rid r \<in> I then r\<lparr>cred_status := st\<rparr> else r) \<circ>
      (\<lambda>r. if rid r \<in> I then r\<lparr>cred_status := st'\<rparr> else r)) (rows t) = rows t"
    using assms by (intro map_idI) auto
  then show ?thesis by (simp add: set_credentials_def repo_update_where_def)
qed

text \<open>The Reality configuration a credential's server has.\<close>

definition config_of :: "vless_credential \<Rightarrow> database \<Rightarrow> vless_server_config option" where
  "config_of c d = (case vless_config_for_credential c d of (Inr (Some (_, g)), _) \<Rightarrow> Some g | _ \<Rightarrow> None)"

text \<open>The documented behaviour of the xray-agent's two operations, on the set of users it serves.\<close>

definition xray_contract :: "'w xray_provider \<Rightarrow> ('w \<Rightarrow> string set) \<Rightarrow> bool" where
  "xray_contract P users_of \<longleftrightarrow>
     (\<forall>g u w w'. xp_remove_user P g u w = (Inr (), w') \<longrightarrow> users_of w' = users_of w - {u}) \<and>
     (\<forall>g u i fl r w w'. xp_create_user P g u i fl w = (Inr r, w') \<longrightarrow> users_of w' = insert u (users_of w))"

lemma config_for_credential_run:
  assumes "table_unique config_conflict (vless_server_configs d)"
    and "repo_get (cred_server_id c) (vpn_servers d) \<noteq> None"
  shows "\<exists>x. vless_config_for_credential c d = (Inr x, d) \<and> map_option snd x = config_of c d"
  using assms(2)
  by (auto simp: vless_config_for_credential_def get_server_def bindM_def config_of_def
      get_config_run [OF assms(1)] split: option.splits)

lemma config_of_cong:
  "vpn_servers d' = vpn_servers d \<Longrightarrow> vless_server_configs d' = vless_server_configs d \<Longrightarrow> config_of c d' = config_of c d"
  by (simp add: config_of_def vless_config_for_credential_def get_server_def get_config_for_server_def
      on_vless_server_configs_def bindM_def zoomM_def requireM_def repo_one_def scalar_one_or_none_def repo_select_def
      split: option.splits list.splits prod.splits sum.splits)

lemma config_of_credentials [simp]:
  "config_of c (d\<lparr>vless_credentials := t\<rparr>) = config_of c d" "config_of c (d\<lparr>devices := t2\<rparr>) = config_of c d"
  by (rule config_of_cong; simp)+

lemma config_of_server: "cred_server_id c = cred_server_id r \<Longrightarrow> config_of c d = config_of r d"
  by (simp add: config_of_def vless_config_for_credential_def)

lemma disable_credential_Inr:
  assumes "disable_credential E c w = (Inr u, w')" and "xray_contract (de_xray E) users_of"
    and "config_of c (db w) = Some g"
  shows "db w' = (db w)\<lparr>vless_credentials :=
      repo_update (rid c) (\<lambda>r. r\<lparr>cred_status := CredDisabled\<rparr>) (vless_credentials (db w))\<rparr> \<and>
    users_of (remote w') = users_of (remote w) - {cred_uuid c}"
proof -
  obtain s where s: "vless_config_for_credential c (db w) = (Inr (Some (s, g)), db w)"
    using assms(3) keepsD [OF keeps_read_only_queries(8), of c "db w" _ _ "\<lambda>d. d"]
    by (auto simp: config_of_def split: prod.splits sum.splits option.splits)
  then show ?thesis
    using assms(1,2)
    by (auto simp: disable_credential_def remove_credential_from_xray_def success_iffs on_db_reads on_remote_iff
        on_db_iff update_credential_def on_vless_credentials_def xray_contract_def)
qed

lemma enable_credential_Inr:
  assumes "enable_credential E did c w = (Inr u, w')" and "xray_contract (de_xray E) users_of"
    and "config_of c (db w) = Some g"
  shows "if cred_status c = CredDisabled
    then db w' = (db w)\<lparr>vless_credentials :=
        repo_update (rid c) (\<lambda>r. r\<lparr>cred_status := CredActive\<rparr>) (vless_credentials (db w))\<rparr> \<and>
      users_of (remote w') = insert (cred_uuid c) (users_of (remote w))
    else w' = w"
proof -
  obtain s where s: "vless_config_for_credential c (db w) = (Inr (Some (s, g)), db w)"
    using assms(3) keepsD [OF keeps_read_only_queries(8), of c "db w" _ _ "\<lambda>d. d"]
    by (auto simp: config_of_def split: prod.splits sum.splits option.splits)
  then show ?thesis
    using assms(1,2)
    by (auto simp: enable_credential_def success_iffs on_db_reads on_remote_iff
        on_db_iff update_credential_def on_vless_credentials_def xray_contract_def split: if_splits)
qed

text \<open>Both loops, over credentials whose servers are configured.\<close>

lemma disable_loop:
  assumes "foreachM creds (disable_credential E) w = (Inr (), w')"
    and "xray_contract (de_xray E) users_of" and "\<forall>c \<in> set creds. config_of c (db w) \<noteq> None"
    and "vless_credentials (db w) = set_credentials I CredDisabled t"
  shows "db w' = (db w)\<lparr>vless_credentials := set_credentials (I \<union> rid ` set creds) CredDisabled t\<rparr> \<and>
    users_of (remote w') = users_of (remote w) - cred_uuid ` set creds"
  using assms(1,3,4)
proof (induction creds arbitrary: w I)
  case (Cons c cs)
  then obtain w1 where 1: "disable_credential E c w = (Inr (), w1)" "foreachM cs (disable_credential E) w1 = (Inr (), w')"
    by (auto simp: bindM_eq_Inr_iff)
  obtain g where g: "config_of c (db w) = Some g" using Cons.prems(2) by auto
  have w1: "db w1 = (db w)\<lparr>vless_credentials := set_credentials (insert (rid c) I) CredDisabled t\<rparr>"
      "users_of (remote w1) = users_of (remote w) - {cred_uuid c}"
    using disable_credential_Inr [OF 1(1) assms(2) g] Cons.prems(3) by (simp_all add: set_credentials_update)
  have "\<forall>c \<in> set cs. config_of c (db w1) \<noteq> None"
    using Cons.prems(2) w1(1) by simp
  from Cons.IH [OF 1(2) this, of "insert (rid c) I"] w1 show ?case by auto
qed (use assms in simp)

lemma enable_loop:
  assumes "foreachM creds (enable_credential E did) w = (Inr (), w')"
    and "xray_contract (de_xray E) users_of" and "\<forall>c \<in> set creds. config_of c (db w) \<noteq> None"
    and "vless_credentials (db w) = set_credentials I CredActive t"
  shows "db w' = (db w)\<lparr>vless_credentials :=
        set_credentials (I \<union> rid ` {c \<in> set creds. cred_status c = CredDisabled}) CredActive t\<rparr> \<and>
    users_of (remote w') = users_of (remote w) \<union> cred_uuid ` {c \<in> set creds. cred_status c = CredDisabled}"
  using assms(1,3,4)
proof (induction creds arbitrary: w I)
  case (Cons c cs)
  then obtain w1 where 1: "enable_credential E did c w = (Inr (), w1)" "foreachM cs (enable_credential E did) w1 = (Inr (), w')"
    by (auto simp: bindM_eq_Inr_iff)
  obtain g where g: "config_of c (db w) = Some g" using Cons.prems(2) by auto
  let ?J = "if cred_status c = CredDisabled then insert (rid c) I else I"
  have w1: "db w1 = (db w)\<lparr>vless_credentials := set_credentials ?J CredActive t\<rparr>"
      "users_of (remote w1) = (if cred_status c = CredDisabled then insert (cred_uuid c) (users_of (remote w))
        else users_of (remote w))"
    using enable_credential_Inr [OF 1(1) assms(2) g] Cons.prems(3)
    by (auto simp: set_credentials_update split: if_splits)
  have conf: "\<forall>c \<in> set cs. config_of c (db w1) \<noteq> None"
    using Cons.prems(2) w1(1) by simp
  have set: "{d \<in> set (c # cs). cred_status d = CredDisabled} =
      (if cred_status c = CredDisabled then insert c {d \<in> set cs. cred_status d = CredDisabled}
       else {d \<in> set cs. cred_status d = CredDisabled})"
    by auto
  from Cons.IH [OF 1(2) conf, of ?J] w1 show ?case
    unfolding set by (cases "cred_status c = CredDisabled") auto
qed (use assms in simp)

lemma set_status_run:
  "set_device_status st v w =
     (Inr (v\<lparr>dev_status := st\<rparr>), w\<lparr>db := (db w)\<lparr>devices := repo_update (rid v) (\<lambda>r. r\<lparr>dev_status := st\<rparr>) (devices (db w))\<rparr>\<rparr>)"
  unfolding set_device_status_def update_device_def on_devices_def on_db_def bindM_def zoomM_def
  by (simp only: monad_apply prod.case sum.case)

lemma device_status_undo:
  assumes "wf_table t" and "repo_get (rid v) t = Some v" and "dev_status v = st"
  shows "repo_update (rid v) (\<lambda>r. r\<lparr>dev_status := st\<rparr>) (repo_update (rid v) (\<lambda>r. r\<lparr>dev_status := st'\<rparr>) t) = t"
proof -
  have only: "r = v" if "r \<in> set (rows t)" "rid r = rid v" for r
    using repo_get_wf [OF assms(1) that(1)] assms(2) unfolding that(2) by simp
  have "v\<lparr>dev_status := st\<rparr> = v" using assms(3) by (cases v) simp
  then have "x\<lparr>dev_status := st\<rparr> = x" if "x \<in> set (rows t)" "rid x = rid v" for x
    using only [OF that] by simp
  then have "map ((\<lambda>r. if rid r = rid v then r\<lparr>dev_status := st\<rparr> else r) \<circ>
      (\<lambda>r. if rid r = rid v then r\<lparr>dev_status := st'\<rparr> else r)) (rows t) = rows t"
    by (intro map_idI) auto
  then show ?thesis by (simp add: repo_update_def)
qed

text \<open>The credentials of a device after its active ones have been disabled.\<close>

lemma disabled_credentials:
  assumes "wf_table t" and "\<forall>c \<in> set (rows t). cred_device_id c = did \<longrightarrow> cred_status c \<noteq> CredDisabled"
    and "J = {c \<in> set (rows t). cred_device_id c = did \<and> cred_status c = CredActive}"
    and "t' = set_credentials (rid ` J) CredDisabled t"
  shows "{c \<in> set (rows t'). cred_device_id c = did \<and> cred_status c = CredDisabled} = (\<lambda>c. c\<lparr>cred_status := CredDisabled\<rparr>) ` J"
    and "filter (\<lambda>c. cred_device_id c = did \<and> cred_status c = CredActive) (rows t') = []"
proof -
  have inJ: "r \<in> J" if "r \<in> set (rows t)" "rid r \<in> rid ` J" for r
  proof -
    from that(2) obtain a where "a \<in> J" "rid a = rid r" by auto
    then have "repo_get (rid r) t = Some a" using assms(1,3) repo_get_wf [of t a] by simp
    then show ?thesis using repo_get_wf [OF assms(1) that(1)] \<open>a \<in> J\<close> by simp
  qed
  have "rows t' = map (\<lambda>r. if rid r \<in> rid ` J then r\<lparr>cred_status := CredDisabled\<rparr> else r) (rows t)"
    by (simp add: assms(4) set_credentials_def rows_update_where)
  also have "\<dots> = map (\<lambda>r. if r \<in> J then r\<lparr>cred_status := CredDisabled\<rparr> else r) (rows t)"
    using inJ by (intro map_cong) auto
  finally have rows: "rows t' = map (\<lambda>r. if r \<in> J then r\<lparr>cred_status := CredDisabled\<rparr> else r) (rows t)" .
  have status: "c \<in> J \<longleftrightarrow> cred_status c \<noteq> CredRevoked" if "c \<in> set (rows t)" "cred_device_id c = did" for c
    using that assms(2,3) by (cases "cred_status c") auto
  have dev: "cred_device_id c = did \<and> c \<in> set (rows t)" if "c \<in> J" for c
    using that assms(3) by simp
  show "{c \<in> set (rows t'). cred_device_id c = did \<and> cred_status c = CredDisabled} = (\<lambda>c. c\<lparr>cred_status := CredDisabled\<rparr>) ` J"
  proof (intro equalityI subsetI)
    fix c assume "c \<in> {c \<in> set (rows t'). cred_device_id c = did \<and> cred_status c = CredDisabled}"
    then obtain r where r: "r \<in> set (rows t)" "c = (if r \<in> J then r\<lparr>cred_status := CredDisabled\<rparr> else r)"
        "cred_device_id c = did" "cred_status c = CredDisabled"
      unfolding rows by auto
    then have "r \<in> J" using assms(2) by (cases "r \<in> J") auto
    with r(2) show "c \<in> (\<lambda>c. c\<lparr>cred_status := CredDisabled\<rparr>) ` J" by simp
  next
    fix c assume "c \<in> (\<lambda>c. c\<lparr>cred_status := CredDisabled\<rparr>) ` J"
    then obtain r where "r \<in> J" "c = r\<lparr>cred_status := CredDisabled\<rparr>" by auto
    with dev [of r] show "c \<in> {c \<in> set (rows t'). cred_device_id c = did \<and> cred_status c = CredDisabled}"
      unfolding rows by force
  qed
  show "filter (\<lambda>c. cred_device_id c = did \<and> cred_status c = CredActive) (rows t') = []"
  proof -
    have "\<not> (cred_device_id c = did \<and> cred_status c = CredActive)" if "c \<in> set (rows t')" for c
    proof -
      from that obtain r where r: "r \<in> set (rows t)" "c = (if r \<in> J then r\<lparr>cred_status := CredDisabled\<rparr> else r)"
        unfolding rows by auto
      then show ?thesis using assms(3) by (cases "r \<in> J") auto
    qed
    then show ?thesis by (simp add: filter_empty_conv)
  qed
qed


definition demo_vless_device :: device where
  "demo_vless_device = (demo_device 1 1 VLESS)\<lparr>dev_public_key := None, dev_assigned_ip := None\<rparr>"

definition demo_vless_db :: database where
  "demo_vless_db = empty_db\<lparr>devices := tbl [demo_vless_device],
     vpn_servers := tbl [demo_server 1 VLESS ''0.0.0.0/32'' 1],
     vless_server_configs := tbl [\<lparr>rid = 1, created_at = 0, cfg_server_id = 1, xray_agent_base_url = ''http://x'',
       port = 443, reality_public_key = ''pbk'', reality_short_ids = [], sni = ''a.com'', fingerprint = ''chrome'',
       flow = ''xtls'', network_type = ''tcp''\<rparr>],
     vless_credentials := tbl [\<lparr>rid = 1, created_at = 0, cred_device_id = 1, cred_server_id = 1, cred_uuid = ''u1'',
       cred_status = CredActive, cred_rotated_at = None, cred_revoked_at = None\<rparr>]\<rparr>"

lemma demo_xray_contract: "xray_contract demo_xray_provider set"
  by (auto simp: xray_contract_def demo_xray_provider_def)


section \<open>What enabling does not look at\<close>

lemma call_active_peer_db: "keeps db (call_active_peer v act)"
proof -
  have "keeps (\<lambda>w. id (db w)) (call_active_peer v act)"
    unfolding call_active_peer_def whenSome_def by (intro frame)
  then show ?thesis by simp
qed

lemma count_status_update:
  assumes "wf_table t" and "repo_get (rid v) t = Some v" and "dev_user_id v = uid" and "dev_status v \<noteq> DevActive"
  shows "length (filter (\<lambda>x. dev_user_id x = uid \<and> dev_status x = DevActive)
       (rows (repo_update (rid v) (\<lambda>r. r\<lparr>dev_status := DevActive\<rparr>) t))) =
     length (filter (\<lambda>x. dev_user_id x = uid \<and> dev_status x = DevActive) (rows t)) + 1"
proof -
  let ?P = "\<lambda>x. dev_user_id x = uid \<and> dev_status x = DevActive"
  let ?f = "\<lambda>r. if rid r = rid v then r\<lparr>dev_status := DevActive\<rparr> else r"
  obtain xs ys where split: "rows t = xs @ v # ys"
    using repo_get_in [OF assms(2)] split_list [of v "rows t"] by blast
  have others: "rid r \<noteq> rid v" if "r \<in> set xs \<union> set ys" for r
    using assms(1) that unfolding wf_table_def split by (auto simp: image_iff)
  then have "map ?f xs = xs" "map ?f ys = ys" by (auto intro!: map_idI)
  then show ?thesis using assms(3,4) by (simp add: rows_update split)
qed

text \<open>Enabling a device is not a provisioning: whatever the plan's limit and even without any active
  subscription, a disabled or revoked WireGuard device becomes active and its owner has one more
  active device than before. The outcome is the same whatever subscriptions and plans exist.\<close>

theorem enable_unchecked:
  assumes "enable_device E v w = (Inr v', w')" and "dev_protocol v = WIREGUARD"
    and "repo_get (rid v) (devices (db w)) = Some v" and "dev_status v \<noteq> DevActive" and "wf_table (devices (db w))"
  shows "dev_status v' = DevActive \<and>
    count_active_for_user (dev_user_id v) (db w') = count_active_for_user (dev_user_id v) (db w) + 1 \<and>
    enable_device E v (w\<lparr>db := (db w)\<lparr>subscriptions := S, plans := P\<rparr>\<rparr>) =
      (Inr v', w'\<lparr>db := (db w')\<lparr>subscriptions := S, plans := P\<rparr>\<rparr>)"
proof -
  let ?f = "\<lambda>w. w\<lparr>db := (db w)\<lparr>subscriptions := S, plans := P\<rparr>\<rparr>"
  obtain w1 where call: "call_active_peer v (vp_enable_peer (de_wg E)) w = (Inr (), w1)"
    and v': "v' = v\<lparr>dev_status := DevActive\<rparr>"
    and w': "w' = w1\<lparr>db := (db w1)\<lparr>devices := repo_update (rid v) (\<lambda>r. r\<lparr>dev_status := DevActive\<rparr>) (devices (db w1))\<rparr>\<rparr>"
    using assms(1,2) by (auto simp: enable_device_def bindM_eq_Inr_iff set_status_run)
  have same: "db w1 = db w" using keepsD [OF call_active_peer_db call] .
  have "call_active_peer v (vp_enable_peer (de_wg E)) (?f w) = (Inr (), ?f w1)"
    using call
    by (auto simp: call_active_peer_def whenSome_def get_server_def get_active_for_device_def on_db_def on_remote_def
        zoomM_def bindM_def requireM_def split: option.splits prod.splits)
  then have "enable_device E v (?f w) = (Inr v', ?f w')"
    using assms(2) v' w' by (simp add: enable_device_def bindM_def set_status_run)
  moreover have "count_active_for_user (dev_user_id v) (db w') = count_active_for_user (dev_user_id v) (db w) + 1"
    using count_status_update [OF assms(5,3) refl assms(4)]
    by (simp add: count_active_for_user_def repo_count_def w' same)
  ultimately show ?thesis using v' by simp
qed

text \<open>A disabled device is enabled, also after all subscriptions and plans are gone.\<close>

lemma enable_unchecked_witness:
  "case disable_device demo_env (demo_device 1 1 WIREGUARD) demo_world of
     (Inr v1, w1) \<Rightarrow> (case enable_device demo_env v1 w1 of
        (Inr v2, w2) \<Rightarrow> count_active_for_user 1 (db w2) = count_active_for_user 1 (db w1) + 1 \<and>
          fst (enable_device demo_env v1 (w1\<lparr>db := (db w1)\<lparr>subscriptions := empty_table, plans := empty_table\<rparr>\<rparr>)) = Inr v2
      | _ \<Rightarrow> False)
   | _ \<Rightarrow> False"
proof -
  let ?v = "demo_device 1 1 WIREGUARD"
  have "case disable_device demo_env ?v demo_world of
     (Inr v1, w1) \<Rightarrow> v1 = ?v\<lparr>dev_status := DevDisabled\<rparr> \<and> repo_get (rid v1) (devices (db w1)) = Some v1 \<and>
       wf_table (devices (db w1)) | _ \<Rightarrow> False" by code_simp
  then obtain v1 w1 where 1: "disable_device demo_env ?v demo_world = (Inr v1, w1)" "v1 = ?v\<lparr>dev_status := DevDisabled\<rparr>"
    "repo_get (rid v1) (devices (db w1)) = Some v1" "wf_table (devices (db w1))"
    by (auto split: prod.splits sum.splits)
  have "case disable_device demo_env ?v demo_world of
     (Inr v1, w1) \<Rightarrow> (case fst (enable_device demo_env v1 w1) of Inr _ \<Rightarrow> True | _ \<Rightarrow> False) | _ \<Rightarrow> False"
    by code_simp
  then obtain v2 w2 where 2: "enable_device demo_env v1 w1 = (Inr v2, w2)"
    unfolding 1(1) by (cases "enable_device demo_env v1 w1") (auto split: sum.splits)
  have p: "dev_protocol v1 = WIREGUARD" "dev_status v1 \<noteq> DevActive" "dev_user_id v1 = 1"
    by (simp_all add: 1(2) demo_device_def)
  from enable_unchecked [OF 2 p(1) 1(3) p(2) 1(4)] p(3) show ?thesis by (simp add: 1(1) 2)
qed

section \<open>Addresses of revoked devices\<close>

text \<open>Which addresses of which servers are taken, as the allocator sees them.\<close>

definition taken_addresses :: "database \<Rightarrow> (int \<times> string) list" where
  "taken_addresses d = map (\<lambda>p. (peer_server_id p, peer_assigned_ip p)) (rows (vpn_peers d))"

lemma allocate_ip_taken:
  assumes "taken_addresses d' = taken_addresses d"
  shows "fst (allocate_ip sid cidr d') = fst (allocate_ip sid cidr d)"
proof -
  have "traverse peer_address (filter (\<lambda>p. peer_server_id p = sid) ps) =
      traverse (\<lambda>q. parse_ip_address (hd (split_on CHR ''/'' (snd q))))
        (filter (\<lambda>q. fst q = sid) (map (\<lambda>p. (peer_server_id p, peer_assigned_ip p)) ps))" for ps
    by (induction ps) (auto simp: peer_address_def split: option.splits)
  then have "traverse peer_address (list_for_server sid d') = traverse peer_address (list_for_server sid d)"
    using assms by (simp add: list_for_server_def taken_addresses_def)
  then show ?thesis by (simp add: allocate_ip_def split: option.split prod.split)
qed

lemma keeps_taken_status: "keeps taken_addresses (update_peer_row i (\<lambda>r. r\<lparr>peer_status := st\<rparr>))"
  by (rule keepsI)
    (simp add: update_peer_row_def on_vpn_peers_def zoomM_def taken_addresses_def rows_update comp_def
      if_distrib cong: if_cong)

lemma keeps_credential_row [frame]:
  "(\<And>t d. F (d\<lparr>vless_credentials := t\<rparr>) = F d) \<Longrightarrow> keeps F (update_credential i f)"
  unfolding update_credential_def by (rule frame)

text \<open>Revoking a device, whether it succeeds or fails, does not make its address available again: the
  allocator offers for every server exactly what it offered before.\<close>

theorem revoked_address_stays_taken:
  "fst (allocate_ip sid cidr (db (snd (revoke_device E v w)))) = fst (allocate_ip sid cidr (db w))"
proof -
  have F: "taken_addresses (d\<lparr>devices := t\<rparr>) = taken_addresses d"
    "taken_addresses (d\<lparr>vpn_servers := u\<rparr>) = taken_addresses d"
    "taken_addresses (d\<lparr>vless_credentials := c\<rparr>) = taken_addresses d" for d t u c
    by (simp_all add: taken_addresses_def)
  have peer: "keeps (\<lambda>w. taken_addresses (db w)) (revoke_peer E p s)" for p s
    unfolding revoke_peer_def by (intro frame keeps_taken_status)
  have wg: "keeps (\<lambda>w. taken_addresses (db w)) (revoke_wireguard E v)"
    unfolding revoke_wireguard_def whenSome_def by (intro frame peer) (simp add: F)
  have cred: "keeps (\<lambda>w. taken_addresses (db w)) (revoke_credential E c)" for c
    unfolding revoke_credential_def remove_credential_from_xray_def by (intro frame) (simp_all add: F)
  have "keeps (\<lambda>w. taken_addresses (db w)) (revoke_device E v)"
    unfolding revoke_device_def revoke_credentials_def set_device_status_def
    by (intro frame wg cred) (simp add: F)
  then show ?thesis
    by (intro allocate_ip_taken) (simp add: keeps_def)
qed

end
