(* ===== verification/Expiry.thy ===== *)
theory Expiry
  imports Lifecycle Accounts
begin

text \<open>
  The expiry sweep (\<^verbatim>\<open>workers/subscription_expiry.py\<close>, \<^verbatim>\<open>workers/run_expiry_worker.py\<close>) with the
  notifier it uses (\<^verbatim>\<open>services/notifications/bot_notifier.py\<close>): one pass over the subscriptions whose
  time has run out, in one database transaction.
\<close>

section \<open>Definitions\<close>

text \<open>
  \<^verbatim>\<open>BotNotifier.notify\<close>: whatever the HTTP client reports is swallowed.
\<close>

record bot_notifier =
  bn_base_url :: string
  bn_token :: string
  bn_dumps :: "json \<Rightarrow> string"

definition bot_notify :: "'w network \<Rightarrow> bot_notifier \<Rightarrow> int \<Rightarrow> string \<Rightarrow> ('w, exn, unit) comp" where
  "bot_notify net b tid msg w =
     (Inr (), snd (net \<lparr>req_method = ''POST'', req_url = rstrip_char CHR ''/'' (bn_base_url b) @ ''/notify'',
        req_params = [], req_body = bn_dumps b (JObj [(''telegram_id'', JInt tid), (''message'', JStr msg)]),
        req_signature = None, req_timestamp = None, req_internal_token = Some (bn_token b)\<rparr> w))"

text \<open>
  The worker: the surroundings of the device service, the notifier and the text of the message as a
  function of the plan's name, which is in Russian and outside the characters of the model.
\<close>

record 'w expiry_worker =
  ew_env :: "'w device_env"
  ew_notify :: "int \<Rightarrow> string \<Rightarrow> ('w, exn, unit) comp"
  ew_message :: "string \<Rightarrow> string"

definition expiry_log :: "instant \<Rightarrow> subscription \<Rightarrow> plan \<Rightarrow> audit_log dbM" where
  "expiry_log now s p =
     audit_record now None ''subscription.expired'' ''subscription'' (Some (int_str (rid s)))
       [(''user_id'', JInt (sub_user_id s)), (''plan'', JStr (plan_name p))]"

definition process_one :: "'w expiry_worker \<Rightarrow> subscription \<Rightarrow> ('w, unit) app" where
  "process_one W s =
     bindM (on_db (plan_of s)) (\<lambda>p.
     bindM (on_db (getM (\<lambda>d. repo_get (sub_user_id s) (users d)))) (\<lambda>u.
     bindM (on_db (expire_subscription s)) (\<lambda>_.
     bindM (disable_all_for_user (ew_env W) (sub_user_id s)) (\<lambda>_.
     bindM (on_db (expiry_log (de_now (ew_env W)) s p)) (\<lambda>_.
     bindM (requireM (PyError ''AttributeError'') u) (\<lambda>user.
     on_remote (ew_notify W (telegram_id user) (ew_message W (plan_name p)))))))))"

definition sweep_one :: "'w expiry_worker \<Rightarrow> subscription \<Rightarrow> ('w, int) app" where
  "sweep_one W s = bindM (process_one W s) (\<lambda>_. returnM (rid s))"

text \<open>The identifiers processed, in order; \<^verbatim>\<open>as_of\<close> defaults to the clock.\<close>

definition run_once :: "'w expiry_worker \<Rightarrow> instant option \<Rightarrow> ('w, int list) app" where
  "run_once W as_of =
     bindM (on_db (getM (list_expired (case as_of of None \<Rightarrow> de_now (ew_env W) | Some t \<Rightarrow> t)))) 
       (mapM (sweep_one W))"

text \<open>The entry point: one session, committed only when the whole sweep has returned.\<close>

definition run_worker :: "'w expiry_worker \<Rightarrow> ('w, nat) app" where
  "run_worker W = with_session (bindM (run_once W None) (\<lambda>ids. returnM (length ids)))"


section \<open>Lemmas\<close>

text \<open>The two effects of a sweep on the database.\<close>

definition expire_ids :: "int set \<Rightarrow> subscription table \<Rightarrow> subscription table" where
  "expire_ids I t = repo_update_where (\<lambda>s. rid s \<in> I) (\<lambda>s. s\<lparr>sub_status := SubExpired\<rparr>) t"

definition disable_ids :: "int set \<Rightarrow> device table \<Rightarrow> device table" where
  "disable_ids I t = repo_update_where (\<lambda>v. rid v \<in> I) (\<lambda>v. v\<lparr>dev_status := DevDisabled\<rparr>) t"

definition disable_users :: "int set \<Rightarrow> device table \<Rightarrow> device table" where
  "disable_users U t = repo_update_where (\<lambda>v. dev_user_id v \<in> U \<and> dev_status v = DevActive)
     (\<lambda>v. v\<lparr>dev_status := DevDisabled\<rparr>) t"

lemma expire_ids_update:
  "repo_update i (\<lambda>s. s\<lparr>sub_status := SubExpired\<rparr>) (expire_ids I t) = expire_ids (insert i I) t"
  by (simp add: expire_ids_def repo_update_def repo_update_where_def)

lemma disable_ids_update:
  "repo_update i (\<lambda>v. v\<lparr>dev_status := DevDisabled\<rparr>) (disable_ids I t) = disable_ids (insert i I) t"
  by (simp add: disable_ids_def repo_update_def repo_update_where_def)

lemma effects_empty [simp]: "expire_ids {} t = t" "disable_ids {} t2 = t2" "disable_users {} t2 = t2"
  by (simp_all add: expire_ids_def disable_ids_def disable_users_def repo_update_where_def)

lemma disable_users_union: "disable_users U (disable_users U2 t) = disable_users (U \<union> U2) t"
  by (simp add: disable_users_def repo_update_where_def)

lemma wf_disable_users: "wf_table t \<Longrightarrow> wf_table (disable_users U t)"
  unfolding disable_users_def by (rule wf_update_where) simp_all

lemma keeps_device_part [frame]:
  assumes "\<And>t d. F (d\<lparr>vless_credentials := t\<rparr>) = F d"
  shows "keeps (\<lambda>w. F (db w)) (if dev_protocol v = VLESS then disable_credentials E v
            else call_active_peer v (vp_disable_peer (de_wg E)))"
proof -
  have "keeps (\<lambda>w. F (db w)) (disable_credential E c)" for c
    unfolding disable_credential_def remove_credential_from_xray_def by (intro frame) (rule assms)
  then show ?thesis
    unfolding disable_credentials_def call_active_peer_def whenSome_def by (intro frame)
qed

lemma disable_device_Inr:
  assumes "disable_device E v w = (Inr v', w')"
  shows "devices (db w') = repo_update (rid v) (\<lambda>r. r\<lparr>dev_status := DevDisabled\<rparr>) (devices (db w))"
proof -
  obtain w1 where 1: "(if dev_protocol v = VLESS then disable_credentials E v
            else call_active_peer v (vp_disable_peer (de_wg E))) w = (Inr (), w1)"
    and w': "w' = w1\<lparr>db := (db w1)\<lparr>devices := repo_update (rid v) (\<lambda>r. r\<lparr>dev_status := DevDisabled\<rparr>) (devices (db w1))\<rparr>\<rparr>"
    using assms unfolding disable_device_def bindM_eq_Inr_iff set_status_run by auto
  have "devices (db w1) = devices (db w)"
    using keepsD [OF keeps_device_part 1, of devices] by simp
  then show ?thesis by (simp add: w')
qed

lemma keeps_disable_all [frame]:
  assumes "\<And>t d. F (d\<lparr>vless_credentials := t\<rparr>) = F d" and "\<And>t d. F (d\<lparr>devices := t\<rparr>) = F d"
  shows "keeps (\<lambda>w. F (db w)) (disable_all_for_user E uid)"
  unfolding disable_all_for_user_def disable_device_def set_device_status_def
  by (intro frame) (rule assms)+

lemma disable_all_loop:
  assumes "foreachM vs (\<lambda>v. if dev_status v = DevActive then bindM (disable_device E v) (\<lambda>_. returnM ())
        else returnM ()) w = (Inr (), w')"
    and "devices (db w) = disable_ids I t"
  shows "devices (db w') = disable_ids (I \<union> rid ` {v \<in> set vs. dev_status v = DevActive}) t"
  using assms
proof (induction vs arbitrary: w I)
  case (Cons v vs)
  show ?case
  proof (cases "dev_status v = DevActive")
    case True
    then obtain v' w1 where 1: "disable_device E v w = (Inr v', w1)"
      and more: "foreachM vs (\<lambda>v. if dev_status v = DevActive then bindM (disable_device E v) (\<lambda>_. returnM ())
        else returnM ()) w1 = (Inr (), w')"
      using Cons.prems(1) by (auto simp: bindM_eq_Inr_iff)
    have "devices (db w1) = disable_ids (insert (rid v) I) t"
      using disable_device_Inr [OF 1] Cons.prems(2) by (simp add: disable_ids_update)
    moreover have "{x \<in> set (v # vs). dev_status x = DevActive} = insert v {x \<in> set vs. dev_status x = DevActive}"
      using True by auto
    ultimately show ?thesis using Cons.IH [OF more] by simp
  next
    case False
    then have more: "foreachM vs (\<lambda>v. if dev_status v = DevActive then bindM (disable_device E v) (\<lambda>_. returnM ())
        else returnM ()) w = (Inr (), w')"
      using Cons.prems(1) by simp
    have "{x \<in> set (v # vs). dev_status x = DevActive} = {x \<in> set vs. dev_status x = DevActive}" using False by auto
    with Cons.IH [OF more Cons.prems(2)] show ?thesis by simp
  qed
qed simp

lemma disable_all_devices:
  assumes "disable_all_for_user E uid w = (Inr (), w')" and "wf_table (devices (db w))"
  shows "devices (db w') = disable_users {uid} (devices (db w))"
proof -
  let ?J = "rid ` {v \<in> set (list_devices_for_user uid (db w)). dev_status v = DevActive}"
  have "foreachM (list_devices_for_user uid (db w)) (\<lambda>v. if dev_status v = DevActive then bindM (disable_device E v) (\<lambda>_. returnM ())
        else returnM ()) w = (Inr (), w')"
    using assms(1) by (auto simp: disable_all_for_user_def bindM_eq_Inr_iff on_db_iff)
  from disable_all_loop [OF this, of "{}"] have 1: "devices (db w') = disable_ids ?J (devices (db w))" by simp
  have "rid r \<in> ?J \<longleftrightarrow> dev_user_id r \<in> {uid} \<and> dev_status r = DevActive" if "r \<in> set (rows (devices (db w)))" for r
  proof
    assume "rid r \<in> ?J"
    then obtain v where v: "v \<in> set (rows (devices (db w)))" "dev_user_id v = uid" "dev_status v = DevActive" "rid v = rid r"
      by (auto simp: list_devices_for_user_def)
    have "r = v"
      using repo_get_wf [OF assms(2) v(1)] repo_get_wf [OF assms(2) that] unfolding v(4) by simp
    with v show "dev_user_id r \<in> {uid} \<and> dev_status r = DevActive" by simp
  next
    assume "dev_user_id r \<in> {uid} \<and> dev_status r = DevActive"
    with that show "rid r \<in> ?J" by (auto simp: list_devices_for_user_def)
  qed
  then show ?thesis
    unfolding 1 disable_ids_def disable_users_def repo_update_where_def by (auto intro!: map_cong)
qed

lemma plan_of_keeps [frame]: "keeps F (plan_of s)"
  unfolding plan_of_def by (intro frame)

lemma expiry_log_Inr:
  "expiry_log now s p d = (Inr l, d') \<Longrightarrow>
     d' = d\<lparr>audit_logs := (audit_logs d)\<lparr>rows := rows (audit_logs d) @ [l], next_id := next_id (audit_logs d) + 1\<rparr>\<rparr>"
  by (auto simp: expiry_log_def audit_record_def on_audit_logs_def zoomM_def repo_add_def Let_def split: if_splits)

lemma process_one_Inr:
  assumes "process_one W s w = (Inr (), w')" and "wf_table (devices (db w))"
  shows "subscriptions (db w') = repo_update (rid s) (\<lambda>r. r\<lparr>sub_status := SubExpired\<rparr>) (subscriptions (db w)) \<and>
    devices (db w') = disable_users {sub_user_id s} (devices (db w)) \<and>
    length (rows (audit_logs (db w'))) = length (rows (audit_logs (db w))) + 1"
proof -
  let ?d = "(db w)\<lparr>subscriptions := repo_update (rid s) (\<lambda>r. r\<lparr>sub_status := SubExpired\<rparr>) (subscriptions (db w))\<rparr>"
  obtain p u w2 l d3 n where plan: "plan_of s (db w) = (Inr p, db w)"
    and dis: "disable_all_for_user (ew_env W) (sub_user_id s) (w\<lparr>db := ?d\<rparr>) = (Inr (), w2)"
    and log: "expiry_log (de_now (ew_env W)) s p (db w2) = (Inr l, d3)"
    and w': "w' = w2\<lparr>db := d3, remote := n\<rparr>"
    using assms(1) unfolding process_one_def
    by (simp only: success_iffs on_db_read [OF plan_of_keeps])
      (auto simp: success_iffs on_db_iff on_remote_iff expire_subscription_def update_subscription_def on_subscriptions_def Let_def)
  have "devices (db w2) = disable_users {sub_user_id s} (devices (db w))"
    using disable_all_devices [OF dis] assms(2) by simp
  moreover have "subscriptions (db w2) = subscriptions ?d"
    using keepsD [OF keeps_disable_all dis, of subscriptions] by simp
  moreover have "audit_logs (db w2) = audit_logs (db w)"
    using keepsD [OF keeps_disable_all dis, of audit_logs] by simp
  ultimately show ?thesis
    using expiry_log_Inr [OF log] by (simp add: w')
qed

lemma sweep_one_iff:
  "sweep_one W s w = (Inr i, w') \<longleftrightarrow> process_one W s w = (Inr (), w') \<and> i = rid s"
  "sweep_one W s w = (Inl e, w') \<longleftrightarrow> process_one W s w = (Inl e, w')"
  by (auto simp: sweep_one_def bindM_eq_Inr_iff bindM_eq_Inl_iff)

lemma sweep_loop:
  assumes "mapM (sweep_one W) ss w = (Inr ids, w')"
    and "wf_table (devices (db w))" and "subscriptions (db w) = expire_ids I t"
  shows "ids = map rid ss \<and> subscriptions (db w') = expire_ids (I \<union> rid ` set ss) t \<and>
    devices (db w') = disable_users (sub_user_id ` set ss) (devices (db w)) \<and>
    length (rows (audit_logs (db w'))) = length (rows (audit_logs (db w))) + length ss"
  using assms
proof (induction ss arbitrary: w I ids)
  case (Cons s ss)
  then obtain w1 js where 1: "process_one W s w = (Inr (), w1)"
    and more: "mapM (sweep_one W) ss w1 = (Inr js, w')"
    and ids: "ids = rid s # js"
    by (auto simp: bindM_eq_Inr_iff sweep_one_iff)
  note p = process_one_Inr [OF 1 Cons.prems(2)]
  have wf: "wf_table (devices (db w1))" using p Cons.prems(2) by (simp add: wf_disable_users)
  have "subscriptions (db w1) = expire_ids (insert (rid s) I) t"
    using p Cons.prems(3) by (simp add: expire_ids_update)
  from Cons.IH [OF more wf this] p ids show ?case
    by (simp add: disable_users_union)
qed simp

lemma run_once_Inr:
  assumes "run_once W (Some t) w = (Inr ids, w')" and "wf_table (devices (db w))"
  shows "ids = map rid (list_expired t (db w)) \<and>
    subscriptions (db w') = expire_ids (rid ` set (list_expired t (db w))) (subscriptions (db w)) \<and>
    devices (db w') = disable_users (sub_user_id ` set (list_expired t (db w))) (devices (db w)) \<and>
    length (rows (audit_logs (db w'))) = length (rows (audit_logs (db w))) + length ids"
proof -
  have "mapM (sweep_one W) (list_expired t (db w)) w = (Inr ids, w')"
    using assms(1) by (auto simp: run_once_def bindM_eq_Inr_iff on_db_iff)
  from sweep_loop [OF this assms(2), of "{}"] show ?thesis by simp
qed

text \<open>A step that always fails makes the loop fail.\<close>

lemma foreach_fails:
  "x \<in> set xs \<Longrightarrow> (\<And>w. \<exists>e w'. f x w = (Inl e, w')) \<Longrightarrow> \<exists>e w'. foreachM xs f w = (Inl e, w')"
proof (induction xs arbitrary: w)
  case (Cons y ys)
  obtain r w1 where y: "f y w = (r, w1)" by (cases "f y w")
  show ?case
  proof (cases r)
    case (Inr u)
    then have "y \<noteq> x" using Cons.prems(2) [of w] y by auto
    with Cons.prems(1) have "x \<in> set ys" by simp
    from Cons.IH [OF this Cons.prems(2), of w1] y Inr show ?thesis by (auto simp: bindM_def)
  qed (use y in \<open>auto simp: bindM_def\<close>)
qed simp

text \<open>A device its service cannot disable: active, without a server.\<close>

definition stuck_device :: "device \<Rightarrow> bool" where
  "stuck_device v \<longleftrightarrow> dev_status v = DevActive \<and> dev_protocol v = WIREGUARD \<and> dev_server_id v = None"

lemma disable_all_stuck:
  assumes "v \<in> set (rows (devices (db w)))" and "stuck_device v" and "dev_user_id v = uid"
  shows "\<exists>e w'. disable_all_for_user E uid w = (Inl e, w')"
proof -
  let ?f = "\<lambda>v. if dev_status v = DevActive then bindM (disable_device E v) (\<lambda>_. returnM ()) else returnM ()"
  have "v \<in> set (list_devices_for_user uid (db w))"
    using assms by (simp add: list_devices_for_user_def stuck_device_def)
  moreover have "?f v w2 = (Inl not_provisioned, w2)" for w2
    using assms(2) by (simp add: stuck_device_def disable_device_def call_active_peer_def)
  ultimately have "\<exists>e w'. foreachM (list_devices_for_user uid (db w)) ?f w = (Inl e, w')"
    by (intro foreach_fails [where x = v]) auto
  then show ?thesis by (auto simp: disable_all_for_user_def bindM_def on_db_def zoomM_def)
qed

lemma process_one_stuck:
  assumes "v \<in> set (rows (devices (db w)))" and "stuck_device v" and "dev_user_id v = sub_user_id s"
  shows "\<exists>e w'. process_one W s w = (Inl e, w')"
proof (rule ccontr)
  assume "\<nexists>e w'. process_one W s w = (Inl e, w')"
  then obtain w' where ok: "process_one W s w = (Inr (), w')" by (cases "process_one W s w"; cases "fst (process_one W s w)") auto
  let ?d = "(db w)\<lparr>subscriptions := repo_update (rid s) (\<lambda>r. r\<lparr>sub_status := SubExpired\<rparr>) (subscriptions (db w))\<rparr>"
  have "v \<in> set (rows (devices (db (w\<lparr>db := ?d\<rparr>))))" using assms(1) by simp
  from disable_all_stuck [OF this assms(2,3), of "ew_env W"] obtain e w2 where
    "disable_all_for_user (ew_env W) (sub_user_id s) (w\<lparr>db := ?d\<rparr>) = (Inl e, w2)" by blast
  with ok show False
    unfolding process_one_def
    by (simp only: success_iffs on_db_read [OF plan_of_keeps])
      (auto simp: success_iffs on_db_iff expire_subscription_def update_subscription_def on_subscriptions_def Let_def)
qed

lemma sweep_stuck:
  assumes "v \<in> set (rows (devices (db w)))" and "stuck_device v" and "s \<in> set ss" and "dev_user_id v = sub_user_id s"
    and "wf_table (devices (db w))"
  shows "\<exists>e w'. mapM (sweep_one W) ss w = (Inl e, w')"
  using assms(1,3,5)
proof (induction ss arbitrary: w)
  case (Cons s2 ss)
  obtain r w1 where r: "process_one W s2 w = (r, w1)" by (cases "process_one W s2 w")
  show ?case
  proof (cases r)
    case (Inr u)
    then have ok: "process_one W s2 w = (Inr (), w1)" using r by simp
    have other: "sub_user_id s2 \<noteq> dev_user_id v"
      using process_one_stuck [OF Cons.prems(1) assms(2), of s2 W] ok by auto
    with assms(4) Cons.prems(2) have "s \<in> set ss" by auto
    moreover have dev: "devices (db w1) = disable_users {sub_user_id s2} (devices (db w))"
      using process_one_Inr [OF ok Cons.prems(3)] by simp
    moreover have "v \<in> set (rows (devices (db w1)))"
      unfolding dev using Cons.prems(1) other by (force simp: disable_users_def rows_update_where)
    ultimately have "\<exists>e w'. mapM (sweep_one W) ss w1 = (Inl e, w')"
      by (intro Cons.IH) (simp_all add: Cons.prems(3) wf_disable_users)
    then show ?thesis using ok by (auto simp: bindM_eq_Inl_iff sweep_one_iff)
  qed (use r in \<open>auto simp: bindM_eq_Inl_iff sweep_one_iff\<close>)
qed simp

lemma latest_expiry_None: "latest_expiry ss = None \<longleftrightarrow> ss = []"
proof (cases "find (\<lambda>s. expires_at s = None) ss")
  case None
  then show ?thesis by (simp add: latest_expiry_def)
next
  case (Some s)
  then have "ss \<noteq> []" by (cases ss) auto
  with Some show ?thesis by (simp add: latest_expiry_def)
qed

section \<open>Properties\<close>

text \<open>C7: A sweep that returns has done its whole work: the identifiers it reports are those of the active
  subscriptions past their expiry, exactly these are now expired, none is left to expire, exactly
  the active devices of their owners are disabled and no other device changed, and one audit entry
  was written for each.\<close>

theorem expiry_sweep_complete:
  assumes "run_once W (Some t) w = (Inr ids, w')" and "wf_table (devices (db w))" and "wf_table (subscriptions (db w))"
  shows "ids = map rid (list_expired t (db w)) \<and> list_expired t (db w') = [] \<and>
    (\<forall>s \<in> set (rows (subscriptions (db w))). repo_get (rid s) (subscriptions (db w')) =
       Some (if s \<in> set (list_expired t (db w)) then s\<lparr>sub_status := SubExpired\<rparr> else s)) \<and>
    (\<forall>v \<in> set (rows (devices (db w))). repo_get (rid v) (devices (db w')) =
       Some (if dev_status v = DevActive \<and> dev_user_id v \<in> sub_user_id ` set (list_expired t (db w))
             then v\<lparr>dev_status := DevDisabled\<rparr> else v)) \<and>
    length (rows (audit_logs (db w'))) = length (rows (audit_logs (db w))) + length ids"
proof -
  let ?L = "list_expired t (db w)"
  note run = run_once_Inr [OF assms(1,2)]
  have iff: "rid s \<in> rid ` set ?L \<longleftrightarrow> s \<in> set ?L" if "s \<in> set (rows (subscriptions (db w)))" for s
  proof
    assume "rid s \<in> rid ` set ?L"
    then obtain r where r: "r \<in> set ?L" "rid r = rid s" by auto
    then have "r \<in> set (rows (subscriptions (db w)))" by (simp add: list_expired_def)
    from repo_get_wf [OF assms(3) this] repo_get_wf [OF assms(3) that] have "r = s" unfolding r(2) by simp
    with r(1) show "s \<in> set ?L" by simp
  qed simp
  have subs: "rows (subscriptions (db w')) =
      map (\<lambda>s. if s \<in> set ?L then s\<lparr>sub_status := SubExpired\<rparr> else s) (rows (subscriptions (db w)))"
    using run iff by (auto simp: expire_ids_def rows_update_where intro!: map_cong)
  then have none: "list_expired t (db w') = []"
    by (auto simp: list_expired_def filter_empty_conv)
  have "repo_get (rid s) (subscriptions (db w')) = Some (if s \<in> set ?L then s\<lparr>sub_status := SubExpired\<rparr> else s)"
    if "s \<in> set (rows (subscriptions (db w)))" for s
    using run iff [OF that] repo_get_wf [OF assms(3) that] by (simp add: expire_ids_def get_update_where)
  moreover have "repo_get (rid v) (devices (db w')) =
       Some (if dev_status v = DevActive \<and> dev_user_id v \<in> sub_user_id ` set ?L
             then v\<lparr>dev_status := DevDisabled\<rparr> else v)"
    if "v \<in> set (rows (devices (db w)))" for v
    using run repo_get_wf [OF assms(2) that] by (auto simp: disable_users_def get_update_where)
  ultimately show ?thesis using run none by auto
qed

text \<open>The sweep also cuts off paying users: an owner of an expired subscription who holds another one,
  active and running on, still has an active subscription afterwards, but no active device.\<close>

theorem expiry_cuts_off_paying_user:
  assumes "run_once W (Some t) w = (Inr ids, w')" and "wf_table (devices (db w))" and "wf_table (subscriptions (db w))"
    and "s \<in> set (list_expired t (db w))"
    and "s2 \<in> set (rows (subscriptions (db w)))" and "sub_status s2 = SubActive" and "expires_at s2 = Some e2" and "t < e2"
    and "sub_user_id s2 = sub_user_id s"
  shows "get_active_for_user (sub_user_id s) (db w') \<noteq> None \<and>
    filter (\<lambda>v. dev_user_id v = sub_user_id s \<and> dev_status v = DevActive) (rows (devices (db w'))) = []"
proof -
  let ?L = "list_expired t (db w)"
  note run = run_once_Inr [OF assms(1,2)]
  have "s2 \<notin> set ?L" using assms(7,8) by (simp add: list_expired_def)
  have "rid s2 \<notin> rid ` set ?L"
  proof
    assume "rid s2 \<in> rid ` set ?L"
    then obtain r where r: "r \<in> set ?L" "rid r = rid s2" by auto
    then have "r \<in> set (rows (subscriptions (db w)))" by (simp add: list_expired_def)
    from repo_get_wf [OF assms(3) this] repo_get_wf [OF assms(3,5)] have "r = s2" unfolding r(2) by simp
    with r(1) \<open>s2 \<notin> set ?L\<close> show False by simp
  qed
  then have "s2 \<in> set (rows (subscriptions (db w')))"
    using run assms(5) by (force simp: expire_ids_def rows_update_where)
  then have "filter (\<lambda>x. sub_user_id x = sub_user_id s \<and> sub_status x = SubActive) (rows (subscriptions (db w'))) \<noteq> []"
    using assms(6,9) by (auto simp: filter_empty_conv)
  then have "get_active_for_user (sub_user_id s) (db w') \<noteq> None"
    by (simp add: get_active_for_user_def latest_expiry_None del: not_None_eq)
  moreover have "filter (\<lambda>v. dev_user_id v = sub_user_id s \<and> dev_status v = DevActive) (rows (devices (db w'))) = []"
    using run assms(4) by (auto simp: disable_users_def rows_update_where filter_empty_conv)
  ultimately show ?thesis by simp
qed

text \<open>One device stops the sweep for everybody: if an owner of an expired subscription has an active
  WireGuard device without a server (the deletion of a server leaves such devices behind), every run
  fails, the transaction is dropped, and no subscription expires and no device is disabled.\<close>

theorem one_device_blocks_sweep:
  assumes "v \<in> set (rows (devices (db w)))" and "stuck_device v"
    and "s \<in> set (list_expired (de_now (ew_env W)) (db w))" and "dev_user_id v = sub_user_id s"
    and "wf_table (devices (db w))"
  shows "\<exists>e w'. run_worker W w = (Inl e, w') \<and> db w' = db w"
proof -
  obtain e w1 where "mapM (sweep_one W) (list_expired (de_now (ew_env W)) (db w)) w = (Inl e, w1)"
    using sweep_stuck [OF assms(1-5), of W] by blast
  then have "bindM (run_once W None) (\<lambda>ids. returnM (length ids)) w = (Inl e, w1)"
    by (auto simp: run_once_def bindM_def on_db_def zoomM_def)
  then show ?thesis by (auto simp: run_worker_def with_session_def)
qed

section \<open>Example\<close>

definition demo_worker :: "string list expiry_worker" where
  "demo_worker = \<lparr>ew_env = demo_env\<lparr>de_now := 1500\<rparr>, ew_notify = (\<lambda>i m w. (Inr (), m # w)),
     ew_message = (\<lambda>p. ''expired: '' @ p)\<rparr>"

text \<open>The user of the demonstration world with a second subscription, running until 5000.\<close>

definition demo_renewed :: subscription where
  "demo_renewed = \<lparr>rid = 2, created_at = 0, sub_user_id = 1, sub_plan_id = 1, sub_status = SubActive,
     started_at = Some 900, expires_at = Some 5000, auto_renew = False, device_limit_override = None\<rparr>"

definition demo_old :: subscription where
  "demo_old = \<lparr>rid = 1, created_at = 0, sub_user_id = 1, sub_plan_id = 1, sub_status = SubActive,
        started_at = Some 0, expires_at = Some 1000, auto_renew = False, device_limit_override = None\<rparr>"

definition demo_expiry_world :: "string list world" where
  "demo_expiry_world = \<lparr>db = demo_user_db\<lparr>users := tbl [demo_user],
     subscriptions := tbl [demo_old, demo_renewed]\<rparr>, remote = []\<rparr>"

lemma demo_sweep_runs:
  "case run_once demo_worker (Some 1500) demo_expiry_world of (Inr ids, w') \<Rightarrow> ids = [1] | _ \<Rightarrow> False"
  by code_simp

lemma demo_expiry_wf: "wf_table (devices (db demo_expiry_world))" "wf_table (subscriptions (db demo_expiry_world))"
  by code_simp+

lemma demo_old_expired: "demo_old \<in> set (list_expired 1500 (db demo_expiry_world))"
  by (simp add: list_expired_def demo_expiry_world_def tbl_def demo_old_def demo_renewed_def)

lemma expiry_sweep_complete_witness:
  "case run_once demo_worker (Some 1500) demo_expiry_world of
     (Inr ids, w') \<Rightarrow> ids = [1] \<and> list_expired 1500 (db w') = [] \<and> length (rows (audit_logs (db w'))) = 1
   | _ \<Rightarrow> False"
proof -
  obtain w' where run: "run_once demo_worker (Some 1500) demo_expiry_world = (Inr [1], w')"
    using demo_sweep_runs by (auto split: prod.splits sum.splits)
  have "rows (audit_logs (db demo_expiry_world)) = []" by code_simp
  with expiry_sweep_complete [OF run demo_expiry_wf] show ?thesis by (simp add: run)
qed

lemma expiry_cuts_off_paying_user_witness:
  "case run_once demo_worker (Some 1500) demo_expiry_world of
     (Inr ids, w') \<Rightarrow> get_active_for_user 1 (db w') \<noteq> None \<and>
       filter (\<lambda>v. dev_user_id v = 1 \<and> dev_status v = DevActive) (rows (devices (db w'))) = []
   | _ \<Rightarrow> False"
proof -
  obtain w' where run: "run_once demo_worker (Some 1500) demo_expiry_world = (Inr [1], w')"
    using demo_sweep_runs by (auto split: prod.splits sum.splits)
  have 2: "demo_renewed \<in> set (rows (subscriptions (db demo_expiry_world)))" "sub_status demo_renewed = SubActive"
    "expires_at demo_renewed = Some 5000" "(1500::int) < 5000" "sub_user_id demo_renewed = sub_user_id demo_old"
    "sub_user_id demo_old = 1"
    by (simp_all add: demo_expiry_world_def tbl_def demo_old_def demo_renewed_def)
  from expiry_cuts_off_paying_user [OF run demo_expiry_wf demo_old_expired 2(1-5)] show ?thesis
    by (simp add: run 2(6))
qed

lemma one_device_blocks_sweep_witness:
  "case run_worker demo_worker (demo_expiry_world\<lparr>db := (db demo_expiry_world)\<lparr>devices :=
       tbl [(demo_device 1 1 WIREGUARD)\<lparr>dev_server_id := None\<rparr>]\<rparr>\<rparr>) of
     (Inl e, w') \<Rightarrow> list_expired 1500 (db w') = [demo_old] | _ \<Rightarrow> False"
proof -
  let ?v = "(demo_device 1 1 WIREGUARD)\<lparr>dev_server_id := None\<rparr>"
  let ?w = "demo_expiry_world\<lparr>db := (db demo_expiry_world)\<lparr>devices := tbl [?v]\<rparr>\<rparr>"
  have v: "?v \<in> set (rows (devices (db ?w)))" "stuck_device ?v" "wf_table (devices (db ?w))"
    "dev_user_id ?v = sub_user_id demo_old"
    by (simp_all add: tbl_def stuck_device_def demo_device_def wf_table_def demo_old_def)
  have l: "list_expired 1500 (db ?w) = [demo_old]"
    by (simp add: list_expired_def demo_expiry_world_def tbl_def demo_old_def demo_renewed_def)
  then have s: "demo_old \<in> set (list_expired (de_now (ew_env demo_worker)) (db ?w))"
    by (simp add: demo_worker_def)
  obtain e w' where "run_worker demo_worker ?w = (Inl e, w')" "db w' = db ?w"
    using one_device_blocks_sweep [OF v(1,2) s v(4,3)] by blast
  then show ?thesis using l by simp
qed

end
