(* ===== verification/VpnAgent.thy ===== *)
theory VpnAgent
  imports Platform IPNet
begin

text \<open>
  The agent on a WireGuard node (\<^verbatim>\<open>vpn/app/\<close>): its durable record of peers
  (\<^verbatim>\<open>state/peer_store.py\<close>), the wrapper around the \<^verbatim>\<open>wg\<close> command (\<^verbatim>\<open>wireguard/interface.py\<close>), the
  reconciler that keeps the two together (\<^verbatim>\<open>wireguard/reconciler.py\<close>) and the signed HTTP interface
  (\<^verbatim>\<open>api/peers.py\<close>). Running a command is a parameter: the operating system is a state \<open>'w\<close> and a
  runner maps an argument vector to exit code, standard output and standard error. The key pair
  a request draws is an argument.
\<close>

section \<open>Stores keyed by one column\<close>

text \<open>
  What a reconciler relies on of its store, for both agents: a record just written is read back
  under its key, a deletion removes exactly that key, and both leave other keys alone. Writing over an
  existing key keeps some of the stored columns, hence \<open>merge\<close>.
\<close>

locale keyed_store =
  fixes look :: "'k \<Rightarrow> 's \<Rightarrow> 'r option"
    and put :: "'r \<Rightarrow> 's \<Rightarrow> 's"
    and del :: "'k \<Rightarrow> 's \<Rightarrow> 's"
    and key :: "'r \<Rightarrow> 'k"
    and merge :: "'r \<Rightarrow> 'r \<Rightarrow> 'r"
  assumes look_key: "look k s = Some r \<Longrightarrow> key r = k"
    and look_put: "look k (put r s) =
        (if k = key r then Some (case look k s of None \<Rightarrow> r | Some old \<Rightarrow> merge old r) else look k s)"
    and look_del: "look k (del j s) = (if k = j then None else look k s)"
begin

lemma del_put: "look k (del (key r) (put r s)) = look k (del (key r) s)"
  by (simp add: look_put look_del)

lemma put_del: "look k (put r (del (key r) s)) = (if k = key r then Some r else look k s)"
  by (simp add: look_put look_del)

lemma del_idem: "look k (del j (del j s)) = look k (del j s)"
  by (simp add: look_del)

lemma put_present: "look (key r) (put r s) \<noteq> None"
  by (simp add: look_put)

end

section \<open>The peer store\<close>

record peer_record =
  pr_public_key :: string
  pr_device_id :: int
  pr_assigned_ip :: string
  pr_enabled :: bool
  pr_created_at :: instant

type_synonym peer_store = "peer_record list"

definition store_get :: "string \<Rightarrow> peer_store \<Rightarrow> peer_record option" where
  "store_get pk st = find (\<lambda>r. pr_public_key r = pk) st"

text \<open>On a conflict the row keeps its creation time.\<close>

definition merge_peer :: "peer_record \<Rightarrow> peer_record \<Rightarrow> peer_record" where
  "merge_peer old new = new\<lparr>pr_created_at := pr_created_at old\<rparr>"

definition store_upsert :: "peer_record \<Rightarrow> peer_store \<Rightarrow> peer_store" where
  "store_upsert new st =
     (if list_ex (\<lambda>r. pr_public_key r = pr_public_key new) st
      then map (\<lambda>r. if pr_public_key r = pr_public_key new then merge_peer r new else r) st
      else st @ [new])"

definition store_set_enabled :: "string \<Rightarrow> bool \<Rightarrow> peer_store \<Rightarrow> peer_store" where
  "store_set_enabled pk b st =
     map (\<lambda>r. if pr_public_key r = pk then r\<lparr>pr_enabled := b\<rparr> else r) st"

definition store_delete :: "string \<Rightarrow> peer_store \<Rightarrow> peer_store" where
  "store_delete pk st = filter (\<lambda>r. pr_public_key r \<noteq> pk) st"

definition store_list_enabled :: "peer_store \<Rightarrow> peer_record list" where
  "store_list_enabled st = filter pr_enabled st"

lemma store_get_map:
  "(\<And>r. pr_public_key (f r) = pr_public_key r) \<Longrightarrow>
     store_get k (map (\<lambda>r. if pr_public_key r = pk then f r else r) st) =
       (if k = pk then map_option f (store_get k st) else store_get k st)"
  by (induction st) (auto simp: store_get_def)

lemma store_get_none: "store_get k st = None \<longleftrightarrow> \<not> list_ex (\<lambda>r. pr_public_key r = k) st"
  by (auto simp: store_get_def find_None_iff list_ex_iff)

lemma store_get_upsert:
  "store_get k (store_upsert new st) =
     (if k = pr_public_key new
      then Some (case store_get k st of None \<Rightarrow> new | Some old \<Rightarrow> merge_peer old new)
      else store_get k st)"
proof (cases "list_ex (\<lambda>r. pr_public_key r = pr_public_key new) st")
  case True
  then obtain old where old: "store_get (pr_public_key new) st = Some old"
    using store_get_none [of "pr_public_key new" st] by auto
  have "store_get k (map (\<lambda>r. if pr_public_key r = pr_public_key new then merge_peer r new else r) st) =
      (if k = pr_public_key new then map_option (\<lambda>r. merge_peer r new) (store_get k st) else store_get k st)"
    unfolding store_get_def by (induction st) (auto simp: merge_peer_def)
  with True old show ?thesis by (simp add: store_upsert_def)
next
  case False
  then have "store_get (pr_public_key new) st = None" by (simp add: store_get_none)
  with False show ?thesis
    by (auto simp: store_upsert_def store_get_def find_append split: option.split)
qed

lemma store_get_delete: "store_get k (store_delete pk st) = (if k = pk then None else store_get k st)"
  by (induction st) (auto simp: store_get_def store_delete_def)

lemma store_get_key: "store_get k st = Some r \<Longrightarrow> pr_public_key r = k \<and> r \<in> set st"
  unfolding store_get_def by (drule find_Some_in) simp

interpretation peer_store: keyed_store store_get store_upsert store_delete pr_public_key merge_peer
  by unfold_locales (auto simp: store_get_upsert store_get_delete dest: store_get_key)

section \<open>The WireGuard interface\<close>

text \<open>What a handler of either agent can raise.\<close>

datatype agent_exn =
    CommandError string
  | HttpError nat string
  | AgentPyError string

type_synonym 'w runner = "string list \<Rightarrow> 'w \<Rightarrow> (int \<times> string \<times> string) \<times> 'w"

definition run_checked :: "'w runner \<Rightarrow> string list \<Rightarrow> ('w, agent_exn, string) comp" where
  "run_checked run args w =
     (case run args w of
        ((exit_code, out, err), w') \<Rightarrow>
          if exit_code \<noteq> 0
          then (Inl (CommandError (''command '' @ hd args @ '' failed (code '' @ int_str exit_code @ ''): '' @ strip err)), w')
          else (Inr out, w'))"

definition add_or_update_peer :: "'w runner \<Rightarrow> string \<Rightarrow> string \<Rightarrow> string list \<Rightarrow> ('w, agent_exn, unit) comp" where
  "add_or_update_peer run iface pk ips =
     bindM (run_checked run [''wg'', ''set'', iface, ''peer'', pk, ''allowed-ips'', join '','' ips])
       (\<lambda>_. returnM ())"

definition remove_live_peer :: "'w runner \<Rightarrow> string \<Rightarrow> string \<Rightarrow> ('w, agent_exn, unit) comp" where
  "remove_live_peer run iface pk =
     bindM (run_checked run [''wg'', ''set'', iface, ''peer'', pk, ''remove'']) (\<lambda>_. returnM ())"

definition save_config :: "'w runner \<Rightarrow> string \<Rightarrow> ('w, agent_exn, unit) comp" where
  "save_config run iface =
     bindM (run_checked run [''wg-quick'', ''save'', iface]) (\<lambda>_. returnM ())"

record peer_stats =
  ps_public_key :: string
  ps_endpoint :: "string option"
  ps_allowed_ips :: "string list"
  ps_latest_handshake :: "instant option"
  ps_rx_bytes :: int
  ps_tx_bytes :: int

text \<open>\<^verbatim>\<open>str.splitlines\<close>: the line boundaries among the code points below 256.\<close>

definition line_break :: "char \<Rightarrow> bool" where
  "line_break c = (let n = of_char c :: nat in (10 \<le> n \<and> n \<le> 13) \<or> (28 \<le> n \<and> n \<le> 30) \<or> n = 133)"

fun splitlines :: "string \<Rightarrow> string list" where
  "splitlines [] = []"
| "splitlines (c # s) =
     (if c = CHR 0x0D \<and> s \<noteq> [] \<and> hd s = CHR 0x0A then [] # splitlines (tl s)
      else if line_break c then [] # splitlines s
      else (case splitlines s of
              [] \<Rightarrow> [[c]]
            | l # ls \<Rightarrow> (c # l) # ls))"

text \<open>
  \<^verbatim>\<open>int(x) if x.isdigit() else 0\<close>: the superscript digits satisfy \<^verbatim>\<open>isdigit\<close> and make \<^verbatim>\<open>int\<close> raise.
\<close>

definition py_isdigit :: "char \<Rightarrow> bool" where
  "py_isdigit c = (is_digit c \<or> of_char c \<in> {178, 179, 185 :: nat})"

definition counter_value :: "string \<Rightarrow> agent_exn + int" where
  "counter_value s =
     (if s \<noteq> [] \<and> list_all py_isdigit s
      then (case parse_nat s of None \<Rightarrow> Inl (AgentPyError ''ValueError'') | Some n \<Rightarrow> Inr (int n))
      else Inr 0)"

text \<open>The last second \<^verbatim>\<open>datetime.fromtimestamp\<close> accepts.\<close>

definition max_timestamp :: int where
  "max_timestamp = 253402300799"

definition handshake_value :: "string \<Rightarrow> agent_exn + instant option" where
  "handshake_value s =
     (let epoch = (case parse_nat s of None \<Rightarrow> 0 | Some n \<Rightarrow> int n) in
      if epoch > max_timestamp then Inl (AgentPyError ''ValueError'')
      else Inr (if epoch > 0 then Some (epoch * 1000000) else None))"

definition parse_peer_line :: "string \<Rightarrow> agent_exn + peer_stats option" where
  "parse_peer_line line =
     (case split_on CHR 0x09 line of
        pk # psk # ep # ips # hs # rx # tx # keepalive # rest \<Rightarrow>
          (case handshake_value hs of
             Inl e \<Rightarrow> Inl e
           | Inr h \<Rightarrow>
               (case counter_value rx of
                  Inl e \<Rightarrow> Inl e
                | Inr r \<Rightarrow>
                    (case counter_value tx of
                       Inl e \<Rightarrow> Inl e
                     | Inr t \<Rightarrow>
                         Inr (Some \<lparr>ps_public_key = pk,
                           ps_endpoint = (if ep = ''(none)'' then None else Some ep),
                           ps_allowed_ips = filter (\<lambda>a. a \<noteq> [] \<and> a \<noteq> ''(none)'') (split_on CHR '','' ips),
                           ps_latest_handshake = h, ps_rx_bytes = r, ps_tx_bytes = t\<rparr>))))
      | _ \<Rightarrow> Inr None)"

fun parse_peer_lines :: "string list \<Rightarrow> agent_exn + peer_stats list" where
  "parse_peer_lines [] = Inr []"
| "parse_peer_lines (l # ls) =
     (case parse_peer_line l of
        Inl e \<Rightarrow> Inl e
      | Inr p \<Rightarrow>
          (case parse_peer_lines ls of
             Inl e \<Rightarrow> Inl e
           | Inr ps \<Rightarrow> Inr (case p of None \<Rightarrow> ps | Some x \<Rightarrow> x # ps)))"

definition parse_wg_dump :: "string \<Rightarrow> agent_exn + peer_stats list" where
  "parse_wg_dump raw =
     parse_peer_lines (drop 1 (filter (\<lambda>l. strip l \<noteq> []) (splitlines (strip raw))))"

definition dump :: "'w runner \<Rightarrow> string \<Rightarrow> ('w, agent_exn, peer_stats list) comp" where
  "dump run iface =
     bindM (run_checked run [''wg'', ''show'', iface, ''dump'']) (\<lambda>out.
       case parse_wg_dump out of Inl e \<Rightarrow> raiseM e | Inr ps \<Rightarrow> returnM ps)"

section \<open>The reconciler\<close>

record 'w vpn_agent =
  store :: peer_store
  os :: 'w

record agent_config =
  wg_interface :: string
  apply_live :: bool

type_synonym ('w, 'a) agentM = "('w vpn_agent, agent_exn, 'a) comp"

definition on_os :: "('w, agent_exn, 'a) comp \<Rightarrow> ('w, 'a) agentM" where
  "on_os = zoomM os (\<lambda>w s. s\<lparr>os := w\<rparr>)"

definition on_store :: "(peer_store \<Rightarrow> peer_store) \<Rightarrow> ('w, unit) agentM" where
  "on_store f = modifyM (\<lambda>s. s\<lparr>store := f (store s)\<rparr>)"

definition add_peer ::
  "'w runner \<Rightarrow> agent_config \<Rightarrow> instant \<Rightarrow> string \<Rightarrow> int \<Rightarrow> string \<Rightarrow> ('w, unit) agentM" where
  "add_peer run cfg now pk did ip =
     bindM (on_store (store_upsert \<lparr>pr_public_key = pk, pr_device_id = did, pr_assigned_ip = ip,
              pr_enabled = True, pr_created_at = now\<rparr>)) (\<lambda>_.
     whenM (apply_live cfg) (on_os (bindM (add_or_update_peer run (wg_interface cfg) pk [ip]) (\<lambda>_.
       save_config run (wg_interface cfg)))))"

definition remove_peer :: "'w runner \<Rightarrow> agent_config \<Rightarrow> string \<Rightarrow> ('w, unit) agentM" where
  "remove_peer run cfg pk =
     bindM (on_store (store_delete pk)) (\<lambda>_.
     whenM (apply_live cfg) (on_os (bindM (remove_live_peer run (wg_interface cfg) pk) (\<lambda>_.
       save_config run (wg_interface cfg)))))"

definition disable_peer :: "'w runner \<Rightarrow> agent_config \<Rightarrow> string \<Rightarrow> ('w, unit) agentM" where
  "disable_peer run cfg pk =
     bindM (on_store (store_set_enabled pk False)) (\<lambda>_.
     whenM (apply_live cfg) (on_os (bindM (remove_live_peer run (wg_interface cfg) pk) (\<lambda>_.
       save_config run (wg_interface cfg)))))"

definition enable_peer :: "'w runner \<Rightarrow> agent_config \<Rightarrow> string \<Rightarrow> ('w, unit) agentM" where
  "enable_peer run cfg pk =
     bindM (getM (\<lambda>s. store_get pk (store s))) (\<lambda>found.
       case found of
         None \<Rightarrow> returnM ()
       | Some r \<Rightarrow>
           bindM (on_store (store_set_enabled pk True)) (\<lambda>_.
           whenM (apply_live cfg) (on_os
             (bindM (add_or_update_peer run (wg_interface cfg) pk [pr_assigned_ip r]) (\<lambda>_.
              save_config run (wg_interface cfg))))))"

text \<open>Known to have no effect on the interface; it only logs.\<close>

definition set_allowed_ips :: "string \<Rightarrow> string list \<Rightarrow> ('w, unit) agentM" where
  "set_allowed_ips pk ips = returnM ()"

definition get_peer_stats :: "'w runner \<Rightarrow> agent_config \<Rightarrow> string \<Rightarrow> ('w, peer_stats option) agentM" where
  "get_peer_stats run cfg pk =
     (if \<not> apply_live cfg then returnM None
      else bindM (on_os (dump run (wg_interface cfg))) (\<lambda>ps.
        returnM (find (\<lambda>p. ps_public_key p = pk) ps)))"

definition reconcile_on_startup :: "'w runner \<Rightarrow> agent_config \<Rightarrow> ('w, unit) agentM" where
  "reconcile_on_startup run cfg =
     whenM (apply_live cfg)
       (bindM (getM (\<lambda>s. store_list_enabled (store s))) (\<lambda>rs.
        on_os (foreachM rs (\<lambda>r.
          add_or_update_peer run (wg_interface cfg) (pr_public_key r) [pr_assigned_ip r]))))"

section \<open>The HTTP interface\<close>

datatype agent_request =
    CreatePeer int string
  | DeletePeer string
  | DisablePeer string
  | EnablePeer string
  | SetAllowedIPs string "string list"
  | PeerStatusOf string

datatype agent_response =
    PeerCreated string string string          \<comment> \<open>public key, private key, address\<close>
  | NoContent
  | PeerStatusBody string string "instant option" int int

definition require_peer :: "string \<Rightarrow> ('w, peer_record) agentM" where
  "require_peer pk =
     bindM (getM (\<lambda>s. store_get pk (store s))) (requireM (HttpError 404 ''Peer not found''))"

text \<open>\<^verbatim>\<open>kp\<close> is the key pair \<^verbatim>\<open>generate_keypair\<close> draws: public and private key.\<close>

fun handle_peers ::
  "'w runner \<Rightarrow> agent_config \<Rightarrow> instant \<Rightarrow> string \<times> string \<Rightarrow> agent_request \<Rightarrow> ('w, agent_response) agentM" where
  "handle_peers run cfg now kp (CreatePeer did ip) =
     bindM (add_peer run cfg now (fst kp) did ip) (\<lambda>_. returnM (PeerCreated (fst kp) (snd kp) ip))"
| "handle_peers run cfg now kp (DeletePeer pk) =
     bindM (remove_peer run cfg pk) (\<lambda>_. returnM NoContent)"
| "handle_peers run cfg now kp (DisablePeer pk) =
     bindM (require_peer pk) (\<lambda>_. bindM (disable_peer run cfg pk) (\<lambda>_. returnM NoContent))"
| "handle_peers run cfg now kp (EnablePeer pk) =
     bindM (require_peer pk) (\<lambda>_. bindM (enable_peer run cfg pk) (\<lambda>_. returnM NoContent))"
| "handle_peers run cfg now kp (SetAllowedIPs pk ips) =
     bindM (require_peer pk) (\<lambda>_. bindM (set_allowed_ips pk ips) (\<lambda>_. returnM NoContent))"
| "handle_peers run cfg now kp (PeerStatusOf pk) =
     bindM (require_peer pk) (\<lambda>r.
       if \<not> pr_enabled r then returnM (PeerStatusBody pk ''disabled'' None 0 0)
       else bindM (get_peer_stats run cfg pk) (\<lambda>stats.
         returnM (case stats of
             None \<Rightarrow> PeerStatusBody pk ''active'' None 0 0
           | Some p \<Rightarrow> PeerStatusBody pk ''active'' (ps_latest_handshake p) (ps_rx_bytes p) (ps_tx_bytes p))))"

text \<open>The router's dependency runs first: an unsigned request never reaches a handler.\<close>

definition signed_peers ::
  "crypto \<Rightarrow> string \<Rightarrow> int \<Rightarrow> 'w runner \<Rightarrow> agent_config \<Rightarrow> instant \<Rightarrow> string \<times> string \<Rightarrow>
     string option \<Rightarrow> string option \<Rightarrow> string \<Rightarrow> agent_request \<Rightarrow> ('w, agent_response) agentM" where
  "signed_peers k secret skew run cfg now kp sg ts body req =
     (case verify_signed_request k secret skew now sg ts body of
        Inl (status, detail) \<Rightarrow> raiseM (HttpError status detail)
      | Inr _ \<Rightarrow> handle_peers run cfg now kp req)"

section \<open>Lemmas on the interface commands\<close>

text \<open>The form in which the backend hands out addresses and \<^verbatim>\<open>wg\<close> prints them.\<close>

definition canonical_ip :: "string \<Rightarrow> bool" where
  "canonical_ip ip \<longleftrightarrow> (\<exists>n < 2 ^ 32. ip = ipv4_str n @ ''/32'')"

text \<open>
  What the \<^verbatim>\<open>wg\<close> and \<^verbatim>\<open>wg-quick\<close> commands document, with \<open>live w k\<close> the addresses of peer \<open>k\<close> on the
  interface in the system state \<open>w\<close>: setting the allowed addresses of a peer adds or replaces that
  peer and takes the address away from nobody who does not hold it; removing removes that peer;
  a set command that fails changes no peer; saving the configuration changes none.
\<close>

type_synonym 'w live = "'w \<Rightarrow> string \<Rightarrow> string list option"

definition wg_documented :: "'w runner \<Rightarrow> 'w live \<Rightarrow> string \<Rightarrow> bool" where
  "wg_documented run live iface \<longleftrightarrow>
     (\<forall>pk ip w out err w'. canonical_ip ip \<longrightarrow>
        run [''wg'', ''set'', iface, ''peer'', pk, ''allowed-ips'', ip] w = ((0, out, err), w') \<longrightarrow>
        live w' pk = Some [ip] \<and>
        (\<forall>k. k \<noteq> pk \<longrightarrow> (\<forall>as. live w k = Some as \<longrightarrow> ip \<notin> set as) \<longrightarrow> live w' k = live w k)) \<and>
     (\<forall>pk w out err w'.
        run [''wg'', ''set'', iface, ''peer'', pk, ''remove''] w = ((0, out, err), w') \<longrightarrow>
        live w' = (live w)(pk := None)) \<and>
     (\<forall>pk w exit_code out err w'.
        run [''wg'', ''set'', iface, ''peer'', pk, ''remove''] w = ((exit_code, out, err), w') \<longrightarrow> exit_code \<noteq> 0 \<longrightarrow>
        live w' = live w) \<and>
     (\<forall>w r w'. run [''wg-quick'', ''save'', iface] w = (r, w') \<longrightarrow> live w' = live w) \<and>
     (\<forall>w r w'. run [''wg'', ''show'', iface, ''dump''] w = (r, w') \<longrightarrow> live w' = live w)"

lemma run_checked_Inr:
  "run_checked run args w = (Inr out, w') \<longleftrightarrow> (\<exists>err. run args w = ((0, out, err), w'))"
  by (auto simp: run_checked_def split: prod.splits if_splits)

lemma set_live:
  assumes "wg_documented run live iface" and "canonical_ip ip"
    and "add_or_update_peer run iface pk [ip] w = (Inr u, w')"
    and "\<forall>k as. k \<noteq> pk \<longrightarrow> live w k = Some as \<longrightarrow> ip \<notin> set as"
  shows "live w' = (live w)(pk := Some [ip])"
proof -
  obtain out err where "run [''wg'', ''set'', iface, ''peer'', pk, ''allowed-ips'', ip] w = ((0, out, err), w')"
    using assms(3) by (auto simp: add_or_update_peer_def bindM_eq_Inr_iff run_checked_Inr)
  with assms(1,2) have *: "live w' pk = Some [ip] \<and>
      (\<forall>k. k \<noteq> pk \<longrightarrow> (\<forall>as. live w k = Some as \<longrightarrow> ip \<notin> set as) \<longrightarrow> live w' k = live w k)"
    unfolding wg_documented_def by (elim conjE) (drule spec, drule spec, drule spec, drule spec, drule spec, drule spec, drule (1) mp, drule (1) mp, assumption)
  then have "live w' k = live w k" if "k \<noteq> pk" for k
    using that assms(4) by blast
  with * show ?thesis by auto
qed

lemma remove_live:
  assumes "wg_documented run live iface" and "remove_live_peer run iface pk w = (Inr u, w')"
  shows "live w' = (live w)(pk := None)"
proof -
  obtain out err where "run [''wg'', ''set'', iface, ''peer'', pk, ''remove''] w = ((0, out, err), w')"
    using assms(2) by (auto simp: remove_live_peer_def bindM_eq_Inr_iff run_checked_Inr)
  with assms(1) show ?thesis unfolding wg_documented_def by blast
qed

lemma save_live:
  assumes "wg_documented run live iface" and "save_config run iface w = (r, w')"
  shows "live w' = live w"
proof -
  obtain q where "run [''wg-quick'', ''save'', iface] w = (q, w')"
    using assms(2) by (auto simp: save_config_def run_checked_def bindM_def split: prod.splits sum.splits if_splits)
  with assms(1) show ?thesis unfolding wg_documented_def by blast
qed

lemma dump_live:
  assumes "wg_documented run live iface" and "dump run iface w = (r, w')"
  shows "live w' = live w"
proof -
  obtain q where "run [''wg'', ''show'', iface, ''dump''] w = (q, w')"
    using assms(2) by (auto simp: dump_def run_checked_def bindM_def split: prod.splits sum.splits if_splits)
  with assms(1) show ?thesis unfolding wg_documented_def by blast
qed

section \<open>The store and the interface agree\<close>

definition desired :: "peer_store \<Rightarrow> string \<Rightarrow> string list option" where
  "desired st k = (case store_get k st of
       None \<Rightarrow> None | Some r \<Rightarrow> if pr_enabled r then Some [pr_assigned_ip r] else None)"

definition synced :: "'w live \<Rightarrow> 'w vpn_agent \<Rightarrow> bool" where
  "synced live s \<longleftrightarrow> live (os s) = desired (store s)"

definition wf_store :: "peer_store \<Rightarrow> bool" where
  "wf_store st \<longleftrightarrow> distinct (map pr_public_key st) \<and> distinct (map pr_assigned_ip st) \<and>
     (\<forall>r \<in> set st. canonical_ip (pr_assigned_ip r))"

text \<open>No record but the one of the key itself has the address.\<close>

definition ip_free_for :: "string \<Rightarrow> string \<Rightarrow> peer_store \<Rightarrow> bool" where
  "ip_free_for pk ip st \<longleftrightarrow> canonical_ip ip \<and> (\<forall>r \<in> set st. pr_assigned_ip r = ip \<longrightarrow> pr_public_key r = pk)"

lemma desired_holder:
  "desired st k = Some as \<Longrightarrow> \<exists>r \<in> set st. pr_public_key r = k \<and> pr_enabled r \<and> as = [pr_assigned_ip r]"
  by (auto simp: desired_def dest: store_get_key split: option.splits if_splits)

lemma desired_free:
  "ip_free_for pk ip st \<Longrightarrow> \<forall>k as. k \<noteq> pk \<longrightarrow> desired st k = Some as \<longrightarrow> ip \<notin> set as"
  by (fastforce simp: ip_free_for_def dest: desired_holder)

lemma wf_store_ip: "wf_store st \<Longrightarrow> r \<in> set st \<Longrightarrow> ip_free_for (pr_public_key r) (pr_assigned_ip r) st"
  by (auto simp: wf_store_def ip_free_for_def distinct_map dest: inj_onD)

lemma desired_upsert:
  "pr_enabled new \<Longrightarrow> desired (store_upsert new st) = (desired st)(pr_public_key new := Some [pr_assigned_ip new])"
  by (auto simp: desired_def store_get_upsert merge_peer_def fun_eq_iff split: option.split)

lemma desired_delete: "desired (store_delete pk st) = (desired st)(pk := None)"
  by (auto simp: desired_def store_get_delete fun_eq_iff)

lemma store_get_set_enabled:
  "store_get k (store_set_enabled pk b st) =
     (if k = pk then map_option (\<lambda>r. r\<lparr>pr_enabled := b\<rparr>) (store_get k st) else store_get k st)"
  by (simp add: store_set_enabled_def store_get_map)

lemma desired_disable: "desired (store_set_enabled pk False st) = (desired st)(pk := None)"
  by (auto simp: desired_def store_get_set_enabled fun_eq_iff split: option.split)

lemma desired_enable:
  "store_get pk st = Some r \<Longrightarrow> desired (store_set_enabled pk True st) = (desired st)(pk := Some [pr_assigned_ip r])"
  by (auto simp: desired_def store_get_set_enabled fun_eq_iff split: option.split)

lemma wf_store_upsert: "wf_store st \<Longrightarrow> ip_free_for (pr_public_key new) (pr_assigned_ip new) st \<Longrightarrow> wf_store (store_upsert new st)"
proof -
  assume wf: "wf_store st" and free: "ip_free_for (pr_public_key new) (pr_assigned_ip new) st"
  show ?thesis
  proof (cases "list_ex (\<lambda>r. pr_public_key r = pr_public_key new) st")
    case False
    with wf free show ?thesis
      by (auto simp: wf_store_def store_upsert_def ip_free_for_def list_ex_iff)
  next
    case True
    let ?g = "\<lambda>r. if pr_public_key r = pr_public_key new then merge_peer r new else r"
    have k: "map pr_public_key (map ?g st) = map pr_public_key st" by (simp add: merge_peer_def)
    have inj: "inj_on pr_public_key (set st)" "inj_on pr_assigned_ip (set st)" "distinct st"
      using wf by (auto simp: wf_store_def distinct_map)
    have ip: "pr_assigned_ip (?g r) = (if pr_public_key r = pr_public_key new then pr_assigned_ip new else pr_assigned_ip r)" for r
      by (simp add: merge_peer_def)
    have "inj_on (\<lambda>r. pr_assigned_ip (?g r)) (set st)"
      using inj free unfolding inj_on_def ip ip_free_for_def by metis
    then have "distinct (map pr_assigned_ip (map ?g st))"
      using inj(3) by (simp add: distinct_map comp_def)
    moreover have "\<forall>r \<in> set (map ?g st). canonical_ip (pr_assigned_ip r)"
      using wf free by (auto simp: merge_peer_def wf_store_def ip_free_for_def)
    ultimately show ?thesis
      using True wf unfolding wf_store_def store_upsert_def by (simp only: k if_True)
  qed
qed

lemma wf_store_delete: "wf_store st \<Longrightarrow> wf_store (store_delete pk st)"
  by (auto simp: wf_store_def store_delete_def distinct_map_filter)

lemma wf_store_set_enabled: "wf_store st \<Longrightarrow> wf_store (store_set_enabled pk b st)"
  by (auto simp: wf_store_def store_set_enabled_def comp_def if_distrib cong: if_cong)

text \<open>Running on the interface part of the state.\<close>

lemma on_os_Inr: "on_os m s = (Inr x, s') \<longleftrightarrow> (\<exists>w. m (os s) = (Inr x, w) \<and> s' = s\<lparr>os := w\<rparr>)"
  by (simp add: on_os_def zoomM_eq_Inr_iff)

lemma add_peer_synced:
  assumes "wg_documented run live (wg_interface cfg)" and "apply_live cfg"
    and "add_peer run cfg now pk did ip s = (Inr (), s')"
    and "synced live s" and "ip_free_for pk ip (store s)"
  shows "synced live s'"
proof -
  let ?new = "\<lparr>pr_public_key = pk, pr_device_id = did, pr_assigned_ip = ip, pr_enabled = True, pr_created_at = now\<rparr>"
  obtain w1 w2 where 1: "add_or_update_peer run (wg_interface cfg) pk [ip] (os s) = (Inr (), w1)"
    "save_config run (wg_interface cfg) w1 = (Inr (), w2)"
    and s': "s' = \<lparr>store = store_upsert ?new (store s), os = w2\<rparr>"
    using assms(2,3) by (auto simp: add_peer_def on_store_def on_os_Inr bindM_eq_Inr_iff)
  have "\<forall>k as. k \<noteq> pk \<longrightarrow> live (os s) k = Some as \<longrightarrow> ip \<notin> set as"
    using desired_free [OF assms(5)] assms(4) by (simp add: synced_def)
  with assms(1,5) 1(1) have "live w1 = (live (os s))(pk := Some [ip])"
    by (intro set_live) (auto simp: ip_free_for_def)
  then show ?thesis
    using save_live [OF assms(1) 1(2)] assms(4) by (simp add: synced_def s' desired_upsert)
qed

lemma remove_peer_synced:
  assumes "wg_documented run live (wg_interface cfg)" and "apply_live cfg"
    and "remove_peer run cfg pk s = (Inr (), s')" and "synced live s"
  shows "synced live s'"
  using assms remove_live save_live
  by (fastforce simp: remove_peer_def on_store_def on_os_Inr bindM_eq_Inr_iff synced_def desired_delete)

lemma disable_peer_synced:
  assumes "wg_documented run live (wg_interface cfg)" and "apply_live cfg"
    and "disable_peer run cfg pk s = (Inr (), s')" and "synced live s"
  shows "synced live s'"
  using assms remove_live save_live
  by (fastforce simp: disable_peer_def on_store_def on_os_Inr bindM_eq_Inr_iff synced_def desired_disable)
lemma store_get_in: "wf_store st \<Longrightarrow> r \<in> set st \<Longrightarrow> store_get (pr_public_key r) st = Some r"
  by (simp add: wf_store_def store_get_def find_distinct)

lemma enable_peer_synced:
  assumes "wg_documented run live (wg_interface cfg)" and "apply_live cfg"
    and "enable_peer run cfg pk s = (Inr (), s')" and "synced live s" and "wf_store (store s)"
  shows "synced live s'"
proof (cases "store_get pk (store s)")
  case None
  then show ?thesis using assms(3,4) by (simp add: enable_peer_def)
next
  case (Some r)
  obtain w1 w2 where 1: "add_or_update_peer run (wg_interface cfg) pk [pr_assigned_ip r] (os s) = (Inr (), w1)"
    "save_config run (wg_interface cfg) w1 = (Inr (), w2)"
    and s': "s' = \<lparr>store = store_set_enabled pk True (store s), os = w2\<rparr>"
    using assms(2,3) Some by (auto simp: enable_peer_def on_store_def on_os_Inr bindM_eq_Inr_iff)
  have r: "pr_public_key r = pk" "ip_free_for pk (pr_assigned_ip r) (store s)"
    using store_get_key [OF Some] wf_store_ip [OF assms(5)] by auto
  then have "\<forall>k as. k \<noteq> pk \<longrightarrow> live (os s) k = Some as \<longrightarrow> pr_assigned_ip r \<notin> set as"
    using desired_free [OF r(2)] assms(4) by (simp add: synced_def)
  with assms(1) r(2) 1(1) have "live w1 = (live (os s))(pk := Some [pr_assigned_ip r])"
    by (intro set_live) (auto simp: ip_free_for_def)
  then show ?thesis
    using save_live [OF assms(1) 1(2)] assms(4) by (simp add: synced_def s' desired_enable [OF Some])
qed

text \<open>Re-applying records to an interface that holds a part of what the store wants.\<close>

lemma apply_all_live:
  assumes "wg_documented run live iface" and "wf_store st"
    and "foreachM rs (\<lambda>r. add_or_update_peer run iface (pr_public_key r) [pr_assigned_ip r]) w = (Inr (), w')"
    and "set rs \<subseteq> set (store_list_enabled st)"
    and "\<forall>k. live w k = None \<or> live w k = desired st k"
  shows "(\<forall>r \<in> set rs. live w' (pr_public_key r) = desired st (pr_public_key r)) \<and>
    (\<forall>k. live w' k = None \<or> live w' k = desired st k) \<and>
    (\<forall>k. live w k = desired st k \<longrightarrow> live w' k = desired st k)"
  using assms(3-5)
proof (induction rs arbitrary: w)
  case (Cons r rs)
  then obtain w1 where 1: "add_or_update_peer run iface (pr_public_key r) [pr_assigned_ip r] w = (Inr (), w1)"
    and 2: "foreachM rs (\<lambda>r. add_or_update_peer run iface (pr_public_key r) [pr_assigned_ip r]) w1 = (Inr (), w')"
    by (auto simp: bindM_eq_Inr_iff)
  have r: "r \<in> set st" "pr_enabled r" using Cons.prems(2) by (auto simp: store_list_enabled_def)
  then have free: "ip_free_for (pr_public_key r) (pr_assigned_ip r) st" using wf_store_ip [OF assms(2)] by simp
  have "\<forall>k as. k \<noteq> pr_public_key r \<longrightarrow> live w k = Some as \<longrightarrow> pr_assigned_ip r \<notin> set as"
    using Cons.prems(3) desired_free [OF free] by (metis option.distinct(1))
  then have l1: "live w1 = (live w)(pr_public_key r := Some [pr_assigned_ip r])"
    using set_live [OF assms(1) _ 1] free by (simp add: ip_free_for_def)
  moreover have d: "desired st (pr_public_key r) = Some [pr_assigned_ip r]"
    using store_get_in [OF assms(2) r(1)] r(2) by (simp add: desired_def)
  ultimately have part: "\<forall>k. live w1 k = None \<or> live w1 k = desired st k" using Cons.prems(3) by simp
  have "set rs \<subseteq> set (store_list_enabled st)" using Cons.prems(2) by simp
  from Cons.IH [OF 2 this part] l1 d show ?case by auto
qed simp

lemma startup_synced:
  assumes "wg_documented run live (wg_interface cfg)" and "apply_live cfg"
    and "reconcile_on_startup run cfg s = (Inr (), s')" and "wf_store (store s)"
    and "\<forall>k. live (os s) k = None \<or> live (os s) k = desired (store s) k"
  shows "synced live s' \<and> store s' = store s"
proof -
  obtain w where w: "foreachM (store_list_enabled (store s))
      (\<lambda>r. add_or_update_peer run (wg_interface cfg) (pr_public_key r) [pr_assigned_ip r]) (os s) = (Inr (), w)"
    and s': "s' = s\<lparr>os := w\<rparr>"
    using assms(2,3) by (auto simp: reconcile_on_startup_def on_os_Inr)
  note all = apply_all_live [OF assms(1,4) w _ assms(5)]
  have "live w k = desired (store s) k" for k
  proof (cases "desired (store s) k")
    case None
    then show ?thesis using all by (metis order_refl)
  next
    case (Some as)
    then obtain r where "r \<in> set (store_list_enabled (store s))" "pr_public_key r = k"
      using desired_holder by (force simp: store_list_enabled_def)
    then show ?thesis using all by auto
  qed
  then show ?thesis by (simp add: synced_def s' fun_eq_iff)
qed

text \<open>What a successful request does to the stored records.\<close>

lemma handle_peers_store:
  assumes "handle_peers run cfg now kp req s = (Inr resp, s')"
  shows "store s' =
    (case req of
       CreatePeer did ip \<Rightarrow> store_upsert \<lparr>pr_public_key = fst kp, pr_device_id = did, pr_assigned_ip = ip,
              pr_enabled = True, pr_created_at = now\<rparr> (store s)
     | DeletePeer pk \<Rightarrow> store_delete pk (store s)
     | DisablePeer pk \<Rightarrow> store_set_enabled pk False (store s)
     | EnablePeer pk \<Rightarrow> store_set_enabled pk True (store s)
     | _ \<Rightarrow> store s)"
  using assms
  by (cases req) (auto simp: success_iffs add_peer_def remove_peer_def disable_peer_def enable_peer_def
      require_peer_def set_allowed_ips_def get_peer_stats_def on_store_def on_os_Inr split: if_splits option.splits)

definition request_ok :: "string \<times> string \<Rightarrow> agent_request \<Rightarrow> peer_store \<Rightarrow> bool" where
  "request_ok kp req st = (case req of CreatePeer did ip \<Rightarrow> ip_free_for (fst kp) ip st | _ \<Rightarrow> True)"

lemma handle_peers_wf:
  assumes "handle_peers run cfg now kp req s = (Inr resp, s')" and "wf_store (store s)"
    and "request_ok kp req (store s)"
  shows "wf_store (store s')"
  using assms(2,3) unfolding handle_peers_store [OF assms(1)]
  by (cases req) (auto simp: request_ok_def intro: wf_store_upsert wf_store_delete wf_store_set_enabled)

lemma handle_peers_synced:
  assumes "wg_documented run live (wg_interface cfg)" and "apply_live cfg"
    and "handle_peers run cfg now kp req s = (Inr resp, s')"
    and "synced live s" and "wf_store (store s)" and "request_ok kp req (store s)"
  shows "synced live s'"
proof (cases req)
  case (CreatePeer did ip)
  then show ?thesis
    using assms add_peer_synced [OF assms(1,2)] by (auto simp: success_iffs request_ok_def)
next
  case (DeletePeer pk)
  then show ?thesis
    using assms(3,4) remove_peer_synced [OF assms(1,2)] by (auto simp: success_iffs)
next
  case (DisablePeer pk)
  then show ?thesis
    using assms(3,4) disable_peer_synced [OF assms(1,2)] by (auto simp: success_iffs require_peer_def)
next
  case (EnablePeer pk)
  then show ?thesis
    using assms(3-5) enable_peer_synced [OF assms(1,2)] by (auto simp: success_iffs require_peer_def)
next
  case (SetAllowedIPs pk ips)
  then show ?thesis
    using assms(3,4) by (auto simp: success_iffs require_peer_def set_allowed_ips_def)
next
  case (PeerStatusOf pk)
  then show ?thesis
    using assms(3,4) dump_live [OF assms(1)]
    by (auto simp: success_iffs require_peer_def get_peer_stats_def on_os_Inr synced_def split: if_splits)
qed

section \<open>The agent as a state machine\<close>

text \<open>
  A step is a request that is answered successfully, or a restart: the interface may have lost any of
  its peers meanwhile, and start-up re-applies the enabled ones.
\<close>

inductive agent_step :: "'w runner \<Rightarrow> 'w live \<Rightarrow> agent_config \<Rightarrow> 'w vpn_agent \<Rightarrow> 'w vpn_agent \<Rightarrow> bool"
  for run live cfg where
  request: "handle_peers run cfg now kp req s = (Inr resp, s') \<Longrightarrow> request_ok kp req (store s) \<Longrightarrow>
     agent_step run live cfg s s'"
| restart: "\<forall>k. live w k = None \<or> live w k = live (os s) k \<Longrightarrow>
     reconcile_on_startup run cfg (s\<lparr>os := w\<rparr>) = (Inr (), s') \<Longrightarrow> agent_step run live cfg s s'"

section \<open>Properties\<close>


text \<open>A stand-in for the commands, used only by the examples: the system state is the list of live
  peers, and a command that names the key ``stuck'' fails.\<close>

definition demo_wg :: "(string \<times> string list) list runner" where
  "demo_wg args w =
     (case args of
        [wg, show_or_set, iface, what, pk, act, ips] \<Rightarrow> ((0, '''', ''''), (pk, [ips]) # filter (\<lambda>p. fst p \<noteq> pk) w)
      | [wg, show_or_set, iface, what, pk, act] \<Rightarrow>
          if pk = ''stuck'' then ((1, '''', ''device busy''), w)
          else ((0, '''', ''''), filter (\<lambda>p. fst p \<noteq> pk) w)
      | _ \<Rightarrow> ((0, '''', ''''), w))"

lemma demo_wg_documented: "wg_documented demo_wg map_of iface"
proof -
  have "map_of (filter (\<lambda>p. fst p \<noteq> pk) w) = (map_of w)(pk := None)" for pk and w :: "(string \<times> string list) list"
    by (induction w) auto
  then show ?thesis
    by (auto simp: wg_documented_def demo_wg_def split: if_splits)
qed

definition demo_agent_cfg :: agent_config where
  "demo_agent_cfg = \<lparr>wg_interface = ''wg0'', apply_live = True\<rparr>"

lemma canonical_ip_demo: "canonical_ip ''10.0.0.2/32''"
proof -
  have "ipv4_str 167772162 @ ''/32'' = ''10.0.0.2/32''" by code_simp
  then show ?thesis unfolding canonical_ip_def by (intro exI [of _ 167772162]) simp
qed


text \<open>A deletion or disabling whose command fails is never made up for: the record is changed or gone,
  the request is answered with an error, and since start-up only adds peers, the peer is still
  live after the next restart and keeps its access.\<close>

theorem failed_removal_survives_restart:
  assumes "wg_documented run live (wg_interface cfg)" and "apply_live cfg" and "wf_store (store s)" and "synced live s"
    and "live (os s) pk = Some as"
    and "run [''wg'', ''set'', wg_interface cfg, ''peer'', pk, ''remove''] (os s) = ((exit_code, out, err), w)" and "exit_code \<noteq> 0"
    and "req \<in> {DeletePeer pk, DisablePeer pk}"
    and "reconcile_on_startup run cfg (snd (handle_peers run cfg now kp req s)) = (Inr (), s')"
  shows "(\<exists>e. fst (handle_peers run cfg now kp req s) = Inl (CommandError e)) \<and>
    desired (store s') pk = None \<and> live (os s') pk = Some as"
proof -
  obtain r where r: "store_get pk (store s) = Some r"
    using assms(4,5) by (auto simp: synced_def desired_def split: option.splits)
  let ?st = "if req = DeletePeer pk then store_delete pk (store s) else store_set_enabled pk False (store s)"
  have fail: "handle_peers run cfg now kp req s =
      (Inl (CommandError (''command wg failed (code '' @ int_str exit_code @ ''): '' @ strip err)),
       \<lparr>store = ?st, os = w\<rparr>)"
    using assms(2,6-8) r
    by (auto simp: remove_peer_def disable_peer_def require_peer_def on_store_def on_os_def zoomM_def bindM_def
        remove_live_peer_def run_checked_def)
  have w: "live w = live (os s)" using assms(1,6,7) unfolding wg_documented_def by blast
  have st: "desired ?st = (desired (store s))(pk := None)" "wf_store ?st"
    using assms(3) by (auto simp: desired_delete desired_disable wf_store_delete wf_store_set_enabled)
  from assms(9) fail obtain w2 where w2: "foreachM (store_list_enabled ?st)
      (\<lambda>r. add_or_update_peer run (wg_interface cfg) (pr_public_key r) [pr_assigned_ip r]) w = (Inr (), w2)"
    and s': "s' = \<lparr>store = ?st, os = w2\<rparr>"
    using assms(2) by (auto simp: reconcile_on_startup_def on_os_Inr)
  have keep: "foreachM rs (\<lambda>r. add_or_update_peer run (wg_interface cfg) (pr_public_key r) [pr_assigned_ip r]) v = (Inr (), v') \<Longrightarrow>
      set rs \<subseteq> set (store_list_enabled ?st) \<Longrightarrow> live v = desired (store s) \<Longrightarrow> live v' = desired (store s)" for rs v v'
  proof (induction rs arbitrary: v)
    case (Cons x rs)
    then obtain v1 where v1: "add_or_update_peer run (wg_interface cfg) (pr_public_key x) [pr_assigned_ip x] v = (Inr (), v1)"
      "foreachM rs (\<lambda>r. add_or_update_peer run (wg_interface cfg) (pr_public_key r) [pr_assigned_ip r]) v1 = (Inr (), v')"
      by (auto simp: bindM_eq_Inr_iff)
    have x: "x \<in> set (store s)" "pr_enabled x"
      using Cons.prems(2) by (auto simp: store_list_enabled_def store_delete_def store_set_enabled_def split: if_splits)
    have free: "ip_free_for (pr_public_key x) (pr_assigned_ip x) (store s)" by (rule wf_store_ip [OF assms(3) x(1)])
    have "live v1 = (live v)(pr_public_key x := Some [pr_assigned_ip x])"
      using set_live [OF assms(1) _ v1(1)] free desired_free [OF free] Cons.prems(3) by (simp add: ip_free_for_def)
    moreover have "desired (store s) (pr_public_key x) = Some [pr_assigned_ip x]"
      using store_get_in [OF assms(3) x(1)] x(2) by (simp add: desired_def)
    ultimately have "live v1 = desired (store s)" using Cons.prems(3) by (simp add: fun_upd_idem)
    with Cons.IH [OF v1(2)] Cons.prems(2) show ?case by simp
  qed simp
  have "live w2 = desired (store s)"
    using keep [OF w2] w assms(4) by (simp add: synced_def)
  with fail s' st assms(4,5) show ?thesis by (simp add: synced_def)
qed

lemma failed_removal_survives_restart_witness:
  "map_of (os (snd (reconcile_on_startup demo_wg demo_agent_cfg (snd (handle_peers demo_wg demo_agent_cfg 0 (''x'', ''y'') (DeletePeer ''stuck'')
      \<lparr>store = [\<lparr>pr_public_key = ''stuck'', pr_device_id = 4, pr_assigned_ip = ''10.0.0.2/32'', pr_enabled = True, pr_created_at = 0\<rparr>],
       os = [(''stuck'', [''10.0.0.2/32''])]\<rparr>))))) ''stuck'' = Some [''10.0.0.2/32'']"
proof -
  let ?s = "\<lparr>store = [\<lparr>pr_public_key = ''stuck'', pr_device_id = 4, pr_assigned_ip = ''10.0.0.2/32'', pr_enabled = True, pr_created_at = 0\<rparr>],
       os = [(''stuck'', [''10.0.0.2/32''])]\<rparr>"
  let ?s2 = "\<lparr>store = [], os = [(''stuck'', [''10.0.0.2/32''])]\<rparr> :: (string \<times> string list) list vpn_agent"
  have run: "reconcile_on_startup demo_wg demo_agent_cfg (snd (handle_peers demo_wg demo_agent_cfg 0 (''x'', ''y'') (DeletePeer ''stuck'') ?s)) = (Inr (), ?s2)"
    by code_simp
  have wf: "wf_store (store ?s)" "synced map_of ?s" "apply_live demo_agent_cfg"
    by (auto simp: wf_store_def synced_def desired_def store_get_def canonical_ip_demo demo_agent_cfg_def fun_eq_iff)
  have l: "map_of (os ?s) ''stuck'' = Some [''10.0.0.2/32'']" by simp
  have c: "demo_wg [''wg'', ''set'', wg_interface demo_agent_cfg, ''peer'', ''stuck'', ''remove''] (os ?s) =
      ((1, '''', ''device busy''), [(''stuck'', [''10.0.0.2/32''])])"
    by (simp add: demo_wg_def)
  have r: "DeletePeer ''stuck'' \<in> {DeletePeer ''stuck'', DisablePeer ''stuck''}" by simp
  have one: "(1::int) \<noteq> 0" by simp
  show ?thesis
    using failed_removal_survives_restart [OF demo_wg_documented wf(3,1,2) l c one r run] run by simp
qed

text \<open>A request without a valid, fresh signature is answered with 401 and leaves the agent as it was; for an
  accepted one, the store and the interface afterwards do not depend on the private key drawn, and
  only the response that creates the peer carries it.\<close>

theorem private_key_confined:
  "case verify_signed_request k secret skew now sg ts body of
     Inl (status, detail) \<Rightarrow>
       status = 401 \<and> signed_peers k secret skew run cfg now (pub, sk) sg ts body req s = (Inl (HttpError 401 detail), s)
   | Inr _ \<Rightarrow>
       snd (signed_peers k secret skew run cfg now (pub, sk) sg ts body req s) =
         snd (signed_peers k secret skew run cfg now (pub, sk2) sg ts body req s) \<and>
       (fst (signed_peers k secret skew run cfg now (pub, sk) sg ts body req s) =
          fst (signed_peers k secret skew run cfg now (pub, sk2) sg ts body req s) \<or>
        (\<exists>did ip. req = CreatePeer did ip \<and>
           fst (signed_peers k secret skew run cfg now (pub, sk) sg ts body req s) = Inr (PeerCreated pub sk ip)))"
proof (cases "verify_signed_request k secret skew now sg ts body")
  case (Inl e)
  then show ?thesis
    by (auto simp: signed_peers_def verify_signed_request_def split: if_splits option.splits)
next
  case (Inr u)
  then show ?thesis
    by (cases req) (auto simp: signed_peers_def bindM_def split: prod.split sum.split)
qed

end
