(* ===== verification/Nodes.thy ===== *)
theory Nodes
  imports Expiry VpnAgent
begin

text \<open>
  The backend and a WireGuard node together: the HTTP routing of the agent (the decorators of
  \<^verbatim>\<open>vpn/app/api/peers.py\<close>, its schemas and status codes) makes the agent a network for the backend's
  provider (\<^verbatim>\<open>services/vpn/wireguard_provider.py\<close>). The provider's calls are shown to be the agent's
  operations, and the contract the device service relies on is discharged for this pair.
\<close>

section \<open>The agent behind HTTP\<close>

text \<open>
  A node: its agent and the number of key pairs drawn so far; \<open>gen i\<close> is the pair drawn \<open>i\<close>-th.
\<close>

record 'w vpn_node =
  node_agent :: "'w vpn_agent"
  node_drawn :: nat

text \<open>
  What the router makes of a request: no such route (an unknown path or a method the path does not have),
  a body that is not JSON, a body or query the schema refuses, or a call of a handler.
\<close>

datatype route_match = NoRoute | BadJson | BadRequest | Routed agent_request

fun json_strings :: "json list \<Rightarrow> string list option" where
  "json_strings [] = Some []"
| "json_strings (JStr s # js) = map_option (Cons s) (json_strings js)"
| "json_strings _ = None"

definition parse_create :: "json \<Rightarrow> route_match" where
  "parse_create j = (case (jget ''device_id'' j, jget ''assigned_ip'' j) of
       (Some (JInt i), Some (JStr ip)) \<Rightarrow> Routed (CreatePeer i ip) | _ \<Rightarrow> BadRequest)"

definition parse_allowed_ips :: "string \<Rightarrow> json \<Rightarrow> route_match" where
  "parse_allowed_ips pk j = (case jget ''allowed_ips'' j of
       Some (JList js) \<Rightarrow> (case json_strings js of Some ips \<Rightarrow> Routed (SetAllowedIPs pk ips) | None \<Rightarrow> BadRequest)
     | _ \<Rightarrow> BadRequest)"

definition with_key :: "http_request \<Rightarrow> (string \<Rightarrow> route_match) \<Rightarrow> route_match" where
  "with_key req f = (case map_of (req_params req) ''public_key'' of None \<Rightarrow> BadRequest | Some pk \<Rightarrow> f pk)"

definition with_body :: "codec \<Rightarrow> http_request \<Rightarrow> (json \<Rightarrow> route_match) \<Rightarrow> route_match" where
  "with_body cd req f = (case loads cd (req_body req) of None \<Rightarrow> BadJson | Some j \<Rightarrow> f j)"

definition peer_route :: "codec \<Rightarrow> string \<Rightarrow> http_request \<Rightarrow> route_match" where
  "peer_route cd path req =
     (if req_method req = ''POST'' \<and> path = ''/peers'' then with_body cd req parse_create
      else if req_method req = ''DELETE'' \<and> path = ''/peers'' then with_key req (\<lambda>pk. Routed (DeletePeer pk))
      else if req_method req = ''POST'' \<and> path = ''/peers/disable'' then with_key req (\<lambda>pk. Routed (DisablePeer pk))
      else if req_method req = ''POST'' \<and> path = ''/peers/enable'' then with_key req (\<lambda>pk. Routed (EnablePeer pk))
      else if req_method req = ''POST'' \<and> path = ''/peers/allowed-ips''
           then with_body cd req (\<lambda>j. with_key req (\<lambda>pk. parse_allowed_ips pk j))
      else if req_method req = ''GET'' \<and> path = ''/peers/status'' then with_key req (\<lambda>pk. Routed (PeerStatusOf pk))
      else NoRoute)"

text \<open>Status codes and bodies; \<open>fmt\<close> renders a date.\<close>

fun agent_reply :: "codec \<Rightarrow> (instant \<Rightarrow> string) \<Rightarrow> agent_exn + agent_response \<Rightarrow> http_result" where
  "agent_reply cd fmt (Inr (PeerCreated pub priv ip)) =
     Response 201 (dumps cd (JObj [(''public_key'', JStr pub), (''private_key'', JStr priv), (''assigned_ip'', JStr ip)]))"
| "agent_reply cd fmt (Inr NoContent) = Response 204 ''''"
| "agent_reply cd fmt (Inr (PeerStatusBody pk st hs rx tx)) =
     Response 200 (dumps cd (JObj [(''public_key'', JStr pk), (''status'', JStr st),
       (''last_handshake_at'', case hs of None \<Rightarrow> JNull | Some t \<Rightarrow> JStr (fmt t)), (''rx_bytes'', JInt rx), (''tx_bytes'', JInt tx)]))"
| "agent_reply cd fmt (Inl (HttpError status detail)) = Response status (dumps cd (JObj [(''detail'', JStr detail)]))"
| "agent_reply cd fmt (Inl _) = Response 500 ''Internal Server Error''"

record 'w node_env =
  ne_crypto :: crypto
  ne_secret :: string
  ne_skew :: int
  ne_codec :: codec
  ne_iso :: "instant \<Rightarrow> string"
  ne_run :: "'w runner"
  ne_config :: agent_config
  ne_gen :: "nat \<Rightarrow> string \<times> string"
  ne_base :: string
  ne_clock :: instant

fun draws_key :: "agent_request \<Rightarrow> bool" where
  "draws_key (CreatePeer _ _) = True"
| "draws_key _ = False"

text \<open>
  The network that reaches this node and nothing else. A body that is not JSON is refused before the
  dependencies run, a schema violation after them.
\<close>

definition node_network :: "'w node_env \<Rightarrow> 'w vpn_node network" where
  "node_network N req n =
     (if \<not> starts_with (req_url req) (ne_base N) then (TransportError, n)
      else
        let refuse = (\<lambda>code. Response code (dumps (ne_codec N) (JObj [(''detail'', JStr '''')])));
            signed = verify_signed_request (ne_crypto N) (ne_secret N) (ne_skew N) (ne_clock N)
                       (req_signature req) (req_timestamp req) (req_body req) in
        case peer_route (ne_codec N) (drop (length (ne_base N)) (req_url req)) req of
          NoRoute \<Rightarrow> (refuse 404, n)
        | BadJson \<Rightarrow> (refuse 422, n)
        | BadRequest \<Rightarrow> (case signed of Inl (status, detail) \<Rightarrow> refuse status | Inr _ \<Rightarrow> refuse 422, n)
        | Routed r \<Rightarrow>
            (case signed_peers (ne_crypto N) (ne_secret N) (ne_skew N) (ne_run N) (ne_config N) (ne_clock N)
                    (ne_gen N (node_drawn n)) (req_signature req) (req_timestamp req) (req_body req) r (node_agent n) of
               (res, a) \<Rightarrow>
                 (agent_reply (ne_codec N) (ne_iso N) res,
                  \<lparr>node_agent = a,
                   node_drawn = node_drawn n + (if draws_key r \<and> \<not> isl signed then 1 else 0)\<rparr>)))"

section \<open>The provider's calls are the agent's operations\<close>

text \<open>
  Backend and node agree: the same secret and the same JSON, clocks within the window, and the node's
  address is the server's. JSON and signatures behave as documented: an object with distinct keys and
  simple values, as all messages here are, is read back as it was written.
\<close>

fun plain_value :: "json \<Rightarrow> bool" where
  "plain_value (JList js) = list_all (\<lambda>j. case j of JStr _ \<Rightarrow> True | _ \<Rightarrow> False) js"
| "plain_value (JObj kvs) = False"
| "plain_value _ = True"

definition message :: "(string \<times> json) list \<Rightarrow> bool" where
  "message kvs \<longleftrightarrow> distinct (map fst kvs) \<and> list_all (\<lambda>kv. plain_value (snd kv)) kvs"

definition reads :: "codec \<Rightarrow> codec \<Rightarrow> bool" where
  "reads reader writer \<longleftrightarrow> (\<forall>kvs. message kvs \<longrightarrow>
     loads reader (dumps writer (JObj kvs)) = Some (JObj kvs) \<and> dumps writer (JObj kvs) \<noteq> '''')"

definition paired :: "'w node_env \<Rightarrow> wg_client \<Rightarrow> instant \<Rightarrow> vpn_server \<Rightarrow> bool" where
  "paired N c now s \<longleftrightarrow>
     wg_crypto c = ne_crypto N \<and> wg_secret c = ne_secret N \<and> wg_codec c = ne_codec N \<and>
     rstrip_char CHR ''/'' (agent_base_url s) = ne_base N \<and>
     \<bar>ne_clock N - (now div 1000000) * 1000000\<bar> \<le> ne_skew N * 1000000 \<and>
     (\<forall>b. sign_hmac (ne_crypto N) b (ne_secret N) \<noteq> '''') \<and>
     reads (ne_codec N) (ne_codec N) \<and>
     (\<forall>t. parse_iso (ne_codec N) (ne_iso N t) = Some t \<and> ne_iso N t \<noteq> '''')"

text \<open>An operation of the agent as the backend sees it: every failure is the same error.\<close>

definition over_wire :: "vpn_server \<Rightarrow> ('w, 'a) agentM \<Rightarrow> ('w vpn_node, exn, 'a) comp" where
  "over_wire s m n =
     (case m (node_agent n) of
        (Inr x, a) \<Rightarrow> (Inr x, n\<lparr>node_agent := a\<rparr>)
      | (Inl e, a) \<Rightarrow> (Inl (wg_unreachable s), n\<lparr>node_agent := a\<rparr>))"

definition http_ok :: "agent_exn \<Rightarrow> bool" where
  "http_ok e = (case e of HttpError st _ \<Rightarrow> is_success st | _ \<Rightarrow> False)"

lemma raises_commands [raising]:
  "raises (\<lambda>e. \<not> http_ok e) (run_checked run args)"
  "raises (\<lambda>e. \<not> http_ok e) (add_or_update_peer run iface pk ips)"
  "raises (\<lambda>e. \<not> http_ok e) (remove_live_peer run iface pk)"
  "raises (\<lambda>e. \<not> http_ok e) (save_config run iface)"
  "raises (\<lambda>e. \<not> http_ok e) (dump run iface)"
proof -
  show 1: "raises (\<lambda>e. \<not> http_ok e) (run_checked run args)" for args
    by (rule raisesI) (auto simp: run_checked_def http_ok_def split: prod.splits if_splits)
  show "raises (\<lambda>e. \<not> http_ok e) (add_or_update_peer run iface pk ips)"
    "raises (\<lambda>e. \<not> http_ok e) (remove_live_peer run iface pk)" "raises (\<lambda>e. \<not> http_ok e) (save_config run iface)"
    unfolding add_or_update_peer_def remove_live_peer_def save_config_def by (intro raising 1)+
  have line: "parse_peer_line l = Inl e \<Longrightarrow> \<not> http_ok e" for l e
    by (auto simp: parse_peer_line_def handshake_value_def counter_value_def http_ok_def Let_def
        split: list.splits sum.splits if_splits option.splits)
  have "parse_peer_lines ls = Inl e \<Longrightarrow> \<not> http_ok e" for ls e
    by (induction ls) (auto split: sum.splits dest: line)
  then have "raises (\<lambda>e. \<not> http_ok e) (case parse_wg_dump out of Inl e \<Rightarrow> raiseM e | Inr ps \<Rightarrow> returnM ps)" for out
    by (auto simp: parse_wg_dump_def raises_basic split: sum.split)
  then show "raises (\<lambda>e. \<not> http_ok e) (dump run iface)"
    unfolding dump_def by (intro raising 1)
qed

lemma raises_handlers:
  "raises (\<lambda>e. \<not> http_ok e) (add_peer run cfg now pk did ip)"
  "raises (\<lambda>e. \<not> http_ok e) (remove_peer run cfg pk)"
  "raises (\<lambda>e. \<not> http_ok e) (handle_peers run cfg now kp r)"
proof -
  have 404: "\<not> http_ok (HttpError 404 d)" for d by (simp add: http_ok_def is_success_def)
  show add: "raises (\<lambda>e. \<not> http_ok e) (add_peer run cfg now pk did ip)" for pk did ip
    unfolding add_peer_def on_store_def on_os_def by (intro raising)
  show remove: "raises (\<lambda>e. \<not> http_ok e) (remove_peer run cfg pk)" for pk
    unfolding remove_peer_def on_store_def on_os_def by (intro raising)
  have "raises (\<lambda>e. \<not> http_ok e) (disable_peer run cfg pk)" "raises (\<lambda>e. \<not> http_ok e) (enable_peer run cfg pk)"
    "raises (\<lambda>e. \<not> http_ok e) (require_peer pk)" "raises (\<lambda>e. \<not> http_ok e) (get_peer_stats run cfg pk)" for pk
    unfolding disable_peer_def enable_peer_def on_store_def on_os_def require_peer_def get_peer_stats_def
    by (intro raising 404)+
  note all = add remove this
  show "raises (\<lambda>e. \<not> http_ok e) (handle_peers run cfg now kp r)"
    by (cases r) (simp_all only: handle_peers.simps set_allowed_ips_def, (intro raising all)+)
qed

lemma signed_ok:
  assumes "paired N c now s"
  shows "verify_signed_request (ne_crypto N) (ne_secret N) (ne_skew N) (ne_clock N)
      (Some (fst (signed_headers (wg_crypto c) (wg_secret c) now body)))
      (Some (snd (signed_headers (wg_crypto c) (wg_secret c) now body))) body = Inr ()"
  using assms by (simp add: paired_def verify_signed_request_Inr signed_headers_def)

text \<open>One call of the provider that the router passes to a handler.\<close>

lemma node_call:
  fixes N :: "'w node_env"
  assumes "paired N c now s"
    and "peer_route (ne_codec N) path (agent_request_of (wg_crypto c) (wg_secret c) now (agent_base_url s) m path
            (dumps (wg_codec c) payload) params) = Routed r"
    and "handle_peers (ne_run N) (ne_config N) (ne_clock N) (ne_gen N (node_drawn n)) r (node_agent n) = (res, a)"
  shows "wg_request (node_network N) c now s m path payload params n =
    (case res of
       Inl e \<Rightarrow> Inl (wg_unreachable s)
     | Inr resp \<Rightarrow> (case agent_reply (ne_codec N) (ne_iso N) (Inr resp) of
         Response st content \<Rightarrow> response_json (ne_codec N) content | _ \<Rightarrow> Inl (wg_unreachable s)),
     \<lparr>node_agent = a, node_drawn = node_drawn n + (if draws_key r then 1 else 0)\<rparr>)"
proof -
  let ?req = "agent_request_of (wg_crypto c) (wg_secret c) now (agent_base_url s) m path (dumps (wg_codec c) payload) params"
  have url: "req_url ?req = ne_base N @ path" using assms(1) by (simp add: agent_request_of_def paired_def)
  have req: "node_network N ?req n = (agent_reply (ne_codec N) (ne_iso N) res,
      \<lparr>node_agent = a, node_drawn = node_drawn n + (if draws_key r then 1 else 0)\<rparr>)"
    using assms(2,3) signed_ok [OF assms(1)]
    by (simp add: node_network_def url signed_peers_def) (simp add: agent_request_of_def)
  have cd: "wg_codec c = ne_codec N" using assms(1) by (simp add: paired_def)
  note req2 = req [unfolded cd]
  show ?thesis
  proof (cases res)
    case (Inr resp)
    then show ?thesis
      by (cases resp) (simp_all add: wg_request_def Let_def req2 is_success_def cd)
  next
    case (Inl e)
    then have "\<not> http_ok e" using raisesD [OF raises_handlers(3)] assms(3) by blast
    then show ?thesis using Inl by (cases e) (auto simp: wg_request_def Let_def req2 is_success_def http_ok_def cd)
  qed
qed

lemma route_simps:
  "peer_route cd ''/peers'' (agent_request_of k sec now base ''POST'' path body ps) =
     (case loads cd body of None \<Rightarrow> BadJson | Some j \<Rightarrow> parse_create j)"
  "peer_route cd ''/peers'' (agent_request_of k sec now base ''DELETE'' path body [(''public_key'', pk)]) = Routed (DeletePeer pk)"
  "peer_route cd ''/peers/disable'' (agent_request_of k sec now base ''POST'' path body [(''public_key'', pk)]) = Routed (DisablePeer pk)"
  "peer_route cd ''/peers/enable'' (agent_request_of k sec now base ''POST'' path body [(''public_key'', pk)]) = Routed (EnablePeer pk)"
  "peer_route cd ''/peers/allowed-ips'' (agent_request_of k sec now base ''POST'' path body [(''public_key'', pk)]) =
     (case loads cd body of None \<Rightarrow> BadJson | Some j \<Rightarrow> parse_allowed_ips pk j)"
  "peer_route cd ''/peers/status'' (agent_request_of k sec now base ''GET'' path body [(''public_key'', pk)]) = Routed (PeerStatusOf pk)"
  by (simp_all add: peer_route_def agent_request_of_def with_body_def with_key_def)

lemma json_strings_map [simp]: "json_strings (map JStr ss) = Some ss"
  by (induction ss) simp_all

lemma reads:
  assumes "reads r w" and "message kvs"
  shows "loads r (dumps w (JObj kvs)) = Some (JObj kvs)" "dumps w (JObj kvs) \<noteq> ''''"
  using assms by (simp_all add: reads_def)

lemma message_simps [simp]:
  "message []" "message (kv # kvs) \<longleftrightarrow> fst kv \<notin> set (map fst kvs) \<and> plain_value (snd kv) \<and> message kvs"
  by (auto simp: message_def)

lemma plain_strings [simp]: "list_all (\<lambda>j. case j of JStr _ \<Rightarrow> True | _ \<Rightarrow> False) (map JStr ss)"
  by (simp add: list_all_iff)

lemma paired_codec:
  assumes "paired N c now s"
  shows "wg_codec c = ne_codec N" "reads (ne_codec N) (ne_codec N)"
    "parse_iso (ne_codec N) (ne_iso N t) = Some t" "ne_iso N t \<noteq> ''''"
  using assms by (simp_all add: paired_def)

text \<open>A call answered without a body.\<close>

lemma peer_call_no_content:
  fixes N :: "'w node_env"
  assumes "paired N c now s"
    and "peer_route (ne_codec N) path (agent_request_of (wg_crypto c) (wg_secret c) now (agent_base_url s) m path
            (dumps (wg_codec c) payload) [(''public_key'', peer_public_key p)]) = Routed r"
    and "handle_peers (ne_run N) (ne_config N) (ne_clock N) (ne_gen N (node_drawn n)) r =
           bindM op (\<lambda>_. returnM NoContent)" and "\<not> draws_key r"
  shows "bindM (wg_peer_call (node_network N) c now m path payload p s) (\<lambda>_. returnM ()) n =
    over_wire s op n"
proof -
  obtain x a where op: "op (node_agent n) = (x, a)" by (cases "op (node_agent n)")
  show ?thesis
  proof (cases x)
    case (Inl e)
    then have "handle_peers (ne_run N) (ne_config N) (ne_clock N) (ne_gen N (node_drawn n)) r (node_agent n) = (Inl e, a)"
      using op assms(3) by (simp add: bindM_def)
    from node_call [OF assms(1,2) this] show ?thesis
      using Inl op assms(4) by (simp add: wg_peer_call_def bindM_def over_wire_def)
  next
    case (Inr y)
    then have "handle_peers (ne_run N) (ne_config N) (ne_clock N) (ne_gen N (node_drawn n)) r (node_agent n) = (Inr NoContent, a)"
      using op assms(3) by (simp add: bindM_def)
    from node_call [OF assms(1,2) this] show ?thesis
      using Inr op assms(4) by (simp add: wg_peer_call_def bindM_def over_wire_def response_json_def)
  qed
qed

text \<open>Creation, whose answer carries the new key pair.\<close>

lemma create_call:
  fixes N :: "'w node_env"
  assumes "paired N c now s"
  shows "wg_create_peer (node_network N) c now v s ip n =
    over_wire s (bindM (add_peer (ne_run N) (ne_config N) (ne_clock N) (fst (ne_gen N (node_drawn n))) (rid v) ip)
        (\<lambda>_. returnM \<lparr>pp_public_key = fst (ne_gen N (node_drawn n)), pp_private_key = snd (ne_gen N (node_drawn n)),
           pp_assigned_ip = ip, pp_server_public_key = srv_public_key s, pp_server_endpoint = endpoint s,
           pp_dns = wg_dns c\<rparr>))
      (n\<lparr>node_drawn := Suc (node_drawn n)\<rparr>)"
proof -
  let ?kp = "ne_gen N (node_drawn n)"
  let ?add = "add_peer (ne_run N) (ne_config N) (ne_clock N) (fst ?kp) (rid v) ip"
  note cd = paired_codec [OF assms]
  have route: "peer_route (ne_codec N) ''/peers'' (agent_request_of (wg_crypto c) (wg_secret c) now (agent_base_url s)
      ''POST'' ''/peers'' (dumps (wg_codec c) (JObj [(''device_id'', JInt (rid v)), (''assigned_ip'', JStr ip)])) []) =
      Routed (CreatePeer (rid v) ip)"
    by (simp add: route_simps cd(1) reads [OF cd(2)] parse_create_def jget_def)
  obtain x a where add: "?add (node_agent n) = (x, a)" by (cases "?add (node_agent n)")
  show ?thesis
  proof (cases x)
    case (Inl e)
    then have "handle_peers (ne_run N) (ne_config N) (ne_clock N) ?kp (CreatePeer (rid v) ip) (node_agent n) = (Inl e, a)"
      using add by (simp add: bindM_def)
    from node_call [OF assms route this] show ?thesis
      using Inl add by (simp add: wg_create_peer_def bindM_def over_wire_def)
  next
    case (Inr y)
    then have "handle_peers (ne_run N) (ne_config N) (ne_clock N) ?kp (CreatePeer (rid v) ip) (node_agent n) =
        (Inr (PeerCreated (fst ?kp) (snd ?kp) ip), a)"
      using add by (simp add: bindM_def)
    from node_call [OF assms route this] show ?thesis
      using Inr add by (simp add: wg_create_peer_def bindM_def over_wire_def response_json_def reads [OF cd(2)]
          liftR_def str_field_def jget_def)
  qed
qed

section \<open>The contract of the agent\<close>

text \<open>
  What keeps keys fresh: \<open>gen\<close> never draws a key twice, and the store holds drawn keys only; the
  backend reads the JSON the node writes.
\<close>

definition node_ok :: "'w node_env \<Rightarrow> wg_client \<Rightarrow> 'w vpn_node \<Rightarrow> bool" where
  "node_ok N c n \<longleftrightarrow> inj (\<lambda>i. fst (ne_gen N i)) \<and>
     reads (wg_codec c) (ne_codec N) \<and>
     (\<forall>r \<in> set (store (node_agent n)). \<exists>i < node_drawn n. pr_public_key r = fst (ne_gen N i))"

definition node_keys :: "'w vpn_node \<Rightarrow> string set" where
  "node_keys n = pr_public_key ` set (store (node_agent n))"

lemma store_keys:
  "pr_public_key ` set (store_upsert r st) = insert (pr_public_key r) (pr_public_key ` set st)"
  "pr_public_key ` set (store_delete pk st) = pr_public_key ` set st - {pk}"
  "pr_public_key ` set (store_set_enabled pk b st) = pr_public_key ` set st"
proof -
  have image: "pr_public_key ` f ` set st = pr_public_key ` set st" if "\<And>r. pr_public_key (f r) = pr_public_key r" for f
    using that by (simp add: image_image)
  show "pr_public_key ` set (store_set_enabled pk b st) = pr_public_key ` set st"
    unfolding store_set_enabled_def set_map by (rule image) simp
  have "pr_public_key ` (\<lambda>x. if pr_public_key x = pr_public_key r then merge_peer x r else x) ` set st = pr_public_key ` set st"
    by (rule image) (simp add: merge_peer_def)
  then show "pr_public_key ` set (store_upsert r st) = insert (pr_public_key r) (pr_public_key ` set st)"
    by (auto simp: store_upsert_def list_ex_iff) (metis image_eqI)?
  show "pr_public_key ` set (store_delete pk st) = pr_public_key ` set st - {pk}"
    by (auto simp: store_delete_def)
qed

lemma store_then_os:
  "bindM (on_store f) (\<lambda>_. whenM b (on_os m)) a = (x, a') \<Longrightarrow> store a' = f (store a)"
  by (auto simp: bindM_def on_store_def on_os_def zoomM_def modifyM_def whenM_def returnM_def split: prod.splits if_splits)

lemma add_peer_store:
  "add_peer run cfg now pk did ip a = (x, a') \<Longrightarrow> store a' = store_upsert \<lparr>pr_public_key = pk, pr_device_id = did,
     pr_assigned_ip = ip, pr_enabled = True, pr_created_at = now\<rparr> (store a)"
  unfolding add_peer_def by (rule store_then_os)

lemma remove_peer_store: "remove_peer run cfg pk a = (x, a') \<Longrightarrow> store a' = store_delete pk (store a)"
  unfolding remove_peer_def by (rule store_then_os)

lemma handler_keys:
  assumes "handle_peers run cfg now kp r a = (res, a')"
  shows "pr_public_key ` set (store a') \<subseteq> (if draws_key r then {fst kp} else {}) \<union> pr_public_key ` set (store a)"
proof -
  define K where "K b = pr_public_key ` set (store b)" for b :: "'a vpn_agent"
  have add: "K a' = insert pk (K a)" if "add_peer run cfg now pk did ip a = (x, a')" for pk did ip x a'
    using add_peer_store [OF that] by (simp add: K_def store_keys)
  have remove: "K a' = K a - {pk}" if "remove_peer run cfg pk a = (x, a')" for pk x a'
    using remove_peer_store [OF that] by (simp add: K_def store_keys)
  have disable: "K a' = K a" if "disable_peer run cfg pk a = (x, a')" for pk x a'
    using store_then_os [OF that [unfolded disable_peer_def]] by (simp add: K_def store_keys)
  have enable: "K a' = K a" if "enable_peer run cfg pk a = (x, a')" for pk x a'
  proof (cases "store_get pk (store a)")
    case None
    then show ?thesis using that by (simp add: enable_peer_def bindM_def getM_def returnM_def)
  next
    case (Some p)
    then have "store a' = store_set_enabled pk True (store a)"
      using that by (auto simp: enable_peer_def bindM_def [of "getM _"] getM_def dest!: store_then_os)
    then show ?thesis by (simp add: K_def store_keys)
  qed
  have stats: "K a' = K a" if "get_peer_stats run cfg pk a = (x, a')" for pk x a'
    using that by (auto simp: K_def get_peer_stats_def on_os_def bindM_def zoomM_def returnM_def split: if_splits prod.splits sum.splits)
  have "K a' \<subseteq> (if draws_key r then {fst kp} else {}) \<union> K a"
    using assms by (cases r)
      (auto simp: bindM_def require_peer_def getM_def requireM_def returnM_def raiseM_def set_allowed_ips_def
        split: prod.splits sum.splits option.splits if_splits
        dest!: add remove disable enable stats)
  then show ?thesis unfolding K_def .
qed

text \<open>No request breaks the freshness of keys, whoever sends it and whatever becomes of it.\<close>

lemma node_ok_network:
  assumes "node_ok N c n" and "node_network N req n = (res, n')"
  shows "node_ok N c n'"
proof -
  have "\<exists>i < node_drawn n'. pr_public_key r = fst (ne_gen N i)" if r: "r \<in> set (store (node_agent n'))" for r
  proof (cases "n' = n")
    case True
    then show ?thesis using assms(1) r by (auto simp: node_ok_def)
  next
    case False
    let ?signed = "verify_signed_request (ne_crypto N) (ne_secret N) (ne_skew N) (ne_clock N)
        (req_signature req) (req_timestamp req) (req_body req)"
    obtain q a where q: "handle_peers (ne_run N) (ne_config N) (ne_clock N) (ne_gen N (node_drawn n)) q (node_agent n) = (a, node_agent n')"
      "node_drawn n' = node_drawn n + (if draws_key q then 1 else 0)"
    proof (cases "peer_route (ne_codec N) (drop (length (ne_base N)) (req_url req)) req")
      case (Routed q)
      show ?thesis
      proof (cases ?signed)
        case (Inl e)
        then show ?thesis using assms(2) False Routed
          by (auto simp: node_network_def signed_peers_def raiseM_def split: if_splits prod.splits)
      next
        case (Inr u)
        then show ?thesis using assms(2) False Routed that
          by (auto simp: node_network_def signed_peers_def split: if_splits prod.splits)
      qed
    qed (use assms(2) False in \<open>auto simp: node_network_def split: if_splits sum.splits prod.splits\<close>)
    show ?thesis
    proof (cases "\<exists>r0 \<in> set (store (node_agent n)). pr_public_key r = pr_public_key r0")
      case True
      then show ?thesis using assms(1) q(2) by (auto simp: node_ok_def) (metis less_SucI)
    next
      case False
      then have "draws_key q \<and> pr_public_key r = fst (ne_gen N (node_drawn n))"
        using handler_keys [OF q(1)] r by (auto split: if_splits)
      then show ?thesis using q(2) by auto
    qed
  qed
  then show ?thesis using assms(1) by (simp add: node_ok_def)
qed

lemma wg_request_conflict: "wg_request net c now s m path payload ps w \<noteq> (Inl (AppError ConflictError msg k), w')"
  by (auto simp: wg_request_def wg_unreachable_def app_error_def response_json_def Let_def
      split: prod.split http_result.split option.split)

lemma node_request:
  assumes "wg_request (node_network N) c now s m path payload ps n = (res, n')"
  shows "\<exists>r. node_network N (agent_request_of (wg_crypto c) (wg_secret c) now (agent_base_url s) m path
      (dumps (wg_codec c) payload) ps) n = (r, n')"
  using assms by (auto simp: wg_request_def Let_def split: prod.splits http_result.splits if_splits)

lemma node_request_Inr:
  assumes "wg_request (node_network N) c now s m path payload ps n = (Inr j, n')"
  obtains st content where "node_network N (agent_request_of (wg_crypto c) (wg_secret c) now (agent_base_url s) m path
      (dumps (wg_codec c) payload) ps) n = (Response st content, n')" "is_success st"
    "response_json (wg_codec c) content = Inr j"
  using assms by (auto simp: wg_request_def Let_def split: prod.splits http_result.splits if_splits)

text \<open>A request the node answers with success has been handled.\<close>

lemma node_success:
  fixes N :: "'w node_env"
  assumes "node_network N req n = (Response st content, n')" and "is_success st"
  obtains q resp where
    "peer_route (ne_codec N) (drop (length (ne_base N)) (req_url req)) req = Routed q"
    "handle_peers (ne_run N) (ne_config N) (ne_clock N) (ne_gen N (node_drawn n)) q (node_agent n) = (Inr resp, node_agent n')"
    "agent_reply (ne_codec N) (ne_iso N) (Inr resp) = Response st content"
    "node_drawn n' = node_drawn n + (if draws_key q then 1 else 0)"
proof -
  let ?signed = "verify_signed_request (ne_crypto N) (ne_secret N) (ne_skew N) (ne_clock N)
        (req_signature req) (req_timestamp req) (req_body req)"
  have code: "\<not> is_success 401" "\<not> is_success 404" "\<not> is_success 422" "\<not> is_success 500" by (simp_all add: is_success_def)
  have refused: "status = 401" if "?signed = Inl (status, d)" for status d
    using that by (auto simp: verify_signed_request_def split: if_splits option.splits)
  show ?thesis
  proof (cases "peer_route (ne_codec N) (drop (length (ne_base N)) (req_url req)) req")
    case (Routed q)
    show ?thesis
    proof (cases ?signed)
      case (Inl e)
      then show ?thesis using assms Routed refused code
        by (cases e) (auto simp: node_network_def signed_peers_def raiseM_def split: if_splits)
    next
      case (Inr u)
      obtain res a where h: "handle_peers (ne_run N) (ne_config N) (ne_clock N) (ne_gen N (node_drawn n)) q (node_agent n) = (res, a)"
        by (cases "handle_peers (ne_run N) (ne_config N) (ne_clock N) (ne_gen N (node_drawn n)) q (node_agent n)")
      then have reply: "agent_reply (ne_codec N) (ne_iso N) res = Response st content" and n': "node_agent n' = a"
        "node_drawn n' = node_drawn n + (if draws_key q then 1 else 0)"
        using assms Inr Routed by (auto simp: node_network_def signed_peers_def split: if_splits)
      show ?thesis
      proof (cases res)
        case (Inl e)
        then have "\<not> http_ok e" using raisesD [OF raises_handlers(3)] h by blast
        then show ?thesis using reply Inl assms(2) code by (cases e) (auto simp: http_ok_def)
      next
        case (Inr resp)
        then show ?thesis using that [OF Routed] h n' reply by simp
      qed
    qed
  qed (use assms refused code in \<open>auto simp: node_network_def Let_def split: if_splits sum.splits prod.splits\<close>)
qed

lemma route_post: "peer_route cd path req = Routed q \<Longrightarrow> req_method req = ''POST'' \<Longrightarrow> req_params req = [] \<Longrightarrow> \<exists>did ip. q = CreatePeer did ip"
  by (auto simp: peer_route_def with_body_def with_key_def parse_create_def split: if_splits option.splits json.splits)

lemma route_delete: "peer_route cd path req = Routed q \<Longrightarrow> req_method req = ''DELETE'' \<Longrightarrow> req_params req = [(''public_key'', pk)] \<Longrightarrow> q = DeletePeer pk"
  by (auto simp: peer_route_def with_key_def split: if_splits)

lemma node_request_ok:
  assumes "node_ok N c n" and "wg_request (node_network N) c now s m path payload ps n = (res, n')"
  shows "node_ok N c n'"
  using node_request [OF assms(2)] by (elim exE) (erule node_ok_network [OF assms(1)])

lemma node_create:
  assumes "node_ok N c n" and "wg_create_peer (node_network N) c now v s ip n = (Inr r, n')"
  shows "node_ok N c n'" "pp_public_key r \<notin> node_keys n" "node_keys n' = insert (pp_public_key r) (node_keys n)"
proof -
  from assms(2) obtain j n1 where req: "wg_request (node_network N) c now s ''POST'' ''/peers''
      (JObj [(''device_id'', JInt (rid v)), (''assigned_ip'', JStr ip)]) [] n = (Inr j, n1)"
    and key: "str_field ''public_key'' j = Inr (pp_public_key r)" and n1: "n1 = n'"
    by (auto simp: wg_create_peer_def bindM_eq_Inr_iff liftR_def)
  obtain st content where net: "node_network N (agent_request_of (wg_crypto c) (wg_secret c) now (agent_base_url s) ''POST'' ''/peers''
      (dumps (wg_codec c) (JObj [(''device_id'', JInt (rid v)), (''assigned_ip'', JStr ip)])) []) n = (Response st content, n')"
    and st: "is_success st" and j: "response_json (wg_codec c) content = Inr j"
    using req [unfolded n1] by (rule node_request_Inr)
  show "node_ok N c n'" using node_request_ok [OF assms(1) req] n1 by simp
  show "pp_public_key r \<notin> node_keys n" "node_keys n' = insert (pp_public_key r) (node_keys n)"
  proof (atomize (full), rule node_success [OF net st], goal_cases)
    case (1 q resp)
    obtain did ip2 where q: "q = CreatePeer did ip2"
      using route_post [OF 1(1)] by (auto simp: agent_request_of_def)
    let ?kp = "ne_gen N (node_drawn n)"
    from 1(2) q obtain u where add: "add_peer (ne_run N) (ne_config N) (ne_clock N) (fst ?kp) did ip2 (node_agent n) = (Inr u, node_agent n')"
      and resp: "resp = PeerCreated (fst ?kp) (snd ?kp) ip2"
      by (auto simp: bindM_eq_Inr_iff)
    have "pp_public_key r = fst ?kp"
      using key j 1(3) assms(1) by (auto simp: resp response_json_def node_ok_def str_field_def jget_def reads)
    moreover have "fst ?kp \<notin> node_keys n"
      using assms(1) unfolding node_ok_def node_keys_def inj_def by (metis (no_types, lifting) imageE less_irrefl)
    ultimately show ?case
      using add_peer_store [OF add] by (simp add: node_keys_def store_keys)
  qed
qed

lemma node_delete:
  assumes "node_ok N c n" and "vp_delete_peer (wireguard_provider (node_network N) c now) p s n = (Inr (), n')"
  shows "node_ok N c n'" "node_keys n' = node_keys n - {peer_public_key p}"
proof -
  from assms(2) obtain j n1 where req: "wg_request (node_network N) c now s ''DELETE'' ''/peers'' (JObj [])
      [(''public_key'', peer_public_key p)] n = (Inr j, n1)" and n1: "n1 = n'"
    by (auto simp: wireguard_provider_def wg_peer_call_def bindM_eq_Inr_iff)
  obtain st content where net: "node_network N (agent_request_of (wg_crypto c) (wg_secret c) now (agent_base_url s) ''DELETE'' ''/peers''
      (dumps (wg_codec c) (JObj [])) [(''public_key'', peer_public_key p)]) n = (Response st content, n')"
    and st: "is_success st"
    using req [unfolded n1] by (rule node_request_Inr)
  show "node_ok N c n'" using node_request_ok [OF assms(1) req] n1 by simp
  show "node_keys n' = node_keys n - {peer_public_key p}"
  proof (rule node_success [OF net st], goal_cases)
    case (1 q resp)
    have "q = DeletePeer (peer_public_key p)"
      using route_delete [OF 1(1)] by (auto simp: agent_request_of_def)
    with 1(2) obtain u where "remove_peer (ne_run N) (ne_config N) (peer_public_key p) (node_agent n) = (Inr u, node_agent n')"
      by (auto simp: bindM_eq_Inr_iff)
    from remove_peer_store [OF this] show ?case by (simp add: node_keys_def store_keys)
  qed
qed

lemma node_calls_conflict:
  "wg_create_peer net c now v s ip n \<noteq> (Inl (AppError ConflictError msg k), n')"
  "vp_delete_peer (wireguard_provider net2 c now) p s n2 \<noteq> (Inl (AppError ConflictError msg k), n3)"
proof -
  have field: "str_field key j \<noteq> Inl (AppError ConflictError msg k)" for key j
    by (auto simp: str_field_def split: option.split json.split)
  show "wg_create_peer net c now v s ip n \<noteq> (Inl (AppError ConflictError msg k), n')"
    by (auto simp: wg_create_peer_def bindM_def liftR_def returnM_def wg_request_conflict field
        split: prod.splits sum.splits)
  show "vp_delete_peer (wireguard_provider net2 c now) p s n2 \<noteq> (Inl (AppError ConflictError msg k), n3)"
    by (auto simp: wireguard_provider_def wg_peer_call_def bindM_def returnM_def wg_request_conflict
        split: prod.splits sum.splits)
qed

interpretation node: peer_agent "node_ok N c" node_keys
  "vp_create_peer (wireguard_provider (node_network N) c now)" "vp_delete_peer (wireguard_provider (node_network N) c now)"
  for N :: "'w node_env" and c now
proof unfold_locales
  fix v s ip p r e m k and w w' :: "'w vpn_node"
  let ?P = "wireguard_provider (node_network N) c now"
  assume w: "node_ok N c w"
  have create: "vp_create_peer ?P = wg_create_peer (node_network N) c now" by (simp add: wireguard_provider_def)
  show "node_ok N c w' \<and> pp_public_key r \<notin> node_keys w \<and> node_keys w' = insert (pp_public_key r) (node_keys w)"
    if "vp_create_peer ?P v s ip w = (Inr r, w')"
    using node_create [OF w that [unfolded create]] by simp
  show "node_ok N c w' \<and> node_keys w' = node_keys w - {peer_public_key p}" if "vp_delete_peer ?P p s w = (Inr (), w')"
    using node_delete [OF w that] by simp
  show "node_ok N c w' \<and> e \<noteq> AppError ConflictError m k" if "vp_create_peer ?P v s ip w = (Inl e, w')"
  proof -
    from that obtain res where "wg_request (node_network N) c now s ''POST'' ''/peers''
      (JObj [(''device_id'', JInt (rid v)), (''assigned_ip'', JStr ip)]) [] w = (res, w')"
      by (auto simp: create wg_create_peer_def bindM_def liftR_def returnM_def split: prod.splits sum.splits)
    from node_request_ok [OF w this] show ?thesis using that by (auto simp: create node_calls_conflict(1))
  qed
  show "node_ok N c w' \<and> e \<noteq> AppError ConflictError m k" if "vp_delete_peer ?P p s w = (Inl e, w')"
  proof -
    from that obtain res where "wg_request (node_network N) c now s ''DELETE'' ''/peers'' (JObj [])
      [(''public_key'', peer_public_key p)] w = (res, w')"
      by (auto simp: wireguard_provider_def wg_peer_call_def bindM_def returnM_def split: prod.splits sum.splits)
    from node_request_ok [OF w this] show ?thesis using that by (auto simp: node_calls_conflict(2))
  qed
qed

section \<open>Refinement\<close>

text \<open>
  What the agent promises the backend, call by call: the operation of the reconciler it runs, and for
  the guarded calls the refusal of an unknown peer.
\<close>

definition guarded :: "string \<Rightarrow> ('w, unit) agentM \<Rightarrow> ('w, unit) agentM" where
  "guarded pk m = bindM (require_peer pk) (\<lambda>_. m)"

definition provisioned_by :: "wg_client \<Rightarrow> vpn_server \<Rightarrow> string \<times> string \<Rightarrow> string \<Rightarrow> peer_provisioning" where
  "provisioned_by c s kp ip = \<lparr>pp_public_key = fst kp, pp_private_key = snd kp, pp_assigned_ip = ip,
     pp_server_public_key = srv_public_key s, pp_server_endpoint = endpoint s, pp_dns = wg_dns c\<rparr>"

text \<open>C6: When backend and node share secret, codec and address and their clocks agree within the window,
  each call of the backend's WireGuard provider is, on the node, exactly the reconciler's operation:
  routing, signatures, JSON and status codes add nothing, and every failure of the agent (an unknown
  peer, a failed command) comes back as the one error that names the server.\<close>

theorem provider_is_agent:
  fixes N :: "'w node_env"
  assumes "paired N c now s"
  shows "vp_create_peer (wireguard_provider (node_network N) c now) v s ip n =
      over_wire s (bindM (add_peer (ne_run N) (ne_config N) (ne_clock N) (fst (ne_gen N (node_drawn n))) (rid v) ip)
          (\<lambda>_. returnM (provisioned_by c s (ne_gen N (node_drawn n)) ip)))
        (n\<lparr>node_drawn := Suc (node_drawn n)\<rparr>) \<and>
    vp_delete_peer (wireguard_provider (node_network N) c now) p s n =
      over_wire s (remove_peer (ne_run N) (ne_config N) (peer_public_key p)) n \<and>
    vp_disable_peer (wireguard_provider (node_network N) c now) p s n =
      over_wire s (guarded (peer_public_key p) (disable_peer (ne_run N) (ne_config N) (peer_public_key p))) n \<and>
    vp_enable_peer (wireguard_provider (node_network N) c now) p s n =
      over_wire s (guarded (peer_public_key p) (enable_peer (ne_run N) (ne_config N) (peer_public_key p))) n \<and>
    vp_set_peer_allowed_ips (wireguard_provider (node_network N) c now) p s ips n =
      over_wire s (guarded (peer_public_key p) (set_allowed_ips (peer_public_key p) ips)) n"
proof (intro conjI)
  note cd = paired_codec [OF assms]
  have step: "bindM (require_peer pk) (\<lambda>_. bindM m (\<lambda>_. returnM NoContent)) = bindM (guarded pk m) (\<lambda>_. returnM NoContent)"
    for pk and m :: "('w, unit) agentM"
    by (rule ext) (simp add: guarded_def bindM_def split: prod.split sum.split)
  note call = peer_call_no_content [OF assms]
  show "vp_create_peer (wireguard_provider (node_network N) c now) v s ip n =
      over_wire s (bindM (add_peer (ne_run N) (ne_config N) (ne_clock N) (fst (ne_gen N (node_drawn n))) (rid v) ip)
          (\<lambda>_. returnM (provisioned_by c s (ne_gen N (node_drawn n)) ip))) (n\<lparr>node_drawn := Suc (node_drawn n)\<rparr>)"
    by (simp add: wireguard_provider_def create_call [OF assms] provisioned_by_def)
  show "vp_delete_peer (wireguard_provider (node_network N) c now) p s n =
      over_wire s (remove_peer (ne_run N) (ne_config N) (peer_public_key p)) n"
    by (simp add: wireguard_provider_def) (rule call, rule route_simps, simp_all)
  show "vp_disable_peer (wireguard_provider (node_network N) c now) p s n =
      over_wire s (guarded (peer_public_key p) (disable_peer (ne_run N) (ne_config N) (peer_public_key p))) n"
    by (simp add: wireguard_provider_def) (rule call, rule route_simps, simp_all add: step)
  show "vp_enable_peer (wireguard_provider (node_network N) c now) p s n =
      over_wire s (guarded (peer_public_key p) (enable_peer (ne_run N) (ne_config N) (peer_public_key p))) n"
    by (simp add: wireguard_provider_def) (rule call, rule route_simps, simp_all add: step)
  have "peer_route (ne_codec N) ''/peers/allowed-ips'' (agent_request_of (wg_crypto c) (wg_secret c) now (agent_base_url s)
      ''POST'' ''/peers/allowed-ips'' (dumps (wg_codec c) (JObj [(''allowed_ips'', JList (map JStr ips))]))
      [(''public_key'', peer_public_key p)]) = Routed (SetAllowedIPs (peer_public_key p) ips)"
    by (simp add: route_simps cd(1) reads [OF cd(2)] parse_allowed_ips_def jget_def)
  from call [OF this] show "vp_set_peer_allowed_ips (wireguard_provider (node_network N) c now) p s ips n =
      over_wire s (guarded (peer_public_key p) (set_allowed_ips (peer_public_key p) ips)) n"
    by (simp add: wireguard_provider_def step)
qed

section \<open>A node for the examples\<close>

text \<open>A codec that reads back what it writes; lists are terminated by \<^verbatim>\<open>0\<close>, each item marked by \<^verbatim>\<open>1\<close>.\<close>

definition enc_list :: "('a \<Rightarrow> string) \<Rightarrow> 'a list \<Rightarrow> string" where
  "enc_list e xs = concat (map (\<lambda>x. CHR ''1'' # e x) xs) @ ''0''"

fun dec_list :: "(string \<Rightarrow> ('a \<times> string) option) \<Rightarrow> nat \<Rightarrow> string \<Rightarrow> ('a list \<times> string) option" where
  "dec_list p 0 s = None"
| "dec_list p (Suc n) s =
     (case s of [] \<Rightarrow> None
      | c # s \<Rightarrow>
          if c = CHR ''0'' then Some ([], s)
          else case p s of None \<Rightarrow> None | Some (x, t) \<Rightarrow> map_option (\<lambda>(xs, u). (x # xs, u)) (dec_list p n t))"

definition items :: "(string \<Rightarrow> ('a \<times> string) option) \<Rightarrow> string \<Rightarrow> ('a list \<times> string) option" where
  "items p s = dec_list p (length s) s"

definition enc_str :: "string \<Rightarrow> string" where
  "enc_str = enc_list (\<lambda>c. [c])"

definition dec_str :: "string \<Rightarrow> (string \<times> string) option" where
  "dec_str = items (\<lambda>s. case s of [] \<Rightarrow> None | c # r \<Rightarrow> Some (c, r))"

definition enc_int :: "int \<Rightarrow> string" where
  "enc_int i = (if i < 0 then CHR ''-'' else CHR ''+'') # enc_list (\<lambda>_. '''') (replicate (nat \<bar>i\<bar>) ())"

definition dec_int :: "string \<Rightarrow> (int \<times> string) option" where
  "dec_int s = (case s of [] \<Rightarrow> None
     | c # r \<Rightarrow> map_option (\<lambda>(us, t). (if c = CHR ''-'' then - int (length us) else int (length us), t)) (items (\<lambda>t. Some ((), t)) r))"

fun enc_value :: "json \<Rightarrow> string" where
  "enc_value JNull = ''n''"
| "enc_value (JBool b) = (if b then ''t'' else ''f'')"
| "enc_value (JInt i) = ''i'' @ enc_int i"
| "enc_value (JStr s) = ''s'' @ enc_str s"
| "enc_value (JList js) = ''l'' @ enc_list (\<lambda>j. case j of JStr s \<Rightarrow> enc_str s | _ \<Rightarrow> '''') js"
| "enc_value (JObj _) = ''o''"

definition dec_value :: "string \<Rightarrow> (json \<times> string) option" where
  "dec_value s = (case s of [] \<Rightarrow> None
     | c # r \<Rightarrow>
         if c = CHR ''n'' then Some (JNull, r) else if c = CHR ''t'' then Some (JBool True, r)
         else if c = CHR ''f'' then Some (JBool False, r)
         else if c = CHR ''i'' then map_option (\<lambda>(i, t). (JInt i, t)) (dec_int r)
         else if c = CHR ''s'' then map_option (\<lambda>(x, t). (JStr x, t)) (dec_str r)
         else map_option (\<lambda>(xs, t). (JList (map JStr xs), t)) (items dec_str r))"

definition dec_pair :: "string \<Rightarrow> ((string \<times> json) \<times> string) option" where
  "dec_pair s = (case dec_str s of None \<Rightarrow> None
     | Some (k, t) \<Rightarrow> map_option (\<lambda>(v, u). ((k, v), u)) (dec_value t))"

definition node_codec :: codec where
  "node_codec = \<lparr>dumps = (\<lambda>j. case j of JObj kvs \<Rightarrow> enc_list (\<lambda>(k, v). enc_str k @ enc_value v) kvs | _ \<Rightarrow> ''''),
     loads = (\<lambda>s. case items dec_pair s of Some (kvs, []) \<Rightarrow> Some (JObj kvs) | _ \<Rightarrow> None),
     parse_iso = (\<lambda>s. map_option fst (dec_int s))\<rparr>"

lemma dec_list_enc:
  "(\<And>x r. x \<in> set xs \<Longrightarrow> p (e x @ r) = Some (x, r)) \<Longrightarrow> length xs < n \<Longrightarrow> dec_list p n (enc_list e xs @ r) = Some (xs, r)"
proof (induction xs arbitrary: n)
  case Nil
  then show ?case by (cases n) (simp_all add: enc_list_def)
next
  case (Cons x xs)
  then obtain m where m: "n = Suc m" "length xs < m" by (cases n) auto
  have "dec_list p m (enc_list e xs @ r) = Some (xs, r)" using Cons.IH [OF Cons.prems(1)] m(2) by simp
  then show ?case using m(1) Cons.prems(1) [of x] by (simp add: enc_list_def)
qed

lemma items_enc:
  assumes "\<And>x r. x \<in> set xs \<Longrightarrow> p (e x @ r) = Some (x, r)"
  shows "items p (enc_list e xs @ r) = Some (xs, r)"
proof -
  have "length xs < length (enc_list e xs @ r)" by (induction xs) (simp_all add: enc_list_def)
  with assms show ?thesis unfolding items_def by (rule dec_list_enc)
qed

lemma dec_str_enc: "dec_str (enc_str s @ r) = Some (s, r)"
  unfolding dec_str_def enc_str_def by (rule items_enc) simp

lemma dec_int_enc: "dec_int (enc_int i @ r) = Some (i, r)"
  by (simp add: dec_int_def enc_int_def items_enc)

lemma dec_value_enc: "plain_value v \<Longrightarrow> dec_value (enc_value v @ r) = Some (v, r)"
proof (cases v)
  case (JList js)
  assume "plain_value v"
  then obtain ss where ss: "js = map JStr ss"
    using JList by (induction js arbitrary: v) (auto simp: Cons_eq_map_conv split: json.splits)
  have "enc_list (\<lambda>j. case j of JStr s \<Rightarrow> enc_str s | _ \<Rightarrow> '''') js = enc_list enc_str ss"
    by (simp add: ss enc_list_def comp_def)
  then show ?thesis using JList by (simp add: dec_value_def ss items_enc dec_str_enc)
qed (simp_all add: dec_value_def dec_str_enc dec_int_enc)

lemma node_codec_reads: "reads node_codec node_codec"
  unfolding reads_def
proof (intro allI impI conjI)
  fix kvs assume m: "message kvs"
  have "items dec_pair (enc_list (\<lambda>(k, v). enc_str k @ enc_value v) kvs @ []) = Some (kvs, [])"
    using m by (intro items_enc) (auto simp: dec_pair_def dec_str_enc dec_value_enc message_def list_all_iff)
  then show "loads node_codec (dumps node_codec (JObj kvs)) = Some (JObj kvs)" by (simp add: node_codec_def)
  show "dumps node_codec (JObj kvs) \<noteq> ''''" by (simp add: node_codec_def enc_list_def)
qed

text \<open>Key pair \<open>i\<close> of the node is \<^verbatim>\<open>PKx..x\<close>, \<^verbatim>\<open>SKx..x\<close>.\<close>

definition demo_node_env :: "(string \<times> string list) list node_env" where
  "demo_node_env = \<lparr>ne_crypto = demo_crypto, ne_secret = ''s'', ne_skew = 60, ne_codec = node_codec, ne_iso = enc_int,
     ne_run = demo_wg, ne_config = demo_agent_cfg,
     ne_gen = (\<lambda>i. (''PK'' @ replicate i CHR ''x'', ''SK'' @ replicate i CHR ''x'')), ne_base = ''http://agent'', ne_clock = 10\<rparr>"

definition node_client :: wg_client where
  "node_client = demo_wg_client\<lparr>wg_codec := node_codec\<rparr>"

definition demo_node :: "(string \<times> string list) list vpn_node" where
  "demo_node = \<lparr>node_agent = \<lparr>store = [], os = []\<rparr>, node_drawn = 0\<rparr>"

lemma demo_paired: "paired demo_node_env node_client 10 (demo_server 1 WIREGUARD net load)"
proof -
  have iso: "parse_iso node_codec (enc_int t) = Some t \<and> enc_int t \<noteq> ''''" for t
    using dec_int_enc [of t "[]"] by (simp add: node_codec_def enc_int_def)
  have url: "rstrip_char CHR ''/'' ''http://agent'' = ''http://agent''" by code_simp
  show ?thesis
    using node_codec_reads
    by (simp add: paired_def demo_node_env_def node_client_def demo_wg_client_def demo_server_def url sign_hmac_def
        demo_crypto_def iso)
qed

lemma demo_node_ok: "node_ok demo_node_env node_client demo_node"
  using node_codec_reads
  by (simp add: node_ok_def demo_node_env_def node_client_def demo_node_def inj_def replicate_eq_replicate)

text \<open>A peer is created, disabled and deleted through the provider.\<close>

lemma provider_is_agent_witness:
  "\<exists>s1 s2 s3. let P = wireguard_provider (node_network demo_node_env) node_client 10;
       s = demo_server 1 WIREGUARD ''10.0.0.0/29'' 1; p = demo_peer 1 ''PK'' ''10.0.0.3/32'' in
     vp_create_peer P (demo_device 1 1 WIREGUARD) s ''10.0.0.3/32'' demo_node =
       (Inr (provisioned_by node_client s (''PK'', ''SK'') ''10.0.0.3/32''), s1) \<and>
     map_of (os (node_agent s1)) ''PK'' = Some [''10.0.0.3/32''] \<and>
     vp_disable_peer P p s s1 = (Inr (), s2) \<and> map_of (os (node_agent s2)) ''PK'' = None \<and>
     vp_delete_peer P p s s2 = (Inr (), s3) \<and> store (node_agent s3) = [] \<and>
     vp_enable_peer P p s s3 = (Inl (wg_unreachable s), s3)"
proof -
  let ?s = "demo_server 1 WIREGUARD ''10.0.0.0/29'' 1" and ?p = "demo_peer 1 ''PK'' ''10.0.0.3/32''"
  let ?r = "\<lparr>pr_public_key = ''PK'', pr_device_id = 1, pr_assigned_ip = ''10.0.0.3/32'', pr_enabled = True, pr_created_at = 10\<rparr>"
  let ?s1 = "\<lparr>node_agent = \<lparr>store = [?r], os = [(''PK'', [''10.0.0.3/32''])]\<rparr>, node_drawn = 1\<rparr>"
  let ?s2 = "\<lparr>node_agent = \<lparr>store = [?r\<lparr>pr_enabled := False\<rparr>], os = []\<rparr>, node_drawn = 1\<rparr>"
  let ?s3 = "\<lparr>node_agent = \<lparr>store = [], os = []\<rparr>, node_drawn = 1\<rparr>"
  note calls = provider_is_agent [OF demo_paired [of "''10.0.0.0/29''" 1]]
  have 1: "over_wire ?s (bindM (add_peer demo_wg demo_agent_cfg 10 ''PK'' 1 ''10.0.0.3/32'')
      (\<lambda>_. returnM (provisioned_by node_client ?s (''PK'', ''SK'') ''10.0.0.3/32''))) (demo_node\<lparr>node_drawn := 1\<rparr>) =
      (Inr (provisioned_by node_client ?s (''PK'', ''SK'') ''10.0.0.3/32''), ?s1)" by code_simp
  have 2: "over_wire ?s (guarded ''PK'' (disable_peer demo_wg demo_agent_cfg ''PK'')) ?s1 = (Inr (), ?s2)" by code_simp
  have 3: "over_wire ?s (remove_peer demo_wg demo_agent_cfg ''PK'') ?s2 = (Inr (), ?s3)" by code_simp
  have 4: "over_wire ?s (guarded ''PK'' (enable_peer demo_wg demo_agent_cfg ''PK'')) ?s3 = (Inl (wg_unreachable ?s), ?s3)" by code_simp
  have env: "ne_run demo_node_env = demo_wg" "ne_config demo_node_env = demo_agent_cfg" "ne_clock demo_node_env = 10"
    "ne_gen demo_node_env 0 = (''PK'', ''SK'')" "node_drawn demo_node = 0" "rid (demo_device 1 1 WIREGUARD) = 1"
    "peer_public_key ?p = ''PK''"
    by (simp_all add: demo_node_env_def demo_node_def demo_device_def demo_peer_def)
  let ?P = "wireguard_provider (node_network demo_node_env) node_client 10"
  have "vp_create_peer ?P (demo_device 1 1 WIREGUARD) ?s ''10.0.0.3/32'' demo_node =
      (Inr (provisioned_by node_client ?s (''PK'', ''SK'') ''10.0.0.3/32''), ?s1)"
    using calls [THEN conjunct1] 1 by (simp add: env)
  moreover have "vp_disable_peer ?P ?p ?s ?s1 = (Inr (), ?s2)"
    using calls [THEN conjunct2, THEN conjunct2, THEN conjunct1] 2 by (simp add: env)
  moreover have "vp_delete_peer ?P ?p ?s ?s2 = (Inr (), ?s3)"
    using calls [THEN conjunct2, THEN conjunct1] 3 by (simp add: env)
  moreover have "vp_enable_peer ?P ?p ?s ?s3 = (Inl (wg_unreachable ?s), ?s3)"
    using calls [THEN conjunct2, THEN conjunct2, THEN conjunct2, THEN conjunct1] 4 by (simp add: env)
  ultimately show ?thesis
    by (intro exI [of _ ?s1] exI [of _ ?s2] exI [of _ ?s3]) (simp add: Let_def)
qed

section \<open>Provisioning against a node\<close>

text \<open>C38: Provisioning that loses its address to a rival deletes the peer it had made before it tries the
  next address: of all attempts one fresh key remains on the node when a peer is returned, and none
  when the attempts are used up.\<close>

theorem retry_leaves_no_orphan:
  assumes "create_peer_with_retry E v s w = (r, w')" and "node_ok N c (remote w)"
    and "de_wg E = wireguard_provider (node_network N) c now"
  shows "case r of
      Inr (result, q) \<Rightarrow> peer_public_key q \<notin> node_keys (remote w) \<and>
        node_keys (remote w') = insert (peer_public_key q) (node_keys (remote w))
    | Inl e \<Rightarrow> e = allocation_conflict (rid s) \<longrightarrow> node_keys (remote w') = node_keys (remote w)"
  using node.retry_live [of E v s max_ip_allocation_attempts w r w' N c now] assms
  by (auto simp: create_peer_with_retry_def allocation_conflict_def app_error_def split: sum.splits option.splits)

text \<open>What provisioning has done on the node is not undone when it fails later: with a configuration
  too long for a QR code the request fails and the database is as before, but the node keeps
  the new peer, whose key no row of the database names.\<close>

theorem failed_provision_leaks_peer:
  assumes "provision E uid name requested WIREGUARD w = (Inr pd, w1)"
    and "pd_config_text pd = Some text" and "q text = None"
    and "node_ok N c (remote w)" and "de_wg E = wireguard_provider (node_network N) c now"
  shows "\<exists>w' k. with_session (provision (E\<lparr>de_qr := q\<rparr>) uid name requested WIREGUARD) w =
      (Inl (PyError ''DataOverflowError''), w') \<and> db w' = db w \<and>
      k \<notin> node_keys (remote w) \<and> node_keys (remote w') = insert k (node_keys (remote w))"
proof -
  have run: "with_session (provision (E\<lparr>de_qr := q\<rparr>) uid name requested WIREGUARD) w =
      (Inl (PyError ''DataOverflowError''), w1\<lparr>db := db w\<rparr>)"
    using provision_without_qr [OF assms(1,2), of q] assms(3) by (auto simp: with_session_Inl)
  show ?thesis
  proof (rule provision_wireguard_stages [OF assms(1)])
    fix s v d1 w2 url result p w3
    assume link: "link_device E v (w\<lparr>db := d1\<rparr>) = (Inr url, w2)"
      and peer: "create_peer_with_retry E v s w2 = (Inr (result, p), w3)" and w3: "remote w1 = remote w3"
    have "keeps remote (link_device E v)" unfolding link_device_def by (intro frame)
    from keepsD [OF this link] have same: "remote w2 = remote w" by simp
    then have "node_ok N c (remote w2)" using assms(4) by simp
    from node.retry_live [OF peer [unfolded create_peer_with_retry_def] this] assms(5)
    have "peer_public_key p \<notin> node_keys (remote w) \<and> node_keys (remote w1) = insert (peer_public_key p) (node_keys (remote w))"
      by (simp add: same w3)
    with run show ?thesis by auto
  qed
qed

definition node_device_env :: "(string \<times> string list) list vpn_node device_env" where
  "node_device_env = \<lparr>de_crypto = demo_crypto, de_settings = default_settings, de_now = 10,
     de_dns = demo_dns, de_wg = wireguard_provider (node_network demo_node_env) node_client 10,
     de_xray = \<lparr>xp_create_user = (\<lambda>_ _ _ _ w. (Inl (PyError ''unused''), w)), xp_remove_user = (\<lambda>_ _ w. (Inl (PyError ''unused''), w)),
       xp_rotate_user = (\<lambda>_ _ _ w. (Inl (PyError ''unused''), w)), xp_list_users = (\<lambda>_ w. (Inr [], w)),
       xp_health_check = (\<lambda>_ w. (Inr True, w))\<rparr>,
     de_qr = (\<lambda>s. Some ''qr''), de_token = ''tokZ'', de_uuid = ''uuid-1'',
     de_rivals = (\<lambda>n. if n = 4 then [demo_peer 7 ''rival'' ''10.0.0.3/32''] else [])\<rparr>"

text \<open>A rival takes 10.0.0.3 between the allocation and the insertion: the peer ends up with 10.0.0.4, and key pair 1.\<close>

lemma retry_leaves_no_orphan_witness:
  "case create_peer_with_retry node_device_env (demo_device 1 1 WIREGUARD) (demo_server 1 WIREGUARD ''10.0.0.0/29'' 1)
      \<lparr>db = demo_user_db, remote = demo_node\<rparr> of
     (Inr (result, q), w') \<Rightarrow> peer_public_key q = ''PKx'' \<and> peer_assigned_ip q = ''10.0.0.4/32'' \<and>
       node_keys (remote w') = {''PKx''}
   | _ \<Rightarrow> False"
proof -
  let ?run = "create_peer_with_retry node_device_env (demo_device 1 1 WIREGUARD) (demo_server 1 WIREGUARD ''10.0.0.0/29'' 1)
      \<lparr>db = demo_user_db, remote = demo_node\<rparr>"
  have "case ?run of (Inr (result, q), w') \<Rightarrow> peer_public_key q = ''PKx'' \<and> peer_assigned_ip q = ''10.0.0.4/32'' | _ \<Rightarrow> False"
    by code_simp
  then obtain result q w' where run: "?run = (Inr (result, q), w')" and q: "peer_public_key q = ''PKx''" "peer_assigned_ip q = ''10.0.0.4/32''"
    by (auto split: prod.splits sum.splits)
  have "node_keys demo_node = {}" by (simp add: node_keys_def demo_node_def)
  then have "node_keys (remote w') = {''PKx''}"
    using retry_leaves_no_orphan [OF run, of demo_node_env node_client 10] demo_node_ok q by (simp add: node_device_env_def)
  with run q show ?thesis by simp
qed

lemma failed_provision_leaks_peer_witness:
  "\<exists>w' k. with_session (provision (node_device_env\<lparr>de_qr := (\<lambda>_. None)\<rparr>) 1 ''laptop'' None WIREGUARD)
      \<lparr>db = demo_user_db, remote = demo_node\<rparr> = (Inl (PyError ''DataOverflowError''), w') \<and>
     db w' = demo_user_db \<and> node_keys (remote w') = {k}"
proof -
  let ?w = "\<lparr>db = demo_user_db, remote = demo_node\<rparr>"
  have "case provision node_device_env 1 ''laptop'' None WIREGUARD ?w of (Inr pd, w1) \<Rightarrow> pd_config_text pd \<noteq> None | _ \<Rightarrow> False"
    by code_simp
  then obtain pd w1 conf where run: "provision node_device_env 1 ''laptop'' None WIREGUARD ?w = (Inr pd, w1)"
    and conf: "pd_config_text pd = Some conf"
    by (auto split: prod.splits sum.splits)
  have "node_keys demo_node = {}" by (simp add: node_keys_def demo_node_def)
  with failed_provision_leaks_peer [OF run conf, of "\<lambda>_. None" demo_node_env node_client 10] demo_node_ok
  show ?thesis by (simp add: node_device_env_def)
qed

end
