(* ===== verification/XrayAgent.thy ===== *)
theory XrayAgent
  imports VpnAgent
begin

text \<open>
  The agent on a VLESS node (\<^verbatim>\<open>xray-agent/app/\<close>): its record of users (\<^verbatim>\<open>state/user_store.py\<close>), the
  client of Xray's gRPC interface (\<^verbatim>\<open>xray/handler_client.py\<close>), the reconciler
  (\<^verbatim>\<open>xray/reconciler.py\<close>) and the HTTP interface (\<^verbatim>\<open>api/users.py\<close>, \<^verbatim>\<open>api/health.py\<close>). The generated
  stub is a parameter: a request is answered with a response or a status code, and the Xray process
  is a state \<open>'w\<close>. The protocol buffers wire format is the stub's.
\<close>

section \<open>The user store\<close>

record user_record =
  ur_uuid :: string
  ur_device_id :: int
  ur_email :: string
  ur_flow :: string
  ur_enabled :: bool
  ur_created_at :: instant
  ur_rotated_at :: "instant option"

type_synonym user_store = "user_record list"

definition ustore_get :: "string \<Rightarrow> user_store \<Rightarrow> user_record option" where
  "ustore_get u st = find (\<lambda>r. ur_uuid r = u) st"

definition merge_user :: "user_record \<Rightarrow> user_record \<Rightarrow> user_record" where
  "merge_user old new = new\<lparr>ur_created_at := ur_created_at old, ur_rotated_at := ur_rotated_at old\<rparr>"

definition ustore_put :: "user_record \<Rightarrow> user_store \<Rightarrow> user_store" where
  "ustore_put new st =
     (if list_ex (\<lambda>r. ur_uuid r = ur_uuid new) st
      then map (\<lambda>r. if ur_uuid r = ur_uuid new then merge_user r new else r) st
      else st @ [new])"

definition ustore_delete :: "string \<Rightarrow> user_store \<Rightarrow> user_store" where
  "ustore_delete u st = filter (\<lambda>r. ur_uuid r \<noteq> u) st"

definition ustore_list_enabled :: "user_store \<Rightarrow> user_record list" where
  "ustore_list_enabled st = filter ur_enabled st"

text \<open>\<^verbatim>\<open>UserStore.upsert\<close>: the record it builds from the one already there, which it returns.\<close>

definition upsert_record ::
  "instant \<Rightarrow> string \<Rightarrow> int \<Rightarrow> string \<Rightarrow> string \<Rightarrow> instant option \<Rightarrow> user_store \<Rightarrow> user_record" where
  "upsert_record now u did email fl rotated st =
     (let existing = ustore_get u st in
      \<lparr>ur_uuid = u, ur_device_id = did, ur_email = email, ur_flow = fl, ur_enabled = True,
       ur_created_at = (case existing of None \<Rightarrow> now | Some r \<Rightarrow> ur_created_at r),
       ur_rotated_at = (case (rotated, existing) of
          (None, Some r) \<Rightarrow> ur_rotated_at r | _ \<Rightarrow> rotated)\<rparr>)"

lemma ustore_get_put:
  "ustore_get k (ustore_put new st) =
     (if k = ur_uuid new
      then Some (case ustore_get k st of None \<Rightarrow> new | Some old \<Rightarrow> merge_user old new)
      else ustore_get k st)"
proof (cases "list_ex (\<lambda>r. ur_uuid r = ur_uuid new) st")
  case True
  have "ustore_get k (map (\<lambda>r. if ur_uuid r = ur_uuid new then merge_user r new else r) st) =
      (if k = ur_uuid new then map_option (\<lambda>r. merge_user r new) (ustore_get k st) else ustore_get k st)"
    unfolding ustore_get_def by (induction st) (auto simp: merge_user_def)
  moreover have "ustore_get (ur_uuid new) st \<noteq> None"
    using True by (auto simp: ustore_get_def find_None_iff list_ex_iff)
  ultimately show ?thesis using True by (auto simp: ustore_put_def)
next
  case False
  then have "ustore_get (ur_uuid new) st = None" by (auto simp: ustore_get_def find_None_iff list_ex_iff)
  with False show ?thesis
    by (auto simp: ustore_put_def ustore_get_def find_append split: option.split)
qed

lemma ustore_get_delete: "ustore_get k (ustore_delete u st) = (if k = u then None else ustore_get k st)"
  by (induction st) (auto simp: ustore_get_def ustore_delete_def)

lemma ustore_get_key: "ustore_get k st = Some r \<Longrightarrow> ur_uuid r = k \<and> r \<in> set st"
  unfolding ustore_get_def by (drule find_Some_in) simp

interpretation user_store: keyed_store ustore_get ustore_put ustore_delete ur_uuid merge_user
  by unfold_locales (auto simp: ustore_get_put ustore_get_delete dest: ustore_get_key)

section \<open>The gRPC client\<close>

record xray_account =
  acc_id :: string
  acc_flow :: string
  acc_encryption :: string

datatype xray_operation =
    AddUserOperation int string xray_account       \<comment> \<open>level, e-mail, account\<close>
  | RemoveUserOperation string

datatype grpc_request =
    AlterInbound string xray_operation
  | GetInboundUsers string string
  | GetInboundUsersCount string string

record grpc_response =
  resp_users :: "string list"                      \<comment> \<open>the e-mails of the users listed\<close>
  resp_count :: int

type_synonym 'w stub = "grpc_request \<Rightarrow> 'w \<Rightarrow> (string + grpc_response) \<times> 'w"

definition grpc_call :: "'w stub \<Rightarrow> string \<Rightarrow> grpc_request \<Rightarrow> ('w, agent_exn, grpc_response) comp" where
  "grpc_call stub operation req w =
     (case stub req w of
        (Inl status, w') \<Rightarrow>
          (Inl (CommandError (''Xray gRPC call '' @ [CHR 0x27] @ operation @ [CHR 0x27] @ '' failed: '' @ status)), w')
      | (Inr resp, w') \<Rightarrow> (Inr resp, w'))"

definition xray_add_user :: "'w stub \<Rightarrow> string \<Rightarrow> string \<Rightarrow> string \<Rightarrow> string \<Rightarrow> ('w, agent_exn, unit) comp" where
  "xray_add_user stub tag u email fl =
     bindM (grpc_call stub ''add_user'' (AlterInbound tag
       (AddUserOperation 0 email \<lparr>acc_id = u, acc_flow = fl, acc_encryption = ''none''\<rparr>))) (\<lambda>_. returnM ())"

definition xray_remove_user :: "'w stub \<Rightarrow> string \<Rightarrow> string \<Rightarrow> ('w, agent_exn, unit) comp" where
  "xray_remove_user stub tag email =
     bindM (grpc_call stub ''remove_user'' (AlterInbound tag (RemoveUserOperation email))) (\<lambda>_. returnM ())"

definition xray_list_emails :: "'w stub \<Rightarrow> string \<Rightarrow> ('w, agent_exn, string list) comp" where
  "xray_list_emails stub tag =
     bindM (grpc_call stub ''list_users'' (GetInboundUsers tag '''')) (\<lambda>r. returnM (resp_users r))"

definition xray_count_users :: "'w stub \<Rightarrow> string \<Rightarrow> ('w, agent_exn, int) comp" where
  "xray_count_users stub tag =
     bindM (grpc_call stub ''count_users'' (GetInboundUsersCount tag '''')) (\<lambda>r. returnM (resp_count r))"

section \<open>The reconciler\<close>

record 'w xray_agent =
  ustore :: user_store
  xray :: 'w
  last_reconciliation :: "instant option"

record xray_config =
  inbound_tag :: string
  xapply_live :: bool

type_synonym ('w, 'a) xrayM = "('w xray_agent, agent_exn, 'a) comp"

definition on_xray :: "('w, agent_exn, 'a) comp \<Rightarrow> ('w, 'a) xrayM" where
  "on_xray = zoomM xray (\<lambda>w s. s\<lparr>xray := w\<rparr>)"

definition on_ustore :: "(user_store \<Rightarrow> user_store) \<Rightarrow> ('w, unit) xrayM" where
  "on_ustore f = modifyM (\<lambda>s. s\<lparr>ustore := f (ustore s)\<rparr>)"

definition email_for_device :: "int \<Rightarrow> string" where
  "email_for_device did = ''device-'' @ int_str did"

definition xadd_user ::
  "'w stub \<Rightarrow> xray_config \<Rightarrow> instant \<Rightarrow> string \<Rightarrow> int \<Rightarrow> string \<Rightarrow> ('w, user_record) xrayM" where
  "xadd_user stub cfg now u did fl =
     (let email = email_for_device did in
      bindM (getM (\<lambda>s. upsert_record now u did email fl None (ustore s))) (\<lambda>record.
      bindM (on_ustore (ustore_put record)) (\<lambda>_.
      bindM (whenM (xapply_live cfg)
        (on_xray (bindM (xray_list_emails stub (inbound_tag cfg)) (\<lambda>live.
           whenM (email \<notin> set live) (xray_add_user stub (inbound_tag cfg) u email fl))))) (\<lambda>_.
      returnM record))))"

definition xremove_user :: "'w stub \<Rightarrow> xray_config \<Rightarrow> string \<Rightarrow> ('w, unit) xrayM" where
  "xremove_user stub cfg u =
     bindM (getM (\<lambda>s. ustore_get u (ustore s))) (\<lambda>found.
       case found of
         None \<Rightarrow> returnM ()
       | Some r \<Rightarrow>
           bindM (whenM (xapply_live cfg) (on_xray (xray_remove_user stub (inbound_tag cfg) (ur_email r)))) (\<lambda>_.
           on_ustore (ustore_delete u)))"

definition xrotate_user ::
  "'w stub \<Rightarrow> xray_config \<Rightarrow> instant \<Rightarrow> string \<Rightarrow> string \<Rightarrow> ('w, user_record option) xrayM" where
  "xrotate_user stub cfg now u new =
     bindM (getM (\<lambda>s. ustore_get u (ustore s))) (\<lambda>found.
       case found of
         None \<Rightarrow> returnM None
       | Some old \<Rightarrow>
           bindM (whenM (xapply_live cfg) (on_xray (xray_remove_user stub (inbound_tag cfg) (ur_email old)))) (\<lambda>_.
           bindM (on_ustore (ustore_delete u)) (\<lambda>_.
           bindM (getM (\<lambda>s. upsert_record now new (ur_device_id old) (ur_email old) (ur_flow old) (Some now) (ustore s))) (\<lambda>record.
           bindM (on_ustore (ustore_put record)) (\<lambda>_.
           bindM (whenM (xapply_live cfg)
             (on_xray (xray_add_user stub (inbound_tag cfg) new (ur_email old) (ur_flow old)))) (\<lambda>_.
           returnM (Some record)))))))"

definition count_live_users :: "'w stub \<Rightarrow> xray_config \<Rightarrow> ('w, int) xrayM" where
  "count_live_users stub cfg = on_xray (xray_count_users stub (inbound_tag cfg))"

text \<open>
  The dictionary by e-mail: keys in the order of their first record, the last record of an e-mail as
  its value. Sets are iterated in the order in which Xray lists the users.
\<close>

definition desired_emails :: "user_store \<Rightarrow> string list" where
  "desired_emails st = rev (remdups (rev (map ur_email (ustore_list_enabled st))))"

definition desired_record :: "user_store \<Rightarrow> string \<Rightarrow> user_record option" where
  "desired_record st email = map_of (rev (map (\<lambda>r. (ur_email r, r)) (ustore_list_enabled st))) email"

definition add_missing :: "'w stub \<Rightarrow> string \<Rightarrow> user_store \<Rightarrow> string list \<Rightarrow> ('w, agent_exn, unit) comp" where
  "add_missing stub tag st emails =
     foreachM emails (\<lambda>e. case desired_record st e of
        None \<Rightarrow> returnM ()
      | Some r \<Rightarrow> xray_add_user stub tag (ur_uuid r) e (ur_flow r))"

definition remove_surplus :: "'w stub \<Rightarrow> string \<Rightarrow> string list \<Rightarrow> ('w, agent_exn, unit) comp" where
  "remove_surplus stub tag emails = foreachM emails (xray_remove_user stub tag)"

definition reconcile ::
  "'w stub \<Rightarrow> xray_config \<Rightarrow> instant \<Rightarrow> ('w, string list \<times> string list) xrayM" where
  "reconcile stub cfg now =
     (if \<not> xapply_live cfg
      then bindM (modifyM (\<lambda>s. s\<lparr>last_reconciliation := Some now\<rparr>)) (\<lambda>_. returnM ([], []))
      else bindM (getM ustore) (\<lambda>st.
        bindM (on_xray (xray_list_emails stub (inbound_tag cfg))) (\<lambda>live.
        let added = filter (\<lambda>e. e \<notin> set live) (desired_emails st);
            removed = filter (\<lambda>e. e \<notin> set (desired_emails st)) (remdups live) in
        bindM (on_xray (add_missing stub (inbound_tag cfg) st added)) (\<lambda>_.
        bindM (on_xray (remove_surplus stub (inbound_tag cfg) removed)) (\<lambda>_.
        bindM (modifyM (\<lambda>s. s\<lparr>last_reconciliation := Some now\<rparr>)) (\<lambda>_.
        returnM (added, removed)))))))"

text \<open>One turn of the background loop: a failed cycle is logged and dropped.\<close>

definition periodic_cycle :: "'w stub \<Rightarrow> xray_config \<Rightarrow> instant \<Rightarrow> ('w, unit) xrayM" where
  "periodic_cycle stub cfg now =
     catchM (bindM (reconcile stub cfg now) (\<lambda>_. returnM ())) (\<lambda>_. returnM ())"

section \<open>The HTTP interface\<close>

datatype xray_request =
    CreateUser string int string
  | DeleteUser string
  | RotateUser string string
  | ListUsers

datatype user_body = UserBody string int string instant "instant option"

definition user_response :: "user_record \<Rightarrow> user_body" where
  "user_response r = UserBody (ur_uuid r) (ur_device_id r) (ur_flow r) (ur_created_at r) (ur_rotated_at r)"

datatype xray_response = UserCreated user_body | UserDeleted | UserRotated user_body | UserList "user_body list"

text \<open>\<^verbatim>\<open>except XrayCommandError\<close>: the caller gets a 502; any other exception passes through.\<close>

definition bad_gateway :: "('w, 'a) xrayM \<Rightarrow> ('w, 'a) xrayM" where
  "bad_gateway m = catchM m (\<lambda>e. case e of CommandError msg \<Rightarrow> raiseM (HttpError 502 msg) | _ \<Rightarrow> raiseM e)"

fun handle_users :: "'w stub \<Rightarrow> xray_config \<Rightarrow> instant \<Rightarrow> xray_request \<Rightarrow> ('w, xray_response) xrayM" where
  "handle_users stub cfg now (CreateUser u did fl) =
     bindM (bad_gateway (xadd_user stub cfg now u did fl)) (\<lambda>r. returnM (UserCreated (user_response r)))"
| "handle_users stub cfg now (DeleteUser u) =
     bindM (bad_gateway (xremove_user stub cfg u)) (\<lambda>_. returnM UserDeleted)"
| "handle_users stub cfg now (RotateUser u new) =
     bindM (bad_gateway (xrotate_user stub cfg now u new)) (\<lambda>found.
       case found of
         None \<Rightarrow> raiseM (HttpError 404 ''User not found'')
       | Some r \<Rightarrow> returnM (UserRotated (user_response r)))"
| "handle_users stub cfg now ListUsers =
     bindM (getM ustore) (\<lambda>st. returnM (UserList (map user_response st)))"

definition xray_reachable :: "'w stub \<Rightarrow> xray_config \<Rightarrow> ('w, bool) xrayM" where
  "xray_reachable stub cfg =
     (if \<not> xapply_live cfg then returnM True
      else catchM (bindM (count_live_users stub cfg) (\<lambda>_. returnM True))
        (\<lambda>e. case e of CommandError _ \<Rightarrow> returnM False | _ \<Rightarrow> raiseM e))"

definition xray_ready :: "'w stub \<Rightarrow> xray_config \<Rightarrow> ('w, string \<times> bool) xrayM" where
  "xray_ready stub cfg =
     bindM (xray_reachable stub cfg) (\<lambda>ok. returnM (if ok then ''ready'' else ''degraded'', ok))"

record status_body =
  st_status :: string
  st_reachable :: bool
  st_active :: int
  st_live :: "int option"
  st_last :: "instant option"

definition get_status :: "'w stub \<Rightarrow> xray_config \<Rightarrow> ('w, status_body) xrayM" where
  "get_status stub cfg =
     bindM (getM (\<lambda>s. ustore_list_enabled (ustore s))) (\<lambda>desired.
     bindM (xray_reachable stub cfg) (\<lambda>ok.
     bindM (if ok then catchM (bindM (count_live_users stub cfg) (\<lambda>n. returnM (Some n)))
                    (\<lambda>e. case e of CommandError _ \<Rightarrow> returnM None | _ \<Rightarrow> raiseM e)
            else returnM None) (\<lambda>live.
     bindM (getM last_reconciliation) (\<lambda>last_at.
     returnM \<lparr>st_status = (if ok then ''ready'' else ''degraded''), st_reachable = ok,
       st_active = int (length desired), st_live = live, st_last = last_at\<rparr>))))"

section \<open>Lemmas\<close>

text \<open>
  What Xray documents, with \<open>live w e\<close> the identifier and flow of the user with e-mail \<open>e\<close> on the inbound: a
  successful addition or removal changes that e-mail only, and the listing names the users that are live.
\<close>

type_synonym 'w users_live = "'w \<Rightarrow> string \<Rightarrow> (string \<times> string) option"

definition xray_documented :: "'w stub \<Rightarrow> 'w users_live \<Rightarrow> string \<Rightarrow> bool" where
  "xray_documented stub live tag \<longleftrightarrow>
     (\<forall>lvl e acc w r w'. stub (AlterInbound tag (AddUserOperation lvl e acc)) w = (Inr r, w') \<longrightarrow>
        live w' = (live w)(e \<mapsto> (acc_id acc, acc_flow acc))) \<and>
     (\<forall>e w r w'. stub (AlterInbound tag (RemoveUserOperation e)) w = (Inr r, w') \<longrightarrow>
        live w' = (live w)(e := None)) \<and>
     (\<forall>w r w'. stub (GetInboundUsers tag '''') w = (Inr r, w') \<longrightarrow>
        live w' = live w \<and> set (resp_users r) = dom (live w)) \<and>
     (\<forall>w r w'. stub (GetInboundUsersCount tag '''') w = (r, w') \<longrightarrow> live w' = live w)"

lemma grpc_call_Inr: "grpc_call stub op req w = (Inr r, w') \<longleftrightarrow> stub req w = (Inr r, w')"
  by (auto simp: grpc_call_def split: prod.splits sum.splits)

lemma xadd_live:
  "xray_documented stub live tag \<Longrightarrow> xray_add_user stub tag u e fl w = (Inr x, w') \<Longrightarrow>
     live w' = (live w)(e \<mapsto> (u, fl))"
  by (auto simp: xray_add_user_def bindM_eq_Inr_iff grpc_call_Inr xray_documented_def)

lemma xremove_live:
  "xray_documented stub live tag \<Longrightarrow> xray_remove_user stub tag e w = (Inr x, w') \<Longrightarrow>
     live w' = (live w)(e := None)"
  by (auto simp: xray_remove_user_def bindM_eq_Inr_iff grpc_call_Inr xray_documented_def)

lemma xlist_live:
  "xray_documented stub live tag \<Longrightarrow> xray_list_emails stub tag w = (Inr es, w') \<Longrightarrow>
     live w' = live w \<and> set es = dom (live w)"
  by (auto simp: xray_list_emails_def bindM_eq_Inr_iff grpc_call_Inr xray_documented_def)

lemma on_xray_Inr: "on_xray m s = (Inr x, s') \<longleftrightarrow> (\<exists>w. m (xray s) = (Inr x, w) \<and> s' = s\<lparr>xray := w\<rparr>)"
  by (simp add: on_xray_def zoomM_eq_Inr_iff)

lemma bad_gateway_Inr: "bad_gateway m s = (Inr x, s') \<longleftrightarrow> m s = (Inr x, s')"
  by (auto simp: bad_gateway_def catchM_def split: prod.splits sum.splits agent_exn.splits)

lemma set_desired_emails: "set (desired_emails st) = ur_email ` {r \<in> set st. ur_enabled r}"
  by (auto simp: desired_emails_def ustore_list_enabled_def)

lemma desired_record_dom: "(desired_record st e \<noteq> None) = (e \<in> set (desired_emails st))"
proof -
  have "dom (map_of (rev (map (\<lambda>r. (ur_email r, r)) rs))) = ur_email ` set rs" for rs
    by (simp add: dom_map_of_conv_image_fst image_image)
  then show ?thesis
    by (auto simp: desired_record_def desired_emails_def domIff set_eq_iff)
qed

lemma desired_record_mem: "desired_record st e = Some r \<Longrightarrow> r \<in> set st \<and> ur_enabled r \<and> ur_email r = e"
  by (auto simp: desired_record_def ustore_list_enabled_def dest!: map_of_SomeD)

lemma add_missing_live:
  assumes "xray_documented stub live tag" and "add_missing stub tag st es w = (Inr x, w')"
    and "set es \<subseteq> set (desired_emails st)"
  shows "live w' = (\<lambda>e. if e \<in> set es then map_option (\<lambda>r. (ur_uuid r, ur_flow r)) (desired_record st e) else live w e)"
  using assms(2,3) unfolding add_missing_def
proof (induction es arbitrary: w)
  case (Cons e es)
  then obtain r where r: "desired_record st e = Some r" using desired_record_dom [of st e] by auto
  with Cons.prems obtain w1 where 1: "xray_add_user stub tag (ur_uuid r) e (ur_flow r) w = (Inr (), w1)"
    and 2: "foreachM es (\<lambda>e. case desired_record st e of None \<Rightarrow> returnM ()
        | Some r \<Rightarrow> xray_add_user stub tag (ur_uuid r) e (ur_flow r)) w1 = (Inr x, w')"
    by (auto simp: bindM_eq_Inr_iff)
  have "live w1 = (live w)(e \<mapsto> (ur_uuid r, ur_flow r))" by (rule xadd_live [OF assms(1) 1])
  with Cons.IH [OF 2] Cons.prems(2) r show ?case by (auto simp: fun_eq_iff)
qed auto

lemma remove_surplus_live:
  assumes "xray_documented stub live tag" and "remove_surplus stub tag es w = (Inr x, w')"
  shows "live w' = (\<lambda>e. if e \<in> set es then None else live w e)"
  using assms(2) unfolding remove_surplus_def
proof (induction es arbitrary: w)
  case (Cons e es)
  then obtain w1 where 1: "xray_remove_user stub tag e w = (Inr (), w1)"
    and 2: "foreachM es (xray_remove_user stub tag) w1 = (Inr x, w')"
    by (auto simp: bindM_eq_Inr_iff)
  with Cons.IH [OF 2] xremove_live [OF assms(1) 1] show ?case by (auto simp: fun_eq_iff)
qed auto

text \<open>The e-mails the store wants live.\<close>

definition wanted :: "user_store \<Rightarrow> string set" where
  "wanted st = ur_email ` {r \<in> set st. ur_enabled r}"

lemma reconcile_run:
  assumes "xapply_live cfg" and "reconcile stub cfg now s = (Inr (added, removed), s1)"
  obtains es w0 w1 w2 where "xray_list_emails stub (inbound_tag cfg) (xray s) = (Inr es, w0)"
    and "added = filter (\<lambda>e. e \<notin> set es) (desired_emails (ustore s))"
    and "removed = filter (\<lambda>e. e \<notin> set (desired_emails (ustore s))) (remdups es)"
    and "add_missing stub (inbound_tag cfg) (ustore s) added w0 = (Inr (), w1)"
    and "remove_surplus stub (inbound_tag cfg) removed w1 = (Inr (), w2)"
    and "s1 = s\<lparr>xray := w2, last_reconciliation := Some now\<rparr>"
  using assms by (auto simp: reconcile_def bindM_eq_Inr_iff on_xray_Inr Let_def)

lemma desired_record_wanted:
  "e \<in> wanted st \<Longrightarrow> \<exists>q \<in> set st. ur_email q = e \<and> desired_record st e = Some q"
  using desired_record_dom [of st e] desired_record_mem [of st e]
  by (cases "desired_record st e") (auto simp: wanted_def set_desired_emails)

lemma reconcile_live:
  assumes "xray_documented stub live (inbound_tag cfg)" and "xapply_live cfg"
    and "reconcile stub cfg now s = (Inr (added, removed), s1)"
  shows "ustore s1 = ustore s \<and> set added = wanted (ustore s) - dom (live (xray s)) \<and>
    set removed = dom (live (xray s)) - wanted (ustore s) \<and>
    live (xray s1) = (\<lambda>e. if e \<notin> wanted (ustore s) then None
      else if e \<in> dom (live (xray s)) then live (xray s) e
      else map_option (\<lambda>r. (ur_uuid r, ur_flow r)) (desired_record (ustore s) e))"
proof -
  from reconcile_run [OF assms(2,3)] obtain es w0 w1 w2
    where l: "xray_list_emails stub (inbound_tag cfg) (xray s) = (Inr es, w0)"
    and ar: "added = filter (\<lambda>e. e \<notin> set es) (desired_emails (ustore s))"
      "removed = filter (\<lambda>e. e \<notin> set (desired_emails (ustore s))) (remdups es)"
    and a: "add_missing stub (inbound_tag cfg) (ustore s) added w0 = (Inr (), w1)"
    and r: "remove_surplus stub (inbound_tag cfg) removed w1 = (Inr (), w2)"
    and s1: "s1 = s\<lparr>xray := w2, last_reconciliation := Some now\<rparr>" .
  note es = xlist_live [OF assms(1) l]
  have sets: "set added = wanted (ustore s) - dom (live (xray s))"
    "set removed = dom (live (xray s)) - wanted (ustore s)"
    using es by (auto simp: ar set_desired_emails wanted_def)
  have sub: "set added \<subseteq> set (desired_emails (ustore s))" by (auto simp: ar)
  have "live w2 = (\<lambda>e. if e \<notin> wanted (ustore s) then None
      else if e \<in> dom (live (xray s)) then live (xray s) e
      else map_option (\<lambda>r. (ur_uuid r, ur_flow r)) (desired_record (ustore s) e))"
    unfolding remove_surplus_live [OF assms(1) r] add_missing_live [OF assms(1) a sub] sets
    using es by (auto simp: fun_eq_iff)
  with sets show ?thesis by (simp add: s1)
qed

section \<open>Properties\<close>

text \<open>C20: A reconciliation that completes makes the e-mails live on the inbound exactly those of the stored users:
  missing ones are added with the identifier and flow of their record, surplus ones removed, users live
  already keep their identifier, the store is unchanged and the result names what was done. Run again it
  does nothing.\<close>

theorem reconcile_converges:
  assumes "xray_documented stub live (inbound_tag cfg)" and "xapply_live cfg"
    and "reconcile stub cfg now s = (Inr (added, removed), s1)"
  shows "ustore s1 = ustore s \<and> dom (live (xray s1)) = wanted (ustore s) \<and>
    set added = wanted (ustore s) - dom (live (xray s)) \<and>
    set removed = dom (live (xray s)) - wanted (ustore s) \<and>
    (\<forall>e \<in> wanted (ustore s). if e \<in> dom (live (xray s)) then live (xray s1) e = live (xray s) e
       else \<exists>r \<in> set (ustore s). ur_email r = e \<and> live (xray s1) e = Some (ur_uuid r, ur_flow r)) \<and>
    (\<forall>later a2 r2 s2. reconcile stub cfg later s1 = (Inr (a2, r2), s2) \<longrightarrow>
       a2 = [] \<and> r2 = [] \<and> live (xray s2) = live (xray s1) \<and> ustore s2 = ustore s1)"
proof -
  note one = reconcile_live [OF assms]
  have rec: "\<exists>q \<in> set (ustore s). ur_email q = e \<and> desired_record (ustore s) e = Some q"
    if "e \<in> wanted (ustore s)" for e by (rule desired_record_wanted [OF that])
  have live1: "live (xray s1) e = (if e \<notin> wanted (ustore s) then None
      else if e \<in> dom (live (xray s)) then live (xray s) e
      else map_option (\<lambda>r. (ur_uuid r, ur_flow r)) (desired_record (ustore s) e))" for e
    using one by simp
  have "e \<in> dom (live (xray s1)) \<longleftrightarrow> e \<in> wanted (ustore s)" for e
    using rec [of e] by (auto simp: domIff live1)
  then have dom: "dom (live (xray s1)) = wanted (ustore s)" by blast
  have vals: "if e \<in> dom (live (xray s)) then live (xray s1) e = live (xray s) e
       else \<exists>r \<in> set (ustore s). ur_email r = e \<and> live (xray s1) e = Some (ur_uuid r, ur_flow r)"
    if "e \<in> wanted (ustore s)" for e
    using that rec [OF that] by (auto simp: live1)
  have again: "a2 = [] \<and> r2 = [] \<and> live (xray s2) = live (xray s1) \<and> ustore s2 = ustore s1"
    if "reconcile stub cfg later s1 = (Inr (a2, r2), s2)" for later a2 r2 s2
  proof -
    note two = reconcile_live [OF assms(1,2) that]
    have "live (xray s2) e = live (xray s1) e" for e
      using two one dom by (auto simp: domIff)
    then show ?thesis using two one dom by auto
  qed
  from one dom vals again show ?thesis by blast
qed

text \<open>A stand-in for Xray, used only by the examples: the process state lists the live users, adding one
  that is live or removing one that is not fails, and with no list at all Xray is down.\<close>

definition demo_xray :: "((string \<times> string \<times> string) list option) stub" where
  "demo_xray req w =
     (case w of
        None \<Rightarrow> (Inl ''UNAVAILABLE'', w)
      | Some us \<Rightarrow>
          (case req of
             AlterInbound tag (AddUserOperation lvl e acc) \<Rightarrow>
               if map_of us e \<noteq> None then (Inl ''UNKNOWN'', w)
               else (Inr \<lparr>resp_users = [], resp_count = 0\<rparr>, Some ((e, acc_id acc, acc_flow acc) # us))
           | AlterInbound tag (RemoveUserOperation e) \<Rightarrow>
               if map_of us e = None then (Inl ''UNKNOWN'', w)
               else (Inr \<lparr>resp_users = [], resp_count = 0\<rparr>, Some (filter (\<lambda>u. fst u \<noteq> e) us))
           | GetInboundUsers tag e \<Rightarrow> (Inr \<lparr>resp_users = map fst us, resp_count = 0\<rparr>, w)
           | GetInboundUsersCount tag e \<Rightarrow> (Inr \<lparr>resp_users = [], resp_count = int (length us)\<rparr>, w)))"

definition demo_users_live :: "((string \<times> string \<times> string) list option) users_live" where
  "demo_users_live w = (case w of None \<Rightarrow> Map.empty | Some us \<Rightarrow> map_of us)"

lemma demo_xray_documented: "xray_documented demo_xray demo_users_live tag"
proof -
  have "map_of (filter (\<lambda>p. fst p \<noteq> e) us) = (map_of us)(e := None)" for e and us :: "(string \<times> string \<times> string) list"
    by (induction us) auto
  then show ?thesis
    by (auto simp: xray_documented_def demo_xray_def demo_users_live_def dom_map_of_conv_image_fst
        split: option.splits if_splits)
qed

definition demo_xray_cfg :: xray_config where
  "demo_xray_cfg = \<lparr>inbound_tag = ''in'', xapply_live = True\<rparr>"

definition demo_user_record :: "string \<Rightarrow> int \<Rightarrow> user_record" where
  "demo_user_record u did = \<lparr>ur_uuid = u, ur_device_id = did, ur_email = email_for_device did, ur_flow = ''f'',
     ur_enabled = True, ur_created_at = 0, ur_rotated_at = None\<rparr>"

text \<open>After a restart of Xray the stored user is missing and a forgotten one is live.\<close>

definition demo_drifted :: "((string \<times> string \<times> string) list option) xray_agent" where
  "demo_drifted = \<lparr>ustore = [demo_user_record ''u1'' 1], xray = Some [(''device-9'', ''u9'', ''f'')], last_reconciliation = None\<rparr>"

lemma reconcile_converges_witness:
  "case reconcile demo_xray demo_xray_cfg 5 demo_drifted of
     (Inr (added, removed), s1) \<Rightarrow> set added = {''device-1''} \<and> set removed = {''device-9''} \<and>
        dom (demo_users_live (xray s1)) = {''device-1''}
   | _ \<Rightarrow> False"
proof -
  have "case reconcile demo_xray demo_xray_cfg 5 demo_drifted of (Inr _, _) \<Rightarrow> True | _ \<Rightarrow> False" by code_simp
  then obtain a r s1 where run: "reconcile demo_xray demo_xray_cfg 5 demo_drifted = (Inr (a, r), s1)"
    by (auto split: prod.splits sum.splits)
  have "xapply_live demo_xray_cfg" by (simp add: demo_xray_cfg_def)
  note c = reconcile_converges [OF demo_xray_documented this run]
  have "email_for_device 1 = ''device-1''" by code_simp
  then have "wanted (ustore demo_drifted) = {''device-1''}"
    by (simp add: wanted_def demo_drifted_def demo_user_record_def Collect_conv_if)
  moreover have "dom (demo_users_live (xray demo_drifted)) = {''device-9''}"
    by (simp add: demo_drifted_def demo_users_live_def)
  moreover have "dom (demo_users_live (xray s1)) = wanted (ustore demo_drifted)"
    "set a = wanted (ustore demo_drifted) - dom (demo_users_live (xray demo_drifted))"
    "set r = dom (demo_users_live (xray demo_drifted)) - wanted (ustore demo_drifted)"
    using c by blast+
  ultimately show ?thesis unfolding run by simp
qed

text \<open>Creating a user is idempotent while it is live: a second successful request for the same identifier, device
  and flow returns the same record and changes neither the store nor the inbound.\<close>

theorem create_user_idempotent:
  assumes "xray_documented stub live (inbound_tag cfg)" and "xapply_live cfg"
    and "handle_users stub cfg now (CreateUser u did fl) s = (Inr resp1, s1)"
    and "handle_users stub cfg later (CreateUser u did fl) s1 = (Inr resp2, s2)"
  shows "resp2 = resp1 \<and> (\<forall>k. ustore_get k (ustore s2) = ustore_get k (ustore s1)) \<and> live (xray s2) = live (xray s1) \<and>
    live (xray s1) (email_for_device did) \<noteq> None \<and>
    (\<forall>r. ustore_get u (ustore s) = Some r \<longrightarrow> resp1 = UserCreated (UserBody u did fl (ur_created_at r) (ur_rotated_at r)))"
proof -
  let ?e = "email_for_device did"
  have run: "\<exists>w es w1. t' = t\<lparr>ustore := ustore_put (upsert_record n u did ?e fl None (ustore t)) (ustore t), xray := w\<rparr> \<and>
      resp = UserCreated (user_response (upsert_record n u did ?e fl None (ustore t))) \<and>
      xray_list_emails stub (inbound_tag cfg) (xray t) = (Inr es, w1) \<and>
      (if ?e \<in> set es then w = w1 else xray_add_user stub (inbound_tag cfg) u ?e fl w1 = (Inr (), w))"
    if "handle_users stub cfg n (CreateUser u did fl) t = (Inr resp, t')" for n t resp t'
    using that assms(2)
    by (auto simp: bindM_eq_Inr_iff bad_gateway_Inr xadd_user_def Let_def on_ustore_def on_xray_Inr whenM_eq_Inr_iff
        split: if_splits)
  from run [OF assms(3)] obtain w es w1
    where s1: "s1 = s\<lparr>ustore := ustore_put (upsert_record now u did ?e fl None (ustore s)) (ustore s), xray := w\<rparr>"
    and resp1: "resp1 = UserCreated (user_response (upsert_record now u did ?e fl None (ustore s)))"
    and l: "xray_list_emails stub (inbound_tag cfg) (xray s) = (Inr es, w1)"
    and a: "if ?e \<in> set es then w = w1 else xray_add_user stub (inbound_tag cfg) u ?e fl w1 = (Inr (), w)" by blast
  from run [OF assms(4)] obtain v es2 v1
    where s2: "s2 = s1\<lparr>ustore := ustore_put (upsert_record later u did ?e fl None (ustore s1)) (ustore s1), xray := v\<rparr>"
    and resp2: "resp2 = UserCreated (user_response (upsert_record later u did ?e fl None (ustore s1)))"
    and l2: "xray_list_emails stub (inbound_tag cfg) (xray s1) = (Inr es2, v1)"
    and a2: "if ?e \<in> set es2 then v = v1 else xray_add_user stub (inbound_tag cfg) u ?e fl v1 = (Inr (), v)" by blast
  let ?new = "upsert_record now u did ?e fl None (ustore s)"
  have live_e: "live w ?e \<noteq> None"
    using xlist_live [OF assms(1) l] a by (auto dest!: xadd_live [OF assms(1)] split: if_splits)
  then have "?e \<in> set es2" using xlist_live [OF assms(1) l2] by (auto simp: s1)
  then have live_same: "live v = live w" using a2 xlist_live [OF assms(1) l2] by (simp add: s1)
  have got: "ustore_get u (ustore s1) = Some ?new"
    by (auto simp: s1 ustore_get_put upsert_record_def Let_def merge_user_def split: option.split)
  then have same: "upsert_record later u did ?e fl None (ustore s1) = ?new"
    by (simp add: upsert_record_def Let_def)
  have "ustore_get k (ustore s2) = ustore_get k (ustore s1)" for k
    using got by (simp add: s2 same ustore_get_put) (simp add: upsert_record_def merge_user_def Let_def)
  moreover have "resp1 = UserCreated (UserBody u did fl (ur_created_at r) (ur_rotated_at r))"
    if "ustore_get u (ustore s) = Some r" for r
    using that by (simp add: resp1 user_response_def upsert_record_def Let_def)
  ultimately show ?thesis
    using live_same live_e resp1 resp2 same by (simp add: s1 s2)
qed

lemma create_user_idempotent_witness:
  "case handle_users demo_xray demo_xray_cfg 5 (CreateUser ''u1'' 1 ''f'') demo_drifted of
     (Inr resp1, s1) \<Rightarrow>
       (case handle_users demo_xray demo_xray_cfg 9 (CreateUser ''u1'' 1 ''f'') s1 of
          (Inr resp2, s2) \<Rightarrow> resp2 = resp1 \<and> demo_users_live (xray s2) = demo_users_live (xray s1)
        | _ \<Rightarrow> False)
   | _ \<Rightarrow> False"
proof -
  have live: "xapply_live demo_xray_cfg" by (simp add: demo_xray_cfg_def)
  have "case handle_users demo_xray demo_xray_cfg 5 (CreateUser ''u1'' 1 ''f'') demo_drifted of
     (Inr resp1, s1) \<Rightarrow>
       (case handle_users demo_xray demo_xray_cfg 9 (CreateUser ''u1'' 1 ''f'') s1 of (Inr _, _) \<Rightarrow> True | _ \<Rightarrow> False)
   | _ \<Rightarrow> False" by code_simp
  then obtain r1 s1 r2 s2 where
    run: "handle_users demo_xray demo_xray_cfg 5 (CreateUser ''u1'' 1 ''f'') demo_drifted = (Inr r1, s1)"
      "handle_users demo_xray demo_xray_cfg 9 (CreateUser ''u1'' 1 ''f'') s1 = (Inr r2, s2)"
    by (auto split: prod.splits sum.splits)
  have "r2 = r1 \<and> demo_users_live (xray s2) = demo_users_live (xray s1)"
    using create_user_idempotent [OF demo_xray_documented live run] by blast
  then show ?thesis by (simp only: run prod.case sum.case)
qed

text \<open>Rotating is not idempotent, unlike the backend's client assumes when it retries: once a rotation has
  gone through, the same request again finds no user and is answered with 404, and the user keeps the
  new identifier. A deletion repeated is a success that changes nothing.\<close>

theorem rotate_retry_not_found:
  assumes "handle_users stub cfg now (RotateUser u new) s = (Inr resp, s1)" and "new \<noteq> u"
  shows "handle_users stub cfg later (RotateUser u new) s1 = (Inl (HttpError 404 ''User not found''), s1) \<and>
    ustore_get new (ustore s1) \<noteq> None \<and>
    handle_users stub cfg later (DeleteUser u) s1 = (Inr UserDeleted, s1)"
proof -
  from assms(1) have "ustore_get u (ustore s1) = None \<and> ustore_get new (ustore s1) \<noteq> None"
    using assms(2)
    by (auto simp: bindM_eq_Inr_iff bad_gateway_Inr xrotate_user_def on_ustore_def on_xray_Inr whenM_eq_Inr_iff
        ustore_get_put ustore_get_delete upsert_record_def Let_def split: option.splits if_splits)
  then show ?thesis
    by (simp add: bad_gateway_def catchM_def xrotate_user_def xremove_user_def bindM_def)
qed

lemma rotate_retry_not_found_witness:
  "case handle_users demo_xray demo_xray_cfg 5 (RotateUser ''u1'' ''u2'')
       (demo_drifted\<lparr>xray := Some [(''device-1'', ''u1'', ''f'')]\<rparr>) of
     (Inr resp, s1) \<Rightarrow> fst (handle_users demo_xray demo_xray_cfg 6 (RotateUser ''u1'' ''u2'') s1) =
        Inl (HttpError 404 ''User not found'')
   | _ \<Rightarrow> False"
proof -
  have "case handle_users demo_xray demo_xray_cfg 5 (RotateUser ''u1'' ''u2'')
       (demo_drifted\<lparr>xray := Some [(''device-1'', ''u1'', ''f'')]\<rparr>) of (Inr _, _) \<Rightarrow> True | _ \<Rightarrow> False"
    by code_simp
  then obtain resp s1 where run: "handle_users demo_xray demo_xray_cfg 5 (RotateUser ''u1'' ''u2'')
       (demo_drifted\<lparr>xray := Some [(''device-1'', ''u1'', ''f'')]\<rparr>) = (Inr resp, s1)"
    by (auto split: prod.splits sum.splits)
  have "''u2'' \<noteq> ''u1''" by simp
  from rotate_retry_not_found [OF run this, of 6] show ?thesis by (simp only: run prod.case sum.case fst_conv)
qed

text \<open>Deleting a user either succeeds, and then the record is gone and its e-mail is off the inbound, or
  fails with 502 because Xray refused or could not be reached, and then the record is still there so that the
  deletion can be repeated.\<close>

theorem delete_user_all_or_retry:
  assumes "xray_documented stub live (inbound_tag cfg)" and "xapply_live cfg" and "ustore_get u (ustore s) = Some r"
  shows "case handle_users stub cfg now (DeleteUser u) s of
      (Inr resp, s1) \<Rightarrow> ustore_get u (ustore s1) = None \<and> live (xray s1) = (live (xray s))(ur_email r := None) \<and>
        (\<forall>k. k \<noteq> u \<longrightarrow> ustore_get k (ustore s1) = ustore_get k (ustore s))
    | (Inl e, s1) \<Rightarrow> (\<exists>m. e = HttpError 502 m) \<and> ustore s1 = ustore s"
proof (cases "xray_remove_user stub (inbound_tag cfg) (ur_email r) (xray s)")
  case (Pair res w)
  show ?thesis
  proof (cases res)
    case (Inl e)
    then obtain m where "e = CommandError m"
      using Pair by (auto simp: xray_remove_user_def grpc_call_def bindM_def split: prod.splits sum.splits)
    then show ?thesis
      using Pair Inl assms(2,3) by (simp add: bad_gateway_def catchM_def xremove_user_def bindM_def on_xray_def zoomM_def)
  next
    case (Inr x)
    then show ?thesis
      using Pair assms(2,3) xremove_live [OF assms(1), of "ur_email r" "xray s" x w]
      by (simp add: bad_gateway_def catchM_def xremove_user_def bindM_def on_xray_def zoomM_def on_ustore_def
          ustore_get_delete)
  qed
qed

lemma delete_user_all_or_retry_witness:
  "ustore (snd (handle_users demo_xray demo_xray_cfg 5 (DeleteUser ''u1'') demo_drifted)) = ustore demo_drifted"
proof -
  have live: "xapply_live demo_xray_cfg" by (simp add: demo_xray_cfg_def)
  have got: "ustore_get ''u1'' (ustore demo_drifted) = Some (demo_user_record ''u1'' 1)"
    by (simp add: demo_drifted_def ustore_get_def demo_user_record_def)
  have "case handle_users demo_xray demo_xray_cfg 5 (DeleteUser ''u1'') demo_drifted of (Inl _, _) \<Rightarrow> True | _ \<Rightarrow> False"
    by code_simp
  then show ?thesis
    using delete_user_all_or_retry [OF demo_xray_documented live got, of 5] by (auto split: prod.splits sum.splits)
qed

end
