(* ===== verification/XrayLife.thy ===== *)
theory XrayLife
  imports XrayAgent
begin

text \<open>
  The life of the agent on a VLESS node: its start and its background task (\<^verbatim>\<open>lifespan\<close> and
  \<^verbatim>\<open>_periodic_reconciliation_loop\<close> of \<^verbatim>\<open>xray-agent/app/main.py\<close>) between the requests it serves, the restarts of
  Xray, which forgets its users, and its own, in any order. Calls of Xray may fail at any point, with or without
  having taken effect.
\<close>

section \<open>The process\<close>

text \<open>
  \<^verbatim>\<open>lifespan\<close>: a new reconciler on the stored users, one reconciliation whose failure ends the start, and the
  background task if the agent applies its state to a live Xray.
\<close>

definition xray_start :: "'w stub \<Rightarrow> xray_config \<Rightarrow> instant \<Rightarrow> ('w, bool) xrayM" where
  "xray_start stub cfg now =
     bindM (modifyM (\<lambda>s. s\<lparr>last_reconciliation := None\<rparr>)) (\<lambda>_.
     bindM (reconcile stub cfg now) (\<lambda>_.
     returnM (xapply_live cfg)))"

text \<open>The turns of the background loop at the times given: it goes on after a failed one.\<close>

fun periodic_reconciliation_loop :: "'w stub \<Rightarrow> xray_config \<Rightarrow> instant list \<Rightarrow> ('w, unit) xrayM" where
  "periodic_reconciliation_loop stub cfg [] = returnM ()"
| "periodic_reconciliation_loop stub cfg (now # later) =
     bindM (periodic_cycle stub cfg now) (\<lambda>_. periodic_reconciliation_loop stub cfg later)"

text \<open>What the client of the agent keeps to: an identifier belongs to one device.\<close>

definition names_device :: "user_store \<Rightarrow> string \<Rightarrow> string \<Rightarrow> bool" where
  "names_device st u email = (case ustore_get u st of None \<Rightarrow> True | Some r \<Rightarrow> ur_email r = email)"

fun one_device :: "xray_request \<Rightarrow> user_store \<Rightarrow> bool" where
  "one_device (CreateUser u did fl) st = names_device st u (email_for_device did)"
| "one_device (RotateUser u new) st =
     (case ustore_get u st of None \<Rightarrow> True | Some r \<Rightarrow> new \<noteq> u \<and> names_device st new (ur_email r))"
| "one_device _ st = True"

text \<open>The identifiers a request brings in.\<close>

fun brings :: "xray_request \<Rightarrow> string set" where
  "brings (CreateUser u did fl) = {u}"
| "brings (RotateUser u new) = {new}"
| "brings _ = {}"

datatype life_event =
    Served xray_request
  | Turn
  | XrayRestarted
  | AgentStarted

inductive xray_life ::
  "'w stub \<Rightarrow> 'w users_live \<Rightarrow> xray_config \<Rightarrow> 'w xray_agent \<Rightarrow> life_event \<Rightarrow> 'w xray_agent \<Rightarrow> bool"
  for stub live cfg where
  served: "handle_users stub cfg now req s = (res, s') \<Longrightarrow> one_device req (ustore s) \<Longrightarrow>
     xray_life stub live cfg s (Served req) s'"
| turn: "periodic_cycle stub cfg now s = (res, s') \<Longrightarrow> xray_life stub live cfg s Turn s'"
| xray_restarted: "\<forall>e. live w e = None \<or> live w e = live (xray s) e \<Longrightarrow>
     xray_life stub live cfg s XrayRestarted (s\<lparr>xray := w\<rparr>)"
| agent_started: "xray_start stub cfg now s = (res, s') \<Longrightarrow> xray_life stub live cfg s AgentStarted s'"

inductive xray_history ::
  "'w stub \<Rightarrow> 'w users_live \<Rightarrow> xray_config \<Rightarrow> 'w xray_agent \<Rightarrow> life_event list \<Rightarrow> 'w xray_agent \<Rightarrow> bool"
  for stub live cfg where
  nothing: "xray_history stub live cfg s [] s"
| then_event: "xray_life stub live cfg s ev s1 \<Longrightarrow> xray_history stub live cfg s1 evs s' \<Longrightarrow>
     xray_history stub live cfg s (ev # evs) s'"

inductive_cases xray_lifeE [elim]: "xray_life stub live cfg s ev s'"
inductive_simps xray_history_Nil [simp]: "xray_history stub live cfg s [] s'"
inductive_simps xray_history_Cons: "xray_history stub live cfg s (ev # evs) s'"

section \<open>Calls that may fail\<close>

text \<open>A call that fails has had its documented effect or none.\<close>

definition fails_cleanly :: "'w stub \<Rightarrow> 'w users_live \<Rightarrow> string \<Rightarrow> bool" where
  "fails_cleanly stub live tag \<longleftrightarrow>
     (\<forall>lvl e acc w x w'. stub (AlterInbound tag (AddUserOperation lvl e acc)) w = (Inl x, w') \<longrightarrow>
        live w' = live w \<or> live w' = (live w)(e \<mapsto> (acc_id acc, acc_flow acc))) \<and>
     (\<forall>e w x w'. stub (AlterInbound tag (RemoveUserOperation e)) w = (Inl x, w') \<longrightarrow>
        live w' = live w \<or> live w' = (live w)(e := None)) \<and>
     (\<forall>w x w'. stub (GetInboundUsers tag '''') w = (Inl x, w') \<longrightarrow> live w' = live w)"

text \<open>Every live user is one of the store's: its identifier is stored, for the e-mail it is live under.\<close>

definition stored_live :: "user_store \<Rightarrow> (string \<Rightarrow> (string \<times> string) option) \<Rightarrow> bool" where
  "stored_live st l \<longleftrightarrow> (\<forall>e u fl. l e = Some (u, fl) \<longrightarrow> (\<exists>r. ustore_get u st = Some r \<and> ur_email r = e))"

definition covered :: "'w users_live \<Rightarrow> 'w xray_agent \<Rightarrow> bool" where
  "covered live s \<longleftrightarrow> stored_live (ustore s) (live (xray s)) \<and> distinct (map ur_uuid (ustore s))"

lemma stored_live_fewer:
  "stored_live st l \<Longrightarrow> \<forall>e. l' e = None \<or> l' e = l e \<Longrightarrow> stored_live st l'"
  unfolding stored_live_def by (metis option.distinct(1))

lemma stored_live_upd:
  "stored_live st l \<Longrightarrow> ustore_get u st = Some r \<Longrightarrow> ur_email r = e \<Longrightarrow> stored_live st (l(e \<mapsto> (u, fl)))"
  by (auto simp: stored_live_def)

lemma stored_live_none: "stored_live st l \<Longrightarrow> stored_live st (l(e := None))"
  by (auto simp: stored_live_def)

lemma add_effect:
  assumes "xray_documented stub live tag" and "fails_cleanly stub live tag"
    and call: "stub (AlterInbound tag (AddUserOperation lvl e acc)) w = (out, w')"
  shows "live w' = live w \<or> live w' = (live w)(e \<mapsto> (acc_id acc, acc_flow acc))"
proof (cases out)
  case (Inl x)
  have "\<forall>lvl e acc w x w'. stub (AlterInbound tag (AddUserOperation lvl e acc)) w = (Inl x, w') \<longrightarrow>
      live w' = live w \<or> live w' = (live w)(e \<mapsto> (acc_id acc, acc_flow acc))"
    using assms(2) unfolding fails_cleanly_def by (elim conjE)
  with call Inl show ?thesis by metis
next
  case (Inr r)
  have "\<forall>lvl e acc w r w'. stub (AlterInbound tag (AddUserOperation lvl e acc)) w = (Inr r, w') \<longrightarrow>
      live w' = (live w)(e \<mapsto> (acc_id acc, acc_flow acc))"
    using assms(1) unfolding xray_documented_def by (elim conjE)
  with call Inr show ?thesis by metis
qed

lemma remove_effect:
  assumes "xray_documented stub live tag" and "fails_cleanly stub live tag"
    and call: "stub (AlterInbound tag (RemoveUserOperation e)) w = (out, w')"
  shows "live w' = live w \<or> live w' = (live w)(e := None)"
proof (cases out)
  case (Inl x)
  have "\<forall>e w x w'. stub (AlterInbound tag (RemoveUserOperation e)) w = (Inl x, w') \<longrightarrow>
      live w' = live w \<or> live w' = (live w)(e := None)"
    using assms(2) unfolding fails_cleanly_def by (elim conjE)
  with call Inl show ?thesis by metis
next
  case (Inr r)
  have "\<forall>e w r w'. stub (AlterInbound tag (RemoveUserOperation e)) w = (Inr r, w') \<longrightarrow>
      live w' = (live w)(e := None)"
    using assms(1) unfolding xray_documented_def by (elim conjE)
  with call Inr show ?thesis by metis
qed

lemma list_effect:
  assumes "xray_documented stub live tag" and "fails_cleanly stub live tag"
    and call: "stub (GetInboundUsers tag '''') w = (out, w')"
  shows "live w' = live w"
  using assms by (cases out) (auto simp: xray_documented_def fails_cleanly_def)

lemma grpc_state:
  "bindM (grpc_call stub op req) (\<lambda>r. returnM (f r)) w = (res, w') \<Longrightarrow> \<exists>out. stub req w = (out, w')"
  by (auto simp: bindM_def grpc_call_def split: prod.splits sum.splits)

text \<open>With the store fixed, every call of a reconciler keeps the live users among the stored ones.\<close>

definition among :: "user_store \<Rightarrow> 'w users_live \<Rightarrow> 'w \<Rightarrow> bool" where
  "among st live w = stored_live st (live w)"

lemma preserves_add:
  assumes "xray_documented stub live tag" and "fails_cleanly stub live tag"
    and "ustore_get u st = Some r" and "ur_email r = e"
  shows "preserves (among st live) (xray_add_user stub tag u e fl)"
proof (rule preservesI)
  fix w assume "among st live w"
  moreover obtain res w' where run: "xray_add_user stub tag u e fl w = (res, w')" by fastforce
  from run obtain out where "stub (AlterInbound tag
      (AddUserOperation 0 e \<lparr>acc_id = u, acc_flow = fl, acc_encryption = ''none''\<rparr>)) w = (out, w')"
    using grpc_state [of stub _ _ _ w res w'] by (fastforce simp: xray_add_user_def)
  from add_effect [OF assms(1,2) this] have "live w' = live w \<or> live w' = (live w)(e \<mapsto> (u, fl))" by simp
  ultimately show "among st live (snd (xray_add_user stub tag u e fl w))"
    using run stored_live_upd [OF _ assms(3,4)] by (auto simp: among_def)
qed

lemma preserves_remove:
  assumes "xray_documented stub live tag" and "fails_cleanly stub live tag"
  shows "preserves (among st live) (xray_remove_user stub tag e)"
proof (rule preservesI)
  fix w assume "among st live w"
  moreover obtain res w' where run: "xray_remove_user stub tag e w = (res, w')" by fastforce
  from run obtain out where "stub (AlterInbound tag (RemoveUserOperation e)) w = (out, w')"
    using grpc_state [of stub _ _ _ w res w'] by (fastforce simp: xray_remove_user_def)
  from remove_effect [OF assms this] have "live w' = live w \<or> live w' = (live w)(e := None)" by simp
  ultimately show "among st live (snd (xray_remove_user stub tag e w))"
    using run stored_live_none by (auto simp: among_def)
qed

lemma preserves_list:
  assumes "xray_documented stub live tag" and "fails_cleanly stub live tag"
  shows "preserves (among st live) (xray_list_emails stub tag)"
proof (rule preservesI)
  fix w assume "among st live w"
  moreover obtain res w' where run: "xray_list_emails stub tag w = (res, w')" by fastforce
  from run obtain out where "stub (GetInboundUsers tag '''') w = (out, w')"
    using grpc_state [of stub _ _ _ w res w'] by (fastforce simp: xray_list_emails_def)
  from list_effect [OF assms this] have "live w' = live w" by simp
  ultimately show "among st live (snd (xray_list_emails stub tag w))" using run by (auto simp: among_def)
qed

definition settled :: "user_store \<Rightarrow> 'w users_live \<Rightarrow> 'w xray_agent \<Rightarrow> bool" where
  "settled st live s \<longleftrightarrow> ustore s = st \<and> among st live (xray s)"

lemma preserves_on_xray: "preserves (among st live) m \<Longrightarrow> preserves (settled st live) (on_xray m)"
  unfolding on_xray_def by (rule preserves_zoom) (auto simp: settled_def)

lemma preserves_clock: "preserves (settled st live) (modifyM (\<lambda>s. s\<lparr>last_reconciliation := t\<rparr>))"
  by (rule preserves_modify) (simp add: settled_def)

lemma preserves_reconcile:
  assumes "xray_documented stub live (inbound_tag cfg)" and "fails_cleanly stub live (inbound_tag cfg)"
    and "distinct (map ur_uuid st)"
  shows "preserves (settled st live) (reconcile stub cfg now)"
proof (rule preservesI)
  fix s assume s: "settled st live s"
  have get: "ustore_get (ur_uuid r) st = Some r" if "r \<in> set st" for r
    using find_distinct [OF assms(3) that] by (simp add: ustore_get_def)
  have add: "preserves (among st live) (add_missing stub (inbound_tag cfg) st es)" for es
    unfolding add_missing_def
    by (intro pres preserves_add [OF assms(1,2)]) (auto dest: desired_record_mem get)
  have rem: "preserves (among st live) (remove_surplus stub (inbound_tag cfg) es)" for es
    unfolding remove_surplus_def by (intro pres preserves_remove [OF assms(1,2)])
  show "settled st live (snd (reconcile stub cfg now s))"
  proof (cases "xapply_live cfg")
    case False
    then show ?thesis using s by (simp add: reconcile_def settled_def)
  next
    case True
    let ?m = "bindM (on_xray (xray_list_emails stub (inbound_tag cfg))) (\<lambda>live.
        let added = filter (\<lambda>e. e \<notin> set live) (desired_emails st);
            removed = filter (\<lambda>e. e \<notin> set (desired_emails st)) (remdups live) in
        bindM (on_xray (add_missing stub (inbound_tag cfg) st added)) (\<lambda>_.
        bindM (on_xray (remove_surplus stub (inbound_tag cfg) removed)) (\<lambda>_.
        bindM (modifyM (\<lambda>s. s\<lparr>last_reconciliation := Some now\<rparr>)) (\<lambda>_.
        returnM (added, removed)))))"
    have "preserves (settled st live) ?m"
      by (intro pres preserves_on_xray preserves_clock preserves_list [OF assms(1,2)] add rem)
    moreover have "reconcile stub cfg now s = ?m s"
      using True s by (simp add: reconcile_def settled_def)
    ultimately show ?thesis using s by (simp add: preserves_def)
  qed
qed

section \<open>The store and the live users\<close>

lemma covered_settled: "covered live s \<longleftrightarrow> settled (ustore s) live s \<and> distinct (map ur_uuid (ustore s))"
  by (auto simp: covered_def settled_def among_def)

lemma upsert_record_simps [simp]:
  "ur_uuid (upsert_record now u did email fl rt st) = u" "ur_email (upsert_record now u did email fl rt st) = email"
  by (simp_all add: upsert_record_def Let_def)

lemma put_stored:
  assumes "names_device st u e" and "stored_live st l" and "ur_uuid r = u" and "ur_email r = e"
  shows "stored_live (ustore_put r st) l \<and> (\<exists>q. ustore_get u (ustore_put r st) = Some q \<and> ur_email q = e)"
proof -
  have get: "\<exists>q. ustore_get u (ustore_put r st) = Some q \<and> ur_email q = e"
    using assms by (auto simp: ustore_get_put merge_user_def split: option.splits)
  have "\<exists>q. ustore_get k (ustore_put r st) = Some q \<and> ur_email q = e'" if "l e' = Some (k, fl)" for e' k fl
  proof -
    from that assms(2) obtain q where "ustore_get k st = Some q" "ur_email q = e'" by (auto simp: stored_live_def)
    then show ?thesis using assms(1,3) get by (cases "k = u") (auto simp: names_device_def ustore_get_put)
  qed
  then show ?thesis using get by (auto simp: stored_live_def)
qed

lemma put_distinct: "distinct (map ur_uuid st) \<Longrightarrow> distinct (map ur_uuid (ustore_put r st))"
proof -
  have "map ur_uuid (map (\<lambda>q. if ur_uuid q = ur_uuid r then merge_user q r else q) st) = map ur_uuid st"
    by (simp add: merge_user_def)
  then show "distinct (map ur_uuid st) \<Longrightarrow> ?thesis" by (auto simp: ustore_put_def list_ex_iff simp del: map_map)
qed

lemma delete_distinct: "distinct (map ur_uuid st) \<Longrightarrow> distinct (map ur_uuid (ustore_delete u st))"
  unfolding ustore_delete_def by (rule distinct_map_filter)

lemma delete_stored:
  assumes "stored_live st l" and "ustore_get u st = Some r" and "l (ur_email r) = None"
  shows "stored_live (ustore_delete u st) l"
  using assms by (fastforce simp: stored_live_def ustore_get_delete)

lemma state_after:
  "snd (bindM m (\<lambda>r. returnM (f r)) s) = snd (m s)"
  "snd (bad_gateway m s) = snd (m s)"
  "snd (bindM m' (\<lambda>found. case found of None \<Rightarrow> raiseM x | Some r \<Rightarrow> returnM (g r)) s) = snd (m' s)"
  by (auto simp: bindM_def bad_gateway_def catchM_def split: prod.splits sum.splits option.splits agent_exn.splits)

text \<open>
  What an operation may do: it keeps the live users stored and identifiers distinct, and stores no identifier but
  those given.
\<close>

definition sound_from :: "string set \<Rightarrow> 'w users_live \<Rightarrow> 'w xray_agent \<Rightarrow> 'w xray_agent \<Rightarrow> bool" where
  "sound_from us live s s' \<longleftrightarrow>
     covered live s' \<and> (\<forall>u. u \<notin> us \<longrightarrow> ustore_get u (ustore s) = None \<longrightarrow> ustore_get u (ustore s') = None)"

lemma sound_settled:
  "covered live s \<Longrightarrow> settled (ustore s) live s' \<Longrightarrow> sound_from us live s s'"
  by (auto simp: sound_from_def covered_settled settled_def)

lemma create_sound:
  assumes "xray_documented stub live (inbound_tag cfg)" and "fails_cleanly stub live (inbound_tag cfg)"
    and "covered live s" and "names_device (ustore s) u (email_for_device did)"
  shows "sound_from {u} live s (snd (xadd_user stub cfg now u did fl s))"
proof -
  let ?e = "email_for_device did"
  let ?st = "ustore_put (upsert_record now u did ?e fl None (ustore s)) (ustore s)"
  from put_stored [OF assms(4), of "live (xray s)" "upsert_record now u did ?e fl None (ustore s)"] assms(3)
  obtain q where st: "stored_live ?st (live (xray s))" "ustore_get u ?st = Some q" "ur_email q = ?e"
    by (auto simp: covered_def)
  have "preserves (settled ?st live) (whenM (xapply_live cfg)
      (on_xray (bindM (xray_list_emails stub (inbound_tag cfg)) (\<lambda>live.
         whenM (?e \<notin> set live) (xray_add_user stub (inbound_tag cfg) u ?e fl)))))"
    by (intro pres preserves_on_xray preserves_list [OF assms(1,2)] preserves_add [OF assms(1,2) st(2,3)])
  moreover have "settled ?st live (s\<lparr>ustore := ?st\<rparr>)" using st(1) by (simp add: settled_def among_def)
  ultimately have "settled ?st live (snd (xadd_user stub cfg now u did fl s))"
    by (simp add: xadd_user_def Let_def on_ustore_def state_after preserves_def)
  then show ?thesis
    using assms(3) put_distinct
    by (auto simp: sound_from_def covered_def settled_def among_def ustore_get_put)
qed

lemma remove_exact:
  assumes "xray_documented stub live (inbound_tag cfg)" and "xapply_live cfg"
    and "whenM (xapply_live cfg) (on_xray (xray_remove_user stub (inbound_tag cfg) e)) s = (Inr x, s1)"
  shows "ustore s1 = ustore s \<and> live (xray s1) = (live (xray s))(e := None)"
  using assms xremove_live [OF assms(1)] by (auto simp: on_xray_Inr whenM_eq_Inr_iff)

lemma removal_settled:
  assumes "xray_documented stub live (inbound_tag cfg)" and "fails_cleanly stub live (inbound_tag cfg)"
    and "covered live s"
    and "whenM (xapply_live cfg) (on_xray (xray_remove_user stub (inbound_tag cfg) e)) s = (res, s1)"
  shows "settled (ustore s) live s1"
proof -
  have "preserves (settled (ustore s) live) (whenM (xapply_live cfg) (on_xray (xray_remove_user stub (inbound_tag cfg) e)))"
    by (intro pres preserves_on_xray preserves_remove [OF assms(1,2)])
  then show ?thesis using assms(3,4) by (auto simp: covered_settled dest: preservesD)
qed

lemma delete_sound:
  assumes "xray_documented stub live (inbound_tag cfg)" and "fails_cleanly stub live (inbound_tag cfg)"
    and "xapply_live cfg" and "covered live s"
  shows "sound_from {} live s (snd (xremove_user stub cfg u s))"
proof (cases "ustore_get u (ustore s)")
  case None
  then show ?thesis using assms(4) by (simp add: xremove_user_def sound_from_def)
next
  case (Some r)
  obtain res s1 where run: "whenM (xapply_live cfg) (on_xray (xray_remove_user stub (inbound_tag cfg) (ur_email r))) s = (res, s1)"
    by fastforce
  note settled = removal_settled [OF assms(1,2,4) run]
  show ?thesis
  proof (cases res)
    case (Inl x)
    then have "snd (xremove_user stub cfg u s) = s1" using Some run by (simp add: xremove_user_def bindM_def)
    then show ?thesis using sound_settled [OF assms(4) settled] by simp
  next
    case (Inr x)
    then have "snd (xremove_user stub cfg u s) = s1\<lparr>ustore := ustore_delete u (ustore s)\<rparr>"
      using Some run settled by (simp add: xremove_user_def bindM_def on_ustore_def settled_def)
    moreover have "live (xray s1) (ur_email r) = None"
      using remove_exact [OF assms(1,3) run [unfolded Inr]] by simp
    ultimately show ?thesis
      using delete_stored [OF _ Some] settled assms(4) delete_distinct
      by (auto simp: sound_from_def covered_def settled_def among_def ustore_get_delete)
  qed
qed

lemma rotate_sound:
  assumes "xray_documented stub live (inbound_tag cfg)" and "fails_cleanly stub live (inbound_tag cfg)"
    and "xapply_live cfg" and "covered live s" and "one_device (RotateUser u new) (ustore s)"
  shows "sound_from {new} live s (snd (xrotate_user stub cfg now u new s))"
proof (cases "ustore_get u (ustore s)")
  case None
  then show ?thesis using assms(4) by (simp add: xrotate_user_def sound_from_def)
next
  case (Some r)
  let ?e = "ur_email r" and ?less = "ustore_delete u (ustore s)"
  let ?rec = "upsert_record now new (ur_device_id r) (ur_email r) (ur_flow r) (Some now) ?less"
  let ?st = "ustore_put ?rec ?less"
  obtain res s1 where run: "whenM (xapply_live cfg) (on_xray (xray_remove_user stub (inbound_tag cfg) ?e)) s = (res, s1)"
    by fastforce
  note settled = removal_settled [OF assms(1,2,4) run]
  show ?thesis
  proof (cases res)
    case (Inl x)
    then have "snd (xrotate_user stub cfg now u new s) = s1" using Some run by (simp add: xrotate_user_def bindM_def)
    then show ?thesis using sound_settled [OF assms(4) settled] by simp
  next
    case (Inr x)
    have "live (xray s1) ?e = None" using remove_exact [OF assms(1,3) run [unfolded Inr]] by simp
    then have "stored_live ?less (live (xray s1))"
      using delete_stored [OF _ Some] settled by (simp add: settled_def among_def)
    moreover have "names_device ?less new ?e"
      using assms(5) Some by (simp add: names_device_def ustore_get_delete)
    ultimately obtain q where st: "stored_live ?st (live (xray s1))" "ustore_get new ?st = Some q" "ur_email q = ?e"
      using put_stored [of ?less new ?e "live (xray s1)" ?rec] by auto
    have "preserves (settled ?st live) (whenM (xapply_live cfg) (on_xray (xray_add_user stub (inbound_tag cfg) new ?e (ur_flow r))))"
      by (intro pres preserves_on_xray preserves_add [OF assms(1,2) st(2,3)])
    moreover have "settled ?st live (s1\<lparr>ustore := ?st\<rparr>)" using st(1) by (simp add: settled_def among_def)
    moreover have "snd (xrotate_user stub cfg now u new s) =
        snd (whenM (xapply_live cfg) (on_xray (xray_add_user stub (inbound_tag cfg) new ?e (ur_flow r))) (s1\<lparr>ustore := ?st\<rparr>))"
      using Some run Inr settled
      by (simp add: xrotate_user_def on_ustore_def settled_def bindM_def split: prod.splits sum.splits)
    ultimately have "settled ?st live (snd (xrotate_user stub cfg now u new s))" by (simp add: preserves_def)
    then show ?thesis
      using assms(4) put_distinct [OF delete_distinct]
      by (auto simp: sound_from_def covered_def settled_def among_def ustore_get_put ustore_get_delete)
  qed
qed

lemma reconcile_sound:
  assumes "xray_documented stub live (inbound_tag cfg)" and "fails_cleanly stub live (inbound_tag cfg)"
    and "covered live s"
  shows "sound_from {} live s (snd (reconcile stub cfg now s))"
proof -
  have "distinct (map ur_uuid (ustore s))" "settled (ustore s) live s" using assms(3) by (auto simp: covered_settled)
  with preserves_reconcile [OF assms(1,2)] have "settled (ustore s) live (snd (reconcile stub cfg now s))"
    by (auto simp: preserves_def)
  then show ?thesis by (rule sound_settled [OF assms(3)])
qed

lemma cycle_state: "snd (periodic_cycle stub cfg now s) = snd (reconcile stub cfg now s)"
  by (auto simp: periodic_cycle_def catchM_def bindM_def split: prod.splits sum.splits)

fun event_brings :: "life_event \<Rightarrow> string set" where
  "event_brings (Served req) = brings req"
| "event_brings _ = {}"

lemma event_sound:
  assumes "xray_documented stub live (inbound_tag cfg)" and "fails_cleanly stub live (inbound_tag cfg)"
    and "xapply_live cfg" and "covered live s" and "xray_life stub live cfg s ev s'"
  shows "sound_from (event_brings ev) live s s'"
  using assms(5)
proof cases
  case (served now req res)
  have s': "s' = snd (handle_users stub cfg now req s)" using served by simp
  show ?thesis
    using served(3) create_sound [OF assms(1,2,4)] delete_sound [OF assms(1-4)] rotate_sound [OF assms(1-4)] assms(4)
    unfolding s' served(1)
    by (cases req) (simp_all add: state_after, simp add: sound_from_def)
next
  case (turn now res)
  then show ?thesis
    using reconcile_sound [OF assms(1,2,4), of now] cycle_state [of stub cfg now s] by simp
next
  case (xray_restarted w)
  then show ?thesis
    using assms(4) stored_live_fewer [of "ustore s" "live (xray s)" "live w"]
    by (auto simp: sound_from_def covered_def)
next
  case (agent_started now res)
  have "covered live (s\<lparr>last_reconciliation := None\<rparr>)" using assms(4) by (simp add: covered_def)
  from reconcile_sound [OF assms(1,2) this, of now] agent_started show ?thesis
    using state_after(1) [of "reconcile stub cfg now" "\<lambda>_. xapply_live cfg" "s\<lparr>last_reconciliation := None\<rparr>"]
    by (simp add: xray_start_def sound_from_def)
qed

lemma history_sound:
  assumes "xray_history stub live cfg s evs s'" and "xray_documented stub live (inbound_tag cfg)"
    and "fails_cleanly stub live (inbound_tag cfg)" and "xapply_live cfg" and "covered live s"
  shows "sound_from (\<Union> (event_brings ` set evs)) live s s'"
  using assms(1,5)
proof induction
  case (nothing s)
  then show ?case by (simp add: sound_from_def)
next
  case (then_event s ev s1 evs s')
  have one: "sound_from (event_brings ev) live s s1"
    by (rule event_sound [OF assms(2-4) then_event.prems then_event.hyps(1)])
  then have "covered live s1" by (simp add: sound_from_def)
  from one then_event.IH [OF this] show ?case by (auto simp: sound_from_def)
qed

section \<open>Properties\<close>

text \<open>The identifier a request takes away.\<close>

fun takes_away :: "xray_request \<Rightarrow> string option" where
  "takes_away (DeleteUser u) = Some u"
| "takes_away (RotateUser u new) = Some u"
| "takes_away _ = None"

text \<open>C12: Once a deletion or a rotation has been answered successfully, the identifier it took away is never
  accepted by Xray again, whatever happens afterwards in whatever order: requests, also failing ones, turns of the
  background task, also interrupted ones, restarts of Xray and of the agent; unless a request brings it back.\<close>

theorem revoked_user_stays_cut_off:
  assumes "handle_users stub cfg now req s = (Inr resp, s1)" and "takes_away req = Some u"
    and "xray_history stub live cfg s1 evs s2" and "u \<notin> \<Union> (event_brings ` set evs)"
    and "one_device req (ustore s)" and "covered live s"
    and "xray_documented stub live (inbound_tag cfg)" and "fails_cleanly stub live (inbound_tag cfg)"
    and "xapply_live cfg"
  shows "live (xray s2) e \<noteq> Some (u, fl)"
proof -
  have "sound_from (brings req) live s s1"
    using event_sound [OF assms(7-9,6) served [OF assms(1,5)]] by simp
  then have covered: "covered live s1" by (simp add: sound_from_def)
  have "ustore_get u (ustore s1) = None"
    using assms(1,2,5)
    by (cases req)
      (auto simp: success_iffs bad_gateway_Inr xremove_user_def xrotate_user_def on_ustore_def on_xray_Inr
        ustore_get_delete ustore_get_put split: option.splits if_splits)
  with history_sound [OF assms(3,7-9) covered] assms(4)
  have "ustore_get u (ustore s2) = None" "stored_live (ustore s2) (live (xray s2))"
    by (auto simp: sound_from_def covered_def)
  then show ?thesis by (force simp: stored_live_def)
qed

lemma keeps_ustore: "preserves (\<lambda>t. ustore t = st) (on_xray m)"
  unfolding on_xray_def by (rule preserves_zoom [where J = "\<lambda>_. True"]) (auto simp: preserves_def)

lemma cycle_runs: "periodic_cycle stub cfg now s = (res, s') \<Longrightarrow> res = Inr () \<and> ustore s' = ustore s"
proof -
  assume run: "periodic_cycle stub cfg now s = (res, s')"
  have "preserves (\<lambda>t. ustore t = ustore s) (reconcile stub cfg now)"
    unfolding reconcile_def by (intro pres preserves_modify keeps_ustore) simp_all
  then have "ustore (snd (reconcile stub cfg now s)) = ustore s" by (simp add: preserves_def)
  moreover have "res = Inr ()"
    using run by (auto simp: periodic_cycle_def catchM_def bindM_def split: prod.splits sum.splits)
  ultimately show ?thesis using run cycle_state [of stub cfg now s] by simp
qed

lemma loop_runs:
  "periodic_reconciliation_loop stub cfg ts s = (res, s') \<Longrightarrow> res = Inr () \<and> ustore s' = ustore s"
proof (induction ts arbitrary: s)
  case (Cons t ts)
  obtain r s1 where one: "periodic_cycle stub cfg t s = (r, s1)" by fastforce
  with cycle_runs [OF one] Cons.prems have "periodic_reconciliation_loop stub cfg ts s1 = (res, s')"
    by (simp add: bindM_def)
  from Cons.IH [OF this] cycle_runs [OF one] show ?case by simp
qed simp

lemma loop_snoc:
  assumes "periodic_reconciliation_loop stub cfg ts s = (res, s1)"
  shows "periodic_reconciliation_loop stub cfg (ts @ [now]) s = periodic_cycle stub cfg now s1"
  using assms
proof (induction ts arbitrary: s)
  case Nil
  obtain r t where one: "periodic_cycle stub cfg now s = (r, t)" by fastforce
  with cycle_runs [OF one] Nil show ?case by (auto simp: bindM_def)
next
  case (Cons t ts)
  obtain r s2 where one: "periodic_cycle stub cfg t s = (r, s2)" by fastforce
  with cycle_runs [OF one] Cons show ?case by (simp add: bindM_def)
qed


section \<open>Instances\<close>

lemma demo_xray_fails_cleanly: "fails_cleanly demo_xray demo_users_live tag"
  by (auto simp: fails_cleanly_def demo_xray_def split: option.splits if_splits)

definition demo_rotated :: "((string \<times> string \<times> string) list option) xray_agent" where
  "demo_rotated = \<lparr>ustore = [demo_user_record ''u1'' 1], xray = Some [(''device-1'', ''u1'', ''f'')],
     last_reconciliation = None\<rparr>"

lemma demo_rotated_covered: "covered demo_users_live demo_rotated"
proof -
  have "email_for_device 1 = ''device-1''" by code_simp
  then show ?thesis
    by (auto simp: covered_def stored_live_def demo_rotated_def demo_users_live_def demo_user_record_def ustore_get_def
        split: if_splits)
qed

lemma demo_agent_simps: "inbound_tag demo_xray_cfg = ''in''" "xapply_live demo_xray_cfg"
  by (simp_all add: demo_xray_cfg_def)

text \<open>The user is rotated, Xray restarts, the background task runs: the old identifier is not back.\<close>

lemma revoked_user_stays_cut_off_witness:
  "case handle_users demo_xray demo_xray_cfg 5 (RotateUser ''u1'' ''u2'') demo_rotated of
     (Inr resp, s1) \<Rightarrow> (\<forall>s2. xray_history demo_xray demo_users_live demo_xray_cfg s1 [XrayRestarted, Turn] s2 \<longrightarrow>
        demo_users_live (xray s2) ''device-1'' \<noteq> Some (''u1'', ''f''))
   | _ \<Rightarrow> False"
proof -
  have "case handle_users demo_xray demo_xray_cfg 5 (RotateUser ''u1'' ''u2'') demo_rotated of (Inr _, _) \<Rightarrow> True | _ \<Rightarrow> False"
    by code_simp
  then obtain resp s1 where run: "handle_users demo_xray demo_xray_cfg 5 (RotateUser ''u1'' ''u2'') demo_rotated = (Inr resp, s1)"
    by (auto split: prod.splits sum.splits)
  have one: "one_device (RotateUser ''u1'' ''u2'') (ustore demo_rotated)" by code_simp
  have "demo_users_live (xray s2) ''device-1'' \<noteq> Some (''u1'', ''f'')"
    if "xray_history demo_xray demo_users_live demo_xray_cfg s1 [XrayRestarted, Turn] s2" for s2
    using revoked_user_stays_cut_off [OF run _ that _ one demo_rotated_covered] demo_xray_documented demo_xray_fails_cleanly
      demo_agent_simps by simp
  then show ?thesis unfolding run by simp
qed


end
