(* ===== verification/AgentApps.thy ===== *)
theory AgentApps
  imports Nodes XrayLife
begin

text \<open>
  The applications of the two agents around their handlers (\<^verbatim>\<open>create_app\<close> of \<^verbatim>\<open>vpn/app/main.py\<close> and
  \<^verbatim>\<open>xray-agent/app/main.py\<close>): the middleware that counts requests, the routes \<^verbatim>\<open>/health\<close>, \<^verbatim>\<open>/ready\<close> and \<^verbatim>\<open>/metrics\<close>, and the
  start of the vpn-agent. Parameters are the text format of the metrics, whether SQLite answers (\<open>up\<close>), and what
  Starlette makes of a request no route takes (404, 405, a redirect to the path without its slash, the OpenAPI page).
\<close>

section \<open>Counting\<close>

record agent_books =
  bk_requests :: "(string \<times> string \<times> nat) list"
  bk_durations :: "(string \<times> string) list"
  bk_enabled :: int

definition no_books :: agent_books where
  "no_books = \<lparr>bk_requests = [], bk_durations = [], bk_enabled = 0\<rparr>"

text \<open>What the application answers, or the exception it lets through, which Starlette turns into a 500 outside.\<close>

datatype agent_served = Sent nat string | Broke agent_exn

fun sent_result :: "agent_served \<Rightarrow> http_result" where
  "sent_result (Sent status body) = Response status body"
| "sent_result (Broke e) = Response 500 ''Internal Server Error''"

definition metrics_middleware :: "string \<Rightarrow> string \<Rightarrow> agent_served \<Rightarrow> agent_books \<Rightarrow> agent_books" where
  "metrics_middleware method path served bk =
     (case served of
        Broke e \<Rightarrow> bk
      | Sent status body \<Rightarrow>
          bk\<lparr>bk_requests := bk_requests bk @ [(method, path, status)], bk_durations := bk_durations bk @ [(method, path)]\<rparr>)"

section \<open>The vpn-agent\<close>

record 'w vpn_process =
  vp_node :: "'w vpn_node"
  vp_books :: agent_books

text \<open>\<^verbatim>\<open>lifespan\<close>: the peers in the store are applied before the first request; the collectors are new.\<close>

definition vpn_lifespan :: "'w node_env \<Rightarrow> 'w vpn_node \<Rightarrow> (agent_exn + unit) \<times> 'w vpn_process" where
  "vpn_lifespan N n =
     (case reconcile_on_startup (ne_run N) (ne_config N) (node_agent n) of
        (res, a) \<Rightarrow> (res, \<lparr>vp_node = n\<lparr>node_agent := a\<rparr>, vp_books = no_books\<rparr>))"

text \<open>Whether the handler of a peer request raises something FastAPI has no handler for.\<close>

definition peers_break :: "'w node_env \<Rightarrow> string \<Rightarrow> http_request \<Rightarrow> 'w vpn_node \<Rightarrow> agent_exn option" where
  "peers_break N path req n =
     (case peer_route (ne_codec N) path req of
        Routed r \<Rightarrow>
          (case fst (signed_peers (ne_crypto N) (ne_secret N) (ne_skew N) (ne_run N) (ne_config N) (ne_clock N)
              (ne_gen N (node_drawn n)) (req_signature req) (req_timestamp req) (req_body req) r (node_agent n)) of
             Inl (HttpError status detail) \<Rightarrow> None
           | Inl e \<Rightarrow> Some e
           | Inr resp \<Rightarrow> None)
      | _ \<Rightarrow> None)"

definition peers_endpoint :: "'w node_env \<Rightarrow> string \<Rightarrow> http_request \<Rightarrow> 'w vpn_node \<Rightarrow> agent_served \<times> 'w vpn_node" where
  "peers_endpoint N path req n =
     (case node_network N req n of
        (Response status body, n') \<Rightarrow>
          ((case peers_break N path req n of Some e \<Rightarrow> Broke e | None \<Rightarrow> Sent status body), n')
      | (_, n') \<Rightarrow> (Sent 404 '''', n'))"

definition status_json :: "codec \<Rightarrow> string \<Rightarrow> string" where
  "status_json cd s = dumps cd (JObj [(''status'', JStr s)])"

definition vpn_endpoint ::
  "'w node_env \<Rightarrow> (http_request \<Rightarrow> nat \<times> string) \<Rightarrow> bool \<Rightarrow> ('w vpn_process \<Rightarrow> string) \<Rightarrow> string \<Rightarrow> http_request \<Rightarrow>
     'w vpn_process \<Rightarrow> agent_served \<times> 'w vpn_process" where
  "vpn_endpoint N unrouted up expo path req p =
     (if req_method req = ''GET'' \<and> path = ''/health'' then (Sent 200 (status_json (ne_codec N) ''ok''), p)
      else if req_method req = ''GET'' \<and> path = ''/ready'' then
        ((if up then Sent 200 (status_json (ne_codec N) ''ready'') else Sent 503 (status_json (ne_codec N) ''unavailable'')), p)
      else if req_method req = ''GET'' \<and> path = ''/metrics'' then
       (if \<not> up then (Broke (AgentPyError ''OperationalError''), p) else
        (let p' = p\<lparr>vp_books := (vp_books p)\<lparr>
            bk_enabled := int (length (store_list_enabled (store (node_agent (vp_node p)))))\<rparr>\<rparr> in
         (Sent 200 (expo p'), p')))
      else if peer_route (ne_codec N) path req = NoRoute then
        (case unrouted req of (status, body) \<Rightarrow> (Sent status body, p))
      else
        (case peers_endpoint N path req (vp_node p) of (served, n') \<Rightarrow> (served, p\<lparr>vp_node := n'\<rparr>)))"

text \<open>The middleware around it; every route of the agent is its own template.\<close>

definition vpn_create_app ::
  "'w node_env \<Rightarrow> (http_request \<Rightarrow> nat \<times> string) \<Rightarrow> bool \<Rightarrow> ('w vpn_process \<Rightarrow> string) \<Rightarrow> http_request \<Rightarrow>
     'w vpn_process \<Rightarrow> http_result \<times> 'w vpn_process" where
  "vpn_create_app N unrouted up expo req p =
     (if \<not> starts_with (req_url req) (ne_base N) then (TransportError, p)
      else
        (let path = drop (length (ne_base N)) (req_url req); (served, p') = vpn_endpoint N unrouted up expo path req p in
         (sent_result served, p'\<lparr>vp_books := metrics_middleware (req_method req) path served (vp_books p')\<rparr>)))"

section \<open>The xray-agent\<close>

record 'w xray_process =
  xp_agent :: "'w xray_agent"
  xp_books :: agent_books

text \<open>The template of a route names the parameter, not its value, which is a user's credential.\<close>

fun xray_template :: "xray_request \<Rightarrow> string \<times> string" where
  "xray_template (CreateUser u did fl) = (''POST'', ''/users'')"
| "xray_template (DeleteUser u) = (''DELETE'', ''/users/{uuid}'')"
| "xray_template (RotateUser u new) = (''POST'', ''/users/{uuid}/rotate'')"
| "xray_template ListUsers = (''GET'', ''/users'')"

fun xray_status :: "xray_response \<Rightarrow> nat" where
  "xray_status (UserCreated b) = 201"
| "xray_status UserDeleted = 204"
| "xray_status (UserRotated b) = 200"
| "xray_status (UserList bs) = 200"

text \<open>A request to a user route through the application; \<open>render\<close> is the text of a response.\<close>

definition xray_create_app ::
  "crypto \<Rightarrow> string \<Rightarrow> int \<Rightarrow> codec \<Rightarrow> 'w stub \<Rightarrow> xray_config \<Rightarrow> instant \<Rightarrow> (xray_response \<Rightarrow> string) \<Rightarrow>
     string option \<Rightarrow> string option \<Rightarrow> string \<Rightarrow> xray_request \<Rightarrow> 'w xray_process \<Rightarrow> http_result \<times> 'w xray_process" where
  "xray_create_app k secret skew cd stub cfg now render sg ts body req p =
     (case (case verify_signed_request k secret skew now sg ts body of
              Inl (status, detail) \<Rightarrow> (Inl (HttpError status detail), xp_agent p)
            | Inr _ \<Rightarrow> handle_users stub cfg now req (xp_agent p)) of
        (res, s) \<Rightarrow>
          (let served = (case res of
                 Inr resp \<Rightarrow> Sent (xray_status resp) (render resp)
               | Inl (HttpError status detail) \<Rightarrow> Sent status (dumps cd (JObj [(''detail'', JStr detail)]))
               | Inl e \<Rightarrow> Broke e) in
           (sent_result served,
            \<lparr>xp_agent = s,
             xp_books = metrics_middleware (fst (xray_template req)) (snd (xray_template req)) served (xp_books p)\<rparr>)))"

text \<open>\<^verbatim>\<open>/metrics\<close>\<close>

definition xray_metrics ::
  "bool \<Rightarrow> ('w xray_process \<Rightarrow> string) \<Rightarrow> 'w xray_process \<Rightarrow> agent_served \<times> 'w xray_process" where
  "xray_metrics up expo p =
     (if \<not> up then (Broke (AgentPyError ''OperationalError''), p)
      else
        (let p' = p\<lparr>xp_books := (xp_books p)\<lparr>bk_enabled := int (length (ustore_list_enabled (ustore (xp_agent p))))\<rparr>\<rparr> in
         (Sent 200 (expo p'), p')))"

section \<open>Properties\<close>

lemma agent_reply_answers: "\<exists>status body. agent_reply cd fmt res = Response status body"
  by (induction cd fmt res rule: agent_reply.induct) auto

lemma network_answers:
  "starts_with (req_url req) (ne_base N) \<Longrightarrow> \<exists>status body n'. node_network N req n = (Response status body, n')"
  using agent_reply_answers
  by (fastforce simp: node_network_def Let_def split: route_match.split sum.split prod.split)

lemma broken_handler:
  assumes "starts_with (req_url req) (ne_base N)" and "peers_break N (drop (length (ne_base N)) (req_url req)) req n = Some e"
  shows "\<exists>n'. node_network N req n = (Response 500 ''Internal Server Error'', n')"
proof -
  let ?path = "drop (length (ne_base N)) (req_url req)"
  obtain r a where "peer_route (ne_codec N) ?path req = Routed r"
    and "signed_peers (ne_crypto N) (ne_secret N) (ne_skew N) (ne_run N) (ne_config N) (ne_clock N)
            (ne_gen N (node_drawn n)) (req_signature req) (req_timestamp req) (req_body req) r (node_agent n) = (Inl e, a)"
    and "\<And>status detail. e \<noteq> HttpError status detail"
    using assms(2) by (cases "peer_route (ne_codec N) ?path req")
      (auto simp: peers_break_def prod_eq_iff split: sum.splits agent_exn.splits)
  then show ?thesis using assms(1) by (cases e) (auto simp: node_network_def Let_def)
qed

text \<open>What the network makes of a request is what the application sends, and the exception it lets through a 500.\<close>

lemma peers_endpoint_network:
  assumes "starts_with (req_url req) (ne_base N)"
    and "peers_endpoint N (drop (length (ne_base N)) (req_url req)) req n = (served, n')"
  shows "node_network N req n = (sent_result served, n')"
proof -
  obtain status body m where "node_network N req n = (Response status body, m)" using network_answers [OF assms(1)] by blast
  then show ?thesis
    using assms(2) broken_handler [OF assms(1), of n] by (auto simp: peers_endpoint_def split: option.splits)
qed

lemma peers_endpoint_breaks:
  assumes "starts_with (req_url req) (ne_base N)" and "peers_endpoint N path req n = (served, n')"
  shows "(\<exists>e. served = Broke e) \<longleftrightarrow> peers_break N path req n \<noteq> None"
proof -
  obtain status body m where "node_network N req n = (Response status body, m)" using network_answers [OF assms(1)] by blast
  then show ?thesis using assms(2) by (auto simp: peers_endpoint_def split: option.splits)
qed

lemma probes_are_no_peer_routes: "path \<in> {''/health'', ''/ready'', ''/metrics''} \<Longrightarrow> peer_route cd path req = NoRoute"
  by (auto simp: peer_route_def)

lemma vpn_endpoint_of_route:
  "peer_route (ne_codec N) path req \<noteq> NoRoute \<Longrightarrow>
   vpn_endpoint N unrouted up expo path req p =
     (case peers_endpoint N path req (vp_node p) of (served, n') \<Rightarrow> (served, p\<lparr>vp_node := n'\<rparr>))"
  using probes_are_no_peer_routes [of path "ne_codec N" req] by (auto simp: vpn_endpoint_def)

text \<open>Behind its middleware the vpn-agent is the node the backend's provider calls: it answers a request to one of its
  peer routes, and acts on it, as the network does, and it counts the request once, under its path and the
  status of the answer, unless the handler let an exception through.\<close>

theorem vpn_app_is_node:
  assumes "starts_with (req_url req) (ne_base N)" and "path = drop (length (ne_base N)) (req_url req)"
    and "peer_route (ne_codec N) path req \<noteq> NoRoute"
    and "vpn_create_app N unrouted up expo req p = (res, p')"
  shows "node_network N req (vp_node p) = (res, vp_node p') \<and>
    (\<exists>counted. bk_requests (vp_books p') = bk_requests (vp_books p) @ counted \<and>
      (if peers_break N path req (vp_node p) = None
       then (\<exists>status body. res = Response status body \<and> counted = [(req_method req, path, status)]) else counted = []))"
proof -
  obtain served n' where run: "peers_endpoint N path req (vp_node p) = (served, n')" by fastforce
  then have p': "res = sent_result served" "vp_node p' = n'"
    "vp_books p' = metrics_middleware (req_method req) path served (vp_books p)"
    using assms by (auto simp: vpn_create_app_def vpn_endpoint_of_route)
  note breaks = peers_endpoint_breaks [OF assms(1) run]
  with p' show ?thesis
    using peers_endpoint_network [OF assms(1)] run assms(2) breaks
    by (cases served) (auto simp: metrics_middleware_def)
qed

text \<open>On an agent whose interface is synchronous with its store, the gauge a scrape reports is the number of peers
  live on the interface.\<close>

theorem gauge_counts_live_peers:
  assumes "vpn_endpoint N unrouted True expo ''/metrics'' req p = (served, p')" and "req_method req = ''GET''"
    and "synced live (node_agent (vp_node p))" and "wf_store (store (node_agent (vp_node p)))"
  shows "bk_enabled (vp_books p') = int (card (dom (live (os (node_agent (vp_node p))))))"
proof -
  let ?st = "store (node_agent (vp_node p))"
  have keys: "distinct (map pr_public_key ?st)" using assms(4) by (simp add: wf_store_def)
  have get: "store_get (pr_public_key r) ?st = Some r" if "r \<in> set ?st" for r
    using find_distinct [OF keys that] by (simp add: store_get_def)
  have "k \<in> dom (desired ?st) \<longleftrightarrow> k \<in> pr_public_key ` set (store_list_enabled ?st)" for k
  proof (cases "store_get k ?st")
    case None
    then have "k \<notin> pr_public_key ` set ?st" using get by force
    then show ?thesis using None by (auto simp: desired_def store_list_enabled_def domIff)
  next
    case (Some r)
    have r: "r \<in> set ?st" "pr_public_key r = k"
      using store_get_key [OF Some] by auto
    have "s = r" if "s \<in> set ?st" "pr_public_key s = k" for s
      using get [OF that(1)] Some that(2) by simp
    then have "k \<in> pr_public_key ` set (store_list_enabled ?st) \<longleftrightarrow> pr_enabled r"
      using r by (force simp: store_list_enabled_def)
    moreover have "k \<in> dom (desired ?st) \<longleftrightarrow> pr_enabled r"
      using Some by (simp add: desired_def domIff)
    ultimately show ?thesis by simp
  qed
  then have "dom (live (os (node_agent (vp_node p)))) = pr_public_key ` set (store_list_enabled ?st)"
    using assms(3) by (auto simp: synced_def)
  moreover have "card (pr_public_key ` set (store_list_enabled ?st)) = length (store_list_enabled ?st)"
    using distinct_map_filter [OF keys, of pr_enabled] distinct_card [of "map pr_public_key (store_list_enabled ?st)"]
    by (simp add: store_list_enabled_def)
  ultimately show ?thesis using assms(1,2) by (auto simp: vpn_endpoint_def Let_def)
qed

end
