(* ===== verification/Schemas.thy ===== *)
theory Schemas
  imports Lifecycle
begin

text \<open>
  What the endpoints of the backend answer with (\<^verbatim>\<open>backend/app/schemas/\<close>): for each response model a record of its
  fields and the projection that \<^verbatim>\<open>model_validate\<close> makes from a row, and the counts of the administrators'
  dashboard (\<^verbatim>\<open>services/stats_service.py\<close>). Columns a schema does not name never reach a client.
\<close>

section \<open>Users, plans, subscriptions, payments\<close>

record user_read =
  urd_id :: int
  urd_telegram_id :: int
  urd_username :: "string option"
  urd_first_name :: "string option"
  urd_last_name :: "string option"
  urd_status :: user_status
  urd_created_at :: instant

definition read_user :: "user \<Rightarrow> user_read" where
  "read_user u = \<lparr>urd_id = rid u, urd_telegram_id = telegram_id u, urd_username = username u,
     urd_first_name = first_name u, urd_last_name = last_name u, urd_status = usr_status u,
     urd_created_at = created_at u\<rparr>"

record plan_read =
  prd_id :: int
  prd_name :: string
  prd_slug :: string
  prd_price :: rat
  prd_currency :: string
  prd_duration_days :: int
  prd_max_devices :: int
  prd_max_speed_mbps :: "int option"
  prd_active :: bool

definition read_plan :: "plan \<Rightarrow> plan_read" where
  "read_plan p = \<lparr>prd_id = rid p, prd_name = plan_name p, prd_slug = slug p, prd_price = price p,
     prd_currency = currency p, prd_duration_days = duration_days p, prd_max_devices = max_devices p,
     prd_max_speed_mbps = max_speed_mbps p, prd_active = plan_active p\<rparr>"

record subscription_read =
  srd_id :: int
  srd_user_id :: int
  srd_plan :: plan_read
  srd_status :: subscription_status
  srd_started_at :: "instant option"
  srd_expires_at :: "instant option"
  srd_auto_renew :: bool

text \<open>The plan of a subscription has been loaded with it.\<close>

definition read_subscription :: "subscription \<Rightarrow> subscription_read dbM" where
  "read_subscription s = bindM (plan_of s) (\<lambda>p. returnM
     \<lparr>srd_id = rid s, srd_user_id = sub_user_id s, srd_plan = read_plan p, srd_status = sub_status s,
      srd_started_at = started_at s, srd_expires_at = expires_at s, srd_auto_renew = auto_renew s\<rparr>)"

record payment_read =
  pyr_id :: int
  pyr_user_id :: int
  pyr_plan_id :: int
  pyr_provider :: string
  pyr_amount :: rat
  pyr_currency :: string
  pyr_status :: payment_status

definition read_payment :: "payment \<Rightarrow> payment_read" where
  "read_payment p = \<lparr>pyr_id = rid p, pyr_user_id = pay_user_id p, pyr_plan_id = pay_plan_id p,
     pyr_provider = pay_provider p, pyr_amount = amount p, pyr_currency = pay_currency p, pyr_status = pay_status p\<rparr>"

record payment_created =
  pyc_payment_id :: int
  pyc_checkout_url :: "string option"
  pyc_status :: payment_status

section \<open>Devices, links, profiles\<close>

record device_read =
  drd_id :: int
  drd_name :: string
  drd_status :: device_status
  drd_protocol :: protocol
  drd_public_key :: "string option"
  drd_assigned_ip :: "string option"
  drd_server_id :: "int option"
  drd_created_at :: instant
  drd_last_seen :: "instant option"

definition read_device :: "device \<Rightarrow> device_read" where
  "read_device v = \<lparr>drd_id = rid v, drd_name = dev_name v, drd_status = dev_status v,
     drd_protocol = dev_protocol v, drd_public_key = dev_public_key v, drd_assigned_ip = dev_assigned_ip v,
     drd_server_id = dev_server_id v, drd_created_at = created_at v, drd_last_seen = last_seen v\<rparr>"

record provisioning_read =
  pvr_device :: device_read
  pvr_config_text :: "string option"
  pvr_qr_code :: "string option"
  pvr_subscription_url :: "string option"
  pvr_subscription_qr_code :: "string option"

definition read_provisioned :: "provisioned_device \<Rightarrow> provisioning_read" where
  "read_provisioned r = \<lparr>pvr_device = read_device (pd_device r), pvr_config_text = pd_config_text r,
     pvr_qr_code = pd_qr_code r, pvr_subscription_url = pd_subscription_url r,
     pvr_subscription_qr_code = pd_subscription_qr_code r\<rparr>"

record link_read =
  lrd_device_id :: int
  lrd_status :: link_status
  lrd_token_prefix :: string
  lrd_created_at :: instant
  lrd_rotated_at :: "instant option"
  lrd_revoked_at :: "instant option"
  lrd_last_accessed_at :: "instant option"

definition read_link :: "subscription_link \<Rightarrow> link_read" where
  "read_link l = \<lparr>lrd_device_id = link_device_id l, lrd_status = link_status l, lrd_token_prefix = token_prefix l,
     lrd_created_at = created_at l, lrd_rotated_at = link_rotated_at l, lrd_revoked_at = link_revoked_at l,
     lrd_last_accessed_at = last_accessed_at l\<rparr>"

record link_created =
  lcr_link :: link_read
  lcr_subscription_url :: string
  lcr_qr_code :: string

record profile_read =
  pfr_device_id :: int
  pfr_mode :: routing_mode
  pfr_allowed_ips :: "string list"
  pfr_dns :: "string list"
  pfr_version :: int

definition read_profile :: "vpn_profile \<Rightarrow> profile_read" where
  "read_profile p = \<lparr>pfr_device_id = prof_device_id p, pfr_mode = prof_mode p, pfr_allowed_ips = allowed_ips p,
     pfr_dns = prof_dns p, pfr_version = version p\<rparr>"

section \<open>Servers and routing\<close>

record server_read =
  svr_id :: int
  svr_name :: string
  svr_country :: string
  svr_city :: "string option"
  svr_hostname :: string
  svr_endpoint :: string
  svr_status :: server_status
  svr_capacity :: int
  svr_current_load :: int

definition read_server :: "vpn_server \<Rightarrow> server_read" where
  "read_server s = \<lparr>svr_id = rid s, svr_name = srv_name s, svr_country = country s, svr_city = city s,
     svr_hostname = hostname s, svr_endpoint = endpoint s, svr_status = srv_status s,
     svr_capacity = capacity s, svr_current_load = current_load s\<rparr>"

record vless_server_read =
  vsr_id :: int
  vsr_name :: string
  vsr_country :: string
  vsr_city :: "string option"
  vsr_hostname :: string
  vsr_status :: server_status
  vsr_capacity :: int
  vsr_current_load :: int
  vsr_xray_agent_base_url :: string
  vsr_port :: int
  vsr_reality_public_key :: string
  vsr_reality_short_ids :: "string list"
  vsr_sni :: string
  vsr_fingerprint :: string
  vsr_flow :: string
  vsr_network_type :: string

definition read_vless_server :: "vpn_server \<times> vless_server_config \<Rightarrow> vless_server_read" where
  "read_vless_server = (\<lambda>(s, c). \<lparr>vsr_id = rid s, vsr_name = srv_name s, vsr_country = country s, vsr_city = city s,
     vsr_hostname = hostname s, vsr_status = srv_status s, vsr_capacity = capacity s, vsr_current_load = current_load s,
     vsr_xray_agent_base_url = xray_agent_base_url c, vsr_port = port c, vsr_reality_public_key = reality_public_key c,
     vsr_reality_short_ids = reality_short_ids c, vsr_sni = sni c, vsr_fingerprint = fingerprint c, vsr_flow = flow c,
     vsr_network_type = network_type c\<rparr>)"

record category_read =
  ctr_id :: int
  ctr_name :: string
  ctr_description :: "string option"
  ctr_enabled :: bool

definition read_category :: "routing_category \<Rightarrow> category_read" where
  "read_category c = \<lparr>ctr_id = rid c, ctr_name = cat_name c, ctr_description = cat_description c, ctr_enabled = cat_enabled c\<rparr>"

record rule_read =
  rrd_id :: int
  rrd_category_id :: int
  rrd_domain :: string
  rrd_route_type :: route_type
  rrd_enabled :: bool

definition read_rule :: "routing_rule \<Rightarrow> rule_read" where
  "read_rule r = \<lparr>rrd_id = rid r, rrd_category_id = rule_category_id r, rrd_domain = rule_domain r,
     rrd_route_type = rule_route_type r, rrd_enabled = rule_enabled r\<rparr>"

record routing_settings_read =
  rsr_mode :: routing_mode
  rsr_categories :: "category_read list"
  rsr_enabled_category_ids :: "int list"
  rsr_custom_domains :: "string list"

section \<open>Support, audit, administrators\<close>

record message_read =
  mrd_id :: int
  mrd_sender :: support_sender
  mrd_text :: string
  mrd_created_at :: instant

definition read_message :: "support_message \<Rightarrow> message_read" where
  "read_message m = \<lparr>mrd_id = rid m, mrd_sender = sender m, mrd_text = msg_text m, mrd_created_at = msg_created_at m\<rparr>"

record ticket_read =
  trd_id :: int
  trd_subject :: string
  trd_status :: ticket_status
  trd_created_at :: instant
  trd_messages :: "message_read list"

text \<open>A ticket whose messages have been loaded with it.\<close>

definition read_ticket :: "support_ticket \<Rightarrow> database \<Rightarrow> ticket_read" where
  "read_ticket t d = \<lparr>trd_id = rid t, trd_subject = subject t, trd_status = tick_status t,
     trd_created_at = created_at t, trd_messages = map read_message (messages_of (rid t) d)\<rparr>"

record audit_read =
  adr_id :: int
  adr_admin_id :: "int option"
  adr_action :: string
  adr_target_type :: string
  adr_target_id :: "string option"
  adr_metadata :: json
  adr_created_at :: instant

definition read_audit :: "audit_log \<Rightarrow> audit_read" where
  "read_audit l = \<lparr>adr_id = rid l, adr_admin_id = log_admin_id l, adr_action = action l, adr_target_type = target_type l,
     adr_target_id = target_id l, adr_metadata = log_metadata l, adr_created_at = log_created_at l\<rparr>"

record token_read =
  tkr_access_token :: string
  tkr_token_type :: string

section \<open>The dashboard\<close>

text \<open>The source reports the revenue as a floating-point number; it is exact here.\<close>

record dashboard_counts =
  total_users :: int
  active_subscriptions :: int
  active_devices :: int
  online_servers :: int
  online_peers :: int
  revenue_last_30d :: rat
  open_support_tickets :: int

definition compute_dashboard_counts :: "instant \<Rightarrow> database \<Rightarrow> dashboard_counts" where
  "compute_dashboard_counts now d =
     \<lparr>total_users = repo_count (\<lambda>_. True) (users d),
      active_subscriptions = repo_count (\<lambda>s. sub_status s = SubActive) (subscriptions d),
      active_devices = repo_count (\<lambda>v. dev_status v = DevActive) (devices d),
      online_servers = repo_count (\<lambda>s. srv_status s = SrvOnline) (vpn_servers d),
      online_peers = repo_count (\<lambda>p. peer_status p = PeerActive) (vpn_peers d),
      revenue_last_30d = sum_list (map amount
        (filter (\<lambda>p. pay_status p = PaySucceeded \<and> now - 30 * 86400 * 1000000 \<le> created_at p) (rows (payments d)))),
      open_support_tickets = repo_count (\<lambda>t. tick_status t \<in> {TicketOpen, TicketPending}) (support_tickets d)\<rparr>"

end
