(* ===== verification/Endpoints.thy ===== *)
theory Endpoints
  imports Schemas
begin

text \<open>
  The HTTP interface of the backend (\<^verbatim>\<open>backend/app/api/\<close>), endpoint by endpoint: who may call it
  (the dependencies of \<^verbatim>\<open>core/deps.py\<close>, in the order FastAPI resolves them), what it calls and what it
  answers. Paths, methods and the parsing of bodies are FastAPI's; a request is a constructor with its
  parsed parameters. Rate limits are not modelled.
\<close>

section \<open>Requests and their environment\<close>

record 'w api_env =
  ae_device :: "'w device_env"
  ae_gateway :: gateway
  ae_random :: string
  ae_jti :: string
  ae_salt :: string

abbreviation ae_settings :: "'w api_env \<Rightarrow> settings" where
  "ae_settings V \<equiv> de_settings (ae_device V)"

abbreviation ae_now :: "'w api_env \<Rightarrow> instant" where
  "ae_now V \<equiv> de_now (ae_device V)"

abbreviation ae_crypto :: "'w api_env \<Rightarrow> crypto" where
  "ae_crypto V \<equiv> de_crypto (ae_device V)"

text \<open>\<^verbatim>\<open>X-Internal-Token\<close>, \<^verbatim>\<open>X-Telegram-User-Id\<close> and \<^verbatim>\<open>Authorization\<close>.\<close>

record credentials =
  x_internal_token :: "string option"
  x_telegram_user_id :: "int option"
  authorization :: "string option"

text \<open>What the bot asks for on behalf of a user.\<close>

datatype user_request =
    GetMyProfile
  | ListMySubscriptions | GetMyActiveSubscription | CancelSubscription int
  | ListDevices | CreateDevice string "int option" protocol
  | ReissueDevice int | DisableDevice int | EnableDevice int | RevokeDevice int
  | CreateOrRotateLink int | GetLink int | RevokeLink int
  | GetDeviceProfile int | RefreshDeviceProfile int
  | GetMyRouting | SetMyMode routing_mode | SetMyCategory int bool | AddMyDomain string route_type
  | CreatePayment int "string option" | ListMyPayments
  | CreateTicket string string | ListMyTickets | GetTicket int | AddTicketMessage int string

datatype admin_request =
    ListUsers int int | GetUser int | UpdateUserStatus int user_status
  | CreatePlan plan_create | UpdatePlan int plan_update
  | CreateServer server_create | UpdateServer int server_update | DeleteServer int
  | CreateVlessServer vless_create | UpdateVlessServer int vless_update | DeleteVlessServer int
  | CreateCategory string "string option" | AddRule int string route_type bool
  | ListAllPayments int int | RefundPayment int
  | ListAllTickets int int | ReplyTicket int string | CloseTicket int
  | GetDashboard | ListAuditLogs int int

datatype public_request =
    ListPlans | GetPlan int | ListServers | ListVlessServers | ListCategories
  | PaymentWebhook string "string option"
  | AuthenticateTelegram telegram_auth
  | AdminLogin string string | AdminBootstrap string string string
  | GetSubscription string "string option"

datatype api_request = ByUser user_request | ByAdmin admin_request | ByAnyone public_request

datatype api_body =
    UserRead user_read | UsersRead "user_read list"
  | PlanRead plan_read | PlansRead "plan_read list"
  | SubscriptionRead "subscription_read option" | SubscriptionsRead "subscription_read list"
  | DeviceRead device_read | DevicesRead "device_read list" | ProvisioningRead provisioning_read
  | LinkRead link_read | LinkCreated link_created | ProfileRead profile_read
  | RoutingSettingsRead routing_settings_read | CategoryRead category_read | CategoriesRead "category_read list"
  | RuleRead rule_read
  | ServerRead server_read | ServersRead "server_read list"
  | VlessServerRead vless_server_read | VlessServersRead "vless_server_read list"
  | PaymentRead payment_read | PaymentsRead "payment_read list" | PaymentCreated payment_created | WebhookAck
  | TicketRead ticket_read | TicketsRead "ticket_read list" | MessageRead message_read
  | AuditRead "audit_read list" | DashboardRead dashboard_counts | TokenRead token_read
  | NoBody | RawContent string string

text \<open>\<^verbatim>\<open>Pagination\<close> is unconstrained; the database refuses a negative offset or limit.\<close>

definition paged :: "int \<Rightarrow> int \<Rightarrow> (nat \<Rightarrow> nat \<Rightarrow> database \<Rightarrow> 'r list) \<Rightarrow> 'r list dbM" where
  "paged offset limit query =
     (if offset < 0 \<or> limit < 0 then raiseM (PyError ''DBAPIError'')
      else getM (query (nat offset) (nat limit)))"

section \<open>Endpoints of users\<close>

subsection \<open>\<^verbatim>\<open>subscriptions.py\<close>\<close>

definition list_my_subscriptions :: "user \<Rightarrow> subscription_read list dbM" where
  "list_my_subscriptions u =
     bindM (getM (list_subscriptions_for_user (rid u))) (\<lambda>ss. mapM read_subscription ss)"

definition get_my_active_subscription :: "user \<Rightarrow> subscription_read option dbM" where
  "get_my_active_subscription u =
     bindM (getM (get_active_for_user (rid u))) (\<lambda>found.
       case found of None \<Rightarrow> returnM None
       | Some s \<Rightarrow> bindM (read_subscription s) (\<lambda>r. returnM (Some r)))"

definition cancel_subscription_endpoint :: "user \<Rightarrow> int \<Rightarrow> subscription_read dbM" where
  "cancel_subscription_endpoint u i =
     bindM (get_subscription i) (\<lambda>s.
       if sub_user_id s \<noteq> rid u
       then raiseM (app_error PermissionDeniedError ''Not your subscription'' (Some ''not_your_subscription''))
       else bindM (cancel_subscription s) read_subscription)"

subsection \<open>\<^verbatim>\<open>devices.py\<close>\<close>

definition list_devices_endpoint :: "user \<Rightarrow> device_read list dbM" where
  "list_devices_endpoint u =
     bindM (getM (list_devices_for_user (rid u))) (\<lambda>vs. returnM (map read_device vs))"

definition create_device :: "'w api_env \<Rightarrow> user \<Rightarrow> string \<Rightarrow> int option \<Rightarrow> protocol \<Rightarrow> ('w, provisioning_read) app" where
  "create_device V u name requested p =
     bindM (provision (ae_device V) (rid u) name requested p) (\<lambda>r. returnM (read_provisioned r))"

definition reissue_device_config :: "'w api_env \<Rightarrow> user \<Rightarrow> int \<Rightarrow> ('w, provisioning_read) app" where
  "reissue_device_config V u i =
     bindM (on_db (get_owned i (rid u))) (\<lambda>v.
     bindM (reissue (ae_device V) v) (\<lambda>r. returnM (read_provisioned r)))"

definition disable_device_endpoint :: "'w api_env \<Rightarrow> user \<Rightarrow> int \<Rightarrow> ('w, device_read) app" where
  "disable_device_endpoint V u i =
     bindM (on_db (get_owned i (rid u))) (\<lambda>v.
     bindM (disable_device (ae_device V) v) (\<lambda>v. returnM (read_device v)))"

definition enable_device_endpoint :: "'w api_env \<Rightarrow> user \<Rightarrow> int \<Rightarrow> ('w, device_read) app" where
  "enable_device_endpoint V u i =
     bindM (on_db (get_owned i (rid u))) (\<lambda>v.
     bindM (enable_device (ae_device V) v) (\<lambda>v. returnM (read_device v)))"

definition revoke_device_endpoint :: "'w api_env \<Rightarrow> user \<Rightarrow> int \<Rightarrow> ('w, device_read) app" where
  "revoke_device_endpoint V u i =
     bindM (on_db (get_owned i (rid u))) (\<lambda>v.
     bindM (revoke_device (ae_device V) v) (\<lambda>v. returnM (read_device v)))"

subsection \<open>\<^verbatim>\<open>subscription_links.py\<close>\<close>

definition no_link_yet :: exn where
  "no_link_yet = app_error NotFoundError ''No subscription link exists for this device yet''
     (Some ''subscription_link_not_found'')"

definition create_or_rotate_subscription_link :: "'w api_env \<Rightarrow> user \<Rightarrow> int \<Rightarrow> ('w, link_created) app" where
  "create_or_rotate_subscription_link V u i =
     bindM (on_db (get_owned i (rid u))) (\<lambda>v.
     bindM (on_db (create_or_rotate (ae_crypto V) (ae_now V) (de_token (ae_device V)) (rid v))) (\<lambda>(l, token).
     let url = build_subscription_url (subscription_base_url (ae_settings V)) token in
     bindM (qr_code (ae_device V) url) (\<lambda>qr.
     returnM \<lparr>lcr_link = read_link l, lcr_subscription_url = url, lcr_qr_code = qr\<rparr>)))"

definition get_subscription_link :: "user \<Rightarrow> int \<Rightarrow> link_read dbM" where
  "get_subscription_link u i =
     bindM (get_owned i (rid u)) (\<lambda>v.
     bindM (get_link_for_device (rid v)) (\<lambda>found.
     bindM (requireM no_link_yet found) (\<lambda>l. returnM (read_link l))))"

definition revoke_subscription_link :: "'w api_env \<Rightarrow> user \<Rightarrow> int \<Rightarrow> link_read dbM" where
  "revoke_subscription_link V u i =
     bindM (get_owned i (rid u)) (\<lambda>v.
     bindM (get_link_for_device (rid v)) (\<lambda>found.
     bindM (requireM no_link_yet found) (\<lambda>l.
     bindM (revoke_link (ae_now V) l) (\<lambda>l. returnM (read_link l)))))"

subsection \<open>\<^verbatim>\<open>vpn.py\<close>\<close>

definition get_device_profile :: "user \<Rightarrow> int \<Rightarrow> profile_read dbM" where
  "get_device_profile u i =
     bindM (get_owned i (rid u)) (\<lambda>v.
     bindM (get_current_profile (rid v)) (\<lambda>found.
     bindM (requireM (app_error NotFoundError ''No routing profile generated yet'' (Some ''profile_not_found'')) found)
       (\<lambda>p. returnM (read_profile p))))"

definition refresh_device_profile :: "'w api_env \<Rightarrow> user \<Rightarrow> int \<Rightarrow> profile_read dbM" where
  "refresh_device_profile V u i =
     bindM (get_owned i (rid u)) (\<lambda>v.
     bindM (regenerate_profile (de_dns (ae_device V)) (ae_settings V) (ae_now V) (rid v) (rid u)) (\<lambda>p.
     returnM (read_profile p)))"

subsection \<open>\<^verbatim>\<open>routing.py\<close>\<close>

definition get_my_routing_settings :: "user \<Rightarrow> routing_settings_read dbM" where
  "get_my_routing_settings u =
     bindM (get_or_create_user_profile (rid u)) (\<lambda>profile.
     bindM (getM (\<lambda>d. (list_enabled_categories d, list_preferences (rid u) d, list_custom_domains (rid u) d)))
       (\<lambda>(categories, prefs, domains).
     returnM \<lparr>rsr_mode = urp_mode profile, rsr_categories = map read_category categories,
       rsr_enabled_category_ids = map pref_category_id (filter pref_enabled prefs),
       rsr_custom_domains = map cd_domain (filter cd_enabled domains)\<rparr>))"

definition set_my_routing_mode :: "user \<Rightarrow> routing_mode \<Rightarrow> routing_settings_read dbM" where
  "set_my_routing_mode u mode = bindM (set_mode (rid u) mode) (\<lambda>_. get_my_routing_settings u)"

definition set_my_category_preference :: "user \<Rightarrow> int \<Rightarrow> bool \<Rightarrow> routing_settings_read dbM" where
  "set_my_category_preference u cid enabled =
     bindM (set_category_preference (rid u) cid enabled) (\<lambda>_. get_my_routing_settings u)"

definition add_my_custom_domain :: "'w api_env \<Rightarrow> user \<Rightarrow> string \<Rightarrow> route_type \<Rightarrow> routing_settings_read dbM" where
  "add_my_custom_domain V u domain route =
     bindM (add_custom_domain (ae_now V) (rid u) domain route) (\<lambda>_. get_my_routing_settings u)"

subsection \<open>\<^verbatim>\<open>payments.py\<close>\<close>

definition create_payment_endpoint :: "'w api_env \<Rightarrow> user \<Rightarrow> int \<Rightarrow> string option \<Rightarrow> payment_created dbM" where
  "create_payment_endpoint V u plan_id promo =
     bindM (get_payment_provider (ae_settings V) (ae_gateway V)) (\<lambda>gw.
     bindM (get_plan plan_id) (\<lambda>p.
     bindM (create_payment gw (settings.payment_provider (ae_settings V)) (ae_now V) (ae_random V) u p promo) (\<lambda>(pay, url).
     returnM \<lparr>pyc_payment_id = rid pay, pyc_checkout_url = url, pyc_status = pay_status pay\<rparr>)))"

definition list_my_payments :: "user \<Rightarrow> payment_read list dbM" where
  "list_my_payments u = bindM (getM (list_payments_for_user (rid u))) (\<lambda>ps. returnM (map read_payment ps))"

subsection \<open>\<^verbatim>\<open>support.py\<close>\<close>

text \<open>
  Neither listing loads the messages of its tickets, and reading an attribute that has to be loaded
  while a response is built is an error in an asynchronous session.
\<close>

definition read_unloaded_tickets :: "support_ticket list \<Rightarrow> ticket_read list dbM" where
  "read_unloaded_tickets ts = (if ts = [] then returnM [] else raiseM (PyError ''ValidationError''))"

definition not_your_ticket :: exn where
  "not_your_ticket = app_error PermissionDeniedError ''Not your ticket'' (Some ''not_your_ticket'')"

definition create_ticket_endpoint :: "'w api_env \<Rightarrow> user \<Rightarrow> string \<Rightarrow> string \<Rightarrow> ticket_read dbM" where
  "create_ticket_endpoint V u subj message =
     bindM (create_ticket (ae_now V) (rid u) subj message) (\<lambda>t. getM (read_ticket t))"

definition list_my_tickets :: "user \<Rightarrow> ticket_read list dbM" where
  "list_my_tickets u = bindM (getM (list_tickets_for_user (rid u))) read_unloaded_tickets"

definition get_ticket_endpoint :: "user \<Rightarrow> int \<Rightarrow> ticket_read dbM" where
  "get_ticket_endpoint u i =
     bindM (get_ticket i) (\<lambda>t. if tick_user_id t \<noteq> rid u then raiseM not_your_ticket else getM (read_ticket t))"

definition add_message_endpoint :: "'w api_env \<Rightarrow> user \<Rightarrow> int \<Rightarrow> string \<Rightarrow> message_read dbM" where
  "add_message_endpoint V u i txt =
     bindM (get_ticket i) (\<lambda>t.
       if tick_user_id t \<noteq> rid u then raiseM not_your_ticket
       else bindM (add_message (ae_now V) t SenderUser txt) (\<lambda>m. returnM (read_message m)))"

definition answer :: "('a \<Rightarrow> api_body) \<Rightarrow> ('s, exn, 'a) comp \<Rightarrow> ('s, exn, api_body) comp" where
  "answer f m = bindM m (\<lambda>x. returnM (f x))"

fun serve_user :: "'w api_env \<Rightarrow> user \<Rightarrow> user_request \<Rightarrow> ('w, api_body) app" where
  "serve_user V u GetMyProfile = returnM (UserRead (read_user u))"
| "serve_user V u ListMySubscriptions = answer SubscriptionsRead (on_db (list_my_subscriptions u))"
| "serve_user V u GetMyActiveSubscription = answer SubscriptionRead (on_db (get_my_active_subscription u))"
| "serve_user V u (CancelSubscription i) = answer (SubscriptionRead \<circ> Some) (on_db (cancel_subscription_endpoint u i))"
| "serve_user V u ListDevices = answer DevicesRead (on_db (list_devices_endpoint u))"
| "serve_user V u (CreateDevice name requested p) = answer ProvisioningRead (create_device V u name requested p)"
| "serve_user V u (ReissueDevice i) = answer ProvisioningRead (reissue_device_config V u i)"
| "serve_user V u (DisableDevice i) = answer DeviceRead (disable_device_endpoint V u i)"
| "serve_user V u (EnableDevice i) = answer DeviceRead (enable_device_endpoint V u i)"
| "serve_user V u (RevokeDevice i) = answer DeviceRead (revoke_device_endpoint V u i)"
| "serve_user V u (CreateOrRotateLink i) = answer LinkCreated (create_or_rotate_subscription_link V u i)"
| "serve_user V u (GetLink i) = answer LinkRead (on_db (get_subscription_link u i))"
| "serve_user V u (RevokeLink i) = answer LinkRead (on_db (revoke_subscription_link V u i))"
| "serve_user V u (GetDeviceProfile i) = answer ProfileRead (on_db (get_device_profile u i))"
| "serve_user V u (RefreshDeviceProfile i) = answer ProfileRead (on_db (refresh_device_profile V u i))"
| "serve_user V u GetMyRouting = answer RoutingSettingsRead (on_db (get_my_routing_settings u))"
| "serve_user V u (SetMyMode m) = answer RoutingSettingsRead (on_db (set_my_routing_mode u m))"
| "serve_user V u (SetMyCategory i b) = answer RoutingSettingsRead (on_db (set_my_category_preference u i b))"
| "serve_user V u (AddMyDomain dn r) = answer RoutingSettingsRead (on_db (add_my_custom_domain V u dn r))"
| "serve_user V u (CreatePayment i promo) = answer PaymentCreated (on_db (create_payment_endpoint V u i promo))"
| "serve_user V u ListMyPayments = answer PaymentsRead (on_db (list_my_payments u))"
| "serve_user V u (CreateTicket s m) = answer TicketRead (on_db (create_ticket_endpoint V u s m))"
| "serve_user V u ListMyTickets = answer TicketsRead (on_db (list_my_tickets u))"
| "serve_user V u (GetTicket i) = answer TicketRead (on_db (get_ticket_endpoint u i))"
| "serve_user V u (AddTicketMessage i txt) = answer MessageRead (on_db (add_message_endpoint V u i txt))"

section \<open>Endpoints of administrators\<close>

text \<open>The audit log entry an administrator's action leaves.\<close>

definition audited :: "'w api_env \<Rightarrow> admin_user \<Rightarrow> string \<Rightarrow> string \<Rightarrow> int \<Rightarrow> (string \<times> json) list \<Rightarrow> unit dbM" where
  "audited V a act ttype i meta =
     bindM (audit_record (ae_now V) (Some (rid a)) act ttype (Some (int_str i)) meta) (\<lambda>_. returnM ())"

subsection \<open>\<^verbatim>\<open>users.py\<close>\<close>

definition user_not_found :: exn where
  "user_not_found = app_error NotFoundError ''User not found'' (Some ''user_not_found'')"

definition get_user_row :: "int \<Rightarrow> user dbM" where
  "get_user_row i = bindM (getM (\<lambda>d. repo_get i (users d))) (requireM user_not_found)"

definition list_users :: "int \<Rightarrow> int \<Rightarrow> user_read list dbM" where
  "list_users offset limit =
     bindM (paged offset limit (\<lambda>o1 l d. repo_list o1 l (\<lambda>_. True) (users d))) (\<lambda>us. returnM (map read_user us))"

definition get_user :: "int \<Rightarrow> user_read dbM" where
  "get_user i = bindM (get_user_row i) (\<lambda>u. returnM (read_user u))"

definition update_user_status :: "'w api_env \<Rightarrow> admin_user \<Rightarrow> int \<Rightarrow> user_status \<Rightarrow> user_read dbM" where
  "update_user_status V a i st =
     bindM (get_user_row i) (\<lambda>u.
     bindM (set_user_status u st) (\<lambda>u.
     bindM (audited V a ''user.status_updated'' ''user'' i [(''status'', JStr (user_status_value st))]) (\<lambda>_.
     returnM (read_user u))))"

subsection \<open>\<^verbatim>\<open>plans.py\<close>\<close>

definition create_plan_endpoint :: "'w api_env \<Rightarrow> admin_user \<Rightarrow> plan_create \<Rightarrow> plan_read dbM" where
  "create_plan_endpoint V a payload =
     bindM (create_plan (ae_now V) payload) (\<lambda>p.
     bindM (audited V a ''plan.created'' ''plan'' (rid p) []) (\<lambda>_. returnM (read_plan p)))"

definition update_plan_endpoint :: "'w api_env \<Rightarrow> admin_user \<Rightarrow> int \<Rightarrow> plan_update \<Rightarrow> plan_read dbM" where
  "update_plan_endpoint V a i payload =
     bindM (update_plan i payload) (\<lambda>p.
     bindM (audited V a ''plan.updated'' ''plan'' i []) (\<lambda>_. returnM (read_plan p)))"

subsection \<open>\<^verbatim>\<open>servers.py\<close> and \<^verbatim>\<open>vless_servers.py\<close>\<close>

definition create_server_endpoint :: "'w api_env \<Rightarrow> admin_user \<Rightarrow> server_create \<Rightarrow> server_read dbM" where
  "create_server_endpoint V a payload =
     bindM (create_server (ae_now V) payload) (\<lambda>s.
     bindM (audited V a ''server.created'' ''vpn_server'' (rid s) []) (\<lambda>_. returnM (read_server s)))"

definition update_server_endpoint :: "'w api_env \<Rightarrow> admin_user \<Rightarrow> int \<Rightarrow> server_update \<Rightarrow> server_read dbM" where
  "update_server_endpoint V a i payload =
     bindM (update_server i payload) (\<lambda>s.
     bindM (audited V a ''server.updated'' ''vpn_server'' i []) (\<lambda>_. returnM (read_server s)))"

definition delete_server_endpoint :: "'w api_env \<Rightarrow> admin_user \<Rightarrow> int \<Rightarrow> unit dbM" where
  "delete_server_endpoint V a i =
     bindM (delete_server i) (\<lambda>_. audited V a ''server.deleted'' ''vpn_server'' i [])"

definition create_vless_server_endpoint :: "'w api_env \<Rightarrow> admin_user \<Rightarrow> vless_create \<Rightarrow> vless_server_read dbM" where
  "create_vless_server_endpoint V a payload =
     bindM (create_vless_server (ae_now V) payload) (\<lambda>sc.
     bindM (audited V a ''vless_server.created'' ''vpn_server'' (rid (fst sc)) []) (\<lambda>_. returnM (read_vless_server sc)))"

definition update_vless_server_endpoint ::
  "'w api_env \<Rightarrow> admin_user \<Rightarrow> int \<Rightarrow> vless_update \<Rightarrow> vless_server_read dbM" where
  "update_vless_server_endpoint V a i payload =
     bindM (update_vless_server i payload) (\<lambda>sc.
     bindM (audited V a ''vless_server.updated'' ''vpn_server'' i []) (\<lambda>_. returnM (read_vless_server sc)))"

definition delete_vless_server_endpoint :: "'w api_env \<Rightarrow> admin_user \<Rightarrow> int \<Rightarrow> unit dbM" where
  "delete_vless_server_endpoint V a i =
     bindM (delete_vless_server i) (\<lambda>_. audited V a ''vless_server.deleted'' ''vpn_server'' i [])"

subsection \<open>\<^verbatim>\<open>routing.py\<close>, \<^verbatim>\<open>payments.py\<close>, \<^verbatim>\<open>support.py\<close>, \<^verbatim>\<open>admin.py\<close>\<close>

definition create_category_endpoint :: "'w api_env \<Rightarrow> admin_user \<Rightarrow> string \<Rightarrow> string option \<Rightarrow> category_read dbM" where
  "create_category_endpoint V a name descr =
     bindM (create_category name descr) (\<lambda>c.
     bindM (audited V a ''routing_category.created'' ''routing_category'' (rid c) []) (\<lambda>_. returnM (read_category c)))"

definition add_rule_endpoint :: "'w api_env \<Rightarrow> int \<Rightarrow> string \<Rightarrow> route_type \<Rightarrow> bool \<Rightarrow> rule_read dbM" where
  "add_rule_endpoint V cid domain route enabled =
     bindM (add_rule (ae_now V) cid domain route enabled) (\<lambda>r. returnM (read_rule r))"

definition list_all_payments_endpoint :: "int \<Rightarrow> int \<Rightarrow> payment_read list dbM" where
  "list_all_payments_endpoint offset limit =
     bindM (paged offset limit list_all_payments) (\<lambda>ps. returnM (map read_payment ps))"

text \<open>\<^verbatim>\<open>str\<close> of an amount read from its column, which keeps two decimals.\<close>

definition amount_str :: "rat \<Rightarrow> string" where
  "amount_str x =
     (let n = \<lfloor>x * 100\<rfloor>; cents = nat (\<bar>n\<bar> mod 100) in
      (if n < 0 then ''-'' else '''') @ int_str (\<bar>n\<bar> div 100) @ ''.'' @ (if cents < 10 then ''0'' else '''') @ nat_str cents)"

definition refund_payment :: "'w api_env \<Rightarrow> admin_user \<Rightarrow> int \<Rightarrow> payment_read dbM" where
  "refund_payment V a i =
     bindM (get_payment_provider (ae_settings V) (ae_gateway V)) (\<lambda>gw.
     bindM (getM (\<lambda>d. repo_get i (payments d))) (\<lambda>found.
     bindM (requireM (app_error NotFoundError ''Payment not found'' (Some ''payment_not_found'')) found) (\<lambda>p.
     bindM (refund gw p) (\<lambda>p.
     bindM (audited V a ''payment.refunded'' ''payment'' i
       [(''user_id'', JInt (pay_user_id p)), (''amount'', JStr (amount_str (amount p)))]) (\<lambda>_.
     returnM (read_payment p))))))"

definition list_all_tickets_endpoint :: "int \<Rightarrow> int \<Rightarrow> ticket_read list dbM" where
  "list_all_tickets_endpoint offset limit = bindM (paged offset limit list_all_tickets) read_unloaded_tickets"

definition admin_reply :: "'w api_env \<Rightarrow> admin_user \<Rightarrow> int \<Rightarrow> string \<Rightarrow> message_read dbM" where
  "admin_reply V a i txt =
     bindM (get_ticket i) (\<lambda>t.
     bindM (add_message (ae_now V) t SenderAdmin txt) (\<lambda>m.
     bindM (audited V a ''support_ticket.replied'' ''support_ticket'' i []) (\<lambda>_. returnM (read_message m))))"

definition close_ticket_endpoint :: "'w api_env \<Rightarrow> admin_user \<Rightarrow> int \<Rightarrow> ticket_read dbM" where
  "close_ticket_endpoint V a i =
     bindM (get_ticket i) (\<lambda>t.
     bindM (close_ticket t) (\<lambda>t.
     bindM (audited V a ''support_ticket.closed'' ''support_ticket'' i []) (\<lambda>_. getM (read_ticket t))))"

definition list_audit_logs :: "int \<Rightarrow> int \<Rightarrow> audit_read list dbM" where
  "list_audit_logs offset limit =
     bindM (paged offset limit (\<lambda>o1 l d. repo_list o1 l (\<lambda>_. True) (audit_logs d))) (\<lambda>ls. returnM (map read_audit ls))"

fun serve_admin :: "'w api_env \<Rightarrow> admin_user \<Rightarrow> admin_request \<Rightarrow> api_body dbM" where
  "serve_admin V a (ListUsers o1 l) = answer UsersRead (list_users o1 l)"
| "serve_admin V a (GetUser i) = answer UserRead (get_user i)"
| "serve_admin V a (UpdateUserStatus i st) = answer UserRead (update_user_status V a i st)"
| "serve_admin V a (CreatePlan p) = answer PlanRead (create_plan_endpoint V a p)"
| "serve_admin V a (UpdatePlan i p) = answer PlanRead (update_plan_endpoint V a i p)"
| "serve_admin V a (CreateServer p) = answer ServerRead (create_server_endpoint V a p)"
| "serve_admin V a (UpdateServer i p) = answer ServerRead (update_server_endpoint V a i p)"
| "serve_admin V a (DeleteServer i) = answer (\<lambda>_. NoBody) (delete_server_endpoint V a i)"
| "serve_admin V a (CreateVlessServer p) = answer VlessServerRead (create_vless_server_endpoint V a p)"
| "serve_admin V a (UpdateVlessServer i p) = answer VlessServerRead (update_vless_server_endpoint V a i p)"
| "serve_admin V a (DeleteVlessServer i) = answer (\<lambda>_. NoBody) (delete_vless_server_endpoint V a i)"
| "serve_admin V a (CreateCategory name descr) = answer CategoryRead (create_category_endpoint V a name descr)"
| "serve_admin V a (AddRule cid dn r b) = answer RuleRead (add_rule_endpoint V cid dn r b)"
| "serve_admin V a (ListAllPayments o1 l) = answer PaymentsRead (list_all_payments_endpoint o1 l)"
| "serve_admin V a (RefundPayment i) = answer PaymentRead (refund_payment V a i)"
| "serve_admin V a (ListAllTickets o1 l) = answer TicketsRead (list_all_tickets_endpoint o1 l)"
| "serve_admin V a (ReplyTicket i txt) = answer MessageRead (admin_reply V a i txt)"
| "serve_admin V a (CloseTicket i) = answer TicketRead (close_ticket_endpoint V a i)"
| "serve_admin V a GetDashboard = answer DashboardRead (getM (compute_dashboard_counts (ae_now V)))"
| "serve_admin V a (ListAuditLogs o1 l) = answer AuditRead (list_audit_logs o1 l)"

text \<open>The roles each endpoint names in \<^verbatim>\<open>require_admin_role\<close>.\<close>

definition any_admin :: "admin_role list" where
  "any_admin = [SUPERADMIN, SUPPORT, VIEWER]"

fun admin_roles :: "admin_request \<Rightarrow> admin_role list" where
  "admin_roles (ListUsers _ _) = any_admin"
| "admin_roles (GetUser _) = any_admin"
| "admin_roles (UpdateUserStatus _ _) = [SUPERADMIN, SUPPORT]"
| "admin_roles (ListAllPayments _ _) = any_admin"
| "admin_roles (ListAllTickets _ _) = [SUPERADMIN, SUPPORT]"
| "admin_roles (ReplyTicket _ _) = [SUPERADMIN, SUPPORT]"
| "admin_roles (CloseTicket _) = [SUPERADMIN, SUPPORT]"
| "admin_roles GetDashboard = any_admin"
| "admin_roles (ListAuditLogs _ _) = any_admin"
| "admin_roles _ = [SUPERADMIN]"

section \<open>Endpoints open to anyone\<close>

definition authenticate_telegram_user :: "'w api_env \<Rightarrow> credentials \<Rightarrow> telegram_auth \<Rightarrow> user_read dbM" where
  "authenticate_telegram_user V cr payload =
     bindM (require_internal_service (ae_settings V) (x_internal_token cr)) (\<lambda>_.
     bindM (get_or_create_from_telegram (ae_now V) payload) (\<lambda>u. returnM (read_user u)))"

definition token_response :: "'w api_env \<Rightarrow> admin_user \<Rightarrow> token_read" where
  "token_response V a = \<lparr>tkr_access_token = issue_tokens (ae_crypto V) (ae_settings V) (ae_now V) (ae_jti V) a,
     tkr_token_type = ''bearer''\<rparr>"

definition admin_login :: "'w api_env \<Rightarrow> string \<Rightarrow> string \<Rightarrow> token_read dbM" where
  "admin_login V email password =
     bindM (authenticate (ae_crypto V) email password) (\<lambda>a. returnM (token_response V a))"

definition admin_bootstrap :: "'w api_env \<Rightarrow> string \<Rightarrow> string \<Rightarrow> string \<Rightarrow> token_read dbM" where
  "admin_bootstrap V secret email password =
     bindM (bootstrap_first_admin (ae_crypto V) (ae_now V) (ae_salt V) email password secret (admin_secret (ae_settings V)))
       (\<lambda>a. returnM (token_response V a))"

definition payment_webhook :: "'w api_env \<Rightarrow> string \<Rightarrow> string option \<Rightarrow> unit dbM" where
  "payment_webhook V raw sig =
     bindM (get_payment_provider (ae_settings V) (ae_gateway V)) (\<lambda>gw.
     bindM (handle_webhook gw (settings.payment_provider (ae_settings V)) (ae_now V) raw
       (case sig of None \<Rightarrow> '''' | Some s \<Rightarrow> s)) (\<lambda>_. returnM ()))"

definition get_subscription_content :: "'w api_env \<Rightarrow> string \<Rightarrow> string option \<Rightarrow> (string \<times> string) dbM" where
  "get_subscription_content V token hint = deliver (ae_crypto V) (ae_now V) token hint"

fun serve_public :: "'w api_env \<Rightarrow> credentials \<Rightarrow> public_request \<Rightarrow> api_body dbM" where
  "serve_public V cr ListPlans = answer (PlansRead \<circ> map read_plan) (getM list_active_plans)"
| "serve_public V cr (GetPlan i) = answer (PlanRead \<circ> read_plan) (get_plan i)"
| "serve_public V cr ListServers = answer (ServersRead \<circ> map read_server) (getM list_wireguard_servers)"
| "serve_public V cr ListVlessServers = answer (VlessServersRead \<circ> map read_vless_server) list_vless_servers"
| "serve_public V cr ListCategories = answer (CategoriesRead \<circ> map read_category) (getM list_enabled_categories)"
| "serve_public V cr (PaymentWebhook raw sig) = answer (\<lambda>_. WebhookAck) (payment_webhook V raw sig)"
| "serve_public V cr (AuthenticateTelegram p) = answer UserRead (authenticate_telegram_user V cr p)"
| "serve_public V cr (AdminLogin email password) = answer TokenRead (admin_login V email password)"
| "serve_public V cr (AdminBootstrap secret email password) = answer TokenRead (admin_bootstrap V secret email password)"
| "serve_public V cr (GetSubscription token hint) =
     answer (\<lambda>(content, content_type). RawContent content content_type) (get_subscription_content V token hint)"

section \<open>The application\<close>

text \<open>
  Field constraints that are not a matter of type. A body that violates them is refused after the
  dependencies have run.
\<close>

fun request_valid :: "api_request \<Rightarrow> bool" where
  "request_valid (ByAdmin (CreatePlan p)) = plan_create_valid p"
| "request_valid (ByAnyone (AdminBootstrap secret email password)) = (12 \<le> length password)"
| "request_valid _ = True"

definition validated :: "api_request \<Rightarrow> ('w, 'a) app \<Rightarrow> ('w, 'a) app" where
  "validated req m = (if request_valid req then m else raiseM (PyError ''RequestValidationError''))"

definition dispatch :: "'w api_env \<Rightarrow> credentials \<Rightarrow> api_request \<Rightarrow> ('w, api_body) app" where
  "dispatch V cr req =
     (case req of
        ByUser r \<Rightarrow>
          bindM (on_db (get_current_user (ae_settings V) (x_internal_token cr) (x_telegram_user_id cr)))
            (\<lambda>u. serve_user V u r)
      | ByAdmin r \<Rightarrow>
          bindM (on_db (get_current_admin (ae_crypto V) (ae_settings V) (ae_now V) (authorization cr))) (\<lambda>a.
          bindM (require_admin_role (admin_roles r) a) (\<lambda>_. validated req (on_db (serve_admin V a r))))
      | ByAnyone r \<Rightarrow> validated req (on_db (serve_public V cr r)))"

text \<open>A request as the client sees it: one unit of work, its exception turned into a response.\<close>

definition raised_by :: "exn \<Rightarrow> raised" where
  "raised_by e = (if e = PyError ''RequestValidationError'' then RaisedValidation '''' else RaisedApp e)"

definition api_call ::
  "string option \<Rightarrow> string \<Rightarrow> 'w api_env \<Rightarrow> credentials \<Rightarrow> api_request \<Rightarrow> 'w world \<Rightarrow> (error_response + api_body) \<times> 'w world" where
  "api_call sid ctx V cr req w =
     (case with_session (dispatch V cr req) w of
        (Inr b, w') \<Rightarrow> (Inr b, w')
      | (Inl e, w') \<Rightarrow> (Inl (handle_exception sid ctx (raised_by e)), w'))"

end
