(* ===== verification/Access.thy ===== *)
theory Access
  imports Endpoints Expiry
begin

text \<open>
  Who can do what through the backend's HTTP interface: which credentials a request needs before it has any
  effect, that a user's requests change nothing that belongs to somebody else, and what administrators'
  requests leave in the audit log.
\<close>

section \<open>Frames of the endpoints\<close>

lemma keeps_more_tables [frame]:
  "(\<And>t d. F (d\<lparr>routing_categories := t\<rparr>) = F d) \<Longrightarrow> keeps F (on_routing_categories m1)"
  "(\<And>t d. F (d\<lparr>routing_rules := t\<rparr>) = F d) \<Longrightarrow> keeps F (on_routing_rules m2)"
  "(\<And>t d. F (d\<lparr>user_category_preferences := t\<rparr>) = F d) \<Longrightarrow> keeps F (on_user_category_preferences m3)"
  "(\<And>t d. F (d\<lparr>user_custom_domains := t\<rparr>) = F d) \<Longrightarrow> keeps F (on_user_custom_domains m4)"
  "(\<And>t d. F (d\<lparr>support_tickets := t\<rparr>) = F d) \<Longrightarrow> keeps F (on_support_tickets m5)"
  "(\<And>t d. F (d\<lparr>support_messages := t\<rparr>) = F d) \<Longrightarrow> keeps F (on_support_messages m6)"
  by (simp_all add: on_defs keeps_zoom)

lemma keeps_bind_post:
  "keeps F m \<Longrightarrow> (\<And>s x t. m s = (Inr x, t) \<Longrightarrow> keeps F (f x)) \<Longrightarrow> keeps F (bindM m f)"
  unfolding keeps_def bindM_def by (auto split: prod.splits sum.splits) (metis snd_conv)+

lemma keeps_answer [frame]: "keeps F m \<Longrightarrow> keeps F (answer f m)"
  unfolding answer_def by (intro frame)

lemma keeps_reads [frame]:
  "keeps F (read_subscription s)" "keeps F (read_unloaded_tickets ts)" "keeps F (paged o1 l q)"
  "keeps F (get_subscription i)" "keeps F (get_owned i uid)" "keeps F (get_ticket i)" "keeps F (get_plan i)"
  "keeps F (get_user_row i)" "keeps F (get_payment_provider cfg gw)"
  unfolding read_subscription_def read_unloaded_tickets_def paged_def get_subscription_def get_owned_def
    get_ticket_def get_plan_def get_user_row_def get_payment_provider_def
  by (intro frame)+

lemma get_owned_Inr:
  assumes "get_owned i uid d = (Inr v, d')"
  shows "d' = d" "repo_get i (devices d) = Some v" "rid v = i" "dev_user_id v = uid"
  using assms by (auto simp: get_owned_def split: option.splits if_splits dest: repo_get_in)

lemma own_device_keeps:
  assumes "\<And>v. rid v = i \<Longrightarrow> dev_user_id v = uid \<Longrightarrow> keeps (\<lambda>w. F (db w)) (h v)"
  shows "keeps (\<lambda>w. F (db w)) (bindM (on_db (get_owned i uid)) h)"
  by (rule keeps_bind_post) (auto simp: on_db_iff intro: frame assms dest: get_owned_Inr)

text \<open>The operations on devices, with what they touch besides the devices.\<close>

lemma keeps_regenerate_if:
  assumes "\<And>t d. F (d\<lparr>vpn_profiles := t\<rparr>) = F d" and "keeps F (get_or_create_user_profile uid)"
  shows "keeps F (regenerate_profile dns cfg now did uid)"
proof -
  have "keeps F (\<lambda>d. (profile_allowed_ips dns uid m d, d))" for m
    by (rule keepsI) simp
  then show ?thesis
    unfolding regenerate_profile_def mark_superseded_def by (intro assms(2) frame) (simp_all add: assms)
qed

definition same_owner :: "(device \<Rightarrow> device) \<Rightarrow> bool" where
  "same_owner f \<longleftrightarrow> (\<forall>r. rid (f r) = rid r \<and> dev_user_id (f r) = dev_user_id r)"

lemma keeps_own_device_operations:
  assumes upd: "\<And>f. same_owner f \<Longrightarrow> keeps F (update_device (rid v) f)"
    and srv: "\<And>t d. F (d\<lparr>vpn_servers := t\<rparr>) = F d"
    and peer: "\<And>t d. F (d\<lparr>vpn_peers := t\<rparr>) = F d" and cred: "\<And>t d. F (d\<lparr>vless_credentials := t\<rparr>) = F d"
    and prof: "\<And>t d. F (d\<lparr>vpn_profiles := t\<rparr>) = F d"
    and urp: "keeps F (get_or_create_user_profile (dev_user_id v))"
  shows "keeps (\<lambda>w. F (db w)) (reissue E v)" "keeps (\<lambda>w. F (db w)) (disable_device E v)"
    "keeps (\<lambda>w. F (db w)) (enable_device E v)" "keeps (\<lambda>w. F (db w)) (revoke_device E v)"
  supply keeps_regenerate [frame del] keeps_device_rows [frame del]
proof -
  note regen = keeps_regenerate_if [of F, OF prof urp]
  note simps = srv peer cred prof
  have status: "keeps (\<lambda>w. F (db w)) (set_device_status st v)" for st
    unfolding set_device_status_def by (intro frame upd) (simp add: same_owner_def)
  have rp: "keeps (\<lambda>w. F (db w)) (revoke_peer E p s)" for p s
    unfolding revoke_peer_def by (intro frame) (rule peer)
  have assign: "keeps F (assign_device (rid v) (rekey_device p))" for p
    using upd [of "rekey_device p"] by (auto simp: keeps_def assign_device_def same_owner_def rekey_device_def)
  show "keeps (\<lambda>w. F (db w)) (reissue E v)"
    unfolding reissue_def whenSome_def by (intro frame regen rp assign) (simp_all only: simps)
  show "keeps (\<lambda>w. F (db w)) (disable_device E v)"
    unfolding disable_device_def by (intro keeps_bind keeps_device_part status) (simp_all only: simps)
  have "keeps (\<lambda>w. F (db w)) (enable_credential E did c)" for did c
    unfolding enable_credential_def
    by (intro frame) (simp_all only: simps split: prod.split, (intro frame)?, (simp_all only: simps)?)
  then show "keeps (\<lambda>w. F (db w)) (enable_device E v)"
    unfolding enable_device_def enable_credentials_def call_active_peer_def whenSome_def by (intro frame status)
  have "keeps (\<lambda>w. F (db w)) (revoke_credential E c)" for c
    unfolding revoke_credential_def remove_credential_from_xray_def by (intro frame) (simp_all only: simps)
  then show "keeps (\<lambda>w. F (db w)) (revoke_device E v)"
    unfolding revoke_device_def revoke_credentials_def revoke_wireguard_def whenSome_def
    by (intro frame status rp) (simp_all only: simps)
qed

lemma keeps_provision:
  assumes dev: "\<And>t d. F (d\<lparr>devices := t\<rparr>) = F d" and srv: "\<And>t d. F (d\<lparr>vpn_servers := t\<rparr>) = F d"
    and peer: "\<And>t d. F (d\<lparr>vpn_peers := t\<rparr>) = F d" and cred: "\<And>t d. F (d\<lparr>vless_credentials := t\<rparr>) = F d"
    and prof: "\<And>t d. F (d\<lparr>vpn_profiles := t\<rparr>) = F d" and link: "\<And>t d. F (d\<lparr>subscription_links := t\<rparr>) = F d"
    and urp: "keeps F (get_or_create_user_profile uid)"
  shows "keeps (\<lambda>w. F (db w)) (provision E uid name requested p)"
  supply keeps_regenerate [frame del]
  unfolding provision_def provision_vless_def provision_wireguard_def
  by (intro frame keeps_regenerate_if [of F, OF prof urp]) (simp_all only: dev srv peer cred prof link)

text \<open>The requests of users, by what they touch.\<close>

lemma keeps_profile_row [frame]:
  "(\<And>t d. F (d\<lparr>user_routing_profiles := t\<rparr>) = F d) \<Longrightarrow> keeps F (get_or_create_user_profile uid)"
  unfolding get_or_create_user_profile_def by (intro frame)

lemma keeps_settings:
  "keeps F (get_or_create_user_profile (rid u)) \<Longrightarrow> keeps F (get_my_routing_settings u)"
  unfolding get_my_routing_settings_def by (intro keeps_bind keeps_basic keeps_cases)

lemma keeps_read_requests:
  "r \<in> {GetMyProfile, ListMySubscriptions, GetMyActiveSubscription, ListDevices, ListMyPayments, ListMyTickets} \<union>
       range GetLink \<union> range GetDeviceProfile \<union> range GetTicket \<Longrightarrow>
     keeps (\<lambda>w. F (db w)) (serve_user V u r)"
  by (auto simp: list_my_subscriptions_def get_my_active_subscription_def list_devices_endpoint_def list_my_payments_def
      list_my_tickets_def get_subscription_link_def get_device_profile_def get_ticket_endpoint_def intro!: frame)

lemma keeps_create_device:
  assumes "\<And>t d. F (d\<lparr>devices := t\<rparr>) = F d" and "\<And>t d. F (d\<lparr>vpn_servers := t\<rparr>) = F d"
    and "\<And>t d. F (d\<lparr>vpn_peers := t\<rparr>) = F d" and "\<And>t d. F (d\<lparr>vless_credentials := t\<rparr>) = F d"
    and "\<And>t d. F (d\<lparr>vpn_profiles := t\<rparr>) = F d" and "\<And>t d. F (d\<lparr>subscription_links := t\<rparr>) = F d"
    and "keeps F (get_or_create_user_profile (rid u))"
  shows "keeps (\<lambda>w. F (db w)) (serve_user V u (CreateDevice name requested p))"
  unfolding serve_user.simps create_device_def by (intro keeps_answer keeps_bind keeps_provision assms keeps_basic)

lemma keeps_own_device_requests:
  assumes "\<And>f. same_owner f \<Longrightarrow> keeps F (update_device i f)" and "\<And>t d. F (d\<lparr>vpn_servers := t\<rparr>) = F d"
    and "\<And>t d. F (d\<lparr>vpn_peers := t\<rparr>) = F d" and "\<And>t d. F (d\<lparr>vless_credentials := t\<rparr>) = F d"
    and "\<And>t d. F (d\<lparr>vpn_profiles := t\<rparr>) = F d" and "keeps F (get_or_create_user_profile (rid u))"
    and "r \<in> {ReissueDevice i, DisableDevice i, EnableDevice i, RevokeDevice i}"
  shows "keeps (\<lambda>w. F (db w)) (serve_user V u r)"
proof -
  have ops: "keeps (\<lambda>w. F (db w)) (reissue (ae_device V) v)" "keeps (\<lambda>w. F (db w)) (disable_device (ae_device V) v)"
    "keeps (\<lambda>w. F (db w)) (enable_device (ae_device V) v)" "keeps (\<lambda>w. F (db w)) (revoke_device (ae_device V) v)"
    if "rid v = i" "dev_user_id v = rid u" for v
    using keeps_own_device_operations [of F v] assms(1-6) that by simp_all
  have "keeps (\<lambda>w. F (db w)) (reissue_device_config V u i)"
    unfolding reissue_device_config_def by (intro own_device_keeps keeps_bind ops keeps_basic)
  moreover have "keeps (\<lambda>w. F (db w)) (disable_device_endpoint V u i)"
    "keeps (\<lambda>w. F (db w)) (enable_device_endpoint V u i)" "keeps (\<lambda>w. F (db w)) (revoke_device_endpoint V u i)"
    unfolding disable_device_endpoint_def enable_device_endpoint_def revoke_device_endpoint_def
    by (intro own_device_keeps keeps_bind ops keeps_basic; assumption)+
  ultimately show ?thesis using assms(7) by (auto intro: keeps_answer)
qed

lemma keeps_link_requests:
  assumes "\<And>t d. F (d\<lparr>subscription_links := t\<rparr>) = F d"
    and "r \<in> {CreateOrRotateLink i, RevokeLink i}"
  shows "keeps (\<lambda>w. F (db w)) (serve_user V u r)"
proof -
  have "keeps F (revoke_link now l)" for now l
    unfolding revoke_link_def Let_def by (intro frame) (rule assms)
  then have "keeps F (revoke_subscription_link V u i)"
    unfolding revoke_subscription_link_def by (intro frame)
  moreover have "keeps (\<lambda>w. F (db w)) (create_or_rotate_subscription_link V u i)"
    unfolding create_or_rotate_subscription_link_def Let_def by (intro frame) (rule assms)
  ultimately show ?thesis using assms(2) by (auto intro!: keeps_answer keeps_on_db)
qed

lemma keeps_refresh:
  assumes "\<And>t d. F (d\<lparr>vpn_profiles := t\<rparr>) = F d" and "keeps F (get_or_create_user_profile (rid u))"
  shows "keeps (\<lambda>w. F (db w)) (serve_user V u (RefreshDeviceProfile i))"
proof -
  have "keeps F (refresh_device_profile V u i)"
    unfolding refresh_device_profile_def
    by (intro keeps_bind keeps_reads keeps_regenerate_if [OF assms] keeps_basic)
  then show ?thesis by (simp add: keeps_answer keeps_on_db)
qed

lemma keeps_routing_requests:
  assumes "keeps F (get_or_create_user_profile (rid u))"
  shows "keeps (\<lambda>w. F (db w)) (serve_user V u GetMyRouting)"
    "keeps F (set_mode (rid u) m) \<Longrightarrow> keeps (\<lambda>w. F (db w)) (serve_user V u (SetMyMode m))"
    "keeps F (set_category_preference (rid u) i b) \<Longrightarrow> keeps (\<lambda>w. F (db w)) (serve_user V u (SetMyCategory i b))"
    "keeps F (add_custom_domain (ae_now V) (rid u) dn rt) \<Longrightarrow> keeps (\<lambda>w. F (db w)) (serve_user V u (AddMyDomain dn rt))"
  unfolding serve_user.simps set_my_routing_mode_def set_my_category_preference_def add_my_custom_domain_def
  by (intro keeps_answer keeps_on_db keeps_bind keeps_settings assms; assumption)+

lemma keeps_cancel:
  assumes "keeps F (update_subscription i (\<lambda>r. r\<lparr>sub_status := SubCancelled, auto_renew := False\<rparr>))"
  shows "keeps (\<lambda>w. F (db w)) (serve_user V u (CancelSubscription i))"
proof -
  have "keeps F (cancel_subscription s)" if "rid s = i" for s
    unfolding cancel_subscription_def Let_def that by (intro frame assms)
  then have "keeps F (cancel_subscription_endpoint u i)"
    unfolding cancel_subscription_endpoint_def
    by (intro keeps_bind_post [OF keeps_reads(4)] keeps_cases keeps_bind keeps_reads keeps_basic)
      (auto simp: get_subscription_def bindM_eq_Inr_iff requireM_def dest: repo_get_in split: option.splits)
  then show ?thesis by (simp add: keeps_answer keeps_on_db)
qed

lemma keeps_create_payment:
  assumes pending: "\<And>p. keeps F (create_pending (ae_now V) u p False)"
    and pay: "\<And>s p provider ext key amt promo.
      keeps F (on_payments (repo_add payment_conflict (new_payment (ae_now V) u s p provider ext key amt promo)))"
  shows "keeps (\<lambda>w. F (db w)) (serve_user V u (CreatePayment i promo))"
proof -
  have lift: "keeps F (liftE r)" for r by (rule keepsI) (simp add: liftE_def)
  have promo: "keeps F (check_promo now u c)" for now c
    by (rule keepsI) (metis check_promo_read_only prod.collapse)
  show ?thesis
    unfolding serve_user.simps create_payment_endpoint_def create_payment_def Let_def
    by (intro keeps_answer keeps_on_db keeps_bind keeps_reads keeps_cases keeps_basic lift promo pending pay)
qed

lemma keeps_ticket_requests:
  assumes "\<And>t d. F (d\<lparr>support_messages := t\<rparr>) = F d"
    and "\<And>x. tick_user_id x = rid u \<Longrightarrow> keeps F (on_support_tickets (repo_add no_conflict x))"
  shows "keeps (\<lambda>w. F (db w)) (serve_user V u (AddTicketMessage i txt))"
    "keeps (\<lambda>w. F (db w)) (serve_user V u (CreateTicket s m))"
proof -
  show "keeps (\<lambda>w. F (db w)) (serve_user V u (AddTicketMessage i txt))"
    unfolding serve_user.simps add_message_endpoint_def add_message_def by (intro frame) (simp_all add: assms(1))
  show "keeps (\<lambda>w. F (db w)) (serve_user V u (CreateTicket s m))"
    unfolding serve_user.simps create_ticket_endpoint_def create_ticket_def
    by (intro keeps_answer keeps_on_db keeps_bind keeps_basic assms(2) keeps_more_tables) (simp_all add: assms(1))
qed

section \<open>What belongs to others\<close>

definition others :: "('r \<Rightarrow> int) \<Rightarrow> int \<Rightarrow> 'r table \<Rightarrow> 'r list" where
  "others owner uid t = filter (\<lambda>r. owner r \<noteq> uid) (rows t)"

text \<open>Every row owned by a user other than \<open>uid\<close>, and the tables that belong to nobody in particular.\<close>

definition same_for_others :: "int \<Rightarrow> database \<Rightarrow> database \<Rightarrow> bool" where
  "same_for_others uid d d' \<longleftrightarrow>
     others dev_user_id uid (devices d') = others dev_user_id uid (devices d) \<and>
     others sub_user_id uid (subscriptions d') = others sub_user_id uid (subscriptions d) \<and>
     others pay_user_id uid (payments d') = others pay_user_id uid (payments d) \<and>
     others tick_user_id uid (support_tickets d') = others tick_user_id uid (support_tickets d) \<and>
     others pref_user_id uid (user_category_preferences d') = others pref_user_id uid (user_category_preferences d) \<and>
     others cd_user_id uid (user_custom_domains d') = others cd_user_id uid (user_custom_domains d) \<and>
     others urp_user_id uid (user_routing_profiles d') = others urp_user_id uid (user_routing_profiles d) \<and>
     users d' = users d \<and> admin_users d' = admin_users d \<and> audit_logs d' = audit_logs d \<and> plans d' = plans d \<and>
     promo_codes d' = promo_codes d \<and> promo_redemptions d' = promo_redemptions d \<and> referrals d' = referrals d \<and>
     routing_categories d' = routing_categories d \<and> routing_rules d' = routing_rules d \<and>
     vless_server_configs d' = vless_server_configs d"

definition owned_tables_ok :: "database \<Rightarrow> bool" where
  "owned_tables_ok d \<longleftrightarrow> wf_table (devices d) \<and> wf_table (subscriptions d) \<and>
     wf_table (user_category_preferences d) \<and> wf_table (user_custom_domains d) \<and> wf_table (user_routing_profiles d)"

lemma others_add:
  "repo_add c r t = (Inr r', t') \<Longrightarrow> owner (r\<lparr>rid := next_id t\<rparr>) = uid \<Longrightarrow> others owner uid t' = others owner uid t"
  by (auto simp: repo_add_def Let_def others_def split: if_splits)

lemma others_update:
  assumes "wf_table t" and "r \<in> set (rows t)" and "owner r = uid" and "\<And>x. owner (f x) = owner x"
  shows "others owner uid (repo_update (rid r) f t) = others owner uid t"
proof -
  have mine: "owner x = uid" if "x \<in> set (rows t)" "rid x = rid r" for x
    using repo_get_wf [OF assms(1) that(1)] repo_get_wf [OF assms(1,2)] that(2) assms(3) by (metis option.inject)
  have "filter (\<lambda>x. owner x \<noteq> uid) (map (\<lambda>x. if rid x = rid r then f x else x) xs) = filter (\<lambda>x. owner x \<noteq> uid) xs"
    if "set xs \<subseteq> set (rows t)" for xs
    using that by (induction xs) (auto simp: assms(4) mine)
  then show ?thesis by (simp add: others_def rows_update)
qed

lemma repo_one_found: "repo_one P t = (Inr (Some r), t') \<Longrightarrow> t' = t \<and> r \<in> set (rows t) \<and> P r"
proof -
  assume "repo_one P t = (Inr (Some r), t')"
  then have "t' = t" "filter P (rows t) = [r]" by (simp_all add: repo_one_Inr)
  then have "r \<in> set (filter P (rows t))" by simp
  then show ?thesis using \<open>t' = t\<close> by simp
qed

lemma repo_add_owned:
  "(\<And>i. owner (r\<lparr>rid := i\<rparr>) = uid) \<Longrightarrow> others owner uid (snd (repo_add c r t)) = others owner uid t"
  by (simp add: repo_add_def Let_def others_def)

text \<open>Rows made for the user.\<close>

lemma keeps_made_for_user:
  "keeps (\<lambda>d. others urp_user_id uid (user_routing_profiles d)) (get_or_create_user_profile uid)"
  "keeps (\<lambda>d. others sub_user_id (rid u) (subscriptions d)) (create_pending now u p b)"
proof -
  have "keeps (others urp_user_id uid) (repo_add c \<lparr>rid = 0, urp_user_id = uid, urp_mode = m\<rparr>)" for c m
    by (rule keepsI) (simp add: repo_add_owned)
  then have "keeps (\<lambda>d. others urp_user_id uid (user_routing_profiles d))
      (on_user_routing_profiles (repo_add c \<lparr>rid = 0, urp_user_id = uid, urp_mode = m\<rparr>))" for c m
    unfolding on_user_routing_profiles_def by (rule keeps_zoom_part) simp_all
  then show "keeps (\<lambda>d. others urp_user_id uid (user_routing_profiles d)) (get_or_create_user_profile uid)"
    unfolding get_or_create_user_profile_def by (intro keeps_bind keeps_read_only_queries keeps_cases keeps_basic)
  show "keeps (\<lambda>d. others sub_user_id (rid u) (subscriptions d)) (create_pending now u p b)"
    unfolding create_pending_def on_subscriptions_def
    by (intro keeps_cases keeps_basic keeps_zoom_part [of "others sub_user_id (rid u)"] keepsI) (simp_all add: repo_add_owned)
qed

text \<open>What a request of a user writes besides peers, credentials, profiles, links and messages.\<close>

lemma keeps_serve_user:
  assumes shared: "\<And>t d. F (d\<lparr>vpn_servers := t\<rparr>) = F d" "\<And>t d. F (d\<lparr>vpn_peers := t\<rparr>) = F d"
      "\<And>t d. F (d\<lparr>vless_credentials := t\<rparr>) = F d" "\<And>t d. F (d\<lparr>vpn_profiles := t\<rparr>) = F d"
      "\<And>t d. F (d\<lparr>subscription_links := t\<rparr>) = F d" "\<And>t d. F (d\<lparr>support_messages := t\<rparr>) = F d"
    and profile: "keeps F (get_or_create_user_profile (rid u))"
    and dev: "\<And>n q p t d. r = CreateDevice n q p \<Longrightarrow> F (d\<lparr>devices := t\<rparr>) = F d"
      "\<And>i f. r \<in> {ReissueDevice i, DisableDevice i, EnableDevice i, RevokeDevice i} \<Longrightarrow> same_owner f \<Longrightarrow>
         keeps F (update_device i f)"
    and sub: "\<And>p. keeps F (create_pending (ae_now V) u p False)"
      "\<And>i. r = CancelSubscription i \<Longrightarrow>
         keeps F (update_subscription i (\<lambda>r. r\<lparr>sub_status := SubCancelled, auto_renew := False\<rparr>))"
    and pay: "\<And>s p provider ext key amt promo.
      keeps F (on_payments (repo_add payment_conflict (new_payment (ae_now V) u s p provider ext key amt promo)))"
    and tick: "\<And>x. tick_user_id x = rid u \<Longrightarrow> keeps F (on_support_tickets (repo_add no_conflict x))"
    and routing: "\<And>m. r = SetMyMode m \<Longrightarrow> keeps F (set_mode (rid u) m)"
      "\<And>i b. r = SetMyCategory i b \<Longrightarrow> keeps F (set_category_preference (rid u) i b)"
      "\<And>dn rt. r = AddMyDomain dn rt \<Longrightarrow> keeps F (add_custom_domain (ae_now V) (rid u) dn rt)"
  shows "keeps (\<lambda>w. F (db w)) (serve_user V u r)"
proof -
  note routing' = keeps_routing_requests [OF profile]
  note own = keeps_own_device_requests [OF _ shared(1-4) profile]
  have device: "keeps (\<lambda>w. F (db w)) (serve_user V u r)"
    if "r \<in> {ReissueDevice i, DisableDevice i, EnableDevice i, RevokeDevice i}" for i
    by (rule own [OF dev(2) [OF that] that])
  have reads: "keeps (\<lambda>w. F (db w)) (serve_user V u r)"
    if "r \<in> {GetMyProfile, ListMySubscriptions, GetMyActiveSubscription, ListDevices, ListMyPayments, ListMyTickets} \<union>
       range GetLink \<union> range GetDeviceProfile \<union> range GetTicket"
    using that by (rule keeps_read_requests)
  show ?thesis
  proof (cases r)
    case (CreateDevice n q p)
    show ?thesis
      unfolding CreateDevice by (rule keeps_create_device [OF dev(1) [OF CreateDevice] shared(1-5) profile])
  next
    case (CreatePayment i promo)
    show ?thesis unfolding CreatePayment by (rule keeps_create_payment [OF sub(1) pay])
  next
    case (CreateTicket s m)
    show ?thesis unfolding CreateTicket by (rule keeps_ticket_requests(2) [OF shared(6) tick])
  next
    case (AddTicketMessage i body)
    show ?thesis unfolding AddTicketMessage by (rule keeps_ticket_requests(1) [OF shared(6) tick])
  next
    case (RefreshDeviceProfile i)
    show ?thesis unfolding RefreshDeviceProfile by (rule keeps_refresh [OF shared(4) profile])
  next
    case (CreateOrRotateLink i)
    then show ?thesis using keeps_link_requests [of F r i V u, OF shared(5)] by simp
  next
    case (RevokeLink i)
    then show ?thesis using keeps_link_requests [of F r i V u, OF shared(5)] by simp
  next
    case (CancelSubscription i)
    show ?thesis unfolding CancelSubscription by (rule keeps_cancel [OF sub(2) [OF CancelSubscription]])
  next
    case (ReissueDevice i)
    then show ?thesis using device [of i] by simp
  next
    case (DisableDevice i)
    then show ?thesis using device [of i] by simp
  next
    case (EnableDevice i)
    then show ?thesis using device [of i] by simp
  next
    case (RevokeDevice i)
    then show ?thesis using device [of i] by simp
  next
    case (SetMyMode m)
    show ?thesis unfolding SetMyMode by (rule routing'(2) [OF routing(1) [OF SetMyMode]])
  next
    case (SetMyCategory i b)
    show ?thesis unfolding SetMyCategory by (rule routing'(3) [OF routing(2) [OF SetMyCategory]])
  next
    case (AddMyDomain dn rt)
    show ?thesis unfolding AddMyDomain by (rule routing'(4) [OF routing(3) [OF AddMyDomain]])
  next
    case GetMyRouting
    show ?thesis unfolding GetMyRouting by (rule routing'(1))
  qed (rule reads, simp)+
qed

section \<open>A user's requests change nothing that belongs to somebody else\<close>

text \<open>
  An update of a row whose owner it keeps: a table in which the row is only seen through its owner does
  not change.
\<close>

definition veiled :: "int \<Rightarrow> ('z entity_scheme \<Rightarrow> int) \<Rightarrow> 'z rows \<Rightarrow> (int + 'z entity_scheme) list" where
  "veiled i owner t = map (\<lambda>r. if rid r = i then Inl (owner r) else Inr r) (rows t)"

lemma veiled_update:
  "(\<And>r. rid (f r) = rid r) \<Longrightarrow> (\<And>r. owner (f r) = owner r) \<Longrightarrow> veiled i owner (repo_update i f t) = veiled i owner t"
  by (simp add: veiled_def rows_update)

lemma others_veiled:
  assumes "veiled i owner t' = veiled i owner t" and "wf_table t" and "repo_get i t = Some r" and "owner r = uid"
  shows "others owner uid t' = others owner uid t"
proof -
  define pick :: "(int + 'a entity_scheme) list \<Rightarrow> 'a entity_scheme list" where "pick = List.map_filter (\<lambda>x. case x of Inl k \<Rightarrow> None | Inr q \<Rightarrow> if owner q \<noteq> uid then Some q else None)"
  have split: "filter (\<lambda>q. owner q \<noteq> uid) xs = pick (map (\<lambda>r. if rid r = i then Inl (owner r) else Inr r) xs)"
    if "\<forall>q \<in> set xs. rid q = i \<longrightarrow> owner q = uid" for xs
    using that by (induction xs) (auto simp: pick_def)
  have mine: "\<forall>q \<in> set (rows t). rid q = i \<longrightarrow> owner q = uid"
    using repo_get_wf [OF assms(2)] assms(3,4) by fastforce
  have inl: "Inl k \<in> set (veiled i owner t'') \<longleftrightarrow> (\<exists>q \<in> set (rows t''). rid q = i \<and> owner q = k)" for k and t'' :: "'a rows"
    by (auto simp: veiled_def image_iff)
  have "\<forall>q \<in> set (rows t'). rid q = i \<longrightarrow> owner q = uid"
    using mine inl [of _ t] inl [of _ t'] assms(1) by metis
  then show ?thesis
    using assms(1) split [OF mine] split [of "rows t'"] by (simp add: others_def veiled_def)
qed

text \<open>The rows a request adds for its user.\<close>

lemma keeps_added_for_user:
  "keeps (\<lambda>d. others pay_user_id (rid u) (payments d))
     (on_payments (repo_add payment_conflict (new_payment now u s p provider ext key amt promo)))"
  "tick_user_id x = uid \<Longrightarrow> keeps (\<lambda>d. others tick_user_id uid (support_tickets d)) (on_support_tickets (repo_add no_conflict x))"
  unfolding on_defs
  by (rule keeps_zoom_part [of "others pay_user_id (rid u)"], rule keepsI; simp add: repo_add_owned new_payment_def)
    (rule keeps_zoom_part [of "others tick_user_id uid"], rule keepsI; simp add: repo_add_owned)

lemma get_or_create_in:
  assumes "get_or_create_user_profile uid d = (Inr q, d1)" and "wf_table (user_routing_profiles d)"
  shows "q \<in> set (rows (user_routing_profiles d1)) \<and> urp_user_id q = uid \<and> wf_table (user_routing_profiles d1)"
proof -
  obtain found d2 where found: "get_routing_profile uid d = (Inr found, d2)"
    and rest: "(case found of Some p \<Rightarrow> returnM p
      | None \<Rightarrow> on_user_routing_profiles (repo_add routing_profile_conflict \<lparr>rid = 0, urp_user_id = uid, urp_mode = FULL_VPN\<rparr>)) d2 = (Inr q, d1)"
    using assms(1) unfolding get_or_create_user_profile_def bindM_eq_Inr_iff by auto
  have d2: "d2 = d"
    using found by (auto simp: get_routing_profile_def on_defs zoomM_eq_Inr_iff repo_one_Inr)
  show ?thesis
  proof (cases found)
    case None
    then show ?thesis
      using rest d2 assms(2) wf_add [OF assms(2)]
      by (auto simp: on_defs zoomM_eq_Inr_iff) (auto simp: repo_add_Inr)
  next
    case (Some p)
    then show ?thesis
      using rest d2 found assms(2) by (auto simp: get_routing_profile_def on_defs zoomM_eq_Inr_iff dest!: repo_one_found)
  qed
qed

lemma set_mode_others:
  assumes "set_mode uid m d = (Inr p, d')" and "wf_table (user_routing_profiles d)"
  shows "others urp_user_id uid (user_routing_profiles d') = others urp_user_id uid (user_routing_profiles d)"
proof -
  obtain q d1 where q: "get_or_create_user_profile uid d = (Inr q, d1)"
    and d': "user_routing_profiles d' = repo_update (rid q) (\<lambda>r. r\<lparr>urp_mode := m\<rparr>) (user_routing_profiles d1)"
    using assms(1) by (auto simp: set_mode_def on_defs success_iffs)
  have "q \<in> set (rows (user_routing_profiles d1)) \<and> urp_user_id q = uid \<and> wf_table (user_routing_profiles d1)"
    by (rule get_or_create_in [OF q assms(2)])
  then have "others urp_user_id uid (user_routing_profiles d') = others urp_user_id uid (user_routing_profiles d1)"
    unfolding d' by (intro others_update) simp_all
  then show ?thesis using keepsD [OF keeps_made_for_user(1) q] by simp
qed

lemma set_category_preference_others:
  assumes "set_category_preference uid cid b d = (Inr p, d')" and "wf_table (user_category_preferences d)"
  shows "others pref_user_id uid (user_category_preferences d') = others pref_user_id uid (user_category_preferences d)"
proof -
  let ?t = "user_category_preferences d"
  obtain found d1 where found: "get_preference uid cid d = (Inr found, d1)"
    and rest: "(case found of
        None \<Rightarrow> bindM (on_user_category_preferences (repo_add preference_conflict
                  \<lparr>rid = 0, pref_user_id = uid, pref_category_id = cid, pref_enabled = b\<rparr>)) (\<lambda>_. returnM ())
      | Some q \<Rightarrow> on_user_category_preferences (modifyM (repo_update (rid q) (\<lambda>r. r\<lparr>pref_enabled := b\<rparr>)))) d1 = (Inr p, d')"
    using assms(1) by (auto simp: set_category_preference_def bindM_eq_Inr_iff getM_def split: if_splits)
  have d1: "d1 = d"
    using found by (auto simp: get_preference_def on_defs zoomM_eq_Inr_iff repo_one_Inr)
  show ?thesis
  proof (cases found)
    case None
    then show ?thesis using rest d1 by (auto simp: on_defs success_iffs intro: others_add)
  next
    case (Some q)
    have "q \<in> set (rows ?t) \<and> pref_user_id q = uid"
      using found Some by (auto simp: get_preference_def on_defs zoomM_eq_Inr_iff dest!: repo_one_found)
    then show ?thesis using rest d1 Some assms(2) by (auto simp: on_defs success_iffs others_update)
  qed
qed

lemma add_custom_domain_others:
  assumes "add_custom_domain now uid raw rt d = (Inr p, d')" and "wf_table (user_custom_domains d)"
  shows "others cd_user_id uid (user_custom_domains d') = others cd_user_id uid (user_custom_domains d)"
proof -
  have mine: "c \<in> set (rows (user_custom_domains d))" "cd_user_id c = uid"
    if "find P (list_custom_domains uid d) = Some c" for P c
    using find_Some_in [OF that] by (auto simp: list_custom_domains_def)
  show ?thesis
    using assms mine
    by (auto simp: add_custom_domain_def Let_def on_defs success_iffs others_update
        split: option.splits if_splits intro: others_add)
qed

text \<open>The part of the database that no request of a user writes.\<close>

definition shared_part where
  "shared_part d = (users d, admin_users d, audit_logs d, plans d, promo_codes d, promo_redemptions d, referrals d,
     routing_categories d, routing_rules d, vless_server_configs d)"

lemma same_for_others_alt:
  "same_for_others uid d d' \<longleftrightarrow> shared_part d' = shared_part d \<and>
     others dev_user_id uid (devices d') = others dev_user_id uid (devices d) \<and>
     others sub_user_id uid (subscriptions d') = others sub_user_id uid (subscriptions d) \<and>
     others pay_user_id uid (payments d') = others pay_user_id uid (payments d) \<and>
     others tick_user_id uid (support_tickets d') = others tick_user_id uid (support_tickets d) \<and>
     others pref_user_id uid (user_category_preferences d') = others pref_user_id uid (user_category_preferences d) \<and>
     others cd_user_id uid (user_custom_domains d') = others cd_user_id uid (user_custom_domains d) \<and>
     others urp_user_id uid (user_routing_profiles d') = others urp_user_id uid (user_routing_profiles d)"
  by (auto simp: same_for_others_def shared_part_def)

lemma keeps_row_operations:
  "(\<And>t d. F (d\<lparr>devices := t\<rparr>) = F d) \<Longrightarrow> keeps F (update_device i f)"
  "(\<And>t d. F (d\<lparr>subscriptions := t\<rparr>) = F d) \<Longrightarrow> keeps F (update_subscription i g)"
  "(\<And>t d. F (d\<lparr>subscriptions := t\<rparr>) = F d) \<Longrightarrow> keeps F (create_pending now u p b)"
  "(\<And>t d. F (d\<lparr>user_category_preferences := t\<rparr>) = F d) \<Longrightarrow> keeps F (set_category_preference uid c e)"
  "(\<And>t d. F (d\<lparr>user_custom_domains := t\<rparr>) = F d) \<Longrightarrow> keeps F (add_custom_domain now uid dn rt)"
  "(\<And>t d. F (d\<lparr>user_routing_profiles := t\<rparr>) = F d) \<Longrightarrow> keeps F (set_mode uid m)"
  unfolding update_device_def update_subscription_def create_pending_def set_category_preference_def
    get_preference_def add_custom_domain_def set_mode_def Let_def
  by (intro frame; assumption?)+

lemma serve_user_keeps:
  "keeps (\<lambda>w. shared_part (db w)) (serve_user V u r)"
  "keeps (\<lambda>w. others pay_user_id (rid u) (payments (db w))) (serve_user V u r)"
  "keeps (\<lambda>w. others tick_user_id (rid u) (support_tickets (db w))) (serve_user V u r)"
  "\<forall>i. r \<noteq> CancelSubscription i \<Longrightarrow> keeps (\<lambda>w. others sub_user_id (rid u) (subscriptions (db w))) (serve_user V u r)"
  "\<forall>i b. r \<noteq> SetMyCategory i b \<Longrightarrow>
     keeps (\<lambda>w. others pref_user_id (rid u) (user_category_preferences (db w))) (serve_user V u r)"
  "\<forall>dn rt. r \<noteq> AddMyDomain dn rt \<Longrightarrow>
     keeps (\<lambda>w. others cd_user_id (rid u) (user_custom_domains (db w))) (serve_user V u r)"
  "\<forall>m. r \<noteq> SetMyMode m \<Longrightarrow>
     keeps (\<lambda>w. others urp_user_id (rid u) (user_routing_profiles (db w))) (serve_user V u r)"
  "\<forall>n q p. r \<noteq> CreateDevice n q p \<Longrightarrow> \<forall>i. r \<notin> {ReissueDevice i, DisableDevice i, EnableDevice i, RevokeDevice i} \<Longrightarrow>
     keeps (\<lambda>w. devices (db w)) (serve_user V u r)"
  "r \<in> {ReissueDevice i, DisableDevice i, EnableDevice i, RevokeDevice i} \<Longrightarrow>
     keeps (\<lambda>w. veiled i dev_user_id (devices (db w))) (serve_user V u r)"
proof -
  note rows = keeps_row_operations keeps_profile_row keeps_on_table keeps_more_tables
  show "keeps (\<lambda>w. shared_part (db w)) (serve_user V u r)"
    by (rule keeps_serve_user; (intro rows)?; simp add: shared_part_def)
  show "keeps (\<lambda>w. others pay_user_id (rid u) (payments (db w))) (serve_user V u r)"
    by (rule keeps_serve_user; (intro keeps_added_for_user rows)?; simp)
  show "keeps (\<lambda>w. others tick_user_id (rid u) (support_tickets (db w))) (serve_user V u r)"
    by (rule keeps_serve_user; (intro keeps_added_for_user rows)?; simp)
  show "keeps (\<lambda>w. others sub_user_id (rid u) (subscriptions (db w))) (serve_user V u r)" if "\<forall>i. r \<noteq> CancelSubscription i"
    by (rule keeps_serve_user; (intro keeps_made_for_user(2) rows)?; simp add: that)
  show "keeps (\<lambda>w. others pref_user_id (rid u) (user_category_preferences (db w))) (serve_user V u r)"
    if "\<forall>i b. r \<noteq> SetMyCategory i b"
    by (rule keeps_serve_user; (intro rows)?; simp add: that)
  show "keeps (\<lambda>w. others cd_user_id (rid u) (user_custom_domains (db w))) (serve_user V u r)"
    if "\<forall>dn rt. r \<noteq> AddMyDomain dn rt"
    by (rule keeps_serve_user; (intro rows)?; simp add: that)
  show "keeps (\<lambda>w. others urp_user_id (rid u) (user_routing_profiles (db w))) (serve_user V u r)"
    if "\<forall>m. r \<noteq> SetMyMode m"
    by (rule keeps_serve_user; (intro keeps_made_for_user(1) rows)?; simp add: that)
  show "keeps (\<lambda>w. devices (db w)) (serve_user V u r)"
    if "\<forall>n q p. r \<noteq> CreateDevice n q p" "\<forall>i. r \<notin> {ReissueDevice i, DisableDevice i, EnableDevice i, RevokeDevice i}"
    by (rule keeps_serve_user; (intro rows)?; use that in simp)
  show "keeps (\<lambda>w. veiled i dev_user_id (devices (db w))) (serve_user V u r)"
    if "r \<in> {ReissueDevice i, DisableDevice i, EnableDevice i, RevokeDevice i}"
  proof (rule keeps_serve_user; (intro keeps_row_operations(2-) keeps_profile_row keeps_on_table keeps_more_tables)?; (use that in \<open>simp; fail\<close>)?)
    fix j and f :: "device \<Rightarrow> device"
    assume "r \<in> {ReissueDevice j, DisableDevice j, EnableDevice j, RevokeDevice j}" and "same_owner f"
    then show "keeps (\<lambda>d. veiled i dev_user_id (devices d)) (update_device j f)"
      using that unfolding update_device_def on_devices_def
      by (intro keeps_zoom_part [of "veiled i dev_user_id"] keeps_modify) (auto simp: same_owner_def intro: veiled_update)
  qed
qed

lemma own_device_found:
  assumes "serve_user V u r w = (Inr b, w')" and "r \<in> {ReissueDevice i, DisableDevice i, EnableDevice i, RevokeDevice i}"
  obtains v where "repo_get i (devices (db w)) = Some v" and "dev_user_id v = rid u"
proof -
  have "\<exists>v d. get_owned i (rid u) (db w) = (Inr v, d)"
    using assms
    by (auto simp: answer_def reissue_device_config_def disable_device_endpoint_def enable_device_endpoint_def
        revoke_device_endpoint_def bindM_eq_Inr_iff on_db_iff)
  then show thesis using that by (blast dest: get_owned_Inr)
qed

lemma devices_isolated:
  assumes "serve_user V u r w = (Inr b, w')" and "wf_table (devices (db w))"
  shows "others dev_user_id (rid u) (devices (db w')) = others dev_user_id (rid u) (devices (db w))"
proof (cases "\<exists>n q p. r = CreateDevice n q p")
  case True
  then obtain n q p pd where "provision (ae_device V) (rid u) n q p w = (Inr pd, w')"
    using assms(1) by (auto simp: answer_def create_device_def bindM_eq_Inr_iff)
  from provision_devices [OF this assms(2)] show ?thesis by (simp add: others_def)
next
  case not_created: False
  show ?thesis
  proof (cases "\<exists>i. r \<in> {ReissueDevice i, DisableDevice i, EnableDevice i, RevokeDevice i}")
    case True
    then obtain i where i: "r \<in> {ReissueDevice i, DisableDevice i, EnableDevice i, RevokeDevice i}" by blast
    obtain v where v: "repo_get i (devices (db w)) = Some v" "dev_user_id v = rid u"
      by (rule own_device_found [OF assms(1) i])
    show ?thesis
      by (rule others_veiled [OF keepsD [OF serve_user_keeps(9) [OF i] assms(1)] assms(2) v])
  next
    case False
    then have "devices (db w') = devices (db w)"
      using keepsD [OF serve_user_keeps(8) assms(1)] not_created by blast
    then show ?thesis by simp
  qed
qed

lemma subscriptions_isolated:
  assumes "serve_user V u r w = (Inr b, w')" and "wf_table (subscriptions (db w))"
  shows "others sub_user_id (rid u) (subscriptions (db w')) = others sub_user_id (rid u) (subscriptions (db w))"
proof (cases "\<exists>i. r = CancelSubscription i")
  case True
  then obtain i where i: "r = CancelSubscription i" by blast
  have "keeps (\<lambda>d. veiled i sub_user_id (subscriptions d))
      (update_subscription i (\<lambda>r. r\<lparr>sub_status := SubCancelled, auto_renew := False\<rparr>))"
    unfolding update_subscription_def on_subscriptions_def
    by (intro keeps_zoom_part [of "veiled i sub_user_id"] keeps_modify) (auto intro: veiled_update)
  from keepsD [OF keeps_cancel [OF this] assms(1) [unfolded i]]
  have "veiled i sub_user_id (subscriptions (db w')) = veiled i sub_user_id (subscriptions (db w))" .
  moreover obtain s where "repo_get i (subscriptions (db w)) = Some s" "sub_user_id s = rid u"
    using assms(1) unfolding i
    by (auto simp: answer_def cancel_subscription_endpoint_def get_subscription_def getM_def requireM_eq_Inr_iff
        bindM_eq_Inr_iff on_db_iff split: if_splits)
  ultimately show ?thesis using others_veiled assms(2) by blast
next
  case False
  then show ?thesis using keepsD [OF serve_user_keeps(4) assms(1)] by blast
qed

lemma keeps_settings_read:
  "keeps (\<lambda>d. others pref_user_id uid (user_category_preferences d)) (get_my_routing_settings u)"
  "keeps (\<lambda>d. others cd_user_id uid (user_custom_domains d)) (get_my_routing_settings u)"
  "keeps (\<lambda>d. others urp_user_id (rid u) (user_routing_profiles d)) (get_my_routing_settings u)"
  subgoal by (rule keeps_settings, rule keeps_profile_row) simp
  subgoal by (rule keeps_settings, rule keeps_profile_row) simp
  subgoal by (rule keeps_settings, rule keeps_made_for_user(1))
  done

lemma routing_isolated:
  assumes "serve_user V u r w = (Inr b, w')"
  shows "wf_table (user_category_preferences (db w)) \<Longrightarrow>
      others pref_user_id (rid u) (user_category_preferences (db w')) =
      others pref_user_id (rid u) (user_category_preferences (db w))"
    and "wf_table (user_custom_domains (db w)) \<Longrightarrow>
      others cd_user_id (rid u) (user_custom_domains (db w')) = others cd_user_id (rid u) (user_custom_domains (db w))"
    and "wf_table (user_routing_profiles (db w)) \<Longrightarrow>
      others urp_user_id (rid u) (user_routing_profiles (db w')) = others urp_user_id (rid u) (user_routing_profiles (db w))"
proof -
  note unpack = answer_def bindM_eq_Inr_iff on_db_iff
  show "others pref_user_id (rid u) (user_category_preferences (db w')) =
      others pref_user_id (rid u) (user_category_preferences (db w))" if wf: "wf_table (user_category_preferences (db w))"
  proof (cases "\<exists>i b. r = SetMyCategory i b")
    case True
    then obtain i b x d y d' where step: "set_category_preference (rid u) i b (db w) = (Inr x, d)"
        "get_my_routing_settings u d = (Inr y, d')" "db w' = d'"
      using assms by (auto simp: unpack set_my_category_preference_def)
    show ?thesis
      using set_category_preference_others [OF step(1) wf] keepsD [OF keeps_settings_read(1) step(2)] step(3) by simp
  next
    case False
    then show ?thesis using keepsD [OF serve_user_keeps(5) assms] by blast
  qed
  show "others cd_user_id (rid u) (user_custom_domains (db w')) = others cd_user_id (rid u) (user_custom_domains (db w))"
    if wf: "wf_table (user_custom_domains (db w))"
  proof (cases "\<exists>dn rt. r = AddMyDomain dn rt")
    case True
    then obtain dn rt x d y d' where step: "add_custom_domain (ae_now V) (rid u) dn rt (db w) = (Inr x, d)"
        "get_my_routing_settings u d = (Inr y, d')" "db w' = d'"
      using assms by (auto simp: unpack add_my_custom_domain_def)
    show ?thesis
      using add_custom_domain_others [OF step(1) wf] keepsD [OF keeps_settings_read(2) step(2)] step(3) by simp
  next
    case False
    then show ?thesis using keepsD [OF serve_user_keeps(6) assms] by blast
  qed
  show "others urp_user_id (rid u) (user_routing_profiles (db w')) = others urp_user_id (rid u) (user_routing_profiles (db w))"
    if wf: "wf_table (user_routing_profiles (db w))"
  proof (cases "\<exists>m. r = SetMyMode m")
    case True
    then obtain m x d y d' where step: "set_mode (rid u) m (db w) = (Inr x, d)"
        "get_my_routing_settings u d = (Inr y, d')" "db w' = d'"
      using assms by (auto simp: unpack set_my_routing_mode_def)
    show ?thesis
      using set_mode_others [OF step(1) wf] keepsD [OF keeps_settings_read(3) step(2)] step(3) by simp
  next
    case False
    then show ?thesis using keepsD [OF serve_user_keeps(7) assms] by blast
  qed
qed

lemma serve_user_isolated:
  assumes "serve_user V u r w = (Inr b, w')" and "owned_tables_ok (db w)"
  shows "same_for_others (rid u) (db w) (db w')"
  unfolding same_for_others_alt
  using assms(2) devices_isolated [OF assms(1)] subscriptions_isolated [OF assms(1)] routing_isolated [OF assms(1)]
    serve_user_keeps(1-3) [THEN keepsD, OF assms(1)]
  by (simp add: owned_tables_ok_def)

section \<open>Who is asking\<close>

lemma on_db_Inr: "m (db w) = (Inr x, d) \<Longrightarrow> on_db m w = (Inr x, w\<lparr>db := d\<rparr>)"
  and on_db_Inl: "m (db w) = (Inl e, d) \<Longrightarrow> on_db m w = (Inl e, w\<lparr>db := d\<rparr>)"
  by (simp_all add: on_db_iff)

lemma keeps_current_user [frame]: "keeps F (get_current_user cfg token tid)"
proof -
  have "keeps F (get_by_telegram_id i)" for i
    unfolding get_by_telegram_id_def on_users_def
    by (rule keepsI) (auto simp: zoomM_def split: prod.split dest: read_only_state [OF repo_one_read_only])
  then show ?thesis
    unfolding get_current_user_def require_internal_service_def require_active_user_def by (intro frame)
qed

lemma keeps_current_admin [frame]: "keeps F (get_current_admin k cfg now hdr)"
proof -
  have "keeps F (int_of_claim c)" for c
    unfolding int_of_claim_def by (intro frame) (auto split: option.split json.split intro: frame)
  then show ?thesis
    unfolding get_current_admin_def by (intro frame)
qed

lemma current_user_Inr:
  assumes "get_current_user cfg token tid d = (Inr u, d')"
  shows "token = Some (internal_service_token cfg) \<and> internal_service_token cfg \<noteq> '''' \<and> u \<in> set (rows (users d)) \<and>
    tid = Some (telegram_id u) \<and> usr_status u = UserActive"
  using assms
  by (auto simp: get_current_user_def require_internal_service_def require_active_user_def get_by_telegram_id_def
      on_users_def absent_def success_iffs split: option.splits if_splits dest!: repo_one_found)

lemma current_admin_Inr:
  assumes "get_current_admin k cfg now hdr d = (Inr a, d')"
  shows "a \<in> set (rows (admin_users d)) \<and> is_active a \<and> (\<exists>token payload. hdr = Some token \<and>
    jwt_decode k (after_space token) (jwt_secret cfg) now = Some payload \<and>
    claim ''type'' payload = Some (JStr ''access'') \<and> claim ''kind'' payload = Some (JStr ''admin''))"
  using assms
  by (auto simp: get_current_admin_def absent_def decode_token_def int_of_claim_def getM_def success_iffs
      split: option.splits if_splits json.splits dest!: repo_get_in)

lemma admin_roles_nonempty: "admin_roles r \<noteq> []"
  by (cases r) (simp_all add: any_admin_def)

lemma user_call_isolated:
  assumes "api_call sid ctx V cr (ByUser r) w = (res, w')" and "owned_tables_ok (db w)"
    and "get_current_user (ae_settings V) (x_internal_token cr) (x_telegram_user_id cr) (db w) = (Inr u, d)"
  shows "same_for_others (rid u) (db w) (db w')"
proof -
  have refl: "same_for_others (rid u) d0 d0" for d0 by (simp add: same_for_others_def)
  have "d = db w"
    using keepsD [OF keeps_current_user assms(3), of "\<lambda>d. d"] by simp
  then have run: "dispatch V cr (ByUser r) w = serve_user V u r w"
    using assms(3) by (simp add: dispatch_def bindM_Inr on_db_Inr)
  show ?thesis
  proof (cases "serve_user V u r w")
    case (Pair x w1)
    then show ?thesis
      using assms(1) run serve_user_isolated [OF _ assms(2)] refl
      by (cases x) (auto simp: api_call_def with_session_def)
  qed
qed


section \<open>Credentials\<close>

lemma keeps_failed_call:
  assumes "api_call sid ctx V cr req w = (res, w')" and "dispatch V cr req w = (Inl e, w)"
  shows "w' = w \<and> (\<nexists>b. res = Inr b)"
  using assms by (auto simp: api_call_def with_session_def)

lemma user_call_effect:
  assumes "api_call sid ctx V cr (ByUser r) w = (res, w')" and "w' \<noteq> w \<or> (\<exists>b. res = Inr b)"
  shows "\<exists>u. x_internal_token cr = Some (internal_service_token (ae_settings V)) \<and>
     internal_service_token (ae_settings V) \<noteq> '''' \<and> u \<in> set (rows (users (db w))) \<and>
     x_telegram_user_id cr = Some (telegram_id u) \<and> usr_status u = UserActive"
proof (cases "get_current_user (ae_settings V) (x_internal_token cr) (x_telegram_user_id cr) (db w)")
  case (Pair x d)
  have d: "d = db w"
    using keepsD [OF keeps_current_user Pair, of "\<lambda>d. d"] by simp
  show ?thesis
  proof (cases x)
    case (Inl e)
    then have "dispatch V cr (ByUser r) w = (Inl e, w)"
      using Pair d by (simp add: dispatch_def bindM_Inl on_db_Inl)
    then show ?thesis using keeps_failed_call [OF assms(1)] assms(2) by blast
  next
    case (Inr u)
    then have "get_current_user (ae_settings V) (x_internal_token cr) (x_telegram_user_id cr) (db w) = (Inr u, d)"
      using Pair by simp
    from current_user_Inr [OF this] show ?thesis by blast
  qed
qed

text \<open>C14: A user's request has no effect at all, and no answer but an error, unless it carries the
  service token the backend shares with the bot and names an existing account that is not blocked.\<close>

theorem user_requests_authenticated:
  assumes "api_call sid ctx V cr (ByUser r) w = (res, w')" and "w' \<noteq> w \<or> (\<exists>b. res = Inr b)"
  shows "\<exists>u. x_internal_token cr = Some (internal_service_token (ae_settings V)) \<and>
     internal_service_token (ae_settings V) \<noteq> '''' \<and> u \<in> set (rows (users (db w))) \<and>
     x_telegram_user_id cr = Some (telegram_id u) \<and> usr_status u = UserActive"
  by (rule user_call_effect [OF assms])


section \<open>What administrators' requests leave behind\<close>

text \<open>An administrator whose role is only to view changes nothing: no row and nothing on the agents.\<close>

theorem viewer_changes_nothing:
  assumes "api_call sid ctx V cr (ByAdmin r) w = (res, w')"
    and "get_current_admin (ae_crypto V) (ae_settings V) (ae_now V) (authorization cr) (db w) = (Inr a, d)"
    and "adm_role a = VIEWER"
  shows "w' = w"
proof -
  have d: "d = db w"
    using keepsD [OF keeps_current_admin assms(2), of "\<lambda>d. d"] by simp
  show ?thesis
  proof (cases "VIEWER \<in> set (admin_roles r)")
    case True
    then have "keeps (\<lambda>d. d) (serve_admin V a r)"
      by (cases r) (auto simp: list_users_def get_user_def list_all_payments_endpoint_def list_audit_logs_def any_admin_def
          intro!: frame)
    then have "keeps (\<lambda>w. db w) (on_db (serve_admin V a r))"
      by (rule keeps_on_db)
    moreover have "keeps remote (on_db (serve_admin V a r))"
      by (rule keeps_remote_db)
    ultimately have stay: "\<And>x w1. on_db (serve_admin V a r) w = (x, w1) \<Longrightarrow> w1 = w"
      by (metis keepsD old.unit.exhaust world.equality)
    have "dispatch V cr (ByAdmin r) w = validated (ByAdmin r) (on_db (serve_admin V a r)) w"
      using assms(2,3) d True by (simp add: dispatch_def bindM_def on_db_Inr require_admin_role_def)
    then show ?thesis
      using assms(1) stay
      by (auto simp: api_call_def with_session_def validated_def split: prod.splits sum.splits if_splits)
  next
    case False
    then have "dispatch V cr (ByAdmin r) w =
        (Inl (app_error PermissionDeniedError ''Insufficient admin role'' (Some ''insufficient_role'')), w)"
      using assms(2,3) d by (auto simp: dispatch_def bindM_def on_db_Inr require_admin_role_def admin_roles_nonempty)
    then show ?thesis using keeps_failed_call [OF assms(1)] by blast
  qed
qed

definition audits :: "int \<Rightarrow> instant \<Rightarrow> database \<Rightarrow> database \<Rightarrow> bool" where
  "audits aid now d d' \<longleftrightarrow> (\<exists>l. rows (audit_logs d') = rows (audit_logs d) @ [l] \<and>
     log_admin_id l = Some aid \<and> log_created_at l = now)"

text \<open>A computation that, when it succeeds, has left one entry of the administrator.\<close>

definition leaves_entry :: "int \<Rightarrow> instant \<Rightarrow> 'a dbM \<Rightarrow> bool" where
  "leaves_entry aid now m \<longleftrightarrow> (\<forall>d y d'. m d = (Inr y, d') \<longrightarrow> audits aid now d d')"

lemma leaves_entry_audited: "leaves_entry (rid a) (ae_now V) (audited V a act tt i meta)"
  by (auto simp: leaves_entry_def audited_def audit_record_def on_defs success_iffs repo_add_Inr audits_def new_audit_log_def)

lemma leaves_entry_before: "keeps audit_logs m \<Longrightarrow> (\<And>x. leaves_entry aid now (f x)) \<Longrightarrow> leaves_entry aid now (bindM m f)"
  by (fastforce simp: leaves_entry_def bindM_eq_Inr_iff audits_def dest: keepsD)

lemma leaves_entry_after: "leaves_entry aid now m \<Longrightarrow> (\<And>x. keeps audit_logs (f x)) \<Longrightarrow> leaves_entry aid now (bindM m f)"
  by (fastforce simp: leaves_entry_def bindM_eq_Inr_iff audits_def dest: keepsD)

lemma keeps_audit_logs:
  "keeps audit_logs (set_user_status u st)" "keeps audit_logs (create_plan now p)" "keeps audit_logs (update_plan i pu)"
  "keeps audit_logs (create_server now sc)" "keeps audit_logs (update_server i su)" "keeps audit_logs (delete_server i)"
  "keeps audit_logs (create_vless_server now vc)" "keeps audit_logs (update_vless_server i vu)"
  "keeps audit_logs (delete_vless_server i)" "keeps audit_logs (create_category nm descr)"
  "keeps audit_logs (add_rule now cid dn rt e)" "keeps audit_logs (refund gw pay)"
  "keeps audit_logs (add_message now t who bd)" "keeps audit_logs (close_ticket t)"
proof -
  have lift: "keeps audit_logs (liftE r)" for r :: "exn + bool"
    by (rule keepsI) (simp add: liftE_def)
  have cascade: "keeps audit_logs (modifyM (delete_server_cascade i))" for i
    by (rule keeps_modify) (simp add: delete_server_cascade_def)
  have vless: "keeps audit_logs (get_vless_server i)" for i
    unfolding get_vless_server_def by (intro frame)
  have row: "keeps audit_logs (update_server_row i f)" for i f
    by (rule keeps_server_row) simp
  show "keeps audit_logs (set_user_status u st)" "keeps audit_logs (create_plan now p)" "keeps audit_logs (update_plan i pu)"
    "keeps audit_logs (create_server now sc)" "keeps audit_logs (update_server i su)" "keeps audit_logs (delete_server i)"
    "keeps audit_logs (create_vless_server now vc)" "keeps audit_logs (update_vless_server i vu)"
    "keeps audit_logs (delete_vless_server i)" "keeps audit_logs (create_category nm descr)"
    "keeps audit_logs (add_rule now cid dn rt e)" "keeps audit_logs (refund gw pay)"
    "keeps audit_logs (add_message now t who bd)" "keeps audit_logs (close_ticket t)"
    unfolding set_user_status_def create_plan_def get_by_slug_def update_plan_def create_server_def update_server_def
      delete_server_def create_vless_server_def update_vless_server_def delete_vless_server_def create_category_def
      add_rule_def refund_def set_payment_status_def add_message_def set_ticket_status_def close_ticket_def Let_def
    by (intro lift cascade vless row frame; simp)+
qed

lemma served_admin_entry:
  assumes "\<And>cid dn rt e. r \<noteq> AddRule cid dn rt e"
  shows "keeps (\<lambda>d. d) (serve_admin V a r) \<or> leaves_entry (rid a) (ae_now V) (serve_admin V a r)"
proof -
  note defs = serve_admin.simps list_users_def get_user_def list_all_payments_endpoint_def list_all_tickets_endpoint_def
    list_audit_logs_def update_user_status_def create_plan_endpoint_def update_plan_endpoint_def
    create_server_endpoint_def update_server_endpoint_def delete_server_endpoint_def create_vless_server_endpoint_def
    update_vless_server_endpoint_def delete_vless_server_endpoint_def create_category_endpoint_def refund_payment_def
    admin_reply_def close_ticket_endpoint_def answer_def bindM_assoc
  show ?thesis
  proof (cases r)
    case (AddRule cid dn rt e)
    then show ?thesis using assms by blast
  qed (simp_all only: defs, (rule disjI1, (intro frame; fail) | rule disjI2, ((rule leaves_entry_after [OF leaves_entry_audited]
      | rule leaves_entry_audited leaves_entry_before keeps_audit_logs frame)+; fail))+)
qed

text \<open>C39: Every request of an administrator that succeeds either reads only or leaves exactly one new entry in the
  audit log that names the administrator and the moment; nothing removes or alters older entries. The one
  exception is the creation of a routing rule, which writes the rule and leaves no entry.\<close>

theorem admin_actions_audited:
  assumes "api_call sid ctx V cr (ByAdmin r) w = (Inr b, w')"
    and "get_current_admin (ae_crypto V) (ae_settings V) (ae_now V) (authorization cr) (db w) = (Inr a, d)"
  shows "(case r of AddRule cid dn rt e \<Rightarrow> audit_logs (db w') = audit_logs (db w)
     | _ \<Rightarrow> w' = w \<or> audits (rid a) (ae_now V) (db w) (db w'))"
proof -
  have d: "d = db w"
    using keepsD [OF keeps_current_admin assms(2), of "\<lambda>d. d"] by simp
  obtain d' where run: "serve_admin V a r (db w) = (Inr b, d')" and w': "w' = w\<lparr>db := d'\<rparr>"
    using assms d by (auto simp: api_call_def with_session_def dispatch_def bindM_def on_db_Inr require_admin_role_def
        validated_def on_db_iff split: prod.splits sum.splits if_splits)
  have rule: "audit_logs d' = audit_logs (db w)" if "r = AddRule cid dn rt e" for cid dn rt e
    using run that by (auto simp: answer_def add_rule_endpoint_def bindM_eq_Inr_iff dest: keepsD [OF keeps_audit_logs(11)])
  have entry: "d' = db w \<or> audits (rid a) (ae_now V) (db w) d'" if "\<And>cid dn rt e. r \<noteq> AddRule cid dn rt e"
    using served_admin_entry [OF that, of V a] run by (auto simp: leaves_entry_def dest: keepsD)
  show ?thesis
    using rule entry unfolding w' by (cases r) auto
qed

section \<open>Examples\<close>

text \<open>Two users with a device each and an administrator who may only look.\<close>

definition demo_api :: "string list api_env" where
  "demo_api = \<lparr>ae_device = demo_env, ae_gateway = demo_gateway ''r'', ae_random = ''r'', ae_jti = ''j'', ae_salt = ''s''\<rparr>"

definition demo_bot :: credentials where
  "demo_bot = \<lparr>x_internal_token = Some (internal_service_token default_settings), x_telegram_user_id = Some 77,
     authorization = Some ''Bearer jwt''\<rparr>"

definition demo_api_world :: "admin_role \<Rightarrow> string list world" where
  "demo_api_world role = demo_world\<lparr>db := demo_user_db\<lparr>users := tbl [demo_user\<lparr>usr_status := UserActive\<rparr>],
     admin_users := tbl [demo_admin\<lparr>adm_role := role\<rparr>],
     devices := tbl [demo_device 1 1 WIREGUARD, (demo_device 2 1 WIREGUARD)\<lparr>dev_user_id := 2, dev_public_key := None\<rparr>]\<rparr>\<rparr>"

lemma demo_asks:
  "get_current_user (ae_settings demo_api) (x_internal_token demo_bot) (x_telegram_user_id demo_bot) (db (demo_api_world role)) =
     (Inr (demo_user\<lparr>usr_status := UserActive\<rparr>), db (demo_api_world role))"
  "get_current_admin (ae_crypto demo_api) (ae_settings demo_api) (ae_now demo_api) (authorization demo_bot)
     (db (demo_api_world role)) = (Inr (demo_admin\<lparr>adm_role := role\<rparr>), db (demo_api_world role))"
  "owned_tables_ok (db (demo_api_world role))"
proof -
  show "get_current_user (ae_settings demo_api) (x_internal_token demo_bot) (x_telegram_user_id demo_bot) (db (demo_api_world role)) =
     (Inr (demo_user\<lparr>usr_status := UserActive\<rparr>), db (demo_api_world role))"
    by (simp add: get_current_user_def require_internal_service_def require_active_user_def get_by_telegram_id_def on_users_def
        zoomM_def bindM_def repo_one_def scalar_one_or_none_def repo_select_def absent_def demo_api_def demo_env_def
        demo_bot_def demo_api_world_def demo_world_def tbl_def demo_user_def default_settings_def)
  have "starts_with (lower ''Bearer jwt'') ''bearer ''" by code_simp
  moreover have "parse_int ''1'' = Some 1" by code_simp
  ultimately show "get_current_admin (ae_crypto demo_api) (ae_settings demo_api) (ae_now demo_api) (authorization demo_bot)
     (db (demo_api_world role)) = (Inr (demo_admin\<lparr>adm_role := role\<rparr>), db (demo_api_world role))"
    by (simp add: get_current_admin_def decode_token_def absent_def int_of_claim_def claim_def token_claims_def getM_def
        bindM_def requireM_def returnM_def demo_api_def demo_env_def demo_crypto_def demo_bot_def demo_api_world_def
        demo_world_def tbl_def demo_admin_def repo_get_def)
  show "owned_tables_ok (db (demo_api_world role))"
    by (simp add: owned_tables_ok_def wf_table_def demo_api_world_def demo_world_def demo_user_db_def demo_delivery_db_def
        demo_links_db_def empty_db_def empty_table_def tbl_def demo_device_def)
qed


lemma user_requests_authenticated_witness:
  "case api_call None '''' demo_api demo_bot (ByUser GetMyProfile) (demo_api_world VIEWER) of
     (Inr _, _) \<Rightarrow> (\<exists>u. u \<in> set (rows (users (db (demo_api_world VIEWER)))) \<and> telegram_id u = 77) | _ \<Rightarrow> False"
proof -
  obtain res w' where run: "api_call None '''' demo_api demo_bot (ByUser GetMyProfile) (demo_api_world VIEWER) = (res, w')"
    by fastforce
  have "case api_call None '''' demo_api demo_bot (ByUser GetMyProfile) (demo_api_world VIEWER) of
     (Inr _, _) \<Rightarrow> True | _ \<Rightarrow> False"
    by code_simp
  then obtain b where "res = Inr b" using run by (auto split: sum.splits)
  then show ?thesis
    using user_requests_authenticated [OF run] run by (auto simp: demo_bot_def)
qed


lemma viewer_changes_nothing_witness:
  "snd (api_call None '''' demo_api demo_bot (ByAdmin (UpdateUserStatus 1 UserBlocked)) (demo_api_world VIEWER)) =
     demo_api_world VIEWER"
proof -
  obtain res w' where run:
    "api_call None '''' demo_api demo_bot (ByAdmin (UpdateUserStatus 1 UserBlocked)) (demo_api_world VIEWER) = (res, w')"
    by fastforce
  then show ?thesis
    using viewer_changes_nothing [OF run demo_asks(2)] by simp
qed

lemma admin_actions_audited_witness:
  "case api_call None '''' demo_api demo_bot (ByAdmin (UpdateUserStatus 1 UserBlocked)) (demo_api_world SUPPORT) of
     (Inr _, w') \<Rightarrow> audits 1 10 (db (demo_api_world SUPPORT)) (db w') | _ \<Rightarrow> False"
proof -
  obtain res w' where run:
    "api_call None '''' demo_api demo_bot (ByAdmin (UpdateUserStatus 1 UserBlocked)) (demo_api_world SUPPORT) = (res, w')"
    by fastforce
  have "case api_call None '''' demo_api demo_bot (ByAdmin (UpdateUserStatus 1 UserBlocked)) (demo_api_world SUPPORT) of
     (Inr _, w') \<Rightarrow> map usr_status (rows (users (db w'))) = [UserBlocked] | _ \<Rightarrow> False"
    by code_simp
  then obtain b where b: "res = Inr b" and new: "map usr_status (rows (users (db w'))) = [UserBlocked]"
    using run by (auto split: sum.splits)
  have "map usr_status (rows (users (db (demo_api_world SUPPORT)))) = [UserActive]" by code_simp
  with new have changed: "w' \<noteq> demo_api_world SUPPORT" by auto
  show ?thesis
    using admin_actions_audited [OF run [unfolded b] demo_asks(2)] run b changed
    by (simp add: demo_admin_def demo_api_def demo_env_def)
qed

end
