(* ===== verification/Reachable.thy ===== *)
theory Reachable
  imports Access "HOL-Library.Sublist"
begin

text \<open>
  The states the backend can reach: requests of clients, sweeps of the expiry worker and promo codes entered
  by hand, in any order, on agents and networks that behave as they like. What holds in all of them: every
  key and every unique constraint of every table, and an audit log that only grows.
\<close>

section \<open>The constraints of the tables\<close>

definition table_ok :: "('z entity_scheme \<Rightarrow> 'z entity_scheme \<Rightarrow> bool) \<Rightarrow> 'z rows \<Rightarrow> bool" where
  "table_ok c t \<longleftrightarrow> wf_table t \<and> table_unique c t"

definition profiles_ok :: "vpn_profile table \<Rightarrow> bool" where
  "profiles_ok t \<longleftrightarrow> wf_table t \<and> (\<forall>did. length (filter (current_profile_of did) (rows t)) \<le> 1)"

definition db_ok :: "database \<Rightarrow> bool" where
  "db_ok d \<longleftrightarrow>
     table_ok user_conflict (users d) \<and> table_ok admin_conflict (admin_users d) \<and>
     table_ok no_conflict (audit_logs d) \<and> table_ok plan_conflict (plans d) \<and>
     table_ok no_conflict (subscriptions d) \<and> table_ok payment_conflict (payments d) \<and>
     table_ok promo_conflict (promo_codes d) \<and> table_ok no_conflict (promo_redemptions d) \<and>
     table_ok referral_conflict (referrals d) \<and> table_ok device_conflict (devices d) \<and>
     table_ok no_conflict (vpn_servers d) \<and> table_ok config_conflict (vless_server_configs d) \<and>
     table_ok peer_conflict (vpn_peers d) \<and> table_ok credential_conflict (vless_credentials d) \<and>
     profiles_ok (vpn_profiles d) \<and> table_ok link_conflict (subscription_links d) \<and>
     table_ok category_conflict (routing_categories d) \<and> table_ok rule_conflict (routing_rules d) \<and>
     table_ok routing_profile_conflict (user_routing_profiles d) \<and>
     table_ok preference_conflict (user_category_preferences d) \<and>
     table_ok custom_domain_conflict (user_custom_domains d) \<and>
     table_ok no_conflict (support_tickets d) \<and> table_ok no_conflict (support_messages d)"

subsection \<open>Operations of one table\<close>

lemma unique_no_conflict [simp]: "table_unique no_conflict t"
  by (simp add: table_unique_def no_conflict_def sorted_wrt_true)

lemma preserves_repo_add [pres]: "preserves (table_ok c) (repo_add c r)"
proof (rule preservesI)
  fix t :: "'a rows"
  assume ok: "table_ok c t"
  obtain x t' where a: "repo_add c r t = (x, t')" by (cases "repo_add c r t")
  show "table_ok c (snd (repo_add c r t))"
  proof (cases x)
    case (Inl e)
    then have "t' = t" using a repo_add_Inl by metis
    then show ?thesis using ok a by simp
  next
    case (Inr q)
    then show ?thesis using ok a wf_add [of t c r] table_unique_add [of c t r] by (auto simp: table_ok_def)
  qed
qed

lemma preserves_repo_one [pres]: "preserves I (repo_one P)"
  by (rule read_only_preserves [OF repo_one_read_only])

lemma preserves_repo_update:
  assumes "\<And>r. rid (f r) = rid r" and "\<And>a b. c (f a) b = c a b" and "\<And>a b. c a (f b) = c a b"
  shows "preserves (table_ok c) (modifyM (repo_update i f))"
proof (rule preserves_modify)
  fix t :: "'a rows"
  assume "table_ok c t"
  then show "table_ok c (repo_update i f t)"
    using wf_update [of t f i] table_unique_update [of c t f i] assms by (simp add: table_ok_def)
qed

text \<open>A row may take a new key when the new key is no other row's.\<close>

lemma table_unique_rekey:
  assumes "table_ok c t" and rid: "\<And>r. rid (f r) = rid r"
    and fresh: "\<And>a b. a \<in> set (rows t) \<Longrightarrow> rid a = i \<Longrightarrow> b \<in> set (rows t) \<Longrightarrow> rid b \<noteq> i \<Longrightarrow>
      \<not> c a b \<or> \<not> c b a \<Longrightarrow> \<not> c (f a) b \<and> \<not> c b (f a)"
  shows "table_ok c (repo_update i f t)"
proof -
  let ?g = "\<lambda>r. if rid r = i then f r else r"
  have "sorted_wrt (\<lambda>a b. \<not> c a b) (map ?g xs)"
    if "sorted_wrt (\<lambda>a b. \<not> c a b) xs" "distinct (map rid xs)" "set xs \<subseteq> set (rows t)" for xs
    using that
  proof (induction xs)
    case (Cons x xs)
    have "\<not> c (?g x) (?g y)" if y: "y \<in> set xs" for y
    proof -
      have "\<not> c x y" "rid x \<noteq> rid y" "x \<in> set (rows t)" "y \<in> set (rows t)"
        using Cons.prems y by auto
      then show ?thesis using fresh [of x y] fresh [of y x] by auto
    qed
    then have "sorted_wrt (\<lambda>a b. \<not> c a b) (?g x # map ?g xs)"
      using Cons by (auto simp only: sorted_wrt.simps list.set_map distinct.simps list.map list.set)
    then show ?case by simp
  qed simp
  then show ?thesis
    using assms(1) wf_update [of t f i, OF _ rid] by (simp add: table_ok_def table_unique_def wf_table_def rows_update)
qed

lemma preserves_filter_rows:
  "table_ok c t \<Longrightarrow> table_ok c (t\<lparr>rows := filter P (rows t)\<rparr>)"
  by (auto simp: table_ok_def table_unique_def wf_table_def sorted_wrt_filter distinct_map_filter list_all_iff)

subsection \<open>The constraints, table by table\<close>

lemma preserves_on_tables [pres]:
  "preserves (table_ok user_conflict) m1 \<Longrightarrow> preserves db_ok (on_users m1)"
  "preserves (table_ok admin_conflict) m2 \<Longrightarrow> preserves db_ok (on_admin_users m2)"
  "preserves (table_ok no_conflict) m3 \<Longrightarrow> preserves db_ok (on_audit_logs m3)"
  "preserves (table_ok plan_conflict) m4 \<Longrightarrow> preserves db_ok (on_plans m4)"
  "preserves (table_ok no_conflict) m5 \<Longrightarrow> preserves db_ok (on_subscriptions m5)"
  "preserves (table_ok payment_conflict) m6 \<Longrightarrow> preserves db_ok (on_payments m6)"
  "preserves (table_ok no_conflict) m7 \<Longrightarrow> preserves db_ok (on_promo_redemptions m7)"
  "preserves (table_ok referral_conflict) m8 \<Longrightarrow> preserves db_ok (on_referrals m8)"
  "preserves (table_ok device_conflict) m9 \<Longrightarrow> preserves db_ok (on_devices m9)"
  "preserves (table_ok no_conflict) m10 \<Longrightarrow> preserves db_ok (on_vpn_servers m10)"
  "preserves (table_ok config_conflict) m11 \<Longrightarrow> preserves db_ok (on_vless_server_configs m11)"
  "preserves (table_ok peer_conflict) m12 \<Longrightarrow> preserves db_ok (on_vpn_peers m12)"
  "preserves (table_ok credential_conflict) m13 \<Longrightarrow> preserves db_ok (on_vless_credentials m13)"
  "preserves profiles_ok m14 \<Longrightarrow> preserves db_ok (on_vpn_profiles m14)"
  "preserves (table_ok link_conflict) m15 \<Longrightarrow> preserves db_ok (on_subscription_links m15)"
  "preserves (table_ok category_conflict) m16 \<Longrightarrow> preserves db_ok (on_routing_categories m16)"
  "preserves (table_ok rule_conflict) m17 \<Longrightarrow> preserves db_ok (on_routing_rules m17)"
  "preserves (table_ok routing_profile_conflict) m18 \<Longrightarrow> preserves db_ok (on_user_routing_profiles m18)"
  "preserves (table_ok preference_conflict) m19 \<Longrightarrow> preserves db_ok (on_user_category_preferences m19)"
  "preserves (table_ok custom_domain_conflict) m20 \<Longrightarrow> preserves db_ok (on_user_custom_domains m20)"
  "preserves (table_ok no_conflict) m21 \<Longrightarrow> preserves db_ok (on_support_tickets m21)"
  "preserves (table_ok no_conflict) m22 \<Longrightarrow> preserves db_ok (on_support_messages m22)"
  unfolding on_defs by (erule preserves_zoom; simp add: db_ok_def)+

section \<open>Every operation keeps the constraints\<close>

lemma preserves_mapM [pres]: "(\<And>x. x \<in> set xs \<Longrightarrow> preserves I (f x)) \<Longrightarrow> preserves I (mapM f xs)"
  by (induction xs) (auto simp: mapM.simps intro!: pres)

lemma preserves_read: "keeps (\<lambda>d. d) m \<Longrightarrow> preserves I m"
  by (simp add: keeps_def preserves_def)

lemma preserves_on_db [pres]: "preserves I m \<Longrightarrow> preserves (\<lambda>w. I (db w)) (on_db m)"
  unfolding on_db_def by (erule preserves_zoom) simp_all

lemma preserves_on_remote [pres]: "preserves (\<lambda>w. I (db w)) (on_remote m)"
  unfolding on_remote_def by (rule preserves_zoom [of "\<lambda>_. True"]) (simp_all add: preserves_def)

lemma preserves_answer [pres]: "preserves I m \<Longrightarrow> preserves I (answer f m)"
  unfolding answer_def by (intro pres)

lemma preserves_whenSome [pres]: "(\<And>a. preserves I (f a)) \<Longrightarrow> preserves I (whenSome x f)"
  unfolding whenSome_def by (intro pres)

lemma preserves_liftE [pres]: "preserves I (liftE r)"
  by (simp add: preserves_def liftE_def)

text \<open>Accounts.\<close>

lemma preserves_accounts [pres]:
  "preserves db_ok (get_or_create_from_telegram now p)" "preserves db_ok (set_user_status u st)"
  "preserves db_ok (audit_record now admin act tt i meta)" "preserves db_ok (create_admin k now salt email pw role)"
  "preserves db_ok (bootstrap_first_admin k now salt email pw given expected)" "preserves db_ok (authenticate k email pw)"
  "preserves db_ok (register_referral now a b)"
  "preserves db_ok (create_ticket now uid subj bd)" "preserves db_ok (add_message now t who bd)"
  "preserves db_ok (close_ticket t)"
  unfolding get_or_create_from_telegram_def get_by_telegram_id_def set_user_status_def audit_record_def
    bootstrap_first_admin_def create_admin_def authenticate_def get_by_email_def register_referral_def get_by_referred_def
    create_ticket_def add_message_def set_ticket_status_def close_ticket_def Let_def
  by (intro pres preserves_repo_update; simp add: user_conflict_def no_conflict_def)+

text \<open>Plans, subscriptions, payments.\<close>

lemma preserves_promo_count [pres]:
  "preserves db_ok (modifyM (\<lambda>d. d\<lparr>promo_codes := repo_update i (\<lambda>p. p\<lparr>used_count := used_count p + 1\<rparr>) (promo_codes d)\<rparr>))"
proof (rule preserves_modify)
  fix d assume "db_ok d"
  then show "db_ok (d\<lparr>promo_codes := repo_update i (\<lambda>p. p\<lparr>used_count := used_count p + 1\<rparr>) (promo_codes d)\<rparr>)"
    using wf_update [of "promo_codes d" "\<lambda>p. p\<lparr>used_count := used_count p + 1\<rparr>" i]
      table_unique_update [of promo_conflict "promo_codes d" "\<lambda>p. p\<lparr>used_count := used_count p + 1\<rparr>" i]
    by (simp add: db_ok_def table_ok_def promo_conflict_def)
qed

lemma preserves_plans [pres]:
  "preserves db_ok (create_plan now pc)" "preserves db_ok (update_plan i pu)" "preserves db_ok (get_plan i)"
  "preserves db_ok (plan_of s)"
  unfolding create_plan_def get_by_slug_def update_plan_def get_plan_def plan_of_def
  by (intro pres preserves_repo_update; simp add: apply_plan_update_def plan_conflict_def)+

lemma preserves_subscriptions [pres]:
  "preserves db_ok (update_subscription i f)" if "\<And>r. rid (f r) = rid r"
  unfolding update_subscription_def by (intro pres preserves_repo_update) (simp_all add: that no_conflict_def)

lemma preserves_billing [pres]:
  "preserves db_ok (get_subscription i)"
  "preserves db_ok (create_pending now u p b)" "preserves db_ok (activate now s p)" "preserves db_ok (cancel_subscription s)"
  "preserves db_ok (expire_subscription s)" "preserves db_ok (redeem_promo now pay)"
  "preserves db_ok (set_payment_status ps pay)"
  "preserves db_ok (check_promo now u pc)" "preserves db_ok (create_payment gw prov now rnd u p c)"
  "preserves db_ok (handle_webhook gw prov now raw sig)" "preserves db_ok (refund gw pay)"
  "preserves db_ok (get_payment_provider cfg mock)"
proof -
  show pending: "preserves db_ok (create_pending now u p b)" for now u p b
    unfolding create_pending_def by (intro pres)
  show act: "preserves db_ok (activate now s p)" for now s p
    unfolding activate_def by (intro pres) (simp_all add: mark_active_def)
  show "preserves db_ok (cancel_subscription s)" "preserves db_ok (expire_subscription s)"
    unfolding cancel_subscription_def expire_subscription_def Let_def by (intro pres; simp)+
  show redeem: "preserves db_ok (redeem_promo now pay)" for now pay
    unfolding redeem_promo_def by (intro pres)
  show status: "preserves db_ok (set_payment_status ps pay)" for ps pay
    unfolding set_payment_status_def by (intro pres preserves_repo_update) (simp_all add: payment_conflict_def)
  show sub: "preserves db_ok (get_subscription i)" for i
    unfolding get_subscription_def by (intro pres)
  show promo: "preserves db_ok (check_promo now u pc)" for now u pc
    by (rule preserves_read, rule keepsI) (metis check_promo_read_only prod.collapse)
  show "preserves db_ok (create_payment gw prov now rnd u p c)"
    unfolding create_payment_def Let_def by (intro promo pending pres)
  have found: "preserves db_ok (get_by_provider_external_id prov ext)" for ext
    unfolding get_by_provider_external_id_def by (intro pres)
  have event: "preserves db_ok (case st of IntentSucceeded \<Rightarrow> a | IntentFailed \<Rightarrow> b | IntentPending \<Rightarrow> c)"
    if "preserves db_ok a" "preserves db_ok b" "preserves db_ok c" for st and a b c :: "payment dbM"
    using that by (cases st) simp_all
  show "preserves db_ok (handle_webhook gw prov now raw sig)"
    unfolding handle_webhook_def by (intro event found status sub act redeem pres)
  show "preserves db_ok (refund gw pay)"
    unfolding refund_def by (intro status pres)
  show "preserves db_ok (get_payment_provider cfg mock)"
    unfolding get_payment_provider_def by (intro pres)
qed

text \<open>Routing.\<close>

text \<open>The current profile of a device is superseded before another one is added for it.\<close>

lemma preserves_new_profile:
  assumes "prof_device_id p = did"
  shows "preserves db_ok (bindM (mark_superseded did) (\<lambda>_. on_vpn_profiles (repo_add no_conflict p)))"
proof (rule preservesI)
  fix d assume ok: "db_ok d"
  let ?t = "repo_update_where (current_profile_of did) (\<lambda>p. p\<lparr>is_current := False\<rparr>) (vpn_profiles d)"
  have wf: "wf_table ?t" and one: "length (filter (current_profile_of i) (rows (vpn_profiles d))) \<le> 1" for i
    using ok by (auto simp: db_ok_def profiles_ok_def intro: wf_update_where)
  obtain x t where a: "repo_add no_conflict p ?t = (x, t)" by (cases "repo_add no_conflict p ?t")
  have "wf_table t" using wf_add [OF wf a] .
  moreover have "length (filter (current_profile_of i) (rows t)) \<le> 1" for i
  proof -
    have "rows t = rows ?t @ [p\<lparr>rid := next_id ?t\<rparr>]"
      using a by (auto simp: repo_add_def Let_def no_conflict_def list_ex_iff)
    moreover have "filter (current_profile_of i) (rows ?t) =
        (if i = did then [] else filter (current_profile_of i) (rows (vpn_profiles d)))"
      unfolding rows_update_where by (rule filter_superseded)
    moreover have "current_profile_of i (p\<lparr>rid := next_id ?t\<rparr>) \<Longrightarrow> i = did"
      using assms by (simp add: current_profile_of_def)
    ultimately show ?thesis
      using one [of i] by auto
  qed
  ultimately show "db_ok (snd (bindM (mark_superseded did) (\<lambda>_. on_vpn_profiles (repo_add no_conflict p)) d))"
    using ok a by (simp add: mark_superseded_def on_vpn_profiles_def zoomM_def bindM_def db_ok_def profiles_ok_def split: sum.split)
qed

lemma preserves_routing [pres]:
  "preserves db_ok (create_category nm descr)" "preserves db_ok (add_rule now cid dn rt e)"
  "preserves db_ok (get_or_create_user_profile uid)" "preserves db_ok (set_mode uid m)"
  "preserves db_ok (set_category_preference uid cid e)" "preserves db_ok (add_custom_domain now uid dn rt)"
  "preserves db_ok (get_current_profile did)" "preserves db_ok (regenerate_profile dns cfg now did uid)"
proof -
  show "preserves db_ok (create_category nm descr)" "preserves db_ok (add_rule now cid dn rt e)"
    unfolding create_category_def add_rule_def by (intro pres)+
  show profile: "preserves db_ok (get_or_create_user_profile uid)" for uid
    unfolding get_or_create_user_profile_def get_routing_profile_def by (intro pres)
  show "preserves db_ok (set_mode uid m)"
    unfolding set_mode_def by (intro profile pres preserves_repo_update) (simp_all add: routing_profile_conflict_def)
  show "preserves db_ok (set_category_preference uid cid e)"
    unfolding set_category_preference_def get_preference_def
    by (intro pres preserves_repo_update) (simp_all add: preference_conflict_def)
  show "preserves db_ok (add_custom_domain now uid dn rt)"
    unfolding add_custom_domain_def Let_def
    by (intro pres preserves_repo_update) (simp_all add: custom_domain_conflict_def)
  show current: "preserves db_ok (get_current_profile did)" for did
    unfolding get_current_profile_def by (intro pres)
  have ips: "preserves db_ok (\<lambda>d. (profile_allowed_ips dns uid m d, d))" for m
    by (simp add: preserves_def)
  show "preserves db_ok (regenerate_profile dns cfg now did uid)"
    unfolding regenerate_profile_def by (intro profile ips current preserves_new_profile preserves_bind) simp
qed

text \<open>Servers and links.\<close>

lemma preserves_cascade [pres]: "preserves db_ok (modifyM (delete_server_cascade i))"
proof (rule preserves_modify)
  fix d assume ok: "db_ok d"
  have "table_ok device_conflict (repo_update_where P (\<lambda>v. v\<lparr>dev_server_id := None\<rparr>) t)"
    if "table_ok device_conflict t" for P t
  proof -
    have "sorted_wrt (\<lambda>a b. \<not> device_conflict a b) (map (\<lambda>r. if P r then r\<lparr>dev_server_id := None\<rparr> else r) xs)"
      if "sorted_wrt (\<lambda>a b. \<not> device_conflict a b) xs" for xs
      using that by (simp add: sorted_wrt_map device_conflict_def if_distrib if_distribR cong: if_cong)
    then show ?thesis
      using that wf_update_where [of t "\<lambda>v. v\<lparr>dev_server_id := None\<rparr>" P]
      by (simp add: table_ok_def table_unique_def rows_update_where)
  qed
  then show "db_ok (delete_server_cascade i d)"
    using ok by (simp add: db_ok_def delete_server_cascade_def repo_delete_def preserves_filter_rows)
qed

lemma preserves_row_updates [pres]:
  "preserves db_ok (update_server_row i f)" if "\<And>r. rid (f r) = rid r"
  unfolding update_server_row_def by (intro pres preserves_repo_update) (simp_all add: that no_conflict_def)

lemma preserves_servers [pres]:
  "preserves db_ok (get_server i)" "preserves db_ok (create_server now sc)" "preserves db_ok (update_server i su)"
  "preserves db_ok (delete_server i)" "preserves db_ok (get_config_for_server sid)" "preserves db_ok (get_vless_server i)"
  "preserves db_ok list_vless_servers" "preserves db_ok (create_vless_server now vc)"
  "preserves db_ok (update_vless_server i vu)" "preserves db_ok (delete_vless_server i)"
  "preserves db_ok (choose_server requested p)"
proof -
  show get: "preserves db_ok (get_server i)" for i
    unfolding get_server_def by (intro pres)
  show config: "preserves db_ok (get_config_for_server sid)" for sid
    unfolding get_config_for_server_def by (intro pres)
  show vless: "preserves db_ok (get_vless_server i)" for i
    unfolding get_vless_server_def by (intro config pres)
  show "preserves db_ok list_vless_servers"
    unfolding list_vless_servers_def by (intro config pres)
  show "preserves db_ok (create_server now sc)" "preserves db_ok (create_vless_server now vc)"
    unfolding create_server_def create_vless_server_def by (intro pres)+
  show "preserves db_ok (update_server i su)"
    unfolding update_server_def by (intro get pres) (simp add: apply_server_update_def)
  show "preserves db_ok (update_vless_server i vu)"
    unfolding update_vless_server_def Let_def
    by (intro vless pres preserves_repo_update)
      (simp_all add: apply_server_update_def apply_config_update_def config_conflict_def)
  show "preserves db_ok (delete_server i)" "preserves db_ok (delete_vless_server i)"
    unfolding delete_server_def delete_vless_server_def by (intro get vless pres)+
  show "preserves db_ok (choose_server requested p)"
    by (rule preserves_read) (rule keeps_read_only_queries)
qed

lemma preserves_flush_link [pres]:
  assumes "\<And>l. rid (f l) = rid l" and "\<And>l. link_device_id (f l) = link_device_id l"
  shows "preserves db_ok (flush_link i f)"
proof (rule preservesI)
  fix d assume ok: "db_ok d"
  have "table_ok link_conflict (repo_update i f (subscription_links d))"
    if "\<not> list_ex (\<lambda>a. rid a = i \<and> list_ex (\<lambda>b. rid b \<noteq> i \<and> token_hash b = token_hash (f a))
          (rows (subscription_links d))) (rows (subscription_links d))"
  proof (rule table_unique_rekey)
    show "table_ok link_conflict (subscription_links d)" using ok by (simp add: db_ok_def)
    show "rid (f r) = rid r" for r by (rule assms)
    fix a b
    assume ab: "a \<in> set (rows (subscription_links d))" "rid a = i" "b \<in> set (rows (subscription_links d))" "rid b \<noteq> i"
      "\<not> link_conflict a b \<or> \<not> link_conflict b a"
    have "token_hash b \<noteq> token_hash (f a)"
      using ab that unfolding list_ex_iff by blast
    then show "\<not> link_conflict (f a) b \<and> \<not> link_conflict b (f a)"
      using ab(5) assms(2) by (auto simp: link_conflict_def)
  qed
  then show "db_ok (snd (flush_link i f d))"
    using ok by (simp add: flush_link_def db_ok_def)
qed

lemma preserves_links [pres]:
  "preserves db_ok (get_link_for_device did)" "preserves db_ok (create_or_rotate k now token did)"
  "preserves db_ok (revoke_link now l)" "preserves db_ok (deliver k now token hint)"
proof -
  show get: "preserves db_ok (get_link_for_device did)" for did
    unfolding get_link_for_device_def by (intro pres)
  show "preserves db_ok (create_or_rotate k now token did)"
    unfolding create_or_rotate_def by (intro get pres) (simp_all add: rotate_link_def)
  show "preserves db_ok (revoke_link now l)"
    unfolding revoke_link_def Let_def by (intro pres preserves_repo_update) (simp_all add: link_conflict_def)
  have "preserves db_ok (resolve_token k token)"
    unfolding resolve_token_def get_by_token_hash_def by (intro pres)
  moreover have "preserves db_ok (record_access now l)" for l
    unfolding record_access_def by (intro pres preserves_repo_update) (simp_all add: touch_link_def link_conflict_def)
  ultimately have "preserves db_ok (authorize k now token)"
    unfolding authorize_def by (intro pres)
  then show "preserves db_ok (deliver k now token hint)"
    unfolding deliver_def deliver_vless_def delivery_items_def Let_def by (intro pres)
qed

text \<open>Devices.\<close>

lemma same_some_sym: "same_some a b = same_some b a"
  by (auto simp: same_some_def split: option.splits)

lemma preserves_update_device [pres]:
  "preserves db_ok (update_device i f)" if "\<And>r. rid (f r) = rid r" and "\<And>r. dev_public_key (f r) = dev_public_key r"
  unfolding update_device_def by (intro pres preserves_repo_update) (simp_all add: that device_conflict_def)

lemma preserves_assign_device [pres]:
  assumes "\<And>v. rid (f v) = rid v"
  shows "preserves db_ok (assign_device i f)"
proof (rule preservesI)
  fix d assume ok: "db_ok d"
  have "table_ok device_conflict (repo_update i f (devices d))"
    if "\<not> list_ex (\<lambda>a. rid a = i \<and> list_ex (\<lambda>b. rid b \<noteq> i \<and> device_conflict b (f a)) (rows (devices d))) (rows (devices d))"
  proof (rule table_unique_rekey)
    show "table_ok device_conflict (devices d)" using ok by (simp add: db_ok_def)
    show "rid (f r) = rid r" for r by (rule assms)
    fix a b
    assume "a \<in> set (rows (devices d))" "rid a = i" "b \<in> set (rows (devices d))" "rid b \<noteq> i"
    then have "\<not> device_conflict b (f a)"
      using that unfolding list_ex_iff by blast
    then show "\<not> device_conflict (f a) b \<and> \<not> device_conflict b (f a)"
      by (simp add: device_conflict_def same_some_sym)
  qed
  then show "db_ok (snd (assign_device i f d))"
    using ok by (simp add: assign_device_def update_device_def on_devices_def zoomM_def modifyM_def db_ok_def)
qed

lemma preserves_commit_peers [pres]: "preserves db_ok (modifyM (commit_peers ps))"
proof (rule preserves_modify)
  have "table_ok peer_conflict (fold (\<lambda>p t. snd (repo_add peer_conflict p t)) ps t)" if "table_ok peer_conflict t" for t
    using that preserves_repo_add by (induction ps arbitrary: t) (auto simp: preserves_def)
  then show "db_ok d \<Longrightarrow> db_ok (commit_peers ps d)" for d
    by (simp add: db_ok_def commit_peers_def)
qed

lemma preserves_peer_row [pres]:
  "preserves db_ok (update_peer_row i (\<lambda>r. r\<lparr>peer_status := st\<rparr>))"
  "preserves db_ok (update_credential i (\<lambda>r. r\<lparr>cred_status := cs\<rparr>))"
  "preserves db_ok (update_credential i (\<lambda>r. r\<lparr>cred_status := cs, cred_revoked_at := t\<rparr>))"
  unfolding update_peer_row_def update_credential_def
  by (intro pres preserves_repo_update; simp add: peer_conflict_def credential_conflict_def)+

lemma preserves_device_queries [pres]:
  "preserves db_ok (allocate_ip sid cidr)" "preserves db_ok (enforce_device_limit uid)"
  "preserves db_ok (vless_config_for_credential cred)" "preserves db_ok (get_owned i uid)"
  by (rule preserves_read, intro frame)+

abbreviation keeps_db_ok :: "('w, 'a) app \<Rightarrow> bool" where
  "keeps_db_ok \<equiv> preserves (\<lambda>w. db_ok (db w))"

lemma preserves_attempts [pres]: "keeps_db_ok (create_peer_with_retry E v s)"
proof -
  have "keeps_db_ok (create_peer_attempts E v s n)" for n
  proof (induction n)
    case 0
    then show ?case by (simp only: create_peer_attempts.simps) (intro pres)
  next
    case (Suc n)
    show ?case
      unfolding create_peer_attempts.simps savepoint_add_peer_def by (intro Suc pres)
  qed
  then show ?thesis by (simp add: create_peer_with_retry_def)
qed

lemma preserves_device_parts [pres]:
  "keeps_db_ok (qr_code E t)" "keeps_db_ok (link_device E v)" "keeps_db_ok (set_device_status st v)"
  "keeps_db_ok (revoke_peer E p s)" "keeps_db_ok (call_active_peer v act)"
  "keeps_db_ok (remove_credential_from_xray E c)" "preserves db_ok (add_device d)"
  unfolding qr_code_def link_device_def set_device_status_def revoke_peer_def call_active_peer_def
    remove_credential_from_xray_def add_device_def
  by (intro pres; simp)+

lemma preserves_device_credentials [pres]:
  "keeps_db_ok (revoke_credential E c)" "keeps_db_ok (disable_credential E c)" "keeps_db_ok (enable_credential E did c)"
  unfolding revoke_credential_def disable_credential_def enable_credential_def
  by (intro pres; simp add: drop_load_def)+

lemma preserves_devices [pres]:
  "keeps_db_ok (provision E uid name requested p)" "keeps_db_ok (reissue E v)" "keeps_db_ok (disable_device E v)"
  "keeps_db_ok (enable_device E v)" "keeps_db_ok (revoke_device E v)"
  unfolding provision_def provision_vless_def provision_wireguard_def reissue_def disable_device_def disable_credentials_def
    enable_device_def enable_credentials_def revoke_device_def revoke_credentials_def revoke_wireguard_def
  by (intro pres; simp add: add_load_def drop_load_def bind_peer_def rekey_device_def)+

lemma preserves_sweep [pres]: "keeps_db_ok (run_once W t)"
  unfolding run_once_def sweep_one_def process_one_def disable_all_for_user_def expiry_log_def by (intro pres)

text \<open>Endpoints.\<close>

lemma preserves_reads [pres]:
  "preserves db_ok (read_subscription s)" "preserves db_ok (read_unloaded_tickets ts)" "preserves db_ok (paged o1 l q)"
  "preserves db_ok (get_ticket i)" "preserves db_ok (get_user_row i)" "preserves db_ok (get_current_user cfg t tid)"
  "preserves db_ok (get_current_admin k cfg now hdr)"
  by (rule preserves_read, intro frame)+

lemma preserves_settings [pres]: "preserves db_ok (get_my_routing_settings u)"
  unfolding get_my_routing_settings_def by (intro pres)

lemma preserves_serve_user [pres]: "keeps_db_ok (serve_user V u r)"
proof -
  note defs = serve_user.simps list_my_subscriptions_def get_my_active_subscription_def cancel_subscription_endpoint_def
    list_devices_endpoint_def create_device_def reissue_device_config_def disable_device_endpoint_def
    enable_device_endpoint_def revoke_device_endpoint_def create_or_rotate_subscription_link_def get_subscription_link_def
    revoke_subscription_link_def get_device_profile_def refresh_device_profile_def set_my_routing_mode_def
    set_my_category_preference_def add_my_custom_domain_def create_payment_endpoint_def list_my_payments_def
    create_ticket_endpoint_def list_my_tickets_def get_ticket_endpoint_def add_message_endpoint_def
  show ?thesis
    by (cases r; simp only: defs; intro pres)
qed

lemma preserves_audited [pres]: "preserves db_ok (audited V a act tt i meta)"
  unfolding audited_def by (intro pres)

lemma preserves_serve_admin [pres]: "preserves db_ok (serve_admin V a r)"
proof -
  note defs = serve_admin.simps list_users_def get_user_def list_all_payments_endpoint_def list_all_tickets_endpoint_def
    list_audit_logs_def update_user_status_def create_plan_endpoint_def update_plan_endpoint_def
    create_server_endpoint_def update_server_endpoint_def delete_server_endpoint_def create_vless_server_endpoint_def
    update_vless_server_endpoint_def delete_vless_server_endpoint_def create_category_endpoint_def refund_payment_def
    admin_reply_def close_ticket_endpoint_def add_rule_endpoint_def
  show ?thesis
    by (cases r; simp only: defs; intro pres)
qed

lemma preserves_serve_public [pres]: "preserves db_ok (serve_public V cr r)"
proof -
  note defs = serve_public.simps authenticate_telegram_user_def require_internal_service_def admin_login_def
    admin_bootstrap_def payment_webhook_def get_subscription_content_def
  show ?thesis
    by (cases r; simp only: defs; intro pres)
qed

lemma preserves_dispatch: "keeps_db_ok (dispatch V cr req)"
  unfolding dispatch_def validated_def require_admin_role_def by (cases req; simp only: api_request.case; intro pres)

lemma preserves_session: "keeps_db_ok m \<Longrightarrow> keeps_db_ok (with_session m)"
  by (auto simp: preserves_def with_session_def split: prod.split sum.split)

section \<open>Reachable states\<close>

inductive backend_step :: "'w world \<Rightarrow> 'w world \<Rightarrow> bool" where
  request: "api_call sid ctx V cr req w = (res, w') \<Longrightarrow> backend_step w w'"
| sweep: "run_worker W w = (r, w') \<Longrightarrow> backend_step w w'"
| promo: "repo_add promo_conflict p (promo_codes (db w)) = (Inr q, t) \<Longrightarrow>
    backend_step w (w\<lparr>db := (db w)\<lparr>promo_codes := t\<rparr>\<rparr>)"
| outside: "backend_step w (w\<lparr>remote := n\<rparr>)"

inductive reachable :: "'w world \<Rightarrow> bool" where
  start: "reachable \<lparr>db = empty_db, remote = n\<rparr>"
| step: "reachable w \<Longrightarrow> backend_step w w' \<Longrightarrow> reachable w'"

inductive_cases backend_stepE: "backend_step w w'"

lemma api_call_db_ok: "api_call sid ctx V cr req w = (res, w') \<Longrightarrow> db_ok (db w) \<Longrightarrow> db_ok (db w')"
  using preservesD [OF preserves_session [OF preserves_dispatch], of w V cr req]
  by (auto simp: api_call_def split: prod.splits sum.splits)

lemma backend_step_db_ok: "backend_step w w' \<Longrightarrow> db_ok (db w) \<Longrightarrow> db_ok (db w')"
proof (induction rule: backend_step.induct)
  case (request sid ctx V cr req w res w')
  then show ?case by (rule api_call_db_ok)
next
  case (sweep W w r w')
  have "keeps_db_ok (run_worker W)"
    unfolding run_worker_def by (intro preserves_session pres)
  from preservesD [OF this] sweep show ?case by blast
next
  case (promo p w q t)
  then show ?case
    using preservesD [OF preserves_repo_add, of promo_conflict "promo_codes (db w)" p] by (auto simp: db_ok_def)
qed simp

lemma empty_db_ok: "db_ok empty_db"
  by (simp add: db_ok_def empty_db_def table_ok_def profiles_ok_def table_unique_def empty_table_def wf_table_def)

text \<open>C3: In every state the backend reaches from an empty database - whatever requests come, with whatever
  credentials and bodies, whatever sweeps run, whatever promo codes are entered and whatever the agents
  answer - identifiers are unique and below the next one, every unique constraint of every table holds, and each
  device has at most one current profile. So the hypotheses of the other theorems on tables are met there.\<close>

theorem reachable_db_ok:
  assumes "reachable w"
  shows "db_ok (db w) \<and> owned_tables_ok (db w) \<and> delivery_ok (db w)"
proof -
  have "db_ok (db w)"
    using assms by induction (auto simp: empty_db_ok intro: backend_step_db_ok)
  then show ?thesis
    by (simp add: db_ok_def owned_tables_ok_def delivery_ok_def table_ok_def profiles_ok_def one_current_def)
qed

section \<open>The audit log only grows\<close>

definition logged :: "audit_log list \<Rightarrow> database \<Rightarrow> bool" where
  "logged ls d \<longleftrightarrow> prefix ls (rows (audit_logs d))"

lemma logged_kept: "keeps audit_logs m \<Longrightarrow> preserves (logged ls) m"
  by (simp add: keeps_def preserves_def logged_def)

lemma logged_kept_app: "keeps (\<lambda>w. audit_logs (db w)) m \<Longrightarrow> preserves (\<lambda>w. logged ls (db w)) m"
  by (simp add: keeps_def preserves_def logged_def)

lemma logged_record: "preserves (logged ls) (audit_record now admin act tt i meta)"
  unfolding audit_record_def on_audit_logs_def
  by (rule preserves_zoom [of "\<lambda>t. prefix ls (rows t)"])
    (auto simp: preserves_def logged_def repo_add_def Let_def prefix_append)

lemma logged_audited: "preserves (logged ls) (audited V a act tt i meta)"
  unfolding audited_def by (intro pres logged_record)

lemma logged_admin: "preserves (logged ls) (serve_admin V a r)"
proof -
  note defs = serve_admin.simps list_users_def get_user_def list_all_payments_endpoint_def list_all_tickets_endpoint_def
    list_audit_logs_def update_user_status_def create_plan_endpoint_def update_plan_endpoint_def
    create_server_endpoint_def update_server_endpoint_def delete_server_endpoint_def create_vless_server_endpoint_def
    update_vless_server_endpoint_def delete_vless_server_endpoint_def create_category_endpoint_def refund_payment_def
    admin_reply_def close_ticket_endpoint_def add_rule_endpoint_def
  note pieces = keeps_audit_logs [THEN logged_kept] keeps_reads [THEN logged_kept]
  show ?thesis
    by (cases r; simp only: defs; intro preserves_answer preserves_bind logged_audited pieces preserves_return
        preserves_get preserves_require)
qed

lemma keeps_public_audit: "keeps audit_logs (serve_public V cr r)"
proof -
  have lift: "keeps audit_logs (liftE r)" for r :: "exn + webhook_event"
    by (rule keepsI) (simp add: liftE_def)
  have event: "keeps audit_logs (case st of IntentSucceeded \<Rightarrow> a | IntentFailed \<Rightarrow> b | IntentPending \<Rightarrow> c)"
    if "keeps audit_logs a" "keeps audit_logs b" "keeps audit_logs c" for st and a b c :: "payment dbM"
    using that by (cases st) simp_all
  have promo: "keeps audit_logs (modifyM (\<lambda>d. d\<lparr>promo_codes := f (promo_codes d)\<rparr>))" for f
    by (rule keeps_modify) simp
  have redeemed: "keeps audit_logs (on_promo_redemptions m)" for m :: "(promo_redemption table, exn, promo_redemption) comp"
    unfolding on_promo_redemptions_def by (rule keeps_zoom) simp
  have servers: "keeps audit_logs list_vless_servers"
    unfolding list_vless_servers_def by (intro frame)
  have sub: "keeps audit_logs (update_subscription i f)" for i f
    unfolding update_subscription_def by (intro frame) simp
  show ?thesis
    by (cases r; simp only: serve_public.simps authenticate_telegram_user_def require_internal_service_def
        get_or_create_from_telegram_def get_by_telegram_id_def admin_login_def authenticate_def get_by_email_def
        admin_bootstrap_def bootstrap_first_admin_def create_admin_def payment_webhook_def handle_webhook_def
        get_by_provider_external_id_def set_payment_status_def activate_def redeem_promo_def
        get_subscription_content_def deliver_def authorize_def resolve_token_def get_by_token_hash_def record_access_def
        deliver_vless_def delivery_items_def Let_def;
      (intro event lift promo redeemed servers sub frame; simp)?)
qed

lemma logged_dispatch: "preserves (\<lambda>w. logged ls (db w)) (dispatch V cr req)"
proof -
  have user: "preserves (\<lambda>w. logged ls (db w)) (serve_user V u r)" for u r
    using serve_user_keeps(1) [of V u r] by (intro logged_kept_app) (simp add: keeps_def shared_part_def)
  have asks: "preserves (logged ls) (get_current_user cfg t tid)" "preserves (logged ls) (get_current_admin k cfg now hdr)"
    for cfg t tid k now hdr
    by (intro logged_kept frame)+
  show ?thesis
    unfolding dispatch_def validated_def require_admin_role_def
    by (cases req; simp only: api_request.case;
      intro user asks logged_admin keeps_public_audit [THEN logged_kept] preserves_on_db preserves_bind preserves_if
        preserves_raise preserves_return)
qed

lemma logged_session: "preserves (\<lambda>w. logged ls (db w)) m \<Longrightarrow> preserves (\<lambda>w. logged ls (db w)) (with_session m)"
  by (auto simp: preserves_def with_session_def split: prod.split sum.split)

lemma logged_call: "api_call sid ctx V cr req w = (res, w') \<Longrightarrow> logged ls (db w) \<Longrightarrow> logged ls (db w')"
  using preservesD [OF logged_session [OF logged_dispatch], of ls w V cr req]
  by (auto simp: api_call_def split: prod.splits sum.splits)

lemma logged_sweep: "preserves (\<lambda>w. logged ls (db w)) (run_worker W)"
proof -
  have off: "keeps (\<lambda>w. audit_logs (db w)) (disable_all_for_user E uid)" for E uid
    by (rule keeps_disable_all) simp_all
  have expire: "keeps audit_logs (expire_subscription s)" for s
    unfolding expire_subscription_def update_subscription_def Let_def by (intro frame) simp
  show ?thesis
    unfolding run_worker_def run_once_def sweep_one_def process_one_def expiry_log_def
    by (intro logged_session preserves_bind preserves_mapM preserves_on_db preserves_on_remote logged_record preserves_get
        preserves_return preserves_require plan_of_keeps [THEN logged_kept] expire [THEN logged_kept] off [THEN logged_kept_app])
qed

lemma backend_step_logged: "backend_step w w' \<Longrightarrow> logged ls (db w) \<Longrightarrow> logged ls (db w')"
  by (elim backend_stepE) (auto simp: logged_def dest: logged_call [unfolded logged_def] preservesD [OF logged_sweep, unfolded logged_def])

text \<open>C5: Whatever happens, no entry of the audit log is ever changed or removed: the log of every later state
  of the backend begins with the log of the earlier one.\<close>

theorem audit_log_only_grows:
  assumes "backend_step\<^sup>*\<^sup>* w w'"
  shows "prefix (rows (audit_logs (db w))) (rows (audit_logs (db w')))"
proof -
  have "logged ls (db w) \<Longrightarrow> logged ls (db w')" for ls
    using assms by (induction rule: rtranclp_induct) (auto intro: backend_step_logged)
  then show ?thesis by (simp add: logged_def)
qed

section \<open>Examples\<close>

text \<open>A user signs in for the first time; a supporter blocks a user.\<close>

definition demo_signed_in :: "string list world" where
  "demo_signed_in =
     snd (api_call None '''' demo_api demo_bot (ByAnyone (AuthenticateTelegram demo_auth)) \<lparr>db = empty_db, remote = []\<rparr>)"

definition demo_blocked :: "string list world" where
  "demo_blocked =
     snd (api_call None '''' demo_api demo_bot (ByAdmin (UpdateUserStatus 1 UserBlocked)) (demo_api_world SUPPORT))"

lemma reachable_db_ok_witness:
  "map telegram_id (rows (users (db demo_signed_in))) = [77] \<and> db_ok (db demo_signed_in)"
proof -
  obtain res where "api_call None '''' demo_api demo_bot (ByAnyone (AuthenticateTelegram demo_auth))
      \<lparr>db = empty_db, remote = []\<rparr> = (res, demo_signed_in)"
    unfolding demo_signed_in_def by (metis prod.collapse)
  then have "reachable demo_signed_in"
    by (rule reachable.step [OF reachable.start backend_step.request])
  moreover have "map telegram_id (rows (users (db demo_signed_in))) = [77]"
    by code_simp
  ultimately show ?thesis
    using reachable_db_ok by blast
qed

lemma audit_log_only_grows_witness:
  "length (rows (audit_logs (db demo_blocked))) = 1 \<and>
   prefix (rows (audit_logs (db (demo_api_world SUPPORT)))) (rows (audit_logs (db demo_blocked)))"
proof -
  obtain res where "api_call None '''' demo_api demo_bot (ByAdmin (UpdateUserStatus 1 UserBlocked)) (demo_api_world SUPPORT) =
      (res, demo_blocked)"
    unfolding demo_blocked_def by (metis prod.collapse)
  then have "backend_step\<^sup>*\<^sup>* (demo_api_world SUPPORT) demo_blocked"
    by (intro r_into_rtranclp backend_step.request)
  moreover have "length (rows (audit_logs (db demo_blocked))) = 1"
    by code_simp
  ultimately show ?thesis
    using audit_log_only_grows by blast
qed

end
