(* ===== verification/Http.thy ===== *)
theory Http
  imports Reachable
begin

text \<open>
  The backend as an HTTP server: the routers of \<^verbatim>\<open>api/v1/\<close> with their paths and methods, in the order
  \<^verbatim>\<open>router.py\<close> includes them, the parsing of paths, headers and bodies into the requests of theory
  Endpoints, and the JSON of every response model. Starlette hands a request to the first route whose
  method and path match. Messages carry JSON values: their encoding as text is the business of the libraries
  at both ends. A body the bot never sends is parsed by the parameter \<^verbatim>\<open>st_parse\<close>.
\<close>

section \<open>Messages\<close>

datatype http_method = GET | POST | PUT | PATCH | DELETE

record http_call =
  hc_method :: http_method
  hc_path :: string
  hc_headers :: "(string \<times> string) list"
  hc_json :: "json option"

datatype content = NoContent | JsonContent json | TextContent string

record http_reply =
  hr_status :: nat
  hr_content :: content

section \<open>Values of the enumerations\<close>

fun subscription_status_value :: "subscription_status \<Rightarrow> string" where
  "subscription_status_value SubCreated = ''created''"
| "subscription_status_value SubPending = ''pending''"
| "subscription_status_value SubActive = ''active''"
| "subscription_status_value SubExpired = ''expired''"
| "subscription_status_value SubCancelled = ''cancelled''"

fun server_status_value :: "server_status \<Rightarrow> string" where
  "server_status_value SrvOnline = ''online''"
| "server_status_value SrvDegraded = ''degraded''"
| "server_status_value SrvOffline = ''offline''"
| "server_status_value SrvMaintenance = ''maintenance''"

fun link_status_value :: "link_status \<Rightarrow> string" where
  "link_status_value LinkActive = ''active''"
| "link_status_value LinkRevoked = ''revoked''"

fun routing_mode_value :: "routing_mode \<Rightarrow> string" where
  "routing_mode_value FULL_VPN = ''full_vpn''"
| "routing_mode_value SMART_VPN = ''smart_vpn''"

definition parse_routing_mode :: "string \<Rightarrow> routing_mode option" where
  "parse_routing_mode s = (if s = ''full_vpn'' then Some FULL_VPN else if s = ''smart_vpn'' then Some SMART_VPN else None)"

fun route_type_value :: "route_type \<Rightarrow> string" where
  "route_type_value VPN = ''vpn''"
| "route_type_value DIRECT = ''direct''"

definition parse_route_type :: "string \<Rightarrow> route_type option" where
  "parse_route_type s = (if s = ''vpn'' then Some VPN else if s = ''direct'' then Some DIRECT else None)"

fun payment_status_value :: "payment_status \<Rightarrow> string" where
  "payment_status_value PayPending = ''pending''"
| "payment_status_value PaySucceeded = ''succeeded''"
| "payment_status_value PayFailed = ''failed''"
| "payment_status_value PayRefunded = ''refunded''"
| "payment_status_value PayCancelled = ''cancelled''"

fun ticket_status_value :: "ticket_status \<Rightarrow> string" where
  "ticket_status_value TicketOpen = ''open''"
| "ticket_status_value TicketPending = ''pending''"
| "ticket_status_value TicketClosed = ''closed''"

fun support_sender_value :: "support_sender \<Rightarrow> string" where
  "support_sender_value SenderUser = ''user''"
| "support_sender_value SenderAdmin = ''admin''"

lemma parse_enum_value [simp]:
  "parse_routing_mode (routing_mode_value m) = Some m"
  "parse_route_type (route_type_value r) = Some r"
  by (cases m; simp add: parse_routing_mode_def) (cases r; simp add: parse_route_type_def)

section \<open>The JSON of the responses\<close>

text \<open>How pydantic writes a date and a floating-point number.\<close>

record wire =
  wr_iso :: "instant \<Rightarrow> string"
  wr_float :: "rat \<Rightarrow> json"

definition jopt :: "('a \<Rightarrow> json) \<Rightarrow> 'a option \<Rightarrow> json" where
  "jopt f x = (case x of None \<Rightarrow> JNull | Some v \<Rightarrow> f v)"

abbreviation jdate :: "wire \<Rightarrow> instant \<Rightarrow> json" where
  "jdate W t \<equiv> JStr (wr_iso W t)"

definition user_json :: "wire \<Rightarrow> user_read \<Rightarrow> json" where
  "user_json W u = JObj [(''id'', JInt (urd_id u)), (''telegram_id'', JInt (urd_telegram_id u)),
     (''username'', jopt JStr (urd_username u)), (''first_name'', jopt JStr (urd_first_name u)),
     (''last_name'', jopt JStr (urd_last_name u)), (''status'', JStr (user_status_value (urd_status u))),
     (''created_at'', jdate W (urd_created_at u))]"

definition plan_json :: "plan_read \<Rightarrow> json" where
  "plan_json p = JObj [(''id'', JInt (prd_id p)), (''name'', JStr (prd_name p)), (''slug'', JStr (prd_slug p)),
     (''price'', JStr (amount_str (prd_price p))), (''currency'', JStr (prd_currency p)),
     (''duration_days'', JInt (prd_duration_days p)), (''max_devices'', JInt (prd_max_devices p)),
     (''max_speed_mbps'', jopt JInt (prd_max_speed_mbps p)), (''active'', JBool (prd_active p))]"

definition subscription_json :: "wire \<Rightarrow> subscription_read \<Rightarrow> json" where
  "subscription_json W s = JObj [(''id'', JInt (srd_id s)), (''user_id'', JInt (srd_user_id s)),
     (''plan'', plan_json (srd_plan s)), (''status'', JStr (subscription_status_value (srd_status s))),
     (''started_at'', jopt (jdate W) (srd_started_at s)), (''expires_at'', jopt (jdate W) (srd_expires_at s)),
     (''auto_renew'', JBool (srd_auto_renew s))]"

definition payment_json :: "payment_read \<Rightarrow> json" where
  "payment_json p = JObj [(''id'', JInt (pyr_id p)), (''user_id'', JInt (pyr_user_id p)),
     (''plan_id'', JInt (pyr_plan_id p)), (''provider'', JStr (pyr_provider p)),
     (''amount'', JStr (amount_str (pyr_amount p))), (''currency'', JStr (pyr_currency p)),
     (''status'', JStr (payment_status_value (pyr_status p)))]"

definition payment_created_json :: "payment_created \<Rightarrow> json" where
  "payment_created_json p = JObj [(''payment_id'', JInt (pyc_payment_id p)),
     (''checkout_url'', jopt JStr (pyc_checkout_url p)), (''status'', JStr (payment_status_value (pyc_status p)))]"

definition device_json :: "wire \<Rightarrow> device_read \<Rightarrow> json" where
  "device_json W v = JObj [(''id'', JInt (drd_id v)), (''name'', JStr (drd_name v)),
     (''status'', JStr (device_status_value (drd_status v))), (''protocol'', JStr (protocol_value (drd_protocol v))),
     (''public_key'', jopt JStr (drd_public_key v)), (''assigned_ip'', jopt JStr (drd_assigned_ip v)),
     (''server_id'', jopt JInt (drd_server_id v)), (''created_at'', jdate W (drd_created_at v)),
     (''last_seen'', jopt (jdate W) (drd_last_seen v))]"

definition provisioning_json :: "wire \<Rightarrow> provisioning_read \<Rightarrow> json" where
  "provisioning_json W r = JObj [(''device'', device_json W (pvr_device r)),
     (''config_text'', jopt JStr (pvr_config_text r)), (''qr_code_base64'', jopt JStr (pvr_qr_code r)),
     (''subscription_url'', jopt JStr (pvr_subscription_url r)),
     (''subscription_qr_code_base64'', jopt JStr (pvr_subscription_qr_code r))]"

definition link_json :: "wire \<Rightarrow> link_read \<Rightarrow> json" where
  "link_json W l = JObj [(''device_id'', JInt (lrd_device_id l)), (''status'', JStr (link_status_value (lrd_status l))),
     (''token_prefix'', JStr (lrd_token_prefix l)), (''created_at'', jdate W (lrd_created_at l)),
     (''rotated_at'', jopt (jdate W) (lrd_rotated_at l)), (''revoked_at'', jopt (jdate W) (lrd_revoked_at l)),
     (''last_accessed_at'', jopt (jdate W) (lrd_last_accessed_at l))]"

definition link_created_json :: "wire \<Rightarrow> link_created \<Rightarrow> json" where
  "link_created_json W l = JObj [(''link'', link_json W (lcr_link l)),
     (''subscription_url'', JStr (lcr_subscription_url l)), (''qr_code_base64'', JStr (lcr_qr_code l))]"

definition profile_json :: "profile_read \<Rightarrow> json" where
  "profile_json p = JObj [(''device_id'', JInt (pfr_device_id p)), (''mode'', JStr (routing_mode_value (pfr_mode p))),
     (''allowed_ips'', JList (map JStr (pfr_allowed_ips p))), (''dns'', JList (map JStr (pfr_dns p))),
     (''version'', JInt (pfr_version p))]"

definition server_json :: "server_read \<Rightarrow> json" where
  "server_json s = JObj [(''id'', JInt (svr_id s)), (''name'', JStr (svr_name s)), (''country'', JStr (svr_country s)),
     (''city'', jopt JStr (svr_city s)), (''hostname'', JStr (svr_hostname s)), (''endpoint'', JStr (svr_endpoint s)),
     (''status'', JStr (server_status_value (svr_status s))), (''capacity'', JInt (svr_capacity s)),
     (''current_load'', JInt (svr_current_load s))]"

definition vless_server_json :: "vless_server_read \<Rightarrow> json" where
  "vless_server_json s = JObj [(''id'', JInt (vsr_id s)), (''name'', JStr (vsr_name s)), (''country'', JStr (vsr_country s)),
     (''city'', jopt JStr (vsr_city s)), (''hostname'', JStr (vsr_hostname s)),
     (''status'', JStr (server_status_value (vsr_status s))), (''capacity'', JInt (vsr_capacity s)),
     (''current_load'', JInt (vsr_current_load s)), (''xray_agent_base_url'', JStr (vsr_xray_agent_base_url s)),
     (''port'', JInt (vsr_port s)), (''reality_public_key'', JStr (vsr_reality_public_key s)),
     (''reality_short_ids'', JList (map JStr (vsr_reality_short_ids s))), (''sni'', JStr (vsr_sni s)),
     (''fingerprint'', JStr (vsr_fingerprint s)), (''flow'', JStr (vsr_flow s)),
     (''network_type'', JStr (vsr_network_type s))]"

definition category_json :: "category_read \<Rightarrow> json" where
  "category_json c = JObj [(''id'', JInt (ctr_id c)), (''name'', JStr (ctr_name c)),
     (''description'', jopt JStr (ctr_description c)), (''enabled'', JBool (ctr_enabled c))]"

definition rule_json :: "rule_read \<Rightarrow> json" where
  "rule_json r = JObj [(''id'', JInt (rrd_id r)), (''category_id'', JInt (rrd_category_id r)),
     (''domain'', JStr (rrd_domain r)), (''route_type'', JStr (route_type_value (rrd_route_type r))),
     (''enabled'', JBool (rrd_enabled r))]"

definition routing_settings_json :: "routing_settings_read \<Rightarrow> json" where
  "routing_settings_json r = JObj [(''mode'', JStr (routing_mode_value (rsr_mode r))),
     (''categories'', JList (map category_json (rsr_categories r))),
     (''enabled_category_ids'', JList (map JInt (rsr_enabled_category_ids r))),
     (''custom_domains'', JList (map JStr (rsr_custom_domains r)))]"

definition message_json :: "wire \<Rightarrow> message_read \<Rightarrow> json" where
  "message_json W m = JObj [(''id'', JInt (mrd_id m)), (''sender'', JStr (support_sender_value (mrd_sender m))),
     (''text'', JStr (mrd_text m)), (''created_at'', jdate W (mrd_created_at m))]"

definition ticket_json :: "wire \<Rightarrow> ticket_read \<Rightarrow> json" where
  "ticket_json W t = JObj [(''id'', JInt (trd_id t)), (''subject'', JStr (trd_subject t)),
     (''status'', JStr (ticket_status_value (trd_status t))), (''created_at'', jdate W (trd_created_at t)),
     (''messages'', JList (map (message_json W) (trd_messages t)))]"

definition audit_json :: "wire \<Rightarrow> audit_read \<Rightarrow> json" where
  "audit_json W l = JObj [(''id'', JInt (adr_id l)), (''admin_id'', jopt JInt (adr_admin_id l)),
     (''action'', JStr (adr_action l)), (''target_type'', JStr (adr_target_type l)),
     (''target_id'', jopt JStr (adr_target_id l)), (''metadata_json'', adr_metadata l),
     (''created_at'', jdate W (adr_created_at l))]"

definition dashboard_json :: "wire \<Rightarrow> dashboard_counts \<Rightarrow> json" where
  "dashboard_json W c = JObj [(''total_users'', JInt (total_users c)),
     (''active_subscriptions'', JInt (active_subscriptions c)), (''active_devices'', JInt (active_devices c)),
     (''online_servers'', JInt (online_servers c)), (''online_peers'', JInt (online_peers c)),
     (''revenue_last_30d'', wr_float W (revenue_last_30d c)), (''open_support_tickets'', JInt (open_support_tickets c))]"

definition token_json :: "token_read \<Rightarrow> json" where
  "token_json t = JObj [(''access_token'', JStr (tkr_access_token t)), (''token_type'', JStr (tkr_token_type t))]"

fun body_content :: "wire \<Rightarrow> api_body \<Rightarrow> content" where
  "body_content W (UserRead u) = JsonContent (user_json W u)"
| "body_content W (UsersRead us) = JsonContent (JList (map (user_json W) us))"
| "body_content W (PlanRead p) = JsonContent (plan_json p)"
| "body_content W (PlansRead ps) = JsonContent (JList (map plan_json ps))"
| "body_content W (SubscriptionRead s) = JsonContent (jopt (subscription_json W) s)"
| "body_content W (SubscriptionsRead ss) = JsonContent (JList (map (subscription_json W) ss))"
| "body_content W (DeviceRead v) = JsonContent (device_json W v)"
| "body_content W (DevicesRead vs) = JsonContent (JList (map (device_json W) vs))"
| "body_content W (ProvisioningRead r) = JsonContent (provisioning_json W r)"
| "body_content W (LinkRead l) = JsonContent (link_json W l)"
| "body_content W (LinkCreated l) = JsonContent (link_created_json W l)"
| "body_content W (ProfileRead p) = JsonContent (profile_json p)"
| "body_content W (RoutingSettingsRead r) = JsonContent (routing_settings_json r)"
| "body_content W (CategoryRead c) = JsonContent (category_json c)"
| "body_content W (CategoriesRead cs) = JsonContent (JList (map category_json cs))"
| "body_content W (RuleRead r) = JsonContent (rule_json r)"
| "body_content W (ServerRead s) = JsonContent (server_json s)"
| "body_content W (ServersRead ss) = JsonContent (JList (map server_json ss))"
| "body_content W (VlessServerRead s) = JsonContent (vless_server_json s)"
| "body_content W (VlessServersRead ss) = JsonContent (JList (map vless_server_json ss))"
| "body_content W (PaymentRead p) = JsonContent (payment_json p)"
| "body_content W (PaymentsRead ps) = JsonContent (JList (map payment_json ps))"
| "body_content W (PaymentCreated p) = JsonContent (payment_created_json p)"
| "body_content W WebhookAck = JsonContent (JObj [(''received'', JBool True)])"
| "body_content W (TicketRead t) = JsonContent (ticket_json W t)"
| "body_content W (TicketsRead ts) = JsonContent (JList (map (ticket_json W) ts))"
| "body_content W (MessageRead m) = JsonContent (message_json W m)"
| "body_content W (AuditRead ls) = JsonContent (JList (map (audit_json W) ls))"
| "body_content W (DashboardRead c) = JsonContent (dashboard_json W c)"
| "body_content W (TokenRead t) = JsonContent (token_json t)"
| "body_content W NoBody = NoContent"
| "body_content W (RawContent s ctype) = (if s = '''' then NoContent else TextContent s)"

text \<open>\<^verbatim>\<open>_error_body\<close> of \<^verbatim>\<open>core/errors.py\<close>\<close>

definition error_json :: "error_body \<Rightarrow> json" where
  "error_json b = JObj [(''error'', JObj [(''code'', JStr (err_code b)), (''message'', JStr (err_message b)),
     (''details'', jopt JStr (err_details b)), (''request_id'', JStr (err_request_id b))])]"

section \<open>The routes\<close>

datatype endpoint =
    EpAuthTelegram | EpAdminLogin | EpAdminBootstrap
  | EpMyProfile | EpListUsers | EpGetUser | EpUpdateUserStatus
  | EpListPlans | EpGetPlan | EpCreatePlan | EpUpdatePlan
  | EpMySubscriptions | EpMyActiveSubscription | EpCancelSubscription
  | EpListDevices | EpCreateDevice | EpReissueDevice | EpDisableDevice | EpEnableDevice | EpRevokeDevice
  | EpCreateLink | EpGetLink | EpRevokeLink
  | EpDeviceProfile | EpRefreshProfile
  | EpListServers | EpCreateServer | EpUpdateServer | EpDeleteServer
  | EpListVless | EpCreateVless | EpUpdateVless | EpDeleteVless
  | EpListCategories | EpCreateCategory | EpAddRule | EpMyRouting | EpSetMode | EpSetCategory | EpAddDomain
  | EpCreatePayment | EpMyPayments | EpAllPayments | EpWebhook | EpRefund
  | EpCreateTicket | EpMyTickets | EpAllTickets | EpGetTicket | EpAddMessage | EpAdminReply | EpCloseTicket
  | EpDashboard | EpAuditLogs

datatype segment = Lit string | Par

type_synonym route = "http_method \<times> segment list \<times> endpoint"

definition account_routes :: "route list" where
  "account_routes =
    [(POST, [Lit ''auth'', Lit ''telegram''], EpAuthTelegram),
     (POST, [Lit ''auth'', Lit ''admin'', Lit ''login''], EpAdminLogin),
     (POST, [Lit ''auth'', Lit ''admin'', Lit ''bootstrap''], EpAdminBootstrap),
     (GET, [Lit ''users'', Lit ''me''], EpMyProfile),
     (GET, [Lit ''users''], EpListUsers),
     (GET, [Lit ''users'', Par], EpGetUser),
     (PATCH, [Lit ''users'', Par, Lit ''status''], EpUpdateUserStatus)]"

definition sales_routes :: "route list" where
  "sales_routes =
    [(GET, [Lit ''plans''], EpListPlans),
     (GET, [Lit ''plans'', Par], EpGetPlan),
     (POST, [Lit ''plans''], EpCreatePlan),
     (PATCH, [Lit ''plans'', Par], EpUpdatePlan),
     (GET, [Lit ''subscriptions'', Lit ''me''], EpMySubscriptions),
     (GET, [Lit ''subscriptions'', Lit ''me'', Lit ''active''], EpMyActiveSubscription),
     (POST, [Lit ''subscriptions'', Par, Lit ''cancel''], EpCancelSubscription)]"

definition device_routes :: "route list" where
  "device_routes =
    [(GET, [Lit ''devices''], EpListDevices),
     (POST, [Lit ''devices''], EpCreateDevice),
     (POST, [Lit ''devices'', Par, Lit ''reissue''], EpReissueDevice),
     (POST, [Lit ''devices'', Par, Lit ''disable''], EpDisableDevice),
     (POST, [Lit ''devices'', Par, Lit ''enable''], EpEnableDevice),
     (DELETE, [Lit ''devices'', Par], EpRevokeDevice),
     (POST, [Lit ''devices'', Par, Lit ''subscription-link''], EpCreateLink),
     (GET, [Lit ''devices'', Par, Lit ''subscription-link''], EpGetLink),
     (DELETE, [Lit ''devices'', Par, Lit ''subscription-link''], EpRevokeLink),
     (GET, [Lit ''vpn'', Lit ''devices'', Par, Lit ''profile''], EpDeviceProfile),
     (POST, [Lit ''vpn'', Lit ''devices'', Par, Lit ''profile'', Lit ''refresh''], EpRefreshProfile)]"

definition server_routes :: "route list" where
  "server_routes =
    [(GET, [Lit ''servers''], EpListServers),
     (POST, [Lit ''servers''], EpCreateServer),
     (PATCH, [Lit ''servers'', Par], EpUpdateServer),
     (DELETE, [Lit ''servers'', Par], EpDeleteServer),
     (GET, [Lit ''vless-servers''], EpListVless),
     (POST, [Lit ''vless-servers''], EpCreateVless),
     (PATCH, [Lit ''vless-servers'', Par], EpUpdateVless),
     (DELETE, [Lit ''vless-servers'', Par], EpDeleteVless)]"

definition routing_routes :: "route list" where
  "routing_routes =
    [(GET, [Lit ''routing'', Lit ''categories''], EpListCategories),
     (POST, [Lit ''routing'', Lit ''categories''], EpCreateCategory),
     (POST, [Lit ''routing'', Lit ''rules''], EpAddRule),
     (GET, [Lit ''routing'', Lit ''me'', Lit ''settings''], EpMyRouting),
     (PUT, [Lit ''routing'', Lit ''me'', Lit ''mode''], EpSetMode),
     (PUT, [Lit ''routing'', Lit ''me'', Lit ''categories''], EpSetCategory),
     (POST, [Lit ''routing'', Lit ''me'', Lit ''domains''], EpAddDomain)]"

definition payment_routes :: "route list" where
  "payment_routes =
    [(POST, [Lit ''payments''], EpCreatePayment),
     (GET, [Lit ''payments'', Lit ''me''], EpMyPayments),
     (GET, [Lit ''payments''], EpAllPayments),
     (POST, [Lit ''payments'', Lit ''webhook''], EpWebhook),
     (POST, [Lit ''payments'', Par, Lit ''refund''], EpRefund)]"

definition support_routes :: "route list" where
  "support_routes =
    [(POST, [Lit ''support''], EpCreateTicket),
     (GET, [Lit ''support'', Lit ''me''], EpMyTickets),
     (GET, [Lit ''support''], EpAllTickets),
     (GET, [Lit ''support'', Par], EpGetTicket),
     (POST, [Lit ''support'', Par, Lit ''messages''], EpAddMessage),
     (POST, [Lit ''support'', Par, Lit ''reply''], EpAdminReply),
     (POST, [Lit ''support'', Par, Lit ''close''], EpCloseTicket),
     (GET, [Lit ''admin'', Lit ''dashboard''], EpDashboard),
     (GET, [Lit ''admin'', Lit ''audit-logs''], EpAuditLogs)]"

definition api_router :: "route list" where
  "api_router = account_routes @ sales_routes @ device_routes @ server_routes @ routing_routes @
     payment_routes @ support_routes"

lemmas route_defs = api_router_def account_routes_def sales_routes_def device_routes_def server_routes_def
  routing_routes_def payment_routes_def support_routes_def

text \<open>A path parameter takes one nonempty segment.\<close>

fun match_segments :: "segment list \<Rightarrow> string list \<Rightarrow> string list option" where
  "match_segments [] [] = Some []"
| "match_segments (Lit l # ts) (s # ss) = (if l = s then match_segments ts ss else None)"
| "match_segments (Par # ts) (s # ss) = (if s = '''' then None else map_option ((#) s) (match_segments ts ss))"
| "match_segments _ _ = None"

fun first_route :: "route list \<Rightarrow> http_method \<Rightarrow> string list \<Rightarrow> (endpoint \<times> string list) option" where
  "first_route [] m ss = None"
| "first_route ((m', ts, e) # rs) m ss =
     (if m' = m then case match_segments ts ss of Some caps \<Rightarrow> Some (e, caps) | None \<Rightarrow> first_route rs m ss
      else first_route rs m ss)"

fun any_method :: "route list \<Rightarrow> string list \<Rightarrow> bool" where
  "any_method [] ss = False"
| "any_method ((m, ts, e) # rs) ss = (match_segments ts ss \<noteq> None \<or> any_method rs ss)"

definition api_segments :: "string \<Rightarrow> string list option" where
  "api_segments path =
     (case split_on CHR ''/'' path of p # q # r # ss \<Rightarrow> if [p, q, r] = ['''', ''api'', ''v1''] then Some ss else None
      | _ \<Rightarrow> None)"

section \<open>Parsing requests\<close>

definition str_in :: "json option \<Rightarrow> string \<Rightarrow> string option" where
  "str_in body k = (case Option.bind body (jget k) of Some (JStr s) \<Rightarrow> Some s | _ \<Rightarrow> None)"

definition int_in :: "json option \<Rightarrow> string \<Rightarrow> int option" where
  "int_in body k = (case Option.bind body (jget k) of Some (JInt i) \<Rightarrow> Some i | _ \<Rightarrow> None)"

definition bool_in :: "json option \<Rightarrow> string \<Rightarrow> bool option" where
  "bool_in body k = (case Option.bind body (jget k) of Some (JBool b) \<Rightarrow> Some b | _ \<Rightarrow> None)"

text \<open>A field declared \<^verbatim>\<open>T | None = None\<close>: absent and null give \<^verbatim>\<open>None\<close>.\<close>

definition opt_str_in :: "json option \<Rightarrow> string \<Rightarrow> string option option" where
  "opt_str_in body k = (case Option.bind body (jget k) of
       None \<Rightarrow> Some None | Some JNull \<Rightarrow> Some None | Some (JStr s) \<Rightarrow> Some (Some s) | _ \<Rightarrow> None)"

definition opt_int_in :: "json option \<Rightarrow> string \<Rightarrow> int option option" where
  "opt_int_in body k = (case Option.bind body (jget k) of
       None \<Rightarrow> Some None | Some JNull \<Rightarrow> Some None | Some (JInt i) \<Rightarrow> Some (Some i) | _ \<Rightarrow> None)"

text \<open>A field of an enumeration with a default.\<close>

definition enum_in :: "(string \<Rightarrow> 'e option) \<Rightarrow> 'e \<Rightarrow> json option \<Rightarrow> string \<Rightarrow> 'e option" where
  "enum_in parse dflt body k = (case Option.bind body (jget k) of
       None \<Rightarrow> Some dflt | Some (JStr s) \<Rightarrow> parse s | _ \<Rightarrow> None)"

definition path_int :: "string list \<Rightarrow> int option" where
  "path_int caps = (case caps of [s] \<Rightarrow> parse_int s | _ \<Rightarrow> None)"

definition parse_auth :: "json option \<Rightarrow> api_request option" where
  "parse_auth b =
     Option.bind (int_in b ''telegram_id'') (\<lambda>i.
     Option.bind (opt_str_in b ''username'') (\<lambda>u.
     Option.bind (opt_str_in b ''first_name'') (\<lambda>f.
     Option.bind (opt_str_in b ''last_name'') (\<lambda>l.
     Option.bind (opt_str_in b ''language_code'') (\<lambda>c.
       Some (ByAnyone (AuthenticateTelegram \<lparr>ta_telegram_id = i, ta_username = u, ta_first_name = f,
         ta_last_name = l, ta_language_code = c\<rparr>)))))))"

definition parse_create_device :: "json option \<Rightarrow> user_request option" where
  "parse_create_device b =
     Option.bind (str_in b ''name'') (\<lambda>n.
     Option.bind (opt_int_in b ''server_id'') (\<lambda>s.
     Option.bind (enum_in parse_protocol WIREGUARD b ''protocol'') (\<lambda>p.
       Some (CreateDevice n s p))))"

definition parse_create_payment :: "json option \<Rightarrow> user_request option" where
  "parse_create_payment b =
     Option.bind (int_in b ''plan_id'') (\<lambda>i.
     Option.bind (opt_str_in b ''promo_code'') (\<lambda>c. Some (CreatePayment i c)))"

definition parse_set_mode :: "json option \<Rightarrow> user_request option" where
  "parse_set_mode b = Option.bind (str_in b ''mode'') (\<lambda>s. map_option SetMyMode (parse_routing_mode s))"

definition parse_set_category :: "json option \<Rightarrow> user_request option" where
  "parse_set_category b =
     Option.bind (int_in b ''category_id'') (\<lambda>i. Option.bind (bool_in b ''enabled'') (\<lambda>e. Some (SetMyCategory i e)))"

definition parse_add_domain :: "json option \<Rightarrow> user_request option" where
  "parse_add_domain b =
     Option.bind (str_in b ''domain'') (\<lambda>d.
     Option.bind (enum_in parse_route_type VPN b ''route_type'') (\<lambda>r. Some (AddMyDomain d r)))"

definition parse_create_ticket :: "json option \<Rightarrow> user_request option" where
  "parse_create_ticket b =
     Option.bind (str_in b ''subject'') (\<lambda>s. Option.bind (str_in b ''message'') (\<lambda>m. Some (CreateTicket s m)))"

definition parse_add_message :: "string list \<Rightarrow> json option \<Rightarrow> user_request option" where
  "parse_add_message caps b = Option.bind (path_int caps) (\<lambda>i. map_option (AddTicketMessage i) (str_in b ''text''))"

fun user_request_of :: "endpoint \<Rightarrow> string list \<Rightarrow> json option \<Rightarrow> user_request option" where
  "user_request_of EpMyProfile caps b = Some GetMyProfile"
| "user_request_of EpMySubscriptions caps b = Some ListMySubscriptions"
| "user_request_of EpMyActiveSubscription caps b = Some GetMyActiveSubscription"
| "user_request_of EpCancelSubscription caps b = map_option CancelSubscription (path_int caps)"
| "user_request_of EpListDevices caps b = Some ListDevices"
| "user_request_of EpCreateDevice caps b = parse_create_device b"
| "user_request_of EpReissueDevice caps b = map_option ReissueDevice (path_int caps)"
| "user_request_of EpDisableDevice caps b = map_option DisableDevice (path_int caps)"
| "user_request_of EpEnableDevice caps b = map_option EnableDevice (path_int caps)"
| "user_request_of EpRevokeDevice caps b = map_option RevokeDevice (path_int caps)"
| "user_request_of EpCreateLink caps b = map_option CreateOrRotateLink (path_int caps)"
| "user_request_of EpGetLink caps b = map_option GetLink (path_int caps)"
| "user_request_of EpRevokeLink caps b = map_option RevokeLink (path_int caps)"
| "user_request_of EpDeviceProfile caps b = map_option GetDeviceProfile (path_int caps)"
| "user_request_of EpRefreshProfile caps b = map_option RefreshDeviceProfile (path_int caps)"
| "user_request_of EpMyRouting caps b = Some GetMyRouting"
| "user_request_of EpSetMode caps b = parse_set_mode b"
| "user_request_of EpSetCategory caps b = parse_set_category b"
| "user_request_of EpAddDomain caps b = parse_add_domain b"
| "user_request_of EpCreatePayment caps b = parse_create_payment b"
| "user_request_of EpMyPayments caps b = Some ListMyPayments"
| "user_request_of EpCreateTicket caps b = parse_create_ticket b"
| "user_request_of EpMyTickets caps b = Some ListMyTickets"
| "user_request_of EpGetTicket caps b = map_option GetTicket (path_int caps)"
| "user_request_of EpAddMessage caps b = parse_add_message caps b"
| "user_request_of _ caps b = None"

text \<open>Who guards an endpoint. The others are open, or open to administrators.\<close>

definition user_endpoints :: "endpoint list" where
  "user_endpoints =
     [EpMyProfile, EpMySubscriptions, EpMyActiveSubscription, EpCancelSubscription, EpListDevices, EpCreateDevice,
      EpReissueDevice, EpDisableDevice, EpEnableDevice, EpRevokeDevice, EpCreateLink, EpGetLink, EpRevokeLink,
      EpDeviceProfile, EpRefreshProfile, EpMyRouting, EpSetMode, EpSetCategory, EpAddDomain, EpCreatePayment,
      EpMyPayments, EpCreateTicket, EpMyTickets, EpGetTicket, EpAddMessage]"

definition parse_request ::
  "(endpoint \<Rightarrow> string list \<Rightarrow> json option \<Rightarrow> api_request option) \<Rightarrow> endpoint \<Rightarrow> string list \<Rightarrow> json option \<Rightarrow> api_request option" where
  "parse_request other e caps b =
     (if e \<in> set user_endpoints then map_option ByUser (user_request_of e caps b)
      else if e = EpAuthTelegram then parse_auth b
      else if e = EpListPlans then Some (ByAnyone ListPlans)
      else if e = EpListServers then Some (ByAnyone ListServers)
      else other e caps b)"

section \<open>Serving\<close>

text \<open>
  The environment of the backend over a sequence of requests: what each of them finds (clock, randomness),
  when slowapi refuses it, and when the connection to the client breaks.
\<close>

datatype fault = Connected | RequestLost string | ReplyLost string

record 'w site =
  st_api :: "nat \<Rightarrow> 'w api_env"
  st_request_id :: "nat \<Rightarrow> string option"
  st_context_id :: string
  st_wire :: wire
  st_parse :: "endpoint \<Rightarrow> string list \<Rightarrow> json option \<Rightarrow> api_request option"
  st_limited :: "nat \<Rightarrow> string option"
  st_fault :: "nat \<Rightarrow> fault"

record 'w deployed =
  dp_world :: "'w world"
  dp_calls :: nat

definition header_of :: "(string \<times> string) list \<Rightarrow> string \<Rightarrow> string option" where
  "header_of hs name = map_option snd (find (\<lambda>(k, v). lower k = lower name) hs)"

definition credentials_of :: "(string \<times> string) list \<Rightarrow> credentials" where
  "credentials_of hs = \<lparr>x_internal_token = header_of hs ''X-Internal-Token'',
     x_telegram_user_id = Option.bind (header_of hs ''X-Telegram-User-Id'') parse_int,
     authorization = header_of hs ''Authorization''\<rparr>"

definition bad_user_header :: "(string \<times> string) list \<Rightarrow> bool" where
  "bad_user_header hs = (header_of hs ''X-Telegram-User-Id'' \<noteq> None \<and> x_telegram_user_id (credentials_of hs) = None)"

fun endpoint_roles :: "endpoint \<Rightarrow> admin_role list option" where
  "endpoint_roles EpListUsers = Some any_admin"
| "endpoint_roles EpGetUser = Some any_admin"
| "endpoint_roles EpUpdateUserStatus = Some [SUPERADMIN, SUPPORT]"
| "endpoint_roles EpAllPayments = Some any_admin"
| "endpoint_roles EpAllTickets = Some [SUPERADMIN, SUPPORT]"
| "endpoint_roles EpAdminReply = Some [SUPERADMIN, SUPPORT]"
| "endpoint_roles EpCloseTicket = Some [SUPERADMIN, SUPPORT]"
| "endpoint_roles EpDashboard = Some any_admin"
| "endpoint_roles EpAuditLogs = Some any_admin"
| "endpoint_roles e = (if e \<in> {EpCreatePlan, EpUpdatePlan, EpCreateServer, EpUpdateServer, EpDeleteServer, EpCreateVless,
       EpUpdateVless, EpDeleteVless, EpCreateCategory, EpAddRule, EpRefund} then Some [SUPERADMIN] else None)"

text \<open>A request whose parameters or body do not parse is refused once the guards of its route have passed.\<close>

definition refuse_unparsed :: "'w api_env \<Rightarrow> (string \<times> string) list \<Rightarrow> endpoint \<Rightarrow> ('w, api_body) app" where
  "refuse_unparsed V hs e =
     (let cr = credentials_of hs; invalid = raiseM (PyError ''RequestValidationError'') in
      if e \<in> set user_endpoints then
        (if bad_user_header hs
         then bindM (on_db (require_internal_service (ae_settings V) (x_internal_token cr))) (\<lambda>_. invalid)
         else bindM (on_db (get_current_user (ae_settings V) (x_internal_token cr) (x_telegram_user_id cr))) (\<lambda>_. invalid))
      else if e = EpAuthTelegram
        then bindM (on_db (require_internal_service (ae_settings V) (x_internal_token cr))) (\<lambda>_. invalid)
      else case endpoint_roles e of
          None \<Rightarrow> invalid
        | Some roles \<Rightarrow>
            bindM (on_db (get_current_admin (ae_crypto V) (ae_settings V) (ae_now V) (authorization cr))) (\<lambda>a.
            bindM (require_admin_role roles a) (\<lambda>_. invalid)))"

definition parsed_call :: "'w site \<Rightarrow> http_call \<Rightarrow> endpoint \<Rightarrow> string list \<Rightarrow> api_request option" where
  "parsed_call S c e caps =
     (if e \<in> set user_endpoints \<and> bad_user_header (hc_headers c) then None
      else parse_request (st_parse S) e caps (hc_json c))"

definition endpoint_call ::
  "'w site \<Rightarrow> nat \<Rightarrow> http_call \<Rightarrow> endpoint \<Rightarrow> string list \<Rightarrow> 'w world \<Rightarrow> (error_response + api_body) \<times> 'w world" where
  "endpoint_call S n c e caps w =
     (case parsed_call S c e caps of
        Some req \<Rightarrow> api_call (st_request_id S n) (st_context_id S) (st_api S n) (credentials_of (hc_headers c)) req w
      | None \<Rightarrow>
          (case with_session (refuse_unparsed (st_api S n) (hc_headers c) e) w of
             (Inr b, w') \<Rightarrow> (Inr b, w')
           | (Inl x, w') \<Rightarrow> (Inl (handle_exception (st_request_id S n) (st_context_id S) (raised_by x)), w')))"

definition created_endpoints :: "endpoint list" where
  "created_endpoints = [EpAdminBootstrap, EpCreateDevice, EpCreatePayment, EpCreatePlan, EpCreateCategory, EpAddRule,
     EpCreateServer, EpCreateLink, EpCreateTicket, EpAddMessage, EpAdminReply, EpCreateVless]"

definition success_status :: "endpoint \<Rightarrow> nat" where
  "success_status e = (if e \<in> set created_endpoints then 201 else if e \<in> {EpDeleteServer, EpDeleteVless} then 204 else 200)"

definition error_reply :: "error_response \<Rightarrow> http_reply" where
  "error_reply r = \<lparr>hr_status = resp_status r, hr_content = JsonContent (error_json (resp_body r))\<rparr>"

definition serve_http :: "'w site \<Rightarrow> nat \<Rightarrow> http_call \<Rightarrow> 'w world \<Rightarrow> http_reply \<times> 'w world" where
  "serve_http S n c w =
     (let missing = (\<lambda>code detail. error_reply (handle_exception (st_request_id S n) (st_context_id S) (RaisedHttp code detail))) in
      case api_segments (hc_path c) of
        None \<Rightarrow> (missing 404 ''Not Found'', w)
      | Some ss \<Rightarrow>
          (case first_route api_router (hc_method c) ss of
             None \<Rightarrow> (if any_method api_router ss then missing 405 ''Method Not Allowed'' else missing 404 ''Not Found'', w)
           | Some (e, caps) \<Rightarrow>
               (case endpoint_call S n c e caps w of
                  (Inl err, w') \<Rightarrow> (error_reply err, w')
                | (Inr b, w') \<Rightarrow> (\<lparr>hr_status = success_status e, hr_content = body_content (st_wire S) b\<rparr>, w'))))"

text \<open>
  \<^verbatim>\<open>SlowAPIMiddleware\<close> answers in place of the application, with slowapi's own handler: its body has a
  string under \<^verbatim>\<open>error\<close>.
\<close>

definition limited_reply :: "string \<Rightarrow> http_reply" where
  "limited_reply msg = \<lparr>hr_status = 429, hr_content = JsonContent (JObj [(''error'', JStr msg)])\<rparr>"

definition serve_limited :: "'w site \<Rightarrow> nat \<Rightarrow> http_call \<Rightarrow> 'w world \<Rightarrow> http_reply \<times> 'w world" where
  "serve_limited S n c w =
     (case st_limited S n of Some msg \<Rightarrow> (limited_reply msg, w) | None \<Rightarrow> serve_http S n c w)"

datatype delivered = Delivered http_reply | HttpxError string

definition site_http :: "'w site \<Rightarrow> http_call \<Rightarrow> 'w deployed \<Rightarrow> delivered \<times> 'w deployed" where
  "site_http S c d =
     (let n = dp_calls d; d' = d\<lparr>dp_calls := n + 1\<rparr> in
      case st_fault S n of
        RequestLost x \<Rightarrow> (HttpxError x, d')
      | ReplyLost x \<Rightarrow> (HttpxError x, d'\<lparr>dp_world := snd (serve_limited S n c (dp_world d))\<rparr>)
      | Connected \<Rightarrow>
          (case serve_limited S n c (dp_world d) of (r, w) \<Rightarrow> (Delivered r, d'\<lparr>dp_world := w\<rparr>)))"

end
