(* ===== verification/BotClient.thy ===== *)
theory BotClient
  imports Http
begin

text \<open>
  The bot's client of the backend (\<^verbatim>\<open>bot/app/services/backend_client.py\<close>). The HTTP library is a parameter: a call
  yields a reply, or an exception of httpx, and the next state of what is behind it. Proved: every method
  of the client reaches the endpoint it is meant for with its arguments, and the backend's errors arrive as
  \<^verbatim>\<open>BackendError\<close> with their code and message - those of the application, that is.
\<close>

section \<open>Exceptions and environment\<close>

text \<open>
  \<^verbatim>\<open>BackendError\<close> has the status code, the error code and the message as the JSON values they are read as;
  \<^verbatim>\<open>BotPy\<close> names another Python exception, \<^verbatim>\<open>TelegramError\<close> is raised by a call to Telegram.
\<close>

datatype bot_exn = BackendError nat json json | TelegramError string | BotPy string

record 'b client_env =
  ce_http :: "http_call \<Rightarrow> 'b \<Rightarrow> delivered \<times> 'b"
  ce_token :: string
  ce_text :: "json \<Rightarrow> string"

definition bot_headers :: "string \<Rightarrow> int option \<Rightarrow> (string \<times> string) list" where
  "bot_headers token tid =
     (''X-Internal-Token'', token) # (case tid of None \<Rightarrow> [] | Some i \<Rightarrow> [(''X-Telegram-User-Id'', int_str i)])"

section \<open>Requests\<close>

text \<open>\<^verbatim>\<open>d.get(key, default)\<close>\<close>

definition jget_or :: "string \<Rightarrow> json \<Rightarrow> json \<Rightarrow> json" where
  "jget_or k dflt j = (case jget k j of None \<Rightarrow> dflt | Some v \<Rightarrow> v)"

definition is_obj :: "json \<Rightarrow> bool" where
  "is_obj j = (case j of JObj _ \<Rightarrow> True | _ \<Rightarrow> False)"

definition reply_text :: "(json \<Rightarrow> string) \<Rightarrow> content \<Rightarrow> string" where
  "reply_text text c = (case c of NoContent \<Rightarrow> '''' | JsonContent j \<Rightarrow> text j | TextContent s \<Rightarrow> s)"

text \<open>
  \<^verbatim>\<open>body.get("error", {})\<close> and \<^verbatim>\<open>error.get\<close> raise \<^verbatim>\<open>AttributeError\<close>, which nothing catches, on a value that is not an
  object; content that is not JSON is caught.
\<close>

definition reply_error :: "(json \<Rightarrow> string) \<Rightarrow> http_reply \<Rightarrow> bot_exn" where
  "reply_error txt r =
     (case hr_content r of
        JsonContent body \<Rightarrow>
          (let error = jget_or ''error'' (JObj []) body in
           if is_obj body \<and> is_obj error
           then BackendError (hr_status r) (jget_or ''code'' (JStr ''unknown_error'') error)
                  (jget_or ''message'' (JStr (reply_text txt (hr_content r))) error)
           else BotPy ''AttributeError'')
      | c \<Rightarrow> BackendError (hr_status r) (JStr ''unknown_error'') (JStr (reply_text txt c)))"

definition read_reply :: "(json \<Rightarrow> string) \<Rightarrow> http_reply \<Rightarrow> bot_exn + json" where
  "read_reply txt r =
     (if 400 \<le> hr_status r then Inl (reply_error txt r)
      else if hr_status r = 204 then Inr JNull
      else case hr_content r of
          NoContent \<Rightarrow> Inr JNull
        | JsonContent j \<Rightarrow> Inr j
        | TextContent _ \<Rightarrow> Inl (BotPy ''JSONDecodeError''))"

definition bot_call :: "'b client_env \<Rightarrow> http_method \<Rightarrow> string \<Rightarrow> int option \<Rightarrow> json option \<Rightarrow> http_call" where
  "bot_call E m path tid body =
     \<lparr>hc_method = m, hc_path = path, hc_headers = bot_headers (ce_token E) tid, hc_json = body\<rparr>"

definition bot_request ::
  "'b client_env \<Rightarrow> http_method \<Rightarrow> string \<Rightarrow> int option \<Rightarrow> json option \<Rightarrow> ('b, bot_exn, json) comp" where
  "bot_request E m path tid body b =
     (case ce_http E (bot_call E m path tid body) b of
        (HttpxError x, b') \<Rightarrow> (Inl (BotPy x), b')
      | (Delivered r, b') \<Rightarrow> (read_reply (ce_text E) r, b'))"

section \<open>The methods of the client\<close>

datatype client_call =
    Authenticate "string option" "string option" "string option" | GetMe
  | FetchPlans | GetActiveSubscription | CancelMySubscription int
  | BuyPlan int "string option"
  | FetchDevices | NewDevice string "int option" string
  | Reissue int | Disable int | Enable int | Revoke int
  | ViewLink int | RotateLink int
  | FetchServers
  | GetRouting | PutMode string | PutCategory int bool | PostDomain string string
  | OpenTicket string string | FetchTickets

definition device_path :: "int \<Rightarrow> string \<Rightarrow> string" where
  "device_path i rest = ''/api/v1/devices/'' @ int_str i @ rest"

text \<open>Method, path, acting user and body of each call, for the Telegram user given first.\<close>

fun client_http :: "int \<Rightarrow> client_call \<Rightarrow> http_method \<times> string \<times> int option \<times> json option" where
  "client_http tid (Authenticate un fst_name lst_name) =
     (POST, ''/api/v1/auth/telegram'', None, Some (JObj [(''telegram_id'', JInt tid), (''username'', jopt JStr un),
        (''first_name'', jopt JStr fst_name), (''last_name'', jopt JStr lst_name)]))"
| "client_http tid GetMe = (GET, ''/api/v1/users/me'', Some tid, None)"
| "client_http tid FetchPlans = (GET, ''/api/v1/plans'', Some tid, None)"
| "client_http tid GetActiveSubscription = (GET, ''/api/v1/subscriptions/me/active'', Some tid, None)"
| "client_http tid (CancelMySubscription i) =
     (POST, ''/api/v1/subscriptions/'' @ int_str i @ ''/cancel'', Some tid, None)"
| "client_http tid (BuyPlan i promo) =
     (POST, ''/api/v1/payments'', Some tid, Some (JObj [(''plan_id'', JInt i), (''promo_code'', jopt JStr promo)]))"
| "client_http tid FetchDevices = (GET, ''/api/v1/devices'', Some tid, None)"
| "client_http tid (NewDevice name server prot) =
     (POST, ''/api/v1/devices'', Some tid,
      Some (JObj [(''name'', JStr name), (''server_id'', jopt JInt server), (''protocol'', JStr prot)]))"
| "client_http tid (Reissue i) = (POST, device_path i ''/reissue'', Some tid, None)"
| "client_http tid (Disable i) = (POST, device_path i ''/disable'', Some tid, None)"
| "client_http tid (Enable i) = (POST, device_path i ''/enable'', Some tid, None)"
| "client_http tid (Revoke i) = (DELETE, device_path i '''', Some tid, None)"
| "client_http tid (ViewLink i) = (GET, device_path i ''/subscription-link'', Some tid, None)"
| "client_http tid (RotateLink i) = (POST, device_path i ''/subscription-link'', Some tid, None)"
| "client_http tid FetchServers = (GET, ''/api/v1/servers'', Some tid, None)"
| "client_http tid GetRouting = (GET, ''/api/v1/routing/me/settings'', Some tid, None)"
| "client_http tid (PutMode mode) = (PUT, ''/api/v1/routing/me/mode'', Some tid, Some (JObj [(''mode'', JStr mode)]))"
| "client_http tid (PutCategory i enabled) =
     (PUT, ''/api/v1/routing/me/categories'', Some tid, Some (JObj [(''category_id'', JInt i), (''enabled'', JBool enabled)]))"
| "client_http tid (PostDomain d route) =
     (POST, ''/api/v1/routing/me/domains'', Some tid, Some (JObj [(''domain'', JStr d), (''route_type'', JStr route)]))"
| "client_http tid (OpenTicket subj msg) =
     (POST, ''/api/v1/support'', Some tid, Some (JObj [(''subject'', JStr subj), (''message'', JStr msg)]))"
| "client_http tid FetchTickets = (GET, ''/api/v1/support/me'', Some tid, None)"

definition client_http_call :: "'b client_env \<Rightarrow> int \<Rightarrow> client_call \<Rightarrow> http_call" where
  "client_http_call E tid c = (case client_http tid c of (m, path, user, body) \<Rightarrow> bot_call E m path user body)"

definition client :: "'b client_env \<Rightarrow> int \<Rightarrow> client_call \<Rightarrow> ('b, bot_exn, json) comp" where
  "client E tid c = (case client_http tid c of (m, path, user, body) \<Rightarrow> bot_request E m path user body)"

text \<open>\<^verbatim>\<open>BackendClient.get_subscription_link\<close>: a device without a link is no error.\<close>

definition view_link :: "'b client_env \<Rightarrow> int \<Rightarrow> int \<Rightarrow> ('b, bot_exn, json) comp" where
  "view_link E tid i =
     catchM (client E tid (ViewLink i)) (\<lambda>e.
       case e of
         BackendError st c msg \<Rightarrow> if c = JStr ''subscription_link_not_found'' then returnM JNull else raiseM e
       | _ \<Rightarrow> raiseM e)"

section \<open>The client and the routes of the backend\<close>

text \<open>What each call asks of the backend. A protocol or mode that does not exist asks nothing.\<close>

fun intended :: "int \<Rightarrow> client_call \<Rightarrow> api_request option" where
  "intended tid (Authenticate u f l) = Some (ByAnyone (AuthenticateTelegram
     \<lparr>ta_telegram_id = tid, ta_username = u, ta_first_name = f, ta_last_name = l, ta_language_code = None\<rparr>))"
| "intended tid GetMe = Some (ByUser GetMyProfile)"
| "intended tid FetchPlans = Some (ByAnyone ListPlans)"
| "intended tid GetActiveSubscription = Some (ByUser GetMyActiveSubscription)"
| "intended tid (CancelMySubscription i) = Some (ByUser (CancelSubscription i))"
| "intended tid (BuyPlan i promo) = Some (ByUser (CreatePayment i promo))"
| "intended tid FetchDevices = Some (ByUser ListDevices)"
| "intended tid (NewDevice name server prot) =
     map_option (\<lambda>p. ByUser (CreateDevice name server p)) (parse_protocol prot)"
| "intended tid (Reissue i) = Some (ByUser (ReissueDevice i))"
| "intended tid (Disable i) = Some (ByUser (DisableDevice i))"
| "intended tid (Enable i) = Some (ByUser (EnableDevice i))"
| "intended tid (Revoke i) = Some (ByUser (RevokeDevice i))"
| "intended tid (ViewLink i) = Some (ByUser (GetLink i))"
| "intended tid (RotateLink i) = Some (ByUser (CreateOrRotateLink i))"
| "intended tid FetchServers = Some (ByAnyone ListServers)"
| "intended tid GetRouting = Some (ByUser GetMyRouting)"
| "intended tid (PutMode m) = map_option (ByUser \<circ> SetMyMode) (parse_routing_mode m)"
| "intended tid (PutCategory i b) = Some (ByUser (SetMyCategory i b))"
| "intended tid (PostDomain d r) = map_option (ByUser \<circ> AddMyDomain d) (parse_route_type r)"
| "intended tid (OpenTicket s m) = Some (ByUser (CreateTicket s m))"
| "intended tid FetchTickets = Some (ByUser ListMyTickets)"

definition acting_user :: "int \<Rightarrow> client_call \<Rightarrow> int option" where
  "acting_user tid c = fst (snd (snd (client_http tid c)))"

text \<open>The endpoint a call is routed to, and what it is parsed to there.\<close>

definition route_of :: "http_call \<Rightarrow> (endpoint \<times> string list) option" where
  "route_of c = Option.bind (api_segments (hc_path c)) (first_route api_router (hc_method c))"

lemma int_str_no_slash: "CHR ''/'' \<notin> set (int_str i)"
  by (rule int_str_no_char) (simp_all add: is_digit_def)

lemma int_str_nonempty: "int_str i \<noteq> ''''"
  by (simp add: int_str_def)

lemma device_path_segments:
  "api_segments (device_path i '''') = Some [''devices'', int_str i]"
  "CHR ''/'' \<notin> set s \<Longrightarrow> api_segments (device_path i (CHR ''/'' # s)) = Some [''devices'', int_str i, s]"
  by (simp_all add: api_segments_def device_path_def split_on_append_sep [OF int_str_no_slash]
      split_on_no_sep int_str_no_slash)

lemma subscription_path_segments:
  "api_segments (''/api/v1/subscriptions/'' @ int_str i @ ''/cancel'') = Some [''subscriptions'', int_str i, ''cancel'']"
  by (simp add: api_segments_def split_on_append_sep [OF int_str_no_slash] split_on_no_sep)

lemma route_device:
  "route_of (bot_call E POST (device_path i ''/reissue'') u b) = Some (EpReissueDevice, [int_str i])"
  "route_of (bot_call E POST (device_path i ''/disable'') u b) = Some (EpDisableDevice, [int_str i])"
  "route_of (bot_call E POST (device_path i ''/enable'') u b) = Some (EpEnableDevice, [int_str i])"
  "route_of (bot_call E DELETE (device_path i '''') u b) = Some (EpRevokeDevice, [int_str i])"
  "route_of (bot_call E GET (device_path i ''/subscription-link'') u b) = Some (EpGetLink, [int_str i])"
  "route_of (bot_call E POST (device_path i ''/subscription-link'') u b) = Some (EpCreateLink, [int_str i])"
  by (simp_all add: route_of_def bot_call_def device_path_segments route_defs int_str_nonempty)

lemma route_cancel:
  "route_of (bot_call E POST (''/api/v1/subscriptions/'' @ int_str i @ ''/cancel'') u b) = Some (EpCancelSubscription, [int_str i])"
  by (simp add: route_of_def bot_call_def subscription_path_segments [simplified] route_defs int_str_nonempty)

lemma route_fixed:
  "route_of (bot_call E POST ''/api/v1/auth/telegram'' u b) = Some (EpAuthTelegram, [])"
  "route_of (bot_call E GET ''/api/v1/users/me'' u b) = Some (EpMyProfile, [])"
  "route_of (bot_call E GET ''/api/v1/plans'' u b) = Some (EpListPlans, [])"
  "route_of (bot_call E GET ''/api/v1/subscriptions/me/active'' u b) = Some (EpMyActiveSubscription, [])"
  "route_of (bot_call E POST ''/api/v1/payments'' u b) = Some (EpCreatePayment, [])"
  "route_of (bot_call E GET ''/api/v1/devices'' u b) = Some (EpListDevices, [])"
  "route_of (bot_call E POST ''/api/v1/devices'' u b) = Some (EpCreateDevice, [])"
  "route_of (bot_call E GET ''/api/v1/servers'' u b) = Some (EpListServers, [])"
  "route_of (bot_call E GET ''/api/v1/routing/me/settings'' u b) = Some (EpMyRouting, [])"
  "route_of (bot_call E PUT ''/api/v1/routing/me/mode'' u b) = Some (EpSetMode, [])"
  "route_of (bot_call E PUT ''/api/v1/routing/me/categories'' u b) = Some (EpSetCategory, [])"
  "route_of (bot_call E POST ''/api/v1/routing/me/domains'' u b) = Some (EpAddDomain, [])"
  "route_of (bot_call E POST ''/api/v1/support'' u b) = Some (EpCreateTicket, [])"
  "route_of (bot_call E GET ''/api/v1/support/me'' u b) = Some (EpMyTickets, [])"
  by (simp_all add: route_of_def bot_call_def api_segments_def route_defs)

lemmas routes = route_device route_cancel route_cancel [simplified] route_fixed
lemma bot_credentials:
  "credentials_of (bot_headers token u) = \<lparr>x_internal_token = Some token, x_telegram_user_id = u, authorization = None\<rparr>"
  "\<not> bad_user_header (bot_headers token u)"
proof -
  have "header_of (bot_headers token u) ''X-Internal-Token'' = Some token"
    "header_of (bot_headers token u) ''X-Telegram-User-Id'' = map_option int_str u"
    "header_of (bot_headers token u) ''Authorization'' = None"
    by (simp_all add: header_of_def bot_headers_def lower_def lower_char_def split: option.splits)
  then show "credentials_of (bot_headers token u) = \<lparr>x_internal_token = Some token, x_telegram_user_id = u, authorization = None\<rparr>"
    and "\<not> bad_user_header (bot_headers token u)"
    by (cases u; simp add: credentials_of_def bad_user_header_def)+
qed

lemma body_fields [simp]:
  "str_in (Some j) k = (case jget k j of Some (JStr s) \<Rightarrow> Some s | _ \<Rightarrow> None)"
  "int_in (Some j) k = (case jget k j of Some (JInt i) \<Rightarrow> Some i | _ \<Rightarrow> None)"
  "bool_in (Some j) k = (case jget k j of Some (JBool b) \<Rightarrow> Some b | _ \<Rightarrow> None)"
  "jget k j = Some (jopt JStr so) \<Longrightarrow> opt_str_in (Some j) k = Some so"
  "jget k j = None \<Longrightarrow> opt_str_in (Some j) k = Some None"
  "jget k j = Some (jopt JInt io) \<Longrightarrow> opt_int_in (Some j) k = Some io"
  "jget k j = Some (JStr s) \<Longrightarrow> enum_in p d (Some j) k = p s"
  by (simp_all add: str_in_def int_in_def bool_in_def opt_str_in_def opt_int_in_def enum_in_def jopt_def split: option.splits)

lemma hc_bot_call [simp]:
  "hc_method (bot_call E m path u b) = m" "hc_path (bot_call E m path u b) = path"
  "hc_headers (bot_call E m path u b) = bot_headers (ce_token E) u" "hc_json (bot_call E m path u b) = b"
  by (simp_all add: bot_call_def)

lemma parsed_bot_call:
  "parsed_call S (bot_call E m path u b) e caps = parse_request (st_parse S) e caps b"
  by (simp add: parsed_call_def bot_credentials)

lemma path_int_str [simp]: "path_int [int_str i] = Some i"
  by (simp add: path_int_def)

lemmas parse_defs = parse_request_def user_endpoints_def parse_auth_def parse_create_device_def parse_create_payment_def
  parse_set_mode_def parse_set_category_def parse_add_domain_def parse_create_ticket_def

lemma client_call_routed:
  "\<exists>e caps. route_of (client_http_call E tid c) = Some (e, caps) \<and>
     parsed_call S (client_http_call E tid c) e caps = intended tid c"
proof (cases c)
  case (NewDevice name server prot)
  then show ?thesis
    by (cases "parse_protocol prot") (simp_all add: client_http_call_def routes parsed_bot_call parse_defs jget_def)
next
  case (PutMode m)
  then show ?thesis
    by (simp add: client_http_call_def routes parsed_bot_call parse_defs jget_def option.map_comp comp_def)
next
  case (PostDomain d r)
  then show ?thesis
    by (cases "parse_route_type r") (simp_all add: client_http_call_def routes parsed_bot_call parse_defs jget_def)
qed (simp_all add: client_http_call_def routes parsed_bot_call parse_defs jget_def)

text \<open>Every method of the bot's client reaches the endpoint it is meant for, whatever its arguments: the
  backend routes the call by its method and path, parses path and body back to the arguments the
  method was given, and reads from the headers the shared token and the acting Telegram user.\<close>

theorem client_calls_reach_endpoints:
  "(\<exists>e caps. route_of (client_http_call E tid c) = Some (e, caps) \<and>
      parsed_call S (client_http_call E tid c) e caps = intended tid c) \<and>
   credentials_of (hc_headers (client_http_call E tid c)) =
     \<lparr>x_internal_token = Some (ce_token E), x_telegram_user_id = acting_user tid c, authorization = None\<rparr>"
proof -
  have "credentials_of (hc_headers (client_http_call E tid c)) =
     \<lparr>x_internal_token = Some (ce_token E), x_telegram_user_id = acting_user tid c, authorization = None\<rparr>"
    by (simp add: client_http_call_def acting_user_def bot_credentials split: prod.splits)
  then show ?thesis
    using client_call_routed [of E tid c S] by blast
qed

section \<open>Errors across the wire\<close>

lemma error_reply_read:
  assumes "400 \<le> resp_status r"
  shows "read_reply txt (error_reply r) =
    Inl (BackendError (resp_status r) (JStr (err_code (resp_body r))) (JStr (err_message (resp_body r))))"
  using assms
  by (simp add: read_reply_def error_reply_def reply_error_def error_json_def jget_or_def jget_def is_obj_def)

lemma class_status_error: "400 \<le> class_status cls"
  by (cases cls) simp_all

lemma handled_status: "400 \<le> resp_status (handle_exception sid ctx (raised_by e))"
  by (cases e) (simp_all add: raised_by_def class_status_error)

lemma api_error_status: "api_call sid ctx V cr req w = (Inl err, w') \<Longrightarrow> 400 \<le> resp_status err"
  by (auto simp: api_call_def handled_status split: prod.splits sum.splits)

text \<open>The answers of the requests the bot makes are JSON documents.\<close>

definition json_body :: "api_body \<Rightarrow> bool" where
  "json_body b = (case b of NoBody \<Rightarrow> False | RawContent _ _ \<Rightarrow> False | _ \<Rightarrow> True)"

fun content_json :: "content \<Rightarrow> json" where
  "content_json (JsonContent j) = j"
| "content_json _ = JNull"

lemma json_body_content: "json_body b \<Longrightarrow> body_content W b = JsonContent (content_json (body_content W b))"
  by (cases b) (simp_all add: json_body_def)

lemma answer_body:
  "answer f m w = (Inr b, w') \<Longrightarrow> \<exists>x. b = f x"
  by (auto simp: answer_def success_iffs)

lemma serve_user_json: "serve_user V u r w = (Inr b, w') \<Longrightarrow> json_body b"
  by (cases r) (auto simp: json_body_def dest!: answer_body)

lemma bot_request_json:
  assumes "intended tid c = Some req" "api_call sid ctx V cr req w = (Inr b, w')"
  shows "json_body b"
proof -
  have "\<exists>w1. dispatch V cr req w = (Inr b, w1)"
    using assms(2) by (auto simp: api_call_def with_session_def split: prod.splits sum.splits)
  moreover have "(\<exists>r. req = ByUser r) \<or> (\<exists>p. req = ByAnyone (AuthenticateTelegram p)) \<or>
      req = ByAnyone ListPlans \<or> req = ByAnyone ListServers"
    using assms(1) by (cases c) (auto split: option.splits)
  ultimately show ?thesis
    by (auto simp: dispatch_def success_iffs validated_def on_db_iff json_body_def
        dest!: serve_user_json answer_body)
qed

lemma success_status_cases: "success_status e = 200 \<or> success_status e = 201 \<or> success_status e = 204"
  by (simp add: success_status_def)

text \<open>The bot's endpoints never answer 204.\<close>

lemma bot_success_status:
  "route_of (client_http_call E tid c) = Some (e, caps) \<Longrightarrow> success_status e \<in> {200, 201}"
  by (cases c) (auto simp: client_http_call_def routes success_status_def created_endpoints_def)

lemma serve_http_routed:
  "route_of c = Some (e, caps) \<Longrightarrow> serve_http S n c w =
     (case endpoint_call S n c e caps w of
        (Inl err, w') \<Rightarrow> (error_reply err, w')
      | (Inr b, w') \<Rightarrow> (\<lparr>hr_status = success_status e, hr_content = body_content (st_wire S) b\<rparr>, w'))"
  by (auto simp: serve_http_def route_of_def bind_eq_Some_conv)

text \<open>What a client makes of the backend's answer.\<close>

definition client_result :: "wire \<Rightarrow> error_response + api_body \<Rightarrow> bot_exn + json" where
  "client_result W res = (case res of
       Inl err \<Rightarrow> Inl (BackendError (resp_status err) (JStr (err_code (resp_body err))) (JStr (err_message (resp_body err))))
     | Inr b \<Rightarrow> Inr (content_json (body_content W b)))"

lemma client_eq: "client E tid c b =
    (case ce_http E (client_http_call E tid c) b of
       (HttpxError x, b') \<Rightarrow> (Inl (BotPy x), b')
     | (Delivered r, b') \<Rightarrow> (read_reply (ce_text E) r, b'))"
  by (simp add: client_def client_http_call_def bot_request_def split: prod.splits)

text \<open>C4: Over a connection that holds and within the rate limit, a method of the bot's client is the
  request of the backend it stands for, made with the shared token for the acting Telegram user: it
  changes the backend exactly as that request does, returns the JSON of its answer, and raises its error as a
  \<^verbatim>\<open>BackendError\<close> with the status, the code and the message of the response.\<close>

theorem client_implements_api:
  assumes "ce_http E = site_http S"
    and "st_fault S (dp_calls d) = Connected" and "st_limited S (dp_calls d) = None"
    and "intended tid c = Some req"
    and "api_call (st_request_id S (dp_calls d)) (st_context_id S) (st_api S (dp_calls d))
      \<lparr>x_internal_token = Some (ce_token E), x_telegram_user_id = acting_user tid c, authorization = None\<rparr>
      req (dp_world d) = (res, w')"
  shows "client E tid c d = (client_result (st_wire S) res, \<lparr>dp_world = w', dp_calls = dp_calls d + 1\<rparr>)"
proof -
  obtain e caps where r: "route_of (client_http_call E tid c) = Some (e, caps)"
    and p: "parsed_call S (client_http_call E tid c) e caps = Some req"
    using client_call_routed [of E tid c S] assms(4) by auto
  have "credentials_of (hc_headers (client_http_call E tid c)) =
      \<lparr>x_internal_token = Some (ce_token E), x_telegram_user_id = acting_user tid c, authorization = None\<rparr>"
    by (simp add: client_http_call_def acting_user_def bot_credentials split: prod.splits)
  then have "endpoint_call S (dp_calls d) (client_http_call E tid c) e caps (dp_world d) = (res, w')"
    using assms(5) by (simp add: endpoint_call_def p)
  then have served: "serve_limited S (dp_calls d) (client_http_call E tid c) (dp_world d) =
      (case res of Inl err \<Rightarrow> error_reply err
       | Inr b \<Rightarrow> \<lparr>hr_status = success_status e, hr_content = body_content (st_wire S) b\<rparr>, w')"
    using assms(3) by (simp add: serve_limited_def serve_http_routed [OF r] split: sum.splits)
  have "read_reply (ce_text E) (case res of Inl err \<Rightarrow> error_reply err
       | Inr b \<Rightarrow> \<lparr>hr_status = success_status e, hr_content = body_content (st_wire S) b\<rparr>) = client_result (st_wire S) res"
  proof (cases res)
    case (Inl err)
    then show ?thesis
      using api_error_status [OF assms(5) [unfolded Inl]] by (simp add: error_reply_read client_result_def)
  next
    case (Inr b)
    then obtain j where "body_content (st_wire S) b = JsonContent j"
      using json_body_content bot_request_json assms(4,5) by blast
    then show ?thesis
      using bot_success_status [OF r] by (auto simp: Inr client_result_def read_reply_def)
  qed
  then show ?thesis
    by (simp add: client_eq assms(1,2) site_http_def Let_def served)
qed

text \<open>slowapi answers a request over the limit with a string under \<^verbatim>\<open>error\<close>, on which the client's own error
  handling fails: instead of a \<^verbatim>\<open>BackendError\<close> with status 429, which handlers catch, the caller gets an
  \<^verbatim>\<open>AttributeError\<close>, which nothing catches. The backend has not been touched.\<close>

theorem rate_limited_call_crashes_client:
  assumes "ce_http E = site_http S"
    and "st_fault S (dp_calls d) = Connected" and "st_limited S (dp_calls d) = Some msg"
  shows "client E tid c d = (Inl (BotPy ''AttributeError''), d\<lparr>dp_calls := dp_calls d + 1\<rparr>)"
  using assms
  by (simp add: client_eq site_http_def Let_def serve_limited_def limited_reply_def read_reply_def reply_error_def
      jget_or_def jget_def is_obj_def)

section \<open>Examples\<close>

definition demo_site :: "string option \<Rightarrow> string list site" where
  "demo_site limited = \<lparr>st_api = (\<lambda>_. demo_api), st_request_id = (\<lambda>_. None), st_context_id = '''',
     st_wire = \<lparr>wr_iso = int_str, wr_float = (\<lambda>_. JNull)\<rparr>, st_parse = (\<lambda>_ _ _. None),
     st_limited = (\<lambda>_. limited), st_fault = (\<lambda>_. Connected)\<rparr>"

definition demo_client :: "string list site \<Rightarrow> string list deployed client_env" where
  "demo_client S = \<lparr>ce_http = site_http S, ce_token = internal_service_token default_settings, ce_text = (\<lambda>_. '''')\<rparr>"

definition demo_deployed :: "string list deployed" where
  "demo_deployed = \<lparr>dp_world = demo_api_world VIEWER, dp_calls = 0\<rparr>"

lemma client_implements_api_witness:
  "case client (demo_client (demo_site None)) 77 (Disable 1) demo_deployed of
     (Inr j, d) \<Rightarrow> jget ''status'' j = Some (JStr ''disabled'') \<and>
       map dev_status (rows (devices (db (dp_world d)))) = [DevDisabled, DevActive] \<and> dp_calls d = 1
   | _ \<Rightarrow> False"
proof -
  let ?cr = "\<lparr>x_internal_token = Some (internal_service_token default_settings), x_telegram_user_id = Some 77,
     authorization = None\<rparr> :: credentials"
  obtain res w' where run: "api_call None '''' demo_api ?cr (ByUser (DisableDevice 1)) (demo_api_world VIEWER) = (res, w')"
    by fastforce
  have "case api_call None '''' demo_api ?cr (ByUser (DisableDevice 1)) (demo_api_world VIEWER) of
     (Inr (DeviceRead v), w') \<Rightarrow> drd_status v = DevDisabled \<and>
       map dev_status (rows (devices (db w'))) = [DevDisabled, DevActive] | _ \<Rightarrow> False"
    by code_simp
  then have "\<exists>v. res = Inr (DeviceRead v) \<and> drd_status v = DevDisabled"
    and rows: "map dev_status (rows (devices (db w'))) = [DevDisabled, DevActive]"
    using run by (auto split: sum.splits api_body.splits)
  then obtain v where v: "res = Inr (DeviceRead v)" "drd_status v = DevDisabled"
    by blast
  have "client (demo_client (demo_site None)) 77 (Disable 1) demo_deployed =
      (client_result (st_wire (demo_site None)) res, \<lparr>dp_world = w', dp_calls = dp_calls demo_deployed + 1\<rparr>)"
    by (rule client_implements_api [where req = "ByUser (DisableDevice 1)"])
      (simp_all add: demo_client_def demo_site_def demo_deployed_def acting_user_def run)
  then show ?thesis
    using v rows by (simp add: client_result_def device_json_def jget_def demo_deployed_def)
qed

lemma rate_limited_call_crashes_client_witness:
  "client (demo_client (demo_site (Some ''100 per 1 minute''))) 77 FetchDevices demo_deployed =
     (Inl (BotPy ''AttributeError''), \<lparr>dp_world = demo_api_world VIEWER, dp_calls = 1\<rparr>)"
  using rate_limited_call_crashes_client [of "demo_client (demo_site (Some ''100 per 1 minute''))"
      "demo_site (Some ''100 per 1 minute'')" demo_deployed "''100 per 1 minute''" 77 FetchDevices]
  by (simp add: demo_client_def demo_site_def demo_deployed_def)

end
