(* ===== verification/Bot.thy ===== *)
theory Bot
  imports BotClient
begin

text \<open>
  The Telegram bot (\<^verbatim>\<open>bot/app/main.py\<close>, \<^verbatim>\<open>handlers/\<close>, \<^verbatim>\<open>keyboards/menus.py\<close>): its keyboards, its handlers, which update
  reaches which handler, and the notification endpoint. Telegram is a parameter: a call succeeds or fails with a
  description. The wording of messages and buttons is a constructor with the values that are filled in;
  the \<^verbatim>\<open>callback_data\<close> of a button is the exact string, since it is what comes back when the button is
  pressed. What the bot reads from the backend is JSON, read the way Python reads dictionaries.
\<close>

section \<open>Telegram\<close>

record tg_user =
  tu_id :: int
  tu_username :: "string option"
  tu_first_name :: string
  tu_last_name :: "string option"

record tg_message =
  tm_id :: int
  tm_text :: "string option"
  tm_command :: "string option"     \<comment> \<open>the leading command of the text, without the name of the bot\<close>

record tg_query =
  cq_id :: string
  cq_data :: "string option"

text \<open>An update: who and where from, and the button press, message or edited message it carries.\<close>

record update =
  up_user :: "tg_user option"
  up_chat :: "int option"
  up_query :: "tg_query option"
  up_message :: "tg_message option"
  up_edited :: "tg_message option"
  up_origin :: "tg_message option"   \<comment> \<open>the message the pressed button belongs to\<close>

section \<open>Wording\<close>

datatype date_text = NoDate | RawDate string | Day string

datatype status_label = ActiveLabel | ExpiredLabel | CancelledLabel | DisabledLabel | OtherLabel json

datatype plan_line = NoPlan | PlanLine json status_label date_text

datatype bot_text =
    VpnStatus plan_line nat json | NoDevicesYet | MyDevices | DeviceMissing
  | DeviceText json status_label string "json option"
  | AskDeviceName | AskProtocol | CreateFailed json | ReissueFailed json | RotateFailed json
  | DeviceReady json | DeviceAdded json | LinkReady json | ManageLink | NoLinkYet | LinkText bool json date_text
  | ProfileText json "json option" json | NoServersYet | PickServer | RoutingText bool | PickCategories
  | AskDomain | DomainAdded string | SubscriptionText plan_line | PayAt json | PaymentOpened
  | AskSupport | TicketOpened | Reissuing | DeviceGone | DoneText | ModeChanged | Rotating | WentWrong | Notice string

datatype button_label =
    BtConnect | BtServers | BtSmart | BtDevices | BtSubscription | BtProfile | BtSupport | BtMain
  | BtWireguard | BtVless | BtDevice status_label json | BtNewDevice | BtReissue | BtLink | BtDisable | BtEnable
  | BtRevoke | BtRotate | BtToDevice | BtPlan json json json json | BtFull bool | BtSmartMode bool
  | BtCategories | BtOwnDomain | BtCategory bool json | BtServer bool json json json json

type_synonym keyboard = "(button_label \<times> string) list"

datatype tg_call =
    AnswerQuery string "bot_text option" | EditMessage string bot_text "keyboard option"
  | ReplyText int bot_text "keyboard option" | SendMessage int bot_text "keyboard option"
  | SendPhoto int string bot_text | SendDocument int string string

section \<open>State and environment\<close>

text \<open>\<^verbatim>\<open>context.user_data\<close>: one dictionary per Telegram user, kept between updates.\<close>

record user_data =
  awaiting_device_name :: bool
  pending_device_server_id :: "int option option"
  pending_device_protocol :: "string option"
  awaiting_custom_domain :: bool
  awaiting_support_message :: bool

definition no_user_data :: user_data where
  "no_user_data = \<lparr>awaiting_device_name = False, pending_device_server_id = None, pending_device_protocol = None,
     awaiting_custom_domain = False, awaiting_support_message = False\<rparr>"

record ('b, 't) bot_state =
  bs_backend :: 'b
  bs_telegram :: 't
  bs_user_data :: "int \<Rightarrow> user_data"

text \<open>
  \<^verbatim>\<open>bot_from_iso\<close> is \<^verbatim>\<open>datetime.fromisoformat\<close> with the year, month and day of its result, \<^verbatim>\<open>bot_repr\<close> is \<^verbatim>\<open>str\<close> of a list
  or dictionary, \<^verbatim>\<open>bot_goes_on\<close> says whether Telegram's dispatcher tries the next group of handlers after an error.
\<close>

record ('b, 't) bot_env =
  bot_client :: "'b client_env"
  bot_telegram :: "tg_call \<Rightarrow> 't \<Rightarrow> string option \<times> 't"
  bot_from_iso :: "string \<Rightarrow> (nat \<times> nat \<times> nat) option"
  bot_repr :: "json \<Rightarrow> string"
  bot_goes_on :: bool

type_synonym ('b, 't, 'a) bot = "(('b, 't) bot_state, bot_exn, 'a) comp"

definition on_backend :: "('b, bot_exn, 'a) comp \<Rightarrow> ('b, 't, 'a) bot" where
  "on_backend = zoomM bs_backend (\<lambda>b. bs_backend_update (\<lambda>_. b))"

definition call :: "('b, 't) bot_env \<Rightarrow> int \<Rightarrow> client_call \<Rightarrow> ('b, 't, json) bot" where
  "call E tid c = on_backend (client (bot_client E) tid c)"

definition tg :: "('b, 't) bot_env \<Rightarrow> tg_call \<Rightarrow> ('b, 't, unit) bot" where
  "tg E c s = (case bot_telegram E c (bs_telegram s) of
       (None, t) \<Rightarrow> (Inr (), s\<lparr>bs_telegram := t\<rparr>)
     | (Some e, t) \<Rightarrow> (Inl (TelegramError e), s\<lparr>bs_telegram := t\<rparr>))"

text \<open>Reading and writing \<^verbatim>\<open>context.user_data\<close>, which an update without a user does not have.\<close>

definition user_data_of :: "update \<Rightarrow> ('b, 't, user_data) bot" where
  "user_data_of upd = (case up_user upd of
       None \<Rightarrow> raiseM (BotPy ''AssertionError'')
     | Some u \<Rightarrow> getM (\<lambda>s. bs_user_data s (tu_id u)))"

definition set_user_data :: "update \<Rightarrow> (user_data \<Rightarrow> user_data) \<Rightarrow> ('b, 't, unit) bot" where
  "set_user_data upd f = (case up_user upd of
       None \<Rightarrow> raiseM (BotPy ''AssertionError'')
     | Some u \<Rightarrow> modifyM (\<lambda>s. s\<lparr>bs_user_data := (bs_user_data s)(tu_id u := f (bs_user_data s (tu_id u)))\<rparr>))"

section \<open>Python's dictionaries and strings\<close>

fun truthy :: "json \<Rightarrow> bool" where
  "truthy JNull = False"
| "truthy (JBool b) = b"
| "truthy (JInt i) = (i \<noteq> 0)"
| "truthy (JStr s) = (s \<noteq> '''')"
| "truthy (JList xs) = (xs \<noteq> [])"
| "truthy (JObj kvs) = (kvs \<noteq> [])"

definition item :: "string \<Rightarrow> json \<Rightarrow> ('s, bot_exn, json) comp" where
  "item k j = (if is_obj j then requireM (BotPy ''KeyError'') (jget k j) else raiseM (BotPy ''TypeError''))"

definition get_item :: "string \<Rightarrow> json \<Rightarrow> json \<Rightarrow> ('s, bot_exn, json) comp" where
  "get_item k dflt j = (if is_obj j then returnM (jget_or k dflt j) else raiseM (BotPy ''AttributeError''))"

fun elements :: "json \<Rightarrow> ('s, bot_exn, json list) comp" where
  "elements (JList xs) = returnM xs"
| "elements (JObj kvs) = returnM (map (JStr \<circ> fst) kvs)"
| "elements (JStr s) = returnM (map (\<lambda>c. JStr [c]) s)"
| "elements _ = raiseM (BotPy ''TypeError'')"

text \<open>\<^verbatim>\<open>True\<close> and \<^verbatim>\<open>False\<close> are the integers 1 and 0.\<close>

fun as_int :: "json \<Rightarrow> json" where
  "as_int (JBool b) = JInt (if b then 1 else 0)"
| "as_int j = j"

definition py_eq :: "json \<Rightarrow> json \<Rightarrow> bool" where
  "py_eq a b = (as_int a = as_int b)"

fun hashable :: "json \<Rightarrow> bool" where
  "hashable (JList _) = False"
| "hashable (JObj _) = False"
| "hashable _ = True"

definition as_set :: "json \<Rightarrow> ('s, bot_exn, json list) comp" where
  "as_set j = bindM (elements j) (\<lambda>xs. if list_all hashable xs then returnM xs else raiseM (BotPy ''TypeError''))"

definition in_set :: "json \<Rightarrow> json list \<Rightarrow> bool" where
  "in_set x xs = list_ex (py_eq x) xs"

definition py_str :: "(json \<Rightarrow> string) \<Rightarrow> json \<Rightarrow> string" where
  "py_str rep j = (case j of JStr s \<Rightarrow> s | JInt i \<Rightarrow> int_str i | JNull \<Rightarrow> ''None''
     | JBool b \<Rightarrow> if b then ''True'' else ''False'' | _ \<Rightarrow> rep j)"

definition str_of :: "json \<Rightarrow> ('s, bot_exn, string) comp" where
  "str_of j = (case j of JStr s \<Rightarrow> returnM s | _ \<Rightarrow> raiseM (BotPy ''AttributeError''))"

text \<open>\<^verbatim>\<open>int(query.data.split(":")[-1])\<close>\<close>

definition last_id :: "string \<Rightarrow> ('s, bot_exn, int) comp" where
  "last_id s = requireM (BotPy ''ValueError'') (parse_int (last (split_on CHR '':'' s)))"

text \<open>\<^verbatim>\<open>s.split(c, n)\<close>\<close>

fun split_max :: "nat \<Rightarrow> char \<Rightarrow> string \<Rightarrow> string list" where
  "split_max 0 c s = [s]"
| "split_max (Suc n) c s =
     (case dropWhile (\<lambda>x. x \<noteq> c) s of [] \<Rightarrow> [s] | _ # rest \<Rightarrow> takeWhile (\<lambda>x. x \<noteq> c) s # split_max n c rest)"

text \<open>
  \<^verbatim>\<open>base64.b64decode\<close>, which skips characters outside the alphabet: position within the group of four,
  bits left over, and the number of padding characters seen.
\<close>

definition b64_val :: "char \<Rightarrow> nat option" where
  "b64_val c = (let n = of_char c :: nat in
     if 65 \<le> n \<and> n \<le> 90 then Some (n - 65)
     else if 97 \<le> n \<and> n \<le> 122 then Some (n - 71)
     else if 48 \<le> n \<and> n \<le> 57 then Some (n + 4)
     else if c = CHR ''+'' then Some 62 else if c = CHR ''/'' then Some 63 else None)"

fun b64_loop :: "nat \<Rightarrow> nat \<Rightarrow> nat \<Rightarrow> string \<Rightarrow> string option" where
  "b64_loop q left pads [] = (if q = 0 then Some [] else None)"
| "b64_loop q left pads (c # cs) =
     (if c = CHR ''='' then
        (if 2 \<le> q \<and> 4 \<le> q + (pads + 1) then Some [] else b64_loop q left (if 2 \<le> q then pads + 1 else pads) cs)
      else case b64_val c of
          None \<Rightarrow> b64_loop q left pads cs
        | Some v \<Rightarrow>
            if q = 0 then b64_loop 1 v 0 cs
            else if q = 1 then map_option ((#) (char_of (left * 4 + v div 16))) (b64_loop 2 (v mod 16) 0 cs)
            else if q = 2 then map_option ((#) (char_of (left * 16 + v div 4))) (b64_loop 3 (v mod 4) 0 cs)
            else map_option ((#) (char_of (left * 64 + v))) (b64_loop 0 0 0 cs))"

definition b64decode :: "json \<Rightarrow> ('s, bot_exn, string) comp" where
  "b64decode j = (case j of
       JStr s \<Rightarrow> if list_all (\<lambda>c. of_char c < (128::nat)) s then requireM (BotPy ''binascii.Error'') (b64_loop 0 0 0 s)
                else raiseM (BotPy ''ValueError'')
     | _ \<Rightarrow> raiseM (BotPy ''TypeError''))"

section \<open>Keyboards\<close>

definition main_button :: "button_label \<times> string" where
  "main_button = (BtMain, ''menu:main'')"

definition main_menu :: keyboard where
  "main_menu = [(BtConnect, ''device:new''), (BtServers, ''menu:servers''), (BtSmart, ''menu:smart''),
     (BtDevices, ''menu:devices''), (BtSubscription, ''menu:subscription''), (BtProfile, ''menu:profile''),
     (BtSupport, ''menu:support'')]"

definition back_to_main :: keyboard where
  "back_to_main = [main_button]"

definition protocol_choice_keyboard :: keyboard where
  "protocol_choice_keyboard =
     [(BtWireguard, ''device:new:proto:wireguard''), (BtVless, ''device:new:proto:vless''), main_button]"

definition device_label :: "json \<Rightarrow> status_label" where
  "device_label st = (if st = JStr ''active'' then ActiveLabel else if st = JStr ''disabled'' then DisabledLabel
     else if st = JStr ''revoked'' then CancelledLabel else OtherLabel JNull)"

definition devices_keyboard :: "('b, 't) bot_env \<Rightarrow> json list \<Rightarrow> ('s, bot_exn, keyboard) comp" where
  "devices_keyboard E ds =
     bindM (mapM (\<lambda>d.
       bindM (item ''status'' d) (\<lambda>st. bindM (item ''name'' d) (\<lambda>n. bindM (item ''id'' d) (\<lambda>i.
       returnM (BtDevice (device_label st) n, ''device:manage:'' @ py_str (bot_repr E) i))))) ds) (\<lambda>rs.
     returnM (rs @ [(BtNewDevice, ''device:new''), main_button]))"

definition device_manage_keyboard :: "('b, 't) bot_env \<Rightarrow> json \<Rightarrow> ('s, bot_exn, keyboard) comp" where
  "device_manage_keyboard E d =
     bindM (item ''id'' d) (\<lambda>i.
     bindM (get_item ''protocol'' (JStr ''wireguard'') d) (\<lambda>p.
     bindM (item ''status'' d) (\<lambda>st.
       let s = py_str (bot_repr E) i in returnM
       ((if p = JStr ''wireguard'' then [(BtReissue, ''device:reissue:'' @ s)] else []) @
        [(BtLink, ''device:sublink:view:'' @ s)] @
        (if st = JStr ''active'' then [(BtDisable, ''device:disable:'' @ s)]
         else if st = JStr ''disabled'' then [(BtEnable, ''device:enable:'' @ s)] else []) @
        [(BtRevoke, ''device:revoke:'' @ s), (BtDevices, ''menu:devices'')]))))"

definition subscription_link_keyboard :: "('b, 't) bot_env \<Rightarrow> json \<Rightarrow> keyboard" where
  "subscription_link_keyboard E i =
     [(BtRotate, ''device:sublink:rotate:'' @ py_str (bot_repr E) i), (BtToDevice, ''device:manage:'' @ py_str (bot_repr E) i)]"

definition plans_keyboard :: "('b, 't) bot_env \<Rightarrow> json list \<Rightarrow> ('s, bot_exn, keyboard) comp" where
  "plans_keyboard E ps =
     bindM (mapM (\<lambda>p.
       bindM (item ''name'' p) (\<lambda>n. bindM (item ''price'' p) (\<lambda>pr. bindM (item ''currency'' p) (\<lambda>cu.
       bindM (item ''duration_days'' p) (\<lambda>dd. bindM (item ''id'' p) (\<lambda>i.
       returnM (BtPlan n pr cu dd, ''plan:buy:'' @ py_str (bot_repr E) i))))))) ps) (\<lambda>rs.
     returnM (rs @ [main_button]))"

definition smart_vpn_mode_keyboard :: "json \<Rightarrow> keyboard" where
  "smart_vpn_mode_keyboard mode =
     [(BtFull (mode = JStr ''full_vpn''), ''smart:mode:full_vpn''),
      (BtSmartMode (mode = JStr ''smart_vpn''), ''smart:mode:smart_vpn'')] @
     (if mode = JStr ''smart_vpn'' then [(BtCategories, ''smart:categories''), (BtOwnDomain, ''smart:add_domain'')] else []) @
     [main_button]"

definition smart_vpn_categories_keyboard ::
  "('b, 't) bot_env \<Rightarrow> json list \<Rightarrow> json list \<Rightarrow> ('s, bot_exn, keyboard) comp" where
  "smart_vpn_categories_keyboard E cs enabled =
     bindM (mapM (\<lambda>c.
       bindM (item ''id'' c) (\<lambda>i. bindM (item ''name'' c) (\<lambda>n.
       if hashable i then returnM (BtCategory (in_set i enabled) n, ''smart:cat:'' @ py_str (bot_repr E) i)
       else raiseM (BotPy ''TypeError'')))) cs) (\<lambda>rs.
     returnM (rs @ [(BtSmart, ''menu:smart'')]))"

definition servers_keyboard :: "('b, 't) bot_env \<Rightarrow> json list \<Rightarrow> ('s, bot_exn, keyboard) comp" where
  "servers_keyboard E ss =
     bindM (mapM (\<lambda>v.
       bindM (item ''status'' v) (\<lambda>st. bindM (item ''current_load'' v) (\<lambda>ld. bindM (item ''capacity'' v) (\<lambda>ca.
       bindM (item ''name'' v) (\<lambda>n. bindM (item ''country'' v) (\<lambda>co. bindM (item ''id'' v) (\<lambda>i.
       returnM (BtServer (st = JStr ''online'') n co ld ca, ''device:new:'' @ py_str (bot_repr E) i)))))))) ss) (\<lambda>rs.
     returnM (rs @ [main_button]))"

section \<open>What handlers share\<close>

text \<open>\<^verbatim>\<open>reply\<close>: a button press edits its message, a message is answered with a new one.\<close>

definition reply :: "('b, 't) bot_env \<Rightarrow> update \<Rightarrow> bot_text \<Rightarrow> keyboard \<Rightarrow> ('b, 't, unit) bot" where
  "reply E upd text kb =
     (case up_query upd of
        Some q \<Rightarrow> bindM (tg E (AnswerQuery (cq_id q) None)) (\<lambda>_. tg E (EditMessage (cq_id q) text (Some kb)))
      | None \<Rightarrow> (case up_message upd of Some m \<Rightarrow> tg E (ReplyText (tm_id m) text (Some kb)) | None \<Rightarrow> returnM ()))"

definition pad2 :: "nat \<Rightarrow> string" where
  "pad2 n = (if n < 10 then ''0'' else '''') @ nat_str n"

definition format_date :: "('b, 't) bot_env \<Rightarrow> json \<Rightarrow> ('s, bot_exn, date_text) comp" where
  "format_date E j =
     (if \<not> truthy j then returnM NoDate
      else bindM (str_of j) (\<lambda>s.
        case bot_from_iso E (concat (map (\<lambda>c. if c = CHR ''Z'' then ''+00:00'' else [c]) s)) of
          None \<Rightarrow> returnM (RawDate s)
        | Some (y, m, d) \<Rightarrow> returnM (Day (pad2 d @ ''.'' @ pad2 m @ ''.'' @ nat_str y))))"

definition subscription_label :: "json \<Rightarrow> status_label" where
  "subscription_label st = (if st = JStr ''active'' then ActiveLabel else if st = JStr ''expired'' then ExpiredLabel
     else if st = JStr ''cancelled'' then CancelledLabel else OtherLabel st)"

text \<open>\<^verbatim>\<open>[d for d in devices if d["status"] != "revoked"]\<close>\<close>

definition not_revoked :: "json list \<Rightarrow> ('s, bot_exn, json list) comp" where
  "not_revoked ds =
     bindM (mapM (\<lambda>d. bindM (item ''status'' d) (\<lambda>st. returnM (d, st))) ds) (\<lambda>ps.
     returnM (map fst (filter (\<lambda>(d, st). st \<noteq> JStr ''revoked'') ps)))"

definition build_status_text :: "('b, 't) bot_env \<Rightarrow> int \<Rightarrow> ('b, 't, bot_text) bot" where
  "build_status_text E tid =
     bindM (call E tid GetActiveSubscription) (\<lambda>s.
     bindM (call E tid FetchDevices) (\<lambda>ds.
     bindM (elements ds) (\<lambda>ds.
     bindM (not_revoked ds) (\<lambda>live.
       if truthy s then
         bindM (item ''status'' s) (\<lambda>st.
         bindM (item ''plan'' s) (\<lambda>p. bindM (item ''name'' p) (\<lambda>n.
         bindM (get_item ''expires_at'' JNull s) (\<lambda>ex. bindM (format_date E ex) (\<lambda>d.
         bindM (item ''max_devices'' p) (\<lambda>mx.
           returnM (VpnStatus (PlanLine n (subscription_label st) d) (length live) mx)))))))
       else returnM (VpnStatus NoPlan 0 JNull)))))"

text \<open>A handler for a button runs on a press with data by a known user, one for text on a text by a known user.\<close>

definition on_press :: "update \<Rightarrow> (tg_query \<Rightarrow> tg_user \<Rightarrow> string \<Rightarrow> ('b, 't, unit) bot) \<Rightarrow> ('b, 't, unit) bot" where
  "on_press upd k = (case (up_query upd, up_user upd) of
       (Some q, Some u) \<Rightarrow> (case cq_data q of Some d \<Rightarrow> k q u d | None \<Rightarrow> returnM ())
     | _ \<Rightarrow> returnM ())"

definition on_text :: "update \<Rightarrow> (tg_message \<Rightarrow> tg_user \<Rightarrow> string \<Rightarrow> ('b, 't, unit) bot) \<Rightarrow> ('b, 't, unit) bot" where
  "on_text upd k = (case (up_message upd, up_user upd) of
       (Some m, Some u) \<Rightarrow> (case tm_text m of Some s \<Rightarrow> k m u s | None \<Rightarrow> returnM ())
     | _ \<Rightarrow> returnM ())"

definition for_user :: "update \<Rightarrow> (tg_user \<Rightarrow> ('b, 't, unit) bot) \<Rightarrow> ('b, 't, unit) bot" where
  "for_user upd k = (case up_user upd of Some u \<Rightarrow> k u | None \<Rightarrow> returnM ())"

text \<open>\<^verbatim>\<open>try\<close> with \<^verbatim>\<open>except BackendError as exc\<close>, reporting \<^verbatim>\<open>str(exc)\<close> and returning.\<close>

definition or_report :: "('b, 't, json) bot \<Rightarrow> (json \<Rightarrow> ('b, 't, unit) bot) \<Rightarrow> ('b, 't, json option) bot" where
  "or_report m report =
     catchM (bindM m (\<lambda>r. returnM (Some r)))
       (\<lambda>e. case e of BackendError st c msg \<Rightarrow> bindM (report msg) (\<lambda>_. returnM None) | _ \<Rightarrow> raiseM e)"

section \<open>Menus\<close>

definition main_menu_callback :: "('b, 't) bot_env \<Rightarrow> update \<Rightarrow> ('b, 't, unit) bot" where
  "main_menu_callback E upd = for_user upd (\<lambda>u.
     bindM (build_status_text E (tu_id u)) (\<lambda>text. reply E upd text main_menu))"

definition start_command :: "('b, 't) bot_env \<Rightarrow> update \<Rightarrow> ('b, 't, unit) bot" where
  "start_command E upd = for_user upd (\<lambda>u.
     bindM (call E (tu_id u) (Authenticate (tu_username u) (Some (tu_first_name u)) (tu_last_name u))) (\<lambda>_.
     bindM (build_status_text E (tu_id u)) (\<lambda>text. reply E upd text main_menu)))"

definition profile_callback :: "('b, 't) bot_env \<Rightarrow> update \<Rightarrow> ('b, 't, unit) bot" where
  "profile_callback E upd = for_user upd (\<lambda>u.
     bindM (call E (tu_id u) GetMe) (\<lambda>p.
     bindM (item ''telegram_id'' p) (\<lambda>i.
     bindM (get_item ''username'' JNull p) (\<lambda>n.
     bindM (item ''status'' p) (\<lambda>st.
     reply E upd (ProfileText i (if truthy n then Some n else None) st) back_to_main)))))"

definition servers_callback :: "('b, 't) bot_env \<Rightarrow> update \<Rightarrow> ('b, 't, unit) bot" where
  "servers_callback E upd = for_user upd (\<lambda>u.
     bindM (call E (tu_id u) FetchServers) (\<lambda>ss.
       if \<not> truthy ss then bindM (servers_keyboard E []) (reply E upd NoServersYet)
       else bindM (elements ss) (\<lambda>xs. bindM (servers_keyboard E xs) (reply E upd PickServer))))"

definition subscription_menu_callback :: "('b, 't) bot_env \<Rightarrow> update \<Rightarrow> ('b, 't, unit) bot" where
  "subscription_menu_callback E upd = for_user upd (\<lambda>u.
     bindM (call E (tu_id u) GetActiveSubscription) (\<lambda>s.
     bindM (if truthy s then
              bindM (item ''plan'' s) (\<lambda>p. bindM (item ''name'' p) (\<lambda>n.
              bindM (item ''status'' s) (\<lambda>st. bindM (get_item ''expires_at'' JNull s) (\<lambda>ex.
              bindM (format_date E ex) (\<lambda>d. returnM (PlanLine n (subscription_label st) d))))))
            else returnM NoPlan) (\<lambda>line.
     bindM (call E (tu_id u) FetchPlans) (\<lambda>ps.
     bindM (elements ps) (\<lambda>xs.
     bindM (plans_keyboard E xs) (\<lambda>kb. reply E upd (SubscriptionText line) kb))))))"

definition smart_vpn_menu_callback :: "('b, 't) bot_env \<Rightarrow> update \<Rightarrow> ('b, 't, unit) bot" where
  "smart_vpn_menu_callback E upd = for_user upd (\<lambda>u.
     bindM (call E (tu_id u) GetRouting) (\<lambda>st.
     bindM (item ''mode'' st) (\<lambda>m.
     reply E upd (RoutingText (m = JStr ''smart_vpn'')) (smart_vpn_mode_keyboard m))))"

definition support_menu_callback :: "('b, 't) bot_env \<Rightarrow> update \<Rightarrow> ('b, 't, unit) bot" where
  "support_menu_callback E upd =
     bindM (set_user_data upd (\<lambda>d. d\<lparr>awaiting_support_message := True\<rparr>)) (\<lambda>_.
       case up_query upd of
         Some q \<Rightarrow> bindM (tg E (AnswerQuery (cq_id q) None)) (\<lambda>_. tg E (EditMessage (cq_id q) AskSupport (Some back_to_main)))
       | None \<Rightarrow> (case up_message upd of
             Some m \<Rightarrow> tg E (ReplyText (tm_id m) AskSupport (Some back_to_main))
           | None \<Rightarrow> returnM ()))"

section \<open>Subscription and payments\<close>

definition buy_plan_callback :: "('b, 't) bot_env \<Rightarrow> update \<Rightarrow> ('b, 't, unit) bot" where
  "buy_plan_callback E upd = on_press upd (\<lambda>q u d.
     bindM (last_id d) (\<lambda>i.
     bindM (call E (tu_id u) (BuyPlan i None)) (\<lambda>p.
     bindM (tg E (AnswerQuery (cq_id q) None)) (\<lambda>_.
     bindM (get_item ''checkout_url'' JNull p) (\<lambda>url.
     tg E (EditMessage (cq_id q) (if truthy url then PayAt url else PaymentOpened) (Some back_to_main)))))))"

section \<open>Devices\<close>

definition devices_list_callback :: "('b, 't) bot_env \<Rightarrow> update \<Rightarrow> ('b, 't, unit) bot" where
  "devices_list_callback E upd = for_user upd (\<lambda>u.
     bindM (call E (tu_id u) FetchDevices) (\<lambda>ds.
     bindM (elements ds) (\<lambda>ds.
     bindM (not_revoked ds) (\<lambda>live.
       if live = [] then bindM (devices_keyboard E []) (reply E upd NoDevicesYet)
       else bindM (devices_keyboard E live) (reply E upd MyDevices)))))"

text \<open>\<^verbatim>\<open>next((d for d in devices if d["id"] == device_id), None)\<close>\<close>

fun find_device :: "int \<Rightarrow> json list \<Rightarrow> ('s, bot_exn, json option) comp" where
  "find_device i [] = returnM None"
| "find_device i (d # ds) = bindM (item ''id'' d) (\<lambda>j. if py_eq j (JInt i) then returnM (Some d) else find_device i ds)"

definition device_manage_callback :: "('b, 't) bot_env \<Rightarrow> update \<Rightarrow> ('b, 't, unit) bot" where
  "device_manage_callback E upd = on_press upd (\<lambda>q u data.
     bindM (last_id data) (\<lambda>i.
     bindM (call E (tu_id u) FetchDevices) (\<lambda>ds.
     bindM (elements ds) (\<lambda>ds.
     bindM (find_device i ds) (\<lambda>found.
       case found of
         None \<Rightarrow> bindM (devices_keyboard E []) (reply E upd DeviceMissing)
       | Some d \<Rightarrow>
           bindM (item ''status'' d) (\<lambda>st.
           bindM (get_item ''protocol'' (JStr ''wireguard'') d) (\<lambda>p.
           bindM (item ''name'' d) (\<lambda>n.
           bindM (get_item ''assigned_ip'' JNull d) (\<lambda>ip.
           bindM (device_manage_keyboard E d) (\<lambda>kb.
           reply E upd (DeviceText n
             (if st = JStr ''active'' then ActiveLabel else if st = JStr ''disabled'' then DisabledLabel else OtherLabel st)
             (if p = JStr ''vless'' then ''VLESS'' else ''WireGuard'')
             (if truthy ip then Some ip else None)) kb))))))))))"

definition device_new_callback :: "('b, 't) bot_env \<Rightarrow> update \<Rightarrow> ('b, 't, unit) bot" where
  "device_new_callback E upd = (case up_query upd of None \<Rightarrow> returnM () | Some q \<Rightarrow> (case cq_data q of None \<Rightarrow> returnM ()
   | Some data \<Rightarrow>
       (case split_on CHR '':'' data of
          _ # _ # s # _ \<Rightarrow>
            bindM (requireM (BotPy ''ValueError'') (parse_int s)) (\<lambda>i.
            bindM (set_user_data upd (\<lambda>d. d\<lparr>awaiting_device_name := True, pending_device_server_id := Some (Some i),
                     pending_device_protocol := Some ''wireguard''\<rparr>)) (\<lambda>_.
            bindM (tg E (AnswerQuery (cq_id q) None)) (\<lambda>_.
            tg E (EditMessage (cq_id q) AskDeviceName None))))
        | _ \<Rightarrow>
            bindM (user_data_of upd) (\<lambda>_.
            bindM (tg E (AnswerQuery (cq_id q) None)) (\<lambda>_.
            tg E (EditMessage (cq_id q) AskProtocol (Some protocol_choice_keyboard)))))))"

definition device_new_protocol_callback :: "('b, 't) bot_env \<Rightarrow> update \<Rightarrow> ('b, 't, unit) bot" where
  "device_new_protocol_callback E upd = (case up_query upd of None \<Rightarrow> returnM () | Some q \<Rightarrow> (case cq_data q of None \<Rightarrow> returnM ()
   | Some data \<Rightarrow>
       bindM (set_user_data upd (\<lambda>d. d\<lparr>awaiting_device_name := True, pending_device_server_id := Some None,
                pending_device_protocol := Some (last (split_on CHR '':'' data))\<rparr>)) (\<lambda>_.
       bindM (tg E (AnswerQuery (cq_id q) None)) (\<lambda>_.
       tg E (EditMessage (cq_id q) AskDeviceName None)))))"

definition send_subscription_link :: "('b, 't) bot_env \<Rightarrow> update \<Rightarrow> json \<Rightarrow> json \<Rightarrow> json \<Rightarrow> ('b, 't, unit) bot" where
  "send_subscription_link E upd device_id url qr = (case up_chat upd of None \<Rightarrow> returnM () | Some chat \<Rightarrow>
     bindM (b64decode qr) (\<lambda>img.
     bindM (tg E (SendPhoto chat img (LinkReady url))) (\<lambda>_.
     tg E (SendMessage chat ManageLink (Some (subscription_link_keyboard E device_id))))))"

definition send_device_config :: "('b, 't) bot_env \<Rightarrow> update \<Rightarrow> json \<Rightarrow> ('b, 't, unit) bot" where
  "send_device_config E upd result =
     bindM (item ''device'' result) (\<lambda>dv.
     bindM (item ''name'' dv) (\<lambda>n.
     bindM (get_item ''protocol'' (JStr ''wireguard'') dv) (\<lambda>p.
     case up_chat upd of None \<Rightarrow> returnM () | Some chat \<Rightarrow>
       bindM (get_item ''config_text'' JNull result) (\<lambda>conf.
       bindM (get_item ''qr_code_base64'' JNull result) (\<lambda>qr.
       bindM (if p = JStr ''wireguard'' \<and> truthy conf \<and> truthy qr then
                bindM (b64decode qr) (\<lambda>img.
                bindM (tg E (SendPhoto chat img (DeviceReady n))) (\<lambda>_.
                bindM (str_of conf) (\<lambda>content.
                tg E (SendDocument chat (py_str (bot_repr E) n @ ''.conf'') content))))
              else tg E (SendMessage chat (DeviceAdded n) None)) (\<lambda>_.
       bindM (get_item ''subscription_url'' JNull result) (\<lambda>url.
         if truthy url then
           bindM (item ''id'' dv) (\<lambda>i.
           bindM (item ''subscription_qr_code_base64'' result) (\<lambda>lqr.
           send_subscription_link E upd i url lqr))
         else returnM ())))))))"

definition device_name_message_handler :: "('b, 't) bot_env \<Rightarrow> update \<Rightarrow> ('b, 't, unit) bot" where
  "device_name_message_handler E upd =
     bindM (user_data_of upd) (\<lambda>ud.
       if \<not> awaiting_device_name ud then returnM ()
       else on_text upd (\<lambda>m u s.
         bindM (set_user_data upd (\<lambda>d. d\<lparr>awaiting_device_name := False, pending_device_server_id := None,
                  pending_device_protocol := None\<rparr>)) (\<lambda>_.
         bindM (or_report
             (call E (tu_id u) (NewDevice (take 64 (strip s))
                 (case pending_device_server_id ud of None \<Rightarrow> None | Some v \<Rightarrow> v)
                 (case pending_device_protocol ud of None \<Rightarrow> ''wireguard'' | Some p \<Rightarrow> p)))
             (\<lambda>msg. tg E (ReplyText (tm_id m) (CreateFailed msg) (Some main_menu)))) (\<lambda>r.
         case r of None \<Rightarrow> returnM () | Some result \<Rightarrow> send_device_config E upd result))))"

definition device_reissue_callback :: "('b, 't) bot_env \<Rightarrow> update \<Rightarrow> ('b, 't, unit) bot" where
  "device_reissue_callback E upd = on_press upd (\<lambda>q u data.
     bindM (last_id data) (\<lambda>i.
     bindM (tg E (AnswerQuery (cq_id q) (Some Reissuing))) (\<lambda>_.
     bindM (or_report (call E (tu_id u) (Reissue i)) (\<lambda>msg. tg E (EditMessage (cq_id q) (ReissueFailed msg) None))) (\<lambda>r.
     case r of None \<Rightarrow> returnM () | Some result \<Rightarrow> send_device_config E upd result))))"

definition toggle_device :: "('b, 't) bot_env \<Rightarrow> update \<Rightarrow> (int \<Rightarrow> client_call) \<Rightarrow> ('b, 't, unit) bot" where
  "toggle_device E upd act = on_press upd (\<lambda>q u data.
     bindM (last_id data) (\<lambda>i.
     bindM (call E (tu_id u) (act i)) (\<lambda>_.
     bindM (tg E (AnswerQuery (cq_id q) (Some DoneText))) (\<lambda>_.
     device_manage_callback E upd))))"

definition device_revoke_callback :: "('b, 't) bot_env \<Rightarrow> update \<Rightarrow> ('b, 't, unit) bot" where
  "device_revoke_callback E upd = on_press upd (\<lambda>q u data.
     bindM (last_id data) (\<lambda>i.
     bindM (call E (tu_id u) (Revoke i)) (\<lambda>_.
     bindM (tg E (AnswerQuery (cq_id q) (Some DeviceGone))) (\<lambda>_.
     devices_list_callback E upd))))"

definition device_subscription_link_view_callback :: "('b, 't) bot_env \<Rightarrow> update \<Rightarrow> ('b, 't, unit) bot" where
  "device_subscription_link_view_callback E upd = on_press upd (\<lambda>q u data.
     bindM (last_id data) (\<lambda>i.
     bindM (on_backend (view_link (bot_client E) (tu_id u) i)) (\<lambda>l.
     bindM (if l = JNull then returnM NoLinkYet
            else bindM (item ''status'' l) (\<lambda>st. bindM (item ''token_prefix'' l) (\<lambda>p.
                 bindM (item ''created_at'' l) (\<lambda>c. bindM (format_date E c) (\<lambda>d.
                 returnM (LinkText (st = JStr ''active'') p d)))))) (\<lambda>text.
     reply E upd text (subscription_link_keyboard E (JInt i))))))"

definition device_subscription_link_rotate_callback :: "('b, 't) bot_env \<Rightarrow> update \<Rightarrow> ('b, 't, unit) bot" where
  "device_subscription_link_rotate_callback E upd = on_press upd (\<lambda>q u data.
     bindM (last_id data) (\<lambda>i.
     bindM (tg E (AnswerQuery (cq_id q) (Some Rotating))) (\<lambda>_.
     bindM (or_report (call E (tu_id u) (RotateLink i)) (\<lambda>msg. tg E (EditMessage (cq_id q) (RotateFailed msg) None))) (\<lambda>r.
     case r of None \<Rightarrow> returnM () | Some result \<Rightarrow>
       bindM (item ''subscription_url'' result) (\<lambda>url.
       bindM (item ''qr_code_base64'' result) (\<lambda>qr.
       send_subscription_link E upd (JInt i) url qr))))))"

section \<open>Smart VPN\<close>

definition smart_vpn_set_mode_callback :: "('b, 't) bot_env \<Rightarrow> update \<Rightarrow> ('b, 't, unit) bot" where
  "smart_vpn_set_mode_callback E upd = on_press upd (\<lambda>q u data.
     bindM (call E (tu_id u) (PutMode (last (split_max 2 CHR '':'' data)))) (\<lambda>_.
     bindM (tg E (AnswerQuery (cq_id q) (Some ModeChanged))) (\<lambda>_.
     smart_vpn_menu_callback E upd)))"

definition smart_vpn_categories_callback :: "('b, 't) bot_env \<Rightarrow> update \<Rightarrow> ('b, 't, unit) bot" where
  "smart_vpn_categories_callback E upd = for_user upd (\<lambda>u.
     bindM (call E (tu_id u) GetRouting) (\<lambda>st.
     bindM (item ''enabled_category_ids'' st) (\<lambda>ids. bindM (as_set ids) (\<lambda>enabled.
     bindM (item ''categories'' st) (\<lambda>cs. bindM (elements cs) (\<lambda>cs.
     bindM (smart_vpn_categories_keyboard E cs enabled) (\<lambda>kb. reply E upd PickCategories kb)))))))"

definition smart_vpn_toggle_category_callback :: "('b, 't) bot_env \<Rightarrow> update \<Rightarrow> ('b, 't, unit) bot" where
  "smart_vpn_toggle_category_callback E upd = on_press upd (\<lambda>q u data.
     bindM (last_id data) (\<lambda>i.
     bindM (call E (tu_id u) GetRouting) (\<lambda>st.
     bindM (item ''enabled_category_ids'' st) (\<lambda>ids. bindM (as_set ids) (\<lambda>enabled.
     bindM (call E (tu_id u) (PutCategory i (\<not> in_set (JInt i) enabled))) (\<lambda>_.
     bindM (tg E (AnswerQuery (cq_id q) None)) (\<lambda>_.
     smart_vpn_categories_callback E upd)))))))"

definition smart_vpn_add_domain_prompt_callback :: "('b, 't) bot_env \<Rightarrow> update \<Rightarrow> ('b, 't, unit) bot" where
  "smart_vpn_add_domain_prompt_callback E upd = (case up_query upd of None \<Rightarrow> returnM () | Some q \<Rightarrow>
     bindM (set_user_data upd (\<lambda>d. d\<lparr>awaiting_custom_domain := True\<rparr>)) (\<lambda>_.
     bindM (tg E (AnswerQuery (cq_id q) None)) (\<lambda>_.
     tg E (EditMessage (cq_id q) AskDomain None))))"

definition custom_domain_message_handler :: "('b, 't) bot_env \<Rightarrow> update \<Rightarrow> ('b, 't, unit) bot" where
  "custom_domain_message_handler E upd =
     bindM (user_data_of upd) (\<lambda>ud.
       if \<not> awaiting_custom_domain ud then returnM ()
       else on_text upd (\<lambda>m u s.
         let domain = take 255 (lower (strip s)) in
         bindM (set_user_data upd (\<lambda>d. d\<lparr>awaiting_custom_domain := False\<rparr>)) (\<lambda>_.
         bindM (call E (tu_id u) (PostDomain domain ''vpn'')) (\<lambda>_.
         tg E (ReplyText (tm_id m) (DomainAdded domain) None)))))"

section \<open>Support\<close>

definition support_message_handler :: "('b, 't) bot_env \<Rightarrow> update \<Rightarrow> ('b, 't, unit) bot" where
  "support_message_handler E upd =
     bindM (user_data_of upd) (\<lambda>ud.
       if \<not> awaiting_support_message ud then returnM ()
       else on_text upd (\<lambda>m u s.
         bindM (set_user_data upd (\<lambda>d. d\<lparr>awaiting_support_message := False\<rparr>)) (\<lambda>_.
         bindM (call E (tu_id u) (OpenTicket (take 60 (strip s)) (strip s))) (\<lambda>_.
         reply E upd TicketOpened back_to_main))))"

section \<open>Which handler gets an update\<close>

datatype handler =
    HStart | HProfile | HVpn | HServers | HSubscription | HDevices | HSupport | HSmart
  | HNewProtocol | HNewDevice | HManage | HReissue | HDisable | HEnable | HRevoke | HLinkView | HLinkRotate
  | HBuy | HSetMode | HCategories | HToggleCategory | HAddDomain
  | HDeviceName | HCustomDomain | HSupportMessage

fun run_handler :: "('b, 't) bot_env \<Rightarrow> handler \<Rightarrow> update \<Rightarrow> ('b, 't, unit) bot" where
  "run_handler E HStart = start_command E"
| "run_handler E HProfile = profile_callback E"
| "run_handler E HVpn = main_menu_callback E"
| "run_handler E HServers = servers_callback E"
| "run_handler E HSubscription = subscription_menu_callback E"
| "run_handler E HDevices = devices_list_callback E"
| "run_handler E HSupport = support_menu_callback E"
| "run_handler E HSmart = smart_vpn_menu_callback E"
| "run_handler E HNewProtocol = device_new_protocol_callback E"
| "run_handler E HNewDevice = device_new_callback E"
| "run_handler E HManage = device_manage_callback E"
| "run_handler E HReissue = device_reissue_callback E"
| "run_handler E HDisable = (\<lambda>upd. toggle_device E upd Disable)"
| "run_handler E HEnable = (\<lambda>upd. toggle_device E upd Enable)"
| "run_handler E HRevoke = device_revoke_callback E"
| "run_handler E HLinkView = device_subscription_link_view_callback E"
| "run_handler E HLinkRotate = device_subscription_link_rotate_callback E"
| "run_handler E HBuy = buy_plan_callback E"
| "run_handler E HSetMode = smart_vpn_set_mode_callback E"
| "run_handler E HCategories = smart_vpn_categories_callback E"
| "run_handler E HToggleCategory = smart_vpn_toggle_category_callback E"
| "run_handler E HAddDomain = smart_vpn_add_domain_prompt_callback E"
| "run_handler E HDeviceName = device_name_message_handler E"
| "run_handler E HCustomDomain = custom_domain_message_handler E"
| "run_handler E HSupportMessage = support_message_handler E"

definition command_handlers :: "(string \<times> handler) list" where
  "command_handlers = [(''start'', HStart), (''profile'', HProfile), (''vpn'', HVpn), (''servers'', HServers),
     (''subscription'', HSubscription), (''devices'', HDevices), (''support'', HSupport), (''smartvpn'', HSmart)]"

text \<open>
  The patterns of \<^verbatim>\<open>build_application\<close>, matched at the start of the data; \<^verbatim>\<open>$\<close> also matches before a final
  line break.
\<close>

datatype pattern = Exactly string | StartsWith string

fun matches :: "pattern \<Rightarrow> string \<Rightarrow> bool" where
  "matches (Exactly p) s = (s = p \<or> s = p @ [CHR 10])"
| "matches (StartsWith p) s = starts_with s p"

definition callback_handlers :: "(pattern \<times> handler) list" where
  "callback_handlers =
    [(Exactly ''menu:main'', HVpn), (Exactly ''menu:profile'', HProfile), (Exactly ''menu:servers'', HServers),
     (Exactly ''menu:subscription'', HSubscription), (Exactly ''menu:devices'', HDevices),
     (Exactly ''menu:smart'', HSmart), (Exactly ''menu:support'', HSupport),
     (StartsWith ''device:new:proto:'', HNewProtocol), (StartsWith ''device:new'', HNewDevice),
     (StartsWith ''device:manage:'', HManage), (StartsWith ''device:reissue:'', HReissue),
     (StartsWith ''device:disable:'', HDisable), (StartsWith ''device:enable:'', HEnable),
     (StartsWith ''device:revoke:'', HRevoke), (StartsWith ''device:sublink:view:'', HLinkView),
     (StartsWith ''device:sublink:rotate:'', HLinkRotate), (StartsWith ''plan:buy:'', HBuy),
     (StartsWith ''smart:mode:'', HSetMode), (Exactly ''smart:categories'', HCategories),
     (StartsWith ''smart:cat:'', HToggleCategory), (Exactly ''smart:add_domain'', HAddDomain)]"

definition callback_handler :: "string \<Rightarrow> handler option" where
  "callback_handler data = map_option snd (find (\<lambda>(p, h). matches p data) callback_handlers)"

text \<open>The message of an update that commands and text handlers look at.\<close>

definition sent_message :: "update \<Rightarrow> tg_message option" where
  "sent_message upd = (case up_message upd of Some m \<Rightarrow> Some m | None \<Rightarrow> up_edited upd)"

definition command_handler :: "update \<Rightarrow> handler option" where
  "command_handler upd = Option.bind (sent_message upd) (\<lambda>m. Option.bind (tm_command m) (\<lambda>c. map_of command_handlers (lower c)))"

definition plain_text :: "update \<Rightarrow> bool" where
  "plain_text upd = (case sent_message upd of Some m \<Rightarrow> tm_text m \<noteq> None \<and> tm_command m = None | None \<Rightarrow> False)"

text \<open>The handler of each group for an update, group by group.\<close>

definition group_handlers :: "update \<Rightarrow> handler list" where
  "group_handlers upd =
     (case command_handler upd of Some h \<Rightarrow> [h]
      | None \<Rightarrow> (case Option.bind (Option.bind (up_query upd) cq_data) callback_handler of Some h \<Rightarrow> [h] | None \<Rightarrow> [])) @
     (if plain_text upd then [HDeviceName, HCustomDomain, HSupportMessage] else [])"

text \<open>\<^verbatim>\<open>on_error\<close>; an error of its own is logged by the dispatcher.\<close>

definition effective_message :: "update \<Rightarrow> tg_message option" where
  "effective_message upd =
     (case up_message upd of Some m \<Rightarrow> Some m
      | None \<Rightarrow> (case up_edited upd of Some m \<Rightarrow> Some m | None \<Rightarrow> (if up_query upd = None then None else up_origin upd)))"

definition on_error :: "('b, 't) bot_env \<Rightarrow> update \<Rightarrow> ('b, 't, unit) bot" where
  "on_error E upd = (case effective_message upd of
       None \<Rightarrow> returnM ()
     | Some m \<Rightarrow> catchM (tg E (ReplyText (tm_id m) WentWrong None)) (\<lambda>_. returnM ()))"

fun run_groups :: "('b, 't) bot_env \<Rightarrow> update \<Rightarrow> handler list \<Rightarrow> ('b, 't, unit) bot" where
  "run_groups E upd [] = returnM ()"
| "run_groups E upd (h # hs) =
     bindM (catchM (bindM (run_handler E h upd) (\<lambda>_. returnM True))
              (\<lambda>_. bindM (on_error E upd) (\<lambda>_. returnM (bot_goes_on E)))) (\<lambda>go.
     if go then run_groups E upd hs else returnM ())"

definition process_update :: "('b, 't) bot_env \<Rightarrow> update \<Rightarrow> ('b, 't, unit) bot" where
  "process_update E upd = run_groups E upd (group_handlers upd)"

text \<open>Updates are processed one after the other.\<close>

definition process_updates :: "('b, 't) bot_env \<Rightarrow> update list \<Rightarrow> ('b, 't, unit) bot" where
  "process_updates E us = foreachM us (process_update E)"

section \<open>Notifications\<close>

text \<open>\<^verbatim>\<open>notify_server.py\<close>: the counted outcome, the status of the response and the next state of Telegram.\<close>

definition notify ::
  "('b, 't) bot_env \<Rightarrow> string option \<Rightarrow> int \<Rightarrow> string \<Rightarrow> 't \<Rightarrow> (string \<times> nat) \<times> 't" where
  "notify E token tid msg t =
     (if absent token \<or> \<not> constant_time_compare (the token) (ce_token (bot_client E)) then ((''unauthorized'', 401), t)
      else case bot_telegram E (SendMessage tid (Notice msg) None) t of
          (None, t') \<Rightarrow> ((''sent'', 204), t')
        | (Some _, t') \<Rightarrow> ((''failed'', 204), t'))"

end
