(* ===== verification/BotSession.thy ===== *)
theory BotSession
  imports Bot
begin

text \<open>
  What the bot can do to the backend. A handler touches the backend only through its client, and only for the
  user of the update: the locale \<^verbatim>\<open>acting_for\<close> takes a statement about the backend that every call for that user
  maintains and shows that every handler, and every run of updates of that user, maintains it. It is
  interpreted three times: with the log of calls made, with the reachable states of the backend, and with
  what belongs to somebody else.
\<close>

section \<open>Pieces that leave the backend alone\<close>

lemma preserves_Pair [pres]: "preserves I (Pair r)"
  by (simp add: preserves_def)

lemma preserves_tg [pres]: "preserves (\<lambda>s. J (bs_backend s)) (tg E c)"
  by (rule preservesI) (simp add: tg_def split: prod.split option.split)

lemma preserves_user_data [pres]:
  "preserves (\<lambda>s. J (bs_backend s)) (user_data_of upd)"
  "preserves (\<lambda>s. J (bs_backend s)) (set_user_data upd f)"
  by (auto simp: user_data_of_def set_user_data_def split: option.split intro!: pres intro: preserves_modify)

lemma preserves_python [pres]:
  "preserves I (item k j)" "preserves I (get_item k d j)" "preserves I (elements j)" "preserves I (as_set j)"
  "preserves I (str_of j)" "preserves I (last_id t)" "preserves I (b64decode j)" "preserves I (find_device i ds)"
proof -
  show e: "preserves I (elements j)" for I :: "'a \<Rightarrow> bool" and j
    by (cases j) (simp_all add: pres)
  show "preserves I (as_set j)"
    by (auto simp: as_set_def intro!: pres e)
  have i: "preserves I (item k j)" for I :: "'b \<Rightarrow> bool" and k j
    by (auto simp: item_def intro!: pres)
  show "preserves I (item k j)" by (auto simp: item_def intro!: pres)
  show "preserves I (find_device i ds)"
    by (induction ds) (auto simp: item_def intro!: pres)
qed (auto simp: get_item_def str_of_def last_id_def b64decode_def intro!: pres split: json.split)

lemma preserves_keyboards [pres]:
  "preserves I (devices_keyboard E ds)" "preserves I (device_manage_keyboard E d)" "preserves I (plans_keyboard E ps)"
  "preserves I (smart_vpn_categories_keyboard E cs ids)" "preserves I (servers_keyboard E ss)"
  "preserves I (not_revoked ds)" "preserves I (format_date E j)"
  unfolding devices_keyboard_def device_manage_keyboard_def plans_keyboard_def smart_vpn_categories_keyboard_def
    servers_keyboard_def not_revoked_def format_date_def Let_def
  by (auto intro!: pres preserves_mapM split: option.split prod.split)

lemma preserves_reply [pres]: "preserves (\<lambda>s. J (bs_backend s)) (reply E upd text kb)"
  by (auto simp: reply_def intro!: pres split: option.split)

lemma preserves_chats [pres]:
  "preserves (\<lambda>s. J (bs_backend s)) (send_subscription_link E upd i url qr)"
  "preserves (\<lambda>s. J (bs_backend s)) (send_device_config E upd r)"
  unfolding send_device_config_def send_subscription_link_def
  by (auto intro!: pres split: option.split)

lemma preserves_wrappers [pres]:
  "(\<And>q u d. up_user upd = Some u \<Longrightarrow> preserves I (k q u d)) \<Longrightarrow> preserves I (on_press upd k)"
  "(\<And>m u d. up_user upd = Some u \<Longrightarrow> preserves I (h m u d)) \<Longrightarrow> preserves I (on_text upd h)"
  "(\<And>u. up_user upd = Some u \<Longrightarrow> preserves I (g u)) \<Longrightarrow> preserves I (for_user upd g)"
  by (auto simp: on_press_def on_text_def for_user_def intro!: pres split: option.split)

lemma preserves_or_report [pres]:
  "preserves I m \<Longrightarrow> (\<And>msg. preserves I (h msg)) \<Longrightarrow> preserves I (or_report m h)"
  by (auto simp: or_report_def intro!: pres split: bot_exn.split)

lemma preserves_on_backend [pres]: "preserves J m \<Longrightarrow> preserves (\<lambda>s. J (bs_backend s)) (on_backend m)"
  by (auto simp: preserves_def on_backend_def zoomM_def split: prod.split)

section \<open>The bot acting for one user\<close>

text \<open>The user an update is from.\<close>

definition sent_by :: "int \<Rightarrow> update \<Rightarrow> bool" where
  "sent_by tid upd \<longleftrightarrow> (\<forall>u. up_user upd = Some u \<longrightarrow> tu_id u = tid)"

lemma sent_byD: "sent_by tid upd \<Longrightarrow> up_user upd = Some u \<Longrightarrow> tu_id u = tid"
  by (simp add: sent_by_def)

locale acting_for =
  fixes E :: "('b, 't) bot_env" and tid :: int and J :: "'b \<Rightarrow> bool"
  assumes client_keeps: "preserves J (client (bot_client E) tid c)"
begin

lemma call_keeps: "preserves (\<lambda>s. J (bs_backend s)) (call E tid c)"
  unfolding call_def by (rule preserves_on_backend [OF client_keeps])

lemma view_link_keeps: "preserves J (view_link (bot_client E) tid i)"
  by (auto simp: view_link_def intro!: pres client_keeps split: bot_exn.split)

lemma status_keeps: "preserves (\<lambda>s. J (bs_backend s)) (build_status_text E tid)"
  unfolding build_status_text_def by (auto intro!: pres call_keeps)

lemma menus_keep:
  assumes "sent_by tid upd"
  shows "preserves (\<lambda>s. J (bs_backend s)) (main_menu_callback E upd)"
    and "preserves (\<lambda>s. J (bs_backend s)) (start_command E upd)"
    and "preserves (\<lambda>s. J (bs_backend s)) (profile_callback E upd)"
    and "preserves (\<lambda>s. J (bs_backend s)) (servers_callback E upd)"
    and "preserves (\<lambda>s. J (bs_backend s)) (subscription_menu_callback E upd)"
    and "preserves (\<lambda>s. J (bs_backend s)) (smart_vpn_menu_callback E upd)"
    and "preserves (\<lambda>s. J (bs_backend s)) (support_menu_callback E upd)"
    and "preserves (\<lambda>s. J (bs_backend s)) (devices_list_callback E upd)"
    and "preserves (\<lambda>s. J (bs_backend s)) (smart_vpn_categories_callback E upd)"
  unfolding main_menu_callback_def start_command_def profile_callback_def servers_callback_def
    subscription_menu_callback_def smart_vpn_menu_callback_def support_menu_callback_def devices_list_callback_def
    smart_vpn_categories_callback_def
  by (auto simp: sent_byD [OF assms] intro!: pres call_keeps status_keeps split: option.split)

lemma manage_keeps:
  assumes "sent_by tid upd"
  shows "preserves (\<lambda>s. J (bs_backend s)) (device_manage_callback E upd)"
  unfolding device_manage_callback_def
  by (auto simp: sent_byD [OF assms] intro!: pres call_keeps split: option.split)

lemma presses_keep:
  assumes "sent_by tid upd"
  shows "preserves (\<lambda>s. J (bs_backend s)) (buy_plan_callback E upd)"
    and "preserves (\<lambda>s. J (bs_backend s)) (device_new_callback E upd)"
    and "preserves (\<lambda>s. J (bs_backend s)) (device_new_protocol_callback E upd)"
    and "preserves (\<lambda>s. J (bs_backend s)) (device_reissue_callback E upd)"
    and "preserves (\<lambda>s. J (bs_backend s)) (toggle_device E upd act)"
    and "preserves (\<lambda>s. J (bs_backend s)) (device_revoke_callback E upd)"
    and "preserves (\<lambda>s. J (bs_backend s)) (device_subscription_link_view_callback E upd)"
    and "preserves (\<lambda>s. J (bs_backend s)) (device_subscription_link_rotate_callback E upd)"
    and "preserves (\<lambda>s. J (bs_backend s)) (smart_vpn_set_mode_callback E upd)"
    and "preserves (\<lambda>s. J (bs_backend s)) (smart_vpn_toggle_category_callback E upd)"
    and "preserves (\<lambda>s. J (bs_backend s)) (smart_vpn_add_domain_prompt_callback E upd)"
  unfolding buy_plan_callback_def device_new_callback_def device_new_protocol_callback_def device_reissue_callback_def
    toggle_device_def device_revoke_callback_def device_subscription_link_view_callback_def
    device_subscription_link_rotate_callback_def smart_vpn_set_mode_callback_def smart_vpn_toggle_category_callback_def
    smart_vpn_add_domain_prompt_callback_def
  by (auto simp: sent_byD [OF assms] intro!: pres call_keeps view_link_keeps menus_keep [OF assms] manage_keeps [OF assms]
      split: option.split list.split)

lemma texts_keep:
  assumes "sent_by tid upd"
  shows "preserves (\<lambda>s. J (bs_backend s)) (device_name_message_handler E upd)"
    and "preserves (\<lambda>s. J (bs_backend s)) (custom_domain_message_handler E upd)"
    and "preserves (\<lambda>s. J (bs_backend s)) (support_message_handler E upd)"
  unfolding device_name_message_handler_def custom_domain_message_handler_def support_message_handler_def Let_def
  by (auto simp: sent_byD [OF assms] intro!: pres call_keeps split: option.split)

lemma handler_keeps: "sent_by tid upd \<Longrightarrow> preserves (\<lambda>s. J (bs_backend s)) (run_handler E h upd)"
  by (cases h) (simp_all add: menus_keep manage_keeps presses_keep texts_keep)

lemma groups_keep: "sent_by tid upd \<Longrightarrow> preserves (\<lambda>s. J (bs_backend s)) (run_groups E upd hs)"
  by (induction hs) (auto simp: on_error_def intro!: pres handler_keeps split: option.split)

lemma update_keeps: "sent_by tid upd \<Longrightarrow> preserves (\<lambda>s. J (bs_backend s)) (process_update E upd)"
  unfolding process_update_def by (rule groups_keep)

lemma updates_keep:
  "(\<And>upd. upd \<in> set us \<Longrightarrow> sent_by tid upd) \<Longrightarrow> preserves (\<lambda>s. J (bs_backend s)) (process_updates E us)"
  unfolding process_updates_def by (rule preserves_foreach) (rule update_keeps)

end
section \<open>The bot before a recorder\<close>

text \<open>A backend that keeps the calls it gets and answers as it likes.\<close>

definition recording_bot ::
  "(http_call \<Rightarrow> http_call list \<Rightarrow> delivered) \<Rightarrow> (http_call list, 't) bot_env \<Rightarrow> (http_call list, 't) bot_env" where
  "recording_bot f E = E\<lparr>bot_client := (bot_client E)\<lparr>ce_http := (\<lambda>c b. (f c b, b @ [c]))\<rparr>\<rparr>"

lemma recorded_call:
  "snd (client (bot_client (recording_bot f E)) tid c l) = l @ [client_http_call (bot_client E) tid c]"
  by (simp add: recording_bot_def client_eq client_http_call_def bot_call_def split: prod.split delivered.split)

interpretation recorder: acting_for "recording_bot f E" tid "prefix l" for f E tid l
  by unfold_locales (simp add: preserves_def recorded_call)

section \<open>The bot before the backend\<close>

definition deployed_bot :: "'w site \<Rightarrow> ('w deployed, 't) bot_env \<Rightarrow> ('w deployed, 't) bot_env" where
  "deployed_bot S E = E\<lparr>bot_client := (bot_client E)\<lparr>ce_http := site_http S\<rparr>\<rparr>"

lemma keeps_world: "keeps (\<lambda>d. d) m \<Longrightarrow> keeps (\<lambda>w. w) (on_db m)"
proof (rule keepsI)
  fix w :: "'b world"
  assume k: "keeps (\<lambda>d. d) m"
  obtain r d where m: "m (db w) = (r, d)" by fastforce
  then have "d = db w" using keepsD [OF k m] by simp
  then show "snd (on_db m w) = w" using m by (simp add: on_db_def zoomM_def)
qed

lemma keeps_require_role [frame]: "keeps F (require_admin_role roles a)"
  unfolding require_admin_role_def by (intro frame)

lemma keeps_require_service [frame]: "keeps F (require_internal_service cfg token)"
  unfolding require_internal_service_def by (intro frame)

lemma keeps_refuse: "keeps (\<lambda>w. w) (refuse_unparsed V hs e)"
proof -
  have "keeps (\<lambda>w. w) (on_db (require_internal_service cfg token))"
    "keeps (\<lambda>w. w) (on_db (get_current_user cfg token i))"
    "keeps (\<lambda>w. w) (on_db (get_current_admin k cfg now hdr))" for cfg token i k now hdr
    by (rule keeps_world, rule frame)+
  then show ?thesis
    unfolding refuse_unparsed_def Let_def by (auto intro!: frame split: option.split)
qed

text \<open>What a call of the bot's client makes of the backend: nothing, or what the intended request makes of it.\<close>

definition bot_credentials_for :: "'b client_env \<Rightarrow> int \<Rightarrow> client_call \<Rightarrow> credentials" where
  "bot_credentials_for C tid c =
     \<lparr>x_internal_token = Some (ce_token C), x_telegram_user_id = acting_user tid c, authorization = None\<rparr>"

lemma client_world:
  assumes "client (bot_client (deployed_bot S E)) tid c p = (r, p')"
  obtains "dp_world p' = dp_world p"
  | req res n where "intended tid c = Some req"
      and "api_call (st_request_id S n) (st_context_id S) (st_api S n) (bot_credentials_for (bot_client E) tid c)
        req (dp_world p) = (res, dp_world p')"
proof -
  let ?c = "client_http_call (bot_client (deployed_bot S E)) tid c"
  let ?served = "snd (serve_limited S (dp_calls p) ?c (dp_world p))"
  have "dp_world p' = dp_world p \<or> dp_world p' = ?served"
    using assms by (auto simp: client_eq deployed_bot_def site_http_def Let_def split: prod.splits delivered.splits fault.splits)
  then consider "dp_world p' = dp_world p" | "dp_world p' = ?served" "st_limited S (dp_calls p) = None"
    by (cases "st_limited S (dp_calls p)") (auto simp: serve_limited_def)
  then show ?thesis
  proof cases
    case 1
    then show ?thesis by (rule that(1))
  next
    case 2
    obtain e caps where route: "route_of ?c = Some (e, caps)" and parsed: "parsed_call S ?c e caps = intended tid c"
      using client_call_routed [of _ tid c S] by blast
    obtain res w where call: "endpoint_call S (dp_calls p) ?c e caps (dp_world p) = (res, w)" by fastforce
    then have w: "dp_world p' = w"
      using 2 by (simp add: serve_limited_def serve_http_routed [OF route] split: sum.splits)
    show ?thesis
    proof (cases "intended tid c")
      case None
      obtain x w1 where refused: "refuse_unparsed (st_api S (dp_calls p)) (hc_headers ?c) e (dp_world p) = (x, w1)"
        by fastforce
      then have "w1 = dp_world p" using keepsD [OF keeps_refuse refused] by simp
      then have "w = dp_world p"
        using call parsed None refused by (auto simp: endpoint_call_def with_session_def split: sum.splits)
      then show ?thesis using w that(1) by simp
    next
      case (Some req)
      have "credentials_of (hc_headers ?c) = bot_credentials_for (bot_client E) tid c"
        by (simp add: client_http_call_def bot_credentials_for_def acting_user_def bot_credentials deployed_bot_def split: prod.splits)
      then show ?thesis
        using call parsed Some w that(2) [of req "dp_calls p" res] by (simp add: endpoint_call_def)
    qed
  qed
qed

interpretation backend: acting_for "deployed_bot S E" tid "\<lambda>p. reachable (dp_world p)" for S E tid
proof
  fix c
  show "preserves (\<lambda>p. reachable (dp_world p)) (client (bot_client (deployed_bot S E)) tid c)"
  proof (rule preservesI)
    fix p :: "'a deployed"
    assume ok: "reachable (dp_world p)"
    obtain r p' where run: "client (bot_client (deployed_bot S E)) tid c p = (r, p')" by fastforce
    from run have "reachable (dp_world p')"
      by (rule client_world) (use ok in \<open>auto intro: reachable.step backend_step.request\<close>)
    then show "reachable (dp_world (snd (client (bot_client (deployed_bot S E)) tid c p)))"
      using run by simp
  qed
qed

section \<open>What belongs to others\<close>

text \<open>The rows of a user, and the tables that belong to nobody.\<close>

definition belongings ::
  "int \<Rightarrow> database \<Rightarrow> device list \<times> subscription list \<times> payment list \<times> support_ticket list \<times>
     user_category_preference list \<times> user_custom_domain list \<times> user_routing_profile list" where
  "belongings uid d =
     (filter (\<lambda>r. dev_user_id r = uid) (rows (devices d)), filter (\<lambda>r. sub_user_id r = uid) (rows (subscriptions d)),
      filter (\<lambda>r. pay_user_id r = uid) (rows (payments d)), filter (\<lambda>r. tick_user_id r = uid) (rows (support_tickets d)),
      filter (\<lambda>r. pref_user_id r = uid) (rows (user_category_preferences d)),
      filter (\<lambda>r. cd_user_id r = uid) (rows (user_custom_domains d)),
      filter (\<lambda>r. urp_user_id r = uid) (rows (user_routing_profiles d)))"

definition common_tables where
  "common_tables d = (admin_users d, audit_logs d, plans d, promo_codes d, promo_redemptions d, referrals d,
     routing_categories d, routing_rules d, vless_server_configs d)"

text \<open>A user whose account and belongings, with the common tables, are what they were.\<close>

definition intact :: "user \<Rightarrow> database \<Rightarrow> database \<Rightarrow> bool" where
  "intact v d d' \<longleftrightarrow> v \<in> set (rows (users d')) \<and> belongings (rid v) d' = belongings (rid v) d \<and>
     common_tables d' = common_tables d"

lemma others_filter:
  "others owner uid t' = others owner uid t \<Longrightarrow> uid \<noteq> i \<Longrightarrow>
     filter (\<lambda>r. owner r = i) (rows t') = filter (\<lambda>r. owner r = i) (rows t)"
proof -
  assume eq: "others owner uid t' = others owner uid t" and "uid \<noteq> i"
  then have "filter (\<lambda>r. owner r = i) (rows s) = filter (\<lambda>r. owner r = i) (others owner uid s)" for s
    by (auto simp: others_def intro: filter_cong)
  then show ?thesis using eq by metis
qed

lemma same_for_others_intact:
  assumes "same_for_others uid d d'" and "uid \<noteq> rid v" and "v \<in> set (rows (users d))"
  shows "intact v d d'"
proof -
  have "belongings (rid v) d' = belongings (rid v) d"
    unfolding belongings_def prod.inject
    using assms(1) by (intro conjI; intro others_filter [OF _ assms(2)]) (simp_all add: same_for_others_def)
  then show ?thesis
    using assms(1,3) by (simp add: same_for_others_def intact_def common_tables_def)
qed

lemma intact_trans: "intact v d d1 \<Longrightarrow> intact v d1 d2 \<Longrightarrow> intact v d d2"
  by (simp add: intact_def)
lemma intact_refl: "v \<in> set (rows (users d)) \<Longrightarrow> intact v d d"
  by (simp add: intact_def)

lemma keeps_get_or_create:
  "(\<And>t d. F (d\<lparr>users := t\<rparr>) = F d) \<Longrightarrow> keeps F (get_or_create_from_telegram now p)"
  unfolding get_or_create_from_telegram_def get_by_telegram_id_def by (intro frame) simp_all

lemma get_or_create_users:
  assumes "get_or_create_from_telegram now p d = (r, d')" and "wf_table (users d)"
    and "v \<in> set (rows (users d))" and "telegram_id v \<noteq> ta_telegram_id p"
  shows "v \<in> set (rows (users d'))"
proof -
  obtain x t where look: "repo_one (\<lambda>u. telegram_id u = ta_telegram_id p) (users d) = (x, t)" by fastforce
  have t: "t = users d"
    using read_only_state [OF repo_one_read_only look] .
  show ?thesis
  proof (cases x)
    case (Inl e)
    then show ?thesis
      using assms(1,3) look t by (simp add: get_or_create_from_telegram_def get_by_telegram_id_def on_users_def zoomM_def bindM_def)
  next
    case (Inr found)
    show ?thesis
    proof (cases found)
      case None
      then show ?thesis
        using assms(1,3) look t Inr
        by (auto simp: get_or_create_from_telegram_def get_by_telegram_id_def on_users_def zoomM_def bindM_def
            repo_add_def Let_def split: prod.splits if_splits)
    next
      case (Some u)
      then have u: "u \<in> set (rows (users d))" "telegram_id u = ta_telegram_id p"
        using look Inr repo_one_found by fastforce+
      then have "rid v \<noteq> rid u"
        using assms(2-4) by (auto simp: wf_table_def distinct_map dest: inj_onD)
      then show ?thesis
        using assms(1,3) look t Inr Some
        by (auto simp: get_or_create_from_telegram_def get_by_telegram_id_def on_users_def zoomM_def bindM_def
            modifyM_def returnM_def rows_update image_iff intro!: bexI [of _ v])
    qed
  qed
qed

lemma get_or_create_intact:
  assumes "get_or_create_from_telegram now p d = (r, d')" and "wf_table (users d)"
    and "v \<in> set (rows (users d))" and "telegram_id v \<noteq> ta_telegram_id p"
  shows "intact v d d'"
proof -
  have "keeps (belongings (rid v)) (get_or_create_from_telegram now p)"
    by (rule keeps_get_or_create) (simp add: belongings_def)
  moreover have "keeps common_tables (get_or_create_from_telegram now p)"
    by (rule keeps_get_or_create) (simp add: common_tables_def)
  ultimately show ?thesis
    using assms(1) keepsD get_or_create_users [OF assms] by (metis intact_def)
qed

lemma session_db:
  assumes "with_session h w = (r, w')"
  shows "db w' = db w \<or> (\<exists>x. h w = (Inr x, w'))"
  using assms by (auto simp: with_session_def split: prod.splits sum.splits)

lemma authenticate_intact:
  assumes "api_call sid ctx V cr (ByAnyone (AuthenticateTelegram p)) w = (res, w')" and "wf_table (users (db w))"
    and "v \<in> set (rows (users (db w)))" and "telegram_id v \<noteq> ta_telegram_id p"
  shows "intact v (db w) (db w')"
proof -
  obtain r where "with_session (dispatch V cr (ByAnyone (AuthenticateTelegram p))) w = (r, w')"
    using assms(1) by (auto simp: api_call_def split: prod.splits sum.splits)
  from session_db [OF this] show ?thesis
  proof
    assume "db w' = db w"
    then show ?thesis using assms(3) by (simp add: intact_def)
  next
    assume "\<exists>x. dispatch V cr (ByAnyone (AuthenticateTelegram p)) w = (Inr x, w')"
    then obtain x where "on_db (serve_public V cr (AuthenticateTelegram p)) w = (Inr x, w')"
      by (auto simp: dispatch_def validated_def)
    then obtain y d1 where "require_internal_service (ae_settings V) (x_internal_token cr) (db w) = (Inr y, d1)"
      and "\<exists>u. get_or_create_from_telegram (ae_now V) p d1 = (Inr u, db w')"
      by (auto simp: on_db_iff answer_def authenticate_telegram_user_def success_iffs)
    moreover from this(1) have "d1 = db w"
      using keepsD [OF keeps_require_service, of _ _ _ _ _ "\<lambda>d. d"] by blast
    ultimately show ?thesis
      using get_or_create_intact assms(2-4) by blast
  qed
qed

lemma user_call_cases:
  assumes "api_call sid ctx V cr (ByUser r) w = (res, w')"
  shows "w' = w \<or> (\<exists>u. get_current_user (ae_settings V) (x_internal_token cr) (x_telegram_user_id cr) (db w) = (Inr u, db w))"
proof -
  obtain x d where look: "get_current_user (ae_settings V) (x_internal_token cr) (x_telegram_user_id cr) (db w) = (x, d)"
    by fastforce
  then have d: "d = db w"
    using keepsD [OF keeps_current_user, of _ _ _ _ _ _ "\<lambda>d. d"] by blast
  show ?thesis
  proof (cases x)
    case (Inl e)
    then have "dispatch V cr (ByUser r) w = (Inl e, w)"
      using look d by (simp add: dispatch_def bindM_Inl on_db_Inl)
    then show ?thesis using keeps_failed_call [OF assms] by blast
  qed (use look d in blast)
qed

lemma user_call_intact:
  assumes "api_call sid ctx V cr (ByUser r) w = (res, w')" and "db_ok (db w)"
    and "x_telegram_user_id cr = Some tid" and "v \<in> set (rows (users (db w)))" and "telegram_id v \<noteq> tid"
  shows "intact v (db w) (db w')"
  using user_call_cases [OF assms(1)]
proof
  assume "w' = w"
  then show ?thesis using assms(4) by (simp add: intact_refl)
next
  assume "\<exists>u. get_current_user (ae_settings V) (x_internal_token cr) (x_telegram_user_id cr) (db w) = (Inr u, db w)"
  then obtain u where u: "get_current_user (ae_settings V) (x_internal_token cr) (x_telegram_user_id cr) (db w) = (Inr u, db w)"
    by blast
  have ok: "owned_tables_ok (db w)" "wf_table (users (db w))"
    using assms(2) by (simp_all add: db_ok_def owned_tables_ok_def table_ok_def)
  have "u \<in> set (rows (users (db w)))" "telegram_id u = tid"
    using current_user_Inr [OF u] assms(3) by auto
  then have "rid u \<noteq> rid v"
    using ok(2) assms(4,5) by (auto simp: wf_table_def distinct_map dest: inj_onD)
  then show ?thesis
    using same_for_others_intact [OF user_call_isolated [OF assms(1) ok(1) u]] assms(4) by blast
qed

lemma listing_intact:
  assumes "api_call sid ctx V cr (ByAnyone r) w = (res, w')" and "r = ListPlans \<or> r = ListServers"
  shows "w' = w"
proof -
  have "keeps (\<lambda>w. w) (dispatch V cr (ByAnyone r))"
    using assms(2) by (auto simp: dispatch_def validated_def answer_def intro!: keeps_world frame)
  then show ?thesis
    using assms(1) keepsD by (fastforce simp: api_call_def with_session_def split: prod.splits sum.splits)
qed

text \<open>The requests of the bot, by who they are for.\<close>

lemma intended_cases:
  assumes "intended tid c = Some req"
  obtains r where "req = ByUser r" "acting_user tid c = Some tid"
  | p where "req = ByAnyone (AuthenticateTelegram p)" "ta_telegram_id p = tid"
  | r where "req = ByAnyone r" "r = ListPlans \<or> r = ListServers"
  using assms by (cases c) (auto simp: acting_user_def)

lemma intended_intact:
  assumes "intended tid c = Some req" and "api_call sid ctx V (bot_credentials_for C tid c) req w = (res, w')"
    and "db_ok (db w)" and "v \<in> set (rows (users (db w)))" and "telegram_id v \<noteq> tid"
  shows "intact v (db w) (db w')"
  using assms(1)
proof (cases rule: intended_cases)
  case (1 r)
  then show ?thesis
    using user_call_intact [OF assms(2) [unfolded 1(1)] assms(3) _ assms(4,5)] by (simp add: bot_credentials_for_def)
next
  case (2 p)
  have "wf_table (users (db w))"
    using assms(3) by (simp add: db_ok_def table_ok_def)
  then show ?thesis
    using authenticate_intact [OF assms(2) [unfolded 2(1)] _ assms(4)] 2(2) assms(5) by simp
next
  case (3 r)
  then show ?thesis
    using listing_intact [OF assms(2) [unfolded 3(1)]] assms(4) by (simp add: intact_refl)
qed

definition spared :: "int \<Rightarrow> user \<Rightarrow> database \<Rightarrow> database \<Rightarrow> bool" where
  "spared tid v d0 d \<longleftrightarrow> telegram_id v \<noteq> tid \<and> db_ok d \<and> intact v d0 d"

interpretation stranger: acting_for "deployed_bot S E" tid "\<lambda>p. spared tid v d0 (db (dp_world p))" for S E tid v d0
proof
  fix c
  show "preserves (\<lambda>p. spared tid v d0 (db (dp_world p))) (client (bot_client (deployed_bot S E)) tid c)"
  proof (rule preservesI)
    fix p :: "'a deployed"
    assume ok: "spared tid v d0 (db (dp_world p))"
    obtain r p' where run: "client (bot_client (deployed_bot S E)) tid c p = (r, p')" by fastforce
    have v: "v \<in> set (rows (users (db (dp_world p))))"
      using ok by (simp add: spared_def intact_def)
    from run have "spared tid v d0 (db (dp_world p'))"
    proof (cases rule: client_world)
      case (2 req res n)
      then show ?thesis
        using ok api_call_db_ok [OF 2(2)] intended_intact [OF 2(1,2) _ v] intact_trans by (auto simp: spared_def)
    qed (use ok in simp)
    then show "spared tid v d0 (db (dp_world (snd (client (bot_client (deployed_bot S E)) tid c p))))"
      using run by simp
  qed
qed

section \<open>An example\<close>

text \<open>Somebody else has signed in before; then a user starts the bot.\<close>

definition demo_tg_bot :: "('b client_env) \<Rightarrow> ('b, tg_call list) bot_env" where
  "demo_tg_bot C = \<lparr>bot_client = C, bot_telegram = (\<lambda>c t. (None, t @ [c])), bot_from_iso = (\<lambda>_. None),
     bot_repr = (\<lambda>_. ''''), bot_goes_on = True\<rparr>"

definition demo_sender :: tg_user where
  "demo_sender = \<lparr>tu_id = 77, tu_username = Some ''neo'', tu_first_name = ''N'', tu_last_name = None\<rparr>"

definition demo_text :: "string option \<Rightarrow> string \<Rightarrow> update" where
  "demo_text command txt = \<lparr>up_user = Some demo_sender, up_chat = Some 77, up_query = None,
     up_message = Some \<lparr>tm_id = 1, tm_text = Some txt, tm_command = command\<rparr>, up_edited = None, up_origin = None\<rparr>"

definition demo_press :: "string \<Rightarrow> update" where
  "demo_press data = \<lparr>up_user = Some demo_sender, up_chat = Some 77, up_query = Some \<lparr>cq_id = ''q'', cq_data = Some data\<rparr>,
     up_message = None, up_edited = None, up_origin = None\<rparr>"

definition demo_stranger_world :: "string list world" where
  "demo_stranger_world = snd (api_call None '''' demo_api demo_bot
     (ByAnyone (AuthenticateTelegram (demo_auth\<lparr>ta_telegram_id := 99\<rparr>))) \<lparr>db = empty_db, remote = []\<rparr>)"

definition demo_chat :: "(string list deployed, tg_call list) bot_state" where
  "demo_chat = \<lparr>bs_backend = \<lparr>dp_world = demo_stranger_world, dp_calls = 0\<rparr>, bs_telegram = [],
     bs_user_data = (\<lambda>_. no_user_data)\<rparr>"


end
