(* ===== verification/BotMenus.thy ===== *)
theory BotMenus
  imports BotSession
begin

text \<open>
  What the buttons and messages of the bot lead to. Proved: every button of every keyboard is dispatched to the
  handler its label announces, the identifier in its data comes back unchanged, a server picked from the list is
  the one the next device is created on, and one message can be taken for several things at once.
\<close>

section \<open>Buttons and handlers\<close>

fun meant_for :: "button_label \<Rightarrow> handler" where
  "meant_for BtConnect = HNewDevice"
| "meant_for BtServers = HServers"
| "meant_for BtSmart = HSmart"
| "meant_for BtDevices = HDevices"
| "meant_for BtSubscription = HSubscription"
| "meant_for BtProfile = HProfile"
| "meant_for BtSupport = HSupport"
| "meant_for BtMain = HVpn"
| "meant_for BtWireguard = HNewProtocol"
| "meant_for BtVless = HNewProtocol"
| "meant_for (BtDevice _ _) = HManage"
| "meant_for BtNewDevice = HNewDevice"
| "meant_for BtReissue = HReissue"
| "meant_for BtLink = HLinkView"
| "meant_for BtDisable = HDisable"
| "meant_for BtEnable = HEnable"
| "meant_for BtRevoke = HRevoke"
| "meant_for BtRotate = HLinkRotate"
| "meant_for BtToDevice = HManage"
| "meant_for (BtPlan _ _ _ _) = HBuy"
| "meant_for (BtFull _) = HSetMode"
| "meant_for (BtSmartMode _) = HSetMode"
| "meant_for BtCategories = HCategories"
| "meant_for BtOwnDomain = HAddDomain"
| "meant_for (BtCategory _ _) = HToggleCategory"
| "meant_for (BtServer _ _ _ _ _) = HNewDevice"

text \<open>The keyboards the handlers show; the servers of a list have integer identifiers.\<close>

definition int_id :: "json \<Rightarrow> bool" where
  "int_id j = (\<exists>i. jget ''id'' j = Some (JInt i))"

inductive offered :: "('b, 't) bot_env \<Rightarrow> keyboard \<Rightarrow> bool" for E where
  main: "offered E main_menu"
| home: "offered E back_to_main"
| protocols: "offered E protocol_choice_keyboard"
| devices: "devices_keyboard E ds (s :: ('b, 't) bot_state) = (Inr kb, t) \<Longrightarrow> offered E kb"
| device: "device_manage_keyboard E d (s :: ('b, 't) bot_state) = (Inr kb, t) \<Longrightarrow> offered E kb"
| link: "offered E (subscription_link_keyboard E i)"
| plans: "plans_keyboard E ps (s :: ('b, 't) bot_state) = (Inr kb, t) \<Longrightarrow> offered E kb"
| mode: "offered E (smart_vpn_mode_keyboard m)"
| categories: "smart_vpn_categories_keyboard E cs ids (s :: ('b, 't) bot_state) = (Inr kb, t) \<Longrightarrow> offered E kb"
| servers: "servers_keyboard E ss (s :: ('b, 't) bot_state) = (Inr kb, t) \<Longrightarrow> (\<And>v. v \<in> set ss \<Longrightarrow> int_id v) \<Longrightarrow> offered E kb"

lemma mapM_entries:
  "mapM f xs s = (Inr ys, t) \<Longrightarrow> y \<in> set ys \<Longrightarrow> \<exists>x \<in> set xs. \<exists>s1 t1. f x s1 = (Inr y, t1)"
proof (induction xs arbitrary: s ys)
  case Nil
  then show ?case by simp
next
  case (Cons x xs)
  from Cons.prems(1) obtain z s1 zs where "f x s = (Inr z, s1)" "mapM f xs s1 = (Inr zs, t)" "ys = z # zs"
    by (auto simp: success_iffs)
  then show ?case using Cons.IH [of s1 zs] Cons.prems(2) by auto
qed

lemma item_Inr: "item k j s = (Inr v, t) \<longleftrightarrow> is_obj j \<and> jget k j = Some v \<and> t = s"
  by (auto simp: item_def requireM_eq_Inr_iff)

lemma get_item_Inr: "get_item k d j s = (Inr v, t) \<longleftrightarrow> is_obj j \<and> v = jget_or k d j \<and> t = s"
  by (auto simp: get_item_def)

lemma int_str_head: "hd (int_str i @ r) \<noteq> CHR ''p''"
proof -
  have "CHR ''p'' \<notin> set (int_str i)"
    by (rule int_str_no_char) (simp_all add: is_digit_def)
  then show ?thesis
    using int_str_nonempty [of i] by (cases "int_str i") auto
qed

lemma routed_prefixes:
  "callback_handler (''device:manage:'' @ s) = Some HManage"
  "callback_handler (''device:reissue:'' @ s) = Some HReissue"
  "callback_handler (''device:disable:'' @ s) = Some HDisable"
  "callback_handler (''device:enable:'' @ s) = Some HEnable"
  "callback_handler (''device:revoke:'' @ s) = Some HRevoke"
  "callback_handler (''device:sublink:view:'' @ s) = Some HLinkView"
  "callback_handler (''device:sublink:rotate:'' @ s) = Some HLinkRotate"
  "callback_handler (''plan:buy:'' @ s) = Some HBuy"
  "callback_handler (''smart:cat:'' @ s) = Some HToggleCategory"
  by (simp_all add: callback_handler_def callback_handlers_def starts_with_def)

lemma routed_server: "hd (s @ ''x'') \<noteq> CHR ''p'' \<Longrightarrow> callback_handler (''device:new:'' @ s) = Some HNewDevice"
  by (cases s) (simp_all add: callback_handler_def callback_handlers_def starts_with_def)

lemma routed_fixed:
  "callback_handler ''device:new'' = Some HNewDevice" "callback_handler ''menu:servers'' = Some HServers"
  "callback_handler ''menu:smart'' = Some HSmart" "callback_handler ''menu:devices'' = Some HDevices"
  "callback_handler ''menu:subscription'' = Some HSubscription" "callback_handler ''menu:profile'' = Some HProfile"
  "callback_handler ''menu:support'' = Some HSupport" "callback_handler ''menu:main'' = Some HVpn"
  "callback_handler ''device:new:proto:wireguard'' = Some HNewProtocol"
  "callback_handler ''device:new:proto:vless'' = Some HNewProtocol"
  "callback_handler ''smart:mode:full_vpn'' = Some HSetMode" "callback_handler ''smart:mode:smart_vpn'' = Some HSetMode"
  "callback_handler ''smart:categories'' = Some HCategories" "callback_handler ''smart:add_domain'' = Some HAddDomain"
  by (simp_all add: callback_handler_def callback_handlers_def starts_with_def)

lemmas routed = routed_prefixes [simplified] routed_fixed routed_server [simplified]

text \<open>C23: Every button the bot shows leads to the handler its label announces: the data of each entry of
  each keyboard, whatever the backend has listed, is dispatched - in the order of registration, where the first
  matching pattern wins - to the handler the label stands for.\<close>

theorem buttons_reach_their_handlers:
  assumes "offered E kb" and "(label, data) \<in> set kb"
  shows "callback_handler data = Some (meant_for label)"
  using assms
proof (induction)
  case (devices ds s kb t)
  then show ?case
    by (auto simp: devices_keyboard_def success_iffs item_Inr main_button_def routed dest!: mapM_entries)
next
  case (device d s kb t)
  then show ?case
    by (auto simp: device_manage_keyboard_def success_iffs Let_def routed split: if_splits)
next
  case (plans ps s kb t)
  then show ?case
    by (auto simp: plans_keyboard_def success_iffs item_Inr main_button_def routed dest!: mapM_entries)
next
  case (categories cs ids s kb t)
  then show ?case
    by (auto simp: smart_vpn_categories_keyboard_def success_iffs item_Inr routed split: if_splits dest!: mapM_entries)
next
  case (servers ss s kb t)
  have "callback_handler (''device:new:'' @ py_str (bot_repr E) i) = Some HNewDevice"
    if "v \<in> set ss" "jget ''id'' v = Some i" for v i
    using servers.hyps(2) [OF that(1)] that(2) int_str_head by (auto simp: int_id_def py_str_def routed [simplified])
  then show ?case
    using servers by (auto simp: servers_keyboard_def success_iffs item_Inr main_button_def routed_fixed dest!: mapM_entries)
qed (auto simp: main_menu_def back_to_main_def main_button_def protocol_choice_keyboard_def
    subscription_link_keyboard_def smart_vpn_mode_keyboard_def routed split: if_splits)
section \<open>What the bot remembers\<close>

text \<open>The calls made and the dictionaries of the users, which Telegram's answers have no say in.\<close>

definition memory :: "('b, 't) bot_state \<Rightarrow> 'b \<times> (int \<Rightarrow> user_data)" where
  "memory s = (bs_backend s, bs_user_data s)"

lemma keeps_Pair [frame]: "keeps F (Pair r)"
  by (simp add: keeps_def)

lemma keeps_tg [frame]: "keeps memory (tg E c)"
  by (rule keepsI) (simp add: tg_def memory_def split: prod.split option.split)

lemma keeps_python [frame]:
  "keeps F (item k j)" "keeps F (get_item k d j)" "keeps F (str_of j)" "keeps F (b64decode j)"
  by (auto simp: item_def get_item_def str_of_def b64decode_def intro!: frame split: json.split)

lemma keeps_reply [frame]: "keeps memory (reply E upd text kb)"
  by (auto simp: reply_def intro!: frame split: option.split)

lemma keeps_chats [frame]:
  "keeps memory (send_subscription_link E upd i url qr)"
  "keeps memory (send_device_config E upd r)"
  unfolding send_device_config_def send_subscription_link_def
  by (auto intro!: frame split: option.split)

lemma keeps_on_error [frame]: "keeps memory (on_error E upd)"
  by (auto simp: on_error_def intro!: frame split: option.split)

lemma memory_bind: "(\<And>x. keeps F (k x)) \<Longrightarrow> F (snd (bindM m k s)) = F (snd (m s))"
  by (auto simp: bindM_def keeps_def split: prod.split sum.split)

lemma memory_catch: "(\<And>e. keeps F (h e)) \<Longrightarrow> F (snd (catchM m h s)) = F (snd (m s))"
  by (auto simp: catchM_def keeps_def split: prod.split sum.split)

lemma memory_or_report: "(\<And>msg. keeps F (h msg)) \<Longrightarrow> F (snd (or_report m h s)) = F (snd (m s))"
proof -
  assume k: "\<And>msg. keeps F (h msg)"
  have "F (snd (or_report m h s)) = F (snd (bindM m (\<lambda>r. returnM (Some r)) s))"
    unfolding or_report_def by (rule memory_catch) (auto intro!: frame k split: bot_exn.split)
  also have "\<dots> = F (snd (m s))"
    by (rule memory_bind) (rule frame)
  finally show ?thesis .
qed

lemma user_data_run:
  "up_user upd = Some u \<Longrightarrow> user_data_of upd s = (Inr (bs_user_data s (tu_id u)), s)"
  "up_user upd = Some u \<Longrightarrow> set_user_data upd f s =
     (Inr (), s\<lparr>bs_user_data := (bs_user_data s)(tu_id u := f (bs_user_data s (tu_id u)))\<rparr>)"
  by (simp_all add: user_data_of_def set_user_data_def)

lemma memory_call: "memory (snd (call (recording_bot f E) i c s)) =
    (bs_backend s @ [client_http_call (bot_client E) i c], bs_user_data s)"
  using recorded_call [of f E i c "bs_backend s"]
  by (auto simp: memory_def call_def on_backend_def zoomM_def split: prod.split)

lemma memory_groups:
  assumes "bot_goes_on E"
  shows "\<exists>s1. memory s1 = memory (snd (run_handler E h upd s)) \<and> run_groups E upd (h # hs) s = run_groups E upd hs s1"
proof -
  obtain r s1 where run: "run_handler E h upd s = (r, s1)" by fastforce
  show ?thesis
  proof (cases r)
    case (Inl e)
    obtain q s2 where err: "on_error E upd s1 = (q, s2)" by fastforce
    have "q = Inr ()"
      using err by (auto simp: on_error_def catchM_def returnM_def tg_def split: option.splits prod.splits)
    moreover have "memory s2 = memory s1"
      using keepsD [OF keeps_on_error err] .
    ultimately show ?thesis
      using run Inl err assms by (auto simp: bindM_def catchM_def returnM_def intro!: exI [of _ s2])
  next
    case (Inr x)
    then show ?thesis
      using run by (auto simp: bindM_def catchM_def returnM_def intro!: exI [of _ s1])
  qed
qed

lemma memory_single:
  "bot_goes_on E \<Longrightarrow> memory (snd (run_groups E upd [h] s)) = memory (snd (run_handler E h upd s))"
  using memory_groups [of E h upd s "[]"] by auto

section \<open>Asking for a device\<close>

definition presses :: "tg_user \<Rightarrow> string \<Rightarrow> update \<Rightarrow> bool" where
  "presses u data upd \<longleftrightarrow> up_user upd = Some u \<and> (\<exists>q. up_query upd = Some \<lparr>cq_id = q, cq_data = Some data\<rparr>) \<and>
     up_message upd = None \<and> up_edited upd = None"

definition commands :: "tg_user \<Rightarrow> string \<Rightarrow> update \<Rightarrow> bool" where
  "commands u cmd upd \<longleftrightarrow> up_user upd = Some u \<and> up_query upd = None \<and>
     (\<exists>m. up_message upd = Some m \<and> tm_command m = Some cmd)"

definition writes :: "tg_user \<Rightarrow> string \<Rightarrow> update \<Rightarrow> bool" where
  "writes u txt upd \<longleftrightarrow> up_user upd = Some u \<and> up_query upd = None \<and>
     (\<exists>m. up_message upd = Some m \<and> tm_command m = None \<and> tm_text m = Some txt)"

lemma groups_of:
  "presses u data upd \<Longrightarrow> callback_handler data = Some h \<Longrightarrow> group_handlers upd = [h]"
  "commands u cmd upd \<Longrightarrow> map_of command_handlers (lower cmd) = Some h \<Longrightarrow> group_handlers upd = [h]"
  "writes u txt upd \<Longrightarrow> group_handlers upd = [HDeviceName, HCustomDomain, HSupportMessage]"
  by (auto simp: presses_def commands_def writes_def group_handlers_def command_handler_def sent_message_def plain_text_def)

lemma memory_set:
  assumes "up_user upd = Some u" and "\<And>x. keeps memory (k x)"
  shows "memory (snd (bindM (set_user_data upd f) k s)) =
    (bs_backend s, (bs_user_data s)(tu_id u := f (bs_user_data s (tu_id u))))"
proof -
  have "memory (snd (bindM (set_user_data upd f) k s)) = memory (snd (set_user_data upd f s))"
    by (rule memory_bind) (rule assms(2))
  then show ?thesis
    using assms(1) by (simp add: user_data_run memory_def)
qed

lemma memory_set_tg:
  assumes "up_user upd = Some u"
  shows "memory (snd (bindM (set_user_data upd f) (\<lambda>_. bindM (tg E a) (\<lambda>_. tg E b)) s)) =
    (bs_backend s, (bs_user_data s)(tu_id u := f (bs_user_data s (tu_id u))))"
  by (rule memory_set [OF assms]) (intro frame)

lemma single_update:
  assumes "group_handlers upd = [h]" and "bot_goes_on E"
  shows "memory (snd (process_update E upd s)) = memory (snd (run_handler E h upd s))"
  unfolding process_update_def assms(1) by (rule memory_single [OF assms(2)])

lemma pressed_protocol:
  assumes "presses u (''device:new:proto:'' @ p) upd" and "bot_goes_on E"
  shows "memory (snd (process_update E upd s)) =
    (bs_backend s, (bs_user_data s)(tu_id u := (bs_user_data s (tu_id u))\<lparr>awaiting_device_name := True,
       pending_device_server_id := Some None, pending_device_protocol := Some (last (split_on CHR '':'' p))\<rparr>))"
proof -
  have "callback_handler (''device:new:proto:'' @ p) = Some HNewProtocol"
    by (simp add: callback_handler_def callback_handlers_def starts_with_def)
  then have "memory (snd (process_update E upd s)) = memory (snd (device_new_protocol_callback E upd s))"
    using single_update [OF groups_of(1) [OF assms(1)] assms(2)] by simp
  then show ?thesis
    using assms(1) by (auto simp: presses_def device_new_protocol_callback_def memory_set_tg)
qed

lemma pressed_server:
  assumes "presses u (''device:new:'' @ int_str i) upd" and "bot_goes_on E"
  shows "memory (snd (process_update E upd s)) =
    (bs_backend s, (bs_user_data s)(tu_id u := (bs_user_data s (tu_id u))\<lparr>awaiting_device_name := True,
       pending_device_server_id := Some (Some i), pending_device_protocol := Some ''wireguard''\<rparr>))"
proof -
  have "callback_handler (''device:new:'' @ int_str i) = Some HNewDevice"
    by (rule routed_server) (rule int_str_head)
  then have "memory (snd (process_update E upd s)) = memory (snd (device_new_callback E upd s))"
    using single_update [OF groups_of(1) [OF assms(1)] assms(2)] by simp
  moreover have "split_on CHR '':'' (int_str i) = [int_str i]"
    by (rule split_on_no_sep, rule int_str_no_char) (simp_all add: is_digit_def)
  ultimately show ?thesis
    using assms(1) by (auto simp: presses_def device_new_callback_def memory_set_tg)
qed

lemma commanded_support:
  assumes "commands u ''support'' upd" and "bot_goes_on E"
  shows "memory (snd (process_update E upd s)) =
    (bs_backend s, (bs_user_data s)(tu_id u := (bs_user_data s (tu_id u))\<lparr>awaiting_support_message := True\<rparr>))"
proof -
  have "map_of command_handlers (lower ''support'') = Some HSupport"
    by (simp add: command_handlers_def lower_def lower_char_def)
  then have "memory (snd (process_update E upd s)) = memory (snd (support_menu_callback E upd s))"
    using single_update [OF groups_of(2) [OF assms(1)] assms(2)] by simp
  moreover have "memory (snd (bindM (set_user_data upd f) (\<lambda>_. tg E c) s)) =
      (bs_backend s, (bs_user_data s)(tu_id u := f (bs_user_data s (tu_id u))))" for f c
    by (rule memory_set) (use assms(1) in \<open>auto simp: commands_def intro: frame\<close>)
  ultimately show ?thesis
    using assms(1) by (auto simp: commands_def support_menu_callback_def)
qed

text \<open>The three handlers of a text, each by what it does to the memory.\<close>

lemma memory_device_name:
  assumes "writes u txt upd" and "awaiting_device_name (bs_user_data s (tu_id u))"
  shows "memory (snd (device_name_message_handler (recording_bot f E) upd s)) =
    (bs_backend s @ [client_http_call (bot_client E) (tu_id u) (NewDevice (take 64 (strip txt))
        (case pending_device_server_id (bs_user_data s (tu_id u)) of None \<Rightarrow> None | Some v \<Rightarrow> v)
        (case pending_device_protocol (bs_user_data s (tu_id u)) of None \<Rightarrow> ''wireguard'' | Some p \<Rightarrow> p))],
     (bs_user_data s)(tu_id u := (bs_user_data s (tu_id u))\<lparr>awaiting_device_name := False,
        pending_device_server_id := None, pending_device_protocol := None\<rparr>))"
proof -
  obtain m where u: "up_user upd = Some u" "up_message upd = Some m" "tm_text m = Some txt"
    using assms(1) by (auto simp: writes_def)
  have k: "keeps memory (case r of None \<Rightarrow> returnM () | Some result \<Rightarrow> send_device_config (recording_bot f E) upd result)" for r
    by (auto intro!: frame split: option.split)
  have "memory (snd (bindM (or_report (call (recording_bot f E) i c) (\<lambda>msg. tg (recording_bot f E) (g msg)))
      (\<lambda>r. case r of None \<Rightarrow> returnM () | Some result \<Rightarrow> send_device_config (recording_bot f E) upd result) s1)) =
    (bs_backend s1 @ [client_http_call (bot_client E) i c], bs_user_data s1)" for i c g s1
    by (subst memory_bind [of memory], rule k, subst memory_or_report [of memory]) (auto intro: frame simp: memory_call)
  then show ?thesis
    using assms(2) u by (simp add: device_name_message_handler_def bindM_Inr user_data_run on_text_def)
qed

lemma memory_domain:
  assumes "writes u txt upd" and "\<not> awaiting_custom_domain (bs_user_data s (tu_id u))"
  shows "custom_domain_message_handler E upd s = (Inr (), s)"
  using assms by (auto simp: custom_domain_message_handler_def bindM_Inr user_data_run writes_def)

lemma memory_no_support:
  assumes "writes u txt upd" and "\<not> awaiting_support_message (bs_user_data s (tu_id u))"
  shows "support_message_handler E upd s = (Inr (), s)"
  using assms by (auto simp: support_message_handler_def bindM_Inr user_data_run writes_def)

lemma memory_support:
  assumes "writes u txt upd" and "awaiting_support_message (bs_user_data s (tu_id u))"
  shows "memory (snd (support_message_handler (recording_bot f E) upd s)) =
    (bs_backend s @ [client_http_call (bot_client E) (tu_id u) (OpenTicket (take 60 (strip txt)) (strip txt))],
     (bs_user_data s)(tu_id u := (bs_user_data s (tu_id u))\<lparr>awaiting_support_message := False\<rparr>))"
proof -
  obtain m where u: "up_user upd = Some u" "up_message upd = Some m" "tm_text m = Some txt"
    using assms(1) by (auto simp: writes_def)
  have "memory (snd (bindM (call (recording_bot f E) i c) (\<lambda>_. reply (recording_bot f E) upd t kb) s1)) =
    (bs_backend s1 @ [client_http_call (bot_client E) i c], bs_user_data s1)" for i c t kb s1
    by (subst memory_bind [of memory]) (auto intro: frame simp: memory_call)
  then show ?thesis
    using assms(2) u by (simp add: support_message_handler_def bindM_Inr user_data_run on_text_def)
qed
lemma run_groups_returns: "\<exists>s'. run_groups E upd hs s = (Inr (), s')"
proof (induction hs arbitrary: s)
  case (Cons h hs)
  obtain r s1 where run: "run_handler E h upd s = (r, s1)" by fastforce
  obtain q s2 where err: "on_error E upd s1 = (q, s2)" by fastforce
  have "q = Inr ()"
    using err by (auto simp: on_error_def catchM_def returnM_def tg_def split: option.splits prod.splits)
  then show ?case
    using run err Cons.IH by (cases r) (auto simp: bindM_def catchM_def returnM_def)
qed simp

lemma process_update_returns: "\<exists>s'. process_update E upd s = (Inr (), s')"
  unfolding process_update_def by (rule run_groups_returns)

lemma process_updates_Cons:
  "process_updates E (upd # us) s = process_updates E us (snd (process_update E upd s))"
  using process_update_returns [of E upd s] by (auto simp: process_updates_def bindM_Inr)

lemma process_updates_Nil: "process_updates E [] s = (Inr (), s)"
  by (simp add: process_updates_def)

lemma user_data_cleared:
  "\<not> awaiting_custom_domain d \<Longrightarrow> d\<lparr>awaiting_device_name := False, pending_device_server_id := None,
     pending_device_protocol := None, awaiting_support_message := False\<rparr> = no_user_data"
  "\<not> awaiting_custom_domain d \<Longrightarrow> \<not> awaiting_support_message d \<Longrightarrow>
     d\<lparr>awaiting_device_name := False, pending_device_server_id := None, pending_device_protocol := None\<rparr> = no_user_data"
  by (cases d; simp add: no_user_data_def)+

lemma written_text:
  assumes "writes u txt upd" and "bot_goes_on E"
    and "awaiting_device_name (bs_user_data s (tu_id u))" and "\<not> awaiting_custom_domain (bs_user_data s (tu_id u))"
  shows "memory (snd (process_update (recording_bot f E) upd s)) =
    (bs_backend s @ client_http_call (bot_client E) (tu_id u) (NewDevice (take 64 (strip txt))
        (case pending_device_server_id (bs_user_data s (tu_id u)) of None \<Rightarrow> None | Some v \<Rightarrow> v)
        (case pending_device_protocol (bs_user_data s (tu_id u)) of None \<Rightarrow> ''wireguard'' | Some p \<Rightarrow> p)) #
      (if awaiting_support_message (bs_user_data s (tu_id u))
       then [client_http_call (bot_client E) (tu_id u) (OpenTicket (take 60 (strip txt)) (strip txt))] else []),
     (bs_user_data s)(tu_id u := no_user_data))"
proof -
  let ?R = "recording_bot f E"
  have go: "bot_goes_on ?R" using assms(2) by (simp add: recording_bot_def)
  obtain s1 where s1: "memory s1 = memory (snd (device_name_message_handler ?R upd s))"
    and r1: "process_update ?R upd s = run_groups ?R upd [HCustomDomain, HSupportMessage] s1"
    using memory_groups [OF go, of HDeviceName upd s] groups_of(3) [OF assms(1)]
    by (auto simp: process_update_def simp del: run_groups.simps)
  note m1 = s1 [unfolded memory_device_name [OF assms(1,3)], unfolded memory_def prod.inject]
  have "custom_domain_message_handler ?R upd s1 = (Inr (), s1)"
    by (rule memory_domain [OF assms(1)]) (simp add: m1 assms(4))
  then obtain s2 where s2: "memory s2 = memory s1"
    and r2: "process_update ?R upd s = run_groups ?R upd [HSupportMessage] s2"
    using memory_groups [OF go, of HCustomDomain upd s1] r1 by (auto simp del: run_groups.simps)
  note m2 = s2 [unfolded memory_def prod.inject] m1
  have *: "memory (snd (process_update ?R upd s)) = memory (snd (support_message_handler ?R upd s2))"
    using memory_single [OF go, where h = HSupportMessage] r2 by (simp del: run_groups.simps)
  show ?thesis
  proof (cases "awaiting_support_message (bs_user_data s (tu_id u))")
    case True
    then have "awaiting_support_message (bs_user_data s2 (tu_id u))" by (simp add: m2)
    from memory_support [OF assms(1) this] show ?thesis
      using True assms(4) by (simp add: * m2 user_data_cleared)
  next
    case False
    then have "\<not> awaiting_support_message (bs_user_data s2 (tu_id u))" by (simp add: m2)
    from memory_no_support [OF assms(1) this] show ?thesis
      unfolding * using False assms(4) by (simp add: memory_def m2 user_data_cleared)
  qed
qed

lemma protocol_no_colon: "split_on CHR '':'' (protocol_value P) = [protocol_value P]"
  by (cases P) simp_all

text \<open>A user who picks a server from the list, or a protocol, and then writes a name gets the device that was
  asked for: whatever the backend and Telegram answer, exactly one call is made, to create a device with that
  name for this user, on the picked server over WireGuard or with the picked protocol on any server; and the
  bot has forgotten the dialogue.\<close>

theorem named_device_is_what_was_picked:
  assumes "presses u (''device:new:'' @ int_str i) p \<and> server = Some i \<and> prot = ''wireguard'' \<or>
      presses u (''device:new:proto:'' @ protocol_value P) p \<and> server = None \<and> prot = protocol_value P"
    and "writes u txt t" and "bot_goes_on E"
    and "\<not> awaiting_custom_domain (bs_user_data s (tu_id u))" and "\<not> awaiting_support_message (bs_user_data s (tu_id u))"
    and "process_updates (recording_bot f E) [p, t] s = (r, s')"
  shows "bs_backend s' = bs_backend s @ [client_http_call (bot_client E) (tu_id u) (NewDevice (take 64 (strip txt)) server prot)] \<and>
    bs_user_data s' = (bs_user_data s)(tu_id u := no_user_data)"
proof -
  let ?R = "recording_bot f E"
  have go: "bot_goes_on ?R" using assms(3) by (simp add: recording_bot_def)
  define s1 where "s1 = snd (process_update ?R p s)"
  have m1: "memory s1 = (bs_backend s, (bs_user_data s)(tu_id u := (bs_user_data s (tu_id u))\<lparr>awaiting_device_name := True,
       pending_device_server_id := Some server, pending_device_protocol := Some prot\<rparr>))"
    using assms(1)
  proof
    assume a: "presses u (''device:new:'' @ int_str i) p \<and> server = Some i \<and> prot = ''wireguard''"
    show ?thesis unfolding s1_def using pressed_server [OF conjunct1 [OF a] go] a by simp
  next
    assume a: "presses u (''device:new:proto:'' @ protocol_value P) p \<and> server = None \<and> prot = protocol_value P"
    show ?thesis unfolding s1_def using pressed_protocol [OF conjunct1 [OF a] go] a by (simp add: protocol_no_colon)
  qed
  have "s' = snd (process_update ?R t s1)"
    using assms(6) by (simp add: process_updates_Cons process_updates_Nil s1_def)
  then have "memory s' = memory (snd (process_update ?R t s1))" by simp
  then show ?thesis
    using written_text [OF assms(2,3), of s1 f] m1 assms(4,5) by (simp add: memory_def)
qed

text \<open>The dialogues of the bot do not exclude each other. A user who starts to add a device, turns to
  support instead and describes the problem in one message has done both: the message becomes the name of a new
  device, which is created, and a support ticket.\<close>

theorem one_message_two_actions:
  assumes "presses u (''device:new:proto:'' @ protocol_value P) p" and "commands u ''support'' c" and "writes u txt t"
    and "bot_goes_on E" and "\<not> awaiting_custom_domain (bs_user_data s (tu_id u))"
    and "process_updates (recording_bot f E) [p, c, t] s = (r, s')"
  shows "bs_backend s' = bs_backend s @
    [client_http_call (bot_client E) (tu_id u) (NewDevice (take 64 (strip txt)) None (protocol_value P)),
     client_http_call (bot_client E) (tu_id u) (OpenTicket (take 60 (strip txt)) (strip txt))]"
proof -
  let ?R = "recording_bot f E"
  have go: "bot_goes_on ?R" using assms(4) by (simp add: recording_bot_def)
  define s1 where "s1 = snd (process_update ?R p s)"
  define s2 where "s2 = snd (process_update ?R c s1)"
  note m1 = pressed_protocol [OF assms(1) go, of s, folded s1_def, unfolded memory_def prod.inject]
  note m2 = commanded_support [OF assms(2) go, of s1, folded s2_def, unfolded memory_def prod.inject]
  have "s' = snd (process_update ?R t s2)"
    using assms(6) by (simp add: process_updates_Cons process_updates_Nil s1_def s2_def)
  then have "memory s' = memory (snd (process_update ?R t s2))" by simp
  then show ?thesis
    using written_text [OF assms(3,4), of s2 f] assms(5) by (simp add: m1 m2 memory_def protocol_no_colon)
qed

section \<open>Buttons of one device or plan\<close>

lemma recorded_first:
  assumes "\<And>x. preserves (\<lambda>s. prefix l (bs_backend s)) (k x)"
    and "l = bs_backend s @ [client_http_call (bot_client E) i c]"
  shows "prefix l (bs_backend (snd (bindM (call (recording_bot f E) i c) k s)))"
proof -
  obtain r s1 where run: "call (recording_bot f E) i c s = (r, s1)" by fastforce
  then have "bs_backend s1 = l"
    using memory_call [of f E i c s] assms(2) by (simp add: memory_def)
  then have "prefix l (bs_backend (snd (k x s1)))" for x
    using assms(1) by (simp add: preserves_def)
  then show ?thesis
    using run \<open>bs_backend s1 = l\<close> by (cases r) (simp_all add: bindM_def)
qed

lemma int_str_no_colon: "split_on CHR '':'' (int_str i) = [int_str i]"
  by (rule split_on_no_sep, rule int_str_no_char) (simp_all add: is_digit_def)

lemma last_id_words:
  "last_id (''device:disable:'' @ int_str i) s = (Inr i, s)" "last_id (''device:enable:'' @ int_str i) s = (Inr i, s)"
  "last_id (''device:revoke:'' @ int_str i) s = (Inr i, s)" "last_id (''plan:buy:'' @ int_str i) s = (Inr i, s)"
  by (simp_all add: last_id_def int_str_no_colon)

lemma pressed_first_call:
  assumes "up_user upd = Some u" "up_query upd = Some q" "cq_data q = Some d" "last_id d s = (Inr i, s)"
    and "\<And>x. preserves (\<lambda>s. prefix (bs_backend s0 @ [client_http_call (bot_client E) (tu_id u) (g i)]) (bs_backend s)) (k q u d i x)"
    and "bs_backend s = bs_backend s0"
  shows "prefix (bs_backend s0 @ [client_http_call (bot_client E) (tu_id u) (g i)]) (bs_backend (snd
    (on_press upd (\<lambda>q u d. bindM (last_id d) (\<lambda>i. bindM (call (recording_bot f E) (tu_id u) (g i)) (k q u d i))) s)))"
  using recorded_first [OF assms(5), where f = f and s = s] assms by (simp add: on_press_def bindM_Inr)

lemma changing_buttons:
  assumes "up_user upd = Some u" "up_query upd = Some q" "cq_data q = Some d" "last_id d s = (Inr i, s)"
  shows "prefix (bs_backend s @ [client_http_call (bot_client E) (tu_id u) (Disable i)])
      (bs_backend (snd (run_handler (recording_bot f E) HDisable upd s)))"
    and "prefix (bs_backend s @ [client_http_call (bot_client E) (tu_id u) (Enable i)])
      (bs_backend (snd (run_handler (recording_bot f E) HEnable upd s)))"
    and "prefix (bs_backend s @ [client_http_call (bot_client E) (tu_id u) (Revoke i)])
      (bs_backend (snd (run_handler (recording_bot f E) HRevoke upd s)))"
    and "prefix (bs_backend s @ [client_http_call (bot_client E) (tu_id u) (BuyPlan i None)])
      (bs_backend (snd (run_handler (recording_bot f E) HBuy upd s)))"
proof -
  have mine: "sent_by (tu_id u) upd" using assms(1) by (simp add: sent_by_def)
  note keep = recorder.menus_keep [OF mine] recorder.manage_keeps [OF mine]
  show "prefix (bs_backend s @ [client_http_call (bot_client E) (tu_id u) (Disable i)])
      (bs_backend (snd (run_handler (recording_bot f E) HDisable upd s)))"
    unfolding run_handler.simps toggle_device_def
    by (rule pressed_first_call [OF assms]) (auto intro!: pres keep)
  show "prefix (bs_backend s @ [client_http_call (bot_client E) (tu_id u) (Enable i)])
      (bs_backend (snd (run_handler (recording_bot f E) HEnable upd s)))"
    unfolding run_handler.simps toggle_device_def
    by (rule pressed_first_call [OF assms]) (auto intro!: pres keep)
  show "prefix (bs_backend s @ [client_http_call (bot_client E) (tu_id u) (Revoke i)])
      (bs_backend (snd (run_handler (recording_bot f E) HRevoke upd s)))"
    unfolding run_handler.simps device_revoke_callback_def
    by (rule pressed_first_call [OF assms]) (auto intro!: pres keep)
  show "prefix (bs_backend s @ [client_http_call (bot_client E) (tu_id u) (BuyPlan i None)])
      (bs_backend (snd (run_handler (recording_bot f E) HBuy upd s)))"
    unfolding run_handler.simps buy_plan_callback_def
    by (rule pressed_first_call [OF assms, where g = "\<lambda>i. BuyPlan i None"]) (auto intro!: pres)
qed

definition changing_words :: "(string \<times> handler \<times> (int \<Rightarrow> client_call)) list" where
  "changing_words = [(''device:disable:'', HDisable, Disable), (''device:enable:'', HEnable, Enable),
     (''device:revoke:'', HRevoke, Revoke), (''plan:buy:'', HBuy, \<lambda>i. BuyPlan i None)]"

text \<open>The button that disables, enables or revokes a device, or buys a plan, asks the backend for exactly
  that, for the device or plan whose identifier is in its data and on behalf of the user who pressed it, before anything else.\<close>

theorem pressed_button_acts_on_its_subject:
  assumes "(word, h, c) \<in> set changing_words" and "presses u (word @ int_str i) upd" and "bot_goes_on E"
    and "process_update (recording_bot f E) upd s = (r, s')"
  shows "prefix (bs_backend s @ [client_http_call (bot_client E) (tu_id u) (c i)]) (bs_backend s')"
proof -
  have h: "callback_handler (word @ int_str i) = Some h" and i: "last_id (word @ int_str i) s = (Inr i, s)"
    using assms(1) routed_prefixes last_id_words by (auto simp: changing_words_def)
  have "bot_goes_on (recording_bot f E)" using assms(3) by (simp add: recording_bot_def)
  then have "memory s' = memory (snd (run_handler (recording_bot f E) h upd s))"
    using single_update [OF groups_of(1) [OF assms(2) h], of "recording_bot f E" s] assms(4) by simp
  moreover obtain q where "up_user upd = Some u" "up_query upd = Some q" "cq_data q = Some (word @ int_str i)"
    using assms(2) by (auto simp: presses_def)
  then have "prefix (bs_backend s @ [client_http_call (bot_client E) (tu_id u) (c i)])
      (bs_backend (snd (run_handler (recording_bot f E) h upd s)))"
    using changing_buttons [of upd u q _ s i] i assms(1) by (auto simp: changing_words_def simp del: run_handler.simps)
  ultimately show ?thesis by (simp add: memory_def)
qed

section \<open>Examples\<close>

definition demo_recorder :: "(http_call list, tg_call list) bot_env" where
  "demo_recorder = demo_tg_bot \<lparr>ce_http = (\<lambda>c b. (HttpxError ''ConnectError'', b)), ce_token = ''t'', ce_text = (\<lambda>_. '''')\<rparr>"

definition demo_memory :: "(http_call list, tg_call list) bot_state" where
  "demo_memory = \<lparr>bs_backend = [], bs_telegram = [], bs_user_data = (\<lambda>_. no_user_data)\<rparr>"

lemma demo_updates:
  "presses demo_sender data (demo_press data)" "commands demo_sender cmd (demo_text (Some cmd) txt)"
  "writes demo_sender txt (demo_text None txt)"
  by (simp_all add: presses_def commands_def writes_def demo_press_def demo_text_def)

lemma buttons_reach_their_handlers_witness:
  "\<exists>kb. servers_keyboard demo_recorder [server_json \<lparr>svr_id = 12, svr_name = ''n'', svr_country = ''NL'', svr_city = None,
      svr_hostname = ''h'', svr_endpoint = ''e'', svr_status = SrvOnline, svr_capacity = 9, svr_current_load = 3\<rparr>] demo_memory =
      (Inr kb, demo_memory) \<and>
    (BtServer True (JStr ''n'') (JStr ''NL'') (JInt 3) (JInt 9), ''device:new:12'') \<in> set kb \<and>
    callback_handler ''device:new:12'' = Some HNewDevice"
proof -
  let ?v = "server_json \<lparr>svr_id = 12, svr_name = ''n'', svr_country = ''NL'', svr_city = None, svr_hostname = ''h'',
      svr_endpoint = ''e'', svr_status = SrvOnline, svr_capacity = 9, svr_current_load = 3\<rparr>"
  let ?kb = "[(BtServer True (JStr ''n'') (JStr ''NL'') (JInt 3) (JInt 9), ''device:new:12''), main_button]"
  have "int_str 12 = ''12''" by code_simp
  then have run: "servers_keyboard demo_recorder [?v] demo_memory = (Inr ?kb, demo_memory)"
    by (simp add: servers_keyboard_def item_def is_obj_def server_json_def jget_def py_str_def)
  have "int_id ?v"
    by (simp add: int_id_def server_json_def jget_def)
  then have "offered demo_recorder ?kb"
    by (intro offered.servers [OF run]) simp
  then have "callback_handler ''device:new:12'' = Some (meant_for (BtServer True (JStr ''n'') (JStr ''NL'') (JInt 3) (JInt 9)))"
    by (rule buttons_reach_their_handlers) simp
  then show ?thesis using run by auto
qed

lemma named_device_is_what_was_picked_witness:
  "case process_updates (recording_bot (\<lambda>_ _. HttpxError ''ConnectError'') demo_recorder)
      [demo_press ''device:new:12'', demo_text None '' My phone ''] demo_memory of
    (_, s') \<Rightarrow> bs_backend s' = [client_http_call (bot_client demo_recorder) 77 (NewDevice ''My phone'' (Some 12) ''wireguard'')] \<and>
      hc_path (hd (bs_backend s')) = ''/api/v1/devices''"
proof -
  obtain r s' where run: "process_updates (recording_bot (\<lambda>_ _. HttpxError ''ConnectError'') demo_recorder)
      [demo_press ''device:new:12'', demo_text None '' My phone ''] demo_memory = (r, s')"
    by fastforce
  have "int_str 12 = ''12''" by code_simp
  then have "presses demo_sender (''device:new:'' @ int_str 12) (demo_press ''device:new:12'')"
    using demo_updates(1) by simp
  from named_device_is_what_was_picked [OF disjI1 [OF conjI [OF this conjI [OF refl refl]]] demo_updates(3) _ _ _ run]
  have "bs_backend s' = [client_http_call (bot_client demo_recorder) 77 (NewDevice (take 64 (strip '' My phone '')) (Some 12) ''wireguard'')]"
    by (simp add: demo_recorder_def demo_tg_bot_def demo_memory_def no_user_data_def demo_sender_def)
  moreover have "take 64 (strip '' My phone '') = ''My phone''" by code_simp
  ultimately show ?thesis
    by (simp add: run client_http_call_def bot_call_def)
qed

lemma one_message_two_actions_witness:
  "case process_updates (recording_bot (\<lambda>_ _. HttpxError ''ConnectError'') demo_recorder)
      [demo_press ''device:new:proto:vless'', demo_text (Some ''support'') ''/support'', demo_text None ''it does not connect''] demo_memory of
    (_, s') \<Rightarrow> map hc_path (bs_backend s') = [''/api/v1/devices'', ''/api/v1/support'']"
proof -
  obtain r s' where run: "process_updates (recording_bot (\<lambda>_ _. HttpxError ''ConnectError'') demo_recorder)
      [demo_press ''device:new:proto:vless'', demo_text (Some ''support'') ''/support'', demo_text None ''it does not connect''] demo_memory = (r, s')"
    by fastforce
  have "presses demo_sender (''device:new:proto:'' @ protocol_value VLESS) (demo_press ''device:new:proto:vless'')"
    using demo_updates(1) by simp
  from one_message_two_actions [OF this demo_updates(2,3) _ _ run]
  have "map hc_path (bs_backend s') = [''/api/v1/devices'', ''/api/v1/support'']"
    by (simp add: demo_recorder_def demo_tg_bot_def demo_memory_def no_user_data_def client_http_call_def bot_call_def)
  then show ?thesis by (simp add: run)
qed
lemma pressed_button_acts_on_its_subject_witness:
  "case process_update (recording_bot (\<lambda>_ _. HttpxError ''ConnectError'') demo_recorder) (demo_press ''device:revoke:7'') demo_memory of
    (_, s') \<Rightarrow> map (\<lambda>c. (hc_method c, hc_path c)) (take 1 (bs_backend s')) = [(DELETE, ''/api/v1/devices/7'')]"
proof -
  obtain r s' where run: "process_update (recording_bot (\<lambda>_ _. HttpxError ''ConnectError'') demo_recorder)
      (demo_press ''device:revoke:7'') demo_memory = (r, s')"
    by fastforce
  have seven: "int_str 7 = ''7''" by code_simp
  then have p: "presses demo_sender (''device:revoke:'' @ int_str 7) (demo_press ''device:revoke:7'')"
    using demo_updates(1) by simp
  have w: "(''device:revoke:'', HRevoke, Revoke) \<in> set changing_words"
    by (simp add: changing_words_def)
  have "prefix (bs_backend demo_memory @ [client_http_call (bot_client demo_recorder) (tu_id demo_sender) (Revoke 7)]) (bs_backend s')"
    by (rule pressed_button_acts_on_its_subject [OF w p _ run]) (simp add: demo_recorder_def demo_tg_bot_def)
  then obtain l where "bs_backend s' = client_http_call (bot_client demo_recorder) (tu_id demo_sender) (Revoke 7) # l"
    by (auto simp: prefix_def demo_memory_def)
  then show ?thesis
    by (simp add: run client_http_call_def bot_call_def device_path_def seven)
qed

end
