(* ===== verification/Notify.thy ===== *)
theory Notify
  imports BotMenus
begin

text \<open>
  The bot's notification endpoint (\<^verbatim>\<open>bot/app/notify_server.py\<close>) behind the backend's notifier
  (\<^verbatim>\<open>backend/app/services/notifications/bot_notifier.py\<close>, theory Expiry), and the whole sweep of expired subscriptions before
  the bot. Proved: the notifier and the endpoint together deliver a notice exactly when they share the
  token, and neither a failing Telegram nor a wrong token reaches the caller.
\<close>

text \<open>\<^verbatim>\<open>NotifyRequest\<close>\<close>

definition notify_request :: "json \<Rightarrow> (int \<times> string) option" where
  "notify_request j = (case (jget ''telegram_id'' j, jget ''message'' j) of
       (Some (JInt i), Some (JStr m)) \<Rightarrow> Some (i, m) | _ \<Rightarrow> None)"

text \<open>The bot at an address, as the network of a client that sends it JSON.\<close>

definition notify_network ::
  "('b, 't) bot_env \<Rightarrow> (string \<Rightarrow> json option) \<Rightarrow> string \<Rightarrow> 't network" where
  "notify_network E parse base req t =
     (if req_url req \<noteq> base @ ''/notify'' then (Response 404 ''Not Found'', t)
      else if req_method req \<noteq> ''POST'' then (Response 405 ''Method Not Allowed'', t)
      else case Option.bind (parse (req_body req)) notify_request of
          None \<Rightarrow> (Response 422 ''Unprocessable'', t)
        | Some (i, m) \<Rightarrow>
            (case notify E (req_internal_token req) i m t of
               ((outcome, status), t') \<Rightarrow> (Response status (if status = 204 then '''' else ''Invalid internal token''), t')))"

text \<open>The notifier of the backend and the notification endpoint of the bot fit together: if both have the
  same nonempty token, one message with the text of the notice is sent to the user's chat; if they do not,
  nothing is sent. In either case, and also when Telegram refuses the message, the notifier returns normally, so
  the operation that triggered the notice is not disturbed.\<close>

theorem notice_is_delivered:
  assumes "parse (bn_dumps b (JObj [(''telegram_id'', JInt tid), (''message'', JStr msg)])) =
      Some (JObj [(''telegram_id'', JInt tid), (''message'', JStr msg)])"
  shows "bot_notify (notify_network E parse (rstrip_char CHR ''/'' (bn_base_url b))) b tid msg t =
    (Inr (), if bn_token b = ce_token (bot_client E) \<and> bn_token b \<noteq> ''''
             then snd (bot_telegram E (SendMessage tid (Notice msg) None) t) else t)"
  using assms
  by (auto simp: bot_notify_def notify_network_def notify_request_def jget_def notify_def absent_def
      constant_time_compare_def utf8_inj split: prod.split option.split)

definition demo_notice :: json where
  "demo_notice = JObj [(''telegram_id'', JInt 77), (''message'', JStr ''expired'')]"

lemma notice_is_delivered_witness:
  "bot_notify (notify_network demo_recorder (\<lambda>s. if s = ''x'' then Some demo_notice else None) ''http://bot'')
     \<lparr>bn_base_url = ''http://bot/'', bn_token = ''t'', bn_dumps = (\<lambda>_. ''x'')\<rparr> 77 ''expired'' [] =
     (Inr (), [SendMessage 77 (Notice ''expired'') None])"
proof -
  have "rstrip_char CHR ''/'' ''http://bot/'' = ''http://bot''" by code_simp
  then show ?thesis
    using notice_is_delivered [of "\<lambda>s. if s = ''x'' then Some demo_notice else None"
        "\<lparr>bn_base_url = ''http://bot/'', bn_token = ''t'', bn_dumps = (\<lambda>_. ''x'')\<rparr>" 77 "''expired''" demo_recorder "[]"]
    by (simp add: demo_notice_def demo_recorder_def demo_tg_bot_def)
qed

end
