(* ===== verification/Orm.thy ===== *)
theory Orm
  imports Models
begin

text \<open>
  The relational schema that the models declare (\<^verbatim>\<open>backend/app/models/\<close>, \<^verbatim>\<open>backend/app/db/base.py\<close>), and the
  rows the records of \<^verbatim>\<open>Models\<close> are stored as. A model is its \<^verbatim>\<open>__tablename__\<close>, whether it mixes in
  \<^verbatim>\<open>TimestampMixin\<close>, its \<^verbatim>\<open>mapped_column\<close>s with the arguments that matter to the schema, and its
  \<^verbatim>\<open>__table_args__\<close>; Python-side defaults and relationships are not part of it. What a declaration means for the
  schema is SQLAlchemy's documented rule: the type given or that of the annotation, a column nullable if its
  annotation is optional unless told otherwise, a primary key never; \<^verbatim>\<open>index=True\<close> an index named after table and
  column, unique if \<^verbatim>\<open>unique=True\<close> stands beside it, and \<^verbatim>\<open>unique=True\<close> alone an unnamed unique constraint.
\<close>

section \<open>Tables of the database\<close>

datatype column_type =
    IntegerT
  | BigIntegerT
  | StringT nat
  | TextT
  | BooleanT
  | DateTimeT
  | NumericT nat nat
  | JsonT
  | EnumT string "string list"

record column =
  col_name :: string
  col_type :: column_type
  nullable :: bool
  server_default :: "string option"

datatype on_delete = NoAction | DeleteRow | SetNull

datatype constr =
    PrimaryKey "string list"
  | ForeignKey string string string on_delete
  | Unique "string option" "string list"

record index =
  ix_name :: string
  ix_columns :: "string list"
  ix_unique :: bool

record table_schema =
  columns :: "column list"
  constraints :: "constr list"
  indexes :: "index list"

text \<open>A row gives the named columns their values.\<close>

datatype cell =
    NULL
  | IntC int
  | TextC string
  | BoolC bool
  | TimeC instant
  | NumC rat
  | JsonC json

type_synonym row = "(string \<times> cell) list"

definition cell_of :: "row \<Rightarrow> string \<Rightarrow> cell" where
  "cell_of r c = (case map_of r c of Some v \<Rightarrow> v | None \<Rightarrow> NULL)"

text \<open>
  Whether a column of a type takes a value. An \<^verbatim>\<open>Enum(..., native_enum=False)\<close> column stores the name of the member
  as text; \<^verbatim>\<open>well_sorted\<close> leaves out the bounds on its size.
\<close>

fun well_sorted :: "column_type \<Rightarrow> cell \<Rightarrow> bool" where
  "well_sorted IntegerT (IntC i) = True"
| "well_sorted BigIntegerT (IntC i) = True"
| "well_sorted (StringT n) (TextC s) = True"
| "well_sorted TextT (TextC s) = True"
| "well_sorted BooleanT (BoolC b) = True"
| "well_sorted DateTimeT (TimeC t) = True"
| "well_sorted (NumericT p s) (NumC q) = True"
| "well_sorted JsonT (JsonC j) = True"
| "well_sorted (EnumT n names) (TextC s) = (s \<in> set names)"
| "well_sorted ty v = False"

fun within_size :: "column_type \<Rightarrow> cell \<Rightarrow> bool" where
  "within_size IntegerT (IntC i) = (- (2 ^ 31) \<le> i \<and> i < 2 ^ 31)"
| "within_size BigIntegerT (IntC i) = (- (2 ^ 63) \<le> i \<and> i < 2 ^ 63)"
| "within_size (StringT n) (TextC s) = (length s \<le> n)"
| "within_size (NumericT p s) (NumC q) = (\<bar>q\<bar> < 10 ^ (p - s))"
| "within_size ty v = True"

definition accepts :: "column \<Rightarrow> cell \<Rightarrow> bool" where
  "accepts c v = (if v = NULL then nullable c else well_sorted (col_type c) v \<and> within_size (col_type c) v)"

text \<open>The sets of columns no two rows may agree on, nulls apart; the primary key is one of them.\<close>

fun constr_key :: "constr \<Rightarrow> string list option" where
  "constr_key (PrimaryKey ks) = Some ks"
| "constr_key (Unique n ks) = Some ks"
| "constr_key (ForeignKey c t k d) = None"

definition unique_keys :: "'a table_schema_scheme \<Rightarrow> string list list" where
  "unique_keys t =
     List.map_filter constr_key (constraints t) @ map ix_columns (filter ix_unique (indexes t))"

definition agree :: "string list \<Rightarrow> row \<Rightarrow> row \<Rightarrow> bool" where
  "agree ks a b = list_all (\<lambda>k. cell_of a k = cell_of b k \<and> cell_of a k \<noteq> NULL) ks"

definition clash :: "'a table_schema_scheme \<Rightarrow> row \<Rightarrow> row \<Rightarrow> bool" where
  "clash t a b = list_ex (\<lambda>ks. agree ks a b) (unique_keys t)"

section \<open>Declarations\<close>

datatype annotation =
    Py_int | Py_str | Py_bool | Py_float | Py_datetime | Py_dict | Py_list | Py_enum
  | Optional annotation

datatype column_arg =
    Typed column_type
  | References string string on_delete
  | Nullable bool
  | Is_unique
  | Is_indexed
  | Is_primary

datatype mapped_column = Mapped string annotation "column_arg list"

record orm_model =
  tablename :: string
  timestamped :: bool
  model_columns :: "mapped_column list"
  table_args :: "constr list"

text \<open>\<^verbatim>\<open>TimestampMixin\<close>.\<close>

definition timestamp_mixin :: "mapped_column list" where
  "timestamp_mixin =
     [Mapped ''created_at'' Py_datetime [Typed DateTimeT, Nullable False],
      Mapped ''updated_at'' Py_datetime [Typed DateTimeT, Nullable False]]"

fun annotated_type :: "annotation \<Rightarrow> column_type option" where
  "annotated_type Py_int = Some IntegerT"
| "annotated_type Py_bool = Some BooleanT"
| "annotated_type Py_datetime = Some DateTimeT"
| "annotated_type (Optional a) = annotated_type a"
| "annotated_type a = None"

fun is_optional :: "annotation \<Rightarrow> bool" where
  "is_optional (Optional a) = True"
| "is_optional a = False"

fun arg_type :: "column_arg \<Rightarrow> column_type option" where
  "arg_type (Typed ty) = Some ty"
| "arg_type a = None"

fun arg_nullable :: "column_arg \<Rightarrow> bool option" where
  "arg_nullable (Nullable b) = Some b"
| "arg_nullable a = None"

fun arg_reference :: "string \<Rightarrow> column_arg \<Rightarrow> constr option" where
  "arg_reference c (References t k d) = Some (ForeignKey c t k d)"
| "arg_reference c a = None"

fun first_some :: "'a option list \<Rightarrow> 'a option" where
  "first_some [] = None"
| "first_some (None # xs) = first_some xs"
| "first_some (Some x # xs) = Some x"

fun declared_column :: "mapped_column \<Rightarrow> column option" where
  "declared_column (Mapped c a args) =
     map_option
       (\<lambda>ty. \<lparr>col_name = c, col_type = ty,
          nullable = (case first_some (map arg_nullable args) of
             Some b \<Rightarrow> b | None \<Rightarrow> is_optional a \<and> Is_primary \<notin> set args),
          server_default = None\<rparr>)
       (first_some (map arg_type args @ [annotated_type a]))"

fun declared_constraints :: "mapped_column \<Rightarrow> constr list" where
  "declared_constraints (Mapped c a args) =
     (if Is_primary \<in> set args then [PrimaryKey [c]] else []) @
     List.map_filter (arg_reference c) args @
     (if Is_unique \<in> set args \<and> Is_indexed \<notin> set args then [Unique None [c]] else [])"

fun declared_indexes :: "string \<Rightarrow> mapped_column \<Rightarrow> index list" where
  "declared_indexes t (Mapped c a args) =
     (if Is_indexed \<in> set args
      then [\<lparr>ix_name = ''ix_'' @ t @ ''_'' @ c, ix_columns = [c], ix_unique = (Is_unique \<in> set args)\<rparr>]
      else [])"

definition declared_fields :: "orm_model \<Rightarrow> mapped_column list" where
  "declared_fields m = model_columns m @ (if timestamped m then timestamp_mixin else [])"

definition declared_table :: "orm_model \<Rightarrow> table_schema" where
  "declared_table m = \<lparr>
     columns = List.map_filter declared_column (declared_fields m),
     constraints = concat (map declared_constraints (declared_fields m)) @ table_args m,
     indexes = concat (map (declared_indexes (tablename m)) (declared_fields m))\<rparr>"

definition user_model :: orm_model where
  "user_model = \<lparr>tablename = ''users'', timestamped = True,
     model_columns = [
       Mapped ''id'' Py_int [Is_primary],
       Mapped ''telegram_id'' Py_int [Typed BigIntegerT, Is_unique, Is_indexed, Nullable False],
       Mapped ''username'' (Optional Py_str) [Typed (StringT 64), Nullable True],
       Mapped ''first_name'' (Optional Py_str) [Typed (StringT 128), Nullable True],
       Mapped ''last_name'' (Optional Py_str) [Typed (StringT 128), Nullable True],
       Mapped ''language_code'' (Optional Py_str) [Typed (StringT 8), Nullable True],
       Mapped ''status'' Py_enum [Typed (EnumT ''userstatus'' [''ACTIVE'', ''BLOCKED'']), Nullable False]],
     table_args = []\<rparr>"

definition admin_user_model :: orm_model where
  "admin_user_model = \<lparr>tablename = ''admin_users'', timestamped = True,
     model_columns = [
       Mapped ''id'' Py_int [Is_primary],
       Mapped ''email'' Py_str [Typed (StringT 255), Is_unique, Nullable False, Is_indexed],
       Mapped ''hashed_password'' Py_str [Typed (StringT 255), Nullable False],
       Mapped ''role'' Py_enum [Typed (EnumT ''adminrole'' [''SUPERADMIN'', ''SUPPORT'', ''VIEWER'']), Nullable False],
       Mapped ''is_active'' Py_bool [Typed BooleanT, Nullable False]],
     table_args = []\<rparr>"

definition audit_log_model :: orm_model where
  "audit_log_model = \<lparr>tablename = ''audit_logs'', timestamped = False,
     model_columns = [
       Mapped ''id'' Py_int [Is_primary],
       Mapped ''admin_id'' (Optional Py_int) [References ''admin_users'' ''id'' SetNull, Nullable True, Is_indexed],
       Mapped ''action'' Py_str [Typed (StringT 128), Nullable False, Is_indexed],
       Mapped ''target_type'' Py_str [Typed (StringT 64), Nullable False],
       Mapped ''target_id'' (Optional Py_str) [Typed (StringT 64), Nullable True],
       Mapped ''metadata_json'' Py_dict [Typed JsonT, Nullable False],
       Mapped ''created_at'' Py_datetime [Typed DateTimeT, Nullable False, Is_indexed]],
     table_args = []\<rparr>"

definition plan_model :: orm_model where
  "plan_model = \<lparr>tablename = ''plans'', timestamped = True,
     model_columns = [
       Mapped ''id'' Py_int [Is_primary],
       Mapped ''name'' Py_str [Typed (StringT 64), Nullable False],
       Mapped ''slug'' Py_str [Typed (StringT 64), Is_unique, Nullable False],
       Mapped ''price'' Py_float [Typed (NumericT 10 2), Nullable False],
       Mapped ''currency'' Py_str [Typed (StringT 3), Nullable False],
       Mapped ''duration_days'' Py_int [Typed IntegerT, Nullable False],
       Mapped ''max_devices'' Py_int [Typed IntegerT, Nullable False],
       Mapped ''max_speed_mbps'' (Optional Py_int) [Typed IntegerT, Nullable True],
       Mapped ''active'' Py_bool [Typed BooleanT, Nullable False]],
     table_args = []\<rparr>"

definition subscription_model :: orm_model where
  "subscription_model = \<lparr>tablename = ''subscriptions'', timestamped = True,
     model_columns = [
       Mapped ''id'' Py_int [Is_primary],
       Mapped ''user_id'' Py_int [References ''users'' ''id'' DeleteRow, Is_indexed],
       Mapped ''plan_id'' Py_int [References ''plans'' ''id'' NoAction, Nullable False],
       Mapped ''status'' Py_enum [Typed (EnumT ''subscriptionstatus'' [''CREATED'', ''PENDING'', ''ACTIVE'', ''EXPIRED'', ''CANCELLED'']), Nullable False, Is_indexed],
       Mapped ''started_at'' (Optional Py_datetime) [Typed DateTimeT, Nullable True],
       Mapped ''expires_at'' (Optional Py_datetime) [Typed DateTimeT, Nullable True, Is_indexed],
       Mapped ''auto_renew'' Py_bool [Typed BooleanT, Nullable False],
       Mapped ''device_limit_override'' (Optional Py_int) [Typed IntegerT, Nullable True]],
     table_args = []\<rparr>"

definition payment_model :: orm_model where
  "payment_model = \<lparr>tablename = ''payments'', timestamped = True,
     model_columns = [
       Mapped ''id'' Py_int [Is_primary],
       Mapped ''user_id'' Py_int [References ''users'' ''id'' DeleteRow, Is_indexed],
       Mapped ''subscription_id'' (Optional Py_int) [References ''subscriptions'' ''id'' SetNull, Nullable True],
       Mapped ''plan_id'' Py_int [References ''plans'' ''id'' NoAction, Nullable False],
       Mapped ''provider'' Py_str [Typed (StringT 32), Nullable False],
       Mapped ''external_payment_id'' (Optional Py_str) [Typed (StringT 128), Nullable True],
       Mapped ''idempotency_key'' Py_str [Typed (StringT 64), Is_unique, Nullable False],
       Mapped ''amount'' Py_float [Typed (NumericT 10 2), Nullable False],
       Mapped ''currency'' Py_str [Typed (StringT 3), Nullable False],
       Mapped ''status'' Py_enum [Typed (EnumT ''paymentstatus'' [''PENDING'', ''SUCCEEDED'', ''FAILED'', ''REFUNDED'', ''CANCELLED'']), Nullable False, Is_indexed],
       Mapped ''promo_code_id'' (Optional Py_int) [References ''promo_codes'' ''id'' SetNull, Nullable True],
       Mapped ''metadata_json'' Py_dict [Typed JsonT, Nullable False]],
     table_args = [Unique (Some ''uq_payment_provider_external_id'') [''provider'', ''external_payment_id'']]\<rparr>"

definition promo_code_model :: orm_model where
  "promo_code_model = \<lparr>tablename = ''promo_codes'', timestamped = True,
     model_columns = [
       Mapped ''id'' Py_int [Is_primary],
       Mapped ''code'' Py_str [Typed (StringT 32), Is_unique, Nullable False, Is_indexed],
       Mapped ''discount_type'' Py_enum [Typed (EnumT ''promodiscounttype'' [''PERCENT'', ''FIXED'']), Nullable False],
       Mapped ''discount_value'' Py_float [Typed (NumericT 10 2), Nullable False],
       Mapped ''max_uses'' (Optional Py_int) [Typed IntegerT, Nullable True],
       Mapped ''used_count'' Py_int [Typed IntegerT, Nullable False],
       Mapped ''valid_from'' (Optional Py_datetime) [Typed DateTimeT, Nullable True],
       Mapped ''valid_until'' (Optional Py_datetime) [Typed DateTimeT, Nullable True],
       Mapped ''active'' Py_bool [Typed BooleanT, Nullable False]],
     table_args = []\<rparr>"

definition promo_redemption_model :: orm_model where
  "promo_redemption_model = \<lparr>tablename = ''promo_code_redemptions'', timestamped = False,
     model_columns = [
       Mapped ''id'' Py_int [Is_primary],
       Mapped ''promo_code_id'' Py_int [References ''promo_codes'' ''id'' DeleteRow, Is_indexed],
       Mapped ''user_id'' Py_int [References ''users'' ''id'' DeleteRow, Is_indexed],
       Mapped ''payment_id'' (Optional Py_int) [References ''payments'' ''id'' SetNull, Nullable True],
       Mapped ''redeemed_at'' Py_datetime [Typed DateTimeT, Nullable False]],
     table_args = []\<rparr>"

definition referral_model :: orm_model where
  "referral_model = \<lparr>tablename = ''referrals'', timestamped = False,
     model_columns = [
       Mapped ''id'' Py_int [Is_primary],
       Mapped ''referrer_user_id'' Py_int [References ''users'' ''id'' DeleteRow, Is_indexed],
       Mapped ''referred_user_id'' Py_int [References ''users'' ''id'' DeleteRow, Is_unique, Is_indexed],
       Mapped ''reward_applied'' Py_bool [Typed BooleanT, Nullable False],
       Mapped ''created_at'' Py_datetime [Typed DateTimeT, Nullable False]],
     table_args = [Unique (Some ''uq_referral_pair'') [''referrer_user_id'', ''referred_user_id'']]\<rparr>"

definition device_model :: orm_model where
  "device_model = \<lparr>tablename = ''devices'', timestamped = True,
     model_columns = [
       Mapped ''id'' Py_int [Is_primary],
       Mapped ''user_id'' Py_int [References ''users'' ''id'' DeleteRow, Is_indexed],
       Mapped ''name'' Py_str [Typed (StringT 64), Nullable False],
       Mapped ''public_key'' (Optional Py_str) [Typed (StringT 64), Is_unique, Nullable True],
       Mapped ''assigned_ip'' (Optional Py_str) [Typed (StringT 64), Nullable True],
       Mapped ''server_id'' (Optional Py_int) [References ''vpn_servers'' ''id'' SetNull, Nullable True],
       Mapped ''status'' Py_enum [Typed (EnumT ''devicestatus'' [''ACTIVE'', ''DISABLED'', ''REVOKED'']), Nullable False],
       Mapped ''last_seen'' (Optional Py_datetime) [Typed DateTimeT, Nullable True],
       Mapped ''protocol'' Py_enum [Typed (EnumT ''vpnprotocol'' [''WIREGUARD'', ''VLESS'']), Nullable False]],
     table_args = []\<rparr>"

definition vpn_server_model :: orm_model where
  "vpn_server_model = \<lparr>tablename = ''vpn_servers'', timestamped = True,
     model_columns = [
       Mapped ''id'' Py_int [Is_primary],
       Mapped ''name'' Py_str [Typed (StringT 64), Nullable False],
       Mapped ''country'' Py_str [Typed (StringT 64), Nullable False],
       Mapped ''city'' (Optional Py_str) [Typed (StringT 64), Nullable True],
       Mapped ''hostname'' Py_str [Typed (StringT 255), Nullable False],
       Mapped ''agent_base_url'' Py_str [Typed (StringT 255), Nullable False],
       Mapped ''public_key'' Py_str [Typed (StringT 64), Nullable False],
       Mapped ''endpoint'' Py_str [Typed (StringT 255), Nullable False],
       Mapped ''listen_port'' Py_int [Typed IntegerT, Nullable False],
       Mapped ''internal_network'' Py_str [Typed (StringT 64), Nullable False],
       Mapped ''status'' Py_enum [Typed (EnumT ''vpnserverstatus'' [''ONLINE'', ''DEGRADED'', ''OFFLINE'', ''MAINTENANCE'']), Nullable False, Is_indexed],
       Mapped ''capacity'' Py_int [Typed IntegerT, Nullable False],
       Mapped ''current_load'' Py_int [Typed IntegerT, Nullable False],
       Mapped ''protocol'' Py_enum [Typed (EnumT ''vpnprotocol'' [''WIREGUARD'', ''VLESS'']), Nullable False, Is_indexed]],
     table_args = []\<rparr>"

definition vless_server_config_model :: orm_model where
  "vless_server_config_model = \<lparr>tablename = ''vless_server_configs'', timestamped = True,
     model_columns = [
       Mapped ''id'' Py_int [Is_primary],
       Mapped ''server_id'' Py_int [References ''vpn_servers'' ''id'' DeleteRow, Is_unique, Is_indexed],
       Mapped ''xray_agent_base_url'' Py_str [Typed (StringT 255), Nullable False],
       Mapped ''port'' Py_int [Typed IntegerT, Nullable False],
       Mapped ''reality_public_key'' Py_str [Typed (StringT 64), Nullable False],
       Mapped ''reality_short_ids'' Py_list [Typed JsonT, Nullable False],
       Mapped ''sni'' Py_str [Typed (StringT 255), Nullable False],
       Mapped ''fingerprint'' Py_str [Typed (StringT 32), Nullable False],
       Mapped ''flow'' Py_str [Typed (StringT 32), Nullable False],
       Mapped ''network_type'' Py_str [Typed (StringT 16), Nullable False]],
     table_args = []\<rparr>"

definition vpn_peer_model :: orm_model where
  "vpn_peer_model = \<lparr>tablename = ''vpn_peers'', timestamped = True,
     model_columns = [
       Mapped ''id'' Py_int [Is_primary],
       Mapped ''device_id'' Py_int [References ''devices'' ''id'' DeleteRow, Is_indexed],
       Mapped ''server_id'' Py_int [References ''vpn_servers'' ''id'' DeleteRow],
       Mapped ''public_key'' Py_str [Typed (StringT 64), Is_unique, Nullable False],
       Mapped ''assigned_ip'' Py_str [Typed (StringT 64), Nullable False],
       Mapped ''status'' Py_enum [Typed (EnumT ''vpnpeerstatus'' [''ACTIVE'', ''DISABLED'', ''REVOKED'']), Nullable False],
       Mapped ''expires_at'' (Optional Py_datetime) [Typed DateTimeT, Nullable True]],
     table_args = [Unique (Some ''uq_vpn_peer_server_assigned_ip'') [''server_id'', ''assigned_ip'']]\<rparr>"

definition vless_credential_model :: orm_model where
  "vless_credential_model = \<lparr>tablename = ''vless_credentials'', timestamped = True,
     model_columns = [
       Mapped ''id'' Py_int [Is_primary],
       Mapped ''device_id'' Py_int [References ''devices'' ''id'' DeleteRow, Is_indexed],
       Mapped ''server_id'' Py_int [References ''vpn_servers'' ''id'' DeleteRow],
       Mapped ''uuid'' Py_str [Typed (StringT 36), Is_unique, Nullable False, Is_indexed],
       Mapped ''status'' Py_enum [Typed (EnumT ''vlesscredentialstatus'' [''ACTIVE'', ''DISABLED'', ''REVOKED'']), Nullable False, Is_indexed],
       Mapped ''rotated_at'' (Optional Py_datetime) [Typed DateTimeT, Nullable True],
       Mapped ''revoked_at'' (Optional Py_datetime) [Typed DateTimeT, Nullable True]],
     table_args = [Unique (Some ''uq_vless_credential_device_server'') [''device_id'', ''server_id'']]\<rparr>"

definition vpn_profile_model :: orm_model where
  "vpn_profile_model = \<lparr>tablename = ''vpn_profiles'', timestamped = True,
     model_columns = [
       Mapped ''id'' Py_int [Is_primary],
       Mapped ''device_id'' Py_int [References ''devices'' ''id'' DeleteRow, Is_indexed],
       Mapped ''mode'' Py_enum [Typed (EnumT ''routingmode'' [''FULL_VPN'', ''SMART_VPN'']), Nullable False],
       Mapped ''allowed_ips'' Py_list [Typed JsonT, Nullable False],
       Mapped ''dns'' Py_list [Typed JsonT, Nullable False],
       Mapped ''version'' Py_int [Nullable False],
       Mapped ''is_current'' Py_bool [Typed BooleanT, Nullable False, Is_indexed],
       Mapped ''generated_at'' Py_datetime [Typed DateTimeT, Nullable False]],
     table_args = []\<rparr>"

definition subscription_link_model :: orm_model where
  "subscription_link_model = \<lparr>tablename = ''subscription_links'', timestamped = True,
     model_columns = [
       Mapped ''id'' Py_int [Is_primary],
       Mapped ''device_id'' Py_int [References ''devices'' ''id'' DeleteRow, Is_unique, Is_indexed],
       Mapped ''token_hash'' Py_str [Typed (StringT 64), Is_unique, Nullable False, Is_indexed],
       Mapped ''token_prefix'' Py_str [Typed (StringT 12), Nullable False],
       Mapped ''status'' Py_enum [Typed (EnumT ''subscriptionlinkstatus'' [''ACTIVE'', ''REVOKED'']), Nullable False, Is_indexed],
       Mapped ''rotated_at'' (Optional Py_datetime) [Typed DateTimeT, Nullable True],
       Mapped ''revoked_at'' (Optional Py_datetime) [Typed DateTimeT, Nullable True],
       Mapped ''last_accessed_at'' (Optional Py_datetime) [Typed DateTimeT, Nullable True],
       Mapped ''access_count'' Py_int [Typed IntegerT, Nullable False]],
     table_args = []\<rparr>"

definition routing_category_model :: orm_model where
  "routing_category_model = \<lparr>tablename = ''routing_categories'', timestamped = False,
     model_columns = [
       Mapped ''id'' Py_int [Is_primary],
       Mapped ''name'' Py_str [Typed (StringT 64), Is_unique, Nullable False],
       Mapped ''description'' (Optional Py_str) [Typed (StringT 255), Nullable True],
       Mapped ''enabled'' Py_bool [Typed BooleanT, Nullable False]],
     table_args = []\<rparr>"

definition routing_rule_model :: orm_model where
  "routing_rule_model = \<lparr>tablename = ''routing_rules'', timestamped = False,
     model_columns = [
       Mapped ''id'' Py_int [Is_primary],
       Mapped ''category_id'' Py_int [References ''routing_categories'' ''id'' DeleteRow, Is_indexed],
       Mapped ''domain'' Py_str [Typed (StringT 255), Nullable False, Is_indexed],
       Mapped ''route_type'' Py_enum [Typed (EnumT ''routetype'' [''VPN'', ''DIRECT'']), Nullable False],
       Mapped ''enabled'' Py_bool [Typed BooleanT, Nullable False],
       Mapped ''updated_at'' Py_datetime [Typed DateTimeT, Nullable False]],
     table_args = [Unique (Some ''uq_routing_rule_domain'') [''category_id'', ''domain'']]\<rparr>"

definition user_routing_profile_model :: orm_model where
  "user_routing_profile_model = \<lparr>tablename = ''user_routing_profiles'', timestamped = False,
     model_columns = [
       Mapped ''id'' Py_int [Is_primary],
       Mapped ''user_id'' Py_int [References ''users'' ''id'' DeleteRow, Is_unique, Is_indexed],
       Mapped ''mode'' Py_enum [Typed (EnumT ''routingmode'' [''FULL_VPN'', ''SMART_VPN'']), Nullable False]],
     table_args = []\<rparr>"

definition user_category_preference_model :: orm_model where
  "user_category_preference_model = \<lparr>tablename = ''user_category_preferences'', timestamped = False,
     model_columns = [
       Mapped ''id'' Py_int [Is_primary],
       Mapped ''user_id'' Py_int [References ''users'' ''id'' DeleteRow, Is_indexed],
       Mapped ''category_id'' Py_int [References ''routing_categories'' ''id'' DeleteRow],
       Mapped ''enabled'' Py_bool [Typed BooleanT, Nullable False]],
     table_args = [Unique (Some ''uq_user_category_preference'') [''user_id'', ''category_id'']]\<rparr>"

definition user_custom_domain_model :: orm_model where
  "user_custom_domain_model = \<lparr>tablename = ''user_custom_domains'', timestamped = False,
     model_columns = [
       Mapped ''id'' Py_int [Is_primary],
       Mapped ''user_id'' Py_int [References ''users'' ''id'' DeleteRow, Is_indexed],
       Mapped ''domain'' Py_str [Typed (StringT 255), Nullable False],
       Mapped ''route_type'' Py_enum [Typed (EnumT ''routetype'' [''VPN'', ''DIRECT'']), Nullable False],
       Mapped ''enabled'' Py_bool [Typed BooleanT, Nullable False],
       Mapped ''created_at'' Py_datetime [Typed DateTimeT, Nullable False]],
     table_args = [Unique (Some ''uq_user_custom_domain'') [''user_id'', ''domain'']]\<rparr>"

definition support_ticket_model :: orm_model where
  "support_ticket_model = \<lparr>tablename = ''support_tickets'', timestamped = True,
     model_columns = [
       Mapped ''id'' Py_int [Is_primary],
       Mapped ''user_id'' Py_int [References ''users'' ''id'' DeleteRow, Is_indexed],
       Mapped ''subject'' Py_str [Typed (StringT 255), Nullable False],
       Mapped ''status'' Py_enum [Typed (EnumT ''supportticketstatus'' [''OPEN'', ''PENDING'', ''CLOSED'']), Nullable False, Is_indexed]],
     table_args = []\<rparr>"

definition support_message_model :: orm_model where
  "support_message_model = \<lparr>tablename = ''support_messages'', timestamped = False,
     model_columns = [
       Mapped ''id'' Py_int [Is_primary],
       Mapped ''ticket_id'' Py_int [References ''support_tickets'' ''id'' DeleteRow, Is_indexed],
       Mapped ''sender'' Py_enum [Typed (EnumT ''supportsender'' [''USER'', ''ADMIN'']), Nullable False],
       Mapped ''text'' Py_str [Typed TextT, Nullable False],
       Mapped ''created_at'' Py_datetime [Typed DateTimeT, Nullable False]],
     table_args = []\<rparr>"

text \<open>\<^verbatim>\<open>Base.metadata\<close> once \<^verbatim>\<open>app.models\<close> is imported.\<close>

definition orm_models :: "orm_model list" where
  "orm_models =
     [user_model, admin_user_model, audit_log_model, plan_model, subscription_model, payment_model,
      promo_code_model, promo_redemption_model, referral_model, device_model, vpn_server_model,
      vless_server_config_model, vpn_peer_model, vless_credential_model, vpn_profile_model,
      subscription_link_model, routing_category_model, routing_rule_model,
      user_routing_profile_model, user_category_preference_model, user_custom_domain_model,
      support_ticket_model, support_message_model]"

definition declared_schema :: "(string \<times> table_schema) list" where
  "declared_schema = map (\<lambda>m. (tablename m, declared_table m)) orm_models"

section \<open>The rows of the records\<close>

text \<open>
  The values the columns of a record's row hold, \<^verbatim>\<open>updated_at\<close> of the timestamped models apart. The members of an
  enumeration are stored by name.
\<close>

fun user_status_name :: "user_status \<Rightarrow> string" where
  "user_status_name UserActive = ''ACTIVE''"
| "user_status_name UserBlocked = ''BLOCKED''"

fun subscription_status_name :: "subscription_status \<Rightarrow> string" where
  "subscription_status_name SubCreated = ''CREATED''"
| "subscription_status_name SubPending = ''PENDING''"
| "subscription_status_name SubActive = ''ACTIVE''"
| "subscription_status_name SubExpired = ''EXPIRED''"
| "subscription_status_name SubCancelled = ''CANCELLED''"

fun device_status_name :: "device_status \<Rightarrow> string" where
  "device_status_name DevActive = ''ACTIVE''"
| "device_status_name DevDisabled = ''DISABLED''"
| "device_status_name DevRevoked = ''REVOKED''"

fun server_status_name :: "server_status \<Rightarrow> string" where
  "server_status_name SrvOnline = ''ONLINE''"
| "server_status_name SrvDegraded = ''DEGRADED''"
| "server_status_name SrvOffline = ''OFFLINE''"
| "server_status_name SrvMaintenance = ''MAINTENANCE''"

fun peer_status_name :: "peer_status \<Rightarrow> string" where
  "peer_status_name PeerActive = ''ACTIVE''"
| "peer_status_name PeerDisabled = ''DISABLED''"
| "peer_status_name PeerRevoked = ''REVOKED''"

fun link_status_name :: "link_status \<Rightarrow> string" where
  "link_status_name LinkActive = ''ACTIVE''"
| "link_status_name LinkRevoked = ''REVOKED''"

fun protocol_name :: "protocol \<Rightarrow> string" where
  "protocol_name WIREGUARD = ''WIREGUARD''"
| "protocol_name VLESS = ''VLESS''"

fun credential_status_name :: "credential_status \<Rightarrow> string" where
  "credential_status_name CredActive = ''ACTIVE''"
| "credential_status_name CredDisabled = ''DISABLED''"
| "credential_status_name CredRevoked = ''REVOKED''"

fun routing_mode_name :: "routing_mode \<Rightarrow> string" where
  "routing_mode_name FULL_VPN = ''FULL_VPN''"
| "routing_mode_name SMART_VPN = ''SMART_VPN''"

fun route_type_name :: "route_type \<Rightarrow> string" where
  "route_type_name VPN = ''VPN''"
| "route_type_name DIRECT = ''DIRECT''"

fun payment_status_name :: "payment_status \<Rightarrow> string" where
  "payment_status_name PayPending = ''PENDING''"
| "payment_status_name PaySucceeded = ''SUCCEEDED''"
| "payment_status_name PayFailed = ''FAILED''"
| "payment_status_name PayRefunded = ''REFUNDED''"
| "payment_status_name PayCancelled = ''CANCELLED''"

fun discount_kind_name :: "discount_kind \<Rightarrow> string" where
  "discount_kind_name PERCENT = ''PERCENT''"
| "discount_kind_name FIXED = ''FIXED''"

fun ticket_status_name :: "ticket_status \<Rightarrow> string" where
  "ticket_status_name TicketOpen = ''OPEN''"
| "ticket_status_name TicketPending = ''PENDING''"
| "ticket_status_name TicketClosed = ''CLOSED''"

fun support_sender_name :: "support_sender \<Rightarrow> string" where
  "support_sender_name SenderUser = ''USER''"
| "support_sender_name SenderAdmin = ''ADMIN''"

fun admin_role_name :: "admin_role \<Rightarrow> string" where
  "admin_role_name SUPERADMIN = ''SUPERADMIN''"
| "admin_role_name SUPPORT = ''SUPPORT''"
| "admin_role_name VIEWER = ''VIEWER''"

definition opt_cell :: "('a \<Rightarrow> cell) \<Rightarrow> 'a option \<Rightarrow> cell" where
  "opt_cell f x = (case x of None \<Rightarrow> NULL | Some a \<Rightarrow> f a)"

definition strings_cell :: "string list \<Rightarrow> cell" where
  "strings_cell xs = JsonC (JList (map JStr xs))"

definition user_row :: "user \<Rightarrow> row" where
  "user_row r = [
     (''id'', IntC (rid r)),
     (''telegram_id'', IntC (telegram_id r)),
     (''username'', opt_cell TextC (username r)),
     (''first_name'', opt_cell TextC (first_name r)),
     (''last_name'', opt_cell TextC (last_name r)),
     (''language_code'', opt_cell TextC (language_code r)),
     (''status'', TextC (user_status_name (usr_status r))),
     (''created_at'', TimeC (created_at r))]"

definition admin_user_row :: "admin_user \<Rightarrow> row" where
  "admin_user_row r = [
     (''id'', IntC (rid r)),
     (''email'', TextC (adm_email r)),
     (''hashed_password'', TextC (hashed_password r)),
     (''role'', TextC (admin_role_name (adm_role r))),
     (''is_active'', BoolC (is_active r)),
     (''created_at'', TimeC (created_at r))]"

definition audit_log_row :: "audit_log \<Rightarrow> row" where
  "audit_log_row r = [
     (''id'', IntC (rid r)),
     (''admin_id'', opt_cell IntC (log_admin_id r)),
     (''action'', TextC (action r)),
     (''target_type'', TextC (target_type r)),
     (''target_id'', opt_cell TextC (target_id r)),
     (''metadata_json'', JsonC (log_metadata r)),
     (''created_at'', TimeC (log_created_at r))]"

definition plan_row :: "plan \<Rightarrow> row" where
  "plan_row r = [
     (''id'', IntC (rid r)),
     (''name'', TextC (plan_name r)),
     (''slug'', TextC (slug r)),
     (''price'', NumC (price r)),
     (''currency'', TextC (currency r)),
     (''duration_days'', IntC (duration_days r)),
     (''max_devices'', IntC (max_devices r)),
     (''max_speed_mbps'', opt_cell IntC (max_speed_mbps r)),
     (''active'', BoolC (plan_active r)),
     (''created_at'', TimeC (created_at r))]"

definition subscription_row :: "subscription \<Rightarrow> row" where
  "subscription_row r = [
     (''id'', IntC (rid r)),
     (''user_id'', IntC (sub_user_id r)),
     (''plan_id'', IntC (sub_plan_id r)),
     (''status'', TextC (subscription_status_name (sub_status r))),
     (''started_at'', opt_cell TimeC (started_at r)),
     (''expires_at'', opt_cell TimeC (expires_at r)),
     (''auto_renew'', BoolC (auto_renew r)),
     (''device_limit_override'', opt_cell IntC (device_limit_override r)),
     (''created_at'', TimeC (created_at r))]"

definition payment_row :: "payment \<Rightarrow> row" where
  "payment_row r = [
     (''id'', IntC (rid r)),
     (''user_id'', IntC (pay_user_id r)),
     (''subscription_id'', opt_cell IntC (pay_subscription_id r)),
     (''plan_id'', IntC (pay_plan_id r)),
     (''provider'', TextC (pay_provider r)),
     (''external_payment_id'', opt_cell TextC (external_payment_id r)),
     (''idempotency_key'', TextC (idempotency_key r)),
     (''amount'', NumC (amount r)),
     (''currency'', TextC (pay_currency r)),
     (''status'', TextC (payment_status_name (pay_status r))),
     (''promo_code_id'', opt_cell IntC (pay_promo_code_id r)),
     (''metadata_json'', JsonC (pay_metadata r)),
     (''created_at'', TimeC (created_at r))]"

definition promo_code_row :: "promo_code \<Rightarrow> row" where
  "promo_code_row r = [
     (''id'', IntC (rid r)),
     (''code'', TextC (code r)),
     (''discount_type'', TextC (discount_kind_name (discount_type r))),
     (''discount_value'', NumC (discount_value r)),
     (''max_uses'', opt_cell IntC (max_uses r)),
     (''used_count'', IntC (used_count r)),
     (''valid_from'', opt_cell TimeC (valid_from r)),
     (''valid_until'', opt_cell TimeC (valid_until r)),
     (''active'', BoolC (promo_active r)),
     (''created_at'', TimeC (created_at r))]"

definition promo_redemption_row :: "promo_redemption \<Rightarrow> row" where
  "promo_redemption_row r = [
     (''id'', IntC (rid r)),
     (''promo_code_id'', IntC (red_promo_code_id r)),
     (''user_id'', IntC (red_user_id r)),
     (''payment_id'', opt_cell IntC (red_payment_id r)),
     (''redeemed_at'', TimeC (redeemed_at r))]"

definition referral_row :: "referral \<Rightarrow> row" where
  "referral_row r = [
     (''id'', IntC (rid r)),
     (''referrer_user_id'', IntC (referrer_user_id r)),
     (''referred_user_id'', IntC (referred_user_id r)),
     (''reward_applied'', BoolC (reward_applied r)),
     (''created_at'', TimeC (ref_created_at r))]"

definition device_row :: "device \<Rightarrow> row" where
  "device_row r = [
     (''id'', IntC (rid r)),
     (''user_id'', IntC (dev_user_id r)),
     (''name'', TextC (dev_name r)),
     (''public_key'', opt_cell TextC (dev_public_key r)),
     (''assigned_ip'', opt_cell TextC (dev_assigned_ip r)),
     (''server_id'', opt_cell IntC (dev_server_id r)),
     (''status'', TextC (device_status_name (dev_status r))),
     (''last_seen'', opt_cell TimeC (last_seen r)),
     (''protocol'', TextC (protocol_name (dev_protocol r))),
     (''created_at'', TimeC (created_at r))]"

definition vpn_server_row :: "vpn_server \<Rightarrow> row" where
  "vpn_server_row r = [
     (''id'', IntC (rid r)),
     (''name'', TextC (srv_name r)),
     (''country'', TextC (country r)),
     (''city'', opt_cell TextC (city r)),
     (''hostname'', TextC (hostname r)),
     (''agent_base_url'', TextC (agent_base_url r)),
     (''public_key'', TextC (srv_public_key r)),
     (''endpoint'', TextC (endpoint r)),
     (''listen_port'', IntC (listen_port r)),
     (''internal_network'', TextC (internal_network r)),
     (''status'', TextC (server_status_name (srv_status r))),
     (''capacity'', IntC (capacity r)),
     (''current_load'', IntC (current_load r)),
     (''protocol'', TextC (protocol_name (srv_protocol r))),
     (''created_at'', TimeC (created_at r))]"

definition vless_server_config_row :: "vless_server_config \<Rightarrow> row" where
  "vless_server_config_row r = [
     (''id'', IntC (rid r)),
     (''server_id'', IntC (cfg_server_id r)),
     (''xray_agent_base_url'', TextC (xray_agent_base_url r)),
     (''port'', IntC (port r)),
     (''reality_public_key'', TextC (reality_public_key r)),
     (''reality_short_ids'', strings_cell (reality_short_ids r)),
     (''sni'', TextC (sni r)),
     (''fingerprint'', TextC (fingerprint r)),
     (''flow'', TextC (flow r)),
     (''network_type'', TextC (network_type r)),
     (''created_at'', TimeC (created_at r))]"

definition vpn_peer_row :: "vpn_peer \<Rightarrow> row" where
  "vpn_peer_row r = [
     (''id'', IntC (rid r)),
     (''device_id'', IntC (peer_device_id r)),
     (''server_id'', IntC (peer_server_id r)),
     (''public_key'', TextC (peer_public_key r)),
     (''assigned_ip'', TextC (peer_assigned_ip r)),
     (''status'', TextC (peer_status_name (peer_status r))),
     (''expires_at'', opt_cell TimeC (peer_expires_at r)),
     (''created_at'', TimeC (created_at r))]"

definition vless_credential_row :: "vless_credential \<Rightarrow> row" where
  "vless_credential_row r = [
     (''id'', IntC (rid r)),
     (''device_id'', IntC (cred_device_id r)),
     (''server_id'', IntC (cred_server_id r)),
     (''uuid'', TextC (cred_uuid r)),
     (''status'', TextC (credential_status_name (cred_status r))),
     (''rotated_at'', opt_cell TimeC (cred_rotated_at r)),
     (''revoked_at'', opt_cell TimeC (cred_revoked_at r)),
     (''created_at'', TimeC (created_at r))]"

definition vpn_profile_row :: "vpn_profile \<Rightarrow> row" where
  "vpn_profile_row r = [
     (''id'', IntC (rid r)),
     (''device_id'', IntC (prof_device_id r)),
     (''mode'', TextC (routing_mode_name (prof_mode r))),
     (''allowed_ips'', strings_cell (allowed_ips r)),
     (''dns'', strings_cell (prof_dns r)),
     (''version'', IntC (version r)),
     (''is_current'', BoolC (is_current r)),
     (''generated_at'', TimeC (generated_at r)),
     (''created_at'', TimeC (created_at r))]"

definition subscription_link_row :: "subscription_link \<Rightarrow> row" where
  "subscription_link_row r = [
     (''id'', IntC (rid r)),
     (''device_id'', IntC (link_device_id r)),
     (''token_hash'', TextC (token_hash r)),
     (''token_prefix'', TextC (token_prefix r)),
     (''status'', TextC (link_status_name (link_status r))),
     (''rotated_at'', opt_cell TimeC (link_rotated_at r)),
     (''revoked_at'', opt_cell TimeC (link_revoked_at r)),
     (''last_accessed_at'', opt_cell TimeC (last_accessed_at r)),
     (''access_count'', IntC (access_count r)),
     (''created_at'', TimeC (created_at r))]"

definition routing_category_row :: "routing_category \<Rightarrow> row" where
  "routing_category_row r = [
     (''id'', IntC (rid r)),
     (''name'', TextC (cat_name r)),
     (''description'', opt_cell TextC (cat_description r)),
     (''enabled'', BoolC (cat_enabled r))]"

definition routing_rule_row :: "routing_rule \<Rightarrow> row" where
  "routing_rule_row r = [
     (''id'', IntC (rid r)),
     (''category_id'', IntC (rule_category_id r)),
     (''domain'', TextC (rule_domain r)),
     (''route_type'', TextC (route_type_name (rule_route_type r))),
     (''enabled'', BoolC (rule_enabled r)),
     (''updated_at'', TimeC (rule_updated_at r))]"

definition user_routing_profile_row :: "user_routing_profile \<Rightarrow> row" where
  "user_routing_profile_row r = [
     (''id'', IntC (rid r)),
     (''user_id'', IntC (urp_user_id r)),
     (''mode'', TextC (routing_mode_name (urp_mode r)))]"

definition user_category_preference_row :: "user_category_preference \<Rightarrow> row" where
  "user_category_preference_row r = [
     (''id'', IntC (rid r)),
     (''user_id'', IntC (pref_user_id r)),
     (''category_id'', IntC (pref_category_id r)),
     (''enabled'', BoolC (pref_enabled r))]"

definition user_custom_domain_row :: "user_custom_domain \<Rightarrow> row" where
  "user_custom_domain_row r = [
     (''id'', IntC (rid r)),
     (''user_id'', IntC (cd_user_id r)),
     (''domain'', TextC (cd_domain r)),
     (''route_type'', TextC (route_type_name (cd_route_type r))),
     (''enabled'', BoolC (cd_enabled r)),
     (''created_at'', TimeC (cd_created_at r))]"

definition support_ticket_row :: "support_ticket \<Rightarrow> row" where
  "support_ticket_row r = [
     (''id'', IntC (rid r)),
     (''user_id'', IntC (tick_user_id r)),
     (''subject'', TextC (subject r)),
     (''status'', TextC (ticket_status_name (tick_status r))),
     (''created_at'', TimeC (created_at r))]"

definition support_message_row :: "support_message \<Rightarrow> row" where
  "support_message_row r = [
     (''id'', IntC (rid r)),
     (''ticket_id'', IntC (msg_ticket_id r)),
     (''sender'', TextC (support_sender_name (sender r))),
     (''text'', TextC (msg_text r)),
     (''created_at'', TimeC (msg_created_at r))]"

end
