(* ===== verification/Migrations.thy ===== *)
theory Migrations
  imports Orm
begin

text \<open>
  The database migrations (\<^verbatim>\<open>backend/alembic/\<close>): each script as the list of schema operations it performs, the
  line of revisions they form, and their run in one transaction. Alembic and the database are not part of the
  repository: what executes an operation is an argument of the definitions, and what the scripts rely on of it is
  the locale \<^verbatim>\<open>sql_engine\<close>. It performs an operation under conditions that suffice in PostgreSQL (\<^verbatim>\<open>legal\<close>) with
  the documented effect (\<^verbatim>\<open>effect\<close>) and refuses those of \<^verbatim>\<open>refused\<close>; of other operations nothing is said. The
  lemmas show that legal operations keep a stored database valid, and that \<^verbatim>\<open>undo\<close> takes each one back.
\<close>

section \<open>Stored databases and schema operations\<close>

record stored = table_schema +
  table_rows :: "row list"

type_synonym stored_db = "(string \<times> stored) list"

datatype schema_op =
    Create_table string "column list" "constr list"
  | Drop_table string
  | Create_index string string "string list" bool
  | Drop_index string string
  | Add_column string column
  | Drop_column string string
  | Create_unique string string "string list"
  | Drop_unique string string

definition make_column :: "string \<Rightarrow> column_type \<Rightarrow> bool \<Rightarrow> string option \<Rightarrow> column" where
  "make_column c ty b d = \<lparr>col_name = c, col_type = ty, nullable = b, server_default = d\<rparr>"

definition column_names :: "'a table_schema_scheme \<Rightarrow> string list" where
  "column_names t = map col_name (columns t)"

fun constr_columns :: "constr \<Rightarrow> string list" where
  "constr_columns (PrimaryKey ks) = ks"
| "constr_columns (ForeignKey c t k d) = [c]"
| "constr_columns (Unique n ks) = ks"

fun constr_name :: "constr \<Rightarrow> string option" where
  "constr_name (Unique n ks) = n"
| "constr_name k = None"

fun targets :: "constr \<Rightarrow> (string \<times> string) option" where
  "targets (ForeignKey c t k d) = Some (t, k)"
| "targets k = None"

text \<open>Whether a foreign key of some table refers to a column, or of another table to any column of a table.\<close>

definition refers :: "stored_db \<Rightarrow> string \<Rightarrow> string \<Rightarrow> bool" where
  "refers db n k = list_ex (\<lambda>(m, t). Some (n, k) \<in> set (map targets (constraints t))) db"

definition refers_table :: "stored_db \<Rightarrow> string \<Rightarrow> bool" where
  "refers_table db n =
     list_ex (\<lambda>(m, t). m \<noteq> n \<and> list_ex (\<lambda>c. map_option fst (targets c) = Some n) (constraints t)) db"

definition has_index :: "string \<Rightarrow> 'a table_schema_scheme \<Rightarrow> bool" where
  "has_index x t = (x \<in> set (map ix_name (indexes t)))"

text \<open>The rows agree nowhere on a set of columns.\<close>

definition apart :: "string list \<Rightarrow> row list \<Rightarrow> bool" where
  "apart ks rs = sorted_wrt (\<lambda>a b. \<not> agree ks a b) rs"

definition default_cell :: "column \<Rightarrow> cell" where
  "default_cell c = (case server_default c of None \<Rightarrow> NULL | Some s \<Rightarrow> TextC s)"

definition alter :: "string \<Rightarrow> (stored \<Rightarrow> stored) \<Rightarrow> stored_db \<Rightarrow> stored_db" where
  "alter n f db = map (\<lambda>(m, t). (m, if m = n then f t else t)) db"

definition on_table :: "stored_db \<Rightarrow> string \<Rightarrow> (stored \<Rightarrow> bool) \<Rightarrow> bool" where
  "on_table db n P = (case map_of db n of None \<Rightarrow> False | Some t \<Rightarrow> P t)"

fun legal_constr :: "stored_db \<Rightarrow> string list \<Rightarrow> constr \<Rightarrow> bool" where
  "legal_constr db cs (ForeignKey c t k d) =
     (c \<in> set cs \<and> on_table db t (\<lambda>u. k \<in> set (column_names u) \<and> [k] \<in> set (unique_keys u)))"
| "legal_constr db cs c = list_all (\<lambda>k. k \<in> set cs) (constr_columns c)"

text \<open>A new key is on columns the table has, that its rows do not repeat, and that no foreign key refers to.\<close>

definition legal_key :: "stored_db \<Rightarrow> string \<Rightarrow> string list \<Rightarrow> stored \<Rightarrow> bool" where
  "legal_key db n ks t = (list_all (\<lambda>k. \<not> refers db n k) ks \<and> apart ks (table_rows t))"

fun legal :: "schema_op \<Rightarrow> stored_db \<Rightarrow> bool" where
  "legal (Create_table n cs ks) db =
     (map_of db n = None \<and> distinct (map col_name cs) \<and>
      list_all (legal_constr db (map col_name cs)) ks)"
| "legal (Drop_table n) db = (map_of db n \<noteq> None \<and> \<not> refers_table db n)"
| "legal (Create_index x n ks u) db =
     (list_all (\<lambda>(m, t). \<not> has_index x t) db \<and>
      on_table db n (\<lambda>t. list_all (\<lambda>k. k \<in> set (column_names t)) ks \<and> (u \<longrightarrow> legal_key db n ks t)))"
| "legal (Drop_index x n) db =
     on_table db n (\<lambda>t. list_ex (\<lambda>i. ix_name i = x) (indexes t) \<and>
       list_all (\<lambda>i. ix_name i = x \<and> ix_unique i \<longrightarrow> list_all (\<lambda>k. \<not> refers db n k) (ix_columns i))
         (indexes t))"
| "legal (Add_column n c) db =
     on_table db n (\<lambda>t. col_name c \<notin> set (column_names t) \<and>
       (table_rows t = [] \<or> accepts c (default_cell c)))"
| "legal (Drop_column n k) db =
     (\<not> refers db n k \<and> on_table db n (\<lambda>t. k \<in> set (column_names t) \<and>
       list_all (\<lambda>c. k \<notin> set (constr_columns c)) (constraints t) \<and>
       list_all (\<lambda>i. k \<notin> set (ix_columns i)) (indexes t)))"
| "legal (Create_unique n u ks) db =
     on_table db n (\<lambda>t. list_all (\<lambda>k. k \<in> set (column_names t)) ks \<and>
       list_all (\<lambda>c. constr_name c \<noteq> Some u) (constraints t) \<and> legal_key db n ks t)"
| "legal (Drop_unique n u) db =
     on_table db n (\<lambda>t. list_ex (\<lambda>c. constr_name c = Some u) (constraints t) \<and>
       list_all (\<lambda>c. constr_name c = Some u \<longrightarrow> list_all (\<lambda>k. \<not> refers db n k) (constr_columns c))
         (constraints t))"

fun effect :: "schema_op \<Rightarrow> stored_db \<Rightarrow> stored_db" where
  "effect (Create_table n cs ks) db =
     db @ [(n, \<lparr>columns = cs, constraints = ks, indexes = [], table_rows = []\<rparr>)]"
| "effect (Drop_table n) db = filter (\<lambda>(m, t). m \<noteq> n) db"
| "effect (Create_index x n ks u) db =
     alter n (\<lambda>t. t\<lparr>indexes := indexes t @ [\<lparr>ix_name = x, ix_columns = ks, ix_unique = u\<rparr>]\<rparr>) db"
| "effect (Drop_index x n) db = alter n (\<lambda>t. t\<lparr>indexes := filter (\<lambda>i. ix_name i \<noteq> x) (indexes t)\<rparr>) db"
| "effect (Add_column n c) db =
     alter n (\<lambda>t. t\<lparr>columns := columns t @ [c],
       table_rows := map (\<lambda>r. r @ [(col_name c, default_cell c)]) (table_rows t)\<rparr>) db"
| "effect (Drop_column n k) db =
     alter n (\<lambda>t. t\<lparr>columns := filter (\<lambda>c. col_name c \<noteq> k) (columns t),
       table_rows := map (filter (\<lambda>(c, v). c \<noteq> k)) (table_rows t)\<rparr>) db"
| "effect (Create_unique n u ks) db =
     alter n (\<lambda>t. t\<lparr>constraints := constraints t @ [Unique (Some u) ks]\<rparr>) db"
| "effect (Drop_unique n u) db =
     alter n (\<lambda>t. t\<lparr>constraints := filter (\<lambda>c. constr_name c \<noteq> Some u) (constraints t)\<rparr>) db"

text \<open>What is certain to fail: a table that is there already or is missing, or rows that repeat a new key.\<close>

fun refused :: "schema_op \<Rightarrow> stored_db \<Rightarrow> bool" where
  "refused (Create_table n cs ks) db = (map_of db n \<noteq> None)"
| "refused (Drop_table n) db = (map_of db n = None)"
| "refused (Create_index x n ks u) db =
     (case map_of db n of None \<Rightarrow> True | Some t \<Rightarrow> u \<and> \<not> apart ks (table_rows t))"
| "refused (Create_unique n u ks) db =
     (case map_of db n of None \<Rightarrow> True | Some t \<Rightarrow> \<not> apart ks (table_rows t))"
| "refused (Drop_index x n) db = (map_of db n = None)"
| "refused (Add_column n c) db = (map_of db n = None)"
| "refused (Drop_column n k) db = (map_of db n = None)"
| "refused (Drop_unique n u) db = (map_of db n = None)"

fun run_script :: "(schema_op \<Rightarrow> stored_db \<Rightarrow> stored_db option) \<Rightarrow> schema_op list \<Rightarrow> stored_db \<Rightarrow> stored_db option" where
  "run_script run [] db = Some db"
| "run_script run (x # xs) db = (case run x db of None \<Rightarrow> None | Some db' \<Rightarrow> run_script run xs db')"

fun legal_script :: "schema_op list \<Rightarrow> stored_db \<Rightarrow> bool" where
  "legal_script [] db = True"
| "legal_script (x # xs) db = (legal x db \<and> legal_script xs (effect x db))"

text \<open>The operation that takes another back; what is dropped cannot be restored.\<close>

fun undo :: "schema_op \<Rightarrow> schema_op option" where
  "undo (Create_table n cs ks) = Some (Drop_table n)"
| "undo (Create_index x n ks u) = Some (Drop_index x n)"
| "undo (Add_column n c) = Some (Drop_column n (col_name c))"
| "undo (Create_unique n u ks) = Some (Drop_unique n u)"
| "undo x = None"

section \<open>The scripts\<close>

definition create_admin_users :: "schema_op list" where
  "create_admin_users =
     [Create_table ''admin_users''
        [make_column ''id'' IntegerT False None,
         make_column ''email'' (StringT 255) False None,
         make_column ''hashed_password'' (StringT 255) False None,
         make_column ''role'' (EnumT ''adminrole'' [''SUPERADMIN'', ''SUPPORT'', ''VIEWER'']) False None,
         make_column ''is_active'' BooleanT False None,
         make_column ''created_at'' DateTimeT False None,
         make_column ''updated_at'' DateTimeT False None]
        [PrimaryKey [''id'']],
      Create_index ''ix_admin_users_email'' ''admin_users'' [''email''] True]"

definition create_plans :: "schema_op list" where
  "create_plans =
     [Create_table ''plans''
        [make_column ''id'' IntegerT False None,
         make_column ''name'' (StringT 64) False None,
         make_column ''slug'' (StringT 64) False None,
         make_column ''price'' (NumericT 10 2) False None,
         make_column ''currency'' (StringT 3) False None,
         make_column ''duration_days'' IntegerT False None,
         make_column ''max_devices'' IntegerT False None,
         make_column ''max_speed_mbps'' IntegerT True None,
         make_column ''active'' BooleanT False None,
         make_column ''created_at'' DateTimeT False None,
         make_column ''updated_at'' DateTimeT False None]
        [PrimaryKey [''id''],
         Unique None [''slug'']]]"

definition create_promo_codes :: "schema_op list" where
  "create_promo_codes =
     [Create_table ''promo_codes''
        [make_column ''id'' IntegerT False None,
         make_column ''code'' (StringT 32) False None,
         make_column ''discount_type'' (EnumT ''promodiscounttype'' [''PERCENT'', ''FIXED'']) False None,
         make_column ''discount_value'' (NumericT 10 2) False None,
         make_column ''max_uses'' IntegerT True None,
         make_column ''used_count'' IntegerT False None,
         make_column ''valid_from'' DateTimeT True None,
         make_column ''valid_until'' DateTimeT True None,
         make_column ''active'' BooleanT False None,
         make_column ''created_at'' DateTimeT False None,
         make_column ''updated_at'' DateTimeT False None]
        [PrimaryKey [''id'']],
      Create_index ''ix_promo_codes_code'' ''promo_codes'' [''code''] True]"

definition create_routing_categories :: "schema_op list" where
  "create_routing_categories =
     [Create_table ''routing_categories''
        [make_column ''id'' IntegerT False None,
         make_column ''name'' (StringT 64) False None,
         make_column ''description'' (StringT 255) True None,
         make_column ''enabled'' BooleanT False None]
        [PrimaryKey [''id''],
         Unique None [''name'']]]"

definition create_users :: "schema_op list" where
  "create_users =
     [Create_table ''users''
        [make_column ''id'' IntegerT False None,
         make_column ''telegram_id'' BigIntegerT False None,
         make_column ''username'' (StringT 64) True None,
         make_column ''first_name'' (StringT 128) True None,
         make_column ''last_name'' (StringT 128) True None,
         make_column ''language_code'' (StringT 8) True None,
         make_column ''status'' (EnumT ''userstatus'' [''ACTIVE'', ''BLOCKED'']) False None,
         make_column ''created_at'' DateTimeT False None,
         make_column ''updated_at'' DateTimeT False None]
        [PrimaryKey [''id'']],
      Create_index ''ix_users_telegram_id'' ''users'' [''telegram_id''] True]"

definition create_vpn_servers :: "schema_op list" where
  "create_vpn_servers =
     [Create_table ''vpn_servers''
        [make_column ''id'' IntegerT False None,
         make_column ''name'' (StringT 64) False None,
         make_column ''country'' (StringT 64) False None,
         make_column ''city'' (StringT 64) True None,
         make_column ''hostname'' (StringT 255) False None,
         make_column ''agent_base_url'' (StringT 255) False None,
         make_column ''public_key'' (StringT 64) False None,
         make_column ''endpoint'' (StringT 255) False None,
         make_column ''listen_port'' IntegerT False None,
         make_column ''internal_network'' (StringT 64) False None,
         make_column ''status'' (EnumT ''vpnserverstatus'' [''ONLINE'', ''DEGRADED'', ''OFFLINE'', ''MAINTENANCE'']) False None,
         make_column ''capacity'' IntegerT False None,
         make_column ''current_load'' IntegerT False None,
         make_column ''created_at'' DateTimeT False None,
         make_column ''updated_at'' DateTimeT False None]
        [PrimaryKey [''id'']],
      Create_index ''ix_vpn_servers_status'' ''vpn_servers'' [''status''] False]"

definition create_audit_logs :: "schema_op list" where
  "create_audit_logs =
     [Create_table ''audit_logs''
        [make_column ''id'' IntegerT False None,
         make_column ''admin_id'' IntegerT True None,
         make_column ''action'' (StringT 128) False None,
         make_column ''target_type'' (StringT 64) False None,
         make_column ''target_id'' (StringT 64) True None,
         make_column ''metadata_json'' JsonT False None,
         make_column ''created_at'' DateTimeT False None]
        [ForeignKey ''admin_id'' ''admin_users'' ''id'' SetNull,
         PrimaryKey [''id'']],
      Create_index ''ix_audit_logs_action'' ''audit_logs'' [''action''] False,
      Create_index ''ix_audit_logs_admin_id'' ''audit_logs'' [''admin_id''] False,
      Create_index ''ix_audit_logs_created_at'' ''audit_logs'' [''created_at''] False]"

definition create_devices :: "schema_op list" where
  "create_devices =
     [Create_table ''devices''
        [make_column ''id'' IntegerT False None,
         make_column ''user_id'' IntegerT False None,
         make_column ''name'' (StringT 64) False None,
         make_column ''public_key'' (StringT 64) True None,
         make_column ''assigned_ip'' (StringT 64) True None,
         make_column ''server_id'' IntegerT True None,
         make_column ''status'' (EnumT ''devicestatus'' [''ACTIVE'', ''DISABLED'', ''REVOKED'']) False None,
         make_column ''last_seen'' DateTimeT True None,
         make_column ''created_at'' DateTimeT False None,
         make_column ''updated_at'' DateTimeT False None]
        [ForeignKey ''server_id'' ''vpn_servers'' ''id'' SetNull,
         ForeignKey ''user_id'' ''users'' ''id'' DeleteRow,
         PrimaryKey [''id''],
         Unique None [''public_key'']],
      Create_index ''ix_devices_user_id'' ''devices'' [''user_id''] False]"

definition create_referrals :: "schema_op list" where
  "create_referrals =
     [Create_table ''referrals''
        [make_column ''id'' IntegerT False None,
         make_column ''referrer_user_id'' IntegerT False None,
         make_column ''referred_user_id'' IntegerT False None,
         make_column ''reward_applied'' BooleanT False None,
         make_column ''created_at'' DateTimeT False None]
        [ForeignKey ''referred_user_id'' ''users'' ''id'' DeleteRow,
         ForeignKey ''referrer_user_id'' ''users'' ''id'' DeleteRow,
         PrimaryKey [''id''],
         Unique (Some ''uq_referral_pair'') [''referrer_user_id'', ''referred_user_id'']],
      Create_index ''ix_referrals_referred_user_id'' ''referrals'' [''referred_user_id''] True,
      Create_index ''ix_referrals_referrer_user_id'' ''referrals'' [''referrer_user_id''] False]"

definition create_routing_rules :: "schema_op list" where
  "create_routing_rules =
     [Create_table ''routing_rules''
        [make_column ''id'' IntegerT False None,
         make_column ''category_id'' IntegerT False None,
         make_column ''domain'' (StringT 255) False None,
         make_column ''route_type'' (EnumT ''routetype'' [''VPN'', ''DIRECT'']) False None,
         make_column ''enabled'' BooleanT False None,
         make_column ''updated_at'' DateTimeT False None]
        [ForeignKey ''category_id'' ''routing_categories'' ''id'' DeleteRow,
         PrimaryKey [''id''],
         Unique (Some ''uq_routing_rule_domain'') [''category_id'', ''domain'']],
      Create_index ''ix_routing_rules_category_id'' ''routing_rules'' [''category_id''] False,
      Create_index ''ix_routing_rules_domain'' ''routing_rules'' [''domain''] False]"

definition create_subscriptions :: "schema_op list" where
  "create_subscriptions =
     [Create_table ''subscriptions''
        [make_column ''id'' IntegerT False None,
         make_column ''user_id'' IntegerT False None,
         make_column ''plan_id'' IntegerT False None,
         make_column ''status'' (EnumT ''subscriptionstatus'' [''CREATED'', ''PENDING'', ''ACTIVE'', ''EXPIRED'', ''CANCELLED'']) False None,
         make_column ''started_at'' DateTimeT True None,
         make_column ''expires_at'' DateTimeT True None,
         make_column ''auto_renew'' BooleanT False None,
         make_column ''device_limit_override'' IntegerT True None,
         make_column ''created_at'' DateTimeT False None,
         make_column ''updated_at'' DateTimeT False None]
        [ForeignKey ''plan_id'' ''plans'' ''id'' NoAction,
         ForeignKey ''user_id'' ''users'' ''id'' DeleteRow,
         PrimaryKey [''id'']],
      Create_index ''ix_subscriptions_expires_at'' ''subscriptions'' [''expires_at''] False,
      Create_index ''ix_subscriptions_status'' ''subscriptions'' [''status''] False,
      Create_index ''ix_subscriptions_user_id'' ''subscriptions'' [''user_id''] False]"

definition create_support_tickets :: "schema_op list" where
  "create_support_tickets =
     [Create_table ''support_tickets''
        [make_column ''id'' IntegerT False None,
         make_column ''user_id'' IntegerT False None,
         make_column ''subject'' (StringT 255) False None,
         make_column ''status'' (EnumT ''supportticketstatus'' [''OPEN'', ''PENDING'', ''CLOSED'']) False None,
         make_column ''created_at'' DateTimeT False None,
         make_column ''updated_at'' DateTimeT False None]
        [ForeignKey ''user_id'' ''users'' ''id'' DeleteRow,
         PrimaryKey [''id'']],
      Create_index ''ix_support_tickets_status'' ''support_tickets'' [''status''] False,
      Create_index ''ix_support_tickets_user_id'' ''support_tickets'' [''user_id''] False]"

definition create_user_category_preferences :: "schema_op list" where
  "create_user_category_preferences =
     [Create_table ''user_category_preferences''
        [make_column ''id'' IntegerT False None,
         make_column ''user_id'' IntegerT False None,
         make_column ''category_id'' IntegerT False None,
         make_column ''enabled'' BooleanT False None]
        [ForeignKey ''category_id'' ''routing_categories'' ''id'' DeleteRow,
         ForeignKey ''user_id'' ''users'' ''id'' DeleteRow,
         PrimaryKey [''id''],
         Unique (Some ''uq_user_category_preference'') [''user_id'', ''category_id'']],
      Create_index ''ix_user_category_preferences_user_id'' ''user_category_preferences'' [''user_id''] False]"

definition create_user_custom_domains :: "schema_op list" where
  "create_user_custom_domains =
     [Create_table ''user_custom_domains''
        [make_column ''id'' IntegerT False None,
         make_column ''user_id'' IntegerT False None,
         make_column ''domain'' (StringT 255) False None,
         make_column ''route_type'' (EnumT ''routetype'' [''VPN'', ''DIRECT'']) False None,
         make_column ''enabled'' BooleanT False None,
         make_column ''created_at'' DateTimeT False None]
        [ForeignKey ''user_id'' ''users'' ''id'' DeleteRow,
         PrimaryKey [''id''],
         Unique (Some ''uq_user_custom_domain'') [''user_id'', ''domain'']],
      Create_index ''ix_user_custom_domains_user_id'' ''user_custom_domains'' [''user_id''] False]"

definition create_user_routing_profiles :: "schema_op list" where
  "create_user_routing_profiles =
     [Create_table ''user_routing_profiles''
        [make_column ''id'' IntegerT False None,
         make_column ''user_id'' IntegerT False None,
         make_column ''mode'' (EnumT ''routingmode'' [''FULL_VPN'', ''SMART_VPN'']) False None]
        [ForeignKey ''user_id'' ''users'' ''id'' DeleteRow,
         PrimaryKey [''id'']],
      Create_index ''ix_user_routing_profiles_user_id'' ''user_routing_profiles'' [''user_id''] True]"

definition create_payments :: "schema_op list" where
  "create_payments =
     [Create_table ''payments''
        [make_column ''id'' IntegerT False None,
         make_column ''user_id'' IntegerT False None,
         make_column ''subscription_id'' IntegerT True None,
         make_column ''plan_id'' IntegerT False None,
         make_column ''provider'' (StringT 32) False None,
         make_column ''external_payment_id'' (StringT 128) True None,
         make_column ''idempotency_key'' (StringT 64) False None,
         make_column ''amount'' (NumericT 10 2) False None,
         make_column ''currency'' (StringT 3) False None,
         make_column ''status'' (EnumT ''paymentstatus'' [''PENDING'', ''SUCCEEDED'', ''FAILED'', ''REFUNDED'', ''CANCELLED'']) False None,
         make_column ''promo_code_id'' IntegerT True None,
         make_column ''metadata_json'' JsonT False None,
         make_column ''created_at'' DateTimeT False None,
         make_column ''updated_at'' DateTimeT False None]
        [ForeignKey ''plan_id'' ''plans'' ''id'' NoAction,
         ForeignKey ''promo_code_id'' ''promo_codes'' ''id'' SetNull,
         ForeignKey ''subscription_id'' ''subscriptions'' ''id'' SetNull,
         ForeignKey ''user_id'' ''users'' ''id'' DeleteRow,
         PrimaryKey [''id''],
         Unique None [''idempotency_key''],
         Unique (Some ''uq_payment_provider_external_id'') [''provider'', ''external_payment_id'']],
      Create_index ''ix_payments_status'' ''payments'' [''status''] False,
      Create_index ''ix_payments_user_id'' ''payments'' [''user_id''] False]"

definition create_support_messages :: "schema_op list" where
  "create_support_messages =
     [Create_table ''support_messages''
        [make_column ''id'' IntegerT False None,
         make_column ''ticket_id'' IntegerT False None,
         make_column ''sender'' (EnumT ''supportsender'' [''USER'', ''ADMIN'']) False None,
         make_column ''text'' TextT False None,
         make_column ''created_at'' DateTimeT False None]
        [ForeignKey ''ticket_id'' ''support_tickets'' ''id'' DeleteRow,
         PrimaryKey [''id'']],
      Create_index ''ix_support_messages_ticket_id'' ''support_messages'' [''ticket_id''] False]"

definition create_vpn_peers :: "schema_op list" where
  "create_vpn_peers =
     [Create_table ''vpn_peers''
        [make_column ''id'' IntegerT False None,
         make_column ''device_id'' IntegerT False None,
         make_column ''server_id'' IntegerT False None,
         make_column ''public_key'' (StringT 64) False None,
         make_column ''assigned_ip'' (StringT 64) False None,
         make_column ''status'' (EnumT ''vpnpeerstatus'' [''ACTIVE'', ''DISABLED'', ''REVOKED'']) False None,
         make_column ''expires_at'' DateTimeT True None,
         make_column ''created_at'' DateTimeT False None,
         make_column ''updated_at'' DateTimeT False None]
        [ForeignKey ''device_id'' ''devices'' ''id'' DeleteRow,
         ForeignKey ''server_id'' ''vpn_servers'' ''id'' DeleteRow,
         PrimaryKey [''id''],
         Unique None [''public_key'']],
      Create_index ''ix_vpn_peers_device_id'' ''vpn_peers'' [''device_id''] False]"

definition create_vpn_profiles :: "schema_op list" where
  "create_vpn_profiles =
     [Create_table ''vpn_profiles''
        [make_column ''id'' IntegerT False None,
         make_column ''device_id'' IntegerT False None,
         make_column ''mode'' (EnumT ''routingmode'' [''FULL_VPN'', ''SMART_VPN'']) False None,
         make_column ''allowed_ips'' JsonT False None,
         make_column ''dns'' JsonT False None,
         make_column ''version'' IntegerT False None,
         make_column ''is_current'' BooleanT False None,
         make_column ''generated_at'' DateTimeT False None,
         make_column ''created_at'' DateTimeT False None,
         make_column ''updated_at'' DateTimeT False None]
        [ForeignKey ''device_id'' ''devices'' ''id'' DeleteRow,
         PrimaryKey [''id'']],
      Create_index ''ix_vpn_profiles_device_id'' ''vpn_profiles'' [''device_id''] False,
      Create_index ''ix_vpn_profiles_is_current'' ''vpn_profiles'' [''is_current''] False]"

definition create_promo_code_redemptions :: "schema_op list" where
  "create_promo_code_redemptions =
     [Create_table ''promo_code_redemptions''
        [make_column ''id'' IntegerT False None,
         make_column ''promo_code_id'' IntegerT False None,
         make_column ''user_id'' IntegerT False None,
         make_column ''payment_id'' IntegerT True None,
         make_column ''redeemed_at'' DateTimeT False None]
        [ForeignKey ''payment_id'' ''payments'' ''id'' SetNull,
         ForeignKey ''promo_code_id'' ''promo_codes'' ''id'' DeleteRow,
         ForeignKey ''user_id'' ''users'' ''id'' DeleteRow,
         PrimaryKey [''id'']],
      Create_index ''ix_promo_code_redemptions_promo_code_id'' ''promo_code_redemptions'' [''promo_code_id''] False,
      Create_index ''ix_promo_code_redemptions_user_id'' ''promo_code_redemptions'' [''user_id''] False]"

definition initial_schema_upgrade :: "schema_op list" where
  "initial_schema_upgrade =
     create_admin_users @ create_plans @ create_promo_codes @ create_routing_categories @
     create_users @ create_vpn_servers @ create_audit_logs @ create_devices @ create_referrals @
     create_routing_rules @ create_subscriptions @ create_support_tickets @
     create_user_category_preferences @ create_user_custom_domains @ create_user_routing_profiles @
     create_payments @ create_support_messages @ create_vpn_peers @ create_vpn_profiles @
     create_promo_code_redemptions"

definition initial_schema_downgrade :: "schema_op list" where
  "initial_schema_downgrade =
     [Drop_index ''ix_promo_code_redemptions_user_id'' ''promo_code_redemptions'',
      Drop_index ''ix_promo_code_redemptions_promo_code_id'' ''promo_code_redemptions'',
      Drop_table ''promo_code_redemptions'',
      Drop_index ''ix_vpn_profiles_is_current'' ''vpn_profiles'',
      Drop_index ''ix_vpn_profiles_device_id'' ''vpn_profiles'',
      Drop_table ''vpn_profiles'',
      Drop_index ''ix_vpn_peers_device_id'' ''vpn_peers'',
      Drop_table ''vpn_peers'',
      Drop_index ''ix_support_messages_ticket_id'' ''support_messages'',
      Drop_table ''support_messages'',
      Drop_index ''ix_payments_user_id'' ''payments'',
      Drop_index ''ix_payments_status'' ''payments'',
      Drop_table ''payments'',
      Drop_index ''ix_user_routing_profiles_user_id'' ''user_routing_profiles'',
      Drop_table ''user_routing_profiles'',
      Drop_index ''ix_user_custom_domains_user_id'' ''user_custom_domains'',
      Drop_table ''user_custom_domains'',
      Drop_index ''ix_user_category_preferences_user_id'' ''user_category_preferences'',
      Drop_table ''user_category_preferences'',
      Drop_index ''ix_support_tickets_user_id'' ''support_tickets'',
      Drop_index ''ix_support_tickets_status'' ''support_tickets'',
      Drop_table ''support_tickets'',
      Drop_index ''ix_subscriptions_user_id'' ''subscriptions'',
      Drop_index ''ix_subscriptions_status'' ''subscriptions'',
      Drop_index ''ix_subscriptions_expires_at'' ''subscriptions'',
      Drop_table ''subscriptions'',
      Drop_index ''ix_routing_rules_domain'' ''routing_rules'',
      Drop_index ''ix_routing_rules_category_id'' ''routing_rules'',
      Drop_table ''routing_rules'',
      Drop_index ''ix_referrals_referrer_user_id'' ''referrals'',
      Drop_index ''ix_referrals_referred_user_id'' ''referrals'',
      Drop_table ''referrals'',
      Drop_index ''ix_devices_user_id'' ''devices'',
      Drop_table ''devices'',
      Drop_index ''ix_audit_logs_created_at'' ''audit_logs'',
      Drop_index ''ix_audit_logs_admin_id'' ''audit_logs'',
      Drop_index ''ix_audit_logs_action'' ''audit_logs'',
      Drop_table ''audit_logs'',
      Drop_index ''ix_vpn_servers_status'' ''vpn_servers'',
      Drop_table ''vpn_servers'',
      Drop_index ''ix_users_telegram_id'' ''users'',
      Drop_table ''users'',
      Drop_table ''routing_categories'',
      Drop_index ''ix_promo_codes_code'' ''promo_codes'',
      Drop_table ''promo_codes'',
      Drop_table ''plans'',
      Drop_index ''ix_admin_users_email'' ''admin_users'',
      Drop_table ''admin_users'']"

definition peer_address_unique_upgrade :: "schema_op list" where
  "peer_address_unique_upgrade =
     [Create_unique ''vpn_peers'' ''uq_vpn_peer_server_assigned_ip'' [''server_id'', ''assigned_ip'']]"

definition peer_address_unique_downgrade :: "schema_op list" where
  "peer_address_unique_downgrade =
     [Drop_unique ''vpn_peers'' ''uq_vpn_peer_server_assigned_ip'']"

definition subscription_links_table_upgrade :: "schema_op list" where
  "subscription_links_table_upgrade =
     [Create_table ''subscription_links''
        [make_column ''id'' IntegerT False None,
         make_column ''device_id'' IntegerT False None,
         make_column ''token_hash'' (StringT 64) False None,
         make_column ''token_prefix'' (StringT 12) False None,
         make_column ''status'' (EnumT ''subscriptionlinkstatus'' [''ACTIVE'', ''REVOKED'']) False None,
         make_column ''rotated_at'' DateTimeT True None,
         make_column ''revoked_at'' DateTimeT True None,
         make_column ''last_accessed_at'' DateTimeT True None,
         make_column ''access_count'' IntegerT False None,
         make_column ''created_at'' DateTimeT False None,
         make_column ''updated_at'' DateTimeT False None]
        [ForeignKey ''device_id'' ''devices'' ''id'' DeleteRow,
         PrimaryKey [''id'']],
      Create_index ''ix_subscription_links_device_id'' ''subscription_links'' [''device_id''] True,
      Create_index ''ix_subscription_links_status'' ''subscription_links'' [''status''] False,
      Create_index ''ix_subscription_links_token_hash'' ''subscription_links'' [''token_hash''] True]"

definition subscription_links_table_downgrade :: "schema_op list" where
  "subscription_links_table_downgrade =
     [Drop_index ''ix_subscription_links_token_hash'' ''subscription_links'',
      Drop_index ''ix_subscription_links_status'' ''subscription_links'',
      Drop_index ''ix_subscription_links_device_id'' ''subscription_links'',
      Drop_table ''subscription_links'']"

definition vpn_protocol_enum :: column_type where
  "vpn_protocol_enum = EnumT ''vpnprotocol'' [''WIREGUARD'', ''VLESS'']"

definition vless_credential_status_enum :: column_type where
  "vless_credential_status_enum = EnumT ''vlesscredentialstatus'' [''ACTIVE'', ''DISABLED'', ''REVOKED'']"

definition vless_support_upgrade :: "schema_op list" where
  "vless_support_upgrade =
     [Add_column ''vpn_servers'' (make_column ''protocol'' vpn_protocol_enum False (Some ''WIREGUARD'')),
      Create_index ''ix_vpn_servers_protocol'' ''vpn_servers'' [''protocol''] False,
      Add_column ''devices'' (make_column ''protocol'' vpn_protocol_enum False (Some ''WIREGUARD'')),
      Create_table ''vless_server_configs''
        [make_column ''id'' IntegerT False None,
         make_column ''server_id'' IntegerT False None,
         make_column ''xray_agent_base_url'' (StringT 255) False None,
         make_column ''port'' IntegerT False None,
         make_column ''reality_public_key'' (StringT 64) False None,
         make_column ''reality_short_ids'' JsonT False None,
         make_column ''sni'' (StringT 255) False None,
         make_column ''fingerprint'' (StringT 32) False None,
         make_column ''flow'' (StringT 32) False None,
         make_column ''network_type'' (StringT 16) False None,
         make_column ''created_at'' DateTimeT False None,
         make_column ''updated_at'' DateTimeT False None]
        [ForeignKey ''server_id'' ''vpn_servers'' ''id'' DeleteRow,
         PrimaryKey [''id'']],
      Create_index ''ix_vless_server_configs_server_id'' ''vless_server_configs'' [''server_id''] True,
      Create_table ''vless_credentials''
        [make_column ''id'' IntegerT False None,
         make_column ''device_id'' IntegerT False None,
         make_column ''server_id'' IntegerT False None,
         make_column ''uuid'' (StringT 36) False None,
         make_column ''status'' vless_credential_status_enum False None,
         make_column ''rotated_at'' DateTimeT True None,
         make_column ''revoked_at'' DateTimeT True None,
         make_column ''created_at'' DateTimeT False None,
         make_column ''updated_at'' DateTimeT False None]
        [ForeignKey ''device_id'' ''devices'' ''id'' DeleteRow,
         ForeignKey ''server_id'' ''vpn_servers'' ''id'' DeleteRow,
         PrimaryKey [''id''],
         Unique (Some ''uq_vless_credential_device_server'') [''device_id'', ''server_id'']],
      Create_index ''ix_vless_credentials_device_id'' ''vless_credentials'' [''device_id''] False,
      Create_index ''ix_vless_credentials_uuid'' ''vless_credentials'' [''uuid''] True,
      Create_index ''ix_vless_credentials_status'' ''vless_credentials'' [''status''] False]"

definition vless_support_downgrade :: "schema_op list" where
  "vless_support_downgrade =
     [Drop_index ''ix_vless_credentials_status'' ''vless_credentials'',
      Drop_index ''ix_vless_credentials_uuid'' ''vless_credentials'',
      Drop_index ''ix_vless_credentials_device_id'' ''vless_credentials'',
      Drop_table ''vless_credentials'',
      Drop_index ''ix_vless_server_configs_server_id'' ''vless_server_configs'',
      Drop_table ''vless_server_configs'',
      Drop_column ''devices'' ''protocol'',
      Drop_index ''ix_vpn_servers_protocol'' ''vpn_servers'',
      Drop_column ''vpn_servers'' ''protocol'']"

section \<open>The line of revisions\<close>

record revision =
  rev_id :: string
  down_revision :: "string option"
  upgrade :: "schema_op list"
  downgrade :: "schema_op list"

definition initial_schema :: revision where
  "initial_schema = \<lparr>rev_id = ''f74a5caeec68'', down_revision = None,
     upgrade = initial_schema_upgrade, downgrade = initial_schema_downgrade\<rparr>"

definition peer_address_unique :: revision where
  "peer_address_unique = \<lparr>rev_id = ''3073258ed68f'', down_revision = Some ''f74a5caeec68'',
     upgrade = peer_address_unique_upgrade, downgrade = peer_address_unique_downgrade\<rparr>"

definition subscription_links_table :: revision where
  "subscription_links_table = \<lparr>rev_id = ''dfef610f2c74'', down_revision = Some ''3073258ed68f'',
     upgrade = subscription_links_table_upgrade, downgrade = subscription_links_table_downgrade\<rparr>"

definition vless_support :: revision where
  "vless_support = \<lparr>rev_id = ''a1c9e7f3b246'', down_revision = Some ''dfef610f2c74'',
     upgrade = vless_support_upgrade, downgrade = vless_support_downgrade\<rparr>"

text \<open>The directory of the scripts, by file name.\<close>

definition revisions :: "revision list" where
  "revisions = [peer_address_unique, vless_support, subscription_links_table, initial_schema]"

text \<open>
  Alembic follows the references of each script to its predecessor: what is still to run after a revision, as
  many steps as there are scripts.
\<close>

fun pending :: "nat \<Rightarrow> revision list \<Rightarrow> string option \<Rightarrow> revision list" where
  "pending 0 rs cur = []"
| "pending (Suc k) rs cur =
     (case find (\<lambda>r. down_revision r = cur) rs of
        None \<Rightarrow> []
      | Some r \<Rightarrow> r # pending k rs (Some (rev_id r)))"

record deployment =
  at_revision :: "string option"
  stored_in :: stored_db

definition fresh_deployment :: deployment where
  "fresh_deployment = \<lparr>at_revision = None, stored_in = []\<rparr>"

text \<open>
  \<^verbatim>\<open>env.py\<close>: all pending upgrades run inside one \<^verbatim>\<open>context.begin_transaction()\<close>, so that a failing one leaves the
  database and its recorded revision as they were.
\<close>

definition upgrade_head ::
  "(schema_op \<Rightarrow> stored_db \<Rightarrow> stored_db option) \<Rightarrow> deployment \<Rightarrow> bool \<times> deployment" where
  "upgrade_head run d =
     (let rs = pending (length revisions) revisions (at_revision d) in
      case run_script run (concat (map upgrade rs)) (stored_in d) of
        None \<Rightarrow> (False, d)
      | Some db \<Rightarrow>
          (True, \<lparr>at_revision = (if rs = [] then at_revision d else Some (rev_id (last rs))), stored_in = db\<rparr>))"

definition downgrade_one ::
  "(schema_op \<Rightarrow> stored_db \<Rightarrow> stored_db option) \<Rightarrow> deployment \<Rightarrow> bool \<times> deployment" where
  "downgrade_one run d =
     (case find (\<lambda>r. Some (rev_id r) = at_revision d) revisions of
        None \<Rightarrow> (False, d)
      | Some r \<Rightarrow>
          (case run_script run (downgrade r) (stored_in d) of
             None \<Rightarrow> (False, d)
           | Some db \<Rightarrow> (True, \<lparr>at_revision = down_revision r, stored_in = db\<rparr>)))"

end
