(* ===== verification/MigrationSafety.thy ===== *)
theory MigrationSafety
  imports Migrations
begin

section \<open>Altering a table\<close>

lemma map_of_alter [simp]:
  "map_of (alter n f db) m = (if m = n then map_option f (map_of db n) else map_of db m)"
  by (induction db) (auto simp: alter_def)

lemma alter_alter [simp]: "alter n g (alter n f db) = alter n (\<lambda>t. g (f t)) db"
  by (simp add: alter_def case_prod_beta)

lemma fst_alter [simp]: "map fst (alter n f db) = map fst db"
  by (simp add: alter_def case_prod_beta)

lemma alter_idle:
  assumes "distinct (map fst db)" and "\<And>t. map_of db n = Some t \<Longrightarrow> f t = t"
  shows "alter n f db = db"
  unfolding alter_def
  by (rule map_idI) (use assms in \<open>auto simp: case_prod_beta\<close>)

lemma in_alter:
  "(m, t') \<in> set (alter n f db) \<longleftrightarrow> (\<exists>t. (m, t) \<in> set db \<and> t' = (if m = n then f t else t))"
  by (force simp: alter_def image_iff)

lemma on_table_iff: "on_table db n P \<longleftrightarrow> (\<exists>t. map_of db n = Some t \<and> P t)"
  by (auto simp: on_table_def split: option.splits)

lemma refers_iff: "refers db n k \<longleftrightarrow> (\<exists>m t. (m, t) \<in> set db \<and> Some (n, k) \<in> targets ` set (constraints t))"
  by (auto simp: refers_def list_ex_iff)

lemma cell_of_append: "k \<noteq> c \<Longrightarrow> cell_of (r @ [(c, v)]) k = cell_of r k"
  by (simp add: cell_of_def map_add_def split: option.splits)

lemma cell_of_filter: "k \<noteq> c \<Longrightarrow> cell_of (filter (\<lambda>(d, v). d \<noteq> c) r) k = cell_of r k"
  by (induction r) (auto simp: cell_of_def)

section \<open>Valid databases\<close>

text \<open>
  A row has a value for each column of its table that the column accepts; no two rows agree on a key; keys and
  indexes are on columns of their table; and a foreign key refers to a column of a stored table that has every
  value of the referring one.
\<close>

definition row_fits :: "'a table_schema_scheme \<Rightarrow> row \<Rightarrow> bool" where
  "row_fits t r = (map fst r = column_names t \<and> list_all2 accepts (columns t) (map snd r))"

definition stored_ok :: "stored \<Rightarrow> bool" where
  "stored_ok t =
     (distinct (column_names t) \<and>
      list_all (\<lambda>c. list_all (\<lambda>k. k \<in> set (column_names t)) (constr_columns c)) (constraints t) \<and>
      list_all (\<lambda>i. list_all (\<lambda>k. k \<in> set (column_names t)) (ix_columns i)) (indexes t) \<and>
      list_all (row_fits t) (table_rows t) \<and>
      list_all (\<lambda>ks. apart ks (table_rows t)) (unique_keys t))"

fun reference_holds :: "stored_db \<Rightarrow> stored \<Rightarrow> constr \<Rightarrow> bool" where
  "reference_holds db t (ForeignKey c m k d) =
     on_table db m (\<lambda>u. k \<in> set (column_names u) \<and>
       list_all (\<lambda>r. cell_of r c = NULL \<or> list_ex (\<lambda>s. cell_of s k = cell_of r c) (table_rows u)) (table_rows t))"
| "reference_holds db t c = True"

definition valid_db :: "stored_db \<Rightarrow> bool" where
  "valid_db db =
     (distinct (map fst db) \<and>
      list_all (\<lambda>(n, t). stored_ok t \<and> list_all (reference_holds db t) (constraints t)) db)"

lemma valid_db_empty: "valid_db []"
  by (simp add: valid_db_def)

lemma valid_tableD:
  assumes "valid_db db" and "map_of db n = Some t"
  shows "stored_ok t" and "list_all (reference_holds db t) (constraints t)"
  using assms map_of_SomeD [OF assms(2)] by (auto simp: valid_db_def list_all_iff)

lemma valid_referD:
  assumes "valid_db db" and "refers db n k"
  shows "on_table db n (\<lambda>u. k \<in> set (column_names u))"
proof -
  obtain m t c where t: "(m, t) \<in> set db" and c: "c \<in> set (constraints t)" "targets c = Some (n, k)"
    using assms(2) by (auto simp: refers_iff)
  have "reference_holds db t c" using assms(1) t c(1) by (auto simp: valid_db_def list_all_iff)
  then show ?thesis using c(2) by (cases c) (auto simp: on_table_iff)
qed

text \<open>
  Altering a table keeps all references if it adds no foreign key, and its rows and columns keep what foreign
  keys read.
\<close>

lemma reference_alter:
  assumes "reference_holds db u c"
    and "\<And>t. map_of db n = Some t \<Longrightarrow> table_rows (f t) = map g (table_rows t)"
    and "\<And>t k. map_of db n = Some t \<Longrightarrow> targets c = Some (n, k) \<Longrightarrow> k \<in> set (column_names t) \<Longrightarrow>
           k \<in> set (column_names (f t)) \<and> (\<forall>r \<in> set (table_rows t). cell_of (g r) k = cell_of r k)"
  shows "reference_holds (alter n f db) u c"
  using assms
  by (cases c) (fastforce simp: on_table_iff list_all_iff list_ex_iff)+

lemma reference_altered_rows:
  assumes "reference_holds db t c" and "table_rows t' = map g (table_rows t)"
    and "\<And>r k. r \<in> set (table_rows t) \<Longrightarrow> k \<in> set (constr_columns c) \<Longrightarrow> cell_of (g r) k = cell_of r k"
  shows "reference_holds db t' c"
  using assms by (cases c) (auto simp: on_table_iff list_all_iff list_ex_iff)

lemma valid_alter:
  assumes valid: "valid_db db"
    and ok: "\<And>t. map_of db n = Some t \<Longrightarrow> stored_ok t \<Longrightarrow> stored_ok (f t)"
    and cs: "\<And>t c. map_of db n = Some t \<Longrightarrow> c \<in> set (constraints (f t)) \<Longrightarrow> targets c = None \<or> c \<in> set (constraints t)"
    and rows: "\<And>t. map_of db n = Some t \<Longrightarrow> table_rows (f t) = map g (table_rows t)"
    and own: "\<And>t c k r. map_of db n = Some t \<Longrightarrow> c \<in> set (constraints (f t)) \<Longrightarrow> targets c \<noteq> None \<Longrightarrow>
                k \<in> set (constr_columns c) \<Longrightarrow> r \<in> set (table_rows t) \<Longrightarrow> cell_of (g r) k = cell_of r k"
    and col: "\<And>t k. map_of db n = Some t \<Longrightarrow> refers db n k \<Longrightarrow> k \<in> set (column_names t) \<Longrightarrow>
                k \<in> set (column_names (f t)) \<and> (\<forall>r \<in> set (table_rows t). cell_of (g r) k = cell_of r k)"
  shows "valid_db (alter n f db)"
proof -
  have "stored_ok t' \<and> list_all (reference_holds (alter n f db) t') (constraints t')"
    if in_db: "(m, t') \<in> set (alter n f db)" for m t'
  proof -
    obtain t where t: "(m, t) \<in> set db" "t' = (if m = n then f t else t)" using in_db unfolding in_alter by blast
    have look: "map_of db m = Some t" using t(1) valid by (simp add: valid_db_def)
    note ok_t = valid_tableD [OF valid look]
    have "reference_holds (alter n f db) t' c" if c: "c \<in> set (constraints t')" for c
    proof (cases "targets c")
      case None
      then show ?thesis by (cases c) auto
    next
      case (Some a)
      then have c': "c \<in> set (constraints t)" using cs [of t c] c t(2) look by (cases "m = n") auto
      have refers: "refers db n k" if "targets c = Some (n, k)" for k
        using t(1) c' that by (force simp: refers_iff)
      have "reference_holds db t c" using ok_t(2) c' by (simp add: list_all_iff)
      then have "reference_holds db t' c"
      proof (cases "m = n")
        case True
        then have "map_of db n = Some t" using look by simp
        then show ?thesis
          using reference_altered_rows [OF \<open>reference_holds db t c\<close>, of t' g] rows own c Some t(2) True by auto
      qed (use t(2) in simp)
      then show ?thesis by (rule reference_alter) (use rows col refers in auto)
    qed
    moreover have "stored_ok t'" using ok_t(1) ok look t(2) by (cases "m = n") auto
    ultimately show ?thesis by (simp add: list_all_iff)
  qed
  moreover have "distinct (map fst (alter n f db))" using valid by (simp add: valid_db_def)
  ultimately show ?thesis by (auto simp: valid_db_def list_all_iff)
qed

section \<open>Legal operations keep a database valid\<close>

lemma valid_create_table:
  assumes "valid_db db" and "legal (Create_table n cs ks) db"
  shows "valid_db (effect (Create_table n cs ks) db)"
proof -
  define new where "new = \<lparr>columns = cs, constraints = ks, indexes = [], table_rows = []\<rparr>"
  have n: "n \<notin> fst ` set db" using assms(2) by (auto simp: map_of_eq_None_iff)
  have look: "map_of (db @ [(n, new)]) m = Some u" if "map_of db m = Some u" for m u using that by simp
  have "stored_ok new"
    using assms(2)
    by (auto simp: stored_ok_def new_def column_names_def unique_keys_def apart_def list_all_iff
        elim!: legal_constr.elims)
  moreover have "reference_holds (db @ [(n, new)]) new c" if "c \<in> set ks" for c
  proof -
    have "legal_constr db (map col_name cs) c" using assms(2) that by (simp add: list_all_iff)
    then show ?thesis by (cases c) (auto simp: on_table_iff new_def map_add_def split: option.splits)
  qed
  moreover have "reference_holds (db @ [(n, new)]) t c" if "reference_holds db t c" for t c
    using that look by (cases c) (auto simp: on_table_iff)
  ultimately show ?thesis
    using assms(1) n by (auto simp: valid_db_def list_all_iff simp flip: new_def) (auto simp: new_def)
qed

lemma valid_drop_table:
  assumes "valid_db db" and "legal (Drop_table n) db"
  shows "valid_db (effect (Drop_table n) db)"
proof -
  have look: "map_of (filter (\<lambda>(m, t). m \<noteq> n) db) m = Some u" if "map_of db m = Some u" "m \<noteq> n" for m u
    using that by (induction db) auto
  have "reference_holds (filter (\<lambda>(m, t). m \<noteq> n) db) t c"
    if "reference_holds db t c" "(m, t) \<in> set db" "m \<noteq> n" "c \<in> set (constraints t)" for m t c
    using that look assms(2) by (cases c) (force simp: on_table_iff refers_table_def list_ex_iff)+
  then show ?thesis
    using assms(1) by (auto simp: valid_db_def list_all_iff distinct_map_filter)
qed

lemma stored_ok_index:
  assumes "stored_ok t" and "list_all (\<lambda>k. k \<in> set (column_names t)) ks"
    and "u \<Longrightarrow> apart ks (table_rows t)"
  shows "stored_ok (t\<lparr>indexes := indexes t @ [\<lparr>ix_name = x, ix_columns = ks, ix_unique = u\<rparr>]\<rparr>)"
  using assms by (auto simp: stored_ok_def column_names_def unique_keys_def row_fits_def list_all_iff)

lemma map_filter_append: "List.map_filter f (xs @ ys) = List.map_filter f xs @ List.map_filter f ys"
  by (simp add: map_filter_def)

lemma stored_ok_unique:
  assumes "stored_ok t" and "list_all (\<lambda>k. k \<in> set (column_names t)) ks" and "apart ks (table_rows t)"
  shows "stored_ok (t\<lparr>constraints := constraints t @ [Unique (Some u) ks]\<rparr>)"
  using assms
  by (auto simp: stored_ok_def column_names_def unique_keys_def row_fits_def list_all_iff map_filter_append map_filter_simps)

lemma map_filter_subset: "set (List.map_filter f (filter P xs)) \<subseteq> set (List.map_filter f xs)"
  by (auto simp: map_filter_def)

lemma stored_ok_fewer:
  assumes "stored_ok t"
  shows "stored_ok (t\<lparr>indexes := filter P (indexes t)\<rparr>)"
    and "stored_ok (t\<lparr>constraints := filter Q (constraints t)\<rparr>)"
  using assms map_filter_subset [of constr_key Q "constraints t"]
  by (auto simp: stored_ok_def column_names_def unique_keys_def row_fits_def list_all_iff)

lemma apart_map:
  assumes "apart ks rs" and "\<And>r k. r \<in> set rs \<Longrightarrow> k \<in> set ks \<Longrightarrow> cell_of (g r) k = cell_of r k"
  shows "apart ks (map g rs)"
  using assms unfolding apart_def sorted_wrt_map
  by (elim sorted_wrt_mono_rel [rotated]) (auto simp: agree_def list_all_iff)

lemma unique_key_columns:
  assumes "stored_ok t" and "ks \<in> set (unique_keys t)" and "k \<in> set ks"
  shows "k \<in> set (column_names t)"
proof -
  consider c where "c \<in> set (constraints t)" "constr_key c = Some ks"
    | i where "i \<in> set (indexes t)" "ix_columns i = ks"
    using assms(2) by (auto simp: unique_keys_def map_filter_def)
  then show ?thesis
  proof cases
    case 1
    moreover have "set (constr_columns c) = set ks" using 1(2) by (cases c) auto
    ultimately show ?thesis using assms(1,3) by (auto simp: stored_ok_def list_all_iff)
  next
    case 2
    then show ?thesis using assms(1,3) by (auto simp: stored_ok_def list_all_iff)
  qed
qed

lemma stored_ok_add_column:
  assumes "stored_ok t" and "col_name c \<notin> set (column_names t)"
    and "table_rows t = [] \<or> accepts c v"
  shows "stored_ok (t\<lparr>columns := columns t @ [c],
    table_rows := map (\<lambda>r. r @ [(col_name c, v)]) (table_rows t)\<rparr>)" (is "stored_ok ?t")
proof -
  have keys: "unique_keys ?t = unique_keys t" by (simp add: unique_keys_def)
  have names: "column_names ?t = column_names t @ [col_name c]" by (simp add: column_names_def)
  have "apart ks (table_rows ?t)" if "ks \<in> set (unique_keys t)" for ks
    using assms(1,2) that unique_key_columns [OF assms(1) that]
    by (auto simp: stored_ok_def list_all_iff intro!: apart_map cell_of_append)
  moreover have "row_fits ?t r" if "r \<in> set (table_rows ?t)" for r
    using assms that by (auto simp: stored_ok_def row_fits_def column_names_def list_all_iff
      intro!: list_all2_appendI)
  ultimately show ?thesis
    using assms(1,2) by (auto simp: stored_ok_def keys names list_all_iff)
qed

lemma list_all2_filter_snd:
  assumes "map fst r = map col_name cs" and "list_all2 accepts cs (map snd r)"
  shows "list_all2 accepts (filter (\<lambda>c. col_name c \<noteq> k) cs) (map snd (filter (\<lambda>(d, v). d \<noteq> k) r))"
  using assms
proof (induction cs arbitrary: r)
  case (Cons c cs)
  then obtain x r' where "r = x # r'" by (cases r) auto
  then show ?case using Cons by (cases x) auto
qed simp

lemma map_fst_filter: "map fst (filter (\<lambda>(d, v). d \<noteq> k) r) = filter (\<lambda>d. d \<noteq> k) (map fst r)"
  by (induction r) auto

lemma filter_names: "map col_name (filter (\<lambda>c. col_name c \<noteq> k) cs) = filter (\<lambda>d. d \<noteq> k) (map col_name cs)"
  by (induction cs) auto

lemma stored_ok_drop_column:
  assumes "stored_ok t" and "list_all (\<lambda>c. k \<notin> set (constr_columns c)) (constraints t)"
    and "list_all (\<lambda>i. k \<notin> set (ix_columns i)) (indexes t)"
  shows "stored_ok (t\<lparr>columns := filter (\<lambda>c. col_name c \<noteq> k) (columns t),
    table_rows := map (filter (\<lambda>(c, v). c \<noteq> k)) (table_rows t)\<rparr>)" (is "stored_ok ?t")
proof -
  have keys: "unique_keys ?t = unique_keys t" by (simp add: unique_keys_def)
  have names: "column_names ?t = filter (\<lambda>d. d \<noteq> k) (column_names t)"
    by (simp add: column_names_def filter_names)
  have no_key: "k \<notin> set ks" if ks: "ks \<in> set (unique_keys t)" for ks
  proof -
    have "set ks \<subseteq> set (constr_columns c)" if "constr_key c = Some ks" for c using that by (cases c) auto
    then show ?thesis
      using ks assms(2,3) by (force simp: unique_keys_def map_filter_def list_all_iff)
  qed
  have "apart ks (table_rows ?t)" if "ks \<in> set (unique_keys t)" for ks
    using assms(1) that no_key [OF that]
    by (auto simp: stored_ok_def list_all_iff intro!: apart_map cell_of_filter)
  moreover have "row_fits ?t r" if "r \<in> set (table_rows ?t)" for r
    using assms(1) that
    by (auto simp: stored_ok_def row_fits_def column_names_def list_all_iff map_fst_filter filter_names
      intro!: list_all2_filter_snd)
  ultimately show ?thesis
    using assms by (auto simp: stored_ok_def keys names list_all_iff)
qed

theorem valid_effect:
  assumes "valid_db db" and "legal x db"
  shows "valid_db (effect x db)"
proof (cases x)
  case (Create_table n cs ks)
  then show ?thesis using valid_create_table assms by blast
next
  case (Drop_table n)
  then show ?thesis using valid_drop_table assms by blast
next
  case (Create_index y n ks u)
  show ?thesis unfolding Create_index effect.simps
    by (rule valid_alter [where g = "\<lambda>r. r", OF assms(1)])
      (use assms(2) Create_index in \<open>auto simp: on_table_iff column_names_def legal_key_def intro!: stored_ok_index\<close>)
next
  case (Drop_index y n)
  show ?thesis unfolding Drop_index effect.simps
    by (rule valid_alter [where g = "\<lambda>r. r", OF assms(1)])
      (use assms(2) Drop_index in \<open>auto simp: column_names_def intro!: stored_ok_fewer\<close>)
next
  case (Add_column n c)
  show ?thesis unfolding Add_column effect.simps
  proof (rule valid_alter [where g = "\<lambda>r. r @ [(col_name c, default_cell c)]", OF assms(1)], goal_cases)
    case (1 t)
    then show ?case using assms(2) Add_column by (auto simp: on_table_iff intro!: stored_ok_add_column)
  next
    case (4 t d k r)
    then have k: "k \<in> set (column_names t)"
      using valid_tableD(1) [OF assms(1)] by (auto simp: stored_ok_def list_all_iff)
    then have "k \<noteq> col_name c" using 4(1) assms(2) Add_column by (auto simp: on_table_iff)
    then show ?case by (rule cell_of_append)
  next
    case (5 t k)
    then have "k \<noteq> col_name c" using assms(2) Add_column by (auto simp: on_table_iff)
    then show ?case using 5 by (auto simp: column_names_def intro!: cell_of_append)
  qed auto
next
  case (Drop_column n k)
  show ?thesis unfolding Drop_column effect.simps
  proof (rule valid_alter [where g = "filter (\<lambda>(c, v). c \<noteq> k)", OF assms(1)], goal_cases)
    case (1 t)
    then show ?case using assms(2) Drop_column by (auto simp: on_table_iff intro!: stored_ok_drop_column)
  next
    case (4 t d j r)
    then show ?case using assms(2) Drop_column by (auto simp: on_table_iff list_all_iff intro!: cell_of_filter)
  next
    case (5 t j)
    then show ?case using assms(2) Drop_column
      by (auto simp: on_table_iff column_names_def intro!: cell_of_filter)
  qed auto
next
  case (Create_unique n u ks)
  show ?thesis unfolding Create_unique effect.simps
    by (rule valid_alter [where g = "\<lambda>r. r", OF assms(1)])
      (use assms(2) Create_unique in \<open>auto simp: on_table_iff column_names_def legal_key_def intro!: stored_ok_unique\<close>)
next
  case (Drop_unique n u)
  show ?thesis unfolding Drop_unique effect.simps
    by (rule valid_alter [where g = "\<lambda>r. r", OF assms(1)])
      (use assms(2) Drop_unique in \<open>auto simp: column_names_def intro!: stored_ok_fewer\<close>)
qed

lemma valid_script:
  "valid_db db \<Longrightarrow> legal_script xs db \<Longrightarrow> valid_db (fold effect xs db)"
  by (induction xs arbitrary: db) (simp_all add: valid_effect)

section \<open>Taking an operation back\<close>

lemma refers_same:
  assumes "\<And>t. map_of db n = Some t \<Longrightarrow> targets ` set (constraints (f t)) - {None} = targets ` set (constraints t) - {None}"
    and "distinct (map fst db)"
  shows "refers (alter n f db) m k = refers db m k"
proof -
  have "Some (m, k) \<in> targets ` set (constraints (f t)) \<longleftrightarrow> Some (m, k) \<in> targets ` set (constraints t)"
    if "(n, t) \<in> set db" for t
    using assms that by (metis (no_types, lifting) Diff_iff map_of_is_SomeI option.simps(3) singletonD)
  then show ?thesis unfolding refers_iff in_alter by (metis (full_types))
qed

lemma filter_fresh: "x \<notin> f ` set xs \<Longrightarrow> filter (\<lambda>y. f y \<noteq> x) xs = xs"
  by (induction xs) auto

lemma filter_row_fresh: "c \<notin> set (map fst r) \<Longrightarrow> filter (\<lambda>(d, v). d \<noteq> c) r = r"
  by (induction r) auto

lemma undo_create_table:
  assumes "valid_db db" and "legal (Create_table n cs ks) db"
  shows "legal (Drop_table n) (effect (Create_table n cs ks) db)"
    and "effect (Drop_table n) (effect (Create_table n cs ks) db) = db"
proof -
  have n: "map_of db n = None" using assms(2) by simp
  have "\<not> (\<exists>c \<in> set (constraints t). map_option fst (targets c) = Some n)" if "(m, t) \<in> set db" for m t
  proof -
    have "list_all (reference_holds db t) (constraints t)" using assms(1) that by (auto simp: valid_db_def list_all_iff)
    then show ?thesis using n by (auto simp: list_all_iff on_table_iff elim!: targets.elims)
  qed
  then show "legal (Drop_table n) (effect (Create_table n cs ks) db)"
    by (auto simp: refers_table_def list_ex_iff map_add_def split: option.splits)
  show "effect (Drop_table n) (effect (Create_table n cs ks) db) = db"
    using n by (force simp: map_of_eq_None_iff intro!: filter_True)
qed

lemma undo_add_column:
  assumes "valid_db db" and "legal (Add_column n c) db"
  shows "legal (Drop_column n (col_name c)) (effect (Add_column n c) db)"
    and "effect (Drop_column n (col_name c)) (effect (Add_column n c) db) = db"
proof -
  obtain t where t: "map_of db n = Some t" "col_name c \<notin> set (column_names t)"
    using assms(2) by (auto simp: on_table_iff)
  note ok = valid_tableD(1) [OF assms(1) t(1)]
  have "distinct (map fst db)" using assms(1) by (simp add: valid_db_def)
  moreover have "\<not> refers db n (col_name c)"
    using valid_referD [OF assms(1), of n "col_name c"] t by (auto simp: on_table_iff)
  ultimately show "legal (Drop_column n (col_name c)) (effect (Add_column n c) db)"
    using t ok by (auto simp: refers_same on_table_iff column_names_def stored_ok_def list_all_iff)
  have rows: "filter (\<lambda>(d, v). d \<noteq> col_name c) r = r" if "r \<in> set (table_rows t)" for r
    using ok t(2) that by (intro filter_row_fresh) (auto simp: stored_ok_def row_fits_def list_all_iff)
  have "filter (\<lambda>d. col_name d \<noteq> col_name c) (columns t) = columns t"
    using t(2) by (intro filter_fresh) (simp add: column_names_def)
  then show "effect (Drop_column n (col_name c)) (effect (Add_column n c) db) = db"
    using t rows \<open>distinct (map fst db)\<close> by (auto simp: comp_def cong: map_cong intro!: alter_idle)
qed

lemma undo_create_index:
  assumes "valid_db db" and "legal (Create_index x n ks u) db"
  shows "legal (Drop_index x n) (effect (Create_index x n ks u) db)"
    and "effect (Drop_index x n) (effect (Create_index x n ks u) db) = db"
proof -
  obtain t where t: "map_of db n = Some t" "\<not> has_index x t" "u \<Longrightarrow> legal_key db n ks t"
    using assms(2) map_of_SomeD by (fastforce simp: on_table_iff list_all_iff)
  have distinct: "distinct (map fst db)" using assms(1) by (simp add: valid_db_def)
  have fresh: "x \<notin> ix_name ` set (indexes t)" using t(2) by (simp add: has_index_def)
  then show "legal (Drop_index x n) (effect (Create_index x n ks u) db)"
    using t distinct
    by (auto simp: refers_same on_table_iff list_all_iff list_ex_iff legal_key_def)
  show "effect (Drop_index x n) (effect (Create_index x n ks u) db) = db"
    using t(1) fresh distinct by (auto simp: filter_fresh intro!: alter_idle)
qed

lemma undo_create_unique:
  assumes "valid_db db" and "legal (Create_unique n u ks) db"
  shows "legal (Drop_unique n u) (effect (Create_unique n u ks) db)"
    and "effect (Drop_unique n u) (effect (Create_unique n u ks) db) = db"
proof -
  obtain t where t: "map_of db n = Some t" "legal_key db n ks t"
    "\<And>c. c \<in> set (constraints t) \<Longrightarrow> constr_name c \<noteq> Some u"
    using assms(2) by (auto simp: on_table_iff list_all_iff)
  have distinct: "distinct (map fst db)" using assms(1) by (simp add: valid_db_def)
  have fresh: "filter (\<lambda>c. constr_name c \<noteq> Some u) (constraints t) = constraints t"
    using t(3) by (simp add: filter_id_conv)
  show "legal (Drop_unique n u) (effect (Create_unique n u ks) db)"
    using t distinct
    by (auto simp: refers_same on_table_iff list_all_iff list_ex_iff legal_key_def)
  show "effect (Drop_unique n u) (effect (Create_unique n u ks) db) = db"
    using t(1) fresh distinct by (auto intro!: alter_idle)
qed

lemma undo_effect:
  assumes "valid_db db" and "legal x db" and "undo x = Some y"
  shows "legal y (effect x db)" and "effect y (effect x db) = db"
  using assms undo_create_table undo_add_column undo_create_index undo_create_unique
  by (cases x; fastforce simp del: legal.simps effect.simps)+

lemma legal_append: "legal_script (xs @ ys) db = (legal_script xs db \<and> legal_script ys (fold effect xs db))"
  by (induction xs arbitrary: db) auto

lemma undo_script:
  assumes "valid_db db" and "legal_script xs db" and "map Some ys = rev (map undo xs)"
  shows "legal_script ys (fold effect xs db)" and "fold effect ys (fold effect xs db) = db"
proof -
  have "legal_script ys (fold effect xs db) \<and> fold effect ys (fold effect xs db) = db"
    using assms
  proof (induction xs arbitrary: db ys)
    case (Cons x xs)
    then obtain y zs where ys: "ys = zs @ [y]" "undo x = Some y" "map Some zs = rev (map undo xs)"
      by (cases ys rule: rev_cases) auto
    have x: "legal x db" "legal_script xs (effect x db)" using Cons.prems(2) by auto
    have "valid_db (effect x db)" by (rule valid_effect [OF Cons.prems(1) x(1)])
    then show ?case
      using Cons.IH [OF _ x(2) ys(3)] undo_effect [OF Cons.prems(1) x(1) ys(2)]
      by (simp add: ys(1) legal_append)
  qed simp
  then show "legal_script ys (fold effect xs db)" and "fold effect ys (fold effect xs db) = db" by auto
qed

section \<open>Scripts that no row can stop\<close>

text \<open>
  A script that adds keys only to tables it creates itself, and columns only with a default they accept or
  nullable, runs on every database of a schema if it runs on the empty one of that schema.
\<close>

fun spares_rows :: "string list \<Rightarrow> schema_op list \<Rightarrow> bool" where
  "spares_rows new [] = True"
| "spares_rows new (Create_table n cs ks # xs) = spares_rows (n # new) xs"
| "spares_rows new (Create_index x n ks u # xs) = ((u \<longrightarrow> n \<in> set new) \<and> spares_rows new xs)"
| "spares_rows new (Create_unique n u ks # xs) = (n \<in> set new \<and> spares_rows new xs)"
| "spares_rows new (Add_column n c # xs) = (accepts c (default_cell c) \<and> spares_rows new xs)"
| "spares_rows new (x # xs) = spares_rows new xs"

definition without_rows :: "stored_db \<Rightarrow> stored_db" where
  "without_rows db = map (\<lambda>(n, t). (n, t\<lparr>table_rows := []\<rparr>)) db"

lemma map_of_without_rows [simp]:
  "map_of (without_rows db) n = map_option (\<lambda>t. t\<lparr>table_rows := []\<rparr>) (map_of db n)"
  by (induction db) (auto simp: without_rows_def)

lemma refers_without_rows [simp]:
  "refers (without_rows db) n k = refers db n k" "refers_table (without_rows db) n = refers_table db n"
  by (induction db) (auto simp: refers_def refers_table_def without_rows_def)

lemma has_index_without_rows [simp]:
  "list_all (\<lambda>(m, t). \<not> has_index x t) (without_rows db) = list_all (\<lambda>(m, t). \<not> has_index x t) db"
  by (induction db) (auto simp: has_index_def without_rows_def)

lemma effect_without_rows: "effect x (without_rows db) = without_rows (effect x db)"
  by (cases x) (auto simp: without_rows_def alter_def filter_map comp_def case_prod_unfold)

lemma legal_constr_without_rows: "legal_constr (without_rows db) cs = legal_constr db cs"
proof
  show "legal_constr (without_rows db) cs c = legal_constr db cs c" for c
    by (cases c) (auto simp: on_table_iff column_names_def unique_keys_def)
qed

lemma spares_rows_script:
  assumes "spares_rows new xs" and "legal_script xs (without_rows db)"
    and "\<And>n t. n \<in> set new \<Longrightarrow> (n, t) \<in> set db \<Longrightarrow> table_rows t = []"
  shows "legal_script xs db"
  using assms
proof (induction xs arbitrary: new db)
  case (Cons x xs)
  have x: "legal x (without_rows db)" and xs: "legal_script xs (without_rows (effect x db))"
    using Cons.prems(2) by (auto simp: effect_without_rows)
  define new' where "new' = (case x of Create_table n cs ks \<Rightarrow> n # new | _ \<Rightarrow> new)"
  have rest: "spares_rows new' xs"
    using Cons.prems(1) by (cases x) (auto simp: new'_def)
  have empty: "table_rows t = []" if "n \<in> set new'" "(n, t) \<in> set (effect x db)" for n t
    using that x Cons.prems(3)
    by (cases x) (auto simp: new'_def in_alter map_of_eq_None_iff image_iff split: if_splits)
  have none: "map_of db n = Some t \<Longrightarrow> n \<in> set new \<Longrightarrow> table_rows t = []" for n t
    using Cons.prems(3) map_of_SomeD by fast
  have "legal x db"
    using x Cons.prems(1) none
    by (cases x) (auto simp: legal_constr_without_rows on_table_iff legal_key_def apart_def column_names_def)
  then show ?case using Cons.IH [OF rest xs empty] by simp
qed simp

section \<open>What executes the operations\<close>

locale sql_engine =
  fixes run :: "schema_op \<Rightarrow> stored_db \<Rightarrow> stored_db option"
  assumes performs: "legal x db \<Longrightarrow> run x db = Some (effect x db)"
    and refuses: "refused x db \<Longrightarrow> run x db = None"
begin

lemma run_legal: "legal_script xs db \<Longrightarrow> run_script run xs db = Some (fold effect xs db)"
  by (induction xs arbitrary: db) (simp_all add: performs)

lemma run_refused: "refused x db \<Longrightarrow> run_script run (x # xs) db = None"
  by (simp add: refuses)

end

definition reference_engine :: "schema_op \<Rightarrow> stored_db \<Rightarrow> stored_db option" where
  "reference_engine x db = (if legal x db then Some (effect x db) else None)"

lemma refused_not_legal: "refused x db \<Longrightarrow> \<not> legal x db"
  by (cases x) (auto simp: on_table_def legal_key_def split: option.splits)

interpretation reference: sql_engine reference_engine
  by unfold_locales (simp_all add: reference_engine_def refused_not_legal)

end
