(* ===== verification/MigratedSchema.thy ===== *)
theory MigratedSchema
  imports MigrationSafety
begin

section \<open>Running the scripts of the repository\<close>

lemma rev_ids [simp]:
  "rev_id initial_schema = ''f74a5caeec68''" "rev_id peer_address_unique = ''3073258ed68f''"
  "rev_id subscription_links_table = ''dfef610f2c74''" "rev_id vless_support = ''a1c9e7f3b246''"
  by (simp_all add: initial_schema_def peer_address_unique_def subscription_links_table_def vless_support_def)

lemma vless_down: "down_revision vless_support = Some ''dfef610f2c74''"
  by (simp add: vless_support_def)

lemma pending_all:
  "pending (length revisions) revisions None =
     [initial_schema, peer_address_unique, subscription_links_table, vless_support]"
  "pending (length revisions) revisions (Some ''f74a5caeec68'') =
     [peer_address_unique, subscription_links_table, vless_support]"
  "pending (length revisions) revisions (Some ''3073258ed68f'') = [subscription_links_table, vless_support]"
  "pending (length revisions) revisions (Some ''dfef610f2c74'') = [vless_support]"
  "pending (length revisions) revisions (Some ''a1c9e7f3b246'') = []"
  by (simp_all add: revisions_def initial_schema_def peer_address_unique_def subscription_links_table_def
    vless_support_def numeral_eq_Suc)

lemma downgrades_undo:
  "list_all (\<lambda>r. map Some (downgrade r) = rev (map undo (upgrade r))) revisions"
  by code_simp

text \<open>The same schema, whatever the order of tables, columns, constraints and indexes, and server-side defaults apart.\<close>

definition same_members :: "'a list \<Rightarrow> 'a list \<Rightarrow> bool" where
  "same_members xs ys = (list_all (\<lambda>x. x \<in> set ys) xs \<and> list_all (\<lambda>y. y \<in> set xs) ys)"

definition column_view :: "column \<Rightarrow> string \<times> column_type \<times> bool" where
  "column_view c = (col_name c, col_type c, nullable c)"

definition same_table :: "'a table_schema_scheme \<Rightarrow> 'b table_schema_scheme \<Rightarrow> bool" where
  "same_table t u =
     (same_members (map column_view (columns t)) (map column_view (columns u)) \<and>
      same_members (constraints t) (constraints u) \<and>
      same_members (indexes t) (indexes u))"

definition same_schema :: "stored_db \<Rightarrow> (string \<times> table_schema) list \<Rightarrow> bool" where
  "same_schema db s =
     (same_members (map fst db) (map fst s) \<and>
      list_all (\<lambda>(n, t). case map_of s n of None \<Rightarrow> False | Some u \<Rightarrow> same_table t u) db)"

definition migrated_schema :: stored_db where
  "migrated_schema = fold effect (concat (map upgrade
     [initial_schema, peer_address_unique, subscription_links_table, vless_support])) []"

lemma initial_legal: "legal_script (upgrade initial_schema) []"
  by code_simp

definition before_vless :: stored_db where
  "before_vless = fold effect (upgrade subscription_links_table)
     (fold effect (upgrade peer_address_unique) (fold effect (upgrade initial_schema) []))"

lemma later_legal:
  "legal_script (upgrade peer_address_unique @ upgrade subscription_links_table @ upgrade vless_support)
     (fold effect (upgrade initial_schema) [])"
  by code_simp

lemma all_legal:
  "legal_script (concat (map upgrade
     [initial_schema, peer_address_unique, subscription_links_table, vless_support])) []"
  using initial_legal later_legal by (simp add: legal_append)

lemma vless_legal: "legal_script (upgrade vless_support) before_vless"
  using later_legal by (simp add: legal_append before_vless_def)

lemma vless_spares_rows: "spares_rows [] (upgrade vless_support)"
  by code_simp

lemma migrated_is_declared: "same_schema migrated_schema declared_schema"
  by code_simp

lemma migrated_empty: "list_all (\<lambda>(n, t). table_rows t = []) migrated_schema"
  by code_simp

text \<open>A script that adds columns and creates tables leaves the rows of each table, up to the added columns.\<close>

fun added :: "schema_op list \<Rightarrow> string \<Rightarrow> row" where
  "added [] n = []"
| "added (Add_column m c # xs) n = (if m = n then [(col_name c, default_cell c)] else []) @ added xs n"
| "added (x # xs) n = added xs n"

fun only_adds :: "schema_op \<Rightarrow> bool" where
  "only_adds (Drop_table n) = False"
| "only_adds (Drop_column n k) = False"
| "only_adds x = True"

lemma added_rows:
  assumes "list_all only_adds xs" and "map_of db n = Some t"
  shows "\<exists>t'. map_of (fold effect xs db) n = Some t' \<and> table_rows t' = map (\<lambda>r. r @ added xs n) (table_rows t)"
  using assms
proof (induction xs arbitrary: db t)
  case (Cons x xs)
  have rest: "list_all only_adds xs" using Cons.prems(1) by simp
  have "\<exists>u. map_of (effect x db) n = Some u \<and> table_rows u = map (\<lambda>r. r @ added [x] n) (table_rows t)"
    using Cons.prems by (cases x) (auto simp: map_add_def)
  then obtain u where u: "map_of (effect x db) n = Some u"
    "table_rows u = map (\<lambda>r. r @ added [x] n) (table_rows t)" by blast
  have "added (x # xs) n = added [x] n @ added xs n" by (cases x) auto
  then show ?case using Cons.IH [OF rest u(1)] u(2) by (auto simp: comp_def)
qed simp

lemma vless_added:
  "list_all only_adds (upgrade vless_support)"
  "added (upgrade vless_support) n =
     (if n = ''vpn_servers'' \<or> n = ''devices'' then [(''protocol'', TextC (protocol_name WIREGUARD))] else [])"
  by (simp_all add: vless_support_def vless_support_upgrade_def make_column_def default_cell_def)

lemma upgrade_fresh:
  assumes "sql_engine run"
  shows "upgrade_head run fresh_deployment = (True, \<lparr>at_revision = Some ''a1c9e7f3b246'', stored_in = migrated_schema\<rparr>)"
proof -
  have "run_script run (concat (map upgrade
      [initial_schema, peer_address_unique, subscription_links_table, vless_support])) [] = Some migrated_schema"
    unfolding migrated_schema_def by (rule sql_engine.run_legal [OF assms all_legal])
  then show ?thesis
    by (simp add: upgrade_head_def fresh_deployment_def pending_all del: concat.simps)
qed

lemma upgraded_fresh:
  assumes "sql_engine run" and "upgrade_head run fresh_deployment = (True, d)"
  shows "stored_in d = migrated_schema"
  using upgrade_fresh [OF assms(1)] assms(2) by auto

section \<open>The migrations build the schema of the models\<close>

text \<open>C8: On an empty database the pending migrations run through, in the order of their references, up to the
  revision a1c9e7f3b246, and leave exactly the tables the models declare, without rows: column by column the
  same name, type and nullability, the same keys, foreign keys with their actions on deletion, and indexes.
\<close>

theorem migrations_build_declared_schema:
  assumes "sql_engine run"
  shows "\<exists>db. upgrade_head run fresh_deployment = (True, \<lparr>at_revision = Some ''a1c9e7f3b246'', stored_in = db\<rparr>) \<and>
    same_schema db declared_schema \<and> list_all (\<lambda>(n, t). table_rows t = []) db"
  using upgrade_fresh [OF assms] migrated_is_declared migrated_empty by blast

section \<open>Going back\<close>

lemma found_revision:
  assumes "r \<in> set revisions"
  shows "find (\<lambda>q. Some (rev_id q) = Some (rev_id r)) revisions = Some r"
proof -
  consider "r = peer_address_unique" | "r = vless_support" | "r = subscription_links_table" | "r = initial_schema"
    using assms unfolding revisions_def by auto
  then show ?thesis by cases (simp_all add: revisions_def)
qed

text \<open>C25: A migration that runs on a valid database is undone by its own downgrade: the deployment is afterwards what
  it was before, every row of every table included.
\<close>

theorem downgrade_undoes_upgrade:
  assumes "sql_engine run" and "r \<in> set revisions" and "at_revision d = down_revision r"
    and "valid_db (stored_in d)" and "legal_script (upgrade r) (stored_in d)"
  shows "\<exists>db. run_script run (upgrade r) (stored_in d) = Some db \<and> valid_db db \<and>
    downgrade_one run \<lparr>at_revision = Some (rev_id r), stored_in = db\<rparr> = (True, d)"
proof -
  have undo: "map Some (downgrade r) = rev (map undo (upgrade r))"
    using downgrades_undo assms(2) by (auto simp: list_all_iff)
  note undone = undo_script [OF assms(4,5) undo]
  note found = found_revision [OF assms(2)]
  have "downgrade_one run \<lparr>at_revision = Some (rev_id r), stored_in = fold effect (upgrade r) (stored_in d)\<rparr> = (True, d)"
    using found sql_engine.run_legal [OF assms(1) undone(1)] undone(2) assms(3)
    by (simp add: downgrade_one_def)
  then show ?thesis
    using sql_engine.run_legal [OF assms(1,5)] valid_script [OF assms(4,5)] by blast
qed

section \<open>The rows that are already there\<close>

text \<open>Whatever schema operations a script consists of, where each is legal a valid database stays valid: every row
  still has in each column a value of its type, not null where the column is not nullable, no two rows agree
  on a key, and every reference finds its row.
\<close>

theorem migrations_keep_rows_typed:
  assumes "sql_engine run" and "valid_db db" and "legal_script xs db"
  shows "\<exists>db'. run_script run xs db = Some db' \<and> valid_db db'"
  using sql_engine.run_legal [OF assms(1,3)] valid_script [OF assms(2,3)] by blast

text \<open>C28: On any valid database of the schema before it, whatever its rows, the VLESS migration succeeds; every server
  and every device becomes a WireGuard one and no other table's rows change.
\<close>

theorem existing_rows_become_wireguard:
  assumes "sql_engine run" and "valid_db db" and "without_rows db = before_vless"
  shows "\<exists>db'. upgrade_head run \<lparr>at_revision = Some ''dfef610f2c74'', stored_in = db\<rparr> =
      (True, \<lparr>at_revision = Some ''a1c9e7f3b246'', stored_in = db'\<rparr>) \<and> valid_db db' \<and>
    (\<forall>n t. map_of db n = Some t \<longrightarrow> (\<exists>t'. map_of db' n = Some t' \<and>
       table_rows t' =
         (if n = ''vpn_servers'' \<or> n = ''devices''
          then map (\<lambda>r. r @ [(''protocol'', TextC (protocol_name WIREGUARD))]) (table_rows t)
          else table_rows t)))"
proof -
  let ?db = "fold effect (upgrade vless_support) db"
  have legal: "legal_script (upgrade vless_support) db"
    using spares_rows_script [OF vless_spares_rows] vless_legal assms(3) by simp
  have "upgrade_head run \<lparr>at_revision = Some ''dfef610f2c74'', stored_in = db\<rparr> =
      (True, \<lparr>at_revision = Some ''a1c9e7f3b246'', stored_in = ?db\<rparr>)"
    using sql_engine.run_legal [OF assms(1) legal]
    by (simp add: upgrade_head_def pending_all)
  moreover have "\<exists>t'. map_of ?db n = Some t' \<and> table_rows t' =
      (if n = ''vpn_servers'' \<or> n = ''devices''
       then map (\<lambda>r. r @ [(''protocol'', TextC (protocol_name WIREGUARD))]) (table_rows t)
       else table_rows t)" if "map_of db n = Some t" for n t
    using added_rows [OF vless_added(1) that] unfolding vless_added(2)
    by (cases "n = ''vpn_servers'' \<or> n = ''devices''") auto
  ultimately show ?thesis using valid_script [OF assms(2) legal] by blast
qed

text \<open>Where two peers of a server share an address, the migration that forbids it fails, and with it everything
  that was pending: database and recorded revision stay as they were.
\<close>

theorem shared_address_stops_migration:
  assumes "sql_engine run" and "map_of db ''vpn_peers'' = Some t"
    and "\<not> apart [''server_id'', ''assigned_ip''] (table_rows t)"
  shows "upgrade_head run \<lparr>at_revision = Some ''f74a5caeec68'', stored_in = db\<rparr> =
    (False, \<lparr>at_revision = Some ''f74a5caeec68'', stored_in = db\<rparr>)"
proof -
  have "refused (Create_unique ''vpn_peers'' ''uq_vpn_peer_server_assigned_ip'' [''server_id'', ''assigned_ip'']) db"
    using assms(2,3) by simp
  then have "run_script run (upgrade peer_address_unique @ xs) db = None" for xs
    using sql_engine.run_refused [OF assms(1)]
    by (simp add: peer_address_unique_def peer_address_unique_upgrade_def)
  then show ?thesis by (simp add: upgrade_head_def pending_all)
qed

section \<open>The keys of the schema are the constraints of the repositories\<close>

text \<open>
  Two rows of different primary keys may not stand side by side in a stored table exactly when the repository
  refuses to add one to the other.
\<close>

definition enforces ::
  "stored_db \<Rightarrow> string \<Rightarrow> ('z entity_scheme \<Rightarrow> row) \<Rightarrow> ('z entity_scheme \<Rightarrow> 'z entity_scheme \<Rightarrow> bool) \<Rightarrow> bool" where
  "enforces db n f conflict =
     (\<forall>a b. rid a \<noteq> rid b \<longrightarrow> on_table db n (\<lambda>t. clash t (f a) (f b)) = conflict a b)"

lemma in_map_filter: "y \<in> set (List.map_filter f xs) \<longleftrightarrow> (\<exists>x \<in> set xs. Some y = f x)"
  by (induction xs) (auto simp: map_filter_simps split: option.splits)

lemma set_unique_keys:
  "set (unique_keys t) = {ks. Some ks \<in> constr_key ` set (constraints t)} \<union> ix_columns ` {i \<in> set (indexes t). ix_unique i}"
  by (auto simp: unique_keys_def in_map_filter image_iff)

lemma same_table_keys: "same_table t u \<Longrightarrow> set (unique_keys t) = set (unique_keys u)"
proof -
  assume "same_table t u"
  then have "set (constraints t) = set (constraints u)" "set (indexes t) = set (indexes u)"
    by (auto simp: same_table_def same_members_def list_all_iff)
  then show ?thesis by (simp add: set_unique_keys)
qed

lemma migrated_valid: "valid_db migrated_schema"
  unfolding migrated_schema_def by (rule valid_script [OF valid_db_empty all_legal])

lemma migrated_table:
  assumes "map_of declared_schema n = Some t"
  obtains u where "map_of migrated_schema n = Some u" and "same_table u t"
proof -
  have "n \<in> set (map fst declared_schema)" using map_of_SomeD [OF assms] by force
  then have "n \<in> set (map fst migrated_schema)"
    using migrated_is_declared unfolding same_schema_def same_members_def list_all_iff by blast
  then obtain u where u: "(n, u) \<in> set migrated_schema" by auto
  then have "same_table u t"
    using migrated_is_declared assms unfolding same_schema_def list_all_iff by fastforce
  moreover have "map_of migrated_schema n = Some u" using u migrated_valid by (simp add: valid_db_def)
  ultimately show thesis using that by blast
qed

lemma enforcesI:
  assumes "map_of declared_schema n = Some t" and "unique_keys t = ks"
    and "\<And>a b. rid a \<noteq> rid b \<Longrightarrow> list_ex (\<lambda>k. agree k (f a) (f b)) ks = conflict a b"
  shows "enforces migrated_schema n f conflict"
proof -
  obtain u where u: "map_of migrated_schema n = Some u" "same_table u t" using migrated_table [OF assms(1)] .
  have "clash u a b = list_ex (\<lambda>k. agree k a b) ks" for a b
    using same_table_keys [OF u(2)] assms(2) by (simp add: clash_def list_ex_iff)
  then show ?thesis using assms(3) u(1) by (simp add: enforces_def on_table_def)
qed

text \<open>
  A row suits a table if it names only its columns, gives each but \<^verbatim>\<open>updated_at\<close>, and each value is of its column's
  type, null only where the column is nullable.
\<close>

definition suits :: "'a table_schema_scheme \<Rightarrow> row \<Rightarrow> bool" where
  "suits t r =
     (list_all (\<lambda>c. c \<in> set (column_names t)) (map fst r) \<and>
      list_all (\<lambda>c. if col_name c \<in> set (map fst r)
         then if cell_of r (col_name c) = NULL then nullable c else well_sorted (col_type c) (cell_of r (col_name c))
         else col_name c = ''updated_at'') (columns t))"

definition stores :: "stored_db \<Rightarrow> string \<Rightarrow> ('r \<Rightarrow> row) \<Rightarrow> bool" where
  "stores db n f = (\<forall>r. on_table db n (\<lambda>t. suits t (f r)))"

lemma suits_view:
  assumes "set (map column_view (columns t)) = set (map column_view (columns u))" and "suits u r"
  shows "suits t r"
proof -
  have "set (column_names t) = set (column_names u)"
  proof -
    have "set (column_names v) = fst ` set (map column_view (columns v))" for v :: "'c table_schema_scheme"
      by (force simp: column_names_def column_view_def)
    then show ?thesis using assms(1) by (metis (no_types, lifting))
  qed
  moreover have "\<exists>d \<in> set (columns u). col_name d = col_name c \<and> col_type d = col_type c \<and> nullable d = nullable c"
    if "c \<in> set (columns t)" for c
  proof -
    have "column_view c \<in> column_view ` set (columns u)" using assms(1) that by auto
    then show ?thesis by (auto simp: column_view_def)
  qed
  ultimately show ?thesis
    using assms(2) unfolding suits_def list_all_iff by (metis (no_types, lifting))
qed

lemma storesI:
  assumes "map_of declared_schema n = Some t" and "\<And>r. suits t (f r)"
  shows "stores migrated_schema n f"
proof -
  obtain u where u: "map_of migrated_schema n = Some u" "same_table u t" using migrated_table [OF assms(1)] .
  have "set (map column_view (columns u)) = set (map column_view (columns t))"
    using u(2) by (auto simp: same_table_def same_members_def list_all_iff)
  then have "suits u (f r)" for r using assms(2) by (rule suits_view)
  then show ?thesis using u(1) by (simp add: stores_def on_table_def)
qed

lemma model_keys:
  "unique_keys (declared_table user_model) = [[''id''], [''telegram_id'']]"
  "unique_keys (declared_table admin_user_model) = [[''id''], [''email'']]"
  "unique_keys (declared_table audit_log_model) = [[''id'']]"
  "unique_keys (declared_table plan_model) = [[''id''], [''slug'']]"
  "unique_keys (declared_table subscription_model) = [[''id'']]"
  "unique_keys (declared_table payment_model) = [[''id''], [''idempotency_key''], [''provider'', ''external_payment_id'']]"
  "unique_keys (declared_table promo_code_model) = [[''id''], [''code'']]"
  "unique_keys (declared_table promo_redemption_model) = [[''id'']]"
  "unique_keys (declared_table referral_model) = [[''id''], [''referrer_user_id'', ''referred_user_id''], [''referred_user_id'']]"
  "unique_keys (declared_table device_model) = [[''id''], [''public_key'']]"
  "unique_keys (declared_table vpn_server_model) = [[''id'']]"
  "unique_keys (declared_table vless_server_config_model) = [[''id''], [''server_id'']]"
  "unique_keys (declared_table vpn_peer_model) = [[''id''], [''public_key''], [''server_id'', ''assigned_ip'']]"
  "unique_keys (declared_table vless_credential_model) = [[''id''], [''device_id'', ''server_id''], [''uuid'']]"
  "unique_keys (declared_table vpn_profile_model) = [[''id'']]"
  "unique_keys (declared_table subscription_link_model) = [[''id''], [''device_id''], [''token_hash'']]"
  "unique_keys (declared_table routing_category_model) = [[''id''], [''name'']]"
  "unique_keys (declared_table routing_rule_model) = [[''id''], [''category_id'', ''domain'']]"
  "unique_keys (declared_table user_routing_profile_model) = [[''id''], [''user_id'']]"
  "unique_keys (declared_table user_category_preference_model) = [[''id''], [''user_id'', ''category_id'']]"
  "unique_keys (declared_table user_custom_domain_model) = [[''id''], [''user_id'', ''domain'']]"
  "unique_keys (declared_table support_ticket_model) = [[''id'']]"
  "unique_keys (declared_table support_message_model) = [[''id'']]"
  by code_simp+

lemma table_names:
  "tablename user_model = ''users''"
  "tablename admin_user_model = ''admin_users''"
  "tablename audit_log_model = ''audit_logs''"
  "tablename plan_model = ''plans''"
  "tablename subscription_model = ''subscriptions''"
  "tablename payment_model = ''payments''"
  "tablename promo_code_model = ''promo_codes''"
  "tablename promo_redemption_model = ''promo_code_redemptions''"
  "tablename referral_model = ''referrals''"
  "tablename device_model = ''devices''"
  "tablename vpn_server_model = ''vpn_servers''"
  "tablename vless_server_config_model = ''vless_server_configs''"
  "tablename vpn_peer_model = ''vpn_peers''"
  "tablename vless_credential_model = ''vless_credentials''"
  "tablename vpn_profile_model = ''vpn_profiles''"
  "tablename subscription_link_model = ''subscription_links''"
  "tablename routing_category_model = ''routing_categories''"
  "tablename routing_rule_model = ''routing_rules''"
  "tablename user_routing_profile_model = ''user_routing_profiles''"
  "tablename user_category_preference_model = ''user_category_preferences''"
  "tablename user_custom_domain_model = ''user_custom_domains''"
  "tablename support_ticket_model = ''support_tickets''"
  "tablename support_message_model = ''support_messages''"
  by (simp_all add:
    user_model_def admin_user_model_def audit_log_model_def plan_model_def subscription_model_def
    payment_model_def promo_code_model_def promo_redemption_model_def referral_model_def
    device_model_def vpn_server_model_def vless_server_config_model_def vpn_peer_model_def
    vless_credential_model_def vpn_profile_model_def subscription_link_model_def
    routing_category_model_def routing_rule_model_def user_routing_profile_model_def
    user_category_preference_model_def user_custom_domain_model_def support_ticket_model_def
    support_message_model_def)

lemma declared_lookup:
  "map_of declared_schema ''users'' = Some (declared_table user_model)"
  "map_of declared_schema ''admin_users'' = Some (declared_table admin_user_model)"
  "map_of declared_schema ''audit_logs'' = Some (declared_table audit_log_model)"
  "map_of declared_schema ''plans'' = Some (declared_table plan_model)"
  "map_of declared_schema ''subscriptions'' = Some (declared_table subscription_model)"
  "map_of declared_schema ''payments'' = Some (declared_table payment_model)"
  "map_of declared_schema ''promo_codes'' = Some (declared_table promo_code_model)"
  "map_of declared_schema ''promo_code_redemptions'' = Some (declared_table promo_redemption_model)"
  "map_of declared_schema ''referrals'' = Some (declared_table referral_model)"
  "map_of declared_schema ''devices'' = Some (declared_table device_model)"
  "map_of declared_schema ''vpn_servers'' = Some (declared_table vpn_server_model)"
  "map_of declared_schema ''vless_server_configs'' = Some (declared_table vless_server_config_model)"
  "map_of declared_schema ''vpn_peers'' = Some (declared_table vpn_peer_model)"
  "map_of declared_schema ''vless_credentials'' = Some (declared_table vless_credential_model)"
  "map_of declared_schema ''vpn_profiles'' = Some (declared_table vpn_profile_model)"
  "map_of declared_schema ''subscription_links'' = Some (declared_table subscription_link_model)"
  "map_of declared_schema ''routing_categories'' = Some (declared_table routing_category_model)"
  "map_of declared_schema ''routing_rules'' = Some (declared_table routing_rule_model)"
  "map_of declared_schema ''user_routing_profiles'' = Some (declared_table user_routing_profile_model)"
  "map_of declared_schema ''user_category_preferences'' = Some (declared_table user_category_preference_model)"
  "map_of declared_schema ''user_custom_domains'' = Some (declared_table user_custom_domain_model)"
  "map_of declared_schema ''support_tickets'' = Some (declared_table support_ticket_model)"
  "map_of declared_schema ''support_messages'' = Some (declared_table support_message_model)"
  by (simp_all add: declared_schema_def orm_models_def table_names)

lemmas conflict_defs =
  admin_conflict_def category_conflict_def config_conflict_def credential_conflict_def
  custom_domain_conflict_def device_conflict_def link_conflict_def payment_conflict_def
  peer_conflict_def plan_conflict_def preference_conflict_def promo_conflict_def referral_conflict_def
  routing_profile_conflict_def rule_conflict_def user_conflict_def no_conflict_def

lemmas row_defs =
  user_row_def admin_user_row_def audit_log_row_def plan_row_def subscription_row_def payment_row_def
  promo_code_row_def promo_redemption_row_def referral_row_def device_row_def vpn_server_row_def
  vless_server_config_row_def vpn_peer_row_def vless_credential_row_def vpn_profile_row_def
  subscription_link_row_def routing_category_row_def routing_rule_row_def user_routing_profile_row_def
  user_category_preference_row_def user_custom_domain_row_def support_ticket_row_def
  support_message_row_def cell_of_def opt_cell_def strings_cell_def

lemma member_names [simp]:
  "(user_status_name a1 = ''ACTIVE'' \<or> user_status_name a1 = ''BLOCKED'')"
  "(subscription_status_name b1 = ''CREATED'' \<or> subscription_status_name b1 = ''PENDING'' \<or> subscription_status_name b1 = ''ACTIVE'' \<or> subscription_status_name b1 = ''EXPIRED'' \<or> subscription_status_name b1 = ''CANCELLED'')"
  "(device_status_name c1 = ''ACTIVE'' \<or> device_status_name c1 = ''DISABLED'' \<or> device_status_name c1 = ''REVOKED'')"
  "(server_status_name d1 = ''ONLINE'' \<or> server_status_name d1 = ''DEGRADED'' \<or> server_status_name d1 = ''OFFLINE'' \<or> server_status_name d1 = ''MAINTENANCE'')"
  "(peer_status_name e1 = ''ACTIVE'' \<or> peer_status_name e1 = ''DISABLED'' \<or> peer_status_name e1 = ''REVOKED'')"
  "(link_status_name f1 = ''ACTIVE'' \<or> link_status_name f1 = ''REVOKED'')"
  "(protocol_name g1 = ''WIREGUARD'' \<or> protocol_name g1 = ''VLESS'')"
  "(credential_status_name h1 = ''ACTIVE'' \<or> credential_status_name h1 = ''DISABLED'' \<or> credential_status_name h1 = ''REVOKED'')"
  "(routing_mode_name i1 = ''FULL_VPN'' \<or> routing_mode_name i1 = ''SMART_VPN'')"
  "(route_type_name j1 = ''VPN'' \<or> route_type_name j1 = ''DIRECT'')"
  "(payment_status_name k1 = ''PENDING'' \<or> payment_status_name k1 = ''SUCCEEDED'' \<or> payment_status_name k1 = ''FAILED'' \<or> payment_status_name k1 = ''REFUNDED'' \<or> payment_status_name k1 = ''CANCELLED'')"
  "(discount_kind_name l1 = ''PERCENT'' \<or> discount_kind_name l1 = ''FIXED'')"
  "(ticket_status_name m1 = ''OPEN'' \<or> ticket_status_name m1 = ''PENDING'' \<or> ticket_status_name m1 = ''CLOSED'')"
  "(support_sender_name n1 = ''USER'' \<or> support_sender_name n1 = ''ADMIN'')"
  "(admin_role_name o1 = ''SUPERADMIN'' \<or> admin_role_name o1 = ''SUPPORT'' \<or> admin_role_name o1 = ''VIEWER'')"
  by ((cases a1; simp), (cases b1; simp), (cases c1; simp), (cases d1; simp), (cases e1; simp), (cases f1; simp), (cases g1; simp), (cases h1; simp), (cases i1; simp), (cases j1; simp), (cases k1; simp), (cases l1; simp), (cases m1; simp), (cases n1; simp), (cases o1; simp))

lemma enforced_tables:
  "enforces migrated_schema ''users'' user_row user_conflict"
  "enforces migrated_schema ''admin_users'' admin_user_row admin_conflict"
  "enforces migrated_schema ''audit_logs'' audit_log_row no_conflict"
  "enforces migrated_schema ''plans'' plan_row plan_conflict"
  "enforces migrated_schema ''subscriptions'' subscription_row no_conflict"
  "enforces migrated_schema ''payments'' payment_row payment_conflict"
  "enforces migrated_schema ''promo_codes'' promo_code_row promo_conflict"
  "enforces migrated_schema ''promo_code_redemptions'' promo_redemption_row no_conflict"
  "enforces migrated_schema ''referrals'' referral_row referral_conflict"
  "enforces migrated_schema ''devices'' device_row device_conflict"
  "enforces migrated_schema ''vpn_servers'' vpn_server_row no_conflict"
  "enforces migrated_schema ''vless_server_configs'' vless_server_config_row config_conflict"
  "enforces migrated_schema ''vpn_peers'' vpn_peer_row peer_conflict"
  "enforces migrated_schema ''vless_credentials'' vless_credential_row credential_conflict"
  "enforces migrated_schema ''vpn_profiles'' vpn_profile_row no_conflict"
  "enforces migrated_schema ''subscription_links'' subscription_link_row link_conflict"
  "enforces migrated_schema ''routing_categories'' routing_category_row category_conflict"
  "enforces migrated_schema ''routing_rules'' routing_rule_row rule_conflict"
  "enforces migrated_schema ''user_routing_profiles'' user_routing_profile_row routing_profile_conflict"
  "enforces migrated_schema ''user_category_preferences'' user_category_preference_row preference_conflict"
  "enforces migrated_schema ''user_custom_domains'' user_custom_domain_row custom_domain_conflict"
  "enforces migrated_schema ''support_tickets'' support_ticket_row no_conflict"
  "enforces migrated_schema ''support_messages'' support_message_row no_conflict"
proof -
  show "enforces migrated_schema ''users'' user_row user_conflict"
    by (rule enforcesI [OF declared_lookup(1) model_keys(1)]) (auto simp: agree_def row_defs conflict_defs same_some_def split: option.splits)
  show "enforces migrated_schema ''admin_users'' admin_user_row admin_conflict"
    by (rule enforcesI [OF declared_lookup(2) model_keys(2)]) (auto simp: agree_def row_defs conflict_defs same_some_def split: option.splits)
  show "enforces migrated_schema ''audit_logs'' audit_log_row no_conflict"
    by (rule enforcesI [OF declared_lookup(3) model_keys(3)]) (auto simp: agree_def row_defs conflict_defs same_some_def split: option.splits)
  show "enforces migrated_schema ''plans'' plan_row plan_conflict"
    by (rule enforcesI [OF declared_lookup(4) model_keys(4)]) (auto simp: agree_def row_defs conflict_defs same_some_def split: option.splits)
  show "enforces migrated_schema ''subscriptions'' subscription_row no_conflict"
    by (rule enforcesI [OF declared_lookup(5) model_keys(5)]) (auto simp: agree_def row_defs conflict_defs same_some_def split: option.splits)
  show "enforces migrated_schema ''payments'' payment_row payment_conflict"
    by (rule enforcesI [OF declared_lookup(6) model_keys(6)]) (auto simp: agree_def row_defs conflict_defs same_some_def split: option.splits)
  show "enforces migrated_schema ''promo_codes'' promo_code_row promo_conflict"
    by (rule enforcesI [OF declared_lookup(7) model_keys(7)]) (auto simp: agree_def row_defs conflict_defs same_some_def split: option.splits)
  show "enforces migrated_schema ''promo_code_redemptions'' promo_redemption_row no_conflict"
    by (rule enforcesI [OF declared_lookup(8) model_keys(8)]) (auto simp: agree_def row_defs conflict_defs same_some_def split: option.splits)
  show "enforces migrated_schema ''referrals'' referral_row referral_conflict"
    by (rule enforcesI [OF declared_lookup(9) model_keys(9)]) (auto simp: agree_def row_defs conflict_defs same_some_def split: option.splits)
  show "enforces migrated_schema ''devices'' device_row device_conflict"
    by (rule enforcesI [OF declared_lookup(10) model_keys(10)]) (auto simp: agree_def row_defs conflict_defs same_some_def split: option.splits)
  show "enforces migrated_schema ''vpn_servers'' vpn_server_row no_conflict"
    by (rule enforcesI [OF declared_lookup(11) model_keys(11)]) (auto simp: agree_def row_defs conflict_defs same_some_def split: option.splits)
  show "enforces migrated_schema ''vless_server_configs'' vless_server_config_row config_conflict"
    by (rule enforcesI [OF declared_lookup(12) model_keys(12)]) (auto simp: agree_def row_defs conflict_defs same_some_def split: option.splits)
  show "enforces migrated_schema ''vpn_peers'' vpn_peer_row peer_conflict"
    by (rule enforcesI [OF declared_lookup(13) model_keys(13)]) (auto simp: agree_def row_defs conflict_defs same_some_def split: option.splits)
  show "enforces migrated_schema ''vless_credentials'' vless_credential_row credential_conflict"
    by (rule enforcesI [OF declared_lookup(14) model_keys(14)]) (auto simp: agree_def row_defs conflict_defs same_some_def split: option.splits)
  show "enforces migrated_schema ''vpn_profiles'' vpn_profile_row no_conflict"
    by (rule enforcesI [OF declared_lookup(15) model_keys(15)]) (auto simp: agree_def row_defs conflict_defs same_some_def split: option.splits)
  show "enforces migrated_schema ''subscription_links'' subscription_link_row link_conflict"
    by (rule enforcesI [OF declared_lookup(16) model_keys(16)]) (auto simp: agree_def row_defs conflict_defs same_some_def split: option.splits)
  show "enforces migrated_schema ''routing_categories'' routing_category_row category_conflict"
    by (rule enforcesI [OF declared_lookup(17) model_keys(17)]) (auto simp: agree_def row_defs conflict_defs same_some_def split: option.splits)
  show "enforces migrated_schema ''routing_rules'' routing_rule_row rule_conflict"
    by (rule enforcesI [OF declared_lookup(18) model_keys(18)]) (auto simp: agree_def row_defs conflict_defs same_some_def split: option.splits)
  show "enforces migrated_schema ''user_routing_profiles'' user_routing_profile_row routing_profile_conflict"
    by (rule enforcesI [OF declared_lookup(19) model_keys(19)]) (auto simp: agree_def row_defs conflict_defs same_some_def split: option.splits)
  show "enforces migrated_schema ''user_category_preferences'' user_category_preference_row preference_conflict"
    by (rule enforcesI [OF declared_lookup(20) model_keys(20)]) (auto simp: agree_def row_defs conflict_defs same_some_def split: option.splits)
  show "enforces migrated_schema ''user_custom_domains'' user_custom_domain_row custom_domain_conflict"
    by (rule enforcesI [OF declared_lookup(21) model_keys(21)]) (auto simp: agree_def row_defs conflict_defs same_some_def split: option.splits)
  show "enforces migrated_schema ''support_tickets'' support_ticket_row no_conflict"
    by (rule enforcesI [OF declared_lookup(22) model_keys(22)]) (auto simp: agree_def row_defs conflict_defs same_some_def split: option.splits)
  show "enforces migrated_schema ''support_messages'' support_message_row no_conflict"
    by (rule enforcesI [OF declared_lookup(23) model_keys(23)]) (auto simp: agree_def row_defs conflict_defs same_some_def split: option.splits)
qed

lemma stored_tables:
  "stores migrated_schema ''users'' user_row"
  "stores migrated_schema ''admin_users'' admin_user_row"
  "stores migrated_schema ''audit_logs'' audit_log_row"
  "stores migrated_schema ''plans'' plan_row"
  "stores migrated_schema ''subscriptions'' subscription_row"
  "stores migrated_schema ''payments'' payment_row"
  "stores migrated_schema ''promo_codes'' promo_code_row"
  "stores migrated_schema ''promo_code_redemptions'' promo_redemption_row"
  "stores migrated_schema ''referrals'' referral_row"
  "stores migrated_schema ''devices'' device_row"
  "stores migrated_schema ''vpn_servers'' vpn_server_row"
  "stores migrated_schema ''vless_server_configs'' vless_server_config_row"
  "stores migrated_schema ''vpn_peers'' vpn_peer_row"
  "stores migrated_schema ''vless_credentials'' vless_credential_row"
  "stores migrated_schema ''vpn_profiles'' vpn_profile_row"
  "stores migrated_schema ''subscription_links'' subscription_link_row"
  "stores migrated_schema ''routing_categories'' routing_category_row"
  "stores migrated_schema ''routing_rules'' routing_rule_row"
  "stores migrated_schema ''user_routing_profiles'' user_routing_profile_row"
  "stores migrated_schema ''user_category_preferences'' user_category_preference_row"
  "stores migrated_schema ''user_custom_domains'' user_custom_domain_row"
  "stores migrated_schema ''support_tickets'' support_ticket_row"
  "stores migrated_schema ''support_messages'' support_message_row"
proof -
  show "stores migrated_schema ''users'' user_row"
    by (rule storesI [OF declared_lookup(1)]) (simp add: suits_def column_names_def declared_table_def declared_fields_def timestamp_mixin_def map_filter_simps user_model_def row_defs split: option.splits)
  show "stores migrated_schema ''admin_users'' admin_user_row"
    by (rule storesI [OF declared_lookup(2)]) (simp add: suits_def column_names_def declared_table_def declared_fields_def timestamp_mixin_def map_filter_simps admin_user_model_def row_defs split: option.splits)
  show "stores migrated_schema ''audit_logs'' audit_log_row"
    by (rule storesI [OF declared_lookup(3)]) (simp add: suits_def column_names_def declared_table_def declared_fields_def timestamp_mixin_def map_filter_simps audit_log_model_def row_defs split: option.splits)
  show "stores migrated_schema ''plans'' plan_row"
    by (rule storesI [OF declared_lookup(4)]) (simp add: suits_def column_names_def declared_table_def declared_fields_def timestamp_mixin_def map_filter_simps plan_model_def row_defs split: option.splits)
  show "stores migrated_schema ''subscriptions'' subscription_row"
    by (rule storesI [OF declared_lookup(5)]) (simp add: suits_def column_names_def declared_table_def declared_fields_def timestamp_mixin_def map_filter_simps subscription_model_def row_defs split: option.splits)
  show "stores migrated_schema ''payments'' payment_row"
    by (rule storesI [OF declared_lookup(6)]) (simp add: suits_def column_names_def declared_table_def declared_fields_def timestamp_mixin_def map_filter_simps payment_model_def row_defs split: option.splits)
  show "stores migrated_schema ''promo_codes'' promo_code_row"
    by (rule storesI [OF declared_lookup(7)]) (simp add: suits_def column_names_def declared_table_def declared_fields_def timestamp_mixin_def map_filter_simps promo_code_model_def row_defs split: option.splits)
  show "stores migrated_schema ''promo_code_redemptions'' promo_redemption_row"
    by (rule storesI [OF declared_lookup(8)]) (simp add: suits_def column_names_def declared_table_def declared_fields_def timestamp_mixin_def map_filter_simps promo_redemption_model_def row_defs split: option.splits)
  show "stores migrated_schema ''referrals'' referral_row"
    by (rule storesI [OF declared_lookup(9)]) (simp add: suits_def column_names_def declared_table_def declared_fields_def timestamp_mixin_def map_filter_simps referral_model_def row_defs split: option.splits)
  show "stores migrated_schema ''devices'' device_row"
    by (rule storesI [OF declared_lookup(10)]) (simp add: suits_def column_names_def declared_table_def declared_fields_def timestamp_mixin_def map_filter_simps device_model_def row_defs split: option.splits)
  show "stores migrated_schema ''vpn_servers'' vpn_server_row"
    by (rule storesI [OF declared_lookup(11)]) (simp add: suits_def column_names_def declared_table_def declared_fields_def timestamp_mixin_def map_filter_simps vpn_server_model_def row_defs split: option.splits)
  show "stores migrated_schema ''vless_server_configs'' vless_server_config_row"
    by (rule storesI [OF declared_lookup(12)]) (simp add: suits_def column_names_def declared_table_def declared_fields_def timestamp_mixin_def map_filter_simps vless_server_config_model_def row_defs split: option.splits)
  show "stores migrated_schema ''vpn_peers'' vpn_peer_row"
    by (rule storesI [OF declared_lookup(13)]) (simp add: suits_def column_names_def declared_table_def declared_fields_def timestamp_mixin_def map_filter_simps vpn_peer_model_def row_defs split: option.splits)
  show "stores migrated_schema ''vless_credentials'' vless_credential_row"
    by (rule storesI [OF declared_lookup(14)]) (simp add: suits_def column_names_def declared_table_def declared_fields_def timestamp_mixin_def map_filter_simps vless_credential_model_def row_defs split: option.splits)
  show "stores migrated_schema ''vpn_profiles'' vpn_profile_row"
    by (rule storesI [OF declared_lookup(15)]) (simp add: suits_def column_names_def declared_table_def declared_fields_def timestamp_mixin_def map_filter_simps vpn_profile_model_def row_defs split: option.splits)
  show "stores migrated_schema ''subscription_links'' subscription_link_row"
    by (rule storesI [OF declared_lookup(16)]) (simp add: suits_def column_names_def declared_table_def declared_fields_def timestamp_mixin_def map_filter_simps subscription_link_model_def row_defs split: option.splits)
  show "stores migrated_schema ''routing_categories'' routing_category_row"
    by (rule storesI [OF declared_lookup(17)]) (simp add: suits_def column_names_def declared_table_def declared_fields_def timestamp_mixin_def map_filter_simps routing_category_model_def row_defs split: option.splits)
  show "stores migrated_schema ''routing_rules'' routing_rule_row"
    by (rule storesI [OF declared_lookup(18)]) (simp add: suits_def column_names_def declared_table_def declared_fields_def timestamp_mixin_def map_filter_simps routing_rule_model_def row_defs split: option.splits)
  show "stores migrated_schema ''user_routing_profiles'' user_routing_profile_row"
    by (rule storesI [OF declared_lookup(19)]) (simp add: suits_def column_names_def declared_table_def declared_fields_def timestamp_mixin_def map_filter_simps user_routing_profile_model_def row_defs split: option.splits)
  show "stores migrated_schema ''user_category_preferences'' user_category_preference_row"
    by (rule storesI [OF declared_lookup(20)]) (simp add: suits_def column_names_def declared_table_def declared_fields_def timestamp_mixin_def map_filter_simps user_category_preference_model_def row_defs split: option.splits)
  show "stores migrated_schema ''user_custom_domains'' user_custom_domain_row"
    by (rule storesI [OF declared_lookup(21)]) (simp add: suits_def column_names_def declared_table_def declared_fields_def timestamp_mixin_def map_filter_simps user_custom_domain_model_def row_defs split: option.splits)
  show "stores migrated_schema ''support_tickets'' support_ticket_row"
    by (rule storesI [OF declared_lookup(22)]) (simp add: suits_def column_names_def declared_table_def declared_fields_def timestamp_mixin_def map_filter_simps support_ticket_model_def row_defs split: option.splits)
  show "stores migrated_schema ''support_messages'' support_message_row"
    by (rule storesI [OF declared_lookup(23)]) (simp add: suits_def column_names_def declared_table_def declared_fields_def timestamp_mixin_def map_filter_simps support_message_model_def row_defs split: option.splits)
qed

text \<open>C9: In the tables the migrations build, two rows of different primary keys clash on a unique constraint or a unique
  index exactly where the repository of the model refuses the second of them: the constraints the operations
  rely on are the ones the database enforces, no more and no fewer.
\<close>

theorem conflicts_are_the_schema_keys:
  assumes "sql_engine run" and "upgrade_head run fresh_deployment = (True, d)"
  shows "enforces (stored_in d) ''users'' user_row user_conflict \<and>
    enforces (stored_in d) ''admin_users'' admin_user_row admin_conflict \<and>
    enforces (stored_in d) ''audit_logs'' audit_log_row no_conflict \<and>
    enforces (stored_in d) ''plans'' plan_row plan_conflict \<and>
    enforces (stored_in d) ''subscriptions'' subscription_row no_conflict \<and>
    enforces (stored_in d) ''payments'' payment_row payment_conflict \<and>
    enforces (stored_in d) ''promo_codes'' promo_code_row promo_conflict \<and>
    enforces (stored_in d) ''promo_code_redemptions'' promo_redemption_row no_conflict \<and>
    enforces (stored_in d) ''referrals'' referral_row referral_conflict \<and>
    enforces (stored_in d) ''devices'' device_row device_conflict \<and>
    enforces (stored_in d) ''vpn_servers'' vpn_server_row no_conflict \<and>
    enforces (stored_in d) ''vless_server_configs'' vless_server_config_row config_conflict \<and>
    enforces (stored_in d) ''vpn_peers'' vpn_peer_row peer_conflict \<and>
    enforces (stored_in d) ''vless_credentials'' vless_credential_row credential_conflict \<and>
    enforces (stored_in d) ''vpn_profiles'' vpn_profile_row no_conflict \<and>
    enforces (stored_in d) ''subscription_links'' subscription_link_row link_conflict \<and>
    enforces (stored_in d) ''routing_categories'' routing_category_row category_conflict \<and>
    enforces (stored_in d) ''routing_rules'' routing_rule_row rule_conflict \<and>
    enforces (stored_in d) ''user_routing_profiles'' user_routing_profile_row routing_profile_conflict \<and>
    enforces (stored_in d) ''user_category_preferences'' user_category_preference_row preference_conflict \<and>
    enforces (stored_in d) ''user_custom_domains'' user_custom_domain_row custom_domain_conflict \<and>
    enforces (stored_in d) ''support_tickets'' support_ticket_row no_conflict \<and>
    enforces (stored_in d) ''support_messages'' support_message_row no_conflict"
  using enforced_tables upgraded_fresh [OF assms] by simp

text \<open>C27: Every record of the model is a row of its migrated table: it names columns of that table only, gives every
  column but \<^verbatim>\<open>updated_at\<close> a value of the column's type, an enumeration's member by a name the column lists, and a null only
  where the column is nullable.
\<close>

theorem records_suit_their_tables:
  assumes "sql_engine run" and "upgrade_head run fresh_deployment = (True, d)"
  shows "stores (stored_in d) ''users'' user_row \<and>
    stores (stored_in d) ''admin_users'' admin_user_row \<and>
    stores (stored_in d) ''audit_logs'' audit_log_row \<and>
    stores (stored_in d) ''plans'' plan_row \<and>
    stores (stored_in d) ''subscriptions'' subscription_row \<and>
    stores (stored_in d) ''payments'' payment_row \<and>
    stores (stored_in d) ''promo_codes'' promo_code_row \<and>
    stores (stored_in d) ''promo_code_redemptions'' promo_redemption_row \<and>
    stores (stored_in d) ''referrals'' referral_row \<and>
    stores (stored_in d) ''devices'' device_row \<and>
    stores (stored_in d) ''vpn_servers'' vpn_server_row \<and>
    stores (stored_in d) ''vless_server_configs'' vless_server_config_row \<and>
    stores (stored_in d) ''vpn_peers'' vpn_peer_row \<and>
    stores (stored_in d) ''vless_credentials'' vless_credential_row \<and>
    stores (stored_in d) ''vpn_profiles'' vpn_profile_row \<and>
    stores (stored_in d) ''subscription_links'' subscription_link_row \<and>
    stores (stored_in d) ''routing_categories'' routing_category_row \<and>
    stores (stored_in d) ''routing_rules'' routing_rule_row \<and>
    stores (stored_in d) ''user_routing_profiles'' user_routing_profile_row \<and>
    stores (stored_in d) ''user_category_preferences'' user_category_preference_row \<and>
    stores (stored_in d) ''user_custom_domains'' user_custom_domain_row \<and>
    stores (stored_in d) ''support_tickets'' support_ticket_row \<and>
    stores (stored_in d) ''support_messages'' support_message_row"
  using stored_tables upgraded_fresh [OF assms] by simp

section \<open>Instances\<close>

text \<open>A database at the revision before VLESS with one server, and one at the first revision with a shared address.\<close>

definition demo_server_row :: row where
  "demo_server_row =
     [(''id'', IntC 1), (''name'', TextC ''nl-1''), (''country'', TextC ''Netherlands''), (''city'', NULL),
      (''hostname'', TextC ''nl-1.example''), (''agent_base_url'', TextC ''https://nl-1.example:8443''),
      (''public_key'', TextC ''k1''), (''endpoint'', TextC ''nl-1.example:51820''), (''listen_port'', IntC 51820),
      (''internal_network'', TextC ''10.8.0.0/24''), (''status'', TextC ''ONLINE''), (''capacity'', IntC 100),
      (''current_load'', IntC 0), (''created_at'', TimeC 0), (''updated_at'', TimeC 0)]"

definition demo_stored :: stored_db where
  "demo_stored = alter ''vpn_servers'' (\<lambda>t. t\<lparr>table_rows := [demo_server_row]\<rparr>) before_vless"

definition demo_peers :: stored where
  "demo_peers = \<lparr>columns = [], constraints = [], indexes = [],
     table_rows =
       [[(''id'', IntC 1), (''server_id'', IntC 1), (''assigned_ip'', TextC ''10.8.0.2'')],
        [(''id'', IntC 2), (''server_id'', IntC 1), (''assigned_ip'', TextC ''10.8.0.2'')]]\<rparr>"

lemma demo_stored_ok: "valid_db demo_stored \<and> without_rows demo_stored = before_vless"
  by code_simp

lemma demo_stored_legal: "legal_script (upgrade vless_support) demo_stored"
  using spares_rows_script [OF vless_spares_rows] vless_legal demo_stored_ok by simp

lemma migrations_build_declared_schema_witness:
  "\<exists>db. upgrade_head reference_engine fresh_deployment =
      (True, \<lparr>at_revision = Some ''a1c9e7f3b246'', stored_in = db\<rparr>) \<and>
    same_schema db declared_schema \<and> list_all (\<lambda>(n, t). table_rows t = []) db"
  by (rule migrations_build_declared_schema [OF reference.sql_engine_axioms])

lemma downgrade_undoes_upgrade_witness:
  "\<exists>db. run_script reference_engine (upgrade vless_support) demo_stored = Some db \<and> valid_db db \<and>
    downgrade_one reference_engine \<lparr>at_revision = Some ''a1c9e7f3b246'', stored_in = db\<rparr> =
      (True, \<lparr>at_revision = Some ''dfef610f2c74'', stored_in = demo_stored\<rparr>)"
  using downgrade_undoes_upgrade [OF reference.sql_engine_axioms, of vless_support
      "\<lparr>at_revision = Some ''dfef610f2c74'', stored_in = demo_stored\<rparr>"] demo_stored_ok demo_stored_legal
  by (simp add: revisions_def vless_down)

lemma migrations_keep_rows_typed_witness:
  "\<exists>db. run_script reference_engine (upgrade vless_support) demo_stored = Some db \<and> valid_db db"
  by (rule migrations_keep_rows_typed [OF reference.sql_engine_axioms demo_stored_ok [THEN conjunct1] demo_stored_legal])

lemma existing_rows_become_wireguard_witness:
  "\<exists>db t. upgrade_head reference_engine \<lparr>at_revision = Some ''dfef610f2c74'', stored_in = demo_stored\<rparr> =
      (True, \<lparr>at_revision = Some ''a1c9e7f3b246'', stored_in = db\<rparr>) \<and>
    map_of db ''vpn_servers'' = Some t \<and>
    table_rows t = [demo_server_row @ [(''protocol'', TextC ''WIREGUARD'')]]"
proof -
  have "on_table demo_stored ''vpn_servers'' (\<lambda>t. table_rows t = [demo_server_row])" by code_simp
  then obtain t where t: "map_of demo_stored ''vpn_servers'' = Some t" "table_rows t = [demo_server_row]"
    by (auto simp: on_table_iff)
  obtain db where "upgrade_head reference_engine \<lparr>at_revision = Some ''dfef610f2c74'', stored_in = demo_stored\<rparr> =
      (True, \<lparr>at_revision = Some ''a1c9e7f3b246'', stored_in = db\<rparr>)"
    "\<forall>n t. map_of demo_stored n = Some t \<longrightarrow> (\<exists>t'. map_of db n = Some t' \<and> table_rows t' =
         (if n = ''vpn_servers'' \<or> n = ''devices''
          then map (\<lambda>r. r @ [(''protocol'', TextC (protocol_name WIREGUARD))]) (table_rows t) else table_rows t))"
    using existing_rows_become_wireguard [OF reference.sql_engine_axioms
        demo_stored_ok [THEN conjunct1] demo_stored_ok [THEN conjunct2]] by (elim exE conjE) (rule that)
  then show ?thesis using t by fastforce
qed

lemma shared_address_stops_migration_witness:
  "upgrade_head reference_engine \<lparr>at_revision = Some ''f74a5caeec68'', stored_in = [(''vpn_peers'', demo_peers)]\<rparr> =
    (False, \<lparr>at_revision = Some ''f74a5caeec68'', stored_in = [(''vpn_peers'', demo_peers)]\<rparr>)"
  by (rule shared_address_stops_migration [OF reference.sql_engine_axioms, of _ demo_peers])
    (simp_all add: demo_peers_def apart_def agree_def cell_of_def)

lemma conflicts_are_the_schema_keys_witness:
  "enforces migrated_schema ''vpn_peers'' vpn_peer_row peer_conflict \<and>
   enforces migrated_schema ''subscription_links'' subscription_link_row link_conflict"
  using conflicts_are_the_schema_keys [OF reference.sql_engine_axioms upgrade_fresh [OF reference.sql_engine_axioms]]
  by simp

lemma records_suit_their_tables_witness:
  "stores migrated_schema ''devices'' device_row \<and> stores migrated_schema ''vpn_servers'' vpn_server_row"
  using records_suit_their_tables [OF reference.sql_engine_axioms upgrade_fresh [OF reference.sql_engine_axioms]]
  by simp

end
