(* ===== verification/Middleware.thy ===== *)
theory Middleware
  imports BotClient
begin

text \<open>
  What surrounds the endpoints of the backend: the application that \<^verbatim>\<open>create_app\<close> assembles
  (\<^verbatim>\<open>backend/app/main.py\<close>), its middlewares (\<^verbatim>\<open>core/middleware.py\<close>), the counters they keep
  (\<^verbatim>\<open>core/metrics.py\<close>) and what they log. A middleware is a layer: a function from what it wraps, the request
  and the state of the process. Starlette puts the layer added last outermost and its own error handling around
  all of them, so a request passes the handler of uncaught exceptions, the rate limiter, the metrics, the
  request context, the security headers and CORS, in that order. The pages FastAPI generates, the CORS headers, the
  rate limiter's verdicts and the text format of the metrics are parameters.
\<close>

section \<open>The process\<close>

record full_reply = http_reply +
  hr_headers :: "(string \<times> string) list"

definition with_headers :: "http_reply \<Rightarrow> (string \<times> string) list \<Rightarrow> full_reply" where
  "with_headers r hs = \<lparr>hr_status = hr_status r, hr_content = hr_content r, hr_headers = hs\<rparr>"

definition add_headers :: "(string \<times> string) list \<Rightarrow> full_reply \<Rightarrow> full_reply" where
  "add_headers hs r = r\<lparr>hr_headers := hr_headers r @ hs\<rparr>"

text \<open>The label a request is counted under: the template of its route, or its path if it has none.\<close>

datatype path_label = Template "segment list" | Literal string

record gauges =
  g_active_users :: int
  g_active_subscriptions :: int
  g_active_devices :: int
  g_online_servers :: int
  g_online_peers :: int

text \<open>
  The state of one process: the world its endpoints act on, its Prometheus collectors as the lists of their
  observations, its log, the context variable of the logger, and \<^verbatim>\<open>request.state.request_id\<close> of the request it is
  serving.
\<close>

record 'w process =
  pr_world :: "'w world"
  requests_total :: "(http_method \<times> path_label \<times> nat) list"
  request_durations :: "(http_method \<times> path_label) list"
  api_errors :: "string list"
  db_gauges :: gauges
  event_log :: "(string \<times> json) list list"
  request_id_ctx :: string
  request_state :: "string option"

record 'w stack = "'w site" +
  sk_uuid :: "nat \<Rightarrow> string"
  sk_endpoint_limited :: "nat \<Rightarrow> string option"
  sk_cors :: "(string \<times> string) list \<Rightarrow> (string \<times> string) list"
  sk_format :: "nat \<Rightarrow> string option"
  sk_pages :: "string \<Rightarrow> full_reply option"
  sk_db_up :: "nat \<Rightarrow> bool"
  sk_exposition :: "'w process \<Rightarrow> string"
  sk_millis :: "nat \<Rightarrow> json"

text \<open>A layer answers, or lets an exception through.\<close>

datatype served = Responded full_reply | Crashed exn

type_synonym 'w layer = "http_call \<Rightarrow> 'w process \<Rightarrow> served \<times> 'w process"

fun method_name :: "http_method \<Rightarrow> string" where
  "method_name GET = ''GET''"
| "method_name POST = ''POST''"
| "method_name PUT = ''PUT''"
| "method_name PATCH = ''PATCH''"
| "method_name DELETE = ''DELETE''"

text \<open>A structured log entry, through the processors \<^verbatim>\<open>_add_request_id\<close> and \<^verbatim>\<open>_redact_sensitive\<close>.\<close>

definition log_event :: "string \<Rightarrow> (string \<times> json) list \<Rightarrow> 'w process \<Rightarrow> 'w process" where
  "log_event name kvs b =
     b\<lparr>event_log := event_log b @
       [redact_sensitive backend_redact_keys (add_request_id (request_id_ctx b) ((''event'', JStr name) # kvs))]\<rparr>"

section \<open>The routes\<close>

datatype target =
    ApiRoute endpoint "string list"
  | SubRoute string
  | HealthRoute
  | ReadyRoute
  | MetricsRoute
  | PageRoute full_reply
  | NoRoute
  | OtherMethod

fun matched_route :: "route list \<Rightarrow> http_method \<Rightarrow> string list \<Rightarrow> segment list option" where
  "matched_route [] m ss = None"
| "matched_route ((m', ts, e) # rs) m ss =
     (if m' = m \<and> match_segments ts ss \<noteq> None then Some ts else matched_route rs m ss)"

fun partial_route :: "route list \<Rightarrow> string list \<Rightarrow> segment list option" where
  "partial_route [] ss = None"
| "partial_route ((m, ts, e) # rs) ss = (if match_segments ts ss \<noteq> None then Some ts else partial_route rs ss)"

definition api_prefix :: "segment list" where
  "api_prefix = [Lit ''api'', Lit ''v1'']"

text \<open>The routes outside the API: each answers \<^verbatim>\<open>GET\<close> only.\<close>

definition plain_route :: "string \<Rightarrow> (segment list \<times> target) option" where
  "plain_route path =
     (case split_on CHR ''/'' path of
        [a, p, t] \<Rightarrow> if a = '''' \<and> p = ''sub'' \<and> t \<noteq> '''' then Some ([Lit ''sub'', Par], SubRoute t) else None
      | [a, p] \<Rightarrow>
          if a = '''' \<and> p = ''health'' then Some ([Lit ''health''], HealthRoute)
          else if a = '''' \<and> p = ''ready'' then Some ([Lit ''ready''], ReadyRoute)
          else if a = '''' \<and> p = ''metrics'' then Some ([Lit ''metrics''], MetricsRoute)
          else None
      | _ \<Rightarrow> None)"

definition target_of :: "'w stack \<Rightarrow> http_call \<Rightarrow> target" where
  "target_of S c =
     (case api_segments (hc_path c) of
        Some ss \<Rightarrow>
          (case first_route api_router (hc_method c) ss of
             Some (e, caps) \<Rightarrow> ApiRoute e caps
           | None \<Rightarrow> if any_method api_router ss then OtherMethod else NoRoute)
      | None \<Rightarrow>
          (case plain_route (hc_path c) of
             Some (_, t) \<Rightarrow> if hc_method c = GET then t else OtherMethod
           | None \<Rightarrow> (case sk_pages S (hc_path c) of Some r \<Rightarrow> PageRoute r | None \<Rightarrow> NoRoute)))"

text \<open>\<^verbatim>\<open>_route_path_template\<close>\<close>

definition route_path_template :: "http_call \<Rightarrow> path_label" where
  "route_path_template c =
     (case api_segments (hc_path c) of
        Some ss \<Rightarrow>
          (case matched_route api_router (hc_method c) ss of
             Some ts \<Rightarrow> Template (api_prefix @ ts)
           | None \<Rightarrow>
               (case partial_route api_router ss of
                  Some ts \<Rightarrow> Template (api_prefix @ ts) | None \<Rightarrow> Literal (hc_path c)))
      | None \<Rightarrow> (case plain_route (hc_path c) of Some (ts, _) \<Rightarrow> Template ts | None \<Rightarrow> Literal (hc_path c)))"

section \<open>The application\<close>

definition raised_call ::
  "'w site \<Rightarrow> nat \<Rightarrow> http_call \<Rightarrow> endpoint \<Rightarrow> string list \<Rightarrow> 'w world \<Rightarrow> (exn + api_body) \<times> 'w world" where
  "raised_call S n c e caps w =
     (case parsed_call S c e caps of
        Some req \<Rightarrow> with_session (dispatch (st_api S n) (credentials_of (hc_headers c)) req) w
      | None \<Rightarrow> with_session (refuse_unparsed (st_api S n) (hc_headers c) e) w)"

text \<open>Which exceptions the handlers inside the middlewares take; the handler of \<^verbatim>\<open>Exception\<close> is outside of them.\<close>

fun handled_inside :: "exn \<Rightarrow> bool" where
  "handled_inside (AppError cls msg c) = True"
| "handled_inside (PyError x) = (x = ''RequestValidationError'')"
| "handled_inside IntegrityError = False"

fun log_raised :: "http_call \<Rightarrow> exn \<Rightarrow> 'w process \<Rightarrow> 'w process" where
  "log_raised c (AppError cls msg ec) b =
     log_event ''app_error''
       [(''path'', JStr (safe_request_path (hc_path c))), (''error_code'', JStr ec), (''message'', JStr msg)] b"
| "log_raised c x b = b"

definition error_full :: "error_response \<Rightarrow> full_reply" where
  "error_full r = with_headers (error_reply r) [(''X-Error-Code'', resp_x_error_code r)]"

definition exception_reply :: "http_call \<Rightarrow> raised \<Rightarrow> 'w process \<Rightarrow> full_reply" where
  "exception_reply c x b = error_full (handle_exception (request_state b) (request_id_ctx b) x)"

definition after_call ::
  "http_call \<Rightarrow> (api_body \<Rightarrow> full_reply) \<Rightarrow> (exn + api_body) \<times> 'w world \<Rightarrow> 'w process \<Rightarrow> served \<times> 'w process" where
  "after_call c mk res b =
     (let b' = b\<lparr>pr_world := snd res\<rparr> in
      case fst res of
        Inr body \<Rightarrow> (Responded (mk body), b')
      | Inl x \<Rightarrow>
          if handled_inside x
          then (Responded (exception_reply c (raised_by x) b'), log_raised c x b')
          else (Crashed x, b'))"

definition json_reply :: "nat \<Rightarrow> json \<Rightarrow> full_reply" where
  "json_reply st j = \<lparr>hr_status = st, hr_content = JsonContent j, hr_headers = []\<rparr>"

definition decorated :: "target \<Rightarrow> bool" where
  "decorated t = (case t of ApiRoute e _ \<Rightarrow> e \<in> {EpAdminLogin, EpAdminBootstrap} | SubRoute _ \<Rightarrow> True | _ \<Rightarrow> False)"

text \<open>The gauges are set from the database at each scrape.\<close>

definition scraped :: "instant \<Rightarrow> database \<Rightarrow> gauges" where
  "scraped now d =
     (let k = compute_dashboard_counts now d in
      \<lparr>g_active_users = total_users k, g_active_subscriptions = active_subscriptions k,
       g_active_devices = active_devices k, g_online_servers = online_servers k,
       g_online_peers = online_peers k\<rparr>)"

definition application :: "'w stack \<Rightarrow> nat \<Rightarrow> 'w layer" where
  "application S n c b =
     (let missing = (\<lambda>code detail. (Responded (exception_reply c (RaisedHttp code detail) b), b)); t = target_of S c in
      case (if decorated t then sk_endpoint_limited S n else None) of
        Some msg \<Rightarrow> (Responded (with_headers (limited_reply msg) []), b)
      | None \<Rightarrow>
          (case t of
             ApiRoute e caps \<Rightarrow>
               after_call c
                 (\<lambda>body. \<lparr>hr_status = success_status e, hr_content = body_content (st_wire S) body, hr_headers = []\<rparr>)
                 (raised_call (site.truncate S) n c e caps (pr_world b)) b
           | SubRoute token \<Rightarrow>
               after_call c (\<lambda>body. \<lparr>hr_status = 200, hr_content = body_content (st_wire S) body, hr_headers = []\<rparr>)
                 (with_session (dispatch (st_api S n) (credentials_of (hc_headers c))
                    (ByAnyone (GetSubscription token (sk_format S n)))) (pr_world b)) b
           | HealthRoute \<Rightarrow> (Responded (json_reply 200 (JObj [(''status'', JStr ''ok'')])), b)
           | ReadyRoute \<Rightarrow>
               if sk_db_up S n then (Responded (json_reply 200 (JObj [(''status'', JStr ''ready'')])), b)
               else (Responded (json_reply 503 (JObj [(''status'', JStr ''unavailable'')])),
                     log_event ''readiness_check_failed'' [] b)
           | MetricsRoute \<Rightarrow>
               if sk_db_up S n
               then (let b' = b\<lparr>db_gauges := scraped (ae_now (st_api S n)) (db (pr_world b))\<rparr> in
                     (Responded \<lparr>hr_status = 200, hr_content = TextContent (sk_exposition S b'), hr_headers = []\<rparr>, b'))
               else (Crashed (PyError ''DBAPIError''), b)
           | PageRoute r \<Rightarrow> (Responded r, b)
           | NoRoute \<Rightarrow> missing 404 ''Not Found''
           | OtherMethod \<Rightarrow> missing 405 ''Method Not Allowed''))"

section \<open>The layers\<close>

definition cors_layer :: "'w stack \<Rightarrow> 'w layer \<Rightarrow> 'w layer" where
  "cors_layer S inner c b =
     (case inner c b of
        (Responded r, b') \<Rightarrow> (Responded (add_headers (sk_cors S (hc_headers c)) r), b')
      | (Crashed x, b') \<Rightarrow> (Crashed x, b'))"

definition security_headers :: "(string \<times> string) list" where
  "security_headers =
     [(''X-Content-Type-Options'', ''nosniff''), (''X-Frame-Options'', ''DENY''),
      (''Referrer-Policy'', ''no-referrer''),
      (''Permissions-Policy'', ''geolocation=(), microphone=(), camera=()''),
      (''Strict-Transport-Security'', ''max-age=63072000; includeSubDomains'')]"

definition security_layer :: "'w layer \<Rightarrow> 'w layer" where
  "security_layer inner c b =
     (case inner c b of
        (Responded r, b') \<Rightarrow> (Responded (add_headers security_headers r), b')
      | (Crashed x, b') \<Rightarrow> (Crashed x, b'))"

text \<open>
  The identifier the client sent, or a fresh one. The context variable holds it while the request is being
  handled and is reset before the closing log entry is written.
\<close>

definition assigned_id :: "'w stack \<Rightarrow> nat \<Rightarrow> http_call \<Rightarrow> string" where
  "assigned_id S n c =
     (case header_of (hc_headers c) ''x-request-id'' of
        Some i \<Rightarrow> if i = '''' then sk_uuid S n else i
      | None \<Rightarrow> sk_uuid S n)"

definition context_layer :: "'w stack \<Rightarrow> nat \<Rightarrow> 'w layer \<Rightarrow> 'w layer" where
  "context_layer S n inner c b =
     (let req_id = assigned_id S n c;
          (res, b1) = inner c (b\<lparr>request_state := Some req_id, request_id_ctx := req_id\<rparr>);
          b2 = b1\<lparr>request_id_ctx := request_id_ctx b\<rparr> in
      case res of
        Crashed x \<Rightarrow> (Crashed x, b2)
      | Responded r \<Rightarrow>
          (Responded (add_headers [(''X-Request-ID'', req_id)] r),
           log_event ''request_completed''
             [(''method'', JStr (method_name (hc_method c))), (''path'', JStr (safe_request_path (hc_path c))),
              (''status_code'', JInt (int (hr_status r))), (''duration_ms'', sk_millis S n)] b2))"

definition metrics_layer :: "'w layer \<Rightarrow> 'w layer" where
  "metrics_layer inner c b =
     (case inner c b of
        (Crashed x, b') \<Rightarrow> (Crashed x, b')
      | (Responded r, b') \<Rightarrow>
          (let path = route_path_template c in
           (Responded r, b'\<lparr>
              requests_total := requests_total b' @ [(hc_method c, path, hr_status r)],
              request_durations := request_durations b' @ [(hc_method c, path)],
              api_errors := api_errors b' @
                (if hr_status r \<ge> 400
                 then [case header_of (hr_headers r) ''x-error-code'' of Some k \<Rightarrow> k | None \<Rightarrow> ''unknown_error'']
                 else [])\<rparr>)))"

definition limiter_layer :: "'w stack \<Rightarrow> nat \<Rightarrow> 'w layer \<Rightarrow> 'w layer" where
  "limiter_layer S n inner c b =
     (case st_limited S n of
        Some msg \<Rightarrow> (Responded (with_headers (limited_reply msg) []), b)
      | None \<Rightarrow> inner c b)"

text \<open>\<^verbatim>\<open>handle_unexpected_error\<close>, which Starlette runs around all middlewares.\<close>

definition server_error_layer :: "'w layer \<Rightarrow> http_call \<Rightarrow> 'w process \<Rightarrow> full_reply \<times> 'w process" where
  "server_error_layer inner c b =
     (case inner c b of
        (Responded r, b') \<Rightarrow> (r, b')
      | (Crashed x, b') \<Rightarrow>
          (exception_reply c (RaisedApp x) b',
           log_event ''unhandled_exception''
             [(''path'', JStr (safe_request_path (hc_path c))),
              (''request_id'', JStr (request_id_for (request_state b') (request_id_ctx b')))] b'))"

text \<open>\<^verbatim>\<open>create_app\<close>: the order of \<^verbatim>\<open>add_middleware\<close>, innermost first.\<close>

definition answered :: "'w stack \<Rightarrow> nat \<Rightarrow> 'w layer" where
  "answered S n = context_layer S n (security_layer (cors_layer S (application S n)))"

definition create_app :: "'w stack \<Rightarrow> nat \<Rightarrow> http_call \<Rightarrow> 'w process \<Rightarrow> full_reply \<times> 'w process" where
  "create_app S n c b =
     server_error_layer (limiter_layer S n (metrics_layer (answered S n))) c (b\<lparr>request_state := None\<rparr>)"

text \<open>A process serving requests one after the other, from its start.\<close>

definition started_process :: "'w world \<Rightarrow> 'w process" where
  "started_process w = \<lparr>pr_world = w, requests_total = [], request_durations = [], api_errors = [],
     db_gauges = \<lparr>g_active_users = 0, g_active_subscriptions = 0, g_active_devices = 0, g_online_servers = 0,
       g_online_peers = 0\<rparr>,
     event_log = [], request_id_ctx = ''-'', request_state = None\<rparr>"

fun serve_calls :: "'w stack \<Rightarrow> nat \<Rightarrow> http_call list \<Rightarrow> 'w process \<Rightarrow> full_reply list \<times> 'w process" where
  "serve_calls S n [] b = ([], b)"
| "serve_calls S n (c # cs) b =
     (let (r, b1) = create_app S n c b; (rs, b2) = serve_calls S (n + 1) cs b1 in (r # rs, b2))"

section \<open>What a layer leaves alone\<close>

text \<open>An entry of the log that names a path names no subscription token in it.\<close>

definition masked :: "json \<Rightarrow> bool" where
  "masked v = (case v of JStr p \<Rightarrow> starts_with p ''/sub/'' \<longrightarrow> p = ''/sub/***'' | _ \<Rightarrow> True)"

definition path_masked :: "(string \<times> json) list \<Rightarrow> bool" where
  "path_masked ev = list_all (\<lambda>(k, v). k = ''path'' \<longrightarrow> masked v) ev"

definition same_books :: "'w process \<Rightarrow> 'w process \<Rightarrow> bool" where
  "same_books b b' =
     (requests_total b' = requests_total b \<and> request_durations b' = request_durations b \<and>
      api_errors b' = api_errors b \<and> request_id_ctx b' = request_id_ctx b \<and> request_state b' = request_state b \<and>
      (\<exists>es. event_log b' = event_log b @ es \<and> list_all path_masked es))"

lemma same_books_refl: "same_books b b"
  by (simp add: same_books_def)

lemma same_books_update [simp]:
  "same_books b (b\<lparr>pr_world := w\<rparr>)" "same_books b (b\<lparr>db_gauges := g\<rparr>)"
  by (simp_all add: same_books_def)

lemma safe_path_masked: "masked (JStr (safe_request_path p))"
  by (simp add: masked_def safe_request_path_def split: if_splits)

lemma redacted_masked: "masked (JStr ''***REDACTED***'')"
  by (simp add: masked_def starts_with_def)

lemma masked_redact: "path_masked ev \<Longrightarrow> path_masked (redact_sensitive ks (add_request_id i ev))"
  using redacted_masked
  by (auto simp: path_masked_def redact_sensitive_def add_request_id_def list_all_iff case_prod_unfold split: if_splits)

lemma same_books_log:
  assumes "same_books b b'" and "path_masked ((''event'', JStr name) # kvs)"
  shows "same_books b (log_event name kvs b')"
  using assms masked_redact by (auto simp: same_books_def log_event_def)

lemma log_event_frame [simp]:
  "requests_total (log_event name kvs b) = requests_total b"
  "request_durations (log_event name kvs b) = request_durations b"
  "api_errors (log_event name kvs b) = api_errors b"
  "request_id_ctx (log_event name kvs b) = request_id_ctx b"
  "request_state (log_event name kvs b) = request_state b"
  "pr_world (log_event name kvs b) = pr_world b"
  by (simp_all add: log_event_def)

lemma same_books_raised: "same_books b b' \<Longrightarrow> same_books b (log_raised c x b')"
  by (cases x) (auto intro!: same_books_log simp: path_masked_def safe_path_masked)

lemma same_books_after: "after_call c mk res b = (out, b') \<Longrightarrow> same_books b b'"
  by (auto simp: after_call_def Let_def same_books_raised split: sum.splits if_splits)

lemma application_books: "application S n c b = (out, b') \<Longrightarrow> same_books b b'"
  by (auto simp: application_def Let_def same_books_refl path_masked_def
      intro!: same_books_log elim!: same_books_after split: option.splits target.splits if_splits)

section \<open>What comes of a request\<close>

definition inner_layers :: "'w stack \<Rightarrow> nat \<Rightarrow> 'w layer" where
  "inner_layers S n = security_layer (cors_layer S (application S n))"

definition received :: "'w stack \<Rightarrow> nat \<Rightarrow> http_call \<Rightarrow> 'w process \<Rightarrow> 'w process" where
  "received S n c b = b\<lparr>request_state := Some (assigned_id S n c), request_id_ctx := assigned_id S n c\<rparr>"

text \<open>A request reaches the application and an exception of it that no inner handler takes ends it.\<close>

definition crashes :: "'w stack \<Rightarrow> nat \<Rightarrow> http_call \<Rightarrow> 'w process \<Rightarrow> bool" where
  "crashes S n c b =
     (st_limited S n = None \<and> (case fst (application S n c (received S n c b)) of Crashed x \<Rightarrow> True | Responded r \<Rightarrow> False))"

lemma inner_layers_run:
  "inner_layers S n c b =
     (case application S n c b of
        (Responded r, b') \<Rightarrow> (Responded (add_headers security_headers (add_headers (sk_cors S (hc_headers c)) r)), b')
      | (Crashed x, b') \<Rightarrow> (Crashed x, b'))"
  by (simp add: inner_layers_def security_layer_def cors_layer_def split: prod.splits served.splits)

lemma received_twice [simp]: "received S n c (b\<lparr>request_state := i\<rparr>) = received S n c b"
  by (simp add: received_def)

definition completed :: "'w stack \<Rightarrow> nat \<Rightarrow> http_call \<Rightarrow> full_reply \<Rightarrow> (string \<times> json) list" where
  "completed S n c r =
     [(''method'', JStr (method_name (hc_method c))), (''path'', JStr (safe_request_path (hc_path c))),
      (''status_code'', JInt (int (hr_status r))), (''duration_ms'', sk_millis S n)]"

text \<open>The three ends a request can come to.\<close>

lemma limited_run:
  "st_limited S n = Some msg \<Longrightarrow>
     create_app S n c b = (with_headers (limited_reply msg) [], b\<lparr>request_state := None\<rparr>)"
  by (simp add: create_app_def server_error_layer_def limiter_layer_def)

lemma crashed_run:
  assumes "st_limited S n = None" and "application S n c (received S n c b) = (Crashed x, b1)"
  shows "create_app S n c b =
    (let b2 = b1\<lparr>request_id_ctx := request_id_ctx b\<rparr> in
     (exception_reply c (RaisedApp x) b2,
      log_event ''unhandled_exception''
        [(''path'', JStr (safe_request_path (hc_path c))),
         (''request_id'', JStr (request_id_for (request_state b2) (request_id_ctx b2)))] b2))"
  using assms
  by (simp add: create_app_def server_error_layer_def limiter_layer_def metrics_layer_def answered_def
      context_layer_def inner_layers_run [unfolded inner_layers_def] received_def Let_def)

lemma answered_run:
  assumes "st_limited S n = None" and "application S n c (received S n c b) = (Responded r, b1)"
  shows "create_app S n c b =
    (let out = add_headers (security_headers) (add_headers (sk_cors S (hc_headers c)) r);
         r' = add_headers [(''X-Request-ID'', assigned_id S n c)] out;
         b2 = log_event ''request_completed'' (completed S n c r) (b1\<lparr>request_id_ctx := request_id_ctx b\<rparr>);
         path = route_path_template c in
     (r', b2\<lparr>requests_total := requests_total b2 @ [(hc_method c, path, hr_status r)],
        request_durations := request_durations b2 @ [(hc_method c, path)],
        api_errors := api_errors b2 @
          (if hr_status r \<ge> 400
           then [case header_of (hr_headers r') ''x-error-code'' of Some k \<Rightarrow> k | None \<Rightarrow> ''unknown_error'']
           else [])\<rparr>))"
  using assms
  by (simp add: create_app_def server_error_layer_def limiter_layer_def metrics_layer_def answered_def
      context_layer_def inner_layers_run [unfolded inner_layers_def] received_def completed_def add_headers_def Let_def)

lemma request_ends:
  obtains (limited) msg where "st_limited S n = Some msg" "\<not> crashes S n c b"
  | (crashed) x b1 where "st_limited S n = None" "application S n c (received S n c b) = (Crashed x, b1)" "crashes S n c b"
  | (answered) r b1 where "st_limited S n = None" "application S n c (received S n c b) = (Responded r, b1)"
      "\<not> crashes S n c b"
proof (cases "st_limited S n")
  case None
  obtain out b1 where run: "application S n c (received S n c b) = (out, b1)" by (cases "application S n c (received S n c b)")
  show thesis
  proof (cases out)
    case (Responded r)
    then show thesis using None run that(3) by (simp add: crashes_def)
  next
    case (Crashed x)
    then show thesis using None run that(2) by (simp add: crashes_def)
  qed
next
  case (Some msg)
  then show thesis using that(1) by (simp add: crashes_def)
qed

text \<open>C30: The security headers and the request's identifier are on a reply, and the request is counted under its route
  and status and its error code counted, exactly if the rate limiter lets it pass and no uncaught exception
  ends it. The replies of the limiter and of the handler of uncaught exceptions have none of this.
\<close>

theorem marked_and_counted_iff_answered:
  assumes "create_app S n c b = (r, b')"
  shows "(set security_headers \<subseteq> set (hr_headers r)) = (st_limited S n = None \<and> \<not> crashes S n c b) \<and>
    ((''X-Request-ID'', assigned_id S n c) \<in> set (hr_headers r)) = (st_limited S n = None \<and> \<not> crashes S n c b) \<and>
    requests_total b' = requests_total b @
      (if st_limited S n = None \<and> \<not> crashes S n c b then [(hc_method c, route_path_template c, hr_status r)] else []) \<and>
    length (api_errors b') = length (api_errors b) +
      (if st_limited S n = None \<and> \<not> crashes S n c b \<and> hr_status r \<ge> 400 then 1 else 0)"
proof (cases rule: request_ends [of S n c b])
  case (limited msg)
  then show ?thesis using assms by (auto simp: limited_run with_headers_def security_headers_def)
next
  case (crashed x b1)
  have "same_books (received S n c b) b1" by (rule application_books [OF crashed(2)])
  then show ?thesis
    using assms crashed
    by (auto simp: crashed_run Let_def exception_reply_def error_full_def with_headers_def security_headers_def
        same_books_def received_def)
next
  case (answered r1 b1)
  have "same_books (received S n c b) b1" by (rule application_books [OF answered(2)])
  then show ?thesis
    using assms answered
    by (auto simp: answered_run Let_def add_headers_def same_books_def received_def)
qed

text \<open>An uncaught exception becomes a 500 whose body names the identifier the request was given, although the layer
  that gave it has already been left; nothing of the exception is in the reply.
\<close>

theorem crash_reply_keeps_request_id:
  assumes "crashes S n c b" and "sk_uuid S n \<noteq> ''''"
  shows "fst (create_app S n c b) =
    \<lparr>hr_status = 500,
     hr_content = JsonContent (error_json \<lparr>err_code = ''internal_error'', err_message = ''Internal server error'',
       err_details = None, err_request_id = assigned_id S n c\<rparr>),
     hr_headers = [(''X-Error-Code'', ''internal_error'')]\<rparr>"
proof (cases rule: request_ends [of S n c b])
  case (crashed x b1)
  have books: "same_books (received S n c b) b1" by (rule application_books [OF crashed(2)])
  have "\<not> handled_inside x"
    using crashed(2)
    by (auto simp: application_def after_call_def Let_def split: option.splits target.splits if_splits sum.splits)
  then have "handle_exception sid ctx (RaisedApp x) = handle_exception sid ctx (RaisedApp IntegrityError)" for sid ctx
    by (cases x) auto
  moreover have "assigned_id S n c \<noteq> ''''" using assms(2) by (simp add: assigned_id_def split: option.splits)
  ultimately show ?thesis
    using crashed books
    by (simp add: crashed_run Let_def exception_reply_def error_full_def with_headers_def error_reply_def
        same_books_def received_def error_body_of_def request_id_for_def)
qed (use assms(1) in auto)

text \<open>C32: The entry \<^verbatim>\<open>request_completed\<close>, written for every answered request, carries the identifier of the surrounding
  context, which outside of a request is '-', and not the one in the reply's header.
\<close>

theorem completion_is_logged_without_id:
  assumes "create_app S n c b = (r, b')" and "st_limited S n = None" and "\<not> crashes S n c b"
    and "request_id_ctx b = ''-''"
  shows "map_of (last (event_log b')) ''event'' = Some (JStr ''request_completed'') \<and>
    map_of (last (event_log b')) ''request_id'' = Some (JStr ''-'') \<and>
    (''X-Request-ID'', assigned_id S n c) \<in> set (hr_headers r)"
proof (cases rule: request_ends [of S n c b])
  case (answered r1 b1)
  show ?thesis
    using assms(1,4) answered(1,2)
    by (auto simp: answered_run Let_def add_headers_def log_event_def completed_def add_request_id_def
        redact_sensitive_def backend_redact_keys_def lower_def)
qed (use assms in auto)

section \<open>Sequences of requests\<close>

lemma create_app_log:
  assumes "create_app S n c b = (r, b')"
  shows "request_id_ctx b' = request_id_ctx b \<and> (\<exists>es. event_log b' = event_log b @ es \<and> list_all path_masked es)"
proof (cases rule: request_ends [of S n c b])
  case (limited msg)
  then show ?thesis using assms by (auto simp: limited_run)
next
  case (crashed x b1)
  have "same_books (received S n c b) b1" by (rule application_books [OF crashed(2)])
  then show ?thesis
    using assms crashed
    by (auto simp: crashed_run Let_def log_event_def same_books_def received_def
        intro!: masked_redact) (auto simp: path_masked_def safe_path_masked)
next
  case (answered r1 b1)
  have "same_books (received S n c b) b1" by (rule application_books [OF answered(2)])
  then show ?thesis
    using assms answered
    by (auto simp: answered_run Let_def log_event_def same_books_def received_def completed_def
        intro!: masked_redact) (auto simp: path_masked_def safe_path_masked)
qed

text \<open>C31: Whatever requests a process serves, answered, refused or crashed, the context variable is reset after each of
  them, and no entry of the log shows the path of a subscription URL, whose last part is the credential.
\<close>

theorem log_spares_subscription_tokens:
  assumes "serve_calls S n cs (started_process w) = (rs, b)"
  shows "request_id_ctx b = ''-'' \<and> list_all path_masked (event_log b)"
proof -
  have "request_id_ctx b = ''-'' \<and> list_all path_masked (event_log b)"
    if "serve_calls S n cs a = (rs, b)" "request_id_ctx a = ''-''" "list_all path_masked (event_log a)" for a
    using that
  proof (induction cs arbitrary: n a rs)
    case (Cons c cs)
    obtain r a' where step: "create_app S n c a = (r, a')" by (cases "create_app S n c a")
    obtain rs' where rest: "serve_calls S (n + 1) cs a' = (rs', b)"
      using Cons.prems(1) step by (auto split: prod.splits)
    show ?case
      using Cons.IH [OF rest] create_app_log [OF step] Cons.prems(2,3) by auto
  qed simp
  then show ?thesis using assms by (simp add: started_process_def)
qed

section \<open>The layers leave the API's answers as they are\<close>

definition identified :: "'w stack \<Rightarrow> nat \<Rightarrow> http_call \<Rightarrow> 'w site" where
  "identified S n c = (site.truncate S)\<lparr>st_request_id := (\<lambda>_. Some (assigned_id S n c))\<rparr>"

lemma handle_exception_id: "i \<noteq> '''' \<Longrightarrow> handle_exception (Some i) ctx x = handle_exception (Some i) '''' x"
proof -
  assume "i \<noteq> ''''"
  then show ?thesis
    by (induction "Some i" ctx x rule: handle_exception.induct) (simp_all add: error_body_of_def request_id_for_def)
qed

lemma identified_fields [simp]:
  "st_request_id (identified S n c) = (\<lambda>_. Some (assigned_id S n c))"
  "st_context_id (identified S n c) = st_context_id S" "st_wire (identified S n c) = st_wire S"
  by (simp_all add: identified_def site.truncate_def)

lemma raised_call_identified: "raised_call (identified S n c) m d e caps w = raised_call (site.truncate S) m d e caps w"
  by (simp add: identified_def raised_call_def parsed_call_def site.truncate_def split: option.splits)

lemma endpoint_call_raised:
  "endpoint_call T n c e caps w =
     (case raised_call T n c e caps w of
        (Inr b, w') \<Rightarrow> (Inr b, w')
      | (Inl x, w') \<Rightarrow> (Inl (handle_exception (st_request_id T n) (st_context_id T) (raised_by x)), w'))"
  by (simp add: endpoint_call_def raised_call_def api_call_def split: option.splits)

lemma truncate_add_headers [simp]:
  "http_reply.truncate (add_headers hs r) = http_reply.truncate r"
  "http_reply.truncate (error_full e) = error_reply e"
  "hr_status (error_full e) = resp_status e"
  by (simp_all add: http_reply.truncate_def add_headers_def error_full_def with_headers_def error_reply_def)

lemma pr_world_raised [simp]: "pr_world (log_raised c x b) = pr_world b"
  by (cases x) simp_all

lemma serve_http_target:
  assumes "api_segments (hc_path c) = Some ss"
  shows "serve_http T n c w =
    (case target_of S c of
       ApiRoute e caps \<Rightarrow>
         (case raised_call T n c e caps w of
            (Inr b, w') \<Rightarrow> (\<lparr>hr_status = success_status e, hr_content = body_content (st_wire T) b\<rparr>, w')
          | (Inl x, w') \<Rightarrow>
              (error_reply (handle_exception (st_request_id T n) (st_context_id T) (raised_by x)), w'))
     | OtherMethod \<Rightarrow>
         (error_reply (handle_exception (st_request_id T n) (st_context_id T) (RaisedHttp 405 ''Method Not Allowed'')), w)
     | _ \<Rightarrow> (error_reply (handle_exception (st_request_id T n) (st_context_id T) (RaisedHttp 404 ''Not Found'')), w))"
  using assms
  by (auto simp: serve_http_def target_of_def endpoint_call_raised Let_def split: option.splits prod.splits sum.splits)

lemma api_target:
  assumes "api_segments (hc_path c) = Some ss"
  obtains e caps where "target_of S c = ApiRoute e caps" | "target_of S c = OtherMethod" | "target_of S c = NoRoute"
proof -
  have "(\<exists>e caps. target_of S c = ApiRoute e caps) \<or> target_of S c = OtherMethod \<or> target_of S c = NoRoute"
    using assms by (auto simp: target_of_def split: option.splits)
  then show thesis using that by blast
qed

lemma endpoint_through_layers:
  assumes run: "create_app S n c b = (r, b')" and "st_limited S n = None" and "assigned_id S n c \<noteq> ''''"
    and target: "target_of S c = ApiRoute e caps" and "decorated (ApiRoute e caps) \<Longrightarrow> sk_endpoint_limited S n = None"
    and "raised_call (site.truncate S) n c e caps (pr_world b) = (out, w')"
  shows "pr_world b' = w' \<and>
    (case out of
       Inr body \<Rightarrow> http_reply.truncate r = \<lparr>hr_status = success_status e, hr_content = body_content (st_wire S) body\<rparr>
     | Inl x \<Rightarrow> http_reply.truncate r =
         error_reply (handle_exception (Some (assigned_id S n c)) (st_context_id S) (raised_by x)))"
proof -
  let ?b = "received S n c b"
  note same = handle_exception_id [OF assms(3), of "st_context_id S"] handle_exception_id [OF assms(3), of "request_id_ctx b"]
    handle_exception_id [OF assms(3), of "request_id_ctx ?b"]
  have b: "pr_world ?b = pr_world b" "request_state ?b = Some (assigned_id S n c)" by (simp_all add: received_def)
  have free: "(if decorated (target_of S c) then sk_endpoint_limited S n else None) = None" using assms(4,5) by simp
  show ?thesis
  proof (cases out)
    case (Inr body)
    then have "application S n c ?b =
        (Responded \<lparr>hr_status = success_status e, hr_content = body_content (st_wire S) body, hr_headers = []\<rparr>,
         ?b\<lparr>pr_world := w'\<rparr>)"
      using assms(6) target free b by (simp add: application_def after_call_def Let_def)
    then show ?thesis
      using run answered_run [OF assms(2)] Inr by (auto simp: Let_def) (auto simp: http_reply.truncate_def)
  next
    case (Inl x)
    show ?thesis
    proof (cases "handled_inside x")
      case True
      then have "application S n c ?b =
          (Responded (exception_reply c (raised_by x) (?b\<lparr>pr_world := w'\<rparr>)), log_raised c x (?b\<lparr>pr_world := w'\<rparr>))"
        using assms(6) target free b Inl by (simp add: application_def after_call_def Let_def)
      then show ?thesis
        using run answered_run [OF assms(2)] Inl b same by (auto simp: Let_def exception_reply_def)
    next
      case False
      then have "application S n c ?b = (Crashed x, ?b\<lparr>pr_world := w'\<rparr>)"
        using assms(6) target free b Inl by (simp add: application_def after_call_def Let_def)
      moreover have "raised_by x = RaisedApp x" using False by (cases x) (auto simp: raised_by_def)
      ultimately show ?thesis
        using run crashed_run [OF assms(2)] Inl b same by (auto simp: Let_def exception_reply_def)
    qed
  qed
qed

lemma unrouted_through_layers:
  assumes "create_app S n c b = (r, b')" and "st_limited S n = None" and "assigned_id S n c \<noteq> ''''"
    and "(target_of S c, k, detail) \<in> {(OtherMethod, 405, ''Method Not Allowed''), (NoRoute, 404, ''Not Found'')}"
  shows "pr_world b' = pr_world b \<and> http_reply.truncate r =
    error_reply (handle_exception (Some (assigned_id S n c)) (st_context_id S) (RaisedHttp k detail))"
proof -
  let ?b = "received S n c b"
  have "application S n c ?b = (Responded (exception_reply c (RaisedHttp k detail) ?b), ?b)"
    using assms(4) by (auto simp: application_def Let_def decorated_def)
  then show ?thesis
    using assms(1,3) answered_run [OF assms(2)]
    by (auto simp: Let_def exception_reply_def error_body_of_def request_id_for_def received_def)
qed

text \<open>C24: For a request under /api/v1 that no limit stops, status and content of the assembled application's reply, and
  the world it leaves, are those of the endpoints alone, the errors naming the identifier the request context
  assigned: the layers only add headers, count and log.
\<close>

theorem stack_serves_http:
  assumes run: "create_app S n c b = (r, b')"
    and "api_segments (hc_path c) = Some ss" and "st_limited S n = None"
    and "decorated (target_of S c) \<Longrightarrow> sk_endpoint_limited S n = None" and "sk_uuid S n \<noteq> ''''"
  shows "serve_http (identified S n c) n c (pr_world b) = (http_reply.truncate r, pr_world b')"
proof -
  have i: "assigned_id S n c \<noteq> ''''" using assms(5) by (simp add: assigned_id_def split: option.splits)
  note http = serve_http_target [OF assms(2), of "identified S n c" n "pr_world b" S]
  note unrouted = unrouted_through_layers [OF run assms(3) i]
  show ?thesis
  proof (cases rule: api_target [OF assms(2), of S])
    case (1 e caps)
    obtain out w' where call: "raised_call (site.truncate S) n c e caps (pr_world b) = (out, w')" by fastforce
    from endpoint_through_layers [OF run assms(3) i 1 _ call] assms(4) 1 show ?thesis
      unfolding http by (auto simp: call raised_call_identified split: sum.splits)
  next
    case 2
    then show ?thesis unfolding http using unrouted [of 405 "''Method Not Allowed''"] by simp
  next
    case 3
    then show ?thesis unfolding http using unrouted [of 404 "''Not Found''"] by simp
  qed
qed

section \<open>Labels\<close>

text \<open>The templates of the routes.\<close>

definition known_templates :: "segment list list" where
  "known_templates = map (\<lambda>(m, ts, e). api_prefix @ ts) api_router @
     [[Lit ''sub'', Par], [Lit ''health''], [Lit ''ready''], [Lit ''metrics'']]"

lemma matched_route_known: "matched_route rs m ss = Some ts \<Longrightarrow> \<exists>m' e. (m', ts, e) \<in> set rs"
  by (induction rs m ss rule: matched_route.induct) (auto split: if_splits)

lemma partial_route_known: "partial_route rs ss = Some ts \<Longrightarrow> \<exists>m' e. (m', ts, e) \<in> set rs"
  by (induction rs ss rule: partial_route.induct) (auto split: if_splits)

lemma partial_route_iff: "partial_route rs ss = None \<longleftrightarrow> \<not> any_method rs ss"
  by (induction rs ss rule: partial_route.induct) auto

lemma matched_route_any: "matched_route rs m ss = Some ts \<Longrightarrow> any_method rs ss"
  by (induction rs m ss rule: matched_route.induct) (auto split: if_splits)

lemma plain_route_target: "plain_route p = Some (ts, t) \<Longrightarrow> t \<noteq> NoRoute"
  by (auto simp: plain_route_def split: list.splits if_splits)

lemma plain_route_known: "plain_route p = Some (ts, t) \<Longrightarrow> ts \<in> {[Lit ''sub'', Par], [Lit ''health''], [Lit ''ready''], [Lit ''metrics'']}"
  by (auto simp: plain_route_def split: list.splits if_splits)

text \<open>Requests that match a route are counted under one of finitely many templates, whatever identifiers or tokens
  their paths contain; a path without a route is counted under itself, so that requests nobody has to be
  authorized for add as many labels as they please.\<close>

theorem label_is_template_iff_routed:
  "(route_path_template c \<in> Template ` set known_templates \<or> route_path_template c = Literal (hc_path c)) \<and>
   (target_of S c = NoRoute \<longrightarrow> route_path_template c = Literal (hc_path c))"
proof
  show "route_path_template c \<in> Template ` set known_templates \<or> route_path_template c = Literal (hc_path c)"
  proof (cases "api_segments (hc_path c)")
    case None
    then show ?thesis
      using plain_route_known [of "hc_path c"]
      by (auto simp: route_path_template_def known_templates_def split: option.splits)
  next
    case (Some ss)
    have known: "Template (api_prefix @ ts) \<in> Template ` set known_templates"
      if found: "matched_route api_router (hc_method c) ss = Some ts \<or> partial_route api_router ss = Some ts" for ts
    proof -
      obtain m' e where "(m', ts, e) \<in> set api_router"
        using found matched_route_known partial_route_known by blast
      then show ?thesis unfolding known_templates_def by force
    qed
    show ?thesis
      using known by (cases "matched_route api_router (hc_method c) ss"; cases "partial_route api_router ss")
        (simp_all only: route_path_template_def Some option.case simp_thms)
  qed
  show "target_of S c = NoRoute \<longrightarrow> route_path_template c = Literal (hc_path c)"
  proof
    assume none: "target_of S c = NoRoute"
    show "route_path_template c = Literal (hc_path c)"
    proof (cases "api_segments (hc_path c)")
      case None
      then show ?thesis
        using none plain_route_target [of "hc_path c"]
        by (auto simp: target_of_def route_path_template_def split: option.splits if_splits)
    next
      case (Some ss)
      then have "\<not> any_method api_router ss"
        using none by (auto simp: target_of_def split: option.splits if_splits)
      then have "matched_route api_router (hc_method c) ss = None" "partial_route api_router ss = None"
        using matched_route_any [of api_router "hc_method c" ss] partial_route_iff [of api_router ss]
        by (cases "matched_route api_router (hc_method c) ss"; blast)+
      then show ?thesis using Some by (simp add: route_path_template_def)
    qed
  qed
qed

section \<open>Instances\<close>

definition demo_stack :: "bool \<Rightarrow> string list stack" where
  "demo_stack up = site.extend (demo_site None)
     \<lparr>sk_uuid = (\<lambda>_. ''0f''), sk_endpoint_limited = (\<lambda>_. None), sk_cors = (\<lambda>_. []), sk_format = (\<lambda>_. None),
      sk_pages = (\<lambda>_. None), sk_db_up = (\<lambda>_. up), sk_exposition = (\<lambda>_. ''''), sk_millis = (\<lambda>_. JInt 1)\<rparr>"

definition demo_call :: "string \<Rightarrow> http_call" where
  "demo_call path = \<lparr>hc_method = GET, hc_path = path, hc_headers = [], hc_json = None\<rparr>"

abbreviation demo_process :: "string list process" where
  "demo_process \<equiv> started_process (demo_api_world VIEWER)"

lemma demo_ends:
  "\<not> crashes (demo_stack True) 0 (demo_call ''/health'') demo_process"
  "crashes (demo_stack False) 0 (demo_call ''/metrics'') demo_process"
  by (simp_all add: crashes_def application_def target_of_def api_segments_def plain_route_def decorated_def
    demo_call_def demo_stack_def site.extend_def demo_site_def Let_def)

lemma demo_limits [simp]: "st_limited (demo_stack up) n = None" "sk_uuid (demo_stack up) n = ''0f''"
  by (simp_all add: demo_stack_def site.extend_def demo_site_def)

lemma marked_and_counted_iff_answered_witness:
  "set security_headers \<subseteq> set (hr_headers (fst (create_app (demo_stack True) 0 (demo_call ''/health'') demo_process))) \<and>
   \<not> set security_headers \<subseteq> set (hr_headers (fst (create_app (demo_stack False) 0 (demo_call ''/metrics'') demo_process)))"
  using marked_and_counted_iff_answered [OF surjective_pairing, of "demo_stack True" 0 "demo_call ''/health''" demo_process]
    marked_and_counted_iff_answered [OF surjective_pairing, of "demo_stack False" 0 "demo_call ''/metrics''" demo_process]
    demo_ends by simp

lemma crash_reply_keeps_request_id_witness:
  "hr_status (fst (create_app (demo_stack False) 0 (demo_call ''/metrics'') demo_process)) = 500 \<and>
   hr_headers (fst (create_app (demo_stack False) 0 (demo_call ''/metrics'') demo_process)) =
     [(''X-Error-Code'', ''internal_error'')]"
  using crash_reply_keeps_request_id [OF demo_ends(2)] by simp

lemma completion_is_logged_without_id_witness:
  "map_of (last (event_log (snd (create_app (demo_stack True) 0 (demo_call ''/health'') demo_process)))) ''request_id'' =
     Some (JStr ''-'')"
  using completion_is_logged_without_id [OF surjective_pairing _ demo_ends(1)] by (simp add: started_process_def)

lemma log_spares_subscription_tokens_witness:
  "list_all path_masked (event_log (snd (serve_calls (demo_stack True) 0
     [demo_call ''/sub/abc'', demo_call ''/health''] demo_process)))"
  using log_spares_subscription_tokens [OF surjective_pairing] by blast

lemma stack_serves_http_witness:
  "fst (serve_http (identified (demo_stack True) 0 (demo_call ''/api/v1/plans'')) 0 (demo_call ''/api/v1/plans'')
      (demo_api_world VIEWER)) =
    http_reply.truncate (fst (create_app (demo_stack True) 0 (demo_call ''/api/v1/plans'') demo_process))"
proof -
  have "api_segments (hc_path (demo_call ''/api/v1/plans'')) = Some [''plans'']"
    by code_simp
  moreover have "sk_endpoint_limited (demo_stack True) 0 = None" by (simp add: demo_stack_def site.extend_def)
  ultimately show ?thesis
    using stack_serves_http [OF surjective_pairing, of "demo_call ''/api/v1/plans''" "[''plans'']" "demo_stack True" 0 demo_process]
    by (simp add: started_process_def)
qed

end
