(* ===== verification/Wiring.thy ===== *)
theory Wiring
  imports Platform
begin

text \<open>
  How the services of a request are put together (\<^verbatim>\<open>backend/app/core/deps.py\<close>) and how the expiry worker, which has
  no request, puts its own together (\<^verbatim>\<open>workers/run_expiry_worker.py\<close>). A function of \<^verbatim>\<open>deps.py\<close> is a
  \<open>dependency\<close>: its signature names the dependencies it takes, its body the object it constructs. FastAPI resolves
  the parameters in order, depth first, and calls a function at most once per request; the fuel of \<open>solve_dependencies\<close> bounds
  the depth. The guards of \<^verbatim>\<open>deps.py\<close> are in theory \<open>Accounts\<close>.
\<close>

section \<open>Dependencies\<close>

record configuration =
  cfg_settings :: settings
  cfg_bot_notify_base_url :: string

datatype dependency =
  Get_settings | Get_db | Get_user_repository | Get_plan_repository | Get_subscription_repository
  | Get_device_repository | Get_vpn_server_repository | Get_vpn_peer_repository |
  Get_vpn_profile_repository | Get_routing_category_repository | Get_routing_rule_repository |
  Get_user_routing_profile_repository | Get_user_category_pref_repository |
  Get_user_custom_domain_repository | Get_payment_repository | Get_promo_code_repository |
  Get_promo_redemption_repository | Get_support_ticket_repository |
  Get_support_message_repository | Get_audit_log_repository | Get_admin_user_repository |
  Get_referral_repository | Get_subscription_link_repository | Get_vless_credential_repository |
  Get_vless_server_config_repository | Get_vpn_provider | Get_xray_agent_provider |
  Get_payment_provider | Get_notification_provider | Get_domain_resolver | Get_routing_engine |
  Get_user_service | Get_plan_service | Get_subscription_service | Get_vpn_server_service |
  Get_vless_server_service | Get_routing_service | Get_subscription_link_service |
  Get_device_service | Get_payment_service | Get_support_service | Get_audit_service |
  Get_admin_auth_service | Get_referral_service | Get_subscription_formatters |
  Get_vless_formatter | Get_subscription_delivery_service

text \<open>
  What a dependency evaluates to: the session of the request, the settings, or an object of a class with the
  arguments of its constructor.
\<close>

datatype part =
    Session nat
  | Settings_object
  | Text string
  | Texts "string list"
  | Built string "part list"

datatype ingredient = From dependency | Value "configuration \<Rightarrow> part"

text \<open>The repositories, each of its class and on the session of the request.\<close>

fun repository_class :: "dependency \<Rightarrow> string option" where
  "repository_class Get_user_repository = Some ''UserRepository''"
| "repository_class Get_plan_repository = Some ''PlanRepository''"
| "repository_class Get_subscription_repository = Some ''SubscriptionRepository''"
| "repository_class Get_device_repository = Some ''DeviceRepository''"
| "repository_class Get_vpn_server_repository = Some ''VPNServerRepository''"
| "repository_class Get_vpn_peer_repository = Some ''VPNPeerRepository''"
| "repository_class Get_vpn_profile_repository = Some ''VPNProfileRepository''"
| "repository_class Get_routing_category_repository = Some ''RoutingCategoryRepository''"
| "repository_class Get_routing_rule_repository = Some ''RoutingRuleRepository''"
| "repository_class Get_user_routing_profile_repository = Some ''UserRoutingProfileRepository''"
| "repository_class Get_user_category_pref_repository = Some ''UserCategoryPreferenceRepository''"
| "repository_class Get_user_custom_domain_repository = Some ''UserCustomDomainRepository''"
| "repository_class Get_payment_repository = Some ''PaymentRepository''"
| "repository_class Get_promo_code_repository = Some ''PromoCodeRepository''"
| "repository_class Get_promo_redemption_repository = Some ''PromoCodeRedemptionRepository''"
| "repository_class Get_support_ticket_repository = Some ''SupportTicketRepository''"
| "repository_class Get_support_message_repository = Some ''SupportMessageRepository''"
| "repository_class Get_audit_log_repository = Some ''AuditLogRepository''"
| "repository_class Get_admin_user_repository = Some ''AdminUserRepository''"
| "repository_class Get_referral_repository = Some ''ReferralRepository''"
| "repository_class Get_subscription_link_repository = Some ''SubscriptionLinkRepository''"
| "repository_class Get_vless_credential_repository = Some ''VLESSCredentialRepository''"
| "repository_class Get_vless_server_config_repository = Some ''VLESSServerConfigRepository''"
| "repository_class d = None"

text \<open>What the functions of the providers take, in the order of their signatures, and what they construct.\<close>

fun provider_parameters :: "dependency \<Rightarrow> dependency list" where
  "provider_parameters Get_vpn_provider =
     [Get_settings]"
| "provider_parameters Get_xray_agent_provider =
     [Get_settings]"
| "provider_parameters Get_payment_provider =
     [Get_settings]"
| "provider_parameters Get_notification_provider =
     [Get_settings]"
| "provider_parameters Get_domain_resolver =
     [Get_settings]"
| "provider_parameters Get_routing_engine =
     [Get_domain_resolver]"
| "provider_parameters d = []"

fun provider_recipe :: "dependency \<Rightarrow> (string \<times> ingredient list) option" where
  "provider_recipe Get_vpn_provider = Some (''WireGuardProvider'',
     [Value (\<lambda>s. Text (vpn_agent_shared_secret (cfg_settings s))),
      Value (\<lambda>s. Texts (vpn_dns_list (cfg_settings s)))])"
| "provider_recipe Get_xray_agent_provider = Some (''HttpXrayAgentProvider'',
     [Value (\<lambda>s. Text (xray_agent_shared_secret (cfg_settings s)))])"
| "provider_recipe Get_notification_provider = Some (''BotNotifier'',
     [Value (\<lambda>s. Text (cfg_bot_notify_base_url s)),
      Value (\<lambda>s. Text (internal_service_token (cfg_settings s)))])"
| "provider_recipe Get_domain_resolver = Some (''DomainResolver'',
     [Value (\<lambda>s. Texts (vpn_dns_list (cfg_settings s)))])"
| "provider_recipe Get_routing_engine = Some (''RoutingEngine'',
     [From Get_domain_resolver])"
| "provider_recipe d = None"

text \<open>The services.\<close>

fun service_parameters :: "dependency \<Rightarrow> dependency list" where
  "service_parameters Get_user_service =
     [Get_user_repository]"
| "service_parameters Get_plan_service =
     [Get_plan_repository]"
| "service_parameters Get_subscription_service =
     [Get_subscription_repository]"
| "service_parameters Get_vpn_server_service =
     [Get_vpn_server_repository]"
| "service_parameters Get_vless_server_service =
     [Get_vpn_server_repository, Get_vless_server_config_repository]"
| "service_parameters Get_routing_service =
     [Get_routing_category_repository, Get_routing_rule_repository,
      Get_user_routing_profile_repository, Get_user_category_pref_repository,
      Get_user_custom_domain_repository, Get_vpn_profile_repository, Get_routing_engine]"
| "service_parameters Get_subscription_link_service =
     [Get_subscription_link_repository]"
| "service_parameters Get_device_service =
     [Get_settings, Get_device_repository, Get_vpn_peer_repository, Get_subscription_repository,
      Get_vpn_server_service, Get_routing_service, Get_vpn_provider, Get_subscription_link_service,
      Get_vless_credential_repository, Get_vless_server_config_repository, Get_xray_agent_provider]"
| "service_parameters Get_payment_service =
     [Get_settings, Get_payment_repository, Get_promo_code_repository,
      Get_promo_redemption_repository, Get_subscription_service, Get_payment_provider]"
| "service_parameters Get_support_service =
     [Get_support_ticket_repository, Get_support_message_repository]"
| "service_parameters Get_audit_service =
     [Get_audit_log_repository]"
| "service_parameters Get_admin_auth_service =
     [Get_admin_user_repository]"
| "service_parameters Get_referral_service =
     [Get_referral_repository]"
| "service_parameters Get_subscription_formatters =
     []"
| "service_parameters Get_vless_formatter =
     []"
| "service_parameters Get_subscription_delivery_service =
     [Get_subscription_link_service, Get_device_repository, Get_subscription_repository,
      Get_vpn_peer_repository, Get_vpn_server_repository, Get_vpn_profile_repository,
      Get_subscription_formatters, Get_vless_credential_repository,
      Get_vless_server_config_repository, Get_vless_formatter]"
| "service_parameters d = []"

fun service_recipe :: "dependency \<Rightarrow> (string \<times> ingredient list) option" where
  "service_recipe Get_user_service = Some (''UserService'',
     [From Get_user_repository])"
| "service_recipe Get_plan_service = Some (''PlanService'',
     [From Get_plan_repository])"
| "service_recipe Get_subscription_service = Some (''SubscriptionService'',
     [From Get_subscription_repository])"
| "service_recipe Get_vpn_server_service = Some (''VPNServerService'',
     [From Get_vpn_server_repository])"
| "service_recipe Get_vless_server_service = Some (''VLESSServerService'',
     [From Get_vpn_server_repository, From Get_vless_server_config_repository])"
| "service_recipe Get_routing_service = Some (''RoutingService'',
     [From Get_routing_category_repository, From Get_routing_rule_repository,
      From Get_user_routing_profile_repository, From Get_user_category_pref_repository,
      From Get_user_custom_domain_repository, From Get_vpn_profile_repository, From Get_routing_engine])"
| "service_recipe Get_subscription_link_service = Some (''SubscriptionLinkService'',
     [From Get_subscription_link_repository])"
| "service_recipe Get_device_service = Some (''DeviceService'',
     [From Get_device_repository, From Get_vpn_peer_repository, From Get_subscription_repository,
      From Get_vpn_server_service, From Get_routing_service, From Get_vpn_provider,
      From Get_subscription_link_service,
      Value (\<lambda>s. Text (subscription_base_url (cfg_settings s))),
      From Get_vless_credential_repository, From Get_vless_server_config_repository,
      From Get_xray_agent_provider])"
| "service_recipe Get_payment_service = Some (''PaymentService'',
     [From Get_payment_repository, From Get_promo_code_repository, From Get_promo_redemption_repository,
      From Get_subscription_service, From Get_payment_provider,
      Value (\<lambda>s. Text (payment_provider (cfg_settings s)))])"
| "service_recipe Get_support_service = Some (''SupportService'',
     [From Get_support_ticket_repository, From Get_support_message_repository])"
| "service_recipe Get_audit_service = Some (''AuditService'',
     [From Get_audit_log_repository])"
| "service_recipe Get_admin_auth_service = Some (''AdminAuthService'',
     [From Get_admin_user_repository])"
| "service_recipe Get_referral_service = Some (''ReferralService'',
     [From Get_referral_repository])"
| "service_recipe Get_vless_formatter = Some (''VLESSFormatter'',
     [])"
| "service_recipe Get_subscription_delivery_service = Some (''SubscriptionDeliveryService'',
     [From Get_subscription_link_service, From Get_device_repository, From Get_subscription_repository,
      From Get_vpn_peer_repository, From Get_vpn_server_repository, From Get_vpn_profile_repository,
      From Get_subscription_formatters, From Get_vless_credential_repository,
      From Get_vless_server_config_repository, From Get_vless_formatter])"
| "service_recipe d = None"

definition parameters :: "dependency \<Rightarrow> dependency list" where
  "parameters d =
     (if repository_class d \<noteq> None then [Get_db] else provider_parameters d @ service_parameters d)"

text \<open>\<^verbatim>\<open>get_payment_provider\<close> and \<^verbatim>\<open>get_subscription_formatters\<close>\<close>

definition make_payment_provider :: "configuration \<Rightarrow> exn + part" where
  "make_payment_provider s =
     (if payment_provider (cfg_settings s) = ''mock''
      then Inr (Built ''MockPaymentProvider'' [Text (payment_webhook_secret (cfg_settings s))])
      else Inl (PyError ''NotImplementedError''))"

definition make_formatters :: part where
  "make_formatters = Built ''dict'' [Text ''wireguard'', Built ''WireGuardFormatter'' []]"

definition recipe :: "dependency \<Rightarrow> (string \<times> ingredient list) option" where
  "recipe d =
     (case repository_class d of
        Some cls \<Rightarrow> Some (cls, [From Get_db])
      | None \<Rightarrow> (case provider_recipe d of Some r \<Rightarrow> Some r | None \<Rightarrow> service_recipe d))"

text \<open>The body of a function, given the values of its parameters.\<close>

definition ingredient_part :: "configuration \<Rightarrow> (dependency \<times> part) list \<Rightarrow> ingredient \<Rightarrow> part option" where
  "ingredient_part s vals i = (case i of From d \<Rightarrow> map_of vals d | Value f \<Rightarrow> Some (f s))"

definition construct :: "configuration \<Rightarrow> dependency \<Rightarrow> part list \<Rightarrow> exn + part" where
  "construct s d args =
     (if d = Get_settings then Inr Settings_object
      else if d = Get_payment_provider then make_payment_provider s
      else if d = Get_subscription_formatters then Inr make_formatters
      else
        (case recipe d of
           None \<Rightarrow> Inl (PyError ''TypeError'')
         | Some (cls, is) \<Rightarrow>
             (case those (map (ingredient_part s (zip (parameters d) args)) is) of
                None \<Rightarrow> Inl (PyError ''NameError'')
              | Some ps \<Rightarrow> Inr (Built cls ps))))"

section \<open>Resolving\<close>

record resolution =
  known :: "(dependency \<times> part) list"
  opened :: nat

definition no_resolution :: resolution where
  "no_resolution = \<lparr>known = [], opened = 0\<rparr>"

definition remember :: "dependency \<Rightarrow> part \<Rightarrow> resolution \<Rightarrow> resolution" where
  "remember d p st = st\<lparr>known := (d, p) # known st\<rparr>"

text \<open>Calling a function whose parameters are at hand; \<^verbatim>\<open>get_db\<close> opens a session.\<close>

definition call_dependency :: "configuration \<Rightarrow> dependency \<Rightarrow> part list \<Rightarrow> resolution \<Rightarrow> (exn + part) \<times> resolution" where
  "call_dependency s d args st =
     (if d = Get_db then (let p = Session (opened st) in (Inr p, remember d p (st\<lparr>opened := opened st + 1\<rparr>)))
      else case construct s d args of Inl x \<Rightarrow> (Inl x, st) | Inr p \<Rightarrow> (Inr p, remember d p st))"

definition and_then ::
  "((exn + 'a) \<times> resolution) option \<Rightarrow> ('a \<Rightarrow> resolution \<Rightarrow> ((exn + 'b) \<times> resolution) option) \<Rightarrow>
     ((exn + 'b) \<times> resolution) option" where
  "and_then m f =
     (case m of
        None \<Rightarrow> None
      | Some (Inl x, st) \<Rightarrow> Some (Inl x, st)
      | Some (Inr a, st) \<Rightarrow> f a st)"

fun solve_dependencies ::
  "nat \<Rightarrow> configuration \<Rightarrow> dependency list \<Rightarrow> resolution \<Rightarrow> ((exn + part list) \<times> resolution) option" where
  "solve_dependencies k s [] st = Some (Inr [], st)"
| "solve_dependencies 0 s (d # ds) st = None"
| "solve_dependencies (Suc k) s (d # ds) st =
     and_then
       (case map_of (known st) d of
          Some p \<Rightarrow> Some (Inr p, st)
        | None \<Rightarrow>
            and_then (solve_dependencies k s (parameters d) st) (\<lambda>args st1. Some (call_dependency s d args st1)))
       (\<lambda>p st2. and_then (solve_dependencies (Suc k) s ds st2) (\<lambda>ps st3. Some (Inr (p # ps), st3)))"

text \<open>The longest chain of signatures has five functions: the device service takes the routing service, that the routing
  engine, that the domain resolver and that the settings.\<close>

definition resolution_depth :: nat where
  "resolution_depth = 5"

section \<open>The worker\<close>

definition repository_of :: "string \<Rightarrow> nat \<Rightarrow> part" where
  "repository_of cls n = Built cls [Session n]"

definition worker_routing_service :: "configuration \<Rightarrow> nat \<Rightarrow> part" where
  "worker_routing_service s n = Built ''RoutingService''
     [repository_of ''RoutingCategoryRepository'' n, repository_of ''RoutingRuleRepository'' n,
      repository_of ''UserRoutingProfileRepository'' n, repository_of ''UserCategoryPreferenceRepository'' n,
      repository_of ''UserCustomDomainRepository'' n, repository_of ''VPNProfileRepository'' n,
      Built ''RoutingEngine'' [Built ''DomainResolver'' [Texts (vpn_dns_list (cfg_settings s))]]]"

definition worker_device_service :: "configuration \<Rightarrow> nat \<Rightarrow> part" where
  "worker_device_service s n = Built ''DeviceService''
     [repository_of ''DeviceRepository'' n, repository_of ''VPNPeerRepository'' n,
      repository_of ''SubscriptionRepository'' n,
      Built ''VPNServerService'' [repository_of ''VPNServerRepository'' n],
      worker_routing_service s n,
      Built ''WireGuardProvider''
        [Text (vpn_agent_shared_secret (cfg_settings s)), Texts (vpn_dns_list (cfg_settings s))],
      Built ''SubscriptionLinkService'' [repository_of ''SubscriptionLinkRepository'' n],
      Text (subscription_base_url (cfg_settings s)),
      repository_of ''VLESSCredentialRepository'' n, repository_of ''VLESSServerConfigRepository'' n,
      Built ''HttpXrayAgentProvider'' [Text (xray_agent_shared_secret (cfg_settings s))]]"

definition wired_worker :: "configuration \<Rightarrow> nat \<Rightarrow> part" where
  "wired_worker s n = Built ''SubscriptionExpiryWorker''
     [Built ''SubscriptionService'' [repository_of ''SubscriptionRepository'' n],
      worker_device_service s n,
      Built ''AuditService'' [repository_of ''AuditLogRepository'' n],
      Built ''BotNotifier'' [Text (cfg_bot_notify_base_url s), Text (internal_service_token (cfg_settings s))]]"

section \<open>Every dependency resolves\<close>

text \<open>The depth of a dependency below the services that take it.\<close>

definition rank_of :: "dependency \<Rightarrow> nat" where
  "rank_of d =
     (if d \<in> {Get_settings, Get_db, Get_subscription_formatters, Get_vless_formatter} then 0
      else if repository_class d \<noteq> None \<or> (provider_parameters d \<noteq> [] \<and> d \<noteq> Get_routing_engine) then 1
      else if d \<in> {Get_payment_service, Get_subscription_delivery_service} then 3
      else if d = Get_routing_service then 3
      else if d = Get_device_service then 4
      else 2)"

lemma rank_parameters: "e \<in> set (parameters d) \<Longrightarrow> rank_of e < rank_of d"
  by (cases d) (auto simp: parameters_def rank_of_def)

lemma needs_no_equal: "\<not> (\<exists>e \<in> set (parameters d). rank_of d \<le> rank_of e)"
  using rank_parameters by (meson leD)

lemma and_then_Some:
  "and_then m f = Some (r, st') \<longleftrightarrow>
     (\<exists>x. m = Some (Inl x, st') \<and> r = Inl x) \<or> (\<exists>a st1. m = Some (Inr a, st1) \<and> f a st1 = Some (r, st'))"
  by (auto simp: and_then_def split: option.splits sum.splits)

lemma and_then_None: "and_then m f = None \<longleftrightarrow> m = None \<or> (\<exists>a st1. m = Some (Inr a, st1) \<and> f a st1 = None)"
  by (auto simp: and_then_def split: option.splits sum.splits)

lemma and_then_simps [simp]:
  "and_then None f = None"
  "and_then (Some (Inl x, st)) f = Some (Inl x, st)"
  "and_then (Some (Inr a, st)) g = g a st"
  by (simp_all add: and_then_def)

lemma and_then_cases:
  assumes "and_then m f = Some (r, st')"
  obtains (first) x where "m = Some (Inl x, st')" "r = Inl x"
    | (both) a st1 where "m = Some (Inr a, st1)" "f a st1 = Some (r, st')"
  using assms by (auto simp: and_then_Some)

lemma solve_enough:
  "list_all (\<lambda>d. rank_of d < k) ds \<Longrightarrow> solve_dependencies k s ds st \<noteq> None"
proof (induction k s ds st rule: solve_dependencies.induct)
  case (3 k s d ds st)
  have params: "list_all (\<lambda>e. rank_of e < k) (parameters d)"
    using 3(3) rank_parameters by (fastforce simp: list_all_iff)
  have rest: "list_all (\<lambda>d. rank_of d < Suc k) ds" using 3(3) by simp
  show ?case
    using 3(1) [OF _ params] 3(2) [OF rest]
    by (auto simp: and_then_None simp del: not_None_eq split: option.splits)
qed auto

lemma rank_bound: "rank_of d < resolution_depth"
  by (simp add: rank_of_def resolution_depth_def)


section \<open>One session per request\<close>

fun sessions_of :: "part \<Rightarrow> nat list" where
  "sessions_of (Session n) = [n]"
| "sessions_of (Built cls ps) = concat (map sessions_of ps)"
| "sessions_of p = []"

text \<open>What is known is known once, rests on the first session only, and no second one has been opened.\<close>

definition one_session :: "resolution \<Rightarrow> bool" where
  "one_session st =
     (distinct (map fst (known st)) \<and> opened st = (if map_of (known st) Get_db = None then 0 else 1) \<and>
      list_all (\<lambda>(d, p). set (sessions_of p) \<subseteq> {0}) (known st))"

lemma one_session_known: "one_session st \<Longrightarrow> map_of (known st) d = Some p \<Longrightarrow> set (sessions_of p) \<subseteq> {0}"
  by (auto simp: one_session_def list_all_iff dest!: map_of_SomeD)

lemma those_elem: "those (map f xs) = Some ys \<Longrightarrow> y \<in> set ys \<Longrightarrow> \<exists>x \<in> set xs. f x = Some y"
  by (induction xs arbitrary: ys) (auto split: option.splits)

lemma value_no_session:
  "recipe d = Some (cls, ins) \<Longrightarrow>
     list_all (\<lambda>i. case i of From e \<Rightarrow> True | Value f \<Rightarrow> sessions_of (f s) = []) ins"
  by (cases d) (auto simp: recipe_def)

lemma construct_sessions:
  assumes "construct s d args = Inr p" and "list_all (\<lambda>q. set (sessions_of q) \<subseteq> {0}) args"
  shows "set (sessions_of p) \<subseteq> {0}"
proof (cases "d \<in> {Get_settings, Get_payment_provider, Get_subscription_formatters}")
  case True
  then show ?thesis
    using assms(1) by (auto simp: construct_def make_payment_provider_def make_formatters_def split: if_splits)
next
  case False
  obtain cls ins ps where r: "recipe d = Some (cls, ins)"
    and ps: "those (map (ingredient_part s (zip (parameters d) args)) ins) = Some ps" and p: "p = Built cls ps"
    using assms(1) False by (auto simp: construct_def split: option.splits)
  have "set (sessions_of q) \<subseteq> {0}" if q: "q \<in> set ps" for q
  proof -
    obtain i where i: "i \<in> set ins" "ingredient_part s (zip (parameters d) args) i = Some q"
      using those_elem [OF ps q] by blast
    show ?thesis
    proof (cases i)
      case (From e)
      then have "q \<in> set args" using i(2) by (auto simp: ingredient_part_def dest!: map_of_SomeD set_zip_rightD)
      then show ?thesis using assms(2) by (simp add: list_all_iff)
    next
      case (Value f)
      then have "q = f s" "sessions_of (f s) = []"
        using value_no_session [OF r, of s] i by (auto simp: ingredient_part_def list_all_iff split: ingredient.splits)
      then show ?thesis by simp
    qed
  qed
  then show ?thesis by (auto simp: p)
qed

lemma call_one_session:
  assumes "one_session st" and "map_of (known st) d = None"
    and "list_all (\<lambda>q. set (sessions_of q) \<subseteq> {0}) args" and "call_dependency s d args st = (res, st')"
  shows "one_session st' \<and> (\<forall>p. res = Inr p \<longrightarrow> set (sessions_of p) \<subseteq> {0})"
  using assms construct_sessions [of s d args]
  by (auto simp: call_dependency_def Let_def one_session_def remember_def map_of_eq_None_iff
      split: if_splits sum.splits)

lemma call_known:
  "call_dependency s d args st = (res, st') \<Longrightarrow> map_of (known st') e \<noteq> None \<Longrightarrow> map_of (known st) e \<noteq> None \<or> e = d"
  by (auto simp: call_dependency_def Let_def remember_def split: if_splits sum.splits)

text \<open>A value that is known already, or the function is called after its parameters are resolved.\<close>

lemma fetched_cases:
  assumes "(case map_of (known st) d of Some p \<Rightarrow> Some (Inr p, st)
      | None \<Rightarrow> and_then (solve_dependencies k s ps st) (\<lambda>args st1. Some (call_dependency s d args st1))) = Some (r, st2)"
  obtains (known) p where "map_of (known st) d = Some p" "r = Inr p" "st2 = st"
    | (raised) x where "map_of (known st) d = None" "solve_dependencies k s ps st = Some (Inl x, st2)" "r = Inl x"
    | (called) args st1 where "map_of (known st) d = None" "solve_dependencies k s ps st = Some (Inr args, st1)"
        "call_dependency s d args st1 = (r, st2)"
  using assms by (cases "map_of (known st) d") (auto elim: and_then_cases)

lemma solve_cases:
  assumes "solve_dependencies (Suc k) s (d # ds) st = Some (res, st')"
  obtains (raised) x where
      "(case map_of (known st) d of Some p \<Rightarrow> Some (Inr p, st)
        | None \<Rightarrow> and_then (solve_dependencies k s (parameters d) st) (\<lambda>args st1. Some (call_dependency s d args st1))) = Some (Inl x, st')"
      "res = Inl x"
    | (went_on) p st2 out where
      "(case map_of (known st) d of Some p \<Rightarrow> Some (Inr p, st)
        | None \<Rightarrow> and_then (solve_dependencies k s (parameters d) st) (\<lambda>args st1. Some (call_dependency s d args st1))) = Some (Inr p, st2)"
      "solve_dependencies (Suc k) s ds st2 = Some (out, st')" "res = (case out of Inl x \<Rightarrow> Inl x | Inr ps \<Rightarrow> Inr (p # ps))"
  using assms unfolding solve_dependencies.simps
  by (elim and_then_cases) (auto elim: raised went_on)

lemma solve_known:
  assumes "solve_dependencies k s ds st = Some (res, st')" and "map_of (known st') e \<noteq> None"
  shows "map_of (known st) e \<noteq> None \<or> (\<exists>d \<in> set ds. rank_of e \<le> rank_of d)"
  using assms
proof (induction k s ds st arbitrary: res st' rule: solve_dependencies.induct)
  case (3 k s d ds st)
  have first: "map_of (known st) e \<noteq> None \<or> rank_of e \<le> rank_of d"
    if one: "(case map_of (known st) d of Some p \<Rightarrow> Some (Inr p, st)
        | None \<Rightarrow> and_then (solve_dependencies k s (parameters d) st) (\<lambda>args st1. Some (call_dependency s d args st1))) = Some (r, st2)"
      and e: "map_of (known st2) e \<noteq> None" for r st2
    using one
  proof (cases rule: fetched_cases)
    case known
    then show ?thesis using e by simp
  next
    case (raised x)
    then show ?thesis using "3.IH"(1) [OF raised(1,2) e] rank_parameters by (meson dual_order.trans less_imp_le)
  next
    case (called args st1)
    then show ?thesis using call_known [OF called(3) e] "3.IH"(1) [OF called(1,2)] rank_parameters
      by (meson dual_order.trans less_imp_le order_refl)
  qed
  from "3.prems"(1) show ?case
  proof (cases rule: solve_cases)
    case (raised x)
    then show ?thesis using first [OF raised(1) "3.prems"(2)] by auto
  next
    case (went_on p st2 out)
    then show ?thesis using "3.IH"(2) [OF went_on(2) "3.prems"(2)] first [OF went_on(1)] by auto
  qed
qed auto

lemma solve_one_session:
  assumes "solve_dependencies k s ds st = Some (res, st')" and "one_session st"
  shows "one_session st' \<and> (\<forall>ps. res = Inr ps \<longrightarrow> list_all (\<lambda>q. set (sessions_of q) \<subseteq> {0}) ps)"
  using assms
proof (induction k s ds st arbitrary: res st' rule: solve_dependencies.induct)
  case (3 k s d ds st)
  have first: "one_session st2 \<and> (\<forall>p. r = Inr p \<longrightarrow> set (sessions_of p) \<subseteq> {0})"
    if one: "(case map_of (known st) d of Some p \<Rightarrow> Some (Inr p, st)
        | None \<Rightarrow> and_then (solve_dependencies k s (parameters d) st) (\<lambda>args st1. Some (call_dependency s d args st1))) = Some (r, st2)"
    for r st2
    using one
  proof (cases rule: fetched_cases)
    case known
    then show ?thesis using "3.prems"(2) one_session_known by auto
  next
    case (raised x)
    then show ?thesis using "3.IH"(1) [OF raised(1,2) "3.prems"(2)] by simp
  next
    case (called args st1)
    have new: "map_of (known st1) d = None"
      using solve_known [OF called(2), of d] called(1) needs_no_equal [of d]
      by blast
    have "one_session st1" and "list_all (\<lambda>q. set (sessions_of q) \<subseteq> {0}) args"
      using "3.IH"(1) [OF called(1,2) "3.prems"(2)] by simp_all
    then show ?thesis by (rule call_one_session [OF _ new _ called(3)])
  qed
  from "3.prems"(1) show ?case
  proof (cases rule: solve_cases)
    case (raised x)
    then show ?thesis using first [OF raised(1)] by simp
  next
    case (went_on p st2 out)
    then show ?thesis using "3.IH"(2) [OF went_on(2)] first [OF went_on(1)] by (auto split: sum.splits)
  qed
qed auto



section \<open>The worker and the settings\<close>

lemmas wiring_simps = recipe_def parameters_def construct_def make_payment_provider_def make_formatters_def
  ingredient_part_def call_dependency_def remember_def no_resolution_def Let_def

lemma depth_eq: "resolution_depth = Suc (Suc (Suc (Suc (Suc 0))))"
  by (simp add: resolution_depth_def)

lemmas worker_simps = wired_worker_def worker_device_service_def worker_routing_service_def repository_of_def

text \<open>C26: The services the expiry worker builds by hand are the ones a request would get from the same configuration,
  argument for argument, on one session.
\<close>

theorem worker_is_wired_like_a_request:
  "wired_worker s 0 = Built ''SubscriptionExpiryWorker'' ps \<longleftrightarrow>
     (\<exists>st. solve_dependencies resolution_depth s
        [Get_subscription_service, Get_device_service, Get_audit_service, Get_notification_provider] no_resolution =
          Some (Inr ps, st))"
proof -
  obtain args st where got: "solve_dependencies resolution_depth s
      [Get_subscription_service, Get_device_service, Get_audit_service, Get_notification_provider] no_resolution =
        Some (Inr args, st)" and built: "wired_worker s 0 = Built ''SubscriptionExpiryWorker'' args"
    by (simp add: depth_eq wiring_simps worker_simps)
  show ?thesis by (auto simp: got built)
qed

text \<open>With a payment provider other than the mock one, the dependencies of an endpoint that takes payments raise before
  its handler runs.\<close>

theorem unsupported_payment_provider_raises:
  "payment_provider (cfg_settings s) \<noteq> ''mock'' \<Longrightarrow>
     \<exists>st. solve_dependencies resolution_depth s [Get_payment_service] no_resolution =
       Some (Inl (PyError ''NotImplementedError''), st)"
  by (simp add: depth_eq wiring_simps)

lemma unsupported_payment_provider_raises_witness:
  "\<forall>s. \<exists>st. solve_dependencies resolution_depth
      (s\<lparr>cfg_settings := (cfg_settings s)\<lparr>payment_provider := ''stripe''\<rparr>\<rparr>) [Get_payment_service] no_resolution =
        Some (Inl (PyError ''NotImplementedError''), st)"
  by (intro allI unsupported_payment_provider_raises) simp

end
