(* ===== verification/KeyPairs.thy ===== *)
theory KeyPairs
  imports Bot
begin

text \<open>
  The key pairs of WireGuard peers (\<^verbatim>\<open>vpn/app/wireguard/keygen.py\<close>): 32 bytes of the cryptography library's X25519
  in base64. The library is a parameter, the function from the raw private to the raw public key; a private key
  object is its raw bytes. \<^verbatim>\<open>base64.b64encode\<close> is written out here, its inverse is the one of theory \<open>Bot\<close>.
\<close>

section \<open>base64\<close>

definition b64_char :: "nat \<Rightarrow> char" where
  "b64_char v =
     (if v < 26 then char_of (v + 65) else if v < 52 then char_of (v + 71) else if v < 62 then char_of (v - 4)
      else if v = 62 then CHR ''+'' else CHR ''/'')"

fun b64encode :: "string \<Rightarrow> string" where
  "b64encode [] = []"
| "b64encode [a] =
     (let x = of_char a in [b64_char (x div 4), b64_char (x mod 4 * 16), CHR ''='', CHR ''=''])"
| "b64encode [a, b] =
     (let x = of_char a; y = of_char b in
      [b64_char (x div 4), b64_char (x mod 4 * 16 + y div 16), b64_char (y mod 16 * 4), CHR ''=''])"
| "b64encode (a # b # c # cs) =
     (let x = of_char a; y = of_char b; z = of_char c in
      b64_char (x div 4) # b64_char (x mod 4 * 16 + y div 16) # b64_char (y mod 16 * 4 + z div 64) #
      b64_char (z mod 64) # b64encode cs)"

text \<open>\<^verbatim>\<open>base64.b64decode\<close> of a text: a character that is not ASCII, or a wrong length, raises.\<close>

definition b64_text :: "string \<Rightarrow> string + string" where
  "b64_text s =
     (if list_all (\<lambda>c. of_char c < (128::nat)) s
      then (case b64_loop 0 0 0 s of Some bs \<Rightarrow> Inr bs | None \<Rightarrow> Inl ''binascii.Error'')
      else Inl ''ValueError'')"

section \<open>Key pairs\<close>

record wireguard_keypair =
  private_key :: string
  public_key :: string

text \<open>\<open>raw\<close> is what \<^verbatim>\<open>X25519PrivateKey.generate\<close> draws.\<close>

definition generate_keypair :: "(string \<Rightarrow> string) \<Rightarrow> string \<Rightarrow> wireguard_keypair" where
  "generate_keypair x25519 raw = \<lparr>private_key = b64encode raw, public_key = b64encode (x25519 raw)\<rparr>"

text \<open>\<^verbatim>\<open>from_private_bytes\<close> refuses any length but 32.\<close>

definition public_key_from_private :: "(string \<Rightarrow> string) \<Rightarrow> string \<Rightarrow> string + string" where
  "public_key_from_private x25519 key =
     (case b64_text key of
        Inl e \<Rightarrow> Inl e
      | Inr bytes \<Rightarrow> if length bytes \<noteq> 32 then Inl ''ValueError'' else Inr (b64encode (x25519 bytes)))"

section \<open>Lemmas\<close>

text \<open>The sixty-four characters, one by one.\<close>

lemma b64_alphabet:
  "list_all (\<lambda>v. b64_val (b64_char v) = Some v \<and> b64_char v \<noteq> CHR ''='' \<and> of_char (b64_char v) < (128::nat)) [0..<64]"
  by code_simp

lemma b64_chars [simp]:
  assumes "v < 64"
  shows "b64_val (b64_char v) = Some v" "b64_char v \<noteq> CHR ''=''" "of_char (b64_char v) < (128::nat)"
  using b64_alphabet assms by (auto simp: list_all_iff)

text \<open>Six bits at a time: what the fields of a group of three bytes are, and what the decoder reads from them.\<close>

lemma sextets:
  fixes x y z :: nat
  assumes "x < 256" and "y < 256" and "z < 256"
  shows "x div 4 < 64" "x mod 4 * 16 < 64" "x mod 4 * 16 + y div 16 < 64" "y mod 16 * 4 < 64"
    "y mod 16 * 4 + z div 64 < 64" "z mod 64 < 64"
  using assms by (auto simp: less_mult_imp_div_less algebra_simps intro: le_less_trans)

lemma split_field: "b < k \<Longrightarrow> (a * k + b) div k = a \<and> (a * k + b) mod k = (b :: nat)"
  by auto

lemma regrouped:
  fixes x y z :: nat
  assumes "x < 256" and "y < 256" and "z < 256"
  shows "(x mod 4 * 16 + y div 16) div 16 = x mod 4" "(x mod 4 * 16 + y div 16) mod 16 = y div 16"
    "(y mod 16 * 4 + z div 64) div 4 = y mod 16" "(y mod 16 * 4 + z div 64) mod 4 = z div 64"
    "x div 4 * 4 + x mod 4 = x" "y div 16 * 16 + y mod 16 = y" "z div 64 * 64 + z mod 64 = z"
  using split_field [of "y div 16" 16 "x mod 4"] split_field [of "z div 64" 4 "y mod 16"] assms by auto

lemma of_char_256: "of_char c < (256::nat)"
  by simp

theorem b64_roundtrip: "b64_loop 0 left pads (b64encode s) = Some s"
proof (induction s arbitrary: left pads rule: b64encode.induct)
  case (2 a)
  then show ?case
    using sextets [OF of_char_256 [of a] of_char_256 [of a] of_char_256 [of a]]
      regrouped [OF of_char_256 [of a] of_char_256 [of a] of_char_256 [of a]]
    by (simp add: Let_def)
next
  case (3 a b)
  then show ?case
    using sextets [OF of_char_256 [of a] of_char_256 [of b] of_char_256 [of b]]
      regrouped [OF of_char_256 [of a] of_char_256 [of b] of_char_256 [of b]]
    by (simp add: Let_def)
next
  case (4 a b c cs)
  then show ?case
    using sextets [OF of_char_256 [of a] of_char_256 [of b] of_char_256 [of c]]
      regrouped [OF of_char_256 [of a] of_char_256 [of b] of_char_256 [of c]]
    by (simp add: Let_def)
qed simp

lemma b64_ascii: "list_all (\<lambda>c. of_char c < (128::nat)) (b64encode s)"
  by (induction s rule: b64encode.induct)
    (simp_all add: Let_def sextets(1-3,5) [OF of_char_256 of_char_256 of_char_256]
      sextets(4,6) [OF of_char_256 of_char_256 of_char_256])

lemma b64_text_encode: "b64_text (b64encode s) = Inr s"
  using b64_ascii b64_roundtrip by (simp add: b64_text_def)

lemma b64_length: "length (b64encode s) = (length s + 2) div 3 * 4"
proof (induction s rule: b64encode.induct)
  case (4 a b c cs)
  have "(length cs + 2 + 3) div 3 = (length cs + 2) div 3 + 1" by (rule div_add_self2) simp
  with 4 show ?case by (simp add: Let_def add.commute)
qed (simp_all add: Let_def)

section \<open>Properties\<close>

text \<open>C34: A generated key pair is a pair: the public key derived from the private one, as text, is the public one, and
  both texts have the 44 characters of a WireGuard key, provided the library's keys have their 32 bytes. Two
  private keys with the same text are the same.\<close>

theorem keypair_roundtrip:
  assumes "length raw = 32" and "length (x25519 raw) = 32"
  shows "public_key_from_private x25519 (private_key (generate_keypair x25519 raw)) =
      Inr (public_key (generate_keypair x25519 raw)) \<and>
    length (private_key (generate_keypair x25519 raw)) = 44 \<and> length (public_key (generate_keypair x25519 raw)) = 44 \<and>
    inj (\<lambda>r. private_key (generate_keypair x25519 r))"
proof -
  have "inj b64encode" by (rule injI) (metis b64_text_encode sum.inject(2))
  then show ?thesis
    using assms by (simp add: generate_keypair_def public_key_from_private_def b64_text_encode b64_length inj_on_def)
qed

lemma keypair_roundtrip_witness:
  "public_key_from_private rev (private_key (generate_keypair rev (replicate 31 CHR ''a'' @ ''b''))) =
     Inr (public_key (generate_keypair rev (replicate 31 CHR ''a'' @ ''b'')))"
  using keypair_roundtrip [of "replicate 31 CHR ''a'' @ ''b''" rev] by simp

end
