(* ===== verification/AdminScript.thy ===== *)
theory AdminScript
  imports Accounts
begin

text \<open>
  The command that creates an administrator (\<^verbatim>\<open>backend/app/scripts/create_admin.py\<close>): the options as \<^verbatim>\<open>argparse\<close> hands
  them over, the prompt for a password, and the one call of the service in a session of its own.
\<close>

section \<open>The command\<close>

text \<open>The options of the command line, \<^verbatim>\<open>None\<close> where one is not given.\<close>

record script_options =
  opt_email :: "string option"
  opt_password :: "string option"
  opt_role :: "string option"

datatype script_end =
    AdminCreated string string int       \<comment> \<open>e-mail, role and identifier, printed and logged\<close>
  | SystemExit string
  | Uncaught exn

definition parse_admin_role :: "string \<Rightarrow> admin_role option" where
  "parse_admin_role s = find (\<lambda>r. admin_role_value r = s) [SUPERADMIN, SUPPORT, VIEWER]"

text \<open>
  \<^verbatim>\<open>run\<close> and \<^verbatim>\<open>main\<close>; \<open>typed\<close> is what is entered at the prompt. \<^verbatim>\<open>argparse\<close> leaves when the e-mail is missing or the role
  is none of the choices.
\<close>

definition run_script ::
  "crypto \<Rightarrow> instant \<Rightarrow> string \<Rightarrow> string \<Rightarrow> string \<Rightarrow> admin_role \<Rightarrow> 'w world \<Rightarrow> script_end \<times> 'w world" where
  "run_script k now salt email password role w =
     (case with_session (on_db (create_admin k now salt email password role)) w of
        (Inl x, w') \<Rightarrow> (Uncaught x, w')
      | (Inr a, w') \<Rightarrow> (AdminCreated email (admin_role_value role) (rid a), w'))"

definition chosen_password :: "string \<Rightarrow> script_options \<Rightarrow> string" where
  "chosen_password typed opts = (case opt_password opts of Some p \<Rightarrow> if p = '''' then typed else p | None \<Rightarrow> typed)"

definition create_admin_script ::
  "crypto \<Rightarrow> instant \<Rightarrow> string \<Rightarrow> string \<Rightarrow> script_options \<Rightarrow> 'w world \<Rightarrow> script_end \<times> 'w world" where
  "create_admin_script k now salt typed opts w =
     (case (opt_email opts, case opt_role opts of None \<Rightarrow> Some SUPERADMIN | Some s \<Rightarrow> parse_admin_role s) of
        (Some email, Some role) \<Rightarrow>
          (let password = chosen_password typed opts in
           if length password < 12 then (SystemExit ''Password must be at least 12 characters'', w)
           else run_script k now salt email password role w)
      | _ \<Rightarrow> (SystemExit ''2'', w))"

section \<open>Properties\<close>

lemma parse_admin_role_value: "parse_admin_role s = Some r \<Longrightarrow> admin_role_value r = s"
  by (auto simp: parse_admin_role_def split: if_splits)

lemma run_script_created:
  assumes "run_script k now salt email password role w = (AdminCreated e r i, w')"
  shows "e = email \<and> r = admin_role_value role \<and> i = next_id (admin_users (db w)) \<and>
    \<not> list_ex (\<lambda>a. adm_email a = email) (rows (admin_users (db w))) \<and>
    w' = w\<lparr>db := (db w)\<lparr>admin_users := (admin_users (db w))\<lparr>
      rows := rows (admin_users (db w)) @ [\<lparr>rid = i, created_at = now, adm_email = email,
        hashed_password = hash_password k salt password, adm_role = role, is_active = True\<rparr>],
      next_id := i + 1\<rparr>\<rparr>\<rparr>"
  using assms
  by (auto simp: run_script_def with_session_def on_db_def create_admin_def on_admin_users_def zoomM_def repo_add_def
      Let_def admin_conflict_def list_ex_iff split: prod.splits sum.splits if_splits)

lemma run_script_refused:
  assumes "run_script k now salt email password role w = (out, w')" and "\<And>e r i. out \<noteq> AdminCreated e r i"
  shows "w' = w"
  using assms
  by (auto simp: run_script_def with_session_def on_db_def create_admin_def on_admin_users_def zoomM_def repo_add_def
      Let_def split: prod.splits sum.splits if_splits)

lemma script_runs:
  assumes "create_admin_script k now salt typed opts w = (out, w')"
  obtains (left) msg where "out = SystemExit msg" "w' = w"
    | (ran) email role where "opt_email opts = Some email" "12 \<le> length (chosen_password typed opts)"
        "run_script k now salt email (chosen_password typed opts) role w = (out, w')"
  using assms by (auto simp: create_admin_script_def Let_def split: option.splits if_splits)



end
