(* ===== verification/StoreSql.thy ===== *)
theory StoreSql
  imports XrayAgent
begin

text \<open>
  The stores of the two agents as they are written: SQLite tables and the statements run on them
  (\<^verbatim>\<open>vpn/app/state/peer_store.py\<close>, \<^verbatim>\<open>xray-agent/app/state/user_store.py\<close>). The theories \<open>VpnAgent\<close> and \<open>XrayAgent\<close> work on
  lists of records; here each statement is shown to do to the table what the operation on the list does. Dates are
  kept as text; \<open>to_iso\<close> and \<open>from_iso\<close> are \<^verbatim>\<open>isoformat\<close> and \<^verbatim>\<open>fromisoformat\<close>.
\<close>

section \<open>Tables and statements\<close>

datatype sql_value = SqlText string | SqlInt int | SqlNull

text \<open>The columns with their defaults, the rows in the order of their insertion.\<close>

record sql_table =
  tb_columns :: "(string \<times> sql_value) list"
  tb_rows :: "sql_value list list"

datatype sql_error = OverflowError | OperationalError

definition cell :: "sql_table \<Rightarrow> string \<Rightarrow> sql_value list \<Rightarrow> sql_value" where
  "cell T c row = (case map_of (zip (map fst (tb_columns T)) row) c of Some v \<Rightarrow> v | None \<Rightarrow> SqlNull)"

text \<open>\<^verbatim>\<open>INSERT INTO t (cols) VALUES (vals) ON CONFLICT(key) DO UPDATE SET c=excluded.c, ...\<close> for the columns \<open>upd\<close>.\<close>

definition insert_or_update ::
  "string list \<Rightarrow> sql_value list \<Rightarrow> string \<Rightarrow> string list \<Rightarrow> sql_table \<Rightarrow> sql_table" where
  "insert_or_update cols vals key upd T =
     (let new = map (\<lambda>(c, d). case map_of (zip cols vals) c of Some v \<Rightarrow> v | None \<Rightarrow> d) (tb_columns T) in
      if list_ex (\<lambda>row. cell T key row = cell T key new) (tb_rows T)
      then T\<lparr>tb_rows := map (\<lambda>row.
             if cell T key row = cell T key new
             then map (\<lambda>(c, _). if c \<in> set upd then cell T c new else cell T c row) (tb_columns T)
             else row) (tb_rows T)\<rparr>
      else T\<lparr>tb_rows := tb_rows T @ [new]\<rparr>)"

text \<open>\<^verbatim>\<open>UPDATE t SET c = v WHERE key = k\<close>, \<^verbatim>\<open>DELETE FROM t WHERE key = k\<close>, \<^verbatim>\<open>SELECT cols FROM t\<close> with and without a condition.\<close>

definition update_where :: "string \<Rightarrow> sql_value \<Rightarrow> string \<Rightarrow> sql_value \<Rightarrow> sql_table \<Rightarrow> sql_table" where
  "update_where c v key k T =
     T\<lparr>tb_rows := map (\<lambda>row.
         if cell T key row = k then map (\<lambda>(c', _). if c' = c then v else cell T c' row) (tb_columns T) else row)
       (tb_rows T)\<rparr>"

definition delete_where :: "string \<Rightarrow> sql_value \<Rightarrow> sql_table \<Rightarrow> sql_table" where
  "delete_where key k T = T\<lparr>tb_rows := filter (\<lambda>row. cell T key row \<noteq> k) (tb_rows T)\<rparr>"

definition select_all :: "string list \<Rightarrow> sql_table \<Rightarrow> sql_value list list" where
  "select_all cols T = map (\<lambda>row. map (\<lambda>c. cell T c row) cols) (tb_rows T)"

definition select_where :: "string list \<Rightarrow> string \<Rightarrow> sql_value \<Rightarrow> sql_table \<Rightarrow> sql_value list list" where
  "select_where cols key k T =
     map (\<lambda>row. map (\<lambda>c. cell T c row) cols) (filter (\<lambda>row. cell T key row = k) (tb_rows T))"

text \<open>Binding an integer that SQLite cannot hold raises before the statement runs.\<close>

definition fits_integer :: "int \<Rightarrow> bool" where
  "fits_integer i \<longleftrightarrow> - (2 ^ 63) \<le> i \<and> i < 2 ^ 63"

definition sql_bool :: "bool \<Rightarrow> sql_value" where
  "sql_bool b = SqlInt (if b then 1 else 0)"

text \<open>
  A store is its database file's table, if there is one yet. \<^verbatim>\<open>_connect\<close> commits what the block did, or rolls back when
  it raises. Opening a store creates the table unless it exists; a store in memory starts without one.
\<close>

type_synonym sql_store = "sql_table option"

definition connect :: "(sql_table \<Rightarrow> sql_error + 'a \<times> sql_table) \<Rightarrow> sql_store \<Rightarrow> (sql_error + 'a) \<times> sql_store" where
  "connect block st =
     (case st of
        None \<Rightarrow> (Inl OperationalError, None)
      | Some T \<Rightarrow> (case block T of Inl e \<Rightarrow> (Inl e, Some T) | Inr (x, T') \<Rightarrow> (Inr x, Some T')))"

definition open_store :: "(string \<times> sql_value) list \<Rightarrow> string \<Rightarrow> sql_store \<Rightarrow> sql_store" where
  "open_store cols path file =
     (case (if path = '':memory:'' then None else file) of
        None \<Rightarrow> Some \<lparr>tb_columns = cols, tb_rows = []\<rparr>
      | Some T \<Rightarrow> Some T)"

section \<open>The store of the peers\<close>

definition peer_columns :: "(string \<times> sql_value) list" where
  "peer_columns = [(''public_key'', SqlNull), (''device_id'', SqlNull), (''assigned_ip'', SqlNull), (''enabled'', SqlInt 1),
     (''created_at'', SqlNull)]"

definition open_peers :: "string \<Rightarrow> sql_store \<Rightarrow> sql_store" where
  "open_peers = open_store peer_columns"

definition peer_fields :: "string list" where
  "peer_fields = [''public_key'', ''device_id'', ''assigned_ip'', ''enabled'', ''created_at'']"

definition sql_upsert_peer :: "(instant \<Rightarrow> string) \<Rightarrow> peer_record \<Rightarrow> sql_store \<Rightarrow> (sql_error + unit) \<times> sql_store" where
  "sql_upsert_peer to_iso r = connect (\<lambda>T.
     if \<not> fits_integer (pr_device_id r) then Inl OverflowError
     else Inr ((), insert_or_update peer_fields
       [SqlText (pr_public_key r), SqlInt (pr_device_id r), SqlText (pr_assigned_ip r), sql_bool (pr_enabled r),
        SqlText (to_iso (pr_created_at r))]
       ''public_key'' [''device_id'', ''assigned_ip'', ''enabled''] T))"

fun peer_of_row :: "(string \<Rightarrow> instant option) \<Rightarrow> sql_value list \<Rightarrow> peer_record option" where
  "peer_of_row from_iso [SqlText pk, SqlInt did, SqlText ip, SqlInt en, SqlText made] =
     map_option (\<lambda>t. \<lparr>pr_public_key = pk, pr_device_id = did, pr_assigned_ip = ip, pr_enabled = (en \<noteq> 0), pr_created_at = t\<rparr>)
       (from_iso made)"
| "peer_of_row from_iso _ = None"

definition sql_get_peer ::
  "(string \<Rightarrow> instant option) \<Rightarrow> string \<Rightarrow> sql_store \<Rightarrow> (sql_error + peer_record option) \<times> sql_store" where
  "sql_get_peer from_iso pk = connect (\<lambda>T.
     Inr (case select_where peer_fields ''public_key'' (SqlText pk) T of [] \<Rightarrow> None | row # _ \<Rightarrow> peer_of_row from_iso row, T))"

definition sql_set_enabled :: "string \<Rightarrow> bool \<Rightarrow> sql_store \<Rightarrow> (sql_error + unit) \<times> sql_store" where
  "sql_set_enabled pk en = connect (\<lambda>T. Inr ((), update_where ''enabled'' (sql_bool en) ''public_key'' (SqlText pk) T))"

definition sql_delete_peer :: "string \<Rightarrow> sql_store \<Rightarrow> (sql_error + unit) \<times> sql_store" where
  "sql_delete_peer pk = connect (\<lambda>T. Inr ((), delete_where ''public_key'' (SqlText pk) T))"

definition sql_list_enabled_peers ::
  "(string \<Rightarrow> instant option) \<Rightarrow> sql_store \<Rightarrow> (sql_error + peer_record option list) \<times> sql_store" where
  "sql_list_enabled_peers from_iso = connect (\<lambda>T.
     Inr (map (peer_of_row from_iso) (select_where peer_fields ''enabled'' (SqlInt 1) T), T))"

section \<open>The store of the users\<close>

definition user_columns :: "(string \<times> sql_value) list" where
  "user_columns = [(''uuid'', SqlNull), (''device_id'', SqlNull), (''email'', SqlNull), (''flow'', SqlNull),
     (''enabled'', SqlInt 1), (''created_at'', SqlNull), (''rotated_at'', SqlNull)]"

definition open_users :: "string \<Rightarrow> sql_store \<Rightarrow> sql_store" where
  "open_users = open_store user_columns"

definition user_fields :: "string list" where
  "user_fields = [''uuid'', ''device_id'', ''email'', ''flow'', ''enabled'', ''created_at'', ''rotated_at'']"

definition sql_upsert_user :: "(instant \<Rightarrow> string) \<Rightarrow> user_record \<Rightarrow> sql_store \<Rightarrow> (sql_error + unit) \<times> sql_store" where
  "sql_upsert_user to_iso r = connect (\<lambda>T.
     if \<not> fits_integer (ur_device_id r) then Inl OverflowError
     else Inr ((), insert_or_update user_fields
       [SqlText (ur_uuid r), SqlInt (ur_device_id r), SqlText (ur_email r), SqlText (ur_flow r), sql_bool (ur_enabled r),
        SqlText (to_iso (ur_created_at r)), case ur_rotated_at r of None \<Rightarrow> SqlNull | Some t \<Rightarrow> SqlText (to_iso t)]
       ''uuid'' [''device_id'', ''email'', ''flow'', ''enabled''] T))"

text \<open>\<^verbatim>\<open>_row_to_record\<close>\<close>

fun rotated_of :: "(string \<Rightarrow> instant option) \<Rightarrow> sql_value \<Rightarrow> instant option option" where
  "rotated_of from_iso SqlNull = Some None"
| "rotated_of from_iso (SqlText s) = (if s = '''' then Some None else map_option Some (from_iso s))"
| "rotated_of from_iso (SqlInt i) = None"

fun user_of_row :: "(string \<Rightarrow> instant option) \<Rightarrow> sql_value list \<Rightarrow> user_record option" where
  "user_of_row from_iso [SqlText u, SqlInt did, SqlText email, SqlText fl, SqlInt en, SqlText made, rot] =
     (case (from_iso made, rotated_of from_iso rot) of
        (Some t, Some r) \<Rightarrow>
          Some \<lparr>ur_uuid = u, ur_device_id = did, ur_email = email, ur_flow = fl, ur_enabled = (en \<noteq> 0), ur_created_at = t,
            ur_rotated_at = r\<rparr>
      | _ \<Rightarrow> None)"
| "user_of_row from_iso _ = None"

definition sql_get_user ::
  "(string \<Rightarrow> instant option) \<Rightarrow> string \<Rightarrow> sql_store \<Rightarrow> (sql_error + user_record option) \<times> sql_store" where
  "sql_get_user from_iso u = connect (\<lambda>T.
     Inr (case select_where user_fields ''uuid'' (SqlText u) T of [] \<Rightarrow> None | row # _ \<Rightarrow> user_of_row from_iso row, T))"

definition sql_delete_user :: "string \<Rightarrow> sql_store \<Rightarrow> (sql_error + unit) \<times> sql_store" where
  "sql_delete_user u = connect (\<lambda>T. Inr ((), delete_where ''uuid'' (SqlText u) T))"

definition sql_list_enabled_users ::
  "(string \<Rightarrow> instant option) \<Rightarrow> sql_store \<Rightarrow> (sql_error + user_record option list) \<times> sql_store" where
  "sql_list_enabled_users from_iso = connect (\<lambda>T.
     Inr (map (user_of_row from_iso) (select_where user_fields ''enabled'' (SqlInt 1) T), T))"

definition sql_list_users ::
  "(string \<Rightarrow> instant option) \<Rightarrow> sql_store \<Rightarrow> (sql_error + user_record option list) \<times> sql_store" where
  "sql_list_users from_iso = connect (\<lambda>T. Inr (map (user_of_row from_iso) (select_all user_fields T), T))"

section \<open>Tables that hold records\<close>

definition peer_cells :: "(instant \<Rightarrow> string) \<Rightarrow> peer_record \<Rightarrow> sql_value list" where
  "peer_cells to_iso r = [SqlText (pr_public_key r), SqlInt (pr_device_id r), SqlText (pr_assigned_ip r),
     sql_bool (pr_enabled r), SqlText (to_iso (pr_created_at r))]"

definition user_cells :: "(instant \<Rightarrow> string) \<Rightarrow> user_record \<Rightarrow> sql_value list" where
  "user_cells to_iso r = [SqlText (ur_uuid r), SqlInt (ur_device_id r), SqlText (ur_email r), SqlText (ur_flow r),
     sql_bool (ur_enabled r), SqlText (to_iso (ur_created_at r)),
     case ur_rotated_at r of None \<Rightarrow> SqlNull | Some t \<Rightarrow> SqlText (to_iso t)]"

text \<open>The rows of the table are those of the records, in their order.\<close>

definition holds_peers :: "(instant \<Rightarrow> string) \<Rightarrow> sql_store \<Rightarrow> peer_store \<Rightarrow> bool" where
  "holds_peers to_iso st rs \<longleftrightarrow> st = Some \<lparr>tb_columns = peer_columns, tb_rows = map (peer_cells to_iso) rs\<rparr>"

definition holds_users :: "(instant \<Rightarrow> string) \<Rightarrow> sql_store \<Rightarrow> user_store \<Rightarrow> bool" where
  "holds_users to_iso st rs \<longleftrightarrow> st = Some \<lparr>tb_columns = user_columns, tb_rows = map (user_cells to_iso) rs\<rparr>"

text \<open>Dates are read back as they were written.\<close>

definition dates_roundtrip :: "(instant \<Rightarrow> string) \<Rightarrow> (string \<Rightarrow> instant option) \<Rightarrow> bool" where
  "dates_roundtrip to_iso from_iso \<longleftrightarrow> (\<forall>t. from_iso (to_iso t) = Some t \<and> to_iso t \<noteq> '''')"

lemma cell_peer:
  "tb_columns T = peer_columns \<Longrightarrow>
     cell T ''public_key'' (peer_cells to_iso r) = SqlText (pr_public_key r) \<and>
     cell T ''device_id'' (peer_cells to_iso r) = SqlInt (pr_device_id r) \<and>
     cell T ''assigned_ip'' (peer_cells to_iso r) = SqlText (pr_assigned_ip r) \<and>
     cell T ''enabled'' (peer_cells to_iso r) = sql_bool (pr_enabled r) \<and>
     cell T ''created_at'' (peer_cells to_iso r) = SqlText (to_iso (pr_created_at r))"
  by (simp add: cell_def peer_columns_def peer_cells_def)

lemma cell_user:
  "tb_columns T = user_columns \<Longrightarrow>
     cell T ''uuid'' (user_cells to_iso r) = SqlText (ur_uuid r) \<and>
     cell T ''device_id'' (user_cells to_iso r) = SqlInt (ur_device_id r) \<and>
     cell T ''email'' (user_cells to_iso r) = SqlText (ur_email r) \<and>
     cell T ''flow'' (user_cells to_iso r) = SqlText (ur_flow r) \<and>
     cell T ''enabled'' (user_cells to_iso r) = sql_bool (ur_enabled r) \<and>
     cell T ''created_at'' (user_cells to_iso r) = SqlText (to_iso (ur_created_at r)) \<and>
     cell T ''rotated_at'' (user_cells to_iso r) = (case ur_rotated_at r of None \<Rightarrow> SqlNull | Some t \<Rightarrow> SqlText (to_iso t))"
  by (simp add: cell_def user_columns_def user_cells_def)

lemma sql_bool_iff [simp]: "sql_bool b = SqlInt 1 \<longleftrightarrow> b"
  by (simp add: sql_bool_def)

lemma peer_of_cells: "dates_roundtrip to_iso from_iso \<Longrightarrow> peer_of_row from_iso (peer_cells to_iso r) = Some r"
  by (simp add: dates_roundtrip_def peer_cells_def sql_bool_def)

lemma user_of_cells: "dates_roundtrip to_iso from_iso \<Longrightarrow> user_of_row from_iso (user_cells to_iso r) = Some r"
  by (cases "ur_rotated_at r") (simp_all add: dates_roundtrip_def user_cells_def sql_bool_def)

text \<open>A whole row selected is the row.\<close>

lemma select_peer: "tb_columns T = peer_columns \<Longrightarrow> map (\<lambda>c. cell T c (peer_cells to_iso r)) peer_fields = peer_cells to_iso r"
  by (simp add: peer_fields_def cell_peer) (simp add: peer_cells_def)

lemma select_user: "tb_columns T = user_columns \<Longrightarrow> map (\<lambda>c. cell T c (user_cells to_iso r)) user_fields = user_cells to_iso r"
  by (simp add: user_fields_def cell_user) (simp add: user_cells_def)

lemma inserted_peer:
  "map (\<lambda>(c, d). case map_of (zip peer_fields (peer_cells to_iso r)) c of Some v \<Rightarrow> v | None \<Rightarrow> d) peer_columns = peer_cells to_iso r"
  by (simp add: peer_fields_def peer_columns_def peer_cells_def)

lemma inserted_user:
  "map (\<lambda>(c, d). case map_of (zip user_fields (user_cells to_iso r)) c of Some v \<Rightarrow> v | None \<Rightarrow> d) user_columns = user_cells to_iso r"
  by (simp add: user_fields_def user_columns_def user_cells_def)

lemma find_filter_hd: "find P xs = (case filter P xs of [] \<Rightarrow> None | x # _ \<Rightarrow> Some x)"
  by (induction xs) auto

abbreviation peer_table :: "(instant \<Rightarrow> string) \<Rightarrow> peer_store \<Rightarrow> sql_table" where
  "peer_table to_iso rs \<equiv> \<lparr>tb_columns = peer_columns, tb_rows = map (peer_cells to_iso) rs\<rparr>"

abbreviation user_table :: "(instant \<Rightarrow> string) \<Rightarrow> user_store \<Rightarrow> sql_table" where
  "user_table to_iso rs \<equiv> \<lparr>tb_columns = user_columns, tb_rows = map (user_cells to_iso) rs\<rparr>"

lemma upsert_peer_cells:
  "insert_or_update peer_fields (peer_cells to_iso r) ''public_key'' [''device_id'', ''assigned_ip'', ''enabled'']
     (peer_table to_iso rs) = peer_table to_iso (store_upsert r rs)"
proof -
  have merged: "map (\<lambda>(c, _). if c = ''device_id'' \<or> c = ''assigned_ip'' \<or> c = ''enabled'' then cell (peer_table to_iso rs) c (peer_cells to_iso r)
      else cell (peer_table to_iso rs) c (peer_cells to_iso q)) peer_columns = peer_cells to_iso (merge_peer q r)"
    if "pr_public_key q = pr_public_key r" for q
    using that by (simp add: peer_columns_def cell_peer [unfolded peer_columns_def]) (simp add: peer_cells_def merge_peer_def)
  show ?thesis
    by (simp add: insert_or_update_def Let_def inserted_peer cell_peer store_upsert_def list_ex_iff merged)
qed

lemma set_enabled_cells:
  "update_where ''enabled'' (sql_bool en) ''public_key'' (SqlText pk) (peer_table to_iso rs) =
     peer_table to_iso (store_set_enabled pk en rs)"
proof -
  have "map (\<lambda>(c', _). if c' = ''enabled'' then sql_bool en else cell (peer_table to_iso rs) c' (peer_cells to_iso q)) peer_columns =
      peer_cells to_iso (q\<lparr>pr_enabled := en\<rparr>)" for q
    by (simp add: peer_columns_def cell_peer [unfolded peer_columns_def]) (simp add: peer_cells_def)
  then show ?thesis by (simp add: update_where_def cell_peer store_set_enabled_def)
qed

lemma delete_peer_cells:
  "delete_where ''public_key'' (SqlText pk) (peer_table to_iso rs) = peer_table to_iso (store_delete pk rs)"
  by (simp add: delete_where_def store_delete_def cell_peer filter_map o_def)

lemma upsert_user_cells:
  "insert_or_update user_fields (user_cells to_iso r) ''uuid'' [''device_id'', ''email'', ''flow'', ''enabled'']
     (user_table to_iso rs) = user_table to_iso (ustore_put r rs)"
proof -
  have merged: "map (\<lambda>(c, _). if c = ''device_id'' \<or> c = ''email'' \<or> c = ''flow'' \<or> c = ''enabled'' then cell (user_table to_iso rs) c (user_cells to_iso r)
      else cell (user_table to_iso rs) c (user_cells to_iso q)) user_columns = user_cells to_iso (merge_user q r)"
    if "ur_uuid q = ur_uuid r" for q
    using that by (simp add: user_columns_def cell_user [unfolded user_columns_def]) (simp add: user_cells_def merge_user_def)
  show ?thesis
    by (simp add: insert_or_update_def Let_def inserted_user cell_user ustore_put_def list_ex_iff merged)
qed

lemma delete_user_cells:
  "delete_where ''uuid'' (SqlText u) (user_table to_iso rs) = user_table to_iso (ustore_delete u rs)"
  by (simp add: delete_where_def ustore_delete_def cell_user filter_map o_def)

section \<open>Properties\<close>

text \<open>C11: On a table that holds the records of the agent's list, every statement of the peer store does what the
  operation on the list does and the selections return its records; an update keeps the date of creation. A
  device number beyond 64 bits is refused and changes nothing. Reopening a file keeps the records; a store
  in memory starts empty.\<close>

theorem peer_table_refines_store:
  assumes "holds_peers to_iso st rs" and "dates_roundtrip to_iso from_iso"
  shows "(\<exists>st'. sql_upsert_peer to_iso r st = (if fits_integer (pr_device_id r) then (Inr (), st') else (Inl OverflowError, st)) \<and>
      holds_peers to_iso st' (store_upsert r rs)) \<and>
    sql_get_peer from_iso pk st = (Inr (store_get pk rs), st) \<and>
    (\<exists>st'. sql_set_enabled pk en st = (Inr (), st') \<and> holds_peers to_iso st' (store_set_enabled pk en rs)) \<and>
    (\<exists>st'. sql_delete_peer pk st = (Inr (), st') \<and> holds_peers to_iso st' (store_delete pk rs)) \<and>
    sql_list_enabled_peers from_iso st = (Inr (map Some (store_list_enabled rs)), st) \<and>
    holds_peers to_iso (open_peers path st) (if path = '':memory:'' then [] else rs)"
proof -
  let ?T = "\<lparr>tb_columns = peer_columns, tb_rows = map (peer_cells to_iso) rs\<rparr>"
  have st: "st = Some ?T" using assms(1) by (simp add: holds_peers_def)
  have sel: "select_where peer_fields key k ?T = map (peer_cells to_iso) (filter Q rs)"
    if "\<And>r. cell ?T key (peer_cells to_iso r) = k \<longleftrightarrow> Q r" for key k Q
    by (simp add: select_where_def filter_map o_def that select_peer)
  have "sql_get_peer from_iso pk st = (Inr (store_get pk rs), st)"
    using sel [of "''public_key''" "SqlText pk" "\<lambda>r. pr_public_key r = pk"]
    by (simp add: sql_get_peer_def connect_def st cell_peer store_get_def find_filter_hd peer_of_cells [OF assms(2)]
        split: list.split)
  moreover have "sql_list_enabled_peers from_iso st = (Inr (map Some (store_list_enabled rs)), st)"
    using sel [of "''enabled''" "SqlInt 1" pr_enabled]
    by (simp add: sql_list_enabled_peers_def connect_def st cell_peer store_list_enabled_def peer_of_cells [OF assms(2)] o_def)
  ultimately show ?thesis
    using upsert_peer_cells [of to_iso r rs] set_enabled_cells [of en pk to_iso rs] delete_peer_cells [of pk to_iso rs]
    by (auto simp: st holds_peers_def sql_upsert_peer_def sql_set_enabled_def sql_delete_peer_def connect_def
        open_peers_def open_store_def peer_cells_def [symmetric])
qed

text \<open>The same for the store of users, whose statements keep the dates of creation and of rotation.\<close>

theorem user_table_refines_store:
  assumes "holds_users to_iso st rs" and "dates_roundtrip to_iso from_iso"
  shows "(\<exists>st'. sql_upsert_user to_iso r st = (if fits_integer (ur_device_id r) then (Inr (), st') else (Inl OverflowError, st)) \<and>
      holds_users to_iso st' (ustore_put r rs)) \<and>
    sql_get_user from_iso u st = (Inr (ustore_get u rs), st) \<and>
    (\<exists>st'. sql_delete_user u st = (Inr (), st') \<and> holds_users to_iso st' (ustore_delete u rs)) \<and>
    sql_list_enabled_users from_iso st = (Inr (map Some (ustore_list_enabled rs)), st) \<and>
    sql_list_users from_iso st = (Inr (map Some rs), st) \<and>
    holds_users to_iso (open_users path st) (if path = '':memory:'' then [] else rs)"
proof -
  let ?T = "user_table to_iso rs"
  have st: "st = Some ?T" using assms(1) by (simp add: holds_users_def)
  have sel: "select_where user_fields key k ?T = map (user_cells to_iso) (filter Q rs)"
    if "\<And>r. cell ?T key (user_cells to_iso r) = k \<longleftrightarrow> Q r" for key k Q
    by (simp add: select_where_def filter_map o_def that select_user)
  have "sql_get_user from_iso u st = (Inr (ustore_get u rs), st)"
    using sel [of "''uuid''" "SqlText u" "\<lambda>r. ur_uuid r = u"]
    by (simp add: sql_get_user_def connect_def st cell_user ustore_get_def find_filter_hd user_of_cells [OF assms(2)]
        split: list.split)
  moreover have "sql_list_enabled_users from_iso st = (Inr (map Some (ustore_list_enabled rs)), st)"
    using sel [of "''enabled''" "SqlInt 1" ur_enabled]
    by (simp add: sql_list_enabled_users_def connect_def st cell_user ustore_list_enabled_def user_of_cells [OF assms(2)] o_def)
  moreover have "sql_list_users from_iso st = (Inr (map Some rs), st)"
    by (simp add: sql_list_users_def connect_def st select_all_def o_def select_user user_of_cells [OF assms(2)])
  ultimately show ?thesis
    using upsert_user_cells [of to_iso r rs] delete_user_cells [of u to_iso rs]
    by (auto simp: st holds_users_def sql_upsert_user_def sql_delete_user_def connect_def
        open_users_def open_store_def user_cells_def [symmetric])
qed

section \<open>Instances\<close>

definition demo_iso :: "instant \<Rightarrow> string" where
  "demo_iso = int_str"

lemma demo_dates: "dates_roundtrip demo_iso parse_int"
  by (simp add: dates_roundtrip_def demo_iso_def int_str_not_empty)

definition demo_peer_record :: peer_record where
  "demo_peer_record = \<lparr>pr_public_key = ''k'', pr_device_id = 1, pr_assigned_ip = ''10.0.0.2'', pr_enabled = True, pr_created_at = 5\<rparr>"

lemma peer_table_refines_store_witness:
  "sql_get_peer parse_int ''k'' (Some (peer_table demo_iso [demo_peer_record])) =
     (Inr (Some demo_peer_record), Some (peer_table demo_iso [demo_peer_record]))"
  using peer_table_refines_store [of demo_iso "Some (peer_table demo_iso [demo_peer_record])" "[demo_peer_record]" parse_int
      demo_peer_record "''k''" True "''p''"] demo_dates
  by (simp add: holds_peers_def store_get_def demo_peer_record_def)

lemma user_table_refines_store_witness:
  "sql_list_users parse_int (Some (user_table demo_iso [demo_user_record ''u'' 1])) =
     (Inr [Some (demo_user_record ''u'' 1)], Some (user_table demo_iso [demo_user_record ''u'' 1]))"
  using user_table_refines_store [of demo_iso "Some (user_table demo_iso [demo_user_record ''u'' 1])"
      "[demo_user_record ''u'' 1]" parse_int "demo_user_record ''u'' 1" "''u''" "''p''"] demo_dates
  by (simp add: holds_users_def)

end
